(* ===== verification/Prelude.thy ===== *)
theory Prelude
  imports Main "HOL-Library.Word"
begin

text \<open>
  Shared vocabulary of the development: the C integer types of \<^verbatim>\<open>src/src/types.h\<close>
  as machine words, the bit tests and casts the code writes all over the place, and the
  generic lemmas on words, arrays and ring indices that the component theories share.
\<close>

unbundle bit_operations_syntax

type_synonym u8 = "8 word"
type_synonym u16 = "16 word"
type_synonym u32 = "32 word"
type_synonym u64 = "64 word"
type_synonym s32 = "32 word"
type_synonym s64 = "64 word"

text \<open>
  Facts that evaluate the bit operations of the code, and facts about ring indices.
\<close>

named_theorems bits
named_theorems ring

section \<open>C idioms\<close>

text \<open>\<open>tst x m\<close> is the C condition \<^verbatim>\<open>x & m\<close> (true when nonzero).\<close>

abbreviation tst :: "'a::len word \<Rightarrow> 'a word \<Rightarrow> bool" where
  "tst x m \<equiv> x AND m \<noteq> 0"

text \<open>\<open>shl x n\<close> and \<open>shr x n\<close> are \<^verbatim>\<open>x << n\<close> and \<^verbatim>\<open>x >> n\<close> on an unsigned type.\<close>

abbreviation shl :: "'a::len word \<Rightarrow> nat \<Rightarrow> 'a word" where
  "shl x n \<equiv> push_bit n x"

abbreviation shr :: "'a::len word \<Rightarrow> nat \<Rightarrow> 'a word" where
  "shr x n \<equiv> drop_bit n x"

text \<open>\<open>asr x n\<close> is \<^verbatim>\<open>((s32)x) >> n\<close>, the arithmetic shift.\<close>

abbreviation asr :: "'a::len word \<Rightarrow> nat \<Rightarrow> 'a word" where
  "asr x n \<equiv> signed_drop_bit n x"

text \<open>The value of a C comparison stored in an integer.\<close>

definition of_cond :: "bool \<Rightarrow> 'a::len word" where
  "of_cond c = (if c then 1 else 0)"

lemma of_cond_simps [simp]:
  "of_cond True = 1" "of_cond False = 0"
  by (simp_all add: of_cond_def)

lemma of_cond_eq_0 [simp]: "(of_cond c :: 'a::len word) = 0 \<longleftrightarrow> \<not> c"
  by (simp add: of_cond_def)

lemma of_cond_eq_1 [simp]: "(of_cond c :: 'a::len word) = 1 \<longleftrightarrow> c"
  by (simp add: of_cond_def)

lemma of_cond_or: "of_cond a OR of_cond b = of_cond (a \<or> b)"
  by (simp add: of_cond_def)

lemma if_both: "P a \<Longrightarrow> P b \<Longrightarrow> P (if c then a else b)"
  by simp

text \<open>C's signed division and remainder truncate towards zero.\<close>

definition c_div :: "int \<Rightarrow> int \<Rightarrow> int" where
  "c_div a b = sgn a * sgn b * (\<bar>a\<bar> div \<bar>b\<bar>)"

definition c_mod :: "int \<Rightarrow> int \<Rightarrow> int" where
  "c_mod a b = a - b * c_div a b"

lemma c_div_mod: "b * c_div a b + c_mod a b = a"
  by (simp add: c_mod_def)

lemma c_mod_abs:
  assumes "b \<noteq> 0"
  shows "c_mod a b = sgn a * (\<bar>a\<bar> mod \<bar>b\<bar>)"
proof -
  have "b * c_div a b = sgn a * (b * sgn b * (\<bar>a\<bar> div \<bar>b\<bar>))"
    by (simp only: c_div_def mult.assoc mult.left_commute)
  also have "b * sgn b = \<bar>b\<bar>"
    by (simp add: abs_sgn)
  finally have "c_mod a b = sgn a * \<bar>a\<bar> - sgn a * (\<bar>b\<bar> * (\<bar>a\<bar> div \<bar>b\<bar>))"
    by (simp add: c_mod_def sgn_mult_abs)
  then show ?thesis
    by (simp only: minus_mult_div_eq_mod right_diff_distrib [symmetric])
qed

lemma c_div_abs: "\<bar>c_div a b\<bar> \<le> \<bar>a\<bar> div \<bar>b\<bar>"
proof -
  have "0 \<le> \<bar>a\<bar> div \<bar>b\<bar>" by (cases "b = 0") (simp_all add: pos_imp_zdiv_nonneg_iff)
  then show ?thesis by (simp add: c_div_def abs_mult sgn_if)
qed

lemma c_mod_abs_le: "b \<noteq> 0 \<Longrightarrow> \<bar>c_mod a b\<bar> \<le> \<bar>a\<bar>"
proof -
  assume b: "b \<noteq> 0"
  then have "0 \<le> \<bar>a\<bar> mod \<bar>b\<bar>" "\<bar>a\<bar> mod \<bar>b\<bar> \<le> \<bar>a\<bar>"
    by (simp_all add: zmod_le_nonneg_dividend)
  moreover have "\<bar>sgn a * x\<bar> \<le> x" if "0 \<le> x" for x using that by (simp add: sgn_if abs_mult)
  ultimately show ?thesis unfolding c_mod_abs [OF b] by (meson order.trans)
qed

lemma c_mod_bound: "b \<noteq> 0 \<Longrightarrow> \<bar>c_mod a b\<bar> < \<bar>b\<bar>"
  by (simp add: c_mod_abs abs_mult sgn_if)

section \<open>Words\<close>

lemma word_eq_unat: "x = y \<longleftrightarrow> unat x = unat y" for x y :: "'a::len word"
  by (metis word_unat_eq_iff)

lemma unat_lt_iff: "x < y \<longleftrightarrow> unat x < unat y" for x y :: "'a::len word"
  by (rule word_less_nat_alt)

lemma unat_le_iff: "x \<le> y \<longleftrightarrow> unat x \<le> unat y" for x y :: "'a::len word"
  by (rule word_le_nat_alt)

lemma unat_bound: "unat (x :: 'a::len word) < 2 ^ LENGTH('a)"
  by (rule unsigned_less)

lemma unat_add_small:
  "unat x + unat y < 2 ^ LENGTH('a) \<Longrightarrow> unat (x + y) = unat x + unat y" for x y :: "'a::len word"
  by (simp add: unat_word_ariths)

lemma unat_Suc_small:
  "unat x < unat y \<Longrightarrow> unat (x + 1) = Suc (unat x)" for x y :: "'a::len word"
proof -
  assume "unat x < unat y"
  moreover have "unat y < 2 ^ LENGTH('a)" by (rule unat_bound)
  ultimately have "Suc (unat x) < 2 ^ LENGTH('a)" by linarith
  then show ?thesis by (simp add: unat_word_ariths)
qed

lemma unat_pred: "0 < unat x \<Longrightarrow> unat (x - 1) = unat x - 1" for x :: "'a::len word"
  by (metis One_nat_def Suc_pred unat_minus_one unat_eq_0 less_numeral_extra(3))

lemma unat_sub_le: "y \<le> x \<Longrightarrow> unat (x - y) = unat x - unat y" for x y :: "'a::len word"
  by (rule unat_sub)

lemma unat_shr: "unat (shr x n) = unat x div 2 ^ n" for x :: "'a::len word"
proof -
  have "unat (shr x n) = drop_bit n (take_bit LENGTH('a) (unat x))" by (rule unsigned_drop_bit_eq)
  then show ?thesis by (simp only: take_bit_nat_eq_self [OF unat_bound] drop_bit_nat_def)
qed

lemma unat_shl: "unat x * 2 ^ n < 2 ^ LENGTH('a) \<Longrightarrow> unat (shl x n) = unat x * 2 ^ n" for x :: "'a::len word"
proof -
  assume lt: "unat x * 2 ^ n < 2 ^ LENGTH('a)"
  have "unat (shl x n) = take_bit LENGTH('a) (push_bit n (unat x))" by (rule unsigned_push_bit_eq)
  then show ?thesis by (simp only: push_bit_nat_def take_bit_nat_eq_self [OF lt])
qed

lemma unat_ucast_up:
  "LENGTH('b::len) \<le> LENGTH('a::len) \<Longrightarrow> unat (ucast (x :: 'b word) :: 'a word) = unat x"
  using unat_bound [of x]
  by (simp only: unsigned_ucast_eq) (meson less_le_trans one_le_numeral power_increasing take_bit_nat_eq_self)

lemma shr_eq_0_iff: "shr x n = 0 \<longleftrightarrow> unat x < 2 ^ n" for x :: "'a::len word"
  by (simp only: word_eq_unat unat_shr unsigned_0 div_eq_0_iff) simp

text \<open>Single bits: \<^verbatim>\<open>x & (1 << i)\<close>, \<^verbatim>\<open>x |= 1 << i\<close>, \<^verbatim>\<open>x &= ~(1 << i)\<close>.\<close>

lemma tst_shl1 [bits]: "tst (x :: 'a::len word) (shl 1 i) \<longleftrightarrow> bit x i"
  by (simp only: bit_iff_and_push_bit_not_eq_0)

lemma tst_pow2 [bits]: "tst (x :: 'a::len word) (2 ^ i) \<longleftrightarrow> bit x i"
  by (simp add: bit_iff_and_push_bit_not_eq_0)

lemma tst_1: "tst (x :: 'a::len word) 1 \<longleftrightarrow> bit x 0"
  using tst_shl1 [of x 0] by simp

lemma bit_shr1: "bit (shr (x :: 'a::len word) 1) i \<longleftrightarrow> bit x (Suc i)"
  by (simp add: bit_drop_bit_eq)

lemma bit_pow2: "bit (2 ^ n :: 'a::len word) i \<longleftrightarrow> i = n \<and> n < LENGTH('a)"
  using bit_push_bit_iff [of n "1 :: 'a word" i] bit_1_iff [of "i - n", where 'a = "'a word"]
  by (auto simp: bit_imp_le_length)

lemma bit_or_pow2 [bits]:
  "bit ((x :: 'a::len word) OR 2 ^ n) i \<longleftrightarrow> bit x i \<or> (i = n \<and> n < LENGTH('a))"
  by (simp only: bit_or_iff bit_pow2)

lemma bit_and_not_pow2 [bits]:
  "bit ((x :: 'a::len word) AND NOT (2 ^ n)) i \<longleftrightarrow> bit x i \<and> i \<noteq> n"
  using bit_imp_le_length [of x i]
  by (auto simp only: bit_and_iff bit_not_iff bit_pow2 possible_bit_word)

lemma and_pow2: "(x :: 'a::len word) AND 2 ^ n = (if bit x n then 2 ^ n else 0)"
  by (rule bit_word_eqI) (auto simp: bit_and_iff bit_pow2)

text \<open>Masks are collected.\<close>

lemma and_and_numeral [bits]:
  "(x AND numeral a) AND numeral b = x AND (numeral a AND numeral b)"
  "(x AND - numeral a) AND numeral b = x AND (- numeral a AND numeral b)"
  "(x AND numeral a) AND - numeral b = x AND (numeral a AND - numeral b)"
  "(x AND - numeral a) AND - numeral b = x AND (- numeral a AND - numeral b)"
  "(x AND numeral a) AND 1 = x AND (numeral a AND 1)"
  "(x AND - numeral a) AND 1 = x AND (- numeral a AND 1)"
  for x :: "'a::len word"
  by (simp_all only: and.assoc)

lemma not_bit_small: "unat (x :: 'a::len word) < 2 ^ n \<Longrightarrow> n \<le> i \<Longrightarrow> \<not> bit x i"
proof -
  assume x: "unat x < 2 ^ n" and "n \<le> i"
  then have "unat x < 2 ^ i"
    by (meson less_le_trans one_le_numeral power_increasing)
  then have "take_bit i (unat x) = unat x" by (rule take_bit_nat_eq_self)
  then have "\<not> bit (unat x) i" by (metis bit_take_bit_iff less_irrefl)
  then show ?thesis by (simp add: bit_unsigned_iff)
qed

text \<open>Signed operations on values whose sign bit is clear.\<close>

lemma asr_eq_shr: "\<not> bit w (LENGTH('a) - 1) \<Longrightarrow> asr w n = shr w n" for w :: "'a::len word"
  by (rule bit_word_eqI)
    (auto simp: bit_signed_drop_bit_iff bit_drop_bit_eq dest: bit_imp_le_length)

lemma unat_scast_nonneg:
  "\<not> bit x (LENGTH('a) - 1) \<Longrightarrow> LENGTH('a) \<le> LENGTH('b::len) \<Longrightarrow> unat (scast (x :: 'a::len word) :: 'b word) = unat x"
proof -
  assume x: "\<not> bit x (LENGTH('a) - 1)" and len: "LENGTH('a) \<le> LENGTH('b)"
  have top: "\<not> bit x n" if "LENGTH('a) - 1 \<le> n" for n
  proof
    assume b: "bit x n"
    then have "n < LENGTH('a)" by (rule bit_imp_le_length)
    with that have "n = LENGTH('a) - 1" by linarith
    with b x show False by simp
  qed
  have "scast x = (ucast x :: 'b word)"
    using x top by (intro bit_word_eqI) (auto simp: bit_signed_iff bit_unsigned_iff min_def not_less dest: bit_imp_le_length)
  with len show ?thesis by (simp add: unat_ucast_up)
qed

text \<open>A finite word type is checked value by value.\<close>

lemma all_u8_iff: "(\<forall>x::u8. P x) \<longleftrightarrow> list_all P (map word_of_nat [0..<256])"
proof
  assume *: "list_all P (map word_of_nat [0..<256])"
  show "\<forall>x. P x"
  proof
    fix x :: u8
    have "unat x \<in> set [0..<256]" using unat_bound [of x] by simp
    with * have "P (word_of_nat (unat x))"
      unfolding list_all_iff set_map by blast
    then show "P x" by simp
  qed
qed (simp add: list_all_iff)

lemma all_less_iff: "(\<forall>n < k. P n) \<longleftrightarrow> list_all P [0..<k]" for k :: nat
  by (auto simp: list_all_iff)

text \<open>High masks, and the concatenation of a shifted word with low bits.\<close>

lemma and_high_eq_0: "x AND NOT (mask k) = 0 \<longleftrightarrow> unat x < 2 ^ k" for x :: "'a::len word"
proof -
  have "x AND NOT (mask k) = 0 \<longleftrightarrow> shr x k = 0"
  proof
    assume z: "x AND NOT (mask k) = 0"
    show "shr x k = 0"
    proof (rule bit_word_eqI)
      fix n assume "n < LENGTH('a)"
      have "\<not> bit (x AND NOT (mask k)) (k + n)" using z by simp
      then show "bit (shr x k) n = bit 0 n"
        by (auto simp: bit_and_iff bit_not_iff bit_mask_iff possible_bit_word bit_drop_bit_eq dest: bit_imp_le_length)
    qed
  next
    assume z: "shr x k = 0"
    show "x AND NOT (mask k) = 0"
    proof (rule bit_word_eqI)
      fix n assume "n < LENGTH('a)"
      have "\<not> bit (shr x k) (n - k)" using z by simp
      then show "bit (x AND NOT (mask k)) n = bit 0 n"
        by (cases "n < k") (auto simp: bit_and_iff bit_not_iff bit_mask_iff bit_drop_bit_eq possible_bit_word)
    qed
  qed
  then show ?thesis by (simp only: shr_eq_0_iff)
qed

lemma and_FF000000: "x AND 0xFF000000 = 0 \<longleftrightarrow> unat x < 2 ^ 24" for x :: u32
proof -
  have "(0xFF000000 :: u32) = NOT (mask 24)" by (simp add: mask_eq_exp_minus_1)
  then show ?thesis by (simp only: and_high_eq_0)
qed

lemma and_80000000: "x AND 0x80000000 = 0 \<longleftrightarrow> unat x < 2 ^ 31" for x :: u32
proof -
  have "(0x80000000 :: u32) = NOT (mask 31)" by (simp add: mask_eq_exp_minus_1)
  then show ?thesis by (simp only: and_high_eq_0)
qed

lemma unat_shl_or:
  fixes v w :: "'a::len word"
  assumes "unat v * 2 ^ k + unat w < 2 ^ LENGTH('a)" "unat w < 2 ^ k"
  shows "unat (shl v k OR w) = unat v * 2 ^ k + unat w"
proof -
  have "\<not> bit (shl v k) n \<or> \<not> bit w n" for n
    using not_bit_small [OF assms(2), of n] by (auto simp: bit_push_bit_iff)
  then have "shl v k OR w = shl v k + w" by (simp add: disjunctive_add_eq_or bit_eq_iff bit_and_iff)
  moreover have "unat (shl v k) = unat v * 2 ^ k" by (rule unat_shl) (use assms(1) in simp)
  ultimately show ?thesis using assms(1) by (simp add: unat_add_small)
qed

section \<open>Ring indices\<close>

text \<open>The code's \<^verbatim>\<open>pos++; if (pos >= N) pos = 0;\<close>\<close>

definition ring_inc :: "u32 \<Rightarrow> u32 \<Rightarrow> u32" where
  "ring_inc n p = (let p = p + 1 in if p \<ge> n then 0 else p)"

lemma unat_ring_inc [ring]:
  assumes "unat p < unat n"
  shows "unat (ring_inc n p) = Suc (unat p) mod unat n"
proof (cases "Suc (unat p) = unat n")
  case True
  with unat_Suc_small [OF assms] show ?thesis
    by (simp add: ring_inc_def Let_def unat_le_iff)
next
  case False
  with assms unat_Suc_small [OF assms] show ?thesis
    by (simp add: ring_inc_def Let_def unat_le_iff)
qed

lemma ring_inc_lt [ring]: "unat p < unat n \<Longrightarrow> unat (ring_inc n p) < unat n"
  by (simp add: unat_ring_inc)

text \<open>
  The contents of a ring buffer: \<open>k\<close> consecutive cells of \<open>xs\<close> from position \<open>r\<close>, wrapping
  around at the end of the list.
\<close>

definition ring_slice :: "'a list \<Rightarrow> nat \<Rightarrow> nat \<Rightarrow> 'a list" where
  "ring_slice xs r k = map (\<lambda>i. xs ! ((r + i) mod length xs)) [0..<k]"

lemma length_ring_slice [simp]: "length (ring_slice xs r k) = k"
  by (simp add: ring_slice_def)

lemma ring_slice_0 [simp]: "ring_slice xs r 0 = []"
  by (simp add: ring_slice_def)

lemma nth_ring_slice: "i < k \<Longrightarrow> ring_slice xs r k ! i = xs ! ((r + i) mod length xs)"
  by (simp add: ring_slice_def)

lemma ring_slice_Suc:
  "ring_slice xs r (Suc k) = ring_slice xs r k @ [xs ! ((r + k) mod length xs)]"
  by (simp add: ring_slice_def)

lemma ring_slice_eq_Nil [simp]: "ring_slice xs r k = [] \<longleftrightarrow> k = 0"
  by (simp add: ring_slice_def)

lemma ring_slice_Cons:
  assumes "0 < k" "r < length xs"
  shows "ring_slice xs r k = xs ! r # ring_slice xs (Suc r mod length xs) (k - 1)"
proof (rule nth_equalityI)
  fix i assume i: "i < length (ring_slice xs r k)"
  show "ring_slice xs r k ! i = (xs ! r # ring_slice xs (Suc r mod length xs) (k - 1)) ! i"
  proof (cases i)
    case 0
    with i assms show ?thesis by (simp add: nth_ring_slice)
  next
    case (Suc j)
    with i show ?thesis
      by (simp add: nth_ring_slice mod_simps ac_simps)
  qed
qed (use assms in simp)

text \<open>Writing outside the occupied cells leaves the contents alone.\<close>

lemma ring_index_inj:
  assumes "i < n" "j < n" "(r + i) mod n = (r + j) mod n"
  shows "i = (j::nat)"
proof -
  have "int i mod int n = int j mod int n"
  proof -
    have "int ((r + i) mod n) = int ((r + j) mod n)" using assms(3) by simp
    then have "(int r + int i) mod int n = (int r + int j) mod int n"
      by (simp add: zmod_int)
    then have "((int r + int i) - int r) mod int n = ((int r + int j) - int r) mod int n"
      by (metis mod_diff_left_eq)
    then show ?thesis by simp
  qed
  with assms(1,2) show ?thesis by simp
qed

lemma ring_slice_update:
  assumes "k < length xs"
  shows "ring_slice (xs[(r + k) mod length xs := x]) r k = ring_slice xs r k"
proof (rule nth_equalityI)
  fix i assume "i < length (ring_slice (xs[(r + k) mod length xs := x]) r k)"
  then have i: "i < k" by simp
  then have "(r + i) mod length xs \<noteq> (r + k) mod length xs"
    using ring_index_inj [of i "length xs" k r] assms by auto
  with i show "ring_slice (xs[(r + k) mod length xs := x]) r k ! i = ring_slice xs r k ! i"
    by (simp add: nth_ring_slice)
qed simp

end
