(* ===== verification/Fifo.thy ===== *)
theory Fifo
  imports Prelude
begin

text \<open>
  \<^verbatim>\<open>src/src/FIFO.h\<close>: the ring-buffer queues of the emulator. \<open>FIFO\<close> is the fixed-size
  template (the IPC queues between the two CPUs are \<^verbatim>\<open>FIFO<u32, 16>\<close>), \<open>DynamicFIFO\<close> the one
  whose capacity is a field, \<open>RingBuffer\<close> the byte queue with bulk transfers.
  The locale \<open>bounded_queue\<close> is the contract a client of a queue relies on; both FIFO
  classes are interpretations of it, and every run of reads and writes on them agrees
  with the list queue of \<open>spec_run\<close>.
\<close>

section \<open>The state and the operations of \<^verbatim>\<open>FIFO<T, NumEntries>\<close>\<close>

record 'a fifo =
  Entries :: "'a list"
  NumOccupied :: u32
  ReadPos :: u32
  WritePos :: u32

definition FIFO_new :: "u32 \<Rightarrow> 'a::zero fifo" where
  "FIFO_new N = \<lparr>Entries = replicate (unat N) 0, NumOccupied = 0, ReadPos = 0, WritePos = 0\<rparr>"

definition FIFO_Clear :: "('a::zero, 'z) fifo_scheme \<Rightarrow> ('a, 'z) fifo_scheme" where
  "FIFO_Clear f = f\<lparr>NumOccupied := 0, ReadPos := 0, WritePos := 0, Entries := (Entries f)[0 := 0]\<rparr>"

definition FIFO_Level :: "('a, 'z) fifo_scheme \<Rightarrow> u32" where
  "FIFO_Level f = NumOccupied f"

definition FIFO_IsEmpty :: "('a, 'z) fifo_scheme \<Rightarrow> bool" where
  "FIFO_IsEmpty f \<longleftrightarrow> NumOccupied f = 0"

definition FIFO_IsFull :: "u32 \<Rightarrow> ('a, 'z) fifo_scheme \<Rightarrow> bool" where
  "FIFO_IsFull N f \<longleftrightarrow> NumOccupied f \<ge> N"

definition FIFO_CanFit :: "u32 \<Rightarrow> u32 \<Rightarrow> ('a, 'z) fifo_scheme \<Rightarrow> bool" where
  "FIFO_CanFit N num f \<longleftrightarrow> NumOccupied f + num \<le> N"

definition FIFO_Write :: "u32 \<Rightarrow> 'a \<Rightarrow> ('a, 'z) fifo_scheme \<Rightarrow> ('a, 'z) fifo_scheme" where
  "FIFO_Write N val f =
     (if FIFO_IsFull N f then f
      else f\<lparr>Entries := (Entries f)[unat (WritePos f) := val],
             WritePos := ring_inc N (WritePos f),
             NumOccupied := NumOccupied f + 1\<rparr>)"

definition FIFO_Read :: "u32 \<Rightarrow> ('a, 'z) fifo_scheme \<Rightarrow> 'a \<times> ('a, 'z) fifo_scheme" where
  "FIFO_Read N f =
     (if FIFO_IsEmpty f
      then (Entries f ! unat ((if ReadPos f = 0 then N else ReadPos f) - 1), f)
      else (Entries f ! unat (ReadPos f),
            f\<lparr>ReadPos := ring_inc N (ReadPos f), NumOccupied := NumOccupied f - 1\<rparr>))"

definition FIFO_Peek :: "('a, 'z) fifo_scheme \<Rightarrow> 'a" where
  "FIFO_Peek f = Entries f ! unat (ReadPos f)"

text \<open>
  \<^verbatim>\<open>Peek(offset)\<close> indexes the array without a bounds check: \<open>None\<close> is an access outside it.
\<close>

definition FIFO_PeekAt :: "u32 \<Rightarrow> u32 \<Rightarrow> ('a, 'z) fifo_scheme \<Rightarrow> 'a option" where
  "FIFO_PeekAt N offset f =
     (let pos = ReadPos f + offset;
          pos = (if pos \<ge> N then pos - N else pos)
      in if unat pos < length (Entries f) then Some (Entries f ! unat pos) else None)"

section \<open>\<^verbatim>\<open>DynamicFIFO<T>\<close>\<close>

text \<open>The same ring with its capacity in the object; reading an empty one returns the cell at
  \<^verbatim>\<open>ReadPos\<close> instead of the last cell read.\<close>

record 'a dynamic_fifo = "'a fifo" +
  NumEntries :: u32

definition DynamicFIFO_new :: "'a list \<Rightarrow> u32 \<Rightarrow> 'a::zero dynamic_fifo" where
  \<comment> \<open>\<^verbatim>\<open>new T[num]\<close> leaves the cells uninitialised: \<open>raw\<close> is what they hold.\<close>
  "DynamicFIFO_new raw num =
     FIFO_Clear \<lparr>Entries = raw, NumOccupied = 0, ReadPos = 0, WritePos = 0, NumEntries = num\<rparr>"

definition DynamicFIFO_Write :: "'a \<Rightarrow> ('a, 'z) dynamic_fifo_scheme \<Rightarrow> ('a, 'z) dynamic_fifo_scheme" where
  "DynamicFIFO_Write val f =
     (if NumOccupied f \<ge> NumEntries f then f
      else f\<lparr>Entries := (Entries f)[unat (WritePos f) := val],
             WritePos := ring_inc (NumEntries f) (WritePos f),
             NumOccupied := NumOccupied f + 1\<rparr>)"

definition DynamicFIFO_Read :: "('a, 'z) dynamic_fifo_scheme \<Rightarrow> 'a \<times> ('a, 'z) dynamic_fifo_scheme" where
  "DynamicFIFO_Read f =
     (let ret = Entries f ! unat (ReadPos f) in
      if NumOccupied f = 0 then (ret, f)
      else (ret, f\<lparr>ReadPos := ring_inc (NumEntries f) (ReadPos f), NumOccupied := NumOccupied f - 1\<rparr>))"

section \<open>The contract of a queue\<close>

text \<open>The operations a client performs, and what they mean on a plain list.\<close>

datatype 'a qop = Enq 'a | Deq

fun spec_run :: "nat \<Rightarrow> 'a qop list \<Rightarrow> 'a list \<Rightarrow> 'a option list \<times> 'a list" where
  "spec_run cap [] q = ([], q)"
| "spec_run cap (Enq x # ops) q = spec_run cap ops (if length q < cap then q @ [x] else q)"
| "spec_run cap (Deq # ops) q =
     (case q of [] \<Rightarrow> let (out, q') = spec_run cap ops [] in (None # out, q')
      | x # xs \<Rightarrow> let (out, q') = spec_run cap ops xs in (Some x # out, q'))"

text \<open>The same operations through the methods of a queue class. A client looks at
  \<^verbatim>\<open>IsEmpty\<close> before it uses what \<^verbatim>\<open>Read\<close> returned.\<close>

fun queue_run ::
  "('a \<Rightarrow> 'q \<Rightarrow> 'q) \<Rightarrow> ('q \<Rightarrow> 'a \<times> 'q) \<Rightarrow> ('q \<Rightarrow> bool) \<Rightarrow> 'a qop list \<Rightarrow> 'q \<Rightarrow> 'a option list \<times> 'q"
where
  "queue_run wr rd em [] q = ([], q)"
| "queue_run wr rd em (Enq x # ops) q = queue_run wr rd em ops (wr x q)"
| "queue_run wr rd em (Deq # ops) q =
     (let (x, q1) = rd q; (out, q2) = queue_run wr rd em ops q1
      in ((if em q then None else Some x) # out, q2))"

locale bounded_queue =
  fixes wr :: "'a \<Rightarrow> 'q \<Rightarrow> 'q"
    and rd :: "'q \<Rightarrow> 'a \<times> 'q"
    and em :: "'q \<Rightarrow> bool"
    and full :: "'q \<Rightarrow> bool"
    and clr :: "'q \<Rightarrow> 'q"
    and contents :: "'q \<Rightarrow> 'a list"
    and invar :: "'q \<Rightarrow> bool"
    and cap :: nat
  assumes invar_wr: "invar q \<Longrightarrow> invar (wr x q)"
    and invar_rd: "invar q \<Longrightarrow> invar (snd (rd q))"
    and invar_clr: "invar q \<Longrightarrow> invar (clr q)"
    and len_le: "invar q \<Longrightarrow> length (contents q) \<le> cap"
    and em_iff: "invar q \<Longrightarrow> em q \<longleftrightarrow> contents q = []"
    and full_iff: "invar q \<Longrightarrow> full q \<longleftrightarrow> length (contents q) = cap"
    and contents_wr: "invar q \<Longrightarrow> length (contents q) < cap \<Longrightarrow> contents (wr x q) = contents q @ [x]"
    and wr_full: "invar q \<Longrightarrow> length (contents q) = cap \<Longrightarrow> wr x q = q"
    and rd_first: "invar q \<Longrightarrow> contents q = y # ys \<Longrightarrow> fst (rd q) = y"
    and contents_rd: "invar q \<Longrightarrow> contents (snd (rd q)) = tl (contents q)"
    and contents_clr: "invar q \<Longrightarrow> contents (clr q) = []"
begin

text \<open>Every run of the class agrees with the list queue, and its invariant survives.\<close>

lemma run_refines:
  "invar q \<Longrightarrow>
     fst (queue_run wr rd em ops q) = fst (spec_run cap ops (contents q)) \<and>
     contents (snd (queue_run wr rd em ops q)) = snd (spec_run cap ops (contents q)) \<and>
     invar (snd (queue_run wr rd em ops q))"
proof (induction ops arbitrary: q)
  case Nil
  then show ?case by simp
next
  case (Cons op ops)
  show ?case
  proof (cases op)
    case (Enq x)
    have "contents (wr x q) = (if length (contents q) < cap then contents q @ [x] else contents q)"
      using contents_wr [OF Cons.prems] wr_full [OF Cons.prems] len_le [OF Cons.prems]
      by (simp add: nat_less_le)
    with Cons.IH [OF invar_wr [OF Cons.prems, of x]] Enq show ?thesis by simp
  next
    case Deq
    note ih = Cons.IH [OF invar_rd [OF Cons.prems]] contents_rd [OF Cons.prems]
    show ?thesis
    proof (cases "contents q")
      case Nil
      with ih Deq em_iff [OF Cons.prems] show ?thesis
        by (simp add: split_beta)
    next
      case (Cons y ys)
      with ih Deq em_iff [OF Cons.prems] rd_first [OF Cons.prems Cons] show ?thesis
        by (simp add: split_beta)
    qed
  qed
qed

lemma run_invar: "invar q \<Longrightarrow> invar (snd (queue_run wr rd em ops q))"
  by (simp add: run_refines)

lemma spec_enqs:
  "length q + length xs \<le> n \<Longrightarrow> spec_run n (map Enq xs @ ops) q = spec_run n ops (q @ xs)"
  by (induction xs arbitrary: q) auto

lemma spec_deqs:
  "length xs = k \<Longrightarrow> spec_run n (replicate k Deq) xs = (map Some xs, [])"
  by (induction k arbitrary: xs) (auto simp: Let_def length_Suc_conv)

text \<open>What fits in the queue comes out in the order it went in.\<close>

lemma write_then_read:
  assumes "invar q" "contents q = []" "length xs \<le> cap"
  shows "fst (queue_run wr rd em (map Enq xs @ replicate (length xs) Deq) q) = map Some xs"
  using run_refines [OF assms(1)] assms(2,3) by (simp add: spec_enqs spec_deqs)

end

section \<open>The FIFO classes satisfy the contract\<close>

definition FIFO_inv :: "u32 \<Rightarrow> ('a, 'z) fifo_scheme \<Rightarrow> bool" where
  "FIFO_inv N f \<longleftrightarrow>
     0 < unat N \<and> length (Entries f) = unat N \<and> unat (NumOccupied f) \<le> unat N \<and>
     unat (ReadPos f) < unat N \<and>
     unat (WritePos f) = (unat (ReadPos f) + unat (NumOccupied f)) mod unat N"

definition FIFO_list :: "('a, 'z) fifo_scheme \<Rightarrow> 'a list" where
  "FIFO_list f = ring_slice (Entries f) (unat (ReadPos f)) (unat (NumOccupied f))"

lemma length_FIFO_list [simp]: "length (FIFO_list f) = unat (NumOccupied f)"
  by (simp add: FIFO_list_def)

lemma FIFO_list_Nil: "FIFO_list f = [] \<longleftrightarrow> NumOccupied f = 0"
  by (simp add: FIFO_list_def unat_eq_zero)

lemma FIFO_new_inv: "0 < N \<Longrightarrow> FIFO_inv N (FIFO_new N) \<and> FIFO_list (FIFO_new N) = []"
  by (simp add: FIFO_inv_def FIFO_new_def FIFO_list_Nil unat_lt_iff)

lemma FIFO_inv_WritePos: "FIFO_inv N f \<Longrightarrow> unat (WritePos f) < unat N"
  by (simp add: FIFO_inv_def)

lemma unat_NumOccupied_inc:
  "FIFO_inv N f \<Longrightarrow> unat (NumOccupied f) < unat N \<Longrightarrow> unat (NumOccupied f + 1) = Suc (unat (NumOccupied f))"
  by (rule unat_Suc_small)

lemma FIFO_Write_inv: "FIFO_inv N f \<Longrightarrow> FIFO_inv N (FIFO_Write N x f)"
  using unat_NumOccupied_inc [of N f] FIFO_inv_WritePos [of N f]
  by (auto simp: FIFO_inv_def FIFO_Write_def FIFO_IsFull_def unat_le_iff unat_ring_inc mod_simps not_le)

lemma FIFO_list_Write:
  assumes inv: "FIFO_inv N f" and room: "unat (NumOccupied f) < unat N"
  shows "FIFO_list (FIFO_Write N x f) = FIFO_list f @ [x]"
proof -
  let ?r = "unat (ReadPos f)" and ?k = "unat (NumOccupied f)"
  have len: "length (Entries f) = unat N"
    and wp: "unat (WritePos f) = (?r + ?k) mod length (Entries f)"
    using inv by (simp_all add: FIFO_inv_def)
  have "FIFO_list (FIFO_Write N x f) = ring_slice ((Entries f)[(?r + ?k) mod length (Entries f) := x]) ?r (Suc ?k)"
    using room wp unat_NumOccupied_inc [OF inv room]
    by (simp add: FIFO_list_def FIFO_Write_def FIFO_IsFull_def unat_le_iff)
  then show ?thesis
    using ring_slice_update [of ?k "Entries f" ?r x] room len
    by (simp add: ring_slice_Suc FIFO_list_def)
qed

lemma FIFO_Read_inv: "FIFO_inv N f \<Longrightarrow> FIFO_inv N (snd (FIFO_Read N f))"
proof (cases "NumOccupied f = 0")
  case False
  assume inv: "FIFO_inv N f"
  from False have pos: "0 < unat (NumOccupied f)" by (simp add: unat_gt_0)
  have "(Suc (unat (ReadPos f)) mod unat N + (unat (NumOccupied f) - 1)) mod unat N
        = (unat (ReadPos f) + unat (NumOccupied f)) mod unat N"
    using pos by (simp only: mod_add_left_eq) simp
  with inv pos False show ?thesis
    by (auto simp: FIFO_inv_def FIFO_Read_def FIFO_IsEmpty_def unat_ring_inc unat_pred)
qed (simp add: FIFO_Read_def FIFO_IsEmpty_def)

lemma FIFO_Read_list:
  assumes inv: "FIFO_inv N f" and ne: "NumOccupied f \<noteq> 0"
  shows "FIFO_list f = fst (FIFO_Read N f) # FIFO_list (snd (FIFO_Read N f))"
proof -
  have pos: "0 < unat (NumOccupied f)" using ne by (simp add: unat_gt_0)
  show ?thesis
    using inv ne pos ring_slice_Cons [OF pos, of "unat (ReadPos f)" "Entries f"]
    by (simp add: FIFO_inv_def FIFO_Read_def FIFO_IsEmpty_def FIFO_list_def unat_ring_inc unat_pred)
qed

lemma FIFO_Clear_inv: "FIFO_inv N f \<Longrightarrow> FIFO_inv N (FIFO_Clear f)"
  by (simp add: FIFO_inv_def FIFO_Clear_def)

lemma FIFO_Clear_list: "FIFO_list (FIFO_Clear f) = []"
  by (simp add: FIFO_list_Nil FIFO_Clear_def)

interpretation fifo: bounded_queue "FIFO_Write N" "FIFO_Read N" FIFO_IsEmpty "FIFO_IsFull N"
    FIFO_Clear FIFO_list "FIFO_inv N" "unat N"
  for N :: u32
proof unfold_locales
  fix q :: "('a::zero, 'b) fifo_scheme" and x
  assume inv: "FIFO_inv N q"
  show "FIFO_inv N (FIFO_Write N x q)" by (rule FIFO_Write_inv [OF inv])
  show "FIFO_inv N (snd (FIFO_Read N q))" by (rule FIFO_Read_inv [OF inv])
  show "FIFO_inv N (FIFO_Clear q)" by (rule FIFO_Clear_inv [OF inv])
  show "length (FIFO_list q) \<le> unat N" using inv by (simp add: FIFO_inv_def)
  show "FIFO_IsEmpty q \<longleftrightarrow> FIFO_list q = []" by (simp add: FIFO_IsEmpty_def FIFO_list_Nil)
  show "FIFO_IsFull N q \<longleftrightarrow> length (FIFO_list q) = unat N"
    using inv by (auto simp: FIFO_IsFull_def FIFO_inv_def unat_le_iff)
  show "length (FIFO_list q) < unat N \<Longrightarrow> FIFO_list (FIFO_Write N x q) = FIFO_list q @ [x]"
    using FIFO_list_Write [OF inv] by simp
  show "length (FIFO_list q) = unat N \<Longrightarrow> FIFO_Write N x q = q"
    by (simp add: FIFO_Write_def FIFO_IsFull_def unat_le_iff)
  show "FIFO_list (snd (FIFO_Read N q)) = tl (FIFO_list q)"
    using FIFO_Read_list [OF inv] FIFO_list_Nil [of q]
    by (cases "NumOccupied q = 0") (auto simp: FIFO_Read_def FIFO_IsEmpty_def)
  show "FIFO_list (FIFO_Clear q) = []" by (rule FIFO_Clear_list)
next
  fix q :: "('a::zero, 'b) fifo_scheme" and y ys
  assume inv: "FIFO_inv N q" and l: "FIFO_list q = y # ys"
  then have "NumOccupied q \<noteq> 0" by (auto simp flip: FIFO_list_Nil)
  with FIFO_Read_list [OF inv] l show "fst (FIFO_Read N q) = y" by simp
qed


text \<open>
  \<open>DynamicFIFO\<close> is the same ring: writes agree with \<open>FIFO\<close>'s, and so do reads unless the
  queue is empty, when they only differ in the value returned.
\<close>

lemma DynamicFIFO_Write_eq: "DynamicFIFO_Write x f = FIFO_Write (NumEntries f) x f"
  by (simp add: DynamicFIFO_Write_def FIFO_Write_def FIFO_IsFull_def)

lemma DynamicFIFO_Read_eq:
  "NumOccupied f \<noteq> 0 \<Longrightarrow> DynamicFIFO_Read f = FIFO_Read (NumEntries f) f"
  by (simp add: DynamicFIFO_Read_def FIFO_Read_def FIFO_IsEmpty_def Let_def)

lemma DynamicFIFO_Read_snd: "snd (DynamicFIFO_Read f) = snd (FIFO_Read (NumEntries f) f)"
  by (simp add: DynamicFIFO_Read_def FIFO_Read_def FIFO_IsEmpty_def Let_def)

lemma NumEntries_kept [simp]:
  "NumEntries (FIFO_Write N x f) = NumEntries f"
  "NumEntries (snd (FIFO_Read N f)) = NumEntries f"
  "NumEntries (FIFO_Clear f) = NumEntries f"
  by (simp_all add: FIFO_Write_def FIFO_Read_def FIFO_Clear_def)

interpretation dynamic_fifo: bounded_queue DynamicFIFO_Write DynamicFIFO_Read FIFO_IsEmpty "FIFO_IsFull N"
    FIFO_Clear FIFO_list "\<lambda>f. NumEntries f = N \<and> FIFO_inv N f" "unat N"
  for N :: u32
proof unfold_locales
  fix q :: "('a::zero, 'b) dynamic_fifo_scheme" and y ys
  assume "NumEntries q = N \<and> FIFO_inv N q" and l: "FIFO_list q = y # ys"
  then have inv: "NumEntries q = N" "FIFO_inv N q" by simp_all
  from l have "NumOccupied q \<noteq> 0" by (auto simp flip: FIFO_list_Nil)
  with fifo.rd_first [OF inv(2) l] inv show "fst (DynamicFIFO_Read q) = y"
    by (simp add: DynamicFIFO_Read_eq)
qed (auto simp: DynamicFIFO_Write_eq DynamicFIFO_Read_snd
      intro: fifo.invar_wr fifo.invar_rd fifo.invar_clr fifo.em_iff fifo.full_iff
        fifo.contents_wr fifo.wr_full fifo.contents_rd fifo.contents_clr
      dest: fifo.len_le fifo.em_iff fifo.full_iff fifo.contents_wr fifo.wr_full fifo.contents_rd)

text \<open>C10: Any sequence of writes and reads of a \<^verbatim>\<open>FIFO\<close> returns what a bounded list queue returns (a write to a full queue is dropped, a read of an empty one yields nothing), and the ring stays well formed.\<close>

theorem FIFO_refines_list:
  fixes q :: "('a::zero, 'b) fifo_scheme"
  assumes "FIFO_inv N q"
  shows "fst (queue_run (FIFO_Write N) (FIFO_Read N) FIFO_IsEmpty ops q) = fst (spec_run (unat N) ops (FIFO_list q)) \<and>
    FIFO_list (snd (queue_run (FIFO_Write N) (FIFO_Read N) FIFO_IsEmpty ops q)) = snd (spec_run (unat N) ops (FIFO_list q)) \<and>
    FIFO_inv N (snd (queue_run (FIFO_Write N) (FIFO_Read N) FIFO_IsEmpty ops q))"
  by (rule fifo.run_refines [OF assms])

theorem FIFO_refines_list_witness: "fst (queue_run (FIFO_Write 2) (FIFO_Read 2) FIFO_IsEmpty [Enq 5, Enq (6::nat), Enq 7, Deq, Deq, Deq] (FIFO_new 2)) = [Some 5, Some 6, None]"
proof -
  have "FIFO_inv 2 (FIFO_new 2 :: nat fifo)" "FIFO_list (FIFO_new 2 :: nat fifo) = []"
    by (simp add: FIFO_new_inv, simp add: FIFO_list_def FIFO_new_def)
  then show ?thesis
    using FIFO_refines_list [of 2 "FIFO_new 2 :: nat fifo" "[Enq 5, Enq 6, Enq 7, Deq, Deq, Deq]"]
    by (simp del: queue_run.simps)
qed

section \<open>\<^verbatim>\<open>RingBuffer<Size>\<close>\<close>

record ring_buffer =
  Buffer :: "u8 list"
  RB_NumOccupied :: u32
  RB_ReadPos :: u32
  RB_WritePos :: u32

text \<open>\<^verbatim>\<open>memcpy\<close> between two byte arrays; \<open>None\<close> is an access outside one of them.\<close>

definition memcpy_into :: "'a list \<Rightarrow> nat \<Rightarrow> 'a list \<Rightarrow> nat \<Rightarrow> nat \<Rightarrow> 'a list option" where
  "memcpy_into dst doff src soff n =
     (if doff + n \<le> length dst \<and> soff + n \<le> length src
      then Some (take doff dst @ take n (drop soff src) @ drop (doff + n) dst)
      else None)"

definition RingBuffer_Clear :: "u32 \<Rightarrow> ring_buffer \<Rightarrow> ring_buffer" where
  "RingBuffer_Clear Size b =
     b\<lparr>RB_NumOccupied := 0, RB_ReadPos := 0, RB_WritePos := 0, Buffer := replicate (unat Size) 0\<rparr>"

definition RingBuffer_CanFit :: "u32 \<Rightarrow> u32 \<Rightarrow> ring_buffer \<Rightarrow> bool" where
  "RingBuffer_CanFit Size num b \<longleftrightarrow> RB_NumOccupied b + num \<le> Size"

definition RingBuffer_Write :: "u32 \<Rightarrow> u8 list \<Rightarrow> u32 \<Rightarrow> ring_buffer \<Rightarrow> (bool \<times> ring_buffer) option" where
  "RingBuffer_Write Size data len b =
     (if \<not> RingBuffer_CanFit Size len b then Some (False, b)
      else if RB_WritePos b + len \<ge> Size then
        let part1 = Size - RB_WritePos b in
        case memcpy_into (Buffer b) (unat (RB_WritePos b)) data 0 (unat part1) of
          None \<Rightarrow> None
        | Some buf1 \<Rightarrow>
            (case (if len > part1
                   then memcpy_into buf1 0 data (unat part1) (unat (len - part1))
                   else Some buf1) of
               None \<Rightarrow> None
             | Some buf2 \<Rightarrow>
                 Some (True, b\<lparr>Buffer := buf2, RB_WritePos := len - part1,
                               RB_NumOccupied := RB_NumOccupied b + len\<rparr>))
      else
        case memcpy_into (Buffer b) (unat (RB_WritePos b)) data 0 (unat len) of
          None \<Rightarrow> None
        | Some buf \<Rightarrow>
            Some (True, b\<lparr>Buffer := buf, RB_WritePos := RB_WritePos b + len,
                          RB_NumOccupied := RB_NumOccupied b + len\<rparr>))"

text \<open>The two-part copy out of the ring that \<^verbatim>\<open>Read\<close> and \<^verbatim>\<open>Peek\<close> share.\<close>

definition ring_copy_out :: "u32 \<Rightarrow> u8 list \<Rightarrow> u32 \<Rightarrow> u32 \<Rightarrow> u8 list \<Rightarrow> u8 list option" where
  "ring_copy_out Size buf readpos len data =
     (if readpos + len \<ge> Size then
        let part1 = Size - readpos in
        case memcpy_into data 0 buf (unat readpos) (unat part1) of
          None \<Rightarrow> None
        | Some d1 \<Rightarrow>
            if len > part1 then memcpy_into d1 (unat part1) buf 0 (unat (len - part1)) else Some d1
      else memcpy_into data 0 buf (unat readpos) (unat len))"

definition RingBuffer_Read ::
  "u32 \<Rightarrow> u8 list \<Rightarrow> u32 \<Rightarrow> ring_buffer \<Rightarrow> (bool \<times> u8 list \<times> ring_buffer) option" where
  "RingBuffer_Read Size data len b =
     (if RB_NumOccupied b < len then Some (False, data, b)
      else
        case ring_copy_out Size (Buffer b) (RB_ReadPos b) len data of
          None \<Rightarrow> None
        | Some d \<Rightarrow>
            Some (True, d, b\<lparr>RB_ReadPos := (if RB_ReadPos b + len \<ge> Size
                                             then len - (Size - RB_ReadPos b)
                                             else RB_ReadPos b + len),
                             RB_NumOccupied := RB_NumOccupied b - len\<rparr>))"

definition RingBuffer_Peek ::
  "u32 \<Rightarrow> u8 list \<Rightarrow> u32 \<Rightarrow> u32 \<Rightarrow> ring_buffer \<Rightarrow> (bool \<times> u8 list) option" where
  "RingBuffer_Peek Size data offset len b =
     (if RB_NumOccupied b < len then Some (False, data)
      else
        let readpos = RB_ReadPos b + offset;
            readpos = (if readpos \<ge> Size then readpos - Size else readpos)
        in map_option (\<lambda>d. (True, d)) (ring_copy_out Size (Buffer b) readpos len data))"

definition RingBuffer_Skip :: "u32 \<Rightarrow> u32 \<Rightarrow> ring_buffer \<Rightarrow> bool \<times> ring_buffer" where
  "RingBuffer_Skip Size len b =
     (if RB_NumOccupied b < len then (False, b)
      else
        let rp = RB_ReadPos b + len;
            rp = (if rp \<ge> Size then rp - Size else rp)
        in (True, b\<lparr>RB_ReadPos := rp, RB_NumOccupied := RB_NumOccupied b - len\<rparr>))"

text \<open>The invariant keeps \<open>Size\<close> at most \<open>2^31\<close>, so that position sums do not wrap; every
  instance in the code is a few kilobytes.\<close>

definition RB_inv :: "u32 \<Rightarrow> ring_buffer \<Rightarrow> bool" where
  "RB_inv Size b \<longleftrightarrow>
     0 < unat Size \<and> unat Size \<le> 2 ^ 31 \<and> length (Buffer b) = unat Size \<and>
     unat (RB_NumOccupied b) \<le> unat Size \<and> unat (RB_ReadPos b) < unat Size \<and>
     unat (RB_WritePos b) = (unat (RB_ReadPos b) + unat (RB_NumOccupied b)) mod unat Size"

definition RB_list :: "ring_buffer \<Rightarrow> u8 list" where
  "RB_list b = ring_slice (Buffer b) (unat (RB_ReadPos b)) (unat (RB_NumOccupied b))"

lemma length_RB_list [simp]: "length (RB_list b) = unat (RB_NumOccupied b)"
  by (simp add: RB_list_def)


subsection \<open>The two-part copies, on natural numbers\<close>

definition ring_put :: "'a list \<Rightarrow> nat \<Rightarrow> 'a list \<Rightarrow> nat \<Rightarrow> 'a list" where
  "ring_put xs w data l =
     (let n = length xs in
      if w + l < n then take w xs @ take l data @ drop (w + l) xs
      else take (l - (n - w)) (drop (n - w) data) @
           drop (l - (n - w)) (take w xs @ take (n - w) data))"

lemma mod_ring_cases:
  fixes w i n :: nat
  assumes "w < n" "i \<le> n"
  shows "(w + i) mod n = (if w + i < n then w + i else w + i - n)"
  using assms by (auto simp: mod_if)

lemma length_ring_put:
  "w < length xs \<Longrightarrow> l \<le> length xs \<Longrightarrow> l \<le> length data \<Longrightarrow> length (ring_put xs w data l) = length xs"
  by (auto simp: ring_put_def Let_def)

lemma nth_splice:
  assumes "m \<le> length A" "m \<le> length B" "j < length B"
  shows "(take m A @ drop m B) ! j = (if j < m then A ! j else B ! j)"
  using assms by (simp add: nth_append)

lemma nth_ring_put_wrap:
  assumes "w < length xs" "l \<le> length xs" "l \<le> length data" "length xs \<le> w + l" "j < length xs"
  shows "ring_put xs w data l ! j =
    (if j < l - (length xs - w) then data ! (length xs - w + j)
     else if j < w then xs ! j else data ! (j - w))"
proof -
  let ?p = "length xs - w"
  have "ring_put xs w data l ! j =
    (if j < l - ?p then drop ?p data ! j else (take w xs @ take ?p data) ! j)"
    using nth_splice [of "l - ?p" "drop ?p data" "take w xs @ take ?p data" j] assms
    by (simp add: ring_put_def Let_def del: drop_append take_append)
  then show ?thesis using assms by (simp add: nth_append)
qed

lemma nth_ring_put_new:
  assumes "w < length xs" "l \<le> length xs" "l \<le> length data" "i < l"
  shows "ring_put xs w data l ! ((w + i) mod length xs) = data ! i"
proof (cases "w + l < length xs")
  case True
  with assms show ?thesis by (simp add: ring_put_def nth_append)
next
  case False
  with assms show ?thesis by (auto simp: nth_ring_put_wrap mod_ring_cases)
qed

lemma nth_ring_put_old:
  assumes "w < length xs" "l \<le> length xs" "l \<le> length data" "l \<le> i" "i < length xs"
  shows "ring_put xs w data l ! ((w + i) mod length xs) = xs ! ((w + i) mod length xs)"
proof (cases "w + l < length xs")
  case True
  with assms show ?thesis by (auto simp: ring_put_def nth_append mod_ring_cases min_def)
next
  case False
  with assms show ?thesis by (auto simp: nth_ring_put_wrap mod_ring_cases)
qed

lemma ring_slice_put:
  assumes "w = (r + k) mod length xs" "k + l \<le> length xs" "l \<le> length data" "0 < length xs"
  shows "ring_slice (ring_put xs w data l) r (k + l) = ring_slice xs r k @ take l data"
proof (rule nth_equalityI)
  let ?n = "length xs"
  have w: "w < ?n" and len: "length (ring_put xs w data l) = ?n"
    using assms by (simp_all add: length_ring_put)
  fix i assume "i < length (ring_slice (ring_put xs w data l) r (k + l))"
  then have i: "i < k + l" by simp
  show "ring_slice (ring_put xs w data l) r (k + l) ! i = (ring_slice xs r k @ take l data) ! i"
  proof (cases "i < k")
    case True
    have "(w + (?n - k + i)) mod ?n = (r + k + (?n - k + i)) mod ?n"
      by (simp add: assms(1) mod_simps)
    also have "r + k + (?n - k + i) = r + i + ?n" using assms by simp
    finally have eq: "(r + i) mod ?n = (w + (?n - k + i)) mod ?n" by simp
    have "ring_put xs w data l ! ((r + i) mod ?n) = xs ! ((r + i) mod ?n)"
      unfolding eq by (rule nth_ring_put_old) (use w assms True in auto)
    with True i len show ?thesis by (simp add: nth_ring_slice nth_append)
  next
    case False
    have "(w + (i - k)) mod ?n = (r + k + (i - k)) mod ?n"
      by (simp add: assms(1) mod_simps)
    with False have eq: "(r + i) mod ?n = (w + (i - k)) mod ?n" by simp
    have "ring_put xs w data l ! ((r + i) mod ?n) = data ! (i - k)"
      unfolding eq by (rule nth_ring_put_new) (use w assms i False in auto)
    with False i len show ?thesis by (simp add: nth_ring_slice nth_append)
  qed
qed (use assms in simp)

lemma ring_slice_split:
  assumes "r < length xs" "l \<le> length xs"
  shows "ring_slice xs r l =
    (if r + l < length xs then take l (drop r xs)
     else drop r xs @ take (l - (length xs - r)) xs)"
proof (rule nth_equalityI)
  fix i assume "i < length (ring_slice xs r l)"
  with assms show "ring_slice xs r l ! i =
    (if r + l < length xs then take l (drop r xs)
     else drop r xs @ take (l - (length xs - r)) xs) ! i"
    by (auto simp: nth_ring_slice mod_ring_cases nth_append add.commute)
qed (use assms in auto)

lemma ring_slice_append:
  "ring_slice xs r (k + l) = ring_slice xs r k @ ring_slice xs ((r + k) mod length xs) l"
proof (rule nth_equalityI)
  fix i assume "i < length (ring_slice xs r (k + l))"
  then have i: "i < k + l" by simp
  have "((r + k) mod length xs + (i - k)) mod length xs = (r + k + (i - k)) mod length xs"
    by (rule mod_add_left_eq)
  then have "\<not> i < k \<Longrightarrow> ((r + k) mod length xs + i - k) mod length xs = (r + i) mod length xs"
    by simp
  with i show "ring_slice xs r (k + l) ! i = (ring_slice xs r k @ ring_slice xs ((r + k) mod length xs) l) ! i"
    by (simp add: nth_ring_slice nth_append)
qed simp

section \<open>\<^verbatim>\<open>RingBuffer\<close> is a byte queue\<close>

lemma RB_unat:
  assumes "RB_inv Size b"
  shows "unat (Size - RB_WritePos b) = unat Size - unat (RB_WritePos b)"
    and "unat (Size - RB_ReadPos b) = unat Size - unat (RB_ReadPos b)"
    and "unat (RB_WritePos b) < unat Size"
  using assms by (auto simp: RB_inv_def unat_sub_le unat_le_iff)

lemma unat_add_le_iff32:
  fixes x y z :: u32
  assumes "unat x + unat y \<le> unat z"
  shows "unat (x + y) = unat x + unat y"
  by (rule unat_add_small) (use assms unat_bound [of z] in simp)

lemma RingBuffer_Write_ok:
  assumes inv: "RB_inv Size b" and fits: "unat (RB_NumOccupied b) + unat len \<le> unat Size"
    and data: "unat len \<le> length data"
  shows "RingBuffer_Write Size data len b =
    Some (True, b\<lparr>Buffer := ring_put (Buffer b) (unat (RB_WritePos b)) data (unat len),
                  RB_WritePos := (if RB_WritePos b + len \<ge> Size then len - (Size - RB_WritePos b)
                                  else RB_WritePos b + len),
                  RB_NumOccupied := RB_NumOccupied b + len\<rparr>)"
proof -
  let ?w = "unat (RB_WritePos b)" and ?n = "unat Size" and ?l = "unat len"
  have n: "length (Buffer b) = ?n" "?n \<le> 2 ^ 31" and w: "?w < ?n"
    using inv RB_unat [OF inv] by (simp_all add: RB_inv_def)
  have can: "RingBuffer_CanFit Size len b"
    using unat_add_le_iff32 [OF fits] fits by (simp add: RingBuffer_CanFit_def unat_le_iff)
  have sum: "unat (RB_WritePos b + len) = ?w + ?l"
    by (rule unat_add_small) (use w n fits in simp)
  have part1: "unat (Size - RB_WritePos b) = ?n - ?w" by (rule RB_unat [OF inv])
  show ?thesis
  proof (cases "?w + ?l < ?n")
    case True
    then have "\<not> RB_WritePos b + len \<ge> Size" using sum by (simp add: unat_le_iff)
    with True can n w data show ?thesis
      by (simp add: RingBuffer_Write_def memcpy_into_def ring_put_def Let_def)
  next
    case False
    then have ge: "RB_WritePos b + len \<ge> Size" using sum by (simp add: unat_le_iff)
    have gt: "len > Size - RB_WritePos b \<longleftrightarrow> ?n - ?w < ?l"
      by (simp add: unat_lt_iff part1)
    have rest: "unat (len - (Size - RB_WritePos b)) = ?l - (?n - ?w)" if "?n - ?w < ?l"
      using that part1 by (simp add: unat_sub_le unat_le_iff)
    show ?thesis
      using False can ge gt rest n w data part1 fits
      by (auto simp: RingBuffer_Write_def memcpy_into_def ring_put_def Let_def)
  qed
qed

lemma RingBuffer_Write_pos:
  assumes inv: "RB_inv Size b" and fits: "unat (RB_NumOccupied b) + unat len \<le> unat Size"
  shows "unat (if RB_WritePos b + len \<ge> Size then len - (Size - RB_WritePos b) else RB_WritePos b + len)
    = (unat (RB_WritePos b) + unat len) mod unat Size"
proof -
  let ?w = "unat (RB_WritePos b)" and ?n = "unat Size" and ?l = "unat len"
  have n: "?n \<le> 2 ^ 31" and w: "?w < ?n"
    using inv RB_unat [OF inv] by (simp_all add: RB_inv_def)
  have sum: "unat (RB_WritePos b + len) = ?w + ?l"
    by (rule unat_add_small) (use w n fits in simp)
  have part1: "unat (Size - RB_WritePos b) = ?n - ?w" by (rule RB_unat [OF inv])
  have "unat (len - (Size - RB_WritePos b)) = ?l - (?n - ?w)" if "?n \<le> ?w + ?l"
    using that part1 w by (simp add: unat_sub_le unat_le_iff)
  then show ?thesis
    using w fits by (auto simp: mod_ring_cases unat_le_iff sum)
qed

lemma RingBuffer_Write_inv:
  assumes inv: "RB_inv Size b" and fits: "unat (RB_NumOccupied b) + unat len \<le> unat Size"
    and data: "unat len \<le> length data" and wr: "RingBuffer_Write Size data len b = Some (True, b')"
  shows "RB_inv Size b' \<and> RB_list b' = RB_list b @ take (unat len) data"
proof -
  let ?w = "unat (RB_WritePos b)" and ?r = "unat (RB_ReadPos b)" and ?k = "unat (RB_NumOccupied b)"
  have n: "length (Buffer b) = unat Size" "0 < unat Size" and w: "?w = (?r + ?k) mod unat Size" "?w < unat Size"
    using inv RB_unat [OF inv] by (simp_all add: RB_inv_def)
  have occ: "unat (RB_NumOccupied b + len) = ?k + unat len" by (rule unat_add_le_iff32 [OF fits])
  have b': "b' = b\<lparr>Buffer := ring_put (Buffer b) ?w data (unat len),
                  RB_WritePos := (if RB_WritePos b + len \<ge> Size then len - (Size - RB_WritePos b)
                                  else RB_WritePos b + len),
                  RB_NumOccupied := RB_NumOccupied b + len\<rparr>"
    using RingBuffer_Write_ok [OF inv fits data] wr by simp
  have "RB_list b' = RB_list b @ take (unat len) data"
    using ring_slice_put [of ?w ?r ?k "Buffer b" "unat len" data] n w fits data
    by (simp add: b' RB_list_def occ)
  moreover have "RB_inv Size b'"
    using inv fits occ RingBuffer_Write_pos [OF inv fits] w n data
    by (simp add: b' RB_inv_def length_ring_put mod_simps ac_simps)
  ultimately show ?thesis by blast
qed

lemma ring_copy_out_ok:
  assumes inv: "RB_inv Size b" and rp: "unat rp < unat Size" and l: "unat len \<le> unat Size"
    and data: "unat len \<le> length data"
  shows "ring_copy_out Size (Buffer b) rp len data =
    Some (ring_slice (Buffer b) (unat rp) (unat len) @ drop (unat len) data)"
proof -
  let ?r = "unat rp" and ?n = "unat Size" and ?l = "unat len"
  have n: "length (Buffer b) = ?n" "?n \<le> 2 ^ 31" using inv by (simp_all add: RB_inv_def)
  have sum: "unat (rp + len) = ?r + ?l" by (rule unat_add_small) (use rp n l in simp)
  have part1: "unat (Size - rp) = ?n - ?r" using rp by (simp add: unat_sub_le unat_le_iff)
  show ?thesis
  proof (cases "?r + ?l < ?n")
    case True
    then have "\<not> rp + len \<ge> Size" using sum by (simp add: unat_le_iff)
    with True n rp data l show ?thesis
      by (simp add: ring_copy_out_def memcpy_into_def ring_slice_split)
  next
    case False
    then have ge: "rp + len \<ge> Size" using sum by (simp add: unat_le_iff)
    have gt: "len > Size - rp \<longleftrightarrow> ?n - ?r < ?l" by (simp add: unat_lt_iff part1)
    have rest: "unat (len - (Size - rp)) = ?l - (?n - ?r)" if "?n - ?r < ?l"
      using that part1 by (simp add: unat_sub_le unat_le_iff)
    have same: "?n - ?r = ?l" if "\<not> ?n - ?r < ?l" using that False by simp
    show ?thesis
      using False ge gt rest same n rp data l part1
      by (cases "?n - ?r < ?l") (simp_all add: ring_copy_out_def memcpy_into_def ring_slice_split Let_def min_def)
  qed
qed

lemma RingBuffer_Read_ok:
  assumes inv: "RB_inv Size b" and avail: "unat len \<le> unat (RB_NumOccupied b)"
    and data: "length data = unat len"
  shows "\<exists>b'. RingBuffer_Read Size data len b = Some (True, take (unat len) (RB_list b), b') \<and>
    RB_inv Size b' \<and> RB_list b' = drop (unat len) (RB_list b)"
proof -
  let ?r = "unat (RB_ReadPos b)" and ?n = "unat Size" and ?l = "unat len" and ?k = "unat (RB_NumOccupied b)"
  have n: "length (Buffer b) = ?n" "?n \<le> 2 ^ 31" and r: "?r < ?n" and k: "?k \<le> ?n"
    using inv by (simp_all add: RB_inv_def)
  have len: "\<not> RB_NumOccupied b < len" using avail by (simp add: unat_lt_iff)
  define rp where "rp = (if RB_ReadPos b + len \<ge> Size then len - (Size - RB_ReadPos b) else RB_ReadPos b + len)"
  have sum: "unat (RB_ReadPos b + len) = ?r + ?l" by (rule unat_add_small) (use r n k avail in simp)
  have part1: "unat (Size - RB_ReadPos b) = ?n - ?r" by (rule RB_unat [OF inv])
  have "unat (len - (Size - RB_ReadPos b)) = ?l - (?n - ?r)" if "?n \<le> ?r + ?l"
    using that part1 r by (simp add: unat_sub_le unat_le_iff)
  then have rp: "unat rp = (?r + ?l) mod ?n"
    using r k avail by (auto simp: rp_def mod_ring_cases unat_le_iff sum)
  have occ: "unat (RB_NumOccupied b - len) = ?k - ?l"
    using avail by (simp add: unat_sub_le unat_le_iff)
  let ?b' = "b\<lparr>RB_ReadPos := rp, RB_NumOccupied := RB_NumOccupied b - len\<rparr>"
  have split: "RB_list b = ring_slice (Buffer b) ?r ?l @ ring_slice (Buffer b) ((?r + ?l) mod ?n) (?k - ?l)"
    using ring_slice_append [of "Buffer b" ?r ?l "?k - ?l"] avail n by (simp add: RB_list_def)
  have "RingBuffer_Read Size data len b = Some (True, take ?l (RB_list b), ?b')"
    using ring_copy_out_ok [OF inv r, of len data] len avail k data split
    by (simp add: RingBuffer_Read_def rp_def)
  moreover have "RB_inv Size ?b'"
  proof -
    have "(unat rp + (?k - ?l)) mod ?n = (?r + ?l + (?k - ?l)) mod ?n"
      unfolding rp by (rule mod_add_left_eq)
    then show ?thesis
      using inv rp r occ avail k by (simp add: RB_inv_def)
  qed
  moreover have "RB_list ?b' = drop ?l (RB_list b)"
    using split by (simp add: RB_list_def rp occ)
  ultimately show ?thesis by blast
qed

text \<open>A write that fits appends its bytes to the ring buffer, across the end of the array or not, and a read takes the oldest bytes in order; both copies stay within the arrays.\<close>

theorem RingBuffer_stream:
  assumes inv: "RB_inv Size b" and fits: "unat (RB_NumOccupied b) + unat len \<le> unat Size"
    and data: "unat len \<le> length data" and out: "length out = unat n" "unat n \<le> unat (RB_NumOccupied b) + unat len"
  shows "\<exists>b1 b2. RingBuffer_Write Size data len b = Some (True, b1) \<and>
    RingBuffer_Read Size out n b1 = Some (True, take (unat n) (RB_list b @ take (unat len) data), b2) \<and>
    RB_inv Size b1 \<and> RB_inv Size b2 \<and> RB_list b2 = drop (unat n) (RB_list b @ take (unat len) data)"
proof -
  obtain b1 where b1: "RingBuffer_Write Size data len b = Some (True, b1)"
    using RingBuffer_Write_ok [OF inv fits data] by blast
  note w = RingBuffer_Write_inv [OF inv fits data b1]
  have "unat (RB_NumOccupied b1) = length (RB_list b @ take (unat len) data)"
    using w by (metis length_RB_list)
  then have "unat n \<le> unat (RB_NumOccupied b1)" using data out by simp
  then show ?thesis using RingBuffer_Read_ok [of Size b1 n out] w out b1 by auto
qed

theorem RingBuffer_stream_witness: "\<exists>b1 b2. RingBuffer_Write 4 [1, 2, 3] 3 \<lparr>Buffer = [0, 0, 0, 9], RB_NumOccupied = 1, RB_ReadPos = 3, RB_WritePos = 0\<rparr> = Some (True, b1) \<and>
   RingBuffer_Read 4 [0, 0] 2 b1 = Some (True, [9, 1], b2)"
proof -
  let ?b = "\<lparr>Buffer = [0, 0, 0, 9], RB_NumOccupied = 1, RB_ReadPos = 3, RB_WritePos = 0\<rparr>"
  have "RB_inv 4 ?b" by (simp add: RB_inv_def)
  moreover have "RB_list ?b = [9]" by (simp add: RB_list_def ring_slice_def)
  ultimately show ?thesis
    using RingBuffer_stream [of 4 ?b 3 "[1, 2, 3]" "[0, 0]" 2] by auto
qed

end
