(* ===== verification/Nds.thy ===== *)
theory Nds
  imports Fifo
begin

text \<open>
  The console object of \<^verbatim>\<open>src/src/NDS.h\<close> and \<^verbatim>\<open>src/src/NDS.cpp\<close>: its state, and its
  interrupt controller, key input and CPU stop flags. Index \<open>0\<close> is the ARM9, \<open>1\<close> the ARM7,
  as in the code. The schedulers, timers, the math unit and the IPC hardware are in the
  theories that follow; they all act on this state.
\<close>

section \<open>State\<close>

record sched_event =
  evt_Timestamp :: u64
  FuncID :: u32
  Param :: u32

record timer =
  Reload :: u16
  Cnt :: u16
  Counter :: u32
  CycleShift :: u32

text \<open>The real-time clock (\<^verbatim>\<open>src/src/RTC.h\<close>): its register file \<^verbatim>\<open>StateData\<close> and the serial
  interface around it. The byte arrays are functions of the index; every index the code
  uses is within the array (theory \<open>Rtc\<close>).\<close>

record rtc_state =
  StatusReg1 :: u8
  StatusReg2 :: u8
  DateTime :: "nat \<Rightarrow> u8"
  Alarm1 :: "nat \<Rightarrow> u8"
  Alarm2 :: "nat \<Rightarrow> u8"
  ClockAdjust :: u8
  FreeReg :: u8
  IRQFlag :: u8
  MinuteCount :: u32
  FOUT1 :: u8
  FOUT2 :: u8
  AlarmDate1 :: "nat \<Rightarrow> u8"
  AlarmDate2 :: "nat \<Rightarrow> u8"

record rtc =
  rtc_IO :: u16
  rtc_Input :: u8
  rtc_InputBit :: u32
  rtc_InputPos :: u32
  rtc_Output :: "nat \<Rightarrow> u8"
  rtc_OutputBit :: u32
  rtc_OutputPos :: u32
  rtc_CurCmd :: u8
  rtc_State :: rtc_state
  rtc_TimerError :: s32
  rtc_ClockCount :: u32

text \<open>Calls out of the console object whose effect is outside the modelled state; they are
  recorded in order.\<close>

datatype ext_call =
    GPU3D_RestartFrame
  | Platform_WriteDateTime int int int int int int

record nds =
  ConsoleType :: int
  CurCPU :: int
  SchedList :: "nat \<Rightarrow> sched_event"
  SchedListMask :: u32
  SysTimestamp :: u64
  ARM9Timestamp :: u64
  ARM9Target :: u64
  ARM7Timestamp :: u64
  ARM7Target :: u64
  ARM9ClockShift :: nat
  IME :: "nat \<Rightarrow> u32"
  IE :: "nat \<Rightarrow> u32"
  IFl :: "nat \<Rightarrow> u32"
  IE2 :: u32
  IF2 :: u32
  ARM_IRQ :: "nat \<Rightarrow> u8"
  ARM_Halted :: "nat \<Rightarrow> u8"
  Timers :: "nat \<Rightarrow> timer"
  TimerCheckMask :: "nat \<Rightarrow> u8"
  TimerTimestamp :: "nat \<Rightarrow> u64"
  CPUStop :: u32
  KeyInput :: u32
  KeyCnt :: "nat \<Rightarrow> u16"
  RCnt :: u16
  IPCSync9 :: u16
  IPCSync7 :: u16
  IPCFIFOCnt9 :: u16
  IPCFIFOCnt7 :: u16
  IPCFIFO9 :: "u32 fifo"
  IPCFIFO7 :: "u32 fifo"
  DivCnt :: u16
  DivNumerator :: "nat \<Rightarrow> u32"
  DivDenominator :: "nat \<Rightarrow> u32"
  DivQuotient :: "nat \<Rightarrow> u32"
  DivRemainder :: "nat \<Rightarrow> u32"
  SqrtCnt :: u16
  SqrtVal :: "nat \<Rightarrow> u32"
  SqrtRes :: u32
  GXStat :: u32
  CmdFIFO_Level :: u32
  WRAMCnt :: u8
  RTC :: rtc
  ext_calls :: "ext_call list"

text \<open>A console with cleared memory and an empty clock, the starting point of the examples.\<close>

definition blank_rtc :: rtc where
  "blank_rtc = \<lparr>rtc_IO = 0, rtc_Input = 0, rtc_InputBit = 0, rtc_InputPos = 0, rtc_Output = (\<lambda>_. 0),
     rtc_OutputBit = 0, rtc_OutputPos = 0, rtc_CurCmd = 0,
     rtc_State = \<lparr>StatusReg1 = 0, StatusReg2 = 0, DateTime = (\<lambda>i. if i = 1 \<or> i = 2 then 1 else 0),
       Alarm1 = (\<lambda>_. 0), Alarm2 = (\<lambda>_. 0), ClockAdjust = 0, FreeReg = 0, IRQFlag = 0, MinuteCount = 0,
       FOUT1 = 0, FOUT2 = 0, AlarmDate1 = (\<lambda>_. 0), AlarmDate2 = (\<lambda>_. 0)\<rparr>,
     rtc_TimerError = 0, rtc_ClockCount = 0\<rparr>"

definition blank_nds :: nds where
  "blank_nds = \<lparr>ConsoleType = 0, CurCPU = 0, SchedList = (\<lambda>_. \<lparr>evt_Timestamp = 0, FuncID = 0, Param = 0\<rparr>),
     SchedListMask = 0, SysTimestamp = 0, ARM9Timestamp = 0, ARM9Target = 0, ARM7Timestamp = 0, ARM7Target = 0,
     ARM9ClockShift = 1, IME = (\<lambda>_. 0), IE = (\<lambda>_. 0), IFl = (\<lambda>_. 0), IE2 = 0, IF2 = 0, ARM_IRQ = (\<lambda>_. 0),
     ARM_Halted = (\<lambda>_. 0), Timers = (\<lambda>_. \<lparr>Reload = 0, Cnt = 0, Counter = 0, CycleShift = 0\<rparr>),
     TimerCheckMask = (\<lambda>_. 0), TimerTimestamp = (\<lambda>_. 0), CPUStop = 0, KeyInput = 0, KeyCnt = (\<lambda>_. 0), RCnt = 0,
     IPCSync9 = 0, IPCSync7 = 0, IPCFIFOCnt9 = 0, IPCFIFOCnt7 = 0, IPCFIFO9 = FIFO_new 16, IPCFIFO7 = FIFO_new 16,
     DivCnt = 0, DivNumerator = (\<lambda>_. 0), DivDenominator = (\<lambda>_. 0), DivQuotient = (\<lambda>_. 0), DivRemainder = (\<lambda>_. 0),
     SqrtCnt = 0, SqrtVal = (\<lambda>_. 0), SqrtRes = 0, GXStat = 0, CmdFIFO_Level = 0, WRAMCnt = 0, RTC = blank_rtc,
     ext_calls = []\<rparr>"

text \<open>Interrupt numbers (the anonymous enum of \<^verbatim>\<open>NDS.h\<close>).\<close>

definition IRQ_Timer0 :: nat where "IRQ_Timer0 = 3"
definition IRQ_RTC :: nat where "IRQ_RTC = 7"
definition IRQ_Keypad :: nat where "IRQ_Keypad = 12"
definition IRQ_IPCSync :: nat where "IRQ_IPCSync = 16"
definition IRQ_IPCSendDone :: nat where "IRQ_IPCSendDone = 17"
definition IRQ_IPCRecv :: nat where "IRQ_IPCRecv = 18"
definition IRQ_GXFIFO :: nat where "IRQ_GXFIFO = 21"
definition IRQ_LidOpen :: nat where "IRQ_LidOpen = 22"

lemmas irq_numbers = IRQ_Timer0_def IRQ_RTC_def IRQ_Keypad_def IRQ_IPCSync_def
  IRQ_IPCSendDone_def IRQ_IPCRecv_def IRQ_GXFIFO_def IRQ_LidOpen_def

text \<open>CPU stop flags.\<close>

definition CPUStop_DMA9 :: u32 where "CPUStop_DMA9 = 0xFFF"
definition CPUStop_DMA7 :: u32 where "CPUStop_DMA7 = shl 0xFFF 16"
definition CPUStop_Wakeup :: u32 where "CPUStop_Wakeup = shl 1 29"
definition CPUStop_Sleep :: u32 where "CPUStop_Sleep = shl 1 30"
definition CPUStop_GXStall :: u32 where "CPUStop_GXStall = shl 1 31"

text \<open>Event numbers.\<close>

definition Event_LCD :: nat where "Event_LCD = 0"
definition Event_SPU :: nat where "Event_SPU = 1"
definition Event_Wifi :: nat where "Event_Wifi = 2"
definition Event_RTC :: nat where "Event_RTC = 3"
definition Event_Div :: nat where "Event_Div = 8"
definition Event_Sqrt :: nat where "Event_Sqrt = 9"
definition Event_MAX :: nat where "Event_MAX = 17"

lemmas event_numbers = Event_LCD_def Event_SPU_def Event_Wifi_def Event_RTC_def Event_Div_def
  Event_Sqrt_def Event_MAX_def

section \<open>Interrupts\<close>

text \<open>\<^verbatim>\<open>ARM::Halt\<close>\<close>

definition ARM_Halt :: "nat \<Rightarrow> u8 \<Rightarrow> nds \<Rightarrow> nds" where
  "ARM_Halt cpu halt s =
     (if halt = 2 \<and> ARM_Halted s cpu = 1 then s
      else s\<lparr>ARM_Halted := (ARM_Halted s)(cpu := halt)\<rparr>)"

definition UpdateIRQ :: "nat \<Rightarrow> nds \<Rightarrow> nds" where
  "UpdateIRQ cpu s =
     (if tst (IME s cpu) 1 then
        let irq = of_cond (tst (IE s cpu) (IFl s cpu));
            irq = (if ConsoleType s = 1 \<and> cpu \<noteq> 0 then irq OR of_cond (tst (IE2 s) (IF2 s)) else irq)
        in s\<lparr>ARM_IRQ := (ARM_IRQ s)(cpu := irq)\<rparr>
      else s\<lparr>ARM_IRQ := (ARM_IRQ s)(cpu := 0)\<rparr>)"

definition SetIRQ :: "nat \<Rightarrow> nat \<Rightarrow> nds \<Rightarrow> nds" where
  "SetIRQ cpu irq s =
     (let s = UpdateIRQ cpu (s\<lparr>IFl := (IFl s)(cpu := IFl s cpu OR shl 1 irq)\<rparr>) in
      if cpu = 1 \<and> tst (CPUStop s) CPUStop_Sleep \<and> tst (IE s 1) (shl 1 irq)
      then s\<lparr>CPUStop := (CPUStop s AND NOT CPUStop_Sleep) OR CPUStop_Wakeup,
             ext_calls := ext_calls s @ [GPU3D_RestartFrame]\<rparr>
      else s)"

definition ClearIRQ :: "nat \<Rightarrow> nat \<Rightarrow> nds \<Rightarrow> nds" where
  "ClearIRQ cpu irq s =
     UpdateIRQ cpu (s\<lparr>IFl := (IFl s)(cpu := IFl s cpu AND NOT (shl 1 irq))\<rparr>)"

definition SetIRQ2 :: "nat \<Rightarrow> nds \<Rightarrow> nds" where
  "SetIRQ2 irq s = UpdateIRQ 1 (s\<lparr>IF2 := IF2 s OR shl 1 irq\<rparr>)"

definition ClearIRQ2 :: "nat \<Rightarrow> nds \<Rightarrow> nds" where
  "ClearIRQ2 irq s = UpdateIRQ 1 (s\<lparr>IF2 := IF2 s AND NOT (shl 1 irq)\<rparr>)"

definition HaltInterrupted :: "nat \<Rightarrow> nds \<Rightarrow> bool" where
  "HaltInterrupted cpu s =
     (if cpu = 0 \<and> \<not> tst (IME s 0) 1 then False
      else if tst (IFl s cpu) (IE s cpu) then True
      else if ConsoleType s = 1 \<and> cpu \<noteq> 0 \<and> tst (IF2 s) (IE2 s) then True
      else False)"

text \<open>\<^verbatim>\<open>GPU3D::CheckFIFOIRQ\<close>, called when the ARM9 acknowledges interrupts.\<close>

definition CheckFIFOIRQ :: "nds \<Rightarrow> nds" where
  "CheckFIFOIRQ s =
     (let mode = shr (GXStat s) 30;
          irq = (if mode = 1 then CmdFIFO_Level s < 128
                 else if mode = 2 then CmdFIFO_Level s = 0 else False)
      in if irq then SetIRQ 0 IRQ_GXFIFO s else ClearIRQ 0 IRQ_GXFIFO s)"

text \<open>The interrupt registers, written by the CPUs (32-bit accesses).\<close>

definition WriteIME :: "nat \<Rightarrow> u32 \<Rightarrow> nds \<Rightarrow> nds" where
  "WriteIME cpu val s = UpdateIRQ cpu (s\<lparr>IME := (IME s)(cpu := val AND 1)\<rparr>)"

definition WriteIE :: "nat \<Rightarrow> u32 \<Rightarrow> nds \<Rightarrow> nds" where
  "WriteIE cpu val s = UpdateIRQ cpu (s\<lparr>IE := (IE s)(cpu := val)\<rparr>)"

definition ARM9_WriteIF :: "u32 \<Rightarrow> nds \<Rightarrow> nds" where
  "ARM9_WriteIF val s =
     UpdateIRQ 0 (CheckFIFOIRQ (s\<lparr>IFl := (IFl s)(0 := IFl s 0 AND NOT val)\<rparr>))"

definition ARM7_WriteIF :: "u32 \<Rightarrow> nds \<Rightarrow> nds" where
  "ARM7_WriteIF val s = UpdateIRQ 1 (s\<lparr>IFl := (IFl s)(1 := IFl s 1 AND NOT val)\<rparr>)"

definition DSi_WriteIE2 :: "u32 \<Rightarrow> nds \<Rightarrow> nds" where
  "DSi_WriteIE2 val s = UpdateIRQ 1 (s\<lparr>IE2 := val AND 0x7FF7\<rparr>)"

definition DSi_WriteIF2 :: "u32 \<Rightarrow> nds \<Rightarrow> nds" where
  "DSi_WriteIF2 val s = UpdateIRQ 1 (s\<lparr>IF2 := IF2 s AND NOT (val AND 0x7FF7)\<rparr>)"

section \<open>Stopping the CPUs, sleep mode\<close>

definition StopCPU :: "nat \<Rightarrow> u32 \<Rightarrow> nds \<Rightarrow> nds" where
  "StopCPU cpu m s =
     (if cpu \<noteq> 0 then ARM_Halt 1 2 (s\<lparr>CPUStop := CPUStop s OR shl m 16\<rparr>)
      else ARM_Halt 0 2 (s\<lparr>CPUStop := CPUStop s OR m\<rparr>))"

definition ResumeCPU :: "nat \<Rightarrow> u32 \<Rightarrow> nds \<Rightarrow> nds" where
  "ResumeCPU cpu m s =
     (let m = (if cpu \<noteq> 0 then shl m 16 else m) in s\<lparr>CPUStop := CPUStop s AND NOT m\<rparr>)"

definition GXFIFOUnstall :: "nds \<Rightarrow> nds" where
  "GXFIFOUnstall s = s\<lparr>CPUStop := CPUStop s AND NOT CPUStop_GXStall\<rparr>"

definition EnterSleepMode :: "nds \<Rightarrow> nds" where
  "EnterSleepMode s =
     (if tst (CPUStop s) CPUStop_Sleep then s
      else ARM_Halt 1 2 (s\<lparr>CPUStop := CPUStop s OR CPUStop_Sleep\<rparr>))"

section \<open>Keys and the lid\<close>

definition CheckKeyIRQ :: "nat \<Rightarrow> u32 \<Rightarrow> u32 \<Rightarrow> nds \<Rightarrow> nds" where
  "CheckKeyIRQ cpu oldkey newkey s =
     (let cnt = KeyCnt s cpu in
      if \<not> tst cnt (shl 1 14) then s
      else
        let m = ucast (cnt AND 0x03FF);
            oldkey = oldkey AND m;
            newkey = newkey AND m;
            (oldmatch, newmatch) =
              (if tst cnt (shl 1 15) then (oldkey = 0, newkey = 0) else (oldkey \<noteq> m, newkey \<noteq> m))
        in if \<not> oldmatch \<and> newmatch then SetIRQ cpu IRQ_Keypad s else s)"

definition SetKeyMask :: "u32 \<Rightarrow> nds \<Rightarrow> nds" where
  "SetKeyMask m s =
     (let key_lo = m AND 0x3FF;
          key_hi = shr m 10 AND 0x3;
          oldkey = KeyInput s;
          s = s\<lparr>KeyInput := (KeyInput s AND 0xFFFCFC00) OR (key_lo OR shl key_hi 16)\<rparr>
      in CheckKeyIRQ 1 oldkey (KeyInput s) (CheckKeyIRQ 0 oldkey (KeyInput s) s))"

definition IsLidClosed :: "nds \<Rightarrow> bool" where
  "IsLidClosed s \<longleftrightarrow> tst (KeyInput s) (shl 1 23)"

definition SetLidClosed :: "bool \<Rightarrow> nds \<Rightarrow> nds" where
  "SetLidClosed closed s =
     (if closed then s\<lparr>KeyInput := KeyInput s OR shl 1 23\<rparr>
      else SetIRQ 1 IRQ_LidOpen (s\<lparr>KeyInput := KeyInput s AND NOT (shl 1 23)\<rparr>))"

section \<open>The interrupt lines follow the registers\<close>

text \<open>What the interrupt line of a CPU should be, from the registers alone.\<close>

definition irq_pending :: "nat \<Rightarrow> nds \<Rightarrow> bool" where
  "irq_pending cpu s \<longleftrightarrow>
     tst (IE s cpu) (IFl s cpu) \<or> (ConsoleType s = 1 \<and> cpu \<noteq> 0 \<and> tst (IE2 s) (IF2 s))"

definition irq_line :: "nat \<Rightarrow> nds \<Rightarrow> u8" where
  "irq_line cpu s = of_cond (tst (IME s cpu) 1 \<and> irq_pending cpu s)"

definition irq_ok :: "nds \<Rightarrow> bool" where
  "irq_ok s \<longleftrightarrow> ARM_IRQ s 0 = irq_line 0 s \<and> ARM_IRQ s 1 = irq_line 1 s"

lemma UpdateIRQ_eq: "UpdateIRQ cpu s = s\<lparr>ARM_IRQ := (ARM_IRQ s)(cpu := irq_line cpu s)\<rparr>"
proof -
  have line: "(if c then of_cond x OR of_cond y else of_cond x) = of_cond (x \<or> c \<and> y)" for c x y
    by (simp add: of_cond_or)
  show ?thesis
    unfolding UpdateIRQ_def irq_line_def irq_pending_def Let_def line
    by (cases "tst (IME s cpu) 1"; simp only: if_True if_False simp_thms conj_assoc of_cond_simps)
qed

lemma irq_line_cong:
  "IME s cpu = IME t cpu \<Longrightarrow> IE s cpu = IE t cpu \<Longrightarrow> IFl s cpu = IFl t cpu \<Longrightarrow>
   ConsoleType s = ConsoleType t \<Longrightarrow> (cpu = 0 \<or> (IE2 s = IE2 t \<and> IF2 s = IF2 t)) \<Longrightarrow>
   irq_line cpu s = irq_line cpu t"
  by (auto simp: irq_line_def irq_pending_def)

text \<open>A step that recomputes the line of one CPU and leaves the registers of the other alone
  keeps both lines right.\<close>

lemma irq_line_ARM_IRQ [simp]: "irq_line cpu (s\<lparr>ARM_IRQ := a\<rparr>) = irq_line cpu s"
  by (simp add: irq_line_def irq_pending_def)

lemma irq_ok_UpdateIRQ:
  assumes "irq_ok s" "cpu < 2"
    and "ConsoleType t = ConsoleType s" "ARM_IRQ t = ARM_IRQ s"
    and "\<forall>c < 2. c \<noteq> cpu \<longrightarrow> IME t c = IME s c \<and> IE t c = IE s c \<and> IFl t c = IFl s c"
    and "cpu = 0 \<longrightarrow> IE2 t = IE2 s \<and> IF2 t = IF2 s"
  shows "irq_ok (UpdateIRQ cpu t)"
proof -
  have "cpu = 0 \<or> cpu = 1" using assms(2) by auto
  then have "irq_line (1 - cpu) t = irq_line (1 - cpu) s"
    using assms by (intro irq_line_cong) auto
  with \<open>cpu = 0 \<or> cpu = 1\<close> assms(1,4) show ?thesis
    by (auto simp: UpdateIRQ_eq irq_ok_def)
qed

lemma irq_ok_frame:
  assumes "irq_ok s"
    and "ConsoleType t = ConsoleType s" "ARM_IRQ t = ARM_IRQ s" "IME t = IME s" "IE t = IE s"
      "IFl t = IFl s" "IE2 t = IE2 s" "IF2 t = IF2 s"
  shows "irq_ok t"
  using assms by (simp add: irq_ok_def irq_line_def irq_pending_def)

lemma SetIRQ_irq_ok: "irq_ok s \<Longrightarrow> cpu < 2 \<Longrightarrow> irq_ok (SetIRQ cpu irq s)"
proof -
  assume s: "irq_ok s" "cpu < 2"
  let ?t = "UpdateIRQ cpu (s\<lparr>IFl := (IFl s)(cpu := IFl s cpu OR shl 1 irq)\<rparr>)"
  have "irq_ok ?t" by (rule irq_ok_UpdateIRQ [OF s]) auto
  then show ?thesis by (auto simp: SetIRQ_def Let_def elim: irq_ok_frame)
qed

lemma ClearIRQ_irq_ok: "irq_ok s \<Longrightarrow> cpu < 2 \<Longrightarrow> irq_ok (ClearIRQ cpu irq s)"
  unfolding ClearIRQ_def by (erule irq_ok_UpdateIRQ) auto

lemma SetIRQ2_irq_ok: "irq_ok s \<Longrightarrow> irq_ok (SetIRQ2 irq s)"
  unfolding SetIRQ2_def by (erule irq_ok_UpdateIRQ) auto

lemma ClearIRQ2_irq_ok: "irq_ok s \<Longrightarrow> irq_ok (ClearIRQ2 irq s)"
  unfolding ClearIRQ2_def by (erule irq_ok_UpdateIRQ) auto

lemma CheckFIFOIRQ_irq_ok: "irq_ok s \<Longrightarrow> irq_ok (CheckFIFOIRQ s)"
  by (simp add: CheckFIFOIRQ_def Let_def SetIRQ_irq_ok ClearIRQ_irq_ok)

lemma WriteIME_irq_ok: "irq_ok s \<Longrightarrow> cpu < 2 \<Longrightarrow> irq_ok (WriteIME cpu val s)"
  unfolding WriteIME_def by (erule irq_ok_UpdateIRQ) auto

lemma WriteIE_irq_ok: "irq_ok s \<Longrightarrow> cpu < 2 \<Longrightarrow> irq_ok (WriteIE cpu val s)"
  unfolding WriteIE_def by (erule irq_ok_UpdateIRQ) auto

lemma ARM7_WriteIF_irq_ok: "irq_ok s \<Longrightarrow> irq_ok (ARM7_WriteIF val s)"
  unfolding ARM7_WriteIF_def by (erule irq_ok_UpdateIRQ) auto

lemma DSi_WriteIE2_irq_ok: "irq_ok s \<Longrightarrow> irq_ok (DSi_WriteIE2 val s)"
  unfolding DSi_WriteIE2_def by (erule irq_ok_UpdateIRQ) auto

lemma DSi_WriteIF2_irq_ok: "irq_ok s \<Longrightarrow> irq_ok (DSi_WriteIF2 val s)"
  unfolding DSi_WriteIF2_def by (erule irq_ok_UpdateIRQ) auto

text \<open>What \<open>SetIRQ\<close> and \<open>ClearIRQ\<close> leave alone.\<close>

lemma SetIRQ_IFl: "IFl (SetIRQ cpu irq s) = (IFl s)(cpu := IFl s cpu OR shl 1 irq)"
  by (simp add: SetIRQ_def UpdateIRQ_eq Let_def)

lemma ClearIRQ_IFl: "IFl (ClearIRQ cpu irq s) = (IFl s)(cpu := IFl s cpu AND NOT (shl 1 irq))"
  by (simp add: ClearIRQ_def UpdateIRQ_eq)

lemma ClearIRQ_frame [simp]:
  "IME (ClearIRQ cpu irq s) = IME s" "IE (ClearIRQ cpu irq s) = IE s"
  "IE2 (ClearIRQ cpu irq s) = IE2 s" "IF2 (ClearIRQ cpu irq s) = IF2 s"
  "ConsoleType (ClearIRQ cpu irq s) = ConsoleType s"
  by (simp_all add: ClearIRQ_def UpdateIRQ_eq)

lemma SetIRQ_frame [simp]:
  "ConsoleType (SetIRQ cpu irq s) = ConsoleType s" "CurCPU (SetIRQ cpu irq s) = CurCPU s"
  "SchedList (SetIRQ cpu irq s) = SchedList s" "SchedListMask (SetIRQ cpu irq s) = SchedListMask s"
  "SysTimestamp (SetIRQ cpu irq s) = SysTimestamp s"
  "ARM9Timestamp (SetIRQ cpu irq s) = ARM9Timestamp s" "ARM9Target (SetIRQ cpu irq s) = ARM9Target s"
  "ARM7Timestamp (SetIRQ cpu irq s) = ARM7Timestamp s" "ARM7Target (SetIRQ cpu irq s) = ARM7Target s"
  "ARM9ClockShift (SetIRQ cpu irq s) = ARM9ClockShift s"
  "IME (SetIRQ cpu irq s) = IME s" "IE (SetIRQ cpu irq s) = IE s"
  "IE2 (SetIRQ cpu irq s) = IE2 s" "IF2 (SetIRQ cpu irq s) = IF2 s"
  "ARM_Halted (SetIRQ cpu irq s) = ARM_Halted s"
  "Timers (SetIRQ cpu irq s) = Timers s" "TimerCheckMask (SetIRQ cpu irq s) = TimerCheckMask s"
  "TimerTimestamp (SetIRQ cpu irq s) = TimerTimestamp s"
  "KeyInput (SetIRQ cpu irq s) = KeyInput s" "KeyCnt (SetIRQ cpu irq s) = KeyCnt s"
  "RCnt (SetIRQ cpu irq s) = RCnt s"
  "IPCSync9 (SetIRQ cpu irq s) = IPCSync9 s" "IPCSync7 (SetIRQ cpu irq s) = IPCSync7 s"
  "IPCFIFOCnt9 (SetIRQ cpu irq s) = IPCFIFOCnt9 s" "IPCFIFOCnt7 (SetIRQ cpu irq s) = IPCFIFOCnt7 s"
  "IPCFIFO9 (SetIRQ cpu irq s) = IPCFIFO9 s" "IPCFIFO7 (SetIRQ cpu irq s) = IPCFIFO7 s"
  "RTC (SetIRQ cpu irq s) = RTC s"
  "DivCnt (SetIRQ cpu irq s) = DivCnt s" "SqrtCnt (SetIRQ cpu irq s) = SqrtCnt s"
  "GXStat (SetIRQ cpu irq s) = GXStat s" "CmdFIFO_Level (SetIRQ cpu irq s) = CmdFIFO_Level s"
  by (simp_all add: SetIRQ_def UpdateIRQ_eq Let_def)

lemma CheckFIFOIRQ_frame [simp]:
  "IME (CheckFIFOIRQ s) = IME s" "IE (CheckFIFOIRQ s) = IE s"
  "IE2 (CheckFIFOIRQ s) = IE2 s" "IF2 (CheckFIFOIRQ s) = IF2 s"
  "ConsoleType (CheckFIFOIRQ s) = ConsoleType s"
  "IFl (CheckFIFOIRQ s) 1 = IFl s 1"
  by (simp_all add: CheckFIFOIRQ_def Let_def SetIRQ_IFl ClearIRQ_IFl)

lemma ARM9_WriteIF_irq_ok:
  assumes "irq_ok s"
  shows "irq_ok (ARM9_WriteIF val s)"
proof -
  let ?t = "s\<lparr>IFl := (IFl s)(0 := IFl s 0 AND NOT val)\<rparr>"
  have "UpdateIRQ 0 (CheckFIFOIRQ ?t) = CheckFIFOIRQ ?t"
    by (simp add: CheckFIFOIRQ_def SetIRQ_def ClearIRQ_def UpdateIRQ_eq Let_def)
  moreover have "irq_ok (UpdateIRQ 0 ?t)"
    by (rule irq_ok_UpdateIRQ [OF assms]) auto
  ultimately show ?thesis
    by (auto simp: ARM9_WriteIF_def CheckFIFOIRQ_def SetIRQ_def ClearIRQ_def UpdateIRQ_eq Let_def irq_ok_def
        irq_line_def irq_pending_def)
qed

end
