(* ===== verification/Sched.thy ===== *)
theory Sched
  imports Nds
begin

text \<open>
  The event scheduler of \<^verbatim>\<open>src/src/NDS.cpp\<close>: at most one pending event per component, a
  bit mask of the pending ones, and the two loops that pick the next target time and run
  what is due. The event functions are the parameter \<open>handler\<close> (the code's
  \<^verbatim>\<open>evt.Funcs[evt.FuncID](evt.That, evt.Param)\<close>); the locale \<open>event_handlers\<close> says what the
  scheduler relies on, and theory \<open>System\<close> interprets it on the modelled handlers.
\<close>

section \<open>The code\<close>

definition kMaxIterationCycles :: u64 where "kMaxIterationCycles = 64"
definition kIterationCycleMargin :: u64 where "kIterationCycleMargin = 8"

text \<open>The loop over the events: \<open>n\<close> events left, \<open>i\<close> the current one.\<close>

fun next_target_loop :: "nat \<Rightarrow> nat \<Rightarrow> u32 \<Rightarrow> u64 \<Rightarrow> nds \<Rightarrow> u64" where
  "next_target_loop 0 i msk minEvent s = minEvent"
| "next_target_loop (Suc n) i msk minEvent s =
     (if msk = 0 then minEvent
      else next_target_loop n (i + 1) (shr msk 1)
        (if tst msk 1 \<and> evt_Timestamp (SchedList s i) < minEvent
         then evt_Timestamp (SchedList s i) else minEvent) s)"

definition NextTarget :: "nds \<Rightarrow> u64" where
  "NextTarget s =
     (let minEvent = next_target_loop Event_MAX 0 (SchedListMask s) (NOT 0) s;
          mx = SysTimestamp s + kMaxIterationCycles
      in if minEvent < mx + kIterationCycleMargin then minEvent else mx)"

fun run_system_loop ::
  "(nat \<Rightarrow> u32 \<Rightarrow> u32 \<Rightarrow> nds \<Rightarrow> nds) \<Rightarrow> nat \<Rightarrow> nat \<Rightarrow> u32 \<Rightarrow> nds \<Rightarrow> nds" where
  "run_system_loop handler 0 i msk s = s"
| "run_system_loop handler (Suc n) i msk s =
     (if msk = 0 then s
      else run_system_loop handler n (i + 1) (shr msk 1)
        (if tst msk 1 \<and> evt_Timestamp (SchedList s i) \<le> SysTimestamp s
         then handler i (FuncID (SchedList s i)) (Param (SchedList s i))
                (s\<lparr>SchedListMask := SchedListMask s AND NOT (shl 1 i)\<rparr>)
         else s))"

definition RunSystem :: "(nat \<Rightarrow> u32 \<Rightarrow> u32 \<Rightarrow> nds \<Rightarrow> nds) \<Rightarrow> u64 \<Rightarrow> nds \<Rightarrow> nds" where
  "RunSystem handler timestamp s =
     (let s = s\<lparr>SysTimestamp := timestamp\<rparr>
      in run_system_loop handler Event_MAX 0 (SchedListMask s) s)"

fun next_target_sleep_loop :: "nat \<Rightarrow> nat \<Rightarrow> u32 \<Rightarrow> u64 \<Rightarrow> nds \<Rightarrow> u64" where
  "next_target_sleep_loop 0 i msk minEvent s = minEvent"
| "next_target_sleep_loop (Suc n) i msk minEvent s =
     (if msk = 0 then minEvent
      else next_target_sleep_loop n (i + 1) (shr msk 1)
        (if (i = Event_SPU \<or> i = Event_RTC) \<and> tst msk 1 \<and> evt_Timestamp (SchedList s i) < minEvent
         then evt_Timestamp (SchedList s i) else minEvent) s)"

definition NextTargetSleep :: "nds \<Rightarrow> u64" where
  "NextTargetSleep s = next_target_sleep_loop Event_MAX 0 (SchedListMask s) (NOT 0) s"

fun run_system_sleep_loop ::
  "(nat \<Rightarrow> u32 \<Rightarrow> u32 \<Rightarrow> nds \<Rightarrow> nds) \<Rightarrow> u64 \<Rightarrow> nat \<Rightarrow> nat \<Rightarrow> u32 \<Rightarrow> nds \<Rightarrow> nds" where
  "run_system_sleep_loop handler offset 0 i msk s = s"
| "run_system_sleep_loop handler offset (Suc n) i msk s =
     (if msk = 0 then s
      else run_system_sleep_loop handler offset n (i + 1) (shr msk 1)
        (if tst msk 1 \<and> evt_Timestamp (SchedList s i) \<le> SysTimestamp s then
           if i = Event_RTC
           then handler i (FuncID (SchedList s i)) (Param (SchedList s i))
                  (s\<lparr>SchedListMask := SchedListMask s AND NOT (shl 1 i)\<rparr>)
           else s\<lparr>SchedList := (SchedList s)
                    (i := (SchedList s i)\<lparr>evt_Timestamp := evt_Timestamp (SchedList s i) + offset\<rparr>)\<rparr>
         else s))"

definition RunSystemSleep :: "(nat \<Rightarrow> u32 \<Rightarrow> u32 \<Rightarrow> nds \<Rightarrow> nds) \<Rightarrow> u64 \<Rightarrow> nds \<Rightarrow> nds" where
  "RunSystemSleep handler timestamp s =
     (let offset = timestamp - SysTimestamp s;
          s = s\<lparr>SysTimestamp := timestamp\<rparr>
      in run_system_sleep_loop handler offset Event_MAX 0 (SchedListMask s) s)"

definition Reschedule :: "u64 \<Rightarrow> nds \<Rightarrow> nds" where
  "Reschedule target s =
     (if CurCPU s = 0 then
        (if target < shr (ARM9Target s) (ARM9ClockShift s)
         then s\<lparr>ARM9Target := shl target (ARM9ClockShift s)\<rparr> else s)
      else
        (if target < ARM7Target s then s\<lparr>ARM7Target := target\<rparr> else s))"

definition ScheduleEvent :: "nat \<Rightarrow> bool \<Rightarrow> s32 \<Rightarrow> u32 \<Rightarrow> u32 \<Rightarrow> nds \<Rightarrow> nds" where
  "ScheduleEvent ev periodic delay funcid param s =
     (if tst (SchedListMask s) (shl 1 ev) then s
      else
        let evt = SchedList s ev;
            ts = (if periodic then evt_Timestamp evt + scast delay
                  else if CurCPU s = 0 then shr (ARM9Timestamp s) (ARM9ClockShift s) + scast delay
                  else ARM7Timestamp s + scast delay)
        in Reschedule ts
             (s\<lparr>SchedList := (SchedList s)(ev := \<lparr>evt_Timestamp = ts, FuncID = funcid, Param = param\<rparr>),
                SchedListMask := SchedListMask s OR shl 1 ev\<rparr>))"

definition CancelEvent :: "nat \<Rightarrow> nds \<Rightarrow> nds" where
  "CancelEvent ev s = s\<lparr>SchedListMask := SchedListMask s AND NOT (shl 1 ev)\<rparr>"

section \<open>The next target\<close>

definition pending :: "nat \<Rightarrow> nds \<Rightarrow> bool" where
  "pending i s \<longleftrightarrow> bit (SchedListMask s) i"

definition event_time :: "nat \<Rightarrow> nds \<Rightarrow> u64" where
  "event_time i s = evt_Timestamp (SchedList s i)"

lemma next_target_loop_le: "next_target_loop n i msk m s \<le> m"
proof (induction n arbitrary: i msk m)
  case (Suc n)
  from Suc.IH show ?case
    by (simp only: next_target_loop.simps) (smt (verit) order.strict_implies_order order.trans order.refl)
qed simp

lemma next_target_loop_pending:
  "bit msk j \<Longrightarrow> j < n \<Longrightarrow> next_target_loop n i msk m s \<le> event_time (i + j) s"
proof (induction n arbitrary: i j msk m)
  case (Suc n)
  have ne: "msk \<noteq> 0" using Suc.prems(1) by auto
  show ?case
  proof (cases j)
    case 0
    then have "tst msk 1" using Suc.prems(1) by (simp add: tst_1)
    with ne 0 next_target_loop_le [of n "i + 1" "shr msk 1" "evt_Timestamp (SchedList s i)" s]
      next_target_loop_le [of n "i + 1" "shr msk 1" m s]
    show ?thesis
      by (cases "evt_Timestamp (SchedList s i) < m") (simp_all add: event_time_def)
  next
    case (Suc j')
    with Suc.prems have "bit (shr msk 1) j'" "j' < n" by (simp_all add: bit_drop_bit_eq)
    then have "next_target_loop n (i + 1) (shr msk 1) m' s \<le> event_time (i + 1 + j') s" for m'
      by (rule Suc.IH)
    then show ?thesis using ne Suc by simp
  qed
qed simp

text \<open>The time up to which the CPUs run never passes a pending event.\<close>

theorem NextTarget_le_pending:
  assumes "pending i s" "i < Event_MAX"
    and "unat (SysTimestamp s) + 72 < 2 ^ 64"
  shows "NextTarget s \<le> event_time i s"
proof -
  let ?m = "next_target_loop Event_MAX 0 (SchedListMask s) (NOT 0) s"
  have le: "?m \<le> event_time i s"
    using next_target_loop_pending [of "SchedListMask s" i Event_MAX 0 "NOT 0" s] assms
    by (simp add: pending_def)
  have "SysTimestamp s + 64 \<le> SysTimestamp s + 64 + 8"
    using assms(3) by (simp add: unat_le_iff unat_word_ariths)
  with le show ?thesis
    by (auto simp: NextTarget_def Let_def kMaxIterationCycles_def kIterationCycleMargin_def not_less
        intro: order.trans)
qed

theorem NextTarget_le_pending_witness: "NextTarget (blank_nds\<lparr>SchedListMask := 4\<rparr>) \<le> event_time 2 (blank_nds\<lparr>SchedListMask := 4\<rparr>)"
  using NextTarget_le_pending [of 2 "blank_nds\<lparr>SchedListMask := 4\<rparr>"]
  by (simp add: blank_nds_def pending_def event_numbers)

text \<open>One iteration of the emulation loop is at most 71 cycles long, whatever is pending.\<close>

theorem NextTarget_bounded:
  assumes "unat (SysTimestamp s) + 72 < 2 ^ 64"
  shows "unat (NextTarget s) < unat (SysTimestamp s) + 72"
proof -
  have "unat (SysTimestamp s + 64 + 8) = unat (SysTimestamp s) + 72"
    "unat (SysTimestamp s + 64) = unat (SysTimestamp s) + 64"
    using assms by (simp_all add: unat_word_ariths)
  then show ?thesis
    by (simp add: NextTarget_def Let_def kMaxIterationCycles_def kIterationCycleMargin_def
        unat_lt_iff)
qed

theorem NextTarget_bounded_witness: "unat (NextTarget (blank_nds\<lparr>SysTimestamp := 100\<rparr>)) < 172"
  using NextTarget_bounded [of "blank_nds\<lparr>SysTimestamp := 100\<rparr>"] by (simp add: blank_nds_def)

section \<open>Running what is due\<close>

definition due :: "nat \<Rightarrow> nds \<Rightarrow> bool" where
  "due i s \<longleftrightarrow> pending i s \<and> event_time i s \<le> SysTimestamp s"

text \<open>What the scheduler relies on: an event function works on the state with its own event
  taken off the list, keeps the invariant and the clock, leaves the other pending events as
  they are, and schedules nothing that is due already.\<close>

locale event_handlers =
  fixes handler :: "nat \<Rightarrow> u32 \<Rightarrow> u32 \<Rightarrow> nds \<Rightarrow> nds"
    and inv :: "nds \<Rightarrow> bool"
  assumes keeps_inv:
      "inv s \<Longrightarrow> i < Event_MAX \<Longrightarrow> due i s \<Longrightarrow>
       inv (handler i (FuncID (SchedList s i)) (Param (SchedList s i)) (CancelEvent i s))"
    and keeps_time:
      "inv s \<Longrightarrow> i < Event_MAX \<Longrightarrow> due i s \<Longrightarrow>
       SysTimestamp (handler i (FuncID (SchedList s i)) (Param (SchedList s i)) (CancelEvent i s))
         = SysTimestamp s"
    and keeps_others:
      "inv s \<Longrightarrow> i < Event_MAX \<Longrightarrow> due i s \<Longrightarrow> j \<noteq> i \<Longrightarrow> pending j s \<Longrightarrow>
       pending j (handler i (FuncID (SchedList s i)) (Param (SchedList s i)) (CancelEvent i s)) \<and>
       event_time j (handler i (FuncID (SchedList s i)) (Param (SchedList s i)) (CancelEvent i s))
         = event_time j s"
    and schedules_later:
      "inv s \<Longrightarrow> i < Event_MAX \<Longrightarrow> due i s \<Longrightarrow> j = i \<or> \<not> pending j s \<Longrightarrow>
       \<not> due j (handler i (FuncID (SchedList s i)) (Param (SchedList s i)) (CancelEvent i s))"
begin

definition step :: "nat \<Rightarrow> nds \<Rightarrow> nds" where
  "step i s =
     (if due i s
      then handler i (FuncID (SchedList s i)) (Param (SchedList s i)) (CancelEvent i s) else s)"

lemma step_inv: "inv s \<Longrightarrow> i < Event_MAX \<Longrightarrow> inv (step i s)"
  by (simp add: step_def keeps_inv)

lemma step_time: "inv s \<Longrightarrow> i < Event_MAX \<Longrightarrow> SysTimestamp (step i s) = SysTimestamp s"
  by (simp add: step_def keeps_time)

lemma step_self: "inv s \<Longrightarrow> i < Event_MAX \<Longrightarrow> \<not> due i (step i s)"
  by (simp add: step_def schedules_later)

lemma step_other: "inv s \<Longrightarrow> i < Event_MAX \<Longrightarrow> j \<noteq> i \<Longrightarrow> pending j s \<Longrightarrow>
    pending j (step i s) \<and> event_time j (step i s) = event_time j s"
  by (simp add: step_def keeps_others)

lemma step_due: "inv s \<Longrightarrow> i < Event_MAX \<Longrightarrow> due j (step i s) \<Longrightarrow> j \<noteq> i \<and> due j s"
  using schedules_later [of s i j] step_other [of s i j] step_self [of s i] step_time [of s i]
  by (cases "due i s"; cases "pending j s"; cases "j = i") (auto simp: step_def due_def)

lemma run_system_loop_step:
  assumes "tst msk 1 = pending i s" "msk \<noteq> 0"
  shows "run_system_loop handler (Suc n) i msk s = run_system_loop handler n (i + 1) (shr msk 1) (step i s)"
  using assms by (simp add: step_def due_def event_time_def CancelEvent_def del: run_system_loop.simps(1))

text \<open>The loop works on a copy of the mask: the bits it has not reached yet are the events
  that are pending.\<close>

lemma run_system_loop_done:
  assumes "inv s" "i + n = Event_MAX"
    and "\<forall>j. bit msk j \<longrightarrow> pending (i + j) s"
    and "\<forall>j < Event_MAX. due j s \<longrightarrow> i \<le> j \<and> bit msk (j - i)"
  shows "inv (run_system_loop handler n i msk s) \<and>
    SysTimestamp (run_system_loop handler n i msk s) = SysTimestamp s \<and>
    (\<forall>j < Event_MAX. \<not> due j (run_system_loop handler n i msk s))"
  using assms
proof (induction n arbitrary: i msk s)
  case 0
  then show ?case by auto
next
  case (Suc n)
  show ?case
  proof (cases "msk = 0")
    case True
    with Suc.prems show ?thesis by auto
  next
    case False
    have i: "i < Event_MAX" using Suc.prems(2) by simp
    let ?s = "if tst msk 1 then step i s else s"
    have eq: "run_system_loop handler (Suc n) i msk s = run_system_loop handler n (i + 1) (shr msk 1) ?s"
    proof (cases "tst msk 1")
      case True
      then have "pending i s" using Suc.prems(3) [rule_format, of 0] by (simp add: tst_1)
      with True False show ?thesis by (simp add: run_system_loop_step del: run_system_loop.simps)
    qed (use False in simp)
    have inv: "inv ?s" and time: "SysTimestamp ?s = SysTimestamp s"
      using Suc.prems(1) i by (simp_all add: step_inv step_time)
    have later: "\<forall>j. bit (shr msk 1) j \<longrightarrow> pending (i + 1 + j) ?s"
    proof (intro allI impI)
      fix j assume "bit (shr msk 1) j"
      then have "pending (i + 1 + j) s"
        using Suc.prems(3) [rule_format, of "Suc j"] by (simp add: bit_drop_bit_eq)
      with step_other [OF Suc.prems(1) i, of "i + 1 + j"] show "pending (i + 1 + j) ?s" by simp
    qed
    have rest: "\<forall>j < Event_MAX. due j ?s \<longrightarrow> i + 1 \<le> j \<and> bit (shr msk 1) (j - (i + 1))"
    proof (intro allI impI)
      fix j assume j: "j < Event_MAX" and d: "due j ?s"
      have ds: "due j s" using d step_due [OF Suc.prems(1) i, of j] by (simp split: if_splits)
      with Suc.prems(4) j have b: "i \<le> j" "bit msk (j - i)" by auto
      have "j \<noteq> i"
      proof
        assume "j = i"
        with b have "tst msk 1" by (simp add: tst_1)
        with d \<open>j = i\<close> step_self [OF Suc.prems(1) i] show False by simp
      qed
      with b show "i + 1 \<le> j \<and> bit (shr msk 1) (j - (i + 1))"
        by (simp add: bit_drop_bit_eq Suc_diff_Suc)
    qed
    show ?thesis
      unfolding eq using Suc.IH [OF inv _ later rest] Suc.prems(2) time by simp
  qed
qed

lemma RunSystem_done:
  assumes "inv (s\<lparr>SysTimestamp := t\<rparr>)"
  shows "inv (RunSystem handler t s)" "SysTimestamp (RunSystem handler t s) = t"
    "j < Event_MAX \<Longrightarrow> \<not> due j (RunSystem handler t s)"
  using run_system_loop_done [OF assms, of 0 Event_MAX "SchedListMask s"]
  by (auto simp: RunSystem_def Let_def pending_def due_def)

end

section \<open>Scheduling\<close>

lemma Reschedule_frame [simp]:
  "SchedList (Reschedule t s) = SchedList s" "SchedListMask (Reschedule t s) = SchedListMask s"
  "SysTimestamp (Reschedule t s) = SysTimestamp s" "RTC (Reschedule t s) = RTC s"
  "CurCPU (Reschedule t s) = CurCPU s" "ARM9ClockShift (Reschedule t s) = ARM9ClockShift s"
  "ARM9Timestamp (Reschedule t s) = ARM9Timestamp s" "ARM7Timestamp (Reschedule t s) = ARM7Timestamp s"
  by (simp_all add: Reschedule_def)

lemma ScheduleEvent_frame [simp]:
  "SysTimestamp (ScheduleEvent ev p d f a s) = SysTimestamp s" "RTC (ScheduleEvent ev p d f a s) = RTC s"
  by (simp_all add: ScheduleEvent_def Let_def)

lemma pending_ScheduleEvent:
  "ev < 32 \<Longrightarrow> pending i (ScheduleEvent ev p d f a s) \<longleftrightarrow> i = ev \<or> pending i s"
  by (auto simp: ScheduleEvent_def Let_def pending_def bits)

lemma event_time_ScheduleEvent_other [simp]:
  "i \<noteq> ev \<Longrightarrow> event_time i (ScheduleEvent ev p d f a s) = event_time i s"
  by (simp add: ScheduleEvent_def Let_def event_time_def)

lemma event_time_ScheduleEvent_periodic:
  "\<not> pending ev s \<Longrightarrow> event_time ev (ScheduleEvent ev True d f a s) = event_time ev s + scast d"
  by (simp add: ScheduleEvent_def Let_def event_time_def pending_def bits)

lemma pending_CancelEvent: "pending i (CancelEvent ev s) \<longleftrightarrow> i \<noteq> ev \<and> pending i s"
  by (auto simp: CancelEvent_def pending_def bits)

lemma CancelEvent_frame [simp]:
  "event_time i (CancelEvent ev s) = event_time i s" "SysTimestamp (CancelEvent ev s) = SysTimestamp s"
  "RTC (CancelEvent ev s) = RTC s"
  by (simp_all add: CancelEvent_def event_time_def)

text \<open>A newly scheduled event never lies beyond the target time that the CPU being emulated runs to, so the CPU stops in time for it.\<close>

theorem ScheduleEvent_lowers_target:
  assumes "\<not> pending ev s"
    and "ARM9ClockShift s \<le> 2" and "unat (event_time ev (ScheduleEvent ev p d f a s)) < 2 ^ 62"
  shows "(if CurCPU s = 0 then shr (ARM9Target (ScheduleEvent ev p d f a s)) (ARM9ClockShift s)
          else ARM7Target (ScheduleEvent ev p d f a s)) \<le> event_time ev (ScheduleEvent ev p d f a s)"
proof -
  have shl: "shr (shl t (ARM9ClockShift s)) (ARM9ClockShift s) = t" if "unat t < 2 ^ 62" for t :: u64
  proof (rule bit_word_eqI)
    fix n assume "n < LENGTH(64)"
    have "\<not> bit t n" if "62 \<le> n"
      by (rule not_bit_small [OF \<open>unat t < 2 ^ 62\<close> that])
    with assms(2) show "bit (shr (shl t (ARM9ClockShift s)) (ARM9ClockShift s)) n = bit t n"
      by (cases "62 \<le> n") (auto simp: bit_drop_bit_eq bit_push_bit_iff dest: bit_imp_le_length)
  qed
  from assms show ?thesis
    by (auto simp: ScheduleEvent_def Let_def Reschedule_def pending_def bits event_time_def shl not_less
        split: if_splits)
qed

theorem ScheduleEvent_lowers_target_witness: "ARM9Target (ScheduleEvent 3 False 20 0 0 (blank_nds\<lparr>ARM9ClockShift := 0, ARM9Target := 64\<rparr>))
  \<le> event_time 3 (ScheduleEvent 3 False 20 0 0 (blank_nds\<lparr>ARM9ClockShift := 0, ARM9Target := 64\<rparr>))"
proof -
  let ?s = "blank_nds\<lparr>ARM9ClockShift := 0, ARM9Target := 64\<rparr>"
  have "\<not> pending 3 ?s" "ARM9ClockShift ?s \<le> 2" "CurCPU (ScheduleEvent 3 False 20 0 0 ?s) = 0" "CurCPU ?s = 0"
    "unat (event_time 3 (ScheduleEvent 3 False 20 0 0 ?s)) < 2 ^ 62"
    by (simp_all add: blank_nds_def pending_def event_time_def ScheduleEvent_def Reschedule_def Let_def)
  with ScheduleEvent_lowers_target [of 3 ?s False 20 0 0] show ?thesis by simp
qed

end
