(* ===== verification/MathUnit.thy ===== *)
theory MathUnit
  imports Sched
begin

text \<open>
  The divider and the square root unit of \<^verbatim>\<open>src/src/NDS.cpp\<close>. The 64-bit registers are pairs of
  32-bit words, low word first (the code's \<^verbatim>\<open>*(s64*)&DivNumerator[0]\<close> on a little-endian host).
\<close>

section \<open>The code\<close>

definition get64 :: "(nat \<Rightarrow> u32) \<Rightarrow> u64" where
  "get64 r = ucast (r 0) OR shl (ucast (r 1)) 32"

definition put64 :: "u64 \<Rightarrow> (nat \<Rightarrow> u32) \<Rightarrow> nat \<Rightarrow> u32" where
  "put64 v r = r(0 := ucast v, 1 := ucast (shr v 32))"

text \<open>The \<^verbatim>\<open>switch\<close> of \<open>DivDone\<close>.\<close>

definition div_switch :: "nds \<Rightarrow> nds" where
  "div_switch s =
     (let mode = DivCnt s AND 0x0003 in
      if mode = 0x0000 then
       let num = sint (DivNumerator s 0); den = sint (DivDenominator s 0) in
       if den = 0 then
         s\<lparr>DivQuotient := (DivQuotient s)(0 := if num < 0 then 1 else -1,
                                          1 := if num < 0 then -1 else 0),
           DivRemainder := put64 (word_of_int num) (DivRemainder s)\<rparr>
       else if num = - 0x80000000 \<and> den = -1 then
         s\<lparr>DivQuotient := put64 0x80000000 (DivQuotient s)\<rparr>
       else
         s\<lparr>DivQuotient := put64 (word_of_int (c_div num den)) (DivQuotient s),
           DivRemainder := put64 (word_of_int (c_mod num den)) (DivRemainder s)\<rparr>
     else if mode = 0x0001 \<or> mode = 0x0003 then
       let num = sint (get64 (DivNumerator s)); den = sint (DivDenominator s 0) in
       if den = 0 then
         s\<lparr>DivQuotient := put64 (if num < 0 then 1 else -1) (DivQuotient s),
           DivRemainder := put64 (word_of_int num) (DivRemainder s)\<rparr>
       else if num = - 0x8000000000000000 \<and> den = -1 then
         s\<lparr>DivQuotient := put64 0x8000000000000000 (DivQuotient s),
           DivRemainder := put64 0 (DivRemainder s)\<rparr>
       else
         s\<lparr>DivQuotient := put64 (word_of_int (c_div num den)) (DivQuotient s),
           DivRemainder := put64 (word_of_int (c_mod num den)) (DivRemainder s)\<rparr>
     else
       let num = sint (get64 (DivNumerator s)); den = sint (get64 (DivDenominator s)) in
       if den = 0 then
         s\<lparr>DivQuotient := put64 (if num < 0 then 1 else -1) (DivQuotient s),
           DivRemainder := put64 (word_of_int num) (DivRemainder s)\<rparr>
       else if num = - 0x8000000000000000 \<and> den = -1 then
         s\<lparr>DivQuotient := put64 0x8000000000000000 (DivQuotient s),
           DivRemainder := put64 0 (DivRemainder s)\<rparr>
       else
         s\<lparr>DivQuotient := put64 (word_of_int (c_div num den)) (DivQuotient s),
           DivRemainder := put64 (word_of_int (c_mod num den)) (DivRemainder s)\<rparr>)"

definition DivDone :: "u32 \<Rightarrow> nds \<Rightarrow> nds" where
  "DivDone param s =
     (let s = div_switch (s\<lparr>DivCnt := DivCnt s AND NOT 0xC000\<rparr>)
      in if DivDenominator s 0 OR DivDenominator s 1 = 0
         then s\<lparr>DivCnt := DivCnt s OR 0x4000\<rparr> else s)"

definition StartDiv :: "nds \<Rightarrow> nds" where
  "StartDiv s =
     (let s = CancelEvent Event_Div s;
          s = s\<lparr>DivCnt := DivCnt s OR 0x8000\<rparr>
      in ScheduleEvent Event_Div False (if DivCnt s AND 0x3 = 0 then 18 else 34) 0 0 s)"

text \<open>The square root loop; \<open>n\<close> iterations left.\<close>

fun sqrt_loop :: "nat \<Rightarrow> nat \<Rightarrow> u64 \<Rightarrow> u64 \<Rightarrow> u32 \<Rightarrow> u32" where
  "sqrt_loop 0 topshift val rem res = res"
| "sqrt_loop (Suc n) topshift val rem res =
     (let rem = shl rem 2 + (shr val topshift AND 0x3);
          val = shl val 2;
          res = shl res 1;
          prod = shl res 1 + 1
      in if rem \<ge> ucast prod then sqrt_loop n topshift val (rem - ucast prod) (res + 1)
         else sqrt_loop n topshift val rem res)"

definition SqrtDone :: "u32 \<Rightarrow> nds \<Rightarrow> nds" where
  "SqrtDone param s =
     (let s = s\<lparr>SqrtCnt := SqrtCnt s AND NOT 0x8000\<rparr>;
          (val, nbits, topshift) =
            (if tst (SqrtCnt s) 0x0001 then (get64 (SqrtVal s), 32, 62)
             else (ucast (SqrtVal s 0), 16, 30))
      in s\<lparr>SqrtRes := sqrt_loop nbits topshift val 0 0\<rparr>)"

definition StartSqrt :: "nds \<Rightarrow> nds" where
  "StartSqrt s =
     (let s = CancelEvent Event_Sqrt s;
          s = s\<lparr>SqrtCnt := SqrtCnt s OR 0x8000\<rparr>
      in ScheduleEvent Event_Sqrt False 13 0 0 s)"

section \<open>64-bit register pairs\<close>

lemma get64_put64 [simp]: "get64 (put64 v r) = v"
  by (rule bit_word_eqI)
    (auto simp: get64_def put64_def bit_or_iff bit_push_bit_iff bit_ucast_iff bit_drop_bit_eq)

text \<open>The operands as the unit reads them, by mode.\<close>

definition div_num :: "nds \<Rightarrow> int" where
  "div_num s = (if DivCnt s AND 3 = 0 then sint (DivNumerator s 0) else sint (get64 (DivNumerator s)))"

definition div_den :: "nds \<Rightarrow> int" where
  "div_den s = (if DivCnt s AND 3 = 2 then sint (get64 (DivDenominator s)) else sint (DivDenominator s 0))"

lemma mode_cases: "(x :: u16) AND 3 \<in> {0, 1, 2, 3}"
proof -
  have "x AND 3 = take_bit 2 x" by (simp add: take_bit_eq_mask mask_eq_exp_minus_1)
  then have "unat (x AND 3) < 4" by (simp add: unsigned_take_bit_eq take_bit_nat_eq_self take_bit_nat_def)
  then have "unat (x AND 3) \<in> {0, 1, 2, 3}" by auto
  then show ?thesis by (auto simp: word_eq_unat)
qed

lemma c_div_in_range:
  assumes "den \<noteq> 0" "\<not> (num = - (2 ^ 63) \<and> den = -1)" "- (2 ^ 63) \<le> num" "num < 2 ^ 63"
  shows "- (2 ^ 63) \<le> c_div num den" "c_div num den < 2 ^ 63"
proof -
  have abs: "\<bar>c_div num den\<bar> \<le> \<bar>num\<bar> div \<bar>den\<bar>" by (rule c_div_abs)
  have "\<bar>num\<bar> div \<bar>den\<bar> \<le> \<bar>num\<bar>" using assms(1) by (cases "num = 0") (auto intro!: int_div_le_self)
  with abs assms(3,4) show "- (2 ^ 63) \<le> c_div num den" by linarith
  show "c_div num den < 2 ^ 63"
  proof (cases "num = - (2 ^ 63)")
    case True
    show ?thesis
    proof (cases "den < 0")
      case True
      with assms(1,2) \<open>num = _\<close> have "2 \<le> \<bar>den\<bar>" by linarith
      then have "\<bar>num\<bar> div \<bar>den\<bar> \<le> \<bar>num\<bar> div 2" by (intro zdiv_mono2) auto
      with abs \<open>num = _\<close> show ?thesis by simp
    next
      case False
      have "0 \<le> \<bar>num\<bar> div \<bar>den\<bar>" using assms(1) by (simp add: pos_imp_zdiv_nonneg_iff)
      with False \<open>num = _\<close> assms(1) have "c_div num den \<le> 0" by (simp add: c_div_def)
      then show ?thesis by simp
    qed
  next
    case False
    with assms(3,4) abs \<open>\<bar>num\<bar> div \<bar>den\<bar> \<le> \<bar>num\<bar>\<close> show ?thesis by linarith
  qed
qed

lemma sint_word_of_int64: "- (2 ^ 63) \<le> i \<Longrightarrow> i < 2 ^ 63 \<Longrightarrow> sint (word_of_int i :: u64) = i"
  by (simp add: signed_of_int signed_take_bit_int_eq_self)

lemma div_num_range: "- (2 ^ 63) \<le> div_num s" "div_num s < 2 ^ 63"
  using sint_range_size [of "DivNumerator s 0"] sint_range_size [of "get64 (DivNumerator s)"]
  by (auto simp: div_num_def word_size)

text \<open>The switch reads the mode bits only, and \<open>DivDone\<close> adds the status bit.\<close>

lemma div_switch_frame [simp]:
  "DivCnt (div_switch s) = DivCnt s" "DivDenominator (div_switch s) = DivDenominator s"
  by (simp_all add: div_switch_def Let_def)

lemma div_switch_eq:
  "div_switch s =
    (let num = div_num s; den = div_den s in
     if den = 0 then
       s\<lparr>DivQuotient := (if DivCnt s AND 3 = 0
           then (DivQuotient s)(0 := if num < 0 then 1 else -1, 1 := if num < 0 then -1 else 0)
           else put64 (if num < 0 then 1 else -1) (DivQuotient s)),
         DivRemainder := put64 (word_of_int num) (DivRemainder s)\<rparr>
     else if num = - (if DivCnt s AND 3 = 0 then 0x80000000 else 0x8000000000000000) \<and> den = -1 then
       (if DivCnt s AND 3 = 0 then s\<lparr>DivQuotient := put64 0x80000000 (DivQuotient s)\<rparr>
        else s\<lparr>DivQuotient := put64 0x8000000000000000 (DivQuotient s),
               DivRemainder := put64 0 (DivRemainder s)\<rparr>)
     else
       s\<lparr>DivQuotient := put64 (word_of_int (c_div num den)) (DivQuotient s),
         DivRemainder := put64 (word_of_int (c_mod num den)) (DivRemainder s)\<rparr>)"
proof -
  consider "DivCnt s AND 3 = 0" | "DivCnt s AND 3 = 1 \<or> DivCnt s AND 3 = 3" | "DivCnt s AND 3 = 2"
    using mode_cases [of "DivCnt s"] by auto
  then show ?thesis
  proof cases
    case 1
    then show ?thesis
      unfolding div_switch_def Let_def div_num_def div_den_def by (simp del: fun_upd_apply)
  next
    case 2
    then have ne: "DivCnt s AND 3 \<noteq> 0" "DivCnt s AND 3 \<noteq> 2" by auto
    show ?thesis
      unfolding div_switch_def Let_def div_num_def div_den_def using 2 by (simp only: ne if_True if_False simp_thms)
  next
    case 3
    then have ne: "DivCnt s AND 3 \<noteq> 0" "DivCnt s AND 3 \<noteq> 1" "DivCnt s AND 3 \<noteq> 3"
        "(DivCnt s AND 3 = 2) = True" by auto
    show ?thesis
      unfolding div_switch_def Let_def div_num_def div_den_def by (simp only: ne if_True if_False simp_thms)
  qed
qed

text \<open>\<open>DivDone\<close> first takes the busy bit and the status bits off the register.\<close>

lemma DivDone_eq:
  "DivQuotient (DivDone p s) =
    (let num = div_num s; den = div_den s in
     if den = 0 then
       (if DivCnt s AND 3 = 0
        then (DivQuotient s)(0 := if num < 0 then 1 else -1, 1 := if num < 0 then -1 else 0)
        else put64 (if num < 0 then 1 else -1) (DivQuotient s))
     else if num = - (if DivCnt s AND 3 = 0 then 0x80000000 else 0x8000000000000000) \<and> den = -1
     then put64 (if DivCnt s AND 3 = 0 then 0x80000000 else 0x8000000000000000) (DivQuotient s)
     else put64 (word_of_int (c_div num den)) (DivQuotient s))"
  "DivRemainder (DivDone p s) =
    (let num = div_num s; den = div_den s in
     if den = 0 then put64 (word_of_int num) (DivRemainder s)
     else if num = - (if DivCnt s AND 3 = 0 then 0x80000000 else 0x8000000000000000) \<and> den = -1
     then (if DivCnt s AND 3 = 0 then DivRemainder s else put64 0 (DivRemainder s))
     else put64 (word_of_int (c_mod num den)) (DivRemainder s))"
proof -
  obtain t where t: "t = s\<lparr>DivCnt := DivCnt s AND NOT 0xC000\<rparr>" by simp
  have regs: "DivQuotient (DivDone p s) = DivQuotient (div_switch t)"
    "DivRemainder (DivDone p s) = DivRemainder (div_switch t)"
    by (simp_all add: DivDone_def Let_def t)
  have "DivCnt t AND 3 = DivCnt s AND 3"
    unfolding t by (simp add: bits)
  moreover from this have "div_num t = div_num s" "div_den t = div_den s"
    "DivQuotient t = DivQuotient s" "DivRemainder t = DivRemainder s"
    by (simp_all add: div_num_def div_den_def, simp_all add: t)
  ultimately show
    "DivQuotient (DivDone p s) =
      (let num = div_num s; den = div_den s in
       if den = 0 then
         (if DivCnt s AND 3 = 0
          then (DivQuotient s)(0 := if num < 0 then 1 else -1, 1 := if num < 0 then -1 else 0)
          else put64 (if num < 0 then 1 else -1) (DivQuotient s))
       else if num = - (if DivCnt s AND 3 = 0 then 0x80000000 else 0x8000000000000000) \<and> den = -1
       then put64 (if DivCnt s AND 3 = 0 then 0x80000000 else 0x8000000000000000) (DivQuotient s)
       else put64 (word_of_int (c_div num den)) (DivQuotient s))"
    "DivRemainder (DivDone p s) =
      (let num = div_num s; den = div_den s in
       if den = 0 then put64 (word_of_int num) (DivRemainder s)
       else if num = - (if DivCnt s AND 3 = 0 then 0x80000000 else 0x8000000000000000) \<and> den = -1
       then (if DivCnt s AND 3 = 0 then DivRemainder s else put64 0 (DivRemainder s))
       else put64 (word_of_int (c_mod num den)) (DivRemainder s))"
    unfolding regs div_switch_eq Let_def by (simp_all del: fun_upd_apply)
qed

text \<open>C8: The divider computes the truncated quotient and a remainder with the sign of the numerator, smaller
  than the denominator, in all three modes, division by zero and the one overflowing division apart.\<close>

theorem DivDone_quotient_remainder:
  assumes "div_den s \<noteq> 0"
    and "\<not> (div_num s = - (if DivCnt s AND 3 = 0 then 2 ^ 31 else 2 ^ 63) \<and> div_den s = -1)"
  shows "let q = sint (get64 (DivQuotient (DivDone p s))); r = sint (get64 (DivRemainder (DivDone p s)))
    in q * div_den s + r = div_num s \<and> \<bar>r\<bar> < \<bar>div_den s\<bar> \<and> (r = 0 \<or> sgn r = sgn (div_num s))"
proof -
  define q where "q = sint (get64 (DivQuotient (DivDone p s)))"
  define r where "r = sint (get64 (DivRemainder (DivDone p s)))"
  have regs: "DivQuotient (DivDone p s) = put64 (word_of_int (c_div (div_num s) (div_den s))) (DivQuotient s)"
    "DivRemainder (DivDone p s) = put64 (word_of_int (c_mod (div_num s) (div_den s))) (DivRemainder s)"
    using assms by (auto simp: DivDone_eq Let_def split: if_splits)
  have ov: "\<not> (div_num s = - (2 ^ 63) \<and> div_den s = -1)"
  proof (cases "DivCnt s AND 3 = 0")
    case True
    then have "div_num s \<ge> - (2 ^ 31)"
      using sint_range_size [of "DivNumerator s 0"] by (simp add: div_num_def word_size)
    then show ?thesis by simp
  qed (use assms(2) in simp)
  have "q = c_div (div_num s) (div_den s)"
    unfolding q_def regs(1) get64_put64
    by (intro sint_word_of_int64 c_div_in_range assms(1) ov div_num_range)
  moreover have "r = c_mod (div_num s) (div_den s)"
  proof -
    have "\<bar>c_mod (div_num s) (div_den s)\<bar> \<le> \<bar>div_num s\<bar>" by (rule c_mod_abs_le [OF assms(1)])
    moreover have "\<bar>c_mod (div_num s) (div_den s)\<bar> < \<bar>div_den s\<bar>" by (rule c_mod_bound [OF assms(1)])
    moreover have "\<bar>div_den s\<bar> \<le> 2 ^ 63"
      using sint_range_size [of "DivDenominator s 0"] sint_range_size [of "get64 (DivDenominator s)"]
      by (auto simp: div_den_def word_size)
    ultimately show ?thesis
      unfolding r_def regs(2) get64_put64
      by (intro sint_word_of_int64) linarith+
  qed
  moreover have "c_mod (div_num s) (div_den s) = 0 \<or> sgn (c_mod (div_num s) (div_den s)) = sgn (div_num s)"
    unfolding c_mod_abs [OF assms(1)] sgn_mult
    by (cases "\<bar>div_num s\<bar> mod \<bar>div_den s\<bar> = 0")
      (use assms(1) in \<open>auto simp: sgn_if not_less intro: order.antisym\<close>)
  ultimately show ?thesis
    using c_div_mod [of "div_den s" "div_num s"] c_mod_bound [OF assms(1), of "div_num s"]
    unfolding q_def [symmetric] r_def [symmetric] Let_def by (simp add: mult.commute)
qed

theorem DivDone_quotient_remainder_witness: "let s = DivDone 0 (blank_nds\<lparr>DivNumerator := (\<lambda>_. - 7), DivDenominator := (\<lambda>_. 2)\<rparr>) in
   sint (get64 (DivQuotient s)) * 2 + sint (get64 (DivRemainder s)) = - 7 \<and> \<bar>sint (get64 (DivRemainder s))\<bar> < 2"
  using DivDone_quotient_remainder [of "blank_nds\<lparr>DivNumerator := (\<lambda>_. - 7), DivDenominator := (\<lambda>_. 2)\<rparr>" 0]
  by (simp add: div_num_def div_den_def blank_nds_def Let_def)

text \<open>Division by zero gives plus or minus one against the numerator's sign (in 32-bit mode with an
  inverted upper half), the numerator as remainder, and sets the error bit exactly when all 64 bits of the denominator are zero.\<close>

theorem DivDone_by_zero:
  assumes "div_den s = 0"
  shows "get64 (DivQuotient (DivDone p s)) =
      (if DivCnt s AND 3 = 0 then (if div_num s < 0 then 0xFFFFFFFF00000001 else 0xFFFFFFFF)
       else if div_num s < 0 then 1 else -1) \<and>
    sint (get64 (DivRemainder (DivDone p s))) = div_num s \<and>
    (bit (DivCnt (DivDone p s)) 14 \<longleftrightarrow> DivDenominator s 0 = 0 \<and> DivDenominator s 1 = 0)"
proof -
  have b: "bit (x AND - 0xC001 OR 0x4000) 14" "\<not> bit (x AND - 0xC001) 14" for x :: u16
    by (simp_all add: bit_and_iff bit_or_iff)
  have or0: "x OR y = 0 \<longleftrightarrow> x = 0 \<and> y = 0" for x y :: u32
    by (metis or_eq_0_iff)
  have "get64 (r(0 := 1, 1 := - 1)) = 0xFFFFFFFF00000001"
    "get64 (r(0 := - 1, 1 := 0)) = 0xFFFFFFFF" for r :: "nat \<Rightarrow> u32"
    by (simp_all add: get64_def unsigned_minus_1_eq_mask mask_eq_exp_minus_1)
  then have "get64 (DivQuotient (DivDone p s)) =
      (if DivCnt s AND 3 = 0 then (if div_num s < 0 then 0xFFFFFFFF00000001 else 0xFFFFFFFF)
       else if div_num s < 0 then 1 else -1)"
    using assms by (simp add: DivDone_eq Let_def)
  moreover have "sint (get64 (DivRemainder (DivDone p s))) = div_num s"
    using assms sint_word_of_int64 [OF div_num_range, of s]
    by (simp add: DivDone_eq Let_def)
  moreover have "bit (DivCnt (DivDone p s)) 14 \<longleftrightarrow> DivDenominator s 0 = 0 \<and> DivDenominator s 1 = 0"
    by (simp add: DivDone_def Let_def b or0)
  ultimately show ?thesis by blast
qed

theorem DivDone_by_zero_witness: "get64 (DivQuotient (DivDone 0 (blank_nds\<lparr>DivNumerator := (\<lambda>_. - 7)\<rparr>))) = 0xFFFFFFFF00000001"
  using DivDone_by_zero [of "blank_nds\<lparr>DivNumerator := (\<lambda>_. - 7)\<rparr>" 0]
  by (simp add: div_num_def div_den_def blank_nds_def)

text \<open>The overflowing division (least number by minus one) gives that number's magnitude; in 32-bit mode it
  leaves the remainder registers as they were, in the 64-bit modes it clears them.\<close>

theorem DivDone_overflow:
  assumes "div_num s = - (if DivCnt s AND 3 = 0 then 2 ^ 31 else 2 ^ 63)" "div_den s = -1"
  shows "get64 (DivQuotient (DivDone p s)) = (if DivCnt s AND 3 = 0 then 2 ^ 31 else 2 ^ 63) \<and>
    get64 (DivRemainder (DivDone p s)) = (if DivCnt s AND 3 = 0 then get64 (DivRemainder s) else 0)"
  using assms by (simp add: DivDone_eq Let_def)

theorem DivDone_overflow_witness: "get64 (DivQuotient (DivDone 0 (blank_nds\<lparr>DivNumerator := (\<lambda>_. 0x80000000), DivDenominator := (\<lambda>_. -1)\<rparr>))) = 2 ^ 31"
  using DivDone_overflow [of "blank_nds\<lparr>DivNumerator := (\<lambda>_. 0x80000000), DivDenominator := (\<lambda>_. -1)\<rparr>" 0]
  by (simp add: div_num_def div_den_def blank_nds_def)

section \<open>The square root\<close>

text \<open>After some iterations the partial root \<open>r\<close> and the remainder describe the top bits of the
  operand \<open>V\<close>; \<open>k\<close> more pairs of bits are to be brought down.\<close>

definition sqrt_inv :: "nat \<Rightarrow> nat \<Rightarrow> nat \<Rightarrow> u64 \<Rightarrow> u64 \<Rightarrow> u32 \<Rightarrow> bool" where
  "sqrt_inv nbits V k val rem res \<longleftrightarrow>
     unat val mod 4 ^ nbits = (V mod 4 ^ k) * 4 ^ (nbits - k) \<and>
     unat rem + (unat res)\<^sup>2 = V div 4 ^ k \<and> V div 4 ^ k < (unat res + 1)\<^sup>2"

lemma and_3_unat: "unat (x AND 3) = unat x mod 4" for x :: u64
proof -
  have "x AND 3 = take_bit 2 x" by (simp only: take_bit_eq_mask) (simp add: mask_eq_exp_minus_1)
  then have "unat (x AND 3) = take_bit 2 (unat x)" by (simp only: unsigned_take_bit_eq)
  then show ?thesis by (simp only: take_bit_nat_def) simp
qed

lemma next_bits:
  assumes "k < nbits" "nbits \<le> 32" and v: "unat (val :: u64) mod 4 ^ nbits = (V mod 4 ^ Suc k) * 4 ^ (nbits - Suc k)"
  shows "unat (shr val (2 * nbits - 2) AND 3) = V div 4 ^ k mod 4"
    and "unat (shl val 2) mod 4 ^ nbits = (V mod 4 ^ k) * 4 ^ (nbits - k)"
proof -
  define n where "n = nbits - 1"
  define m where "m = nbits - Suc k"
  have n: "nbits = Suc n" "n = k + m" "nbits - k = Suc m" using assms(1) by (simp_all add: n_def m_def)
  have V: "V mod 4 ^ Suc k = (V div 4 ^ k mod 4) * 4 ^ k + V mod 4 ^ k"
    using mod_mult2_eq [of V "4 ^ k" 4] by (simp add: mult.commute)
  have split: "unat val mod 4 ^ nbits = (V div 4 ^ k mod 4) * 4 ^ n + V mod 4 ^ k * 4 ^ m"
    unfolding v m_def [symmetric] V n(2) by (simp add: power_add algebra_simps)
  have lt: "V mod 4 ^ k * 4 ^ m < 4 ^ n"
    unfolding n(2) power_add by simp
  have "unat (shr val (2 * nbits - 2) AND 3) = unat (shr val (2 * n)) mod 4"
  proof -
    have "2 * nbits - 2 = 2 * n" by (simp add: n(1))
    then show ?thesis by (simp only: and_3_unat)
  qed
  also have "\<dots> = unat val div 4 ^ n mod 4" by (simp add: unat_shr power_mult)
  also have "\<dots> = unat val mod 4 ^ nbits div 4 ^ n"
    using mod_mult2_eq [of "unat val" "4 ^ n" 4] n(1) by (simp add: mult.commute)
  also have "\<dots> = V div 4 ^ k mod 4" unfolding split using lt by simp
  finally show "unat (shr val (2 * nbits - 2) AND 3) = V div 4 ^ k mod 4" .
  have "unat (shl val 2) = unat val * 4 mod 2 ^ 64"
  proof -
    have "unat (shl val 2) = take_bit 64 (push_bit 2 (unat val))"
      using unsigned_push_bit_eq [of 2 val] by simp
    then show ?thesis by (simp only: push_bit_nat_def take_bit_nat_def) simp
  qed
  moreover have "(4 :: nat) ^ nbits dvd 2 ^ 64"
  proof -
    have "(4 :: nat) ^ nbits dvd 4 ^ 32" by (rule le_imp_power_dvd [OF assms(2)])
    then show ?thesis by simp
  qed
  ultimately have "unat (shl val 2) mod 4 ^ nbits = unat val * 4 mod 4 ^ nbits"
    by (simp add: mod_mod_cancel)
  also have "\<dots> = (unat val mod 4 ^ nbits) * 4 mod 4 ^ nbits" by (simp add: mod_simps)
  also have "\<dots> = ((V div 4 ^ k mod 4) * 4 ^ nbits + V mod 4 ^ k * 4 ^ Suc m) mod 4 ^ nbits"
    unfolding split by (simp add: n(1) algebra_simps)
  also have "\<dots> = V mod 4 ^ k * 4 ^ Suc m"
  proof -
    have "V mod 4 ^ k * 4 ^ Suc m < 4 ^ nbits" using lt n(1) by simp
    then show ?thesis by simp
  qed
  finally show "unat (shl val 2) mod 4 ^ nbits = (V mod 4 ^ k) * 4 ^ (nbits - k)" by (simp add: n(3))
qed

lemma sqrt_step:
  assumes inv: "sqrt_inv nbits V (Suc k) val rem res"
    and k: "k < nbits" "nbits \<le> 32" and V: "V < 2 ^ 62" "V < 4 ^ nbits"
  defines "rem' \<equiv> shl rem 2 + (shr val (2 * nbits - 2) AND 3)"
    and "p \<equiv> shl (shl res 1) 1 + 1"
  shows "if ucast p \<le> rem' then sqrt_inv nbits V k (shl val 2) (rem' - ucast p) (shl res 1 + 1)
     else sqrt_inv nbits V k (shl val 2) rem' (shl res 1)"
proof -
  define r where "r = unat res"
  define X where "X = V div 4 ^ Suc k"
  define c where "c = V div 4 ^ k mod 4"
  from inv have i1: "unat val mod 4 ^ nbits = (V mod 4 ^ Suc k) * 4 ^ (nbits - Suc k)"
    and i2: "unat rem + r\<^sup>2 = X" and i3: "X < (r + 1)\<^sup>2"
    by (simp_all add: sqrt_inv_def r_def X_def)
  have Xc: "V div 4 ^ k = 4 * X + c"
    unfolding X_def c_def power_Suc2 div_mult2_eq by simp
  have "V div 4 ^ Suc k < 2 ^ 60"
  proof -
    have "V div 4 ^ Suc k \<le> V div 4" by (simp add: div_mult2_eq)
    with V(1) show ?thesis by simp
  qed
  then have X60: "X < (2 ^ 30)\<^sup>2" by (simp add: X_def)
  have "r\<^sup>2 < (2 ^ 30)\<^sup>2" using i2 X60 by linarith
  then have r: "r < 2 ^ 30" by (rule power_less_imp_less_base) simp
  have c: "c < 4" by (simp add: c_def)
  have res2: "unat (shl res 1) = 2 * r" using r by (subst unat_shl) (simp_all add: r_def)
  then have "unat (shl (shl res 1) 1) = 4 * r" using r by (subst unat_shl) simp_all
  then have prod: "unat p = 4 * r + 1" using r by (simp add: p_def unat_word_ariths)
  then have prod': "unat (ucast p :: u64) = 4 * r + 1" by (simp add: unat_ucast_up)
  have res3: "unat (shl res 1 + 1) = 2 * r + 1" using r res2 by (simp add: unat_word_ariths)
  have "unat rem < 2 ^ 60" using i2 X60 by simp
  then have "unat (shl rem 2) = 4 * unat rem" by (subst unat_shl) simp_all
  moreover have "unat (shr val (2 * nbits - 2) AND 3) = c"
    unfolding c_def using k i1 by (intro next_bits) auto
  ultimately have rem': "unat rem' = 4 * unat rem + c"
    using \<open>unat rem < 2 ^ 60\<close> c unfolding rem'_def by (subst unat_add_small) simp_all
  have v: "unat (shl val 2) mod 4 ^ nbits = (V mod 4 ^ k) * 4 ^ (nbits - k)"
    using k i1 by (intro next_bits) auto
  have sq: "(2 * r + 1)\<^sup>2 = 4 * r\<^sup>2 + (4 * r + 1)" "(2 * r)\<^sup>2 = 4 * r\<^sup>2"
    "(2 * r + 2)\<^sup>2 = 4 * (r + 1)\<^sup>2"
    by (simp_all add: power2_eq_square algebra_simps)
  show ?thesis
  proof (cases "4 * r + 1 \<le> 4 * unat rem + c")
    case True
    then have le: "ucast p \<le> rem'" by (simp add: unat_le_iff prod' rem')
    then have "unat (rem' - ucast p) = 4 * unat rem + c - (4 * r + 1)"
      by (simp add: unat_sub_le prod' rem')
    then show ?thesis
      using le v True i2 i3 c sq Xc unfolding sqrt_inv_def res3 by simp
  next
    case False
    then have "\<not> ucast p \<le> rem'" by (simp add: unat_le_iff prod' rem')
    then show ?thesis
      using v False i2 i3 c sq Xc unfolding sqrt_inv_def res2 rem' by simp
  qed
qed

lemma sqrt_loop_inv:
  assumes "sqrt_inv nbits V k val rem res" "k \<le> nbits" "nbits \<le> 32" "V < 2 ^ 62" "V < 4 ^ nbits"
  shows "(unat (sqrt_loop k (2 * nbits - 2) val rem res))\<^sup>2 \<le> V \<and>
    V < (unat (sqrt_loop k (2 * nbits - 2) val rem res) + 1)\<^sup>2"
  using assms
proof (induction k arbitrary: val rem res)
  case 0
  then show ?case by (simp add: sqrt_inv_def)
next
  case (Suc k)
  from sqrt_step [OF Suc.prems(1) _ Suc.prems(3,4,5)] Suc.prems(2)
  show ?case
    using Suc.IH Suc.prems(2-)
    by (simp only: sqrt_loop.simps Let_def split: if_splits) (auto simp: Suc_le_eq)
qed

text \<open>The operand of the square root unit.\<close>

definition sqrt_operand :: "nds \<Rightarrow> u64" where
  "sqrt_operand s = (if tst (SqrtCnt s) 1 then get64 (SqrtVal s) else ucast (SqrtVal s 0))"

lemma SqrtRes_SqrtDone:
  "SqrtRes (SqrtDone p s) =
    (if tst (SqrtCnt s) 1 then sqrt_loop 32 62 (sqrt_operand s) 0 0 else sqrt_loop 16 30 (sqrt_operand s) 0 0)"
  by (simp add: SqrtDone_def sqrt_operand_def Let_def bits)

text \<open>The square root unit computes the integer square root of every 32-bit operand and of every
  64-bit operand below \<open>2 ^ 62\<close>.\<close>

theorem SqrtDone_isqrt:
  assumes "tst (SqrtCnt s) 1 \<Longrightarrow> unat (sqrt_operand s) < 2 ^ 62"
  shows "(unat (SqrtRes (SqrtDone p s)))\<^sup>2 \<le> unat (sqrt_operand s) \<and>
    unat (sqrt_operand s) < (unat (SqrtRes (SqrtDone p s)) + 1)\<^sup>2"
proof (cases "tst (SqrtCnt s) 1")
  case True
  let ?V = "unat (sqrt_operand s)"
  have "?V < 2 ^ 62" using assms True .
  then have "sqrt_inv 32 ?V 32 (sqrt_operand s) 0 0" by (simp add: sqrt_inv_def)
  from sqrt_loop_inv [OF this] \<open>?V < 2 ^ 62\<close> True show ?thesis by (simp add: SqrtRes_SqrtDone)
next
  case False
  let ?V = "unat (sqrt_operand s)"
  have "?V < 2 ^ 32" using False unat_bound [of "SqrtVal s 0"] by (simp add: sqrt_operand_def unat_ucast_up)
  then have "sqrt_inv 16 ?V 16 (sqrt_operand s) 0 0" by (simp add: sqrt_inv_def)
  from sqrt_loop_inv [OF this] \<open>?V < 2 ^ 32\<close> False show ?thesis by (simp add: SqrtRes_SqrtDone)
qed

theorem SqrtDone_isqrt_witness: "(unat (SqrtRes (SqrtDone 0 (blank_nds\<lparr>SqrtVal := (\<lambda>_. 1000000)\<rparr>))))\<^sup>2 \<le> 1000000"
  using SqrtDone_isqrt [of "blank_nds\<lparr>SqrtVal := (\<lambda>_. 1000000)\<rparr>" 0]
  by (simp add: sqrt_operand_def blank_nds_def get64_def)

text \<open>C9: For the 64-bit operand \<open>2 ^ 62 + 1\<close> the result is not the integer square root: the 32-bit variable
  \<^verbatim>\<open>prod\<close> of the loop overflows, and the root returned has a square larger than the operand.\<close>

theorem SqrtDone_64bit_overflow:
  assumes "tst (SqrtCnt s) 1" "sqrt_operand s = 2 ^ 62 + 1"
  shows "unat (SqrtRes (SqrtDone p s)) = 2 ^ 31 + 1 \<and>
    unat (sqrt_operand s) < (unat (SqrtRes (SqrtDone p s)))\<^sup>2"
proof -
  have "sqrt_loop 32 62 (2 ^ 62 + 1) 0 0 = 2 ^ 31 + 1" by code_simp
  with assms show ?thesis by (simp add: SqrtRes_SqrtDone)
qed

theorem SqrtDone_64bit_overflow_witness: "unat (SqrtRes (SqrtDone 0 (blank_nds\<lparr>SqrtCnt := 1, SqrtVal := (\<lambda>i. if i = 0 then 1 else 0x40000000)\<rparr>))) = 2 ^ 31 + 1"
  using SqrtDone_64bit_overflow [of "blank_nds\<lparr>SqrtCnt := 1, SqrtVal := (\<lambda>i. if i = 0 then 1 else 0x40000000)\<rparr>" 0]
  by (simp add: sqrt_operand_def blank_nds_def get64_def)

end
