(* ===== verification/Ipc.thy ===== *)
theory Ipc
  imports Nds
begin

text \<open>
  The interprocessor hardware in the I/O handlers of \<^verbatim>\<open>src/src/NDS.cpp\<close>: the synchronisation
  registers and the two queues of sixteen words between the ARM9 and the ARM7. Each register
  has one definition per access, named after the handler and the address.
\<close>

section \<open>The code\<close>

abbreviation IPCFIFO_Size :: u32 where "IPCFIFO_Size \<equiv> 16"

subsection \<open>Synchronisation registers (address \<open>0x04000180\<close>)\<close>

definition ARM9IOWrite8_IPCSYNC :: "u8 \<Rightarrow> nds \<Rightarrow> nds" where
  "ARM9IOWrite8_IPCSYNC val s =
     (let s = s\<lparr>IPCSync7 := IPCSync7 s AND 0xFFF0\<rparr>;
          s = s\<lparr>IPCSync7 := IPCSync7 s OR ucast (val AND 0x0F)\<rparr>;
          s = s\<lparr>IPCSync9 := IPCSync9 s AND 0xB0FF\<rparr>;
          s = s\<lparr>IPCSync9 := IPCSync9 s OR shl (ucast (val AND 0x4F)) 8\<rparr>
      in if tst val 0x20 \<and> tst (IPCSync7 s) 0x4000 then SetIRQ 1 IRQ_IPCSync s else s)"

definition ARM9IOWrite16_IPCSYNC :: "u16 \<Rightarrow> nds \<Rightarrow> nds" where
  "ARM9IOWrite16_IPCSYNC val s =
     (let s = s\<lparr>IPCSync7 := IPCSync7 s AND 0xFFF0\<rparr>;
          s = s\<lparr>IPCSync7 := IPCSync7 s OR shr (val AND 0x0F00) 8\<rparr>;
          s = s\<lparr>IPCSync9 := IPCSync9 s AND 0xB0FF\<rparr>;
          s = s\<lparr>IPCSync9 := IPCSync9 s OR (val AND 0x4F00)\<rparr>
      in if tst val 0x2000 \<and> tst (IPCSync7 s) 0x4000 then SetIRQ 1 IRQ_IPCSync s else s)"

definition ARM7IOWrite8_IPCSYNC :: "u8 \<Rightarrow> nds \<Rightarrow> nds" where
  "ARM7IOWrite8_IPCSYNC val s =
     (let s = s\<lparr>IPCSync9 := IPCSync9 s AND 0xFFF0\<rparr>;
          s = s\<lparr>IPCSync9 := IPCSync9 s OR ucast (val AND 0x0F)\<rparr>;
          s = s\<lparr>IPCSync7 := IPCSync7 s AND 0xB0FF\<rparr>;
          s = s\<lparr>IPCSync7 := IPCSync7 s OR shl (ucast (val AND 0x4F)) 8\<rparr>
      in if tst val 0x20 \<and> tst (IPCSync9 s) 0x4000 then SetIRQ 0 IRQ_IPCSync s else s)"

definition ARM7IOWrite16_IPCSYNC :: "u16 \<Rightarrow> nds \<Rightarrow> nds" where
  "ARM7IOWrite16_IPCSYNC val s =
     (let s = s\<lparr>IPCSync9 := IPCSync9 s AND 0xFFF0\<rparr>;
          s = s\<lparr>IPCSync9 := IPCSync9 s OR shr (val AND 0x0F00) 8\<rparr>;
          s = s\<lparr>IPCSync7 := IPCSync7 s AND 0xB0FF\<rparr>;
          s = s\<lparr>IPCSync7 := IPCSync7 s OR (val AND 0x4F00)\<rparr>
      in if tst val 0x2000 \<and> tst (IPCSync9 s) 0x4000 then SetIRQ 0 IRQ_IPCSync s else s)"

subsection \<open>Queue control (address \<open>0x04000184\<close>)\<close>

definition ARM9IORead16_IPCFIFOCNT :: "nds \<Rightarrow> u16" where
  "ARM9IORead16_IPCFIFOCNT s =
     (let val = IPCFIFOCnt9 s;
          val = (if FIFO_IsEmpty (IPCFIFO9 s) then val OR 0x0001
                 else if FIFO_IsFull IPCFIFO_Size (IPCFIFO9 s) then val OR 0x0002 else val);
          val = (if FIFO_IsEmpty (IPCFIFO7 s) then val OR 0x0100
                 else if FIFO_IsFull IPCFIFO_Size (IPCFIFO7 s) then val OR 0x0200 else val)
      in val)"

definition ARM7IORead16_IPCFIFOCNT :: "nds \<Rightarrow> u16" where
  "ARM7IORead16_IPCFIFOCNT s =
     (let val = IPCFIFOCnt7 s;
          val = (if FIFO_IsEmpty (IPCFIFO7 s) then val OR 0x0001
                 else if FIFO_IsFull IPCFIFO_Size (IPCFIFO7 s) then val OR 0x0002 else val);
          val = (if FIFO_IsEmpty (IPCFIFO9 s) then val OR 0x0100
                 else if FIFO_IsFull IPCFIFO_Size (IPCFIFO9 s) then val OR 0x0200 else val)
      in val)"

definition ARM9IOWrite16_IPCFIFOCNT :: "u16 \<Rightarrow> nds \<Rightarrow> nds" where
  "ARM9IOWrite16_IPCFIFOCNT val s =
     (let s = (if tst val 0x0008 then s\<lparr>IPCFIFO9 := FIFO_Clear (IPCFIFO9 s)\<rparr> else s);
          s = (if tst val 0x0004 \<and> \<not> tst (IPCFIFOCnt9 s) 0x0004 \<and> FIFO_IsEmpty (IPCFIFO9 s)
               then SetIRQ 0 IRQ_IPCSendDone s else s);
          s = (if tst val 0x0400 \<and> \<not> tst (IPCFIFOCnt9 s) 0x0400 \<and> \<not> FIFO_IsEmpty (IPCFIFO7 s)
               then SetIRQ 0 IRQ_IPCRecv s else s);
          s = (if tst val 0x4000 then s\<lparr>IPCFIFOCnt9 := IPCFIFOCnt9 s AND NOT 0x4000\<rparr> else s)
      in s\<lparr>IPCFIFOCnt9 := (val AND 0x8404) OR (IPCFIFOCnt9 s AND 0x4000)\<rparr>)"

definition ARM7IOWrite16_IPCFIFOCNT :: "u16 \<Rightarrow> nds \<Rightarrow> nds" where
  "ARM7IOWrite16_IPCFIFOCNT val s =
     (let s = (if tst val 0x0008 then s\<lparr>IPCFIFO7 := FIFO_Clear (IPCFIFO7 s)\<rparr> else s);
          s = (if tst val 0x0004 \<and> \<not> tst (IPCFIFOCnt7 s) 0x0004 \<and> FIFO_IsEmpty (IPCFIFO7 s)
               then SetIRQ 1 IRQ_IPCSendDone s else s);
          s = (if tst val 0x0400 \<and> \<not> tst (IPCFIFOCnt7 s) 0x0400 \<and> \<not> FIFO_IsEmpty (IPCFIFO9 s)
               then SetIRQ 1 IRQ_IPCRecv s else s);
          s = (if tst val 0x4000 then s\<lparr>IPCFIFOCnt7 := IPCFIFOCnt7 s AND NOT 0x4000\<rparr> else s)
      in s\<lparr>IPCFIFOCnt7 := (val AND 0x8404) OR (IPCFIFOCnt7 s AND 0x4000)\<rparr>)"

subsection \<open>Sending (address \<open>0x04000188\<close>) and receiving (address \<open>0x04100000\<close>)\<close>

definition ARM9IOWrite32_IPCFIFOSEND :: "u32 \<Rightarrow> nds \<Rightarrow> nds" where
  "ARM9IOWrite32_IPCFIFOSEND val s =
     (if tst (IPCFIFOCnt9 s) 0x8000 then
        if FIFO_IsFull IPCFIFO_Size (IPCFIFO9 s) then s\<lparr>IPCFIFOCnt9 := IPCFIFOCnt9 s OR 0x4000\<rparr>
        else
          let wasempty = FIFO_IsEmpty (IPCFIFO9 s);
              s = s\<lparr>IPCFIFO9 := FIFO_Write IPCFIFO_Size val (IPCFIFO9 s)\<rparr>
          in if tst (IPCFIFOCnt7 s) 0x0400 \<and> wasempty then SetIRQ 1 IRQ_IPCRecv s else s
      else s)"

definition ARM7IOWrite32_IPCFIFOSEND :: "u32 \<Rightarrow> nds \<Rightarrow> nds" where
  "ARM7IOWrite32_IPCFIFOSEND val s =
     (if tst (IPCFIFOCnt7 s) 0x8000 then
        if FIFO_IsFull IPCFIFO_Size (IPCFIFO7 s) then s\<lparr>IPCFIFOCnt7 := IPCFIFOCnt7 s OR 0x4000\<rparr>
        else
          let wasempty = FIFO_IsEmpty (IPCFIFO7 s);
              s = s\<lparr>IPCFIFO7 := FIFO_Write IPCFIFO_Size val (IPCFIFO7 s)\<rparr>
          in if tst (IPCFIFOCnt9 s) 0x0400 \<and> wasempty then SetIRQ 0 IRQ_IPCRecv s else s
      else s)"

definition ARM9IORead32_IPCFIFORECV :: "nds \<Rightarrow> u32 \<times> nds" where
  "ARM9IORead32_IPCFIFORECV s =
     (if tst (IPCFIFOCnt9 s) 0x8000 then
        if FIFO_IsEmpty (IPCFIFO7 s)
        then (FIFO_Peek (IPCFIFO7 s), s\<lparr>IPCFIFOCnt9 := IPCFIFOCnt9 s OR 0x4000\<rparr>)
        else
          let (ret, f) = FIFO_Read IPCFIFO_Size (IPCFIFO7 s);
              s = s\<lparr>IPCFIFO7 := f\<rparr>
          in (ret, if FIFO_IsEmpty (IPCFIFO7 s) \<and> tst (IPCFIFOCnt7 s) 0x0004
                   then SetIRQ 1 IRQ_IPCSendDone s else s)
      else (FIFO_Peek (IPCFIFO7 s), s))"

definition ARM7IORead32_IPCFIFORECV :: "nds \<Rightarrow> u32 \<times> nds" where
  "ARM7IORead32_IPCFIFORECV s =
     (if tst (IPCFIFOCnt7 s) 0x8000 then
        if FIFO_IsEmpty (IPCFIFO9 s)
        then (FIFO_Peek (IPCFIFO9 s), s\<lparr>IPCFIFOCnt7 := IPCFIFOCnt7 s OR 0x4000\<rparr>)
        else
          let (ret, f) = FIFO_Read IPCFIFO_Size (IPCFIFO9 s);
              s = s\<lparr>IPCFIFO9 := f\<rparr>
          in (ret, if FIFO_IsEmpty (IPCFIFO9 s) \<and> tst (IPCFIFOCnt9 s) 0x0004
                   then SetIRQ 0 IRQ_IPCSendDone s else s)
      else (FIFO_Peek (IPCFIFO9 s), s))"

text \<open>Narrow writes to the send register repeat the value over the word.\<close>

definition ARM9IOWrite8_IPCFIFOSEND :: "u8 \<Rightarrow> nds \<Rightarrow> nds" where
  "ARM9IOWrite8_IPCFIFOSEND val s =
     (let val = ucast val in
      ARM9IOWrite32_IPCFIFOSEND (val OR shl val 8 OR shl val 16 OR shl val 24) s)"

definition ARM9IOWrite16_IPCFIFOSEND :: "u16 \<Rightarrow> nds \<Rightarrow> nds" where
  "ARM9IOWrite16_IPCFIFOSEND val s =
     (let val = ucast val in ARM9IOWrite32_IPCFIFOSEND (val OR shl val 16) s)"

definition ARM7IOWrite16_IPCFIFOSEND :: "u16 \<Rightarrow> nds \<Rightarrow> nds" where
  "ARM7IOWrite16_IPCFIFOSEND val s =
     (let val = ucast val in ARM7IOWrite32_IPCFIFOSEND (val OR shl val 16) s)"

section \<open>The accesses as one step function\<close>

datatype ipc_op =
    Sync9 u16 | Sync7 u16
  | Cnt9 u16 | Cnt7 u16
  | Send9 u32 | Send7 u32
  | Recv9 | Recv7

definition ipc_step :: "ipc_op \<Rightarrow> nds \<Rightarrow> u32 \<times> nds" where
  "ipc_step op s = (case op of
       Sync9 v \<Rightarrow> (0, ARM9IOWrite16_IPCSYNC v s)
     | Sync7 v \<Rightarrow> (0, ARM7IOWrite16_IPCSYNC v s)
     | Cnt9 v \<Rightarrow> (0, ARM9IOWrite16_IPCFIFOCNT v s)
     | Cnt7 v \<Rightarrow> (0, ARM7IOWrite16_IPCFIFOCNT v s)
     | Send9 v \<Rightarrow> (0, ARM9IOWrite32_IPCFIFOSEND v s)
     | Send7 v \<Rightarrow> (0, ARM7IOWrite32_IPCFIFOSEND v s)
     | Recv9 \<Rightarrow> ARM9IORead32_IPCFIFORECV s
     | Recv7 \<Rightarrow> ARM7IORead32_IPCFIFORECV s)"

definition ipc_inv :: "nds \<Rightarrow> bool" where
  "ipc_inv s \<longleftrightarrow> FIFO_inv IPCFIFO_Size (IPCFIFO9 s) \<and> FIFO_inv IPCFIFO_Size (IPCFIFO7 s)"

text \<open>The abstract channels: the words on the way from each CPU, and the enable bits.\<close>

record ipc_spec =
  chan9 :: "u32 list"
  chan7 :: "u32 list"
  on9 :: bool
  on7 :: bool

definition ipc_abs :: "nds \<Rightarrow> ipc_spec" where
  "ipc_abs s = \<lparr>chan9 = FIFO_list (IPCFIFO9 s), chan7 = FIFO_list (IPCFIFO7 s),
     on9 = tst (IPCFIFOCnt9 s) 0x8000, on7 = tst (IPCFIFOCnt7 s) 0x8000\<rparr>"

definition spec_send :: "bool \<Rightarrow> u32 \<Rightarrow> u32 list \<Rightarrow> u32 list" where
  "spec_send en v c = (if en \<and> length c < 16 then c @ [v] else c)"

definition spec_recv :: "bool \<Rightarrow> u32 list \<Rightarrow> u32 list" where
  "spec_recv en c = (if en then tl c else c)"

definition ipc_spec_step :: "ipc_op \<Rightarrow> ipc_spec \<Rightarrow> ipc_spec" where
  "ipc_spec_step op a = (case op of
       Sync9 v \<Rightarrow> a | Sync7 v \<Rightarrow> a
     | Cnt9 v \<Rightarrow> a\<lparr>chan9 := if bit v 3 then [] else chan9 a, on9 := bit v 15\<rparr>
     | Cnt7 v \<Rightarrow> a\<lparr>chan7 := if bit v 3 then [] else chan7 a, on7 := bit v 15\<rparr>
     | Send9 v \<Rightarrow> a\<lparr>chan9 := spec_send (on9 a) v (chan9 a)\<rparr>
     | Send7 v \<Rightarrow> a\<lparr>chan7 := spec_send (on7 a) v (chan7 a)\<rparr>
     | Recv9 \<Rightarrow> a\<lparr>chan7 := spec_recv (on9 a) (chan7 a)\<rparr>
     | Recv7 \<Rightarrow> a\<lparr>chan9 := spec_recv (on7 a) (chan9 a)\<rparr>)"

section \<open>The hardware implements the channels\<close>

lemma ipc_fields_SetIRQ: "ipc_abs (SetIRQ c i s) = ipc_abs s" "ipc_inv (SetIRQ c i s) = ipc_inv s"
  by (simp_all add: ipc_abs_def ipc_inv_def)

lemma FIFO_IsEmpty_list: "FIFO_inv IPCFIFO_Size (f :: u32 fifo) \<Longrightarrow> FIFO_IsEmpty f \<longleftrightarrow> FIFO_list f = []"
  by (rule fifo.em_iff)

lemma FIFO_IsFull_list: "FIFO_inv IPCFIFO_Size (f :: u32 fifo) \<Longrightarrow> FIFO_IsFull IPCFIFO_Size f \<longleftrightarrow> length (FIFO_list f) = 16"
  using fifo.full_iff [of IPCFIFO_Size f] by simp

lemma FIFO_list_le: "FIFO_inv IPCFIFO_Size (f :: u32 fifo) \<Longrightarrow> length (FIFO_list f) \<le> 16"
  using fifo.len_le [of IPCFIFO_Size f] by simp

lemma bit_masks:
  "tst (x :: u16) 0x8000 = bit x 15" "tst x 0x4000 = bit x 14" "tst x 0x0400 = bit x 10"
  "tst x 0x0008 = bit x 3" "tst x 0x0004 = bit x 2" "tst x 0x2000 = bit x 13"
  using tst_pow2 [of x 15] tst_pow2 [of x 14] tst_pow2 [of x 10] tst_pow2 [of x 3]
    tst_pow2 [of x 2] tst_pow2 [of x 13] by simp_all

lemma bit_or_mask15: "bit (x OR 0x4000) 15 = bit x 15" for x :: u16
  by (simp add: bit_or_iff)

lemma bit_cnt_masks: "bit ((v AND 0x8404) OR (x AND 0x4000)) 15 = bit v 15" for x v :: u16
  by (simp add: bit_or_iff bit_and_iff)

lemma send9_refines:
  assumes "ipc_inv s"
  shows "ipc_inv (ARM9IOWrite32_IPCFIFOSEND v s) \<and>
    ipc_abs (ARM9IOWrite32_IPCFIFOSEND v s) = ipc_spec_step (Send9 v) (ipc_abs s)"
  using assms FIFO_IsFull_list [of "IPCFIFO9 s"] FIFO_list_le [of "IPCFIFO9 s"]
    fifo.contents_wr [of IPCFIFO_Size "IPCFIFO9 s" v] fifo.invar_wr [of IPCFIFO_Size "IPCFIFO9 s" v]
  by (auto simp: ARM9IOWrite32_IPCFIFOSEND_def Let_def ipc_fields_SetIRQ ipc_spec_step_def spec_send_def
      bit_masks bit_or_mask15 ipc_abs_def ipc_inv_def)

lemma send7_refines:
  assumes "ipc_inv s"
  shows "ipc_inv (ARM7IOWrite32_IPCFIFOSEND v s) \<and>
    ipc_abs (ARM7IOWrite32_IPCFIFOSEND v s) = ipc_spec_step (Send7 v) (ipc_abs s)"
  using assms FIFO_IsFull_list [of "IPCFIFO7 s"] FIFO_list_le [of "IPCFIFO7 s"]
    fifo.contents_wr [of IPCFIFO_Size "IPCFIFO7 s" v] fifo.invar_wr [of IPCFIFO_Size "IPCFIFO7 s" v]
  by (auto simp: ARM7IOWrite32_IPCFIFOSEND_def Let_def ipc_fields_SetIRQ ipc_spec_step_def spec_send_def
      bit_masks bit_or_mask15 ipc_abs_def ipc_inv_def)

lemma recv9_refines:
  assumes "ipc_inv s"
  shows "ipc_inv (snd (ARM9IORead32_IPCFIFORECV s)) \<and>
    ipc_abs (snd (ARM9IORead32_IPCFIFORECV s)) = ipc_spec_step Recv9 (ipc_abs s)"
  using assms FIFO_IsEmpty_list [of "IPCFIFO7 s"]
    fifo.contents_rd [of IPCFIFO_Size "IPCFIFO7 s"] fifo.invar_rd [of IPCFIFO_Size "IPCFIFO7 s"]
  by (auto simp: ARM9IORead32_IPCFIFORECV_def Let_def ipc_fields_SetIRQ ipc_spec_step_def spec_recv_def
      bit_masks bit_or_mask15 ipc_abs_def ipc_inv_def case_prod_beta)

lemma recv7_refines:
  assumes "ipc_inv s"
  shows "ipc_inv (snd (ARM7IORead32_IPCFIFORECV s)) \<and>
    ipc_abs (snd (ARM7IORead32_IPCFIFORECV s)) = ipc_spec_step Recv7 (ipc_abs s)"
  using assms FIFO_IsEmpty_list [of "IPCFIFO9 s"]
    fifo.contents_rd [of IPCFIFO_Size "IPCFIFO9 s"] fifo.invar_rd [of IPCFIFO_Size "IPCFIFO9 s"]
  by (auto simp: ARM7IORead32_IPCFIFORECV_def Let_def ipc_fields_SetIRQ ipc_spec_step_def spec_recv_def
      bit_masks bit_or_mask15 ipc_abs_def ipc_inv_def case_prod_beta)

lemma cnt9_refines:
  assumes "ipc_inv s"
  shows "ipc_inv (ARM9IOWrite16_IPCFIFOCNT v s) \<and>
    ipc_abs (ARM9IOWrite16_IPCFIFOCNT v s) = ipc_spec_step (Cnt9 v) (ipc_abs s)"
  using assms
  by (simp add: ARM9IOWrite16_IPCFIFOCNT_def Let_def ipc_spec_step_def bit_masks bit_cnt_masks
      ipc_abs_def ipc_inv_def FIFO_Clear_inv FIFO_Clear_list)

lemma cnt7_refines:
  assumes "ipc_inv s"
  shows "ipc_inv (ARM7IOWrite16_IPCFIFOCNT v s) \<and>
    ipc_abs (ARM7IOWrite16_IPCFIFOCNT v s) = ipc_spec_step (Cnt7 v) (ipc_abs s)"
  using assms
  by (simp add: ARM7IOWrite16_IPCFIFOCNT_def Let_def ipc_spec_step_def bit_masks bit_cnt_masks
      ipc_abs_def ipc_inv_def FIFO_Clear_inv FIFO_Clear_list)

lemma sync_refines:
  "ipc_inv s \<Longrightarrow> ipc_inv (ARM9IOWrite16_IPCSYNC v s) \<and> ipc_abs (ARM9IOWrite16_IPCSYNC v s) = ipc_abs s"
  "ipc_inv s \<Longrightarrow> ipc_inv (ARM7IOWrite16_IPCSYNC v s) \<and> ipc_abs (ARM7IOWrite16_IPCSYNC v s) = ipc_abs s"
  by (simp_all add: ARM9IOWrite16_IPCSYNC_def ARM7IOWrite16_IPCSYNC_def Let_def ipc_fields_SetIRQ)
    (simp_all add: ipc_abs_def ipc_inv_def)

lemma ipc_step_ok:
  assumes "ipc_inv s"
  shows "ipc_inv (snd (ipc_step op s)) \<and> ipc_abs (snd (ipc_step op s)) = ipc_spec_step op (ipc_abs s)"
  using assms send9_refines send7_refines recv9_refines recv7_refines cnt9_refines cnt7_refines
    sync_refines
  by (cases op) (simp_all add: ipc_step_def, simp_all add: ipc_spec_step_def)

lemma ipc_inv_blank: "ipc_inv (blank_nds\<lparr>IPCFIFOCnt9 := a, IPCFIFOCnt7 := b\<rparr>)"
  by (simp add: ipc_inv_def blank_nds_def FIFO_new_inv)



lemma ipc_recv_value:
  assumes "ipc_inv s"
  shows "on9 (ipc_abs s) \<Longrightarrow> chan7 (ipc_abs s) \<noteq> [] \<Longrightarrow> fst (ipc_step Recv9 s) = hd (chan7 (ipc_abs s))"
    and "on7 (ipc_abs s) \<Longrightarrow> chan9 (ipc_abs s) \<noteq> [] \<Longrightarrow> fst (ipc_step Recv7 s) = hd (chan9 (ipc_abs s))"
  using assms FIFO_IsEmpty_list [of "IPCFIFO7 s"] FIFO_IsEmpty_list [of "IPCFIFO9 s"]
    fifo.rd_first [of IPCFIFO_Size "IPCFIFO7 s"] fifo.rd_first [of IPCFIFO_Size "IPCFIFO9 s"]
  by (auto simp: ipc_step_def ARM9IORead32_IPCFIFORECV_def ARM7IORead32_IPCFIFORECV_def ipc_abs_def ipc_inv_def
      case_prod_beta neq_Nil_conv Let_def)

section \<open>Words arrive in the order they were sent\<close>

fun ipc_run :: "ipc_op list \<Rightarrow> nds \<Rightarrow> nds" where
  "ipc_run [] s = s"
| "ipc_run (op # ops) s = ipc_run ops (snd (ipc_step op s))"

text \<open>The words the hardware accepts from the ARM9, and the words it hands to the ARM7.\<close>

fun sent9 :: "ipc_op list \<Rightarrow> nds \<Rightarrow> u32 list" where
  "sent9 [] s = []"
| "sent9 (op # ops) s =
     (case op of
        Send9 v \<Rightarrow> if tst (IPCFIFOCnt9 s) 0x8000 \<and> \<not> FIFO_IsFull IPCFIFO_Size (IPCFIFO9 s) then [v] else []
      | _ \<Rightarrow> []) @ sent9 ops (snd (ipc_step op s))"

fun got7 :: "ipc_op list \<Rightarrow> nds \<Rightarrow> u32 list" where
  "got7 [] s = []"
| "got7 (op # ops) s =
     (case op of
        Recv7 \<Rightarrow> if tst (IPCFIFOCnt7 s) 0x8000 \<and> \<not> FIFO_IsEmpty (IPCFIFO9 s) then [fst (ipc_step op s)] else []
      | _ \<Rightarrow> []) @ got7 ops (snd (ipc_step op s))"

lemma ipc_step_chan9:
  assumes inv: "ipc_inv s" and "\<forall>v. op = Cnt9 v \<longrightarrow> \<not> bit v 3"
  shows "chan9 (ipc_abs s) @ sent9 [op] s = got7 [op] s @ chan9 (ipc_abs (snd (ipc_step op s)))"
proof -
  note st = ipc_step_ok [OF inv, of op, THEN conjunct2]
  have f9: "FIFO_inv IPCFIFO_Size (IPCFIFO9 s)" using inv by (simp add: ipc_inv_def)
  note full = FIFO_IsFull_list [OF f9] FIFO_list_le [OF f9]
  note empty = FIFO_IsEmpty_list [OF f9]
  show ?thesis
  proof (cases op)
    case (Send9 v)
    then show ?thesis using st full by (auto simp: ipc_spec_step_def ipc_abs_def spec_send_def)
  next
    case Recv7
    have "fst (ipc_step Recv7 s) # tl (FIFO_list (IPCFIFO9 s)) = FIFO_list (IPCFIFO9 s)"
      if "bit (IPCFIFOCnt7 s) 15" "FIFO_list (IPCFIFO9 s) \<noteq> []"
      using ipc_recv_value(2) [OF inv] that by (simp add: ipc_abs_def bit_masks)
    with Recv7 show ?thesis using st empty
      by (auto simp: ipc_spec_step_def ipc_abs_def spec_recv_def bit_masks)
  qed (use st assms(2) in \<open>auto simp: ipc_spec_step_def\<close>)
qed

text \<open>C6: For any sequence of accesses in which the ARM9 does not clear its queue, the words already
  queued followed by those accepted from the ARM9 are those handed to the ARM7 followed by those
  still queued: nothing is lost, duplicated or reordered.\<close>

theorem ipc_in_order:
  assumes "ipc_inv s" and "\<forall>v. Cnt9 v \<in> set ops \<longrightarrow> \<not> bit v 3"
  shows "FIFO_list (IPCFIFO9 s) @ sent9 ops s = got7 ops s @ FIFO_list (IPCFIFO9 (ipc_run ops s))"
  using assms
proof (induction ops arbitrary: s)
  case Nil
  then show ?case by simp
next
  case (Cons op ops)
  let ?s = "snd (ipc_step op s)"
  have one: "chan9 (ipc_abs s) @ sent9 [op] s = got7 [op] s @ chan9 (ipc_abs ?s)"
    using Cons.prems by (intro ipc_step_chan9) auto
  have rest: "FIFO_list (IPCFIFO9 ?s) @ sent9 ops ?s = got7 ops ?s @ FIFO_list (IPCFIFO9 (ipc_run ops ?s))"
    using Cons.prems ipc_step_ok [OF Cons.prems(1), of op] by (intro Cons.IH) auto
  have "sent9 (op # ops) s = sent9 [op] s @ sent9 ops ?s" "got7 (op # ops) s = got7 [op] s @ got7 ops ?s"
    by simp_all
  then show ?case
    using one rest by (simp add: ipc_abs_def del: sent9.simps got7.simps) (metis append.assoc)
qed

theorem ipc_in_order_witness: "sent9 [Send9 7, Recv7] (blank_nds\<lparr>IPCFIFOCnt9 := 0x8000, IPCFIFOCnt7 := 0x8000\<rparr>) =
   got7 [Send9 7, Recv7] (blank_nds\<lparr>IPCFIFOCnt9 := 0x8000, IPCFIFOCnt7 := 0x8000\<rparr>) @ 
   FIFO_list (IPCFIFO9 (ipc_run [Send9 7, Recv7] (blank_nds\<lparr>IPCFIFOCnt9 := 0x8000, IPCFIFOCnt7 := 0x8000\<rparr>)))"
  using ipc_in_order [OF ipc_inv_blank [of "0x8000" "0x8000"], of "[Send9 7, Recv7]"]
  by (simp add: blank_nds_def FIFO_new_def FIFO_list_def)

section \<open>Interrupts and error bits\<close>

text \<open>A send raises the ARM7's receive interrupt exactly when the queue was empty (and on, with the
  interrupt enabled), and sets the ARM9's error bit exactly when the queue was full.\<close>

theorem send9_irq:
  "IFl (ARM9IOWrite32_IPCFIFOSEND v s) =
     (if bit (IPCFIFOCnt9 s) 15 \<and> \<not> FIFO_IsFull IPCFIFO_Size (IPCFIFO9 s) \<and>
         FIFO_IsEmpty (IPCFIFO9 s) \<and> bit (IPCFIFOCnt7 s) 10
      then (IFl s)(1 := IFl s 1 OR shl 1 18) else IFl s) \<and>
   bit (IPCFIFOCnt9 (ARM9IOWrite32_IPCFIFOSEND v s)) 14 =
     (bit (IPCFIFOCnt9 s) 14 \<or> bit (IPCFIFOCnt9 s) 15 \<and> FIFO_IsFull IPCFIFO_Size (IPCFIFO9 s))"
  by (simp add: ARM9IOWrite32_IPCFIFOSEND_def Let_def bit_masks SetIRQ_IFl irq_numbers bit_or_iff)

text \<open>A receive by the ARM7 raises the ARM9's send interrupt exactly when it took the last word, and
  sets the error bit exactly when there was none.\<close>

theorem recv7_irq:
  assumes "ipc_inv s"
  shows "IFl (snd (ARM7IORead32_IPCFIFORECV s)) =
     (if bit (IPCFIFOCnt7 s) 15 \<and> length (FIFO_list (IPCFIFO9 s)) = 1 \<and> bit (IPCFIFOCnt9 s) 2
      then (IFl s)(0 := IFl s 0 OR shl 1 17) else IFl s) \<and>
   bit (IPCFIFOCnt7 (snd (ARM7IORead32_IPCFIFORECV s))) 14 =
     (bit (IPCFIFOCnt7 s) 14 \<or> bit (IPCFIFOCnt7 s) 15 \<and> FIFO_list (IPCFIFO9 s) = [])"
proof -
  have f9: "FIFO_inv IPCFIFO_Size (IPCFIFO9 s)" using assms by (simp add: ipc_inv_def)
  have last: "FIFO_IsEmpty (snd (FIFO_Read IPCFIFO_Size (IPCFIFO9 s))) \<longleftrightarrow> tl (FIFO_list (IPCFIFO9 s)) = []"
    using FIFO_IsEmpty_list [OF fifo.invar_rd [OF f9]] fifo.contents_rd [OF f9] by simp
  have one: "tl xs = [] \<longleftrightarrow> xs = [] \<or> length xs = 1" for xs :: "u32 list" by (cases xs) auto
  show ?thesis
    by (simp add: ARM7IORead32_IPCFIFORECV_def Let_def case_prod_beta bit_masks SetIRQ_IFl irq_numbers
        bit_or_iff last one FIFO_IsEmpty_list [OF f9] del: length_FIFO_list)
qed

theorem recv7_irq_witness: "bit (IPCFIFOCnt7 (snd (ARM7IORead32_IPCFIFORECV (blank_nds\<lparr>IPCFIFOCnt9 := 0, IPCFIFOCnt7 := 0x8000\<rparr>)))) 14"
  using recv7_irq [OF ipc_inv_blank [where a = 0 and b = "0x8000"]] by (simp add: blank_nds_def FIFO_new_def FIFO_list_def)

section \<open>Synchronisation\<close>

text \<open>After a write of IPCSYNC by the ARM9, the ARM7 reads the written nibble, the ARM9 reads back
  its own, its received nibble is untouched, and the ARM7 is interrupted exactly when the write asks for it and the ARM7 allows it.\<close>

theorem ipcsync_exchange:
  "IPCSync7 (ARM9IOWrite16_IPCSYNC v s) AND 0x000F = shr v 8 AND 0x000F \<and>
   IPCSync9 (ARM9IOWrite16_IPCSYNC v s) AND 0x4F00 = v AND 0x4F00 \<and>
   IPCSync9 (ARM9IOWrite16_IPCSYNC v s) AND 0x00FF = IPCSync9 s AND 0x00FF \<and>
   IFl (ARM9IOWrite16_IPCSYNC v s) =
     (if bit v 13 \<and> bit (IPCSync7 s) 14 then (IFl s)(1 := IFl s 1 OR shl 1 16) else IFl s)"
proof -
  have keep: "bit (x AND 0xFFF0 OR shr v 8 AND 0x000F) 14 = bit x 14" for x :: u16
    by (simp add: bit_or_iff bit_and_iff bit_drop_bit_eq)
  have m: "(x AND 0xFFF0 OR shr v 8 AND 0x000F) AND 0x000F = shr v 8 AND 0x000F"
    "(x AND 0xB0FF OR v AND 0x4F00) AND 0x4F00 = v AND 0x4F00"
    "(x AND 0xB0FF OR v AND 0x4F00) AND 0x00FF = x AND 0x00FF" for x :: u16
    by (simp_all add: bit.conj_disj_distrib2 drop_bit_and bits)
  show ?thesis
    by (simp add: ARM9IOWrite16_IPCSYNC_def Let_def bit_masks keep m SetIRQ_IFl irq_numbers)
qed

end
