(* ===== verification/Timers.thy ===== *)
theory Timers
  imports Nds
begin

text \<open>
  The eight timers of \<^verbatim>\<open>src/src/NDS.cpp\<close> (four per CPU). A counter has ten fraction bits below
  its sixteen visible ones; a timer either counts cycles, scaled by its prescaler, or the
  overflows of the timer before it.
\<close>

section \<open>The code\<close>

definition upd_Counter :: "nat \<Rightarrow> (u32 \<Rightarrow> u32) \<Rightarrow> nds \<Rightarrow> nds" where
  "upd_Counter tid f s =
     s\<lparr>Timers := (Timers s)(tid := (Timers s tid)\<lparr>Counter := f (Counter (Timers s tid))\<rparr>)\<rparr>"

definition timer_reload :: "timer \<Rightarrow> u32" where
  "timer_reload t = shl (ucast (Reload t)) 10"

definition timer_irq :: "nat \<Rightarrow> nds \<Rightarrow> nds" where
  "timer_irq tid s =
     (if tst (Cnt (Timers s tid)) (shl 1 6) then SetIRQ (tid div 4) (IRQ_Timer0 + tid mod 4) s else s)"

text \<open>The loop over the timers after the one that overflowed (\<open>tid\<close> already incremented).\<close>

function timer_cascade :: "nat \<Rightarrow> nds \<Rightarrow> nds" where
  "timer_cascade tid s =
     (if Cnt (Timers s tid) AND 0x84 \<noteq> 0x84 then s
      else
        let s = upd_Counter tid (\<lambda>c. c + shl 1 10) s in
        if shr (Counter (Timers s tid)) 26 = 0 then s
        else
          let s = upd_Counter tid (\<lambda>_. timer_reload (Timers s tid)) s;
              s = timer_irq tid s
          in if tid mod 4 = 3 then s else timer_cascade (tid + 1) s)"
  by pat_completeness auto
termination
  by (relation "measure (\<lambda>(tid, s). 3 - tid mod 4)") (auto simp: mod_Suc)

declare timer_cascade.simps [simp del]

definition HandleTimerOverflow :: "nat \<Rightarrow> nds \<Rightarrow> nds" where
  "HandleTimerOverflow tid s =
     (let s = upd_Counter tid (\<lambda>c. c + timer_reload (Timers s tid)) s;
          s = timer_irq tid s
      in if tid mod 4 = 3 then s else timer_cascade (tid + 1) s)"

section \<open>Frames\<close>

lemma upd_Counter_simps [simp]:
  "Timers (upd_Counter tid f s) =
     (Timers s)(tid := (Timers s tid)\<lparr>Counter := f (Counter (Timers s tid))\<rparr>)"
  "IFl (upd_Counter tid f s) = IFl s" "SchedListMask (upd_Counter tid f s) = SchedListMask s"
  by (simp_all add: upd_Counter_def)

lemma timer_irq_Timers [simp]: "Timers (timer_irq tid s) = Timers s"
  by (simp add: timer_irq_def)

lemma timer_cascade_below:
  "j < tid \<Longrightarrow> Timers (timer_cascade tid s) j = Timers s j"
proof (induction tid s rule: timer_cascade.induct)
  case (1 tid s)
  then show ?case
    by (subst timer_cascade.simps) (auto simp: Let_def)
qed

lemma HandleTimerOverflow_self:
  "Timers (HandleTimerOverflow tid s) tid =
     (Timers s tid)\<lparr>Counter := Counter (Timers s tid) + timer_reload (Timers s tid)\<rparr>"
  by (simp add: HandleTimerOverflow_def Let_def timer_cascade_below)

lemma unat_Reload: "unat (Reload t) \<le> 65535"
  using unat_bound [of "Reload t"] by simp

lemma unat_timer_reload: "unat (timer_reload t) = unat (Reload t) * 1024"
  unfolding timer_reload_def using unat_Reload [of t]
  by (subst unat_shl) (simp_all add: unat_ucast_up)

lemma overflow_unat:
  assumes "\<not> unat c < 2 ^ 26"
  shows "unat (c - shl 1 26 + timer_reload t) = unat c - 2 ^ 26 + unat (Reload t) * 1024"
proof -
  have c: "unat (c - shl 1 26) = unat c - 2 ^ 26"
    using assms by (subst unat_sub_le) (simp_all add: unat_le_iff)
  have "unat c < 2 ^ 32" using unat_bound [of c] by simp
  with c show ?thesis
    using assms unat_Reload [of t] unat_add_small [of "c - shl 1 26" "timer_reload t"]
    by (simp add: unat_timer_reload)
qed

section \<open>Running a timer\<close>

function run_timer_loop :: "nat \<Rightarrow> nds \<Rightarrow> nds" where
  "run_timer_loop tid s =
     (if shr (Counter (Timers s tid)) 26 \<noteq> 0
      then run_timer_loop tid (HandleTimerOverflow tid (upd_Counter tid (\<lambda>c. c - shl 1 26) s))
      else s)"
  by pat_completeness auto

termination
proof (relation "measure (\<lambda>(tid, s). unat (Counter (Timers s tid)))", goal_cases)
  case (2 tid s)
  then have "\<not> unat (Counter (Timers s tid)) < 2 ^ 26" by (simp add: shr_eq_0_iff)
  with overflow_unat [OF this, of "Timers s tid"] unat_Reload [of "Timers s tid"]
  show ?case by (simp add: HandleTimerOverflow_self timer_reload_def)
qed simp

declare run_timer_loop.simps [simp del]

definition RunTimer :: "nat \<Rightarrow> s32 \<Rightarrow> nds \<Rightarrow> nds" where
  "RunTimer tid cycles s =
     run_timer_loop tid (upd_Counter tid (\<lambda>c. c + shl cycles (unat (CycleShift (Timers s tid)))) s)"

definition RunTimers :: "nat \<Rightarrow> nds \<Rightarrow> nds" where
  "RunTimers cpu s =
     (let timermask = TimerCheckMask s cpu;
          cycles :: s32 =
            (if cpu = 0 then ucast (shr (ARM9Timestamp s) (ARM9ClockShift s) - TimerTimestamp s 0)
             else ucast (ARM7Timestamp s - TimerTimestamp s 1));
          s = (if tst timermask 0x1 then RunTimer (cpu * 4 + 0) cycles s else s);
          s = (if tst timermask 0x2 then RunTimer (cpu * 4 + 1) cycles s else s);
          s = (if tst timermask 0x4 then RunTimer (cpu * 4 + 2) cycles s else s);
          s = (if tst timermask 0x8 then RunTimer (cpu * 4 + 3) cycles s else s)
      in s\<lparr>TimerTimestamp := (TimerTimestamp s)(cpu := TimerTimestamp s cpu + scast cycles)\<rparr>)"

definition TimerPrescaler :: "nat \<Rightarrow> u32" where
  "TimerPrescaler i = [0, 6, 8, 10] ! i"

definition TimerGetCounter :: "nat \<Rightarrow> nds \<Rightarrow> u16 \<times> nds" where
  "TimerGetCounter timer s =
     (let s = RunTimers (timer div 4) s; ret = Counter (Timers s timer) in (ucast (shr ret 10), s))"

definition TimerStart :: "nat \<Rightarrow> u16 \<Rightarrow> nds \<Rightarrow> nds" where
  "TimerStart tid cnt s =
     (let curstart = Cnt (Timers s tid) AND shl 1 7;
          newstart = cnt AND shl 1 7;
          s = RunTimers (tid div 4) s;
          s = s\<lparr>Timers := (Timers s)(tid := (Timers s tid)
                \<lparr>Cnt := cnt, CycleShift := 10 - TimerPrescaler (unat (cnt AND 0x03))\<rparr>)\<rparr>;
          s = (if curstart = 0 \<and> newstart \<noteq> 0
               then upd_Counter tid (\<lambda>_. timer_reload (Timers s tid)) s else s);
          cpu = tid div 4; b :: u8 = shl 1 (tid mod 4)
      in if cnt AND 0x84 = 0x80
         then s\<lparr>TimerCheckMask := (TimerCheckMask s)(cpu := TimerCheckMask s cpu OR b)\<rparr>
         else s\<lparr>TimerCheckMask := (TimerCheckMask s)(cpu := TimerCheckMask s cpu AND NOT b)\<rparr>)"

section \<open>What a timer shows after a number of cycles\<close>

text \<open>A timer at \<open>total\<close> (in counter units, the fraction bits included) has overflowed when it
  passed \<open>2 ^ 26\<close>, and starts again from its reload value each time.\<close>

definition timer_value :: "nat \<Rightarrow> nat \<Rightarrow> nat" where
  "timer_value reload tot =
     (if tot < 2 ^ 26 then tot
      else reload * 1024 + (tot - 2 ^ 26) mod (2 ^ 26 - reload * 1024))"

lemma timer_value_step:
  assumes "\<not> tot < 2 ^ 26" "reload \<le> 65535"
  shows "timer_value reload (tot - 2 ^ 26 + reload * 1024) = timer_value reload tot"
proof -
  define P where "P = 2 ^ 26 - reload * 1024"
  have P: "0 < P" "P + reload * 1024 = 2 ^ 26" using assms(2) by (simp_all add: P_def)
  show ?thesis
  proof (cases "tot - 2 ^ 26 < P")
    case True
    with P assms(1) have "tot - 2 ^ 26 + reload * 1024 < 2 ^ 26" by linarith
    with True assms(1) show ?thesis
      unfolding timer_value_def P_def [symmetric] by simp
  next
    case False
    then have "\<not> tot - 2 ^ 26 + reload * 1024 < 2 ^ 26" using P by linarith
    moreover have "tot - 2 ^ 26 + reload * 1024 - 2 ^ 26 = tot - 2 ^ 26 - P" using P False by linarith
    moreover have "(tot - 2 ^ 26 - P) mod P = (tot - 2 ^ 26) mod P"
      using False by (simp add: le_mod_geq)
    ultimately show ?thesis
      using assms(1) unfolding timer_value_def P_def [symmetric] by simp
  qed
qed

lemma run_timer_loop_self:
  "Timers (run_timer_loop tid s) tid = (Timers s tid)\<lparr>Counter := Counter (Timers (run_timer_loop tid s) tid)\<rparr> \<and>
   unat (Counter (Timers (run_timer_loop tid s) tid)) =
     timer_value (unat (Reload (Timers s tid))) (unat (Counter (Timers s tid)))"
proof (induction tid s rule: run_timer_loop.induct)
  case (1 tid s)
  show ?case
  proof (cases "unat (Counter (Timers s tid)) < 2 ^ 26")
    case True
    then have "run_timer_loop tid s = s"
      by (subst run_timer_loop.simps) (simp add: shr_eq_0_iff)
    with True show ?thesis by (simp add: timer_value_def)
  next
    case False
    let ?s = "HandleTimerOverflow tid (upd_Counter tid (\<lambda>c. c - shl 1 26) s)"
    from False have eq: "run_timer_loop tid s = run_timer_loop tid ?s"
      by (subst run_timer_loop.simps) (simp add: shr_eq_0_iff)
    have t: "Timers ?s tid = (Timers s tid)
        \<lparr>Counter := Counter (Timers s tid) - shl 1 26 + timer_reload (Timers s tid)\<rparr>"
      by (simp add: HandleTimerOverflow_self timer_reload_def)
    from 1 [unfolded shr_eq_0_iff, OF False] show ?thesis
      unfolding eq t
      using timer_value_step [OF False unat_Reload [of "Timers s tid"]] overflow_unat [OF False]
      by simp
  qed
qed

text \<open>After any number of cycles (the sum staying below 32 bits) the counter of a timer is the one of
  a counter that restarts from its reload value at each overflow, prescaler fraction included.\<close>

theorem RunTimer_counter:
  assumes "unat (Counter (Timers s tid)) + unat cycles * 2 ^ unat (CycleShift (Timers s tid)) < 2 ^ 32"
  shows "unat (Counter (Timers (RunTimer tid cycles s) tid)) =
    timer_value (unat (Reload (Timers s tid)))
      (unat (Counter (Timers s tid)) + unat cycles * 2 ^ unat (CycleShift (Timers s tid)))"
proof -
  let ?n = "unat (CycleShift (Timers s tid))"
  have "unat (shl cycles ?n) = unat cycles * 2 ^ ?n"
    using assms by (intro unat_shl) simp
  then have "unat (Counter (Timers s tid) + shl cycles ?n) = unat (Counter (Timers s tid)) + unat cycles * 2 ^ ?n"
    using assms by (subst unat_add_small) simp_all
  with run_timer_loop_self [of tid "upd_Counter tid (\<lambda>c. c + shl cycles ?n) s"] show ?thesis
    by (simp add: RunTimer_def)
qed

theorem RunTimer_counter_witness: "unat (Counter (Timers (RunTimer 0 (65536 + 5) blank_nds) 0)) = timer_value 0 65541"
  using RunTimer_counter [of blank_nds 0 65541] by (simp add: blank_nds_def)

section \<open>Running in pieces\<close>

text \<open>Adding to the counter of one timer commutes with everything the overflow of it does to the
  others.\<close>

lemma SetIRQ_Timers: "SetIRQ c i (s\<lparr>Timers := x\<rparr>) = (SetIRQ c i s)\<lparr>Timers := x\<rparr>"
  by (simp add: SetIRQ_def UpdateIRQ_eq Let_def irq_line_def irq_pending_def)

lemma SetIRQ_upd_Counter: "SetIRQ c i (upd_Counter tid f s) = upd_Counter tid f (SetIRQ c i s)"
  unfolding upd_Counter_def SetIRQ_Timers by simp

lemma timer_irq_upd_Counter: "timer_irq t (upd_Counter tid f s) = upd_Counter tid f (timer_irq t s)"
  by (simp add: timer_irq_def SetIRQ_upd_Counter)

lemma upd_Counter_other:
  "t \<noteq> tid \<Longrightarrow> upd_Counter t g (upd_Counter tid f s) = upd_Counter tid f (upd_Counter t g s)"
  by (simp add: upd_Counter_def fun_upd_twist)

lemma upd_Counter_same: "upd_Counter t g (upd_Counter t f s) = upd_Counter t (\<lambda>c. g (f c)) s"
  by (simp add: upd_Counter_def)

lemma timer_cascade_upd_Counter:
  "tid < t \<Longrightarrow> timer_cascade t (upd_Counter tid f s) = upd_Counter tid f (timer_cascade t s)"
proof (induction t s rule: timer_cascade.induct)
  case (1 t s)
  let ?s1 = "upd_Counter t (\<lambda>c. c + shl 1 10) s"
  let ?s2 = "timer_irq t (upd_Counter t (\<lambda>_. timer_reload (Timers ?s1 t)) ?s1)"
  have tm: "Timers (upd_Counter tid f s) t = Timers s t" using 1(2) by simp
  have s1: "upd_Counter t (\<lambda>c. c + shl 1 10) (upd_Counter tid f s) = upd_Counter tid f ?s1"
    using 1(2) by (simp add: upd_Counter_other)
  have tm1: "Timers (upd_Counter tid f ?s1) t = Timers ?s1 t" using 1(2) by simp
  have s2: "timer_irq t (upd_Counter t (\<lambda>_. timer_reload (Timers ?s1 t)) (upd_Counter tid f ?s1)) = upd_Counter tid f ?s2"
    using 1(2) by (simp only: upd_Counter_other timer_irq_upd_Counter)
  note eqs = timer_cascade.simps [of t "upd_Counter tid f s"] timer_cascade.simps [of t s] Let_def tm s1 tm1 s2
  show ?case
  proof (cases "Cnt (Timers s t) AND 0x84 \<noteq> 0x84")
    case True
    then show ?thesis unfolding eqs using True by (simp only: if_True not_False_eq_True)
  next
    case False
    note c1 = False
    show ?thesis
    proof (cases "shr (Counter (Timers ?s1 t)) 26 = 0")
      case True
      show ?thesis unfolding eqs by (simp only: c1 True if_True if_False simp_thms)
    next
      case False
      note c2 = False
      show ?thesis
      proof (cases "t mod 4 = 3")
        case True
        show ?thesis unfolding eqs by (simp only: c1 c2 True if_True if_False simp_thms)
      next
        case False
        have "timer_cascade (t + 1) (upd_Counter tid f ?s2) = upd_Counter tid f (timer_cascade (t + 1) ?s2)"
          using c1 c2 False 1(2) by (intro 1(1) [OF _ refl _ refl refl]) simp_all
        then show ?thesis unfolding eqs by (simp only: c1 c2 False if_False simp_thms)
      qed
    qed
  qed
qed

lemma HandleTimerOverflow_add:
  "HandleTimerOverflow tid (upd_Counter tid (\<lambda>c. c + d) s) = upd_Counter tid (\<lambda>c. c + d) (HandleTimerOverflow tid s)"
proof -
  let ?r = "timer_reload (Timers s tid)"
  have "upd_Counter tid (\<lambda>c. c + timer_reload (Timers (upd_Counter tid (\<lambda>c. c + d) s) tid)) (upd_Counter tid (\<lambda>c. c + d) s) =
      upd_Counter tid (\<lambda>c. c + d) (upd_Counter tid (\<lambda>c. c + ?r) s)"
    unfolding upd_Counter_same by (simp add: timer_reload_def ac_simps)
  then show ?thesis
    unfolding HandleTimerOverflow_def Let_def
    by (simp only: timer_irq_upd_Counter timer_cascade_upd_Counter [OF less_add_one]
      if_distrib [of "upd_Counter tid (\<lambda>c. c + d)"])
qed

lemma run_timer_loop_add:
  "unat (Counter (Timers s tid)) + unat d < 2 ^ 32 \<Longrightarrow>
   run_timer_loop tid (upd_Counter tid (\<lambda>c. c + d) (run_timer_loop tid s)) =
     run_timer_loop tid (upd_Counter tid (\<lambda>c. c + d) s)"
proof (induction tid s rule: run_timer_loop.induct)
  case (1 tid s)
  let ?c = "Counter (Timers s tid)"
  show ?case
  proof (cases "unat ?c < 2 ^ 26")
    case True
    then have "run_timer_loop tid s = s" by (subst run_timer_loop.simps) (simp add: shr_eq_0_iff)
    then show ?thesis by simp
  next
    case False
    let ?sub = "upd_Counter tid (\<lambda>c. c - shl 1 26)"
    let ?s = "HandleTimerOverflow tid (?sub s)"
    have c': "unat (Counter (Timers ?s tid)) = unat ?c - 2 ^ 26 + unat (Reload (Timers s tid)) * 1024"
      using overflow_unat [OF False, of "Timers s tid"] by (simp add: HandleTimerOverflow_self timer_reload_def)
    have step: "run_timer_loop tid s = run_timer_loop tid ?s"
      using False by (subst run_timer_loop.simps) (simp add: shr_eq_0_iff)
    have sum: "unat (?c + d) = unat ?c + unat d"
      using 1(2) by (subst unat_add_small) simp_all
    have "run_timer_loop tid (upd_Counter tid (\<lambda>c. c + d) s) =
        run_timer_loop tid (HandleTimerOverflow tid (?sub (upd_Counter tid (\<lambda>c. c + d) s)))"
      using False sum by (subst run_timer_loop.simps) (simp add: shr_eq_0_iff)
    also have "?sub (upd_Counter tid (\<lambda>c. c + d) s) = upd_Counter tid (\<lambda>c. c + d) (?sub s)"
      unfolding upd_Counter_same by (simp add: algebra_simps)
    also have "HandleTimerOverflow tid (upd_Counter tid (\<lambda>c. c + d) (?sub s)) = upd_Counter tid (\<lambda>c. c + d) ?s"
      by (rule HandleTimerOverflow_add)
    finally have eq: "run_timer_loop tid (upd_Counter tid (\<lambda>c. c + d) s) =
        run_timer_loop tid (upd_Counter tid (\<lambda>c. c + d) ?s)" .
    have "unat (Counter (Timers ?s tid)) + unat d < 2 ^ 32"
      using c' False 1(2) unat_Reload [of "Timers s tid"] by simp
    with 1(1) False show ?thesis unfolding eq step by (simp add: shr_eq_0_iff)
  qed
qed

lemma run_timer_loop_CycleShift: "CycleShift (Timers (run_timer_loop tid s) tid) = CycleShift (Timers s tid)"
  using arg_cong [OF run_timer_loop_self [THEN conjunct1, of tid s], of CycleShift] by simp

text \<open>C7: Running a timer for \<open>a\<close> cycles and then for \<open>b\<close> cycles has the same effect on the whole
  console (counters, cascaded timers, interrupts) as running it for \<open>a + b\<close> cycles at once: it
  does not matter how often the emulator catches up.\<close>

theorem RunTimer_split:
  assumes "unat (Counter (Timers s tid)) +
      (unat a + unat b) * 2 ^ unat (CycleShift (Timers s tid)) < 2 ^ 32"
  shows "RunTimer tid b (RunTimer tid a s) = RunTimer tid (a + b) s"
proof -
  let ?n = "unat (CycleShift (Timers s tid))"
  have "unat (shl a ?n) = unat a * 2 ^ ?n" "unat (shl b ?n) = unat b * 2 ^ ?n"
    using assms by (auto intro!: unat_shl simp: add_mult_distrib)
  then have ab: "unat (Counter (Timers s tid)) + unat (shl a ?n) + unat (shl b ?n) < 2 ^ 32"
    using assms by (simp add: add_mult_distrib)
  then have "unat (Counter (Timers s tid) + shl a ?n) = unat (Counter (Timers s tid)) + unat (shl a ?n)"
    by (subst unat_add_small) simp_all
  with ab have pre: "unat (Counter (Timers (upd_Counter tid (\<lambda>c. c + shl a ?n) s) tid)) + unat (shl b ?n) < 2 ^ 32"
    by simp
  have shift: "CycleShift (Timers (RunTimer tid a s) tid) = CycleShift (Timers s tid)"
    using run_timer_loop_CycleShift [of tid "upd_Counter tid (\<lambda>c. c + shl a ?n) s"] by (simp add: RunTimer_def)
  have "shl (a + b) ?n = shl a ?n + shl b ?n" by (simp add: push_bit_add)
  then show ?thesis
    unfolding RunTimer_def [of tid b] shift
    unfolding RunTimer_def run_timer_loop_add [OF pre] upd_Counter_same by (simp add: add.assoc)
qed

theorem RunTimer_split_witness: "RunTimer 0 70000 (RunTimer 0 5 blank_nds) = RunTimer 0 70005 blank_nds"
  using RunTimer_split [of blank_nds 0 5 70000] by (simp add: blank_nds_def)

end
