(* ===== verification/Interrupts.thy ===== *)
theory Interrupts
  imports Ipc Timers
begin

text \<open>
  The interrupt lines as a state machine: every operation of the console that touches an
  interrupt register, written as one step relation. The line each CPU sees (\<^verbatim>\<open>ARM::IRQ\<close>, kept by
  \<^verbatim>\<open>NDS::UpdateIRQ\<close>) always is the function of the registers the hardware documents.
\<close>

inductive irq_step :: "nds \<Rightarrow> nds \<Rightarrow> bool" where
  set_irq: "c < 2 \<Longrightarrow> irq_step s (SetIRQ c i s)"
| clear_irq: "c < 2 \<Longrightarrow> irq_step s (ClearIRQ c i s)"
| set_irq2: "irq_step s (SetIRQ2 i s)"
| clear_irq2: "irq_step s (ClearIRQ2 i s)"
| write_ime: "c < 2 \<Longrightarrow> irq_step s (WriteIME c v s)"
| write_ie: "c < 2 \<Longrightarrow> irq_step s (WriteIE c v s)"
| write_if9: "irq_step s (ARM9_WriteIF v s)"
| write_if7: "irq_step s (ARM7_WriteIF v s)"
| write_ie2: "irq_step s (DSi_WriteIE2 v s)"
| write_if2: "irq_step s (DSi_WriteIF2 v s)"
| keys: "irq_step s (SetKeyMask m s)"
| lid: "irq_step s (SetLidClosed cl s)"
| stop: "irq_step s (StopCPU c m s)"
| resume: "irq_step s (ResumeCPU c m s)"
| unstall: "irq_step s (GXFIFOUnstall s)"
| sleep: "irq_step s (EnterSleepMode s)"
| ipc: "irq_step s (snd (ipc_step op s))"
| timers: "c < 2 \<Longrightarrow> irq_step s (RunTimers c s)"

lemma irq_ok_upd [simp]:
  "irq_ok (s\<lparr>IPCSync9 := x\<rparr>) = irq_ok s" "irq_ok (s\<lparr>IPCSync7 := x\<rparr>) = irq_ok s"
  "irq_ok (s\<lparr>IPCFIFOCnt9 := x\<rparr>) = irq_ok s" "irq_ok (s\<lparr>IPCFIFOCnt7 := x\<rparr>) = irq_ok s"
  "irq_ok (s\<lparr>IPCFIFO9 := q\<rparr>) = irq_ok s" "irq_ok (s\<lparr>IPCFIFO7 := q\<rparr>) = irq_ok s"
  "irq_ok (s\<lparr>CPUStop := c\<rparr>) = irq_ok s" "irq_ok (s\<lparr>KeyInput := c\<rparr>) = irq_ok s"
  "irq_ok (s\<lparr>ARM_Halted := h\<rparr>) = irq_ok s" "irq_ok (s\<lparr>Timers := t\<rparr>) = irq_ok s"
  "irq_ok (s\<lparr>TimerTimestamp := tt\<rparr>) = irq_ok s"
  by (simp_all add: irq_ok_def irq_line_def irq_pending_def)

lemma irq_ok_ARM_Halt [simp]: "irq_ok (ARM_Halt c h s) = irq_ok s"
  by (simp add: ARM_Halt_def)

lemma irq_ok_CheckKeyIRQ: "irq_ok s \<Longrightarrow> c < 2 \<Longrightarrow> irq_ok (CheckKeyIRQ c a b s)"
  by (simp add: CheckKeyIRQ_def Let_def split_beta SetIRQ_irq_ok)

lemma irq_ok_SetKeyMask: "irq_ok s \<Longrightarrow> irq_ok (SetKeyMask m s)"
  by (simp add: SetKeyMask_def Let_def irq_ok_CheckKeyIRQ)

lemma irq_ok_SetLidClosed: "irq_ok s \<Longrightarrow> irq_ok (SetLidClosed c s)"
  by (simp add: SetLidClosed_def SetIRQ_irq_ok)

lemma irq_ok_ipc: "irq_ok s \<Longrightarrow> irq_ok (snd (ipc_step op s))"
  by (cases op)
    (simp_all add: ipc_step_def ARM9IOWrite16_IPCSYNC_def ARM7IOWrite16_IPCSYNC_def ARM9IOWrite16_IPCFIFOCNT_def
      ARM7IOWrite16_IPCFIFOCNT_def ARM9IOWrite32_IPCFIFOSEND_def ARM7IOWrite32_IPCFIFOSEND_def
      ARM9IORead32_IPCFIFORECV_def ARM7IORead32_IPCFIFORECV_def Let_def split_beta SetIRQ_irq_ok)

lemma irq_ok_upd_Counter [simp]: "irq_ok (upd_Counter tid f s) = irq_ok s"
  by (simp add: upd_Counter_def)

lemma irq_ok_timer_irq: "irq_ok s \<Longrightarrow> tid < 8 \<Longrightarrow> irq_ok (timer_irq tid s)"
  by (auto simp: timer_irq_def intro!: SetIRQ_irq_ok)

lemma irq_ok_timer_cascade: "irq_ok s \<Longrightarrow> tid < 8 \<Longrightarrow> irq_ok (timer_cascade tid s)"
proof (induction tid s rule: timer_cascade.induct)
  case (1 tid s)
  have "tid mod 4 \<noteq> 3 \<Longrightarrow> tid + 1 < 8"
    using "1.prems"(2) by (cases "tid = 7") auto
  with 1 show ?case
    by (subst timer_cascade.simps) (auto simp: Let_def irq_ok_timer_irq)
qed

lemma irq_ok_HandleTimerOverflow: "irq_ok s \<Longrightarrow> tid < 8 \<Longrightarrow> irq_ok (HandleTimerOverflow tid s)"
  by (cases "tid = 7")
    (auto simp: HandleTimerOverflow_def Let_def intro!: irq_ok_timer_cascade irq_ok_timer_irq)

lemma irq_ok_run_timer_loop: "irq_ok s \<Longrightarrow> tid < 8 \<Longrightarrow> irq_ok (run_timer_loop tid s)"
proof (induction tid s rule: run_timer_loop.induct)
  case (1 tid s)
  then show ?case
    by (subst run_timer_loop.simps) (auto simp: irq_ok_HandleTimerOverflow)
qed

lemma irq_ok_RunTimer: "irq_ok s \<Longrightarrow> tid < 8 \<Longrightarrow> irq_ok (RunTimer tid c s)"
  by (simp add: RunTimer_def irq_ok_run_timer_loop)

lemma irq_ok_RunTimers: "irq_ok s \<Longrightarrow> c < 2 \<Longrightarrow> irq_ok (RunTimers c s)"
  by (simp add: RunTimers_def Let_def irq_ok_RunTimer)

lemma irq_step_ok: "irq_step s t \<Longrightarrow> irq_ok s \<Longrightarrow> irq_ok t"
  by (induction rule: irq_step.induct)
    (simp_all add: SetIRQ_irq_ok ClearIRQ_irq_ok SetIRQ2_irq_ok ClearIRQ2_irq_ok WriteIME_irq_ok WriteIE_irq_ok
      ARM9_WriteIF_irq_ok ARM7_WriteIF_irq_ok DSi_WriteIE2_irq_ok DSi_WriteIF2_irq_ok irq_ok_SetKeyMask
      irq_ok_SetLidClosed irq_ok_ipc irq_ok_RunTimers StopCPU_def ResumeCPU_def GXFIFOUnstall_def EnterSleepMode_def)

text \<open>C4: Whatever sequence of interrupt requests, register writes, key presses, lid movements,
  IPC accesses and timer runs the console goes through, the interrupt line of each CPU is the one
  its master enable, enable and flag registers call for; no operation forgets to update it.\<close>

theorem irq_lines_follow_registers:
  assumes "irq_step\<^sup>*\<^sup>* s t" "irq_ok s"
  shows "ARM_IRQ t 0 = irq_line 0 t \<and> ARM_IRQ t 1 = irq_line 1 t"
proof -
  from assms have "irq_ok t" by (induction rule: rtranclp_induct) (blast intro: irq_step_ok)+
  then show ?thesis by (simp add: irq_ok_def)
qed

theorem irq_lines_follow_registers_witness:
  "ARM_IRQ (WriteIME 1 1 (SetIRQ 1 7 (WriteIE 1 0x80 blank_nds))) 1 = 1"
proof -
  have "irq_step blank_nds (WriteIE 1 0x80 blank_nds)"
      "irq_step (WriteIE 1 0x80 blank_nds) (SetIRQ 1 7 (WriteIE 1 0x80 blank_nds))"
      "irq_step (SetIRQ 1 7 (WriteIE 1 0x80 blank_nds)) (WriteIME 1 1 (SetIRQ 1 7 (WriteIE 1 0x80 blank_nds)))"
    by (rule irq_step.write_ie irq_step.set_irq irq_step.write_ime, simp)+
  then have "irq_step\<^sup>*\<^sup>* blank_nds (WriteIME 1 1 (SetIRQ 1 7 (WriteIE 1 0x80 blank_nds)))"
    by (meson r_into_rtranclp rtranclp_trans)
  moreover have "irq_ok blank_nds" by (simp add: irq_ok_def irq_line_def irq_pending_def blank_nds_def)
  ultimately have "ARM_IRQ (WriteIME 1 1 (SetIRQ 1 7 (WriteIE 1 0x80 blank_nds))) 1 =
      irq_line 1 (WriteIME 1 1 (SetIRQ 1 7 (WriteIE 1 0x80 blank_nds)))"
    using irq_lines_follow_registers by blast
  then show ?thesis
    by (simp add: WriteIME_def WriteIE_def SetIRQ_def UpdateIRQ_eq irq_line_def irq_pending_def blank_nds_def Let_def)
qed
end
