(* ===== verification/Rtc.thy ===== *)
theory Rtc
  imports Sched
begin

text \<open>
  The real-time clock, \<^verbatim>\<open>src/src/RTC.cpp\<close>: the calendar and its registers, the interrupt logic, the
  clock event of the scheduler, and the serial interface the ARM7 drives bit by bit through
  \<^verbatim>\<open>RTC::Write\<close>. Operations on the register file alone act on \<open>rtc_state\<close>; the ones that reach
  the rest of the console act on \<open>nds\<close>.
\<close>

section \<open>The register file\<close>

definition BCD :: "u8 \<Rightarrow> u8" where
  "BCD val = (val mod 10) OR shl (val div 10) 4"

definition FromBCD :: "u8 \<Rightarrow> u8" where
  "FromBCD val = (val AND 0xF) + shr val 4 * 10"

definition BCDIncrement :: "u8 \<Rightarrow> u8" where
  "BCDIncrement val =
     (let val = val + 1;
          val = (if val AND 0x0F \<ge> 0x0A then val + 0x06 else val);
          val = (if val AND 0xF0 \<ge> 0xA0 then val + 0x60 else val)
      in val)"

definition BCDSanitize :: "u8 \<Rightarrow> u8 \<Rightarrow> u8 \<Rightarrow> u8" where
  "BCDSanitize val vmin vmax =
     (if val < vmin \<or> val > vmax then vmin
      else if val AND 0x0F \<ge> 0x0A then vmin
      else if val AND 0xF0 \<ge> 0xA0 then vmin
      else val)"

definition GetDateTime :: "rtc_state \<Rightarrow> int \<times> int \<times> int \<times> int \<times> int \<times> int" where
  "GetDateTime st =
     (let year = uint (FromBCD (DateTime st 0)) + 2000;
          month = uint (FromBCD (DateTime st 1 AND 0x3F));
          day = uint (FromBCD (DateTime st 2 AND 0x3F));
          hour = uint (FromBCD (DateTime st 4 AND 0x3F));
          hour = (if \<not> tst (StatusReg1 st) (shl 1 1) then
                    if tst (DateTime st 4) 0x40 then hour + 12 else hour
                  else hour);
          minute = uint (FromBCD (DateTime st 5 AND 0x7F));
          second = uint (FromBCD (DateTime st 6 AND 0x7F))
      in (year, month, day, hour, minute, second))"

definition set_dt :: "nat \<Rightarrow> u8 \<Rightarrow> rtc_state \<Rightarrow> rtc_state" where
  "set_dt i v st = st\<lparr>DateTime := (DateTime st)(i := v)\<rparr>"

definition monthdays :: "int \<Rightarrow> int list" where
  "monthdays year =
     (let md = [0, 31, 28, 31, 30, 31, 30, 31, 31, 30, 31, 30, 31]
      in if year mod 4 = 0 then md[2 := 29] else md)"

definition SetDateTime :: "int \<Rightarrow> int \<Rightarrow> int \<Rightarrow> int \<Rightarrow> int \<Rightarrow> int \<Rightarrow> rtc_state \<Rightarrow> rtc_state" where
  "SetDateTime year month day hour minute second st =
     (let year = c_mod year 100;
          year = (if year < 0 then 0 else year);
          md = monthdays year;
          month = (if month < 1 \<or> month > 12 then 1 else month);
          day = (if day < 1 \<or> day > md ! nat month then 1 else day);
          hour = (if hour < 0 \<or> hour > 23 then 0 else hour);
          minute = (if minute < 0 \<or> minute > 59 then 0 else minute);
          second = (if second < 0 \<or> second > 59 then 0 else second);
          numdays = year * 365 + c_div (year + 3) 4;
          numdays = numdays + sum_list (map (\<lambda>m. md ! m) [1..<nat month]);
          numdays = numdays + (day - 1);
          dayofweek = c_mod (6 + numdays) 7;
          pm :: u8 = (if hour \<ge> 12 then 0x40 else 0);
          hour = (if \<not> tst (StatusReg1 st) (shl 1 1) then
                    if pm \<noteq> 0 then hour - 12 else hour
                  else hour);
          st = set_dt 0 (BCD (word_of_int year)) st;
          st = set_dt 1 (BCD (word_of_int month)) st;
          st = set_dt 2 (BCD (word_of_int day)) st;
          st = set_dt 3 (word_of_int dayofweek) st;
          st = set_dt 4 (BCD (word_of_int hour) OR pm) st;
          st = set_dt 5 (BCD (word_of_int minute)) st;
          st = set_dt 6 (BCD (word_of_int second)) st
      in st\<lparr>StatusReg1 := StatusReg1 st AND NOT 0x80\<rparr>)"

definition ResetState :: "rtc_state \<Rightarrow> rtc_state" where
  "ResetState st =
     (let st = \<lparr>StatusReg1 = 0, StatusReg2 = 0, DateTime = (\<lambda>_. 0), Alarm1 = (\<lambda>_. 0), Alarm2 = (\<lambda>_. 0),
                ClockAdjust = 0, FreeReg = 0, IRQFlag = 0, MinuteCount = 0, FOUT1 = 0, FOUT2 = 0,
                AlarmDate1 = (\<lambda>_. 0), AlarmDate2 = (\<lambda>_. 0)\<rparr>
      in set_dt 2 1 (set_dt 1 1 st))"

section \<open>Counting\<close>

definition DaysInMonth :: "rtc_state \<Rightarrow> u8" where
  "DaysInMonth st =
     (if DateTime st 1 \<in> {0x01, 0x03, 0x05, 0x07, 0x08, 0x10, 0x12} then 0x31
      else if DateTime st 1 \<in> {0x04, 0x06, 0x09, 0x11} then 0x30
      else if DateTime st 1 = 0x02 then
        let year = uint (DateTime st 0);
            year = year mod 16 + (year div 16) * 10
        in if year mod 4 = 0 then 0x29 else 0x28
      else 0)"

definition CountYear :: "rtc_state \<Rightarrow> rtc_state" where
  "CountYear st = set_dt 0 (BCDIncrement (DateTime st 0)) st"

definition CountMonth :: "rtc_state \<Rightarrow> rtc_state" where
  "CountMonth st =
     (let st = set_dt 1 (BCDIncrement (DateTime st 1)) st
      in if DateTime st 1 > 0x12 then CountYear (set_dt 1 1 st) else st)"

definition CheckEndOfMonth :: "rtc_state \<Rightarrow> rtc_state" where
  "CheckEndOfMonth st =
     (if DateTime st 2 > DaysInMonth st then CountMonth (set_dt 2 1 st) else st)"

definition CountDay :: "rtc_state \<Rightarrow> rtc_state" where
  "CountDay st =
     (let st = set_dt 3 (DateTime st 3 + 1) st;
          st = (if DateTime st 3 \<ge> 7 then set_dt 3 0 st else st);
          st = set_dt 2 (BCDIncrement (DateTime st 2)) st
      in CheckEndOfMonth st)"

definition CountHour :: "rtc_state \<Rightarrow> rtc_state" where
  "CountHour st =
     (let hour = BCDIncrement (DateTime st 4 AND 0x3F);
          pm = DateTime st 4 AND 0x40;
          (hour, pm, st) =
            (if tst (StatusReg1 st) (shl 1 1) then
               let (hour, st) = (if hour \<ge> 0x24 then (0, CountDay st) else (hour, st))
               in (hour, if hour \<ge> 0x12 then 0x40 else 0, st)
             else if hour \<ge> 0x12 then (0, pm XOR 0x40, if pm \<noteq> 0 then CountDay st else st)
             else (hour, pm, st))
      in set_dt 4 (hour OR pm) st)"

definition WriteDateTime :: "nat \<Rightarrow> u8 \<Rightarrow> rtc_state \<Rightarrow> rtc_state" where
  "WriteDateTime num val st =
     (if num = 1 then set_dt 0 (BCDSanitize val 0x00 0x99) st
      else if num = 2 then set_dt 1 (BCDSanitize (val AND 0x1F) 0x01 0x12) st
      else if num = 3 then CheckEndOfMonth (set_dt 2 (BCDSanitize (val AND 0x3F) 0x01 0x31) st)
      else if num = 4 then set_dt 3 (BCDSanitize (val AND 0x07) 0x00 0x06) st
      else if num = 5 then
        let hour = val AND 0x3F; pm = val AND 0x40;
            (hour, pm) =
              (if tst (StatusReg1 st) (shl 1 1) then
                 let hour = BCDSanitize hour 0x00 0x23 in (hour, if hour \<ge> 0x12 then 0x40 else 0)
               else (BCDSanitize hour 0x00 0x11, pm))
        in set_dt 4 (hour OR pm) st
      else if num = 6 then set_dt 5 (BCDSanitize (val AND 0x7F) 0x00 0x59) st
      else if num = 7 then set_dt 6 (BCDSanitize (val AND 0x7F) 0x00 0x59) st
      else st)"

definition SetState :: "rtc_state \<Rightarrow> rtc_state" where
  "SetState state = fold (\<lambda>i st. WriteDateTime (i + 1) (DateTime st i) st) [0..<7] state"

section \<open>Interrupts\<close>

definition upd_rtc :: "(rtc \<Rightarrow> rtc) \<Rightarrow> nds \<Rightarrow> nds" where
  "upd_rtc f s = s\<lparr>RTC := f (RTC s)\<rparr>"

definition upd_state :: "(rtc_state \<Rightarrow> rtc_state) \<Rightarrow> nds \<Rightarrow> nds" where
  "upd_state f s = upd_rtc (\<lambda>r. r\<lparr>rtc_State := f (rtc_State r)\<rparr>) s"

abbreviation rst :: "nds \<Rightarrow> rtc_state" where
  "rst s \<equiv> rtc_State (RTC s)"

definition RTC_SetIRQ :: "u8 \<Rightarrow> nds \<Rightarrow> nds" where
  "RTC_SetIRQ irq s =
     (let oldstat = IRQFlag (rst s);
          s = upd_state (\<lambda>st. st\<lparr>IRQFlag := IRQFlag st OR irq\<rparr>) s;
          s = upd_state (\<lambda>st. st\<lparr>StatusReg1 := StatusReg1 st OR irq\<rparr>) s
      in if \<not> tst oldstat 0x30 \<and> tst (IRQFlag (rst s)) 0x30 then
           if RCnt s AND 0xC100 = 0x8100 then SetIRQ 1 IRQ_RTC s else s
         else s)"

definition RTC_ClearIRQ :: "u8 \<Rightarrow> nds \<Rightarrow> nds" where
  "RTC_ClearIRQ irq s = upd_state (\<lambda>st. st\<lparr>IRQFlag := IRQFlag st AND NOT irq\<rparr>) s"

text \<open>The condition of an alarm: a day of the week, an hour, a minute, and on the DSi a date,
  each with its own enable bit.\<close>

definition alarm_cond :: "int \<Rightarrow> (nat \<Rightarrow> u8) \<Rightarrow> (nat \<Rightarrow> u8) \<Rightarrow> (nat \<Rightarrow> u8) \<Rightarrow> bool" where
  "alarm_cond console alarm alarmdate dt =
     (let cond = True;
          cond = (if tst (alarm 0) (shl 1 7) then cond \<and> alarm 0 AND 0x07 = dt 3 else cond);
          cond = (if tst (alarm 1) (shl 1 7) then cond \<and> alarm 1 AND 0x7F = dt 4 else cond);
          cond = (if tst (alarm 2) (shl 1 7) then cond \<and> alarm 2 AND 0x7F = dt 5 else cond)
      in if console = 1 then
           let cond = (if tst (alarmdate 1) (shl 1 6) then cond \<and> alarmdate 0 = dt 0 else cond);
               cond = (if tst (alarmdate 1) (shl 1 7) then cond \<and> alarmdate 1 AND 0x1F = dt 1 else cond);
               cond = (if tst (alarmdate 2) (shl 1 7) then cond \<and> alarmdate 2 AND 0x3F = dt 2 else cond)
           in cond
         else cond)"

definition freq_mask :: "u8 \<Rightarrow> u32" where
  "freq_mask a =
     (let m = 0;
          m = (if tst a (shl 1 0) then m OR 0x4000 else m);
          m = (if tst a (shl 1 1) then m OR 0x2000 else m);
          m = (if tst a (shl 1 2) then m OR 0x1000 else m);
          m = (if tst a (shl 1 3) then m OR 0x0800 else m);
          m = (if tst a (shl 1 4) then m OR 0x0400 else m)
      in m)"

definition ProcessINT1 :: "nat \<Rightarrow> nds \<Rightarrow> nds" where
  "ProcessINT1 type s =
     (let m = StatusReg2 (rst s) AND 0x0F; cc = rtc_ClockCount (RTC s) in
      if m = 0b0000 then
        (if type = 2 then RTC_ClearIRQ 0x10 s else s)
      else if m = 0b0001 \<or> m = 0b0101 then
        (if (type = 1 \<and> \<not> tst cc 0x3FF) \<or> type = 2 then
           let msk = freq_mask (Alarm1 (rst s) 2)
           in if msk \<noteq> 0 \<and> cc AND msk \<noteq> msk then RTC_SetIRQ 0x10 s else RTC_ClearIRQ 0x10 s
         else s)
      else if m = 0b0010 \<or> m = 0b0110 then
        (if type = 0 \<or> (type = 2 \<and> tst (IRQFlag (rst s)) 0x01) then RTC_SetIRQ 0x10 s else s)
      else if m = 0b0011 then
        (if type = 0 \<or> (type = 2 \<and> tst (IRQFlag (rst s)) 0x01) then RTC_SetIRQ 0x10 s
         else if type = 1 \<and> DateTime (rst s) 6 = 0x30 \<and> cc AND 0x7FFF = 0 then RTC_ClearIRQ 0x10 s
         else s)
      else if m = 0b0111 then
        (if type = 0 \<or> (type = 2 \<and> tst (IRQFlag (rst s)) 0x01) then RTC_SetIRQ 0x10 s
         else if type = 1 \<and> DateTime (rst s) 6 = 0x00 \<and> cc AND 0x7FFF = 256 then RTC_ClearIRQ 0x10 s
         else s)
      else if m = 0b0100 then
        (if type = 0 then
           if alarm_cond (ConsoleType s) (Alarm1 (rst s)) (AlarmDate1 (rst s)) (DateTime (rst s))
           then RTC_SetIRQ 0x10 s else RTC_ClearIRQ 0x10 s
         else s)
      else
        (if type = 1 then RTC_ClearIRQ 0x10 (RTC_SetIRQ 0x10 s) else s))"

definition ProcessINT2 :: "nat \<Rightarrow> nds \<Rightarrow> nds" where
  "ProcessINT2 type s =
     (if tst (StatusReg2 (rst s)) (shl 1 6) then
        (if type = 0 then
           if alarm_cond (ConsoleType s) (Alarm2 (rst s)) (AlarmDate2 (rst s)) (DateTime (rst s))
           then RTC_SetIRQ 0x20 s else RTC_ClearIRQ 0x20 s
         else s)
      else if type = 2 then RTC_ClearIRQ 0x20 s else s)"

definition ProcessIRQ :: "nat \<Rightarrow> nds \<Rightarrow> nds" where
  "ProcessIRQ type s = ProcessINT2 type (ProcessINT1 type s)"

section \<open>The clock event\<close>

definition CountMinute :: "nds \<Rightarrow> nds" where
  "CountMinute s =
     (let s = upd_state (\<lambda>st. st\<lparr>MinuteCount := MinuteCount st + 1\<rparr>) s;
          s = upd_state (\<lambda>st. set_dt 5 (BCDIncrement (DateTime st 5)) st) s;
          s = (if DateTime (rst s) 5 \<ge> 0x60 then upd_state (\<lambda>st. CountHour (set_dt 5 0 st)) s else s);
          s = upd_state (\<lambda>st. st\<lparr>IRQFlag := IRQFlag st OR 0x01\<rparr>) s
      in ProcessIRQ 0 s)"

definition CountSecond :: "nds \<Rightarrow> nds" where
  "CountSecond s =
     (let s = upd_state (\<lambda>st. set_dt 6 (BCDIncrement (DateTime st 6)) st) s
      in if DateTime (rst s) 6 \<ge> 0x60 then CountMinute (upd_state (set_dt 6 0) s) else s)"

definition ScheduleTimer :: "bool \<Rightarrow> nds \<Rightarrow> nds" where
  "ScheduleTimer first s =
     (let s = (if first then upd_rtc (\<lambda>r. r\<lparr>rtc_TimerError := 0\<rparr>) s else s);
          sysclock = 33513982 + rtc_TimerError (RTC s);
          delay = asr sysclock 15;
          s = upd_rtc (\<lambda>r. r\<lparr>rtc_TimerError := sysclock AND 0x7FFF\<rparr>) s
      in ScheduleEvent Event_RTC (\<not> first) delay 0 0 s)"

definition ClockTimer :: "u32 \<Rightarrow> nds \<Rightarrow> nds" where
  "ClockTimer param s =
     (let s = upd_rtc (\<lambda>r. r\<lparr>rtc_ClockCount := rtc_ClockCount r + 1\<rparr>) s;
          cc = rtc_ClockCount (RTC s);
          s = (if \<not> tst cc 0x7FFF then CountSecond s
               else if cc AND 0x7FFF = 4 then upd_state (\<lambda>st. st\<lparr>IRQFlag := IRQFlag st AND NOT 0x01\<rparr>) s
               else s);
          s = ProcessIRQ 1 s
      in ScheduleTimer False s)"

definition RTC_Reset :: "nds \<Rightarrow> nds" where
  "RTC_Reset s =
     ScheduleTimer True
       (upd_rtc (\<lambda>r. r\<lparr>rtc_Input := 0, rtc_InputBit := 0, rtc_InputPos := 0, rtc_Output := (\<lambda>_. 0),
                      rtc_OutputPos := 0, rtc_CurCmd := 0, rtc_ClockCount := 0\<rparr>) s)"

section \<open>Commands\<close>

definition SaveDateTime :: "nds \<Rightarrow> nds" where
  "SaveDateTime s =
     (let (y, m, d, h, i, sec) = GetDateTime (rst s)
      in s\<lparr>ext_calls := ext_calls s @ [Platform_WriteDateTime y m d h i sec]\<rparr>)"

text \<open>\<^verbatim>\<open>memcpy(Output, &src[off], n)\<close> and a store to one output byte.\<close>

definition out_copy :: "(nat \<Rightarrow> u8) \<Rightarrow> nat \<Rightarrow> nat \<Rightarrow> nds \<Rightarrow> nds" where
  "out_copy src off n s =
     upd_rtc (\<lambda>r. r\<lparr>rtc_Output := (\<lambda>i. if i < n then src (off + i) else rtc_Output r i)\<rparr>) s"

definition out_set :: "nat \<Rightarrow> u8 \<Rightarrow> nds \<Rightarrow> nds" where
  "out_set i v s = upd_rtc (\<lambda>r. r\<lparr>rtc_Output := (rtc_Output r)(i := v)\<rparr>) s"

definition CmdRead :: "nds \<Rightarrow> nds" where
  "CmdRead s =
     (let cmd = rtc_CurCmd (RTC s); st = rst s; c = cmd AND 0x70 in
      if cmd AND 0x0F = 0x06 then
        (if c = 0x00 then
           upd_state (\<lambda>st. st\<lparr>StatusReg1 := StatusReg1 st AND 0x0F\<rparr>) (out_set 0 (StatusReg1 st) s)
         else if c = 0x40 then out_set 0 (StatusReg2 st) s
         else if c = 0x20 then out_copy (DateTime st) 0 7 s
         else if c = 0x60 then out_copy (DateTime st) 4 3 s
         else if c = 0x10 then
           (if tst (StatusReg2 st) 0x04 then out_copy (Alarm1 st) 0 3 s else out_set 0 (Alarm1 st 2) s)
         else if c = 0x50 then out_copy (Alarm2 st) 0 3 s
         else if c = 0x30 then out_set 0 (ClockAdjust st) s
         else if c = 0x70 then out_set 0 (FreeReg st) s
         else s)
      else if cmd AND 0x0F = 0x0E then
        (if ConsoleType s \<noteq> 1 then s
         else if c = 0x00 then
           out_set 2 (ucast (MinuteCount st AND 0xFF))
             (out_set 1 (ucast (shr (MinuteCount st) 8 AND 0xFF))
               (out_set 0 (ucast (shr (MinuteCount st) 16 AND 0xFF)) s))
         else if c = 0x40 then out_set 0 (FOUT1 st) s
         else if c = 0x20 then out_set 0 (FOUT2 st) s
         else if c = 0x10 then out_copy (AlarmDate1 st) 0 3 s
         else if c = 0x50 then out_copy (AlarmDate2 st) 0 3 s
         else s)
      else s)"

text \<open>A write to status register 1 (first byte): reset, and conversion of the hour when the
  12/24-hour bit changes.\<close>

definition WriteStatus1 :: "u8 \<Rightarrow> rtc_state \<Rightarrow> rtc_state" where
  "WriteStatus1 val st =
     (let oldval = StatusReg1 st;
          st = (if tst val (shl 1 0) then ResetState st else st);
          st = st\<lparr>StatusReg1 := (StatusReg1 st AND 0xF0) OR (val AND 0x0E)\<rparr>
      in if tst (StatusReg1 st XOR oldval) (shl 1 1) then
           let hour = DateTime st 4 AND 0x3F;
               pm = DateTime st 4 AND 0x40;
               (hour, pm) =
                 (if tst (StatusReg1 st) (shl 1 1) then
                    let hour = (if pm \<noteq> 0 then
                                  let hour = hour + 0x12
                                  in if hour AND 0x0F \<ge> 0x0A then hour + 0x06 else hour
                                else hour)
                    in (BCDSanitize hour 0x00 0x23, pm)
                  else
                    let (hour, pm) =
                          (if hour \<ge> 0x12 then
                             let hour = hour - 0x12
                             in (if hour AND 0x0F \<ge> 0x0A then hour - 0x06 else hour, 0x40)
                           else (hour, 0))
                    in (BCDSanitize hour 0x00 0x11, pm))
           in set_dt 4 (hour OR pm) st
         else st)"

definition CmdWrite :: "u8 \<Rightarrow> nds \<Rightarrow> nds" where
  "CmdWrite val s =
     (let cmd = rtc_CurCmd (RTC s); st = rst s; c = cmd AND 0x70; pos = rtc_InputPos (RTC s);
          p = unat pos in
      if cmd AND 0x0F = 0x06 then
        (if c = 0x00 then (if pos = 1 then upd_state (WriteStatus1 val) s else s)
         else if c = 0x40 then
           (if pos = 1 then ProcessIRQ 2 (upd_state (\<lambda>st. st\<lparr>StatusReg2 := val\<rparr>) s) else s)
         else if c = 0x20 then
           (let s = (if pos \<le> 7 then upd_state (WriteDateTime p val) s else s)
            in if pos = 7 then SaveDateTime s else s)
         else if c = 0x60 then
           (let s = (if pos \<le> 3 then upd_state (WriteDateTime (p + 4) val) s else s)
            in if pos = 3 then SaveDateTime s else s)
         else if c = 0x10 then
           (if tst (StatusReg2 st) 0x04 then
              if pos \<le> 3 then upd_state (\<lambda>st. st\<lparr>Alarm1 := (Alarm1 st)(p - 1 := val)\<rparr>) s else s
            else
              if pos = 1 then upd_state (\<lambda>st. st\<lparr>Alarm1 := (Alarm1 st)(2 := val)\<rparr>) s else s)
         else if c = 0x50 then
           (if pos \<le> 3 then upd_state (\<lambda>st. st\<lparr>Alarm2 := (Alarm2 st)(p - 1 := val)\<rparr>) s else s)
         else if c = 0x30 then
           (if pos = 1 then upd_state (\<lambda>st. st\<lparr>ClockAdjust := val\<rparr>) s else s)
         else if c = 0x70 then
           (if pos = 1 then upd_state (\<lambda>st. st\<lparr>FreeReg := val\<rparr>) s else s)
         else s)
      else if cmd AND 0x0F = 0x0E then
        (if ConsoleType s \<noteq> 1 then s
         else if c = 0x40 then
           (if pos = 1 then upd_state (\<lambda>st. st\<lparr>FOUT1 := val\<rparr>) s else s)
         else if c = 0x20 then
           (if pos = 1 then upd_state (\<lambda>st. st\<lparr>FOUT2 := val\<rparr>) s else s)
         else if c = 0x10 then
           (if pos \<le> 3 then upd_state (\<lambda>st. st\<lparr>AlarmDate1 := (AlarmDate1 st)(p - 1 := val)\<rparr>) s else s)
         else if c = 0x50 then
           (if pos \<le> 3 then upd_state (\<lambda>st. st\<lparr>AlarmDate2 := (AlarmDate2 st)(p - 1 := val)\<rparr>) s else s)
         else s)
      else s)"

section \<open>The serial interface\<close>

definition rev6 :: "u8 list" where
  "rev6 = [0x06, 0x86, 0x46, 0xC6, 0x26, 0xA6, 0x66, 0xE6, 0x16, 0x96, 0x56, 0xD6, 0x36, 0xB6, 0x76, 0xF6]"

definition revE :: "u8 list" where
  "revE = [0x0E, 0x8E, 0x4E, 0xCE, 0x2E, 0xAE, 0x6E, 0xEE, 0x1E, 0x9E, 0x5E, 0xDE, 0x3E, 0xBE, 0x7E, 0xFE]"

definition ByteIn :: "u8 \<Rightarrow> nds \<Rightarrow> nds" where
  "ByteIn val s =
     (if rtc_InputPos (RTC s) = 0 then
        let cmd = (if val AND 0xF0 = 0x60 then rev6 ! unat (val AND 0xF) else val);
            cmd = (if ConsoleType s = 1 then
                     if cmd AND 0xF0 = 0x70 \<and> cmd AND 0xFE \<noteq> 0x76 then revE ! unat (cmd AND 0xF) else cmd
                   else cmd);
            s = upd_rtc (\<lambda>r. r\<lparr>rtc_CurCmd := cmd\<rparr>) s
        in if tst cmd 0x80 then CmdRead s else s
      else CmdWrite val s)"

definition RTC_Read :: "nds \<Rightarrow> u16" where
  "RTC_Read s = rtc_IO (RTC s)"

definition serial_start :: "rtc \<Rightarrow> rtc" where
  "serial_start r = r\<lparr>rtc_Input := 0, rtc_InputBit := 0, rtc_InputPos := 0, rtc_Output := (\<lambda>_. 0),
                      rtc_OutputBit := 0, rtc_OutputPos := 0\<rparr>"

definition serial_in :: "u16 \<Rightarrow> nds \<Rightarrow> nds" where
  "serial_in val s =
     (let s = (if tst val 0x0001
               then upd_rtc (\<lambda>r. r\<lparr>rtc_Input := rtc_Input r OR shl 1 (unat (rtc_InputBit r))\<rparr>) s else s);
          s = upd_rtc (\<lambda>r. r\<lparr>rtc_InputBit := rtc_InputBit r + 1\<rparr>) s
      in if rtc_InputBit (RTC s) \<ge> 8 then
           let s = upd_rtc (\<lambda>r. r\<lparr>rtc_InputBit := 0\<rparr>) s;
               s = ByteIn (rtc_Input (RTC s)) s;
               s = upd_rtc (\<lambda>r. r\<lparr>rtc_Input := 0\<rparr>) s
           in upd_rtc (\<lambda>r. r\<lparr>rtc_InputPos := rtc_InputPos r + 1\<rparr>) s
         else s)"

definition serial_out :: "rtc \<Rightarrow> rtc" where
  "serial_out r =
     (let r = (if tst (rtc_Output r (unat (rtc_OutputPos r))) (shl 1 (unat (rtc_OutputBit r)))
               then r\<lparr>rtc_IO := rtc_IO r OR 0x0001\<rparr> else r\<lparr>rtc_IO := rtc_IO r AND 0xFFFE\<rparr>);
          r = r\<lparr>rtc_OutputBit := rtc_OutputBit r + 1\<rparr>
      in if rtc_OutputBit r \<ge> 8 then
           let r = r\<lparr>rtc_OutputBit := 0\<rparr>
           in if rtc_OutputPos r < 7 then r\<lparr>rtc_OutputPos := rtc_OutputPos r + 1\<rparr> else r
         else r)"

definition RTC_Write :: "u16 \<Rightarrow> bool \<Rightarrow> nds \<Rightarrow> nds" where
  "RTC_Write val byte s =
     (let val = (if byte then val OR (rtc_IO (RTC s) AND 0xFF00) else val);
          s = (if tst val 0x0004 then
                 if \<not> tst (rtc_IO (RTC s)) 0x0004 then upd_rtc serial_start s
                 else if \<not> tst val 0x0002 then
                   if tst val 0x0010 then serial_in val s else upd_rtc serial_out s
                 else s
               else s)
      in if tst val 0x0010 then upd_rtc (\<lambda>r. r\<lparr>rtc_IO := val\<rparr>) s
         else upd_rtc (\<lambda>r. r\<lparr>rtc_IO := (rtc_IO r AND 0x0001) OR (val AND 0xFFFE)\<rparr>) s)"

end
