(* ===== verification/Bcd.thy ===== *)
theory Bcd
  imports Rtc
begin

text \<open>
  The packed decimal bytes of the real-time clock (\<^verbatim>\<open>RTC::BCD\<close> and its companions in
  \<^verbatim>\<open>src/src/RTC.cpp\<close>): \<open>bcd n\<close> is the byte for \<open>n < 100\<close>, and the byte operations of the code
  are checked against it value by value.
\<close>

section \<open>Packed decimal bytes\<close>

definition valid_bcd :: "u8 \<Rightarrow> bool" where
  "valid_bcd x \<longleftrightarrow> x AND 0x0F \<le> 9 \<and> shr x 4 \<le> 9"

definition bcd :: "nat \<Rightarrow> u8" where
  "bcd n = word_of_nat (16 * (n div 10) + n mod 10)"

lemma unat_bcd: "n < 100 \<Longrightarrow> unat (bcd n) = 16 * (n div 10) + n mod 10"
proof -
  assume "n < 100"
  then have "16 * (n div 10) + n mod 10 < 256" by linarith
  then have "take_bit 8 (16 * (n div 10) + n mod 10) = 16 * (n div 10) + n mod 10"
    by (intro take_bit_nat_eq_self) simp
  then show ?thesis by (simp only: bcd_def unsigned_of_nat) simp
qed

lemma packed_less: "n < m \<Longrightarrow> 16 * (n div 10) + n mod 10 < 16 * (m div 10) + m mod (10 :: nat)"
proof -
  assume "n < m"
  then have "n div 10 \<le> m div 10" by (intro div_le_mono) simp
  moreover have "n = 10 * (n div 10) + n mod 10" "m = 10 * (m div 10) + m mod 10" "n mod 10 < 10" "m mod 10 < 10"
    by simp_all
  ultimately show ?thesis using \<open>n < m\<close> by linarith
qed

lemma bcd_less: "n < 100 \<Longrightarrow> m < 100 \<Longrightarrow> bcd n < bcd m \<longleftrightarrow> n < m"
  using packed_less [of n m] packed_less [of m n]
  by (cases n m rule: linorder_cases) (simp_all only: unat_lt_iff unat_bcd, simp_all)

lemma bcd_le: "n < 100 \<Longrightarrow> m < 100 \<Longrightarrow> bcd n \<le> bcd m \<longleftrightarrow> n \<le> m"
  using bcd_less [of m n] by (simp add: linorder_not_less [symmetric])

lemma bcd_inj: "n < 100 \<Longrightarrow> m < 100 \<Longrightarrow> bcd n = bcd m \<longleftrightarrow> n = m"
  using bcd_less [of m n] bcd_less [of n m] by (cases n m rule: linorder_cases) auto

text \<open>The byte operations of the code on packed decimal bytes, checked value by value.\<close>

lemma bcd_ops_all:
  "\<forall>n < 100. valid_bcd (bcd n) \<and> unat (FromBCD (bcd n)) = n \<and> BCD (word_of_nat n) = bcd n \<and>
     BCDIncrement (bcd n) = bcd (Suc n mod 100)"
  unfolding all_less_iff by code_simp

lemma bcd_masks_all:
  "\<forall>n < 40. bcd n AND 0x3F = bcd n \<and> bcd n AND 0x40 = 0 \<and>
     (bcd n OR 0x40) AND 0x3F = bcd n \<and> (bcd n OR 0x40) AND 0x40 = 0x40"
  "\<forall>n < 20. bcd n AND 0x1F = bcd n" "\<forall>n < 80. bcd n AND 0x7F = bcd n"
  unfolding all_less_iff by code_simp+

lemma bcd_simps [simp]:
  "n < 100 \<Longrightarrow> valid_bcd (bcd n)" "n < 100 \<Longrightarrow> unat (FromBCD (bcd n)) = n"
  "n < 100 \<Longrightarrow> BCD (word_of_nat n) = bcd n" "n < 100 \<Longrightarrow> BCDIncrement (bcd n) = bcd (Suc n mod 100)"
  "n < 20 \<Longrightarrow> bcd n AND 0x1F = bcd n" "n < 40 \<Longrightarrow> bcd n AND 0x3F = bcd n"
  "n < 80 \<Longrightarrow> bcd n AND 0x7F = bcd n" "n < 40 \<Longrightarrow> bcd n AND 0x40 = 0"
  "n < 40 \<Longrightarrow> (bcd n OR 0x40) AND 0x3F = bcd n" "n < 40 \<Longrightarrow> (bcd n OR 0x40) AND 0x40 = 0x40"
  by (rule bcd_ops_all [rule_format, THEN conjunct1]
      bcd_ops_all [rule_format, THEN conjunct2, THEN conjunct1]
      bcd_ops_all [rule_format, THEN conjunct2, THEN conjunct2, THEN conjunct1]
      bcd_ops_all [rule_format, THEN conjunct2, THEN conjunct2, THEN conjunct2]
      bcd_masks_all(2,3) [rule_format]
      bcd_masks_all(1) [rule_format, THEN conjunct1]
      bcd_masks_all(1) [rule_format, THEN conjunct2, THEN conjunct1]
      bcd_masks_all(1) [rule_format, THEN conjunct2, THEN conjunct2, THEN conjunct1]
      bcd_masks_all(1) [rule_format, THEN conjunct2, THEN conjunct2, THEN conjunct2]; assumption)+

lemma unat_low_nibble: "unat (x AND 0x0F :: u8) = unat x mod 16"
proof -
  have "x AND 0x0F = take_bit 4 x" by (simp add: take_bit_eq_mask mask_eq_exp_minus_1)
  then show ?thesis by (simp only: unsigned_take_bit_eq) (simp add: take_bit_eq_mod)
qed

lemma valid_bcd_nat: "valid_bcd x \<longleftrightarrow> unat x mod 16 \<le> 9 \<and> unat x div 16 \<le> 9"
  by (simp add: valid_bcd_def unat_le_iff unat_low_nibble unat_shr)

lemma valid_bcd_cases:
  assumes "valid_bcd x"
  obtains n where "n < 100" "x = bcd n"
proof
  let ?n = "10 * (unat x div 16) + unat x mod 16"
  have le: "unat x mod 16 \<le> 9" "unat x div 16 \<le> 9" using assms by (simp_all add: valid_bcd_nat)
  show "?n < 100" using le by linarith
  have "?n div 10 = unat x div 16" "?n mod 10 = unat x mod 16" using le by simp_all
  then have "16 * (?n div 10) + ?n mod 10 = unat x" by simp
  then show "x = bcd ?n" by (simp only: bcd_def) simp
qed

lemma FromBCD_all:
  "valid_bcd x \<Longrightarrow> BCD (FromBCD x) = x \<and> FromBCD x < 100"
proof -
  assume "valid_bcd x"
  then obtain n where n: "n < 100" "x = bcd n" by (rule valid_bcd_cases)
  have u: "unat (FromBCD x) = n" using n by simp
  then have "FromBCD x = word_of_nat n" by (simp flip: u)
  moreover have "FromBCD x < 100" using u n(1) by (simp add: unat_lt_iff)
  ultimately show ?thesis using bcd_simps(3) [OF n(1)] n(2) by simp
qed

lemma BCD_all:
  assumes "x < 100"
  shows "FromBCD (BCD x) = x \<and> valid_bcd (BCD x)"
proof -
  have n: "unat x < 100" "x = word_of_nat (unat x)" using assms by (simp_all add: unat_lt_iff)
  then have b: "BCD x = bcd (unat x)" by (metis bcd_simps(3))
  show ?thesis using bcd_simps(1,2) [OF n(1)] unfolding b by (simp add: word_unat_eq_iff)
qed

text \<open>Encoding a number below 100 as packed decimal and decoding it gives the number back, and decoding a valid packed decimal byte and encoding it gives the byte back.\<close>

theorem BCD_FromBCD_roundtrip:
  "(x < 100 \<longrightarrow> FromBCD (BCD x) = x \<and> valid_bcd (BCD x)) \<and> (valid_bcd x \<longrightarrow> BCD (FromBCD x) = x)"
  using BCD_all FromBCD_all by blast

theorem BCD_FromBCD_roundtrip_witness: "FromBCD (BCD 47) = 47 \<and> BCD (FromBCD 0x59) = 0x59"
  using BCD_FromBCD_roundtrip [of 47] BCD_FromBCD_roundtrip [of "0x59"] by (simp add: valid_bcd_def)

text \<open>Incrementing a valid packed decimal byte gives the valid byte of the next number, 99 wrapping to 0.\<close>

theorem BCDIncrement_next:
  "valid_bcd x \<Longrightarrow> valid_bcd (BCDIncrement x) \<and> FromBCD (BCDIncrement x) = (FromBCD x + 1) mod 100"
proof -
  assume "valid_bcd x"
  then obtain n where n: "n < 100" "x = bcd n" by (rule valid_bcd_cases)
  then have "unat (FromBCD x + 1) = Suc n" by (subst unat_add_small) simp_all
  then have "unat ((FromBCD x + 1) mod 100) = Suc n mod 100" by (simp only: unat_mod) simp
  moreover have "unat (FromBCD (BCDIncrement x)) = Suc n mod 100" "valid_bcd (BCDIncrement x)" using n by simp_all
  ultimately show ?thesis by (metis word_unat_eq_iff)
qed

theorem BCDIncrement_next_witness: "FromBCD (BCDIncrement 0x39) = 40"
  using BCDIncrement_next [of "0x39"] by (simp add: valid_bcd_def FromBCD_def)

text \<open>Sanitizing gives a decimal byte in the range, and keeps the ones that are.\<close>

lemma BCDSanitize_ok:
  assumes "valid_bcd lo" "lo \<le> hi"
  shows "valid_bcd (BCDSanitize x lo hi) \<and> lo \<le> BCDSanitize x lo hi \<and> BCDSanitize x lo hi \<le> hi \<and>
    (valid_bcd x \<and> lo \<le> x \<and> x \<le> hi \<longrightarrow> BCDSanitize x lo hi = x)"
proof -
  have "\<forall>x::u8. (x AND 0x0F \<ge> 0x0A \<or> x AND 0xF0 \<ge> 0xA0) = (\<not> valid_bcd x)"
    unfolding all_u8_iff by code_simp
  then have v: "(x AND 0x0F \<ge> 0x0A \<or> x AND 0xF0 \<ge> 0xA0) = (\<not> valid_bcd x)" by blast
  show ?thesis
    using assms v by (auto simp: BCDSanitize_def not_less)
qed

text \<open>Whatever byte is written, the sanitised register is a valid packed decimal byte within its bounds, and a byte that was valid and in range is stored unchanged.\<close>

theorem BCDSanitize_range:
  "valid_bcd lo \<Longrightarrow> lo \<le> hi \<Longrightarrow>
    valid_bcd (BCDSanitize x lo hi) \<and> lo \<le> BCDSanitize x lo hi \<and> BCDSanitize x lo hi \<le> hi \<and>
    (valid_bcd x \<and> lo \<le> x \<and> x \<le> hi \<longrightarrow> BCDSanitize x lo hi = x)"
  by (rule BCDSanitize_ok)

theorem BCDSanitize_range_witness: "BCDSanitize 0x75 1 0x31 \<le> 0x31 \<and> BCDSanitize 0x15 1 0x31 = 0x15"
  using BCDSanitize_range [of 1 "0x31" "0x75"] BCDSanitize_range [of 1 "0x31" "0x15"] by (simp add: valid_bcd_def)

end
