(* ===== verification/RtcCalendar.thy ===== *)
theory RtcCalendar
  imports Bcd
begin

text \<open>
  The calendar of the real-time clock against an abstract one: a count of seconds since
  1 January 2000.
\<close>

section \<open>The abstract calendar\<close>

record cal =
  c_year :: nat
  c_month :: nat
  c_day :: nat
  c_dow :: nat
  c_hour :: nat
  c_minute :: nat
  c_second :: nat

definition dim :: "nat \<Rightarrow> nat \<Rightarrow> nat" where
  "dim y m = (if m = 2 then if y mod 4 = 0 then 29 else 28 else if m \<in> {4, 6, 9, 11} then 30 else 31)"

definition cal_ok :: "cal \<Rightarrow> bool" where
  "cal_ok c \<longleftrightarrow>
     c_year c < 100 \<and> 1 \<le> c_month c \<and> c_month c \<le> 12 \<and> 1 \<le> c_day c \<and> c_day c \<le> dim (c_year c) (c_month c) \<and>
     c_dow c < 7 \<and> c_hour c < 24 \<and> c_minute c < 60 \<and> c_second c < 60"

text \<open>Days and seconds since 1 January 2000.\<close>

definition day_number :: "nat \<Rightarrow> nat \<Rightarrow> nat \<Rightarrow> nat" where
  "day_number y m d = y * 365 + (y + 3) div 4 + sum_list (map (dim y) [1..<m]) + (d - 1)"

definition cal_days :: "cal \<Rightarrow> nat" where
  "cal_days c = day_number (c_year c) (c_month c) (c_day c)"

definition cal_seconds :: "cal \<Rightarrow> nat" where
  "cal_seconds c = cal_days c * 86400 + c_hour c * 3600 + c_minute c * 60 + c_second c"

definition century :: nat where "century = 36525 * 86400"

definition cal_next_day :: "cal \<Rightarrow> cal" where
  "cal_next_day c =
     (let c = c\<lparr>c_dow := (c_dow c + 1) mod 7\<rparr> in
      if c_day c < dim (c_year c) (c_month c) then c\<lparr>c_day := c_day c + 1\<rparr>
      else if c_month c < 12 then c\<lparr>c_day := 1, c_month := c_month c + 1\<rparr>
      else c\<lparr>c_day := 1, c_month := 1, c_year := (c_year c + 1) mod 100\<rparr>)"

definition cal_next_hour :: "cal \<Rightarrow> cal" where
  "cal_next_hour c = (if c_hour c < 23 then c\<lparr>c_hour := c_hour c + 1\<rparr> else cal_next_day (c\<lparr>c_hour := 0\<rparr>))"

definition cal_next_minute :: "cal \<Rightarrow> cal" where
  "cal_next_minute c = (if c_minute c < 59 then c\<lparr>c_minute := c_minute c + 1\<rparr> else cal_next_hour (c\<lparr>c_minute := 0\<rparr>))"

definition cal_tick :: "cal \<Rightarrow> cal" where
  "cal_tick c = (if c_second c < 59 then c\<lparr>c_second := c_second c + 1\<rparr> else cal_next_minute (c\<lparr>c_second := 0\<rparr>))"

lemma dim_bounds: "28 \<le> dim y m" "dim y m \<le> 31"
  by (auto simp: dim_def)

lemma dim_pos [simp]: "Suc 0 \<le> dim y m"
  using dim_bounds(1) [of y m] by linarith

lemma day_number_next_month:
  "1 \<le> m \<Longrightarrow> day_number y (Suc m) 1 = day_number y m (dim y m) + 1"
  using dim_bounds(1) [of y m] by (simp add: day_number_def)

lemma day_number_next_year: "day_number (Suc y) 1 1 = day_number y 12 31 + 1"
proof -
  have "[1..<12] = [1, 2, 3, 4, 5, 6, 7, 8, 9, 10, 11 :: nat]" by (simp add: upt_rec)
  then have "sum_list (map (dim y) [1..<12]) = (if y mod 4 = 0 then 335 else 334)"
    by (simp add: dim_def)
  moreover have "(Suc y + 3) div 4 = (y + 3) div 4 + (if y mod 4 = 0 then 1 else 0)"
    by (cases "y mod 4 = 0") presburger+
  ultimately show ?thesis by (simp add: day_number_def)
qed

lemma cal_next_day_ok: "cal_ok c \<Longrightarrow> cal_ok (cal_next_day c)"
  using dim_bounds(1) by (auto simp: cal_ok_def cal_next_day_def Let_def intro: order.trans [of _ 28])

lemma cal_tick_ok: "cal_ok c \<Longrightarrow> cal_ok (cal_tick c)"
proof -
  have "cal_ok c \<Longrightarrow> cal_ok (cal_next_hour c)" for c
    using cal_next_day_ok [of "c\<lparr>c_hour := 0\<rparr>"] by (auto simp: cal_next_hour_def cal_ok_def)
  then have "cal_ok c \<Longrightarrow> cal_ok (cal_next_minute c)" for c
    by (auto simp: cal_next_minute_def cal_ok_def)
  then show "cal_ok c \<Longrightarrow> ?thesis"
    by (auto simp: cal_tick_def cal_ok_def)
qed

lemma day_number_century: "day_number 99 12 31 = 36524"
  by (simp add: day_number_def dim_def upt_rec)

lemma day_number_mono:
  assumes "d \<le> dim y m" "1 \<le> m" "m \<le> 12" "y < 100" "1 \<le> d"
  shows "day_number y m d \<le> 36524" "d < dim y m \<or> m < 12 \<or> y < 99 \<Longrightarrow> day_number y m d < 36524"
proof -
  have jan: "sum_list (map (dim y) [1..<m]) + dim y m \<le> sum_list (map (dim y) [1..<12]) + 31"
    "m < 12 \<Longrightarrow> sum_list (map (dim y) [1..<m]) + dim y m < sum_list (map (dim y) [1..<12]) + 31"
  proof -
    have "[1..<12] = [1..<m] @ [m..<12]" using upt_add_eq_append [of 1 m "12 - m"] assms(2,3) by simp
    moreover have "m < 12 \<Longrightarrow> [m..<12] = m # [Suc m..<12]" by (simp add: upt_conv_Cons)
    ultimately show "m < 12 \<Longrightarrow> sum_list (map (dim y) [1..<m]) + dim y m < sum_list (map (dim y) [1..<12]) + 31"
      by simp
    then show "sum_list (map (dim y) [1..<m]) + dim y m \<le> sum_list (map (dim y) [1..<12]) + 31"
      using assms(3) dim_bounds(2) [of y m] by (cases "m = 12") (auto intro: less_imp_le)
  qed
  have "[1..<12] = [1, 2, 3, 4, 5, 6, 7, 8, 9, 10, 11 :: nat]" by (simp add: upt_rec)
  then have year: "sum_list (map (dim y) [1..<12]) = (if y mod 4 = 0 then 335 else 334)"
    by (simp add: dim_def)
  have y: "y * 365 + (y + 3) div 4 + (if y mod 4 = 0 then 335 else 334) \<le> 36494 - 365 * (99 - y)"
  proof (cases "y mod 4 = 0")
    case True
    then obtain k where "y = 4 * k" by (metis mod_0_imp_dvd dvdE)
    with assms(4) show ?thesis by simp
  next
    case False
    have "(y + 3) div 4 \<le> 25" using assms(4) by linarith
    with False assms(4) show ?thesis by simp
  qed
  have y': "y * 365 + (y + 3) div 4 + sum_list (map (dim y) [1..<12]) \<le> 36494 - 365 * (99 - y)"
    using y unfolding year .
  show "day_number y m d \<le> 36524"
    using jan(1) y' assms(1) dim_bounds(1) [of y m] unfolding day_number_def by linarith
  show "d < dim y m \<or> m < 12 \<or> y < 99 \<Longrightarrow> day_number y m d < 36524"
    using jan y' assms(1,4,5) dim_bounds(1) [of y m] unfolding day_number_def by linarith
qed

lemma cal_next_day_days:
  assumes "cal_ok c"
  shows "cal_days c < 36525 \<and> cal_days (cal_next_day c) = (cal_days c + 1) mod 36525"
proof -
  let ?y = "c_year c" and ?m = "c_month c" and ?d = "c_day c"
  have ok: "?d \<le> dim ?y ?m" "1 \<le> ?m" "?m \<le> 12" "?y < 100" "1 \<le> ?d" using assms by (simp_all add: cal_ok_def)
  note bound = day_number_mono [OF ok]
  consider "?d < dim ?y ?m" | "?d = dim ?y ?m" "?m < 12" | "?d = dim ?y ?m" "?m = 12"
    using ok by linarith
  then show ?thesis
  proof cases
    case 1
    then have "day_number ?y ?m (?d + 1) = day_number ?y ?m ?d + 1" using ok(5) by (simp add: day_number_def)
    with 1 bound show ?thesis by (simp add: cal_next_day_def cal_days_def)
  next
    case 2
    with bound day_number_next_month [OF ok(2)] show ?thesis by (simp add: cal_next_day_def cal_days_def)
  next
    case 3
    then have d: "?d = 31" by (simp add: dim_def)
    show ?thesis
    proof (cases "?y = 99")
      case True
      with 3 d day_number_century show ?thesis
        by (simp add: cal_next_day_def cal_days_def dim_def) (simp add: day_number_def)
    next
      case False
      then have "(?y + 1) mod 100 = Suc ?y" using ok(4) by simp
      with 3 d False ok(4) bound day_number_next_year [of ?y] show ?thesis
        by (simp add: cal_next_day_def cal_days_def dim_def)
    qed
  qed
qed

lemma cal_seconds_next:
  assumes "cal_ok c"
  shows "cal_seconds (cal_tick c) = (cal_seconds c + 1) mod century"
proof -
  have day: "cal_days (cal_next_day c) * 86400 = (cal_days c * 86400 + 86400) mod century"
    if "cal_ok c" for c
  proof -
    have "86400 * ((cal_days c + 1) mod 36525) = 86400 * (cal_days c + 1) mod (86400 * 36525)" for c
      by (rule mult_mod_right)
    then show ?thesis using cal_next_day_days [OF that] by (simp add: century_def algebra_simps)
  qed
  have nd: "c_hour (cal_next_day c) = c_hour c" "c_minute (cal_next_day c) = c_minute c"
    "c_second (cal_next_day c) = c_second c" for c
    by (simp_all add: cal_next_day_def Let_def)
  have days: "cal_days (c\<lparr>c_hour := h\<rparr>) = cal_days c" "cal_days (c\<lparr>c_minute := h\<rparr>) = cal_days c"
    "cal_days (c\<lparr>c_second := h\<rparr>) = cal_days c" for c h
    by (simp_all add: cal_days_def)
  have lt: "cal_seconds c < century" using cal_next_day_days [OF assms] assms
    by (simp add: cal_seconds_def cal_ok_def century_def)
  have ok0: "cal_ok (c\<lparr>c_second := 0, c_minute := 0, c_hour := 0\<rparr>)" using assms by (simp add: cal_ok_def)
  show ?thesis
  proof (cases "c_second c < 59 \<or> c_minute c < 59 \<or> c_hour c < 23")
    case True
    have "cal_seconds (cal_tick c) = cal_seconds c + 1"
      using True assms
      by (auto simp: cal_tick_def cal_next_minute_def cal_next_hour_def cal_seconds_def days cal_ok_def)
    moreover from True assms cal_next_day_days [OF assms] have "cal_seconds c + 1 < century"
      by (simp add: cal_seconds_def cal_ok_def century_def) linarith
    ultimately show ?thesis by simp
  next
    case False
    then have e: "c_second c = 59" "c_minute c = 59" "c_hour c = 23" using assms by (auto simp: cal_ok_def)
    then have "cal_seconds (cal_tick c) = cal_days (cal_next_day (c\<lparr>c_second := 0, c_minute := 0, c_hour := 0\<rparr>)) * 86400"
      by (simp add: cal_tick_def cal_next_minute_def cal_next_hour_def cal_seconds_def nd)
    also have "\<dots> = (cal_days c * 86400 + 86400) mod century" unfolding day [OF ok0] days ..
    also have "cal_days c * 86400 + 86400 = cal_seconds c + 1" using e by (simp add: cal_seconds_def)
    finally show ?thesis .
  qed
qed

text \<open>The day of the week follows the date.\<close>

definition dow_ok :: "cal \<Rightarrow> bool" where
  "dow_ok c \<longleftrightarrow> c_dow c = (6 + cal_days c) mod 7"

lemma dow_cal_tick:
  assumes "cal_ok c" "dow_ok c" "cal_seconds c + 1 < century"
  shows "dow_ok (cal_tick c)"
proof -
  have same: "dow_ok (c\<lparr>c_hour := h\<rparr>) = dow_ok c" "dow_ok (c\<lparr>c_minute := h\<rparr>) = dow_ok c"
    "dow_ok (c\<lparr>c_second := h\<rparr>) = dow_ok c" for c h
    by (simp_all add: dow_ok_def cal_days_def)
  have day: "dow_ok (cal_next_day c)" if "cal_ok c" "dow_ok c" "cal_days c < 36524" for c
  proof -
    have "c_dow (cal_next_day c) = (c_dow c + 1) mod 7" by (simp add: cal_next_day_def Let_def)
    with cal_next_day_days [OF that(1)] that(2,3) show ?thesis by (simp add: dow_ok_def mod_simps)
  qed
  show ?thesis
  proof (cases "c_second c < 59 \<or> c_minute c < 59 \<or> c_hour c < 23")
    case True
    with assms(2) show ?thesis
      by (auto simp: cal_tick_def cal_next_minute_def cal_next_hour_def same)
  next
    case False
    let ?c = "c\<lparr>c_second := 0, c_minute := 0, c_hour := 0\<rparr>"
    from False assms(1) have e: "c_second c = 59" "c_minute c = 59" "c_hour c = 23" by (auto simp: cal_ok_def)
    then have "cal_days ?c < 36524" using assms(3) by (simp add: cal_seconds_def century_def cal_days_def)
    moreover have "cal_ok ?c" "dow_ok ?c" using assms(1,2) by (simp_all add: cal_ok_def same)
    moreover have "cal_tick c = cal_next_day ?c"
      using e by (simp add: cal_tick_def cal_next_minute_def cal_next_hour_def)
    ultimately show ?thesis using day by simp
  qed
qed

section \<open>The registers of a calendar value\<close>

text \<open>In both modes the hour register carries the afternoon bit.\<close>

definition hour_reg :: "bool \<Rightarrow> nat \<Rightarrow> u8" where
  "hour_reg mode24 h = bcd (if mode24 then h else h mod 12) OR (if 12 \<le> h then 0x40 else 0)"

definition mode24 :: "rtc_state \<Rightarrow> bool" where
  "mode24 st \<longleftrightarrow> bit (StatusReg1 st) 1"

definition has_cal :: "rtc_state \<Rightarrow> cal \<Rightarrow> bool" where
  "has_cal st c \<longleftrightarrow>
     DateTime st 0 = bcd (c_year c) \<and> DateTime st 1 = bcd (c_month c) \<and> DateTime st 2 = bcd (c_day c) \<and>
     DateTime st 3 = word_of_nat (c_dow c) \<and> DateTime st 4 = hour_reg (mode24 st) (c_hour c) \<and>
     DateTime st 5 = bcd (c_minute c) \<and> DateTime st 6 = bcd (c_second c)"

lemma bcd_const: "bcd 0 = 0" "bcd 1 = 1"
  by (simp_all add: bcd_def)

lemma set_dt_simps [simp]:
  "DateTime (set_dt i v st) = (DateTime st)(i := v)" "StatusReg1 (set_dt i v st) = StatusReg1 st"
  "mode24 (set_dt i v st) = mode24 st"
  by (simp_all add: set_dt_def mode24_def)

lemma DaysInMonth_dim:
  assumes "DateTime st 0 = bcd y" "DateTime st 1 = bcd m" "y < 100" "1 \<le> m" "m \<le> 12"
  shows "DaysInMonth st = bcd (dim y m)"
proof -
  have y: "uint (bcd y) mod 16 + (uint (bcd y) div 16) * 10 = int y"
  proof -
    have d: "(16 * a + b) mod 16 = b" "(16 * a + b) div 16 = a" if "b < 10" for a b :: nat
      using that by simp_all
    have "y mod 10 < 10" by simp
    note d [OF this, of "y div 10"]
    then have "unat (bcd y) mod 16 + (unat (bcd y) div 16) * 10 = y"
      unfolding unat_bcd [OF assms(3)] by simp
    then have "int (unat (bcd y) mod 16 + (unat (bcd y) div 16) * 10) = int y" by (rule arg_cong)
    then show ?thesis by (simp only: of_nat_add of_nat_mult zmod_int zdiv_int of_nat_unat) simp
  qed
  have leap: "(int y mod 4 = 0) = (y mod 4 = 0)" by presburger
  have "m \<in> {1, 2, 3, 4, 5, 6, 7, 8, 9, 10, 11, 12}"
    using assms(4,5) unfolding insert_iff empty_iff by presburger
  then show ?thesis
    unfolding DaysInMonth_def assms(1,2) Let_def y leap
    by (elim insertE emptyE) (simp_all add: dim_def bcd_def)
qed

lemma dow_next: "w < 7 \<Longrightarrow> (if (word_of_nat w :: u8) + 1 \<ge> 7 then 0 else word_of_nat w + 1) = word_of_nat ((w + 1) mod 7)"
proof -
  assume "w < 7"
  then have "w \<in> {0, 1, 2, 3, 4, 5, 6}" unfolding insert_iff empty_iff by linarith
  then show ?thesis by (elim insertE emptyE) (simp_all add: unat_le_iff)
qed

lemma CountDay_cal:
  assumes "has_cal st c" "cal_ok c"
  shows "has_cal (CountDay st) (cal_next_day c) \<and> mode24 (CountDay st) = mode24 st"
proof -
  let ?y = "c_year c" and ?m = "c_month c" and ?d = "c_day c"
  have ok: "?d \<le> dim ?y ?m" "1 \<le> ?m" "?m \<le> 12" "?y < 100" "1 \<le> ?d" "c_dow c < 7"
    using assms(2) by (simp_all add: cal_ok_def)
  have dim: "dim ?y ?m \<le> 31" by (rule dim_bounds)
  define st1 where "st1 = set_dt 2 (bcd (?d + 1)) (set_dt 3 (word_of_nat ((c_dow c + 1) mod 7)) st)"
  have dt: "DateTime st 0 = bcd ?y" "DateTime st 1 = bcd ?m" "DateTime st 2 = bcd ?d"
    "DateTime st 3 = word_of_nat (c_dow c)" "DateTime st 4 = hour_reg (mode24 st) (c_hour c)"
    "DateTime st 5 = bcd (c_minute c)" "DateTime st 6 = bcd (c_second c)"
    using assms(1) by (simp_all add: has_cal_def)
  have inc: "BCDIncrement (bcd ?d) = bcd (?d + 1)" using ok(1) dim by simp
  have "CountDay st = CheckEndOfMonth st1"
  proof -
    have "(if DateTime (set_dt 3 (DateTime st 3 + 1) st) 3 \<ge> 7 then set_dt 3 0 (set_dt 3 (DateTime st 3 + 1) st)
        else set_dt 3 (DateTime st 3 + 1) st) = set_dt 3 (word_of_nat ((c_dow c + 1) mod 7)) st"
      unfolding dow_next [OF ok(6), symmetric] dt(4) by (simp add: set_dt_def)
    then show ?thesis
      unfolding CountDay_def Let_def st1_def by (simp add: dt(3) inc)
  qed
  moreover have "DaysInMonth st1 = bcd (dim ?y ?m)"
    using ok by (intro DaysInMonth_dim) (simp_all add: st1_def dt [unfolded One_nat_def])
  moreover have "bcd (?d + 1) > bcd (dim ?y ?m) \<longleftrightarrow> ?d = dim ?y ?m"
    using ok(1) dim by (auto simp: bcd_less)
  ultimately have C: "CountDay st = (if ?d = dim ?y ?m then CountMonth (set_dt 2 1 st1) else st1)"
    by (simp add: CheckEndOfMonth_def st1_def)
  have inc_m: "BCDIncrement (bcd ?m) = bcd (?m + 1)" using ok(3) by simp
  have gt: "bcd (?m + 1) > 0x12 \<longleftrightarrow> ?m = 12"
    using bcd_less [of 12 "?m + 1"] ok(3) by (auto simp: bcd_def [of 12])
  consider "?d < dim ?y ?m" | "?d = dim ?y ?m" "?m < 12" | "?d = dim ?y ?m" "?m = 12"
    using ok by linarith
  then show ?thesis
  proof cases
    case 1
    then show ?thesis by (simp add: C has_cal_def cal_next_day_def Let_def st1_def dt [unfolded One_nat_def])
  next
    case 2
    then show ?thesis
      using inc_m gt
      by (simp add: C CountMonth_def Let_def has_cal_def cal_next_day_def st1_def dt [unfolded One_nat_def] bcd_const [unfolded One_nat_def])
  next
    case 3
    then show ?thesis
      using inc_m gt ok(4)
      by (simp add: C CountMonth_def CountYear_def Let_def has_cal_def cal_next_day_def st1_def dt [unfolded One_nat_def] bcd_const [unfolded One_nat_def])
  qed
qed

lemma hour_reg_masks:
  "h < 24 \<Longrightarrow> hour_reg m h AND 0x3F = bcd (if m then h else h mod 12)"
  "h < 24 \<Longrightarrow> hour_reg m h AND 0x40 = (if 12 \<le> h then 0x40 else 0)"
  by (simp_all add: hour_reg_def)

lemma CountHour_cal:
  assumes "has_cal st c" "cal_ok c"
  shows "has_cal (CountHour st) (cal_next_hour c) \<and> mode24 (CountHour st) = mode24 st"
proof -
  have h: "c_hour c < 24" using assms(2) by (simp add: cal_ok_def)
  have dt4: "DateTime st 4 = hour_reg (mode24 st) (c_hour c)" using assms(1) by (simp add: has_cal_def)
  have m: "tst (StatusReg1 st) 2 = mode24 st" using tst_pow2 [of "StatusReg1 st" 1] by (simp add: mode24_def)
  have day: "has_cal (set_dt 4 (hour_reg (mode24 st) 0) (CountDay st)) (cal_next_day (c\<lparr>c_hour := 0\<rparr>))"
    "mode24 (CountDay st) = mode24 st"
    using CountDay_cal [OF assms]
    by (simp_all add: has_cal_def cal_next_day_def Let_def)
  have keep: "has_cal (set_dt 4 (hour_reg (mode24 st) h') st) (c\<lparr>c_hour := h'\<rparr>)" for h'
    using assms(1) by (simp add: has_cal_def)
  have b24: "bcd (c_hour c + 1) \<ge> 0x24 \<longleftrightarrow> c_hour c = 23" "bcd (c_hour c + 1) \<ge> 0x12 \<longleftrightarrow> 11 \<le> c_hour c"
    using bcd_le [of 24 "c_hour c + 1"] bcd_le [of 12 "c_hour c + 1"] h by (auto simp: bcd_def [of 24] bcd_def [of 12])
  have b12: "bcd (c_hour c mod 12 + 1) \<ge> 0x12 \<longleftrightarrow> c_hour c mod 12 = 11"
    using bcd_le [of 12 "c_hour c mod 12 + 1"] by (auto simp: bcd_def [of 12])
  show ?thesis
  proof (cases "mode24 st")
    case True
    have "CountHour st = (if c_hour c = 23 then set_dt 4 (hour_reg True 0) (CountDay st)
        else set_dt 4 (hour_reg True (c_hour c + 1)) st)"
      unfolding CountHour_def Let_def dt4 True hour_reg_masks [OF h]
      using True h m b24 by (auto simp: hour_reg_def bcd_const)
    with day keep [of "c_hour c + 1"] True h show ?thesis by (auto simp: cal_next_hour_def)
  next
    case False
    consider "c_hour c = 23" | "c_hour c = 11" | "c_hour c < 23" "c_hour c \<noteq> 11" using h by linarith
    then show ?thesis
    proof cases
      case 1
      have "CountHour st = set_dt 4 (hour_reg False 0) (CountDay st)"
        unfolding CountHour_def Let_def dt4 hour_reg_masks [OF h]
        using False m b12 1 by (simp add: hour_reg_def bcd_const)
      with day 1 False show ?thesis by (simp add: cal_next_hour_def)
    next
      case 2
      have "CountHour st = set_dt 4 (hour_reg False 12) st"
        unfolding CountHour_def Let_def dt4 hour_reg_masks [OF h]
        using False m b12 2 by (simp add: hour_reg_def bcd_const)
      with keep [of 12] 2 False show ?thesis by (simp add: cal_next_hour_def)
    next
      case 3
      then have "c_hour c mod 12 \<noteq> 11" "(c_hour c + 1) mod 12 = c_hour c mod 12 + 1" "12 \<le> c_hour c + 1 \<longleftrightarrow> 12 \<le> c_hour c"
        by (auto simp: mod_if)
      moreover have "BCDIncrement (bcd (c_hour c mod 12)) = bcd (c_hour c mod 12 + 1)"
        using mod_less_divisor [of 12 "c_hour c"] by (subst bcd_simps) simp_all
      ultimately have "CountHour st = set_dt 4 (hour_reg False (c_hour c + 1)) st"
        unfolding CountHour_def Let_def dt4 hour_reg_masks [OF h]
        using False m b12 by (simp add: hour_reg_def)
      with keep [of "c_hour c + 1"] 3 False show ?thesis by (simp add: cal_next_hour_def)
    qed
  qed
qed

section \<open>The clock on the console\<close>

lemma rst_upd [simp]:
  "RTC (upd_rtc f s) = f (RTC s)" "rst (upd_state g s) = g (rst s)"
  by (simp_all add: upd_rtc_def upd_state_def)

lemma upd_rtc_frame [simp]:
  "SchedList (upd_rtc f s) = SchedList s" "SchedListMask (upd_rtc f s) = SchedListMask s"
  "SysTimestamp (upd_rtc f s) = SysTimestamp s" "ConsoleType (upd_rtc f s) = ConsoleType s"
  "RCnt (upd_rtc f s) = RCnt s" "IFl (upd_rtc f s) = IFl s" "CurCPU (upd_rtc f s) = CurCPU s"
  "SchedList (upd_state g s) = SchedList s" "SchedListMask (upd_state g s) = SchedListMask s"
  "SysTimestamp (upd_state g s) = SysTimestamp s" "ConsoleType (upd_state g s) = ConsoleType s"
  "RCnt (upd_state g s) = RCnt s" "IFl (upd_state g s) = IFl s" "CurCPU (upd_state g s) = CurCPU s"
  by (simp_all add: upd_rtc_def upd_state_def)

lemma upd_state_rtc [simp]:
  "rtc_TimerError (RTC (upd_state g s)) = rtc_TimerError (RTC s)"
  "rtc_ClockCount (RTC (upd_state g s)) = rtc_ClockCount (RTC s)"
  by (simp_all add: upd_state_def)

text \<open>What the interrupt logic leaves alone: the calendar, the mode, the scheduler and the clock
  counters.\<close>

definition same_clock :: "nds \<Rightarrow> nds \<Rightarrow> bool" where
  "same_clock s t \<longleftrightarrow>
     DateTime (rst t) = DateTime (rst s) \<and> mode24 (rst t) = mode24 (rst s) \<and>
     rtc_TimerError (RTC t) = rtc_TimerError (RTC s) \<and> rtc_ClockCount (RTC t) = rtc_ClockCount (RTC s) \<and>
     SchedList t = SchedList s \<and> SchedListMask t = SchedListMask s \<and> SysTimestamp t = SysTimestamp s"

lemma same_clock_refl [simp]: "same_clock s s"
  by (simp add: same_clock_def)

lemma same_clock_trans: "same_clock s t \<Longrightarrow> same_clock t u \<Longrightarrow> same_clock s u"
  by (simp add: same_clock_def)

lemma same_clock_SetIRQ: "irq \<in> {0x10, 0x20} \<Longrightarrow> same_clock s (RTC_SetIRQ irq s)"
  by (auto simp: RTC_SetIRQ_def Let_def same_clock_def mode24_def bit_or_iff)

lemma same_clock_ClearIRQ: "same_clock s (RTC_ClearIRQ irq s)"
  by (simp add: RTC_ClearIRQ_def same_clock_def mode24_def)

lemma same_clock_IRQFlag: "same_clock s (upd_state (\<lambda>st. st\<lparr>IRQFlag := f (IRQFlag st)\<rparr>) s)"
  by (simp add: same_clock_def mode24_def)

lemma same_clock_if: "same_clock s a \<Longrightarrow> same_clock s b \<Longrightarrow> same_clock s (if c then a else b)"
  by simp

lemma same_clock_then_Clear: "same_clock s t \<Longrightarrow> same_clock s (RTC_ClearIRQ irq t)"
  by (rule same_clock_trans [OF _ same_clock_ClearIRQ])

lemma same_clock_INT1: "same_clock s (ProcessINT1 type s)"
  unfolding ProcessINT1_def Let_def
  by (intro same_clock_if same_clock_refl same_clock_then_Clear same_clock_SetIRQ; simp)

lemma same_clock_INT2: "same_clock s (ProcessINT2 type s)"
  unfolding ProcessINT2_def
  by (intro same_clock_if same_clock_refl same_clock_then_Clear same_clock_SetIRQ; simp)

lemma same_clock_ProcessIRQ: "same_clock s (ProcessIRQ type s)"
  unfolding ProcessIRQ_def by (rule same_clock_trans [OF same_clock_INT1 same_clock_INT2])

lemma CountMinute_eq:
  "CountMinute s =
     (let s1 = upd_state (\<lambda>st. let st = set_dt 5 (BCDIncrement (DateTime st 5)) (st\<lparr>MinuteCount := MinuteCount st + 1\<rparr>)
               in if DateTime st 5 \<ge> 0x60 then CountHour (set_dt 5 0 st) else st) s
      in ProcessIRQ 0 (upd_state (\<lambda>st. st\<lparr>IRQFlag := IRQFlag st OR 0x01\<rparr>) s1))"
  by (simp add: CountMinute_def Let_def) (simp add: upd_state_def upd_rtc_def set_dt_def)

lemma has_cal_MinuteCount [simp]:
  "has_cal (st\<lparr>MinuteCount := x\<rparr>) c = has_cal st c" "mode24 (st\<lparr>MinuteCount := x\<rparr>) = mode24 st"
  by (simp_all add: has_cal_def mode24_def)

lemma has_cal_same: "same_clock s t \<Longrightarrow> has_cal (rst t) c = has_cal (rst s) c"
  by (simp add: same_clock_def has_cal_def)

lemma bcd_60: "n < 60 \<Longrightarrow> bcd (Suc n) \<ge> 0x60 \<longleftrightarrow> n = 59"
  using bcd_le [of 60 "Suc n"] by (auto simp: bcd_def [of 60])

lemma CountMinute_cal:
  assumes "has_cal (rst s) c" "cal_ok c"
  shows "has_cal (rst (CountMinute s)) (cal_next_minute c) \<and> mode24 (rst (CountMinute s)) = mode24 (rst s)"
proof -
  define st where "st = (rst s)\<lparr>MinuteCount := MinuteCount (rst s) + 1\<rparr>"
  have st: "has_cal st c" "mode24 st = mode24 (rst s)" using assms(1) by (simp_all add: st_def)
  define st1 where "st1 = (let st = set_dt 5 (BCDIncrement (DateTime st 5)) st
    in if DateTime st 5 \<ge> 0x60 then CountHour (set_dt 5 0 st) else st)"
  have mi: "c_minute c < 60" "DateTime st 5 = bcd (c_minute c)"
    using assms(2) st by (simp_all add: cal_ok_def has_cal_def)
  have "has_cal st1 (cal_next_minute c) \<and> mode24 st1 = mode24 st"
  proof (cases "c_minute c = 59")
    case True
    let ?c = "c\<lparr>c_minute := 0\<rparr>"
    have "has_cal (set_dt 5 0 st) ?c" "cal_ok ?c"
      using st assms(2) by (simp_all add: has_cal_def cal_ok_def bcd_const)
    then have "has_cal (CountHour (set_dt 5 0 st)) (cal_next_hour ?c) \<and> mode24 (CountHour (set_dt 5 0 st)) = mode24 st"
      using CountHour_cal [of "set_dt 5 0 st" ?c] by simp
    moreover have "set_dt 5 0 (set_dt 5 x st) = set_dt 5 0 st" for x by (simp add: set_dt_def)
    ultimately show ?thesis
      using mi True bcd_60 [of 59] by (simp add: st1_def Let_def cal_next_minute_def)
  next
    case False
    with mi bcd_60 [OF mi(1)] st show ?thesis by (simp add: st1_def Let_def cal_next_minute_def has_cal_def)
  qed
  moreover have "CountMinute s = ProcessIRQ 0 (upd_state (\<lambda>st. st\<lparr>IRQFlag := IRQFlag st OR 0x01\<rparr>)
      (upd_state (\<lambda>_. st1) s))"
    unfolding CountMinute_eq Let_def st1_def st_def by (simp add: upd_state_def upd_rtc_def)
  then have "same_clock (upd_state (\<lambda>_. st1) s) (CountMinute s)"
    by (simp only:) (rule same_clock_trans [OF same_clock_IRQFlag same_clock_ProcessIRQ])
  ultimately show ?thesis using st(2) has_cal_same [of "upd_state (\<lambda>_. st1) s" "CountMinute s"]
    by (simp add: same_clock_def)
qed

lemma CountSecond_cal:
  assumes "has_cal (rst s) c" "cal_ok c"
  shows "has_cal (rst (CountSecond s)) (cal_tick c)"
proof -
  have se: "c_second c < 60" "DateTime (rst s) 6 = bcd (c_second c)"
    using assms by (simp_all add: cal_ok_def has_cal_def)
  show ?thesis
  proof (cases "c_second c = 59")
    case True
    let ?s = "upd_state (set_dt 6 0) (upd_state (\<lambda>st. set_dt 6 (BCDIncrement (DateTime st 6)) st) s)"
    have "has_cal (rst ?s) (c\<lparr>c_second := 0\<rparr>)" "cal_ok (c\<lparr>c_second := 0\<rparr>)"
      using assms by (simp_all add: has_cal_def cal_ok_def bcd_const)
    moreover have "CountSecond s = CountMinute ?s"
      using se True bcd_60 [of 59] by (simp add: CountSecond_def Let_def)
    ultimately show ?thesis using CountMinute_cal [of ?s] True by (simp add: cal_tick_def)
  next
    case False
    with se bcd_60 [OF se(1)] assms(1) show ?thesis
      by (simp add: CountSecond_def Let_def cal_tick_def has_cal_def)
  qed
qed

text \<open>\<open>n\<close> seconds.\<close>

lemma CountSeconds_cal:
  assumes "has_cal (rst s) c" "cal_ok c" "dow_ok c" "cal_seconds c + n < century"
  shows "\<exists>c'. has_cal (rst ((CountSecond ^^ n) s)) c' \<and> cal_ok c' \<and> dow_ok c' \<and> cal_seconds c' = cal_seconds c + n"
  using assms(4)
proof (induction n)
  case 0
  then show ?case using assms by auto
next
  case (Suc n)
  then obtain c' where c': "has_cal (rst ((CountSecond ^^ n) s)) c'" "cal_ok c'" "dow_ok c'"
    "cal_seconds c' = cal_seconds c + n" by auto
  have "cal_seconds (cal_tick c') = cal_seconds c + Suc n"
    using cal_seconds_next [OF c'(2)] c'(4) Suc.prems by simp
  moreover have "dow_ok (cal_tick c')" using dow_cal_tick [OF c'(2,3)] c'(4) Suc.prems by simp
  ultimately show ?case
    using CountSecond_cal [OF c'(1,2)] cal_tick_ok [OF c'(2)] by auto
qed

text \<open>The starting point of the examples: midnight of 1 January 2000, a Saturday.\<close>

definition rtc0 :: rtc_state where
  "rtc0 = (rtc_State blank_rtc)\<lparr>DateTime := (\<lambda>i. if i = 1 \<or> i = 2 then 1 else if i = 3 then 6 else 0)\<rparr>"

definition cal0 :: cal where
  "cal0 = \<lparr>c_year = 0, c_month = 1, c_day = 1, c_dow = 6, c_hour = 0, c_minute = 0, c_second = 0\<rparr>"

lemma rtc0_cal: "has_cal rtc0 cal0" "cal_ok cal0" "dow_ok cal0" "cal_seconds cal0 = 0"
  by (simp_all add: rtc0_def cal0_def has_cal_def bcd_def hour_reg_def cal_ok_def dow_ok_def cal_days_def day_number_def cal_seconds_def dim_def)

text \<open>C5: Counting \<open>n\<close> seconds from a valid date (within the century) leaves the registers of the date that is
  \<open>n\<close> seconds later in the calendar, with the right day of the week, in the 12-hour and in the 24-hour mode.\<close>

theorem CountSeconds_refine:
  assumes "has_cal (rst s) c" "cal_ok c" "dow_ok c" "cal_seconds c + n < century"
  shows "\<exists>c'. has_cal (rst ((CountSecond ^^ n) s)) c' \<and> cal_ok c' \<and> dow_ok c' \<and> cal_seconds c' = cal_seconds c + n"
  using assms by (rule CountSeconds_cal)

theorem CountSeconds_refine_witness: "\<exists>c'. has_cal (rst ((CountSecond ^^ 86400) (blank_nds\<lparr>RTC := blank_rtc\<lparr>rtc_State := rtc0\<rparr>\<rparr>))) c' \<and> cal_seconds c' = 86400"
proof -
  have "has_cal (rst (blank_nds\<lparr>RTC := blank_rtc\<lparr>rtc_State := rtc0\<rparr>\<rparr>)) cal0" using rtc0_cal by simp
  from CountSeconds_refine [OF this rtc0_cal(2,3), of 86400] show ?thesis
    by (auto simp: rtc0_cal(4) century_def)
qed

section \<open>Setting and reading the date and time\<close>

text \<open>The calendar value \<open>SetDateTime\<close> makes of its arguments: the year in its century, anything else
  out of range replaced by its least value.\<close>

definition sane_cal :: "int \<Rightarrow> int \<Rightarrow> int \<Rightarrow> int \<Rightarrow> int \<Rightarrow> int \<Rightarrow> cal" where
  "sane_cal year month day hour minute second =
     (let y = nat (c_mod year 100);
          m = (if 1 \<le> month \<and> month \<le> 12 then nat month else 1);
          d = (if 1 \<le> day \<and> day \<le> int (dim y m) then nat day else 1);
          h = (if 0 \<le> hour \<and> hour < 24 then nat hour else 0);
          mi = (if 0 \<le> minute \<and> minute < 60 then nat minute else 0);
          se = (if 0 \<le> second \<and> second < 60 then nat second else 0)
      in \<lparr>c_year = y, c_month = m, c_day = d, c_dow = (6 + day_number y m d) mod 7,
          c_hour = h, c_minute = mi, c_second = se\<rparr>)"

lemma sane_cal_ok: "cal_ok (sane_cal y m d h mi se)" "dow_ok (sane_cal y m d h mi se)"
proof -
  have "c_mod y 100 < 100" using c_mod_bound [of 100 y] by simp
  then show "cal_ok (sane_cal y m d h mi se)"
    unfolding sane_cal_def cal_ok_def Let_def cal.select_convs
    by (intro conjI; simp split: if_split; linarith?)
  show "dow_ok (sane_cal y m d h mi se)"
    by (simp add: sane_cal_def dow_ok_def cal_days_def Let_def)
qed

lemma monthdays_dim:
  assumes "1 \<le> m" "m \<le> 12"
  shows "monthdays (int y) ! m = int (dim y m)"
proof -
  have leap: "(int y mod 4 = 0) = (y mod 4 = 0)" by presburger
  have "m \<in> {1, 2, 3, 4, 5, 6, 7, 8, 9, 10, 11, 12}"
    using assms unfolding insert_iff empty_iff by presburger
  then show ?thesis
    unfolding monthdays_def Let_def leap by (elim insertE emptyE) (simp_all add: dim_def)
qed

lemma monthdays_sum:
  assumes "m \<le> 12"
  shows "sum_list (map (\<lambda>i. monthdays (int y) ! i) [1..<m]) = int (sum_list (map (dim y) [1..<m]))"
proof -
  have eq: "map (\<lambda>i. monthdays (int y) ! i) [1..<m] = map (\<lambda>i. int (dim y i)) [1..<m]"
    using assms by (intro map_cong) (auto intro!: monthdays_dim)
  have "sum_list (map (\<lambda>i. int (dim y i)) xs) = int (sum_list (map (dim y) xs))" for xs
    by (induction xs) simp_all
  then show ?thesis unfolding eq .
qed

lemma c_div_nat: "c_div (int a) (int b) = int (a div b)"
  by (simp add: c_div_def sgn_if zdiv_int)

lemma c_mod_nat: "c_mod (int a) (int b) = int (a mod b)"
  by (simp add: c_mod_def c_div_nat) (metis of_nat_add of_nat_mult add_diff_cancel_left' mult_div_mod_eq)

lemma SetDateTime_cal:
  "has_cal (SetDateTime year month day hour minute second st) (sane_cal year month day hour minute second)"
proof -
  define y where "y = nat (c_mod year 100)"
  define m where "m = (if 1 \<le> month \<and> month \<le> 12 then nat month else 1)"
  define d where "d = (if 1 \<le> day \<and> day \<le> int (dim y m) then nat day else 1)"
  define h where "h = (if 0 \<le> hour \<and> hour < 24 then nat hour else 0)"
  define mi where "mi = (if 0 \<le> minute \<and> minute < 60 then nat minute else 0)"
  define se where "se = (if 0 \<le> second \<and> second < 60 then nat second else 0)"
  have y: "(if c_mod year 100 < 0 then 0 else c_mod year 100) = int y" by (simp add: y_def)
  have m: "(if month < 1 \<or> month > 12 then 1 else month) = int m" "1 \<le> m" "m \<le> 12" by (auto simp: m_def)
  have d: "(if day < 1 \<or> day > monthdays (int y) ! nat (int m) then 1 else day) = int d"
    using monthdays_dim [OF m(2,3), of y] by (auto simp: d_def)
  have h: "(if hour < 0 \<or> hour > 23 then 0 else hour) = int h" by (auto simp: h_def)
  have mi: "(if minute < 0 \<or> minute > 59 then 0 else minute) = int mi" by (auto simp: mi_def)
  have se: "(if second < 0 \<or> second > 59 then 0 else second) = int se" by (auto simp: se_def)
  have c: "sane_cal year month day hour minute second = \<lparr>c_year = y, c_month = m, c_day = d,
      c_dow = (6 + day_number y m d) mod 7, c_hour = h, c_minute = mi, c_second = se\<rparr>"
    unfolding sane_cal_def Let_def y_def m_def d_def h_def mi_def se_def ..
  have ok: "cal_ok (sane_cal year month day hour minute second)" by (rule sane_cal_ok)
  then have lt: "y < 100" "m < 100" "1 \<le> d" "d < 100" "h < 24" "mi < 100" "se < 100"
    using dim_bounds(2) [of y m] unfolding c by (auto simp: cal_ok_def)
  have dow: "c_mod (6 + (int y * 365 + c_div (int y + 3) 4 +
      sum_list (map (\<lambda>i. monthdays (int y) ! i) [1..<nat (int m)]) + (int d - 1))) 7 =
    int ((6 + day_number y m d) mod 7)"
  proof -
    have q: "c_div (int y + 3) 4 = int ((y + 3) div 4)" using c_div_nat [of "y + 3" 4] by simp
    have "6 + (int y * 365 + int ((y + 3) div 4) + int (sum_list (map (dim y) [1..<m])) + (int d - 1)) =
        int (6 + day_number y m d)"
      using lt(3) by (simp add: day_number_def of_nat_diff)
    then show ?thesis unfolding q nat_int monthdays_sum [OF m(3)] by (simp only: c_mod_nat [of _ 7, simplified])
  qed
  have bcd: "BCD (word_of_int (int n)) = bcd n" if "n < 100" for n
    using bcd_simps(3) [OF that] by simp
  have pm: "(0 \<noteq> (if int h \<ge> 12 then 0x40 else 0 :: u8)) = (12 \<le> h)" by simp
  have t: "tst (StatusReg1 st) (shl 1 1) = mode24 st" using tst_shl1 [of "StatusReg1 st" 1] by (simp add: mode24_def)
  have hr: "BCD (word_of_int (if \<not> tst (StatusReg1 st) (shl 1 1)
        then if (if int h \<ge> 12 then 0x40 else 0 :: u8) \<noteq> 0 then int h - 12 else int h else int h))
      OR (if int h \<ge> 12 then 0x40 else 0) = hour_reg (mode24 st) h"
  proof -
    have "12 \<le> h \<Longrightarrow> h mod 12 = h - 12" "\<not> 12 \<le> h \<Longrightarrow> h mod 12 = h"
      using lt(5) by (simp_all add: mod_if)
    then show ?thesis
      using lt(5) bcd [of h] bcd [of "h - 12"] unfolding t
      by (cases "mode24 st"; cases "12 \<le> h") (simp_all add: hour_reg_def of_nat_diff)
  qed
  have mode: "mode24 (st\<lparr>StatusReg1 := StatusReg1 st AND NOT 0x80\<rparr>) = mode24 st" for st
    by (simp add: mode24_def bit_and_iff bit_not_iff)
  show ?thesis
    unfolding SetDateTime_def Let_def y m(1) d h mi se dow hr c
    using lt by (simp add: has_cal_def bcd mode24_def bit_and_iff del: of_nat_mod)
qed

lemma hour_reg_afternoon: "h < 24 \<Longrightarrow> tst (hour_reg m h) 0x40 = (12 \<le> h)"
  using hour_reg_masks(2) [of h m] by simp

lemma GetDateTime_cal:
  assumes "has_cal st c" "cal_ok c"
  shows "GetDateTime st =
    (int (c_year c) + 2000, int (c_month c), int (c_day c), int (c_hour c), int (c_minute c), int (c_second c))"
proof -
  have ok: "c_year c < 100" "c_month c < 40" "c_day c < 40" "c_hour c < 24" "c_minute c < 80" "c_second c < 80"
    using assms(2) dim_bounds(2) [of "c_year c" "c_month c"] by (auto simp: cal_ok_def)
  have u: "uint (FromBCD (bcd n)) = int n" if "n < 100" for n
    using bcd_simps(2) [OF that] by (metis uint_nat)
  have t: "tst (StatusReg1 st) (shl 1 1) = mode24 st" using tst_shl1 [of "StatusReg1 st" 1] by (simp add: mode24_def)
  have dt: "DateTime st 0 = bcd (c_year c)" "DateTime st 1 = bcd (c_month c)" "DateTime st 2 = bcd (c_day c)"
    "DateTime st 4 = hour_reg (mode24 st) (c_hour c)" "DateTime st 5 = bcd (c_minute c)" "DateTime st 6 = bcd (c_second c)"
    using assms(1) by (simp_all add: has_cal_def)
  have h: "int (if mode24 st then c_hour c else c_hour c mod 12) + (if \<not> mode24 st \<and> 12 \<le> c_hour c then 12 else 0) = int (c_hour c)"
    using ok(4) by (auto simp: mod_if of_nat_diff)
  have m12: "(if mode24 st then c_hour c else c_hour c mod 12) < 100" using ok(4) by (auto simp: mod_if)
  have hour: "(if \<not> mode24 st then if 12 \<le> c_hour c then int (if mode24 st then c_hour c else c_hour c mod 12) + 12
      else int (if mode24 st then c_hour c else c_hour c mod 12) else int (if mode24 st then c_hour c else c_hour c mod 12))
      = int (c_hour c)"
    using h by auto
  have mod12: "12 \<le> c_hour c \<Longrightarrow> int (c_hour c mod 12) + 12 = int (c_hour c)"
    using ok(4) by presburger
  show ?thesis
    unfolding GetDateTime_def Let_def dt t hour_reg_masks [OF ok(4)] hour_reg_afternoon [OF ok(4)] u [OF m12] hour
    using ok u mod12 by simp
qed

text \<open>A valid date and time of this century that is set is read back unchanged.\<close>

theorem SetDateTime_GetDateTime:
  assumes "2000 \<le> year" "year < 2100" "1 \<le> month" "month \<le> 12"
    and "1 \<le> day" "day \<le> int (dim (nat (year - 2000)) (nat month))"
    and "0 \<le> hour" "hour < 24" "0 \<le> minute" "minute < 60" "0 \<le> second" "second < 60"
  shows "GetDateTime (SetDateTime year month day hour minute second st) = (year, month, day, hour, minute, second)"
proof -
  have y: "c_mod year 100 = year - 2000"
  proof -
    have "year mod 100 = year - 2000" 
      using mod_mult_self2 [of "year - 2000" 100 20] assms(1,2) by simp
    then show ?thesis using c_mod_nat [of "nat year" 100] assms(1) by (simp add: zmod_int)
  qed
  show ?thesis
    using GetDateTime_cal [OF SetDateTime_cal sane_cal_ok(1), of year month day hour minute second st] assms
    by (simp add: sane_cal_def Let_def y)
qed

theorem SetDateTime_GetDateTime_witness: "GetDateTime (SetDateTime 2024 2 29 23 59 58 rtc0) = (2024, 2, 29, 23, 59, 58)"
  by (rule SetDateTime_GetDateTime) (simp_all add: dim_def)

section \<open>Switching between 12 and 24 hours\<close>

text \<open>A write to status register 1 that flips the mode bit, and does not reset, keeps the time.\<close>

lemma to_24h:
  "\<forall>h < 24. (let hour = hour_reg False h AND 0x3F; pm = hour_reg False h AND 0x40;
      hour = (if pm \<noteq> 0 then let hour = hour + 0x12 in if hour AND 0x0F \<ge> 0x0A then hour + 0x06 else hour
              else hour)
    in BCDSanitize hour 0x00 0x23 OR pm) = hour_reg True h"
  unfolding all_less_iff by code_simp

lemma to_12h:
  "\<forall>h < 24. (let hour = hour_reg True h AND 0x3F;
      (hour, pm) = (if hour \<ge> 0x12
        then let hour = hour - 0x12 in (if hour AND 0x0F \<ge> 0x0A then hour - 0x06 else hour, 0x40)
        else (hour, 0))
    in BCDSanitize hour 0x00 0x11 OR pm) = hour_reg False h"
  unfolding all_less_iff by code_simp

lemma has_cal_set_hour:
  "has_cal st c \<Longrightarrow> DateTime st' = DateTime st \<Longrightarrow>
   has_cal (set_dt 4 (hour_reg (mode24 st') (c_hour c)) st') c"
  by (simp add: has_cal_def)

text \<open>A write of status register 1 that is not a reset may switch between the 12-hour and the 24-hour mode; the clock shows the same time in the new mode.\<close>

theorem WriteStatus1_keeps_time:
  assumes "has_cal st c" "cal_ok c" "\<not> bit val 0"
  shows "has_cal (WriteStatus1 val st) c \<and> mode24 (WriteStatus1 val st) = bit val 1"
proof -
  define st1 where "st1 = st\<lparr>StatusReg1 := (StatusReg1 st AND 0xF0) OR (val AND 0x0E)\<rparr>"
  have h: "c_hour c < 24" using assms(2) by (simp add: cal_ok_def)
  have t: "tst (StatusReg1 x) (shl 1 1) = mode24 x" for x :: rtc_state
    using tst_shl1 [of "StatusReg1 x" 1] by (simp add: mode24_def)
  have flip: "tst (StatusReg1 st1 XOR StatusReg1 st) (shl 1 1) = (mode24 st1 \<noteq> mode24 st)"
    unfolding tst_shl1 by (auto simp: bit_xor_iff mode24_def)
  have m: "mode24 st1 = bit val 1"
    by (simp add: st1_def mode24_def bit_or_iff bit_and_iff)
  have nr: "\<not> tst val (shl 1 0)" using assms(3) tst_shl1 [of val 0] by simp
  have dt4: "DateTime st1 4 = hour_reg (mode24 st) (c_hour c)" using assms(1) by (simp add: st1_def has_cal_def)
  have st1: "DateTime st1 = DateTime st" by (simp add: st1_def)
  note ws = WriteStatus1_def [of val st, unfolded Let_def, unfolded nr [THEN eq_False [THEN iffD2]] if_False,
      folded st1_def, unfolded flip t dt4]
  note set = has_cal_set_hour [OF assms(1) st1]
  show ?thesis
  proof (cases "mode24 st1 = mode24 st")
    case True
    then have "WriteStatus1 val st = st1" unfolding ws by simp
    with True assms(1) st1 m show ?thesis by (simp add: has_cal_def)
  next
    case flipped: False
    show ?thesis
    proof (cases "mode24 st1")
      case True
      with flipped have "mode24 st = False" by simp
      with True flipped to_24h [rule_format, OF h, unfolded Let_def]
      have "WriteStatus1 val st = set_dt 4 (hour_reg True (c_hour c)) st1"
        unfolding ws by (simp only: simp_thms if_True if_False prod.case)
      with set True m show ?thesis by simp
    next
      case False
      with flipped have "mode24 st = True" by simp
      with False flipped to_12h [rule_format, OF h, unfolded Let_def]
      have "WriteStatus1 val st = set_dt 4 (hour_reg False (c_hour c)) st1"
        unfolding ws by (simp only: simp_thms if_True if_False prod.case split: if_splits)
      with set False m show ?thesis by simp
    qed
  qed
qed

theorem WriteStatus1_keeps_time_witness: "has_cal (WriteStatus1 2 rtc0) cal0"
  using WriteStatus1_keeps_time [OF rtc0_cal(1,2), of 2] by simp

end
