(* ===== verification/RtcSerial.thy ===== *)
theory RtcSerial
  imports RtcCalendar
begin

text \<open>
  The real-time clock as the rest of the console sees it: the registers written through the serial
  commands, the clock event and its rate, the interrupt line, and the bit-serial protocol.
\<close>

section \<open>Writing the date and time registers\<close>

lemma BCDSanitize_bcd:
  assumes "lo \<le> hi" "hi < 100"
  obtains n where "lo \<le> n" "n \<le> hi" "BCDSanitize x (bcd lo) (bcd hi) = bcd n"
    "\<And>m. lo \<le> m \<Longrightarrow> m \<le> hi \<Longrightarrow> x = bcd m \<Longrightarrow> n = m"
proof -
  have v: "valid_bcd (bcd lo)" "bcd lo \<le> bcd hi" using assms by (simp_all add: bcd_le)
  note r = BCDSanitize_ok [OF v, of x]
  obtain n where n: "n < 100" "BCDSanitize x (bcd lo) (bcd hi) = bcd n"
    using r valid_bcd_cases by metis
  have b: "lo \<le> n" "n \<le> hi" using r n assms by (simp_all add: bcd_le)
  have "n = m" if "lo \<le> m" "m \<le> hi" "x = bcd m" for m
  proof -
    have "BCDSanitize x (bcd lo) (bcd hi) = x" using r that assms by (simp add: bcd_le)
    then show ?thesis using n that assms by (simp add: bcd_inj)
  qed
  then show ?thesis using that [OF b n(2)] by blast
qed

lemma bcd_consts: "bcd 0 = 0" "bcd 1 = 1" "bcd 6 = 6" "bcd 11 = 0x11" "bcd 12 = 0x12" "bcd 23 = 0x23"
  "bcd 31 = 0x31" "bcd 59 = 0x59" "bcd 99 = 0x99"
  by (simp_all add: bcd_def)

lemma sanitize_0_23: "\<exists>n. 0 \<le> n \<and> n \<le> 23 \<and> BCDSanitize x 0x00 0x23 = bcd n \<and> (\<forall>m. 0 \<le> m \<longrightarrow> m \<le> 23 \<longrightarrow> x = bcd m \<longrightarrow> n = m)"
proof -
  have "(0::nat) \<le> 23" "23 < (100::nat)" by simp_all
  from BCDSanitize_bcd [OF this, of x] show ?thesis unfolding bcd_consts by metis
qed

lemma sanitize_0_11: "\<exists>n. 0 \<le> n \<and> n \<le> 11 \<and> BCDSanitize x 0x00 0x11 = bcd n \<and> (\<forall>m. 0 \<le> m \<longrightarrow> m \<le> 11 \<longrightarrow> x = bcd m \<longrightarrow> n = m)"
proof -
  have "(0::nat) \<le> 11" "11 < (100::nat)" by simp_all
  from BCDSanitize_bcd [OF this, of x] show ?thesis unfolding bcd_consts by metis
qed

lemma bcd_digit: "n < 10 \<Longrightarrow> bcd n = word_of_nat n"
  by (simp add: bcd_def)

text \<open>The seven date and time bytes, written in order.\<close>

definition write_all :: "(nat \<Rightarrow> u8) \<Rightarrow> rtc_state \<Rightarrow> rtc_state" where
  "write_all b st = fold (\<lambda>i. WriteDateTime (i + 1) (b i)) [0..<7] st"

lemma write_all_unfold:
  "write_all b st = WriteDateTime 7 (b 6) (WriteDateTime 6 (b 5) (WriteDateTime 5 (b 4) (WriteDateTime 4 (b 3)
     (WriteDateTime 3 (b 2) (WriteDateTime 2 (b 1) (WriteDateTime 1 (b 0) st))))))"
proof -
  have "[0..<7] = [0, 1, 2, 3, 4, 5, 6 :: nat]" by (simp add: upt_rec)
  then show ?thesis by (simp add: write_all_def numeral_eq_Suc)
qed

lemma CheckEndOfMonth_mode [simp]: "mode24 (CheckEndOfMonth st) = mode24 st"
  by (simp add: CheckEndOfMonth_def CountMonth_def CountYear_def Let_def)

lemma WriteDateTime_mode [simp]: "mode24 (WriteDateTime n v st) = mode24 st"
  unfolding WriteDateTime_def Let_def case_prod_beta
  by (intro if_both [of "\<lambda>x. mode24 x = mode24 st"] set_dt_simps refl trans [OF CheckEndOfMonth_mode])

lemma WriteDateTime_hour:
  obtains h where "h < 24" "WriteDateTime 5 v st = set_dt 4 (hour_reg (mode24 st) h) st"
    "\<And>h'. h' < 24 \<Longrightarrow> v = hour_reg (mode24 st) h' \<Longrightarrow> h = h'"
proof -
  have t: "tst (StatusReg1 st) (shl 1 1) = mode24 st" using tst_shl1 [of "StatusReg1 st" 1] by (simp add: mode24_def)
  show ?thesis
  proof (cases "mode24 st")
    case True
    obtain n where n: "0 \<le> n" "n \<le> 23" "BCDSanitize (v AND 0x3F) 0x00 0x23 = bcd n"
      "\<And>m. 0 \<le> m \<Longrightarrow> m \<le> 23 \<Longrightarrow> v AND 0x3F = bcd m \<Longrightarrow> n = m"
      using sanitize_0_23 by blast
    have ge: "bcd n \<ge> 0x12 \<longleftrightarrow> 12 \<le> n" using bcd_le [of 12 n] n(2) by (simp add: bcd_consts)
    show ?thesis
    proof (rule that [of n])
      show "n < 24" using n(2) by simp
      show "WriteDateTime 5 v st = set_dt 4 (hour_reg (mode24 st) n) st"
        using True t n(3) ge by (simp add: WriteDateTime_def Let_def hour_reg_def)
      show "n = h'" if "h' < 24" "v = hour_reg (mode24 st) h'" for h'
        using n(4) [of h'] that True hour_reg_masks(1) [of h' True] by simp
    qed
  next
    case False
    obtain n where n: "0 \<le> n" "n \<le> 11" "BCDSanitize (v AND 0x3F) 0x00 0x11 = bcd n"
      "\<And>m. 0 \<le> m \<Longrightarrow> m \<le> 11 \<Longrightarrow> v AND 0x3F = bcd m \<Longrightarrow> n = m"
      using sanitize_0_11 by blast
    define h where "h = n + (if bit v 6 then 12 else 0)"
    have pm: "v AND 0x40 = (if bit v 6 then 0x40 else 0)"
      using and_pow2 [of v 6] by simp
    show ?thesis
    proof (rule that [of h])
      show "h < 24" using n(2) by (simp add: h_def)
      show "WriteDateTime 5 v st = set_dt 4 (hour_reg (mode24 st) h) st"
        using False t n(2,3) pm by (simp add: WriteDateTime_def Let_def hour_reg_def h_def)
      show "h = h'" if "h' < 24" "v = hour_reg (mode24 st) h'" for h'
      proof -
        have "n = h' mod 12" using n(4) [of "h' mod 12"] that False hour_reg_masks(1) [of h' False] by simp
        moreover have "bit v 6 = (12 \<le> h')"
          using hour_reg_masks(2) [of h' False] that False pm by (auto split: if_splits)
        moreover have "h' mod 12 + (if 12 \<le> h' then 12 else 0) = h'" using that(1) by (auto simp: mod_if)
        ultimately show ?thesis by (simp add: h_def)
      qed
    qed
  qed
qed

lemma sanitize_range:
  assumes "lo \<le> hi" "hi < 100"
  shows "\<exists>n. lo \<le> n \<and> n \<le> hi \<and> BCDSanitize x (bcd lo) (bcd hi) = bcd n \<and>
    (\<forall>m. lo \<le> m \<longrightarrow> m \<le> hi \<longrightarrow> x = bcd m \<longrightarrow> n = m)"
  using BCDSanitize_bcd [OF assms, of x] by metis

lemma sanitize_0_99: "\<exists>n. 0 \<le> n \<and> n \<le> 99 \<and> BCDSanitize x (bcd 0) (bcd 99) = bcd n \<and>
    (\<forall>m. 0 \<le> m \<longrightarrow> m \<le> 99 \<longrightarrow> x = bcd m \<longrightarrow> n = m)"
  by (rule sanitize_range) simp_all

lemma sanitize_1_12: "\<exists>n. 1 \<le> n \<and> n \<le> 12 \<and> BCDSanitize x (bcd 1) (bcd 12) = bcd n \<and>
    (\<forall>m. 1 \<le> m \<longrightarrow> m \<le> 12 \<longrightarrow> x = bcd m \<longrightarrow> n = m)"
  by (rule sanitize_range) simp_all

lemma sanitize_1_31: "\<exists>n. 1 \<le> n \<and> n \<le> 31 \<and> BCDSanitize x (bcd 1) (bcd 31) = bcd n \<and>
    (\<forall>m. 1 \<le> m \<longrightarrow> m \<le> 31 \<longrightarrow> x = bcd m \<longrightarrow> n = m)"
  by (rule sanitize_range) simp_all

lemma sanitize_0_6: "\<exists>n. 0 \<le> n \<and> n \<le> 6 \<and> BCDSanitize x (bcd 0) (bcd 6) = bcd n \<and>
    (\<forall>m. 0 \<le> m \<longrightarrow> m \<le> 6 \<longrightarrow> x = bcd m \<longrightarrow> n = m)"
  by (rule sanitize_range) simp_all

lemma sanitize_0_59: "\<exists>n. 0 \<le> n \<and> n \<le> 59 \<and> BCDSanitize x (bcd 0) (bcd 59) = bcd n \<and>
    (\<forall>m. 0 \<le> m \<longrightarrow> m \<le> 59 \<longrightarrow> x = bcd m \<longrightarrow> n = m)"
  by (rule sanitize_range) simp_all

text \<open>Whatever the bytes, the registers hold a date and time afterwards; and if the bytes are those of
  a date and time, it is that one.\<close>

lemma WriteDateTime_bytes:
  "WriteDateTime 1 v st = set_dt 0 (BCDSanitize v 0x00 0x99) st"
  "WriteDateTime 2 v st = set_dt 1 (BCDSanitize (v AND 0x1F) 0x01 0x12) st"
  "WriteDateTime 3 v st = CheckEndOfMonth (set_dt 2 (BCDSanitize (v AND 0x3F) 0x01 0x31) st)"
  "WriteDateTime 4 v st = set_dt 3 (BCDSanitize (v AND 0x07) 0x00 0x06) st"
  "WriteDateTime 6 v st = set_dt 5 (BCDSanitize (v AND 0x7F) 0x00 0x59) st"
  "WriteDateTime 7 v st = set_dt 6 (BCDSanitize (v AND 0x7F) 0x00 0x59) st"
  by (simp_all add: WriteDateTime_def)

lemma CheckEndOfMonth_date:
  assumes "DateTime st 0 = bcd y" "DateTime st 1 = bcd m" "DateTime st 2 = bcd d"
    and "y < 100" "1 \<le> m" "m \<le> 12" "1 \<le> d" "d \<le> 31"
  shows "\<exists>m' d'. DateTime (CheckEndOfMonth st) = (DateTime st)(1 := bcd m', 2 := bcd d') \<and>
    1 \<le> m' \<and> m' \<le> 12 \<and> 1 \<le> d' \<and> d' \<le> dim y m' \<and> (d \<le> dim y m \<longrightarrow> m' = m \<and> d' = d)"
proof -
  have dm: "DaysInMonth st = bcd (dim y m)" by (rule DaysInMonth_dim [OF assms(1,2,4-6)])
  have gt: "bcd d > bcd (dim y m) \<longleftrightarrow> dim y m < d"
    using dim_bounds(2) [of y m] assms(8) by (simp add: bcd_less)
  show ?thesis
  proof (cases "dim y m < d")
    case True
    then have "m < 12" using assms(6,8) by (cases "m = 12") (auto simp: dim_def)
    then have "bcd (Suc m) > 0x12 \<longleftrightarrow> False" using bcd_less [of 12 "Suc m"] by (simp add: bcd_consts)
    moreover have "BCDIncrement (bcd m) = bcd (Suc m)" using \<open>m < 12\<close> by simp
    ultimately have "DateTime (CheckEndOfMonth st) = (DateTime st)(1 := bcd (Suc m), 2 := bcd 1)"
      using True assms(2) by (auto simp: CheckEndOfMonth_def dm assms(3) gt CountMonth_def Let_def bcd_consts
          bcd_consts(2) [unfolded One_nat_def] fun_eq_iff)
    with \<open>m < 12\<close> True show ?thesis by (intro exI [of _ "Suc m"] exI [of _ 1]) auto
  next
    case False
    then have "DateTime (CheckEndOfMonth st) = (DateTime st)(1 := bcd m, 2 := bcd d)"
      using assms(2,3) by (auto simp: CheckEndOfMonth_def dm gt)
    with False assms(5-7) show ?thesis by (intro exI [of _ m] exI [of _ d]) auto
  qed
qed

lemma dow_byte: "w < 7 \<Longrightarrow> (word_of_nat w :: u8) AND 0x07 = bcd w \<and> bcd w = word_of_nat w"
proof -
  assume "w < 7"
  then have "w \<in> {0, 1, 2, 3, 4, 5, 6}" unfolding insert_iff empty_iff by linarith
  then show ?thesis by (elim insertE emptyE) (simp_all add: bcd_def)
qed

lemma write_all_cal:
  "\<exists>c. has_cal (write_all b st) c \<and> cal_ok c \<and> mode24 (write_all b st) = mode24 st \<and>
     (\<forall>c0 st0. has_cal st0 c0 \<longrightarrow> cal_ok c0 \<longrightarrow> mode24 st0 = mode24 st \<longrightarrow> DateTime st0 = b \<longrightarrow> c = c0)"
proof -
  obtain y where y: "0 \<le> y" "y \<le> 99" "BCDSanitize (b 0) 0x00 0x99 = bcd y"
    "\<forall>m. 0 \<le> m \<longrightarrow> m \<le> 99 \<longrightarrow> b 0 = bcd m \<longrightarrow> y = m"
    using sanitize_0_99 [of "b 0"] unfolding bcd_consts by blast
  obtain mo where mo: "1 \<le> mo" "mo \<le> 12" "BCDSanitize (b 1 AND 0x1F) 0x01 0x12 = bcd mo"
    "\<forall>m. 1 \<le> m \<longrightarrow> m \<le> 12 \<longrightarrow> b 1 AND 0x1F = bcd m \<longrightarrow> mo = m"
    using sanitize_1_12 [of "b 1 AND 0x1F"] unfolding bcd_consts by blast
  obtain d where d: "1 \<le> d" "d \<le> 31" "BCDSanitize (b 2 AND 0x3F) 0x01 0x31 = bcd d"
    "\<forall>m. 1 \<le> m \<longrightarrow> m \<le> 31 \<longrightarrow> b 2 AND 0x3F = bcd m \<longrightarrow> d = m"
    using sanitize_1_31 [of "b 2 AND 0x3F"] unfolding bcd_consts by blast
  obtain w where w: "0 \<le> w" "w \<le> 6" "BCDSanitize (b 3 AND 0x07) 0x00 0x06 = bcd w"
    "\<forall>m. 0 \<le> m \<longrightarrow> m \<le> 6 \<longrightarrow> b 3 AND 0x07 = bcd m \<longrightarrow> w = m"
    using sanitize_0_6 [of "b 3 AND 0x07"] unfolding bcd_consts by blast
  obtain mi where mi: "0 \<le> mi" "mi \<le> 59" "BCDSanitize (b 5 AND 0x7F) 0x00 0x59 = bcd mi"
    "\<forall>m. 0 \<le> m \<longrightarrow> m \<le> 59 \<longrightarrow> b 5 AND 0x7F = bcd m \<longrightarrow> mi = m"
    using sanitize_0_59 [of "b 5 AND 0x7F"] unfolding bcd_consts by blast
  obtain se where se: "0 \<le> se" "se \<le> 59" "BCDSanitize (b 6 AND 0x7F) 0x00 0x59 = bcd se"
    "\<forall>m. 0 \<le> m \<longrightarrow> m \<le> 59 \<longrightarrow> b 6 AND 0x7F = bcd m \<longrightarrow> se = m"
    using sanitize_0_59 [of "b 6 AND 0x7F"] unfolding bcd_consts by blast
  define st2 where "st2 = set_dt 2 (bcd d) (set_dt 1 (bcd mo) (set_dt 0 (bcd y) st))"
  obtain m' d' where md: "DateTime (CheckEndOfMonth st2) = (DateTime st2)(1 := bcd m', 2 := bcd d')"
    "1 \<le> m'" "m' \<le> 12" "1 \<le> d'" "d' \<le> dim y m'" "d \<le> dim y mo \<longrightarrow> m' = mo \<and> d' = d"
    using CheckEndOfMonth_date [of st2 y mo d] y(2) mo(1,2) d(1,2) by (auto simp: st2_def)
  define st4 where "st4 = set_dt 3 (bcd w) (CheckEndOfMonth st2)"
  have m4: "mode24 st4 = mode24 st" by (simp add: st4_def st2_def)
  obtain h where h: "h < 24" "WriteDateTime 5 (b 4) st4 = set_dt 4 (hour_reg (mode24 st) h) st4"
    "\<And>h'. h' < 24 \<Longrightarrow> b 4 = hour_reg (mode24 st) h' \<Longrightarrow> h = h'"
    using WriteDateTime_hour [of "b 4" st4] unfolding m4 by metis
  let ?c = "\<lparr>c_year = y, c_month = m', c_day = d', c_dow = w, c_hour = h, c_minute = mi, c_second = se\<rparr>"
  have W: "write_all b st = set_dt 6 (bcd se) (set_dt 5 (bcd mi) (set_dt 4 (hour_reg (mode24 st) h) st4))"
    unfolding write_all_unfold WriteDateTime_bytes y(3) mo(3) d(3) w(3) mi(3) se(3)
      st2_def [symmetric] st4_def [symmetric] h(2) ..
  have w7: "w < 7" using w(2) by simp
  have "has_cal (write_all b st) ?c"
    using md(1) dow_byte [OF w7] by (simp add: W has_cal_def m4) (simp add: st4_def st2_def)
  moreover have "cal_ok ?c" using md(2-5) y(2) w7 h(1) mi(2) se(2) by (simp add: cal_ok_def)
  moreover have "?c = c0"
    if c0: "has_cal st0 c0" "cal_ok c0" "mode24 st0 = mode24 st" "DateTime st0 = b" for c0 st0
  proof -
    have b: "b 0 = bcd (c_year c0)" "b 1 = bcd (c_month c0)" "b 2 = bcd (c_day c0)" "b 3 = word_of_nat (c_dow c0)"
      "b 4 = hour_reg (mode24 st) (c_hour c0)" "b 5 = bcd (c_minute c0)" "b 6 = bcd (c_second c0)"
      using c0 by (auto simp: has_cal_def)
    have ok: "c_year c0 \<le> 99" "1 \<le> c_month c0" "c_month c0 \<le> 12" "1 \<le> c_day c0" "c_day c0 \<le> dim (c_year c0) (c_month c0)"
      "c_dow c0 < 7" "c_hour c0 < 24" "c_minute c0 \<le> 59" "c_second c0 \<le> 59"
      using c0(2) by (auto simp: cal_ok_def)
    have d31: "c_day c0 \<le> 31" using ok(5) dim_bounds(2) le_trans by blast
    have "y = c_year c0" using y(4) b(1) ok(1) by blast
    moreover have "mo = c_month c0" using mo(4) b(2) ok(2,3) by simp
    moreover have "d = c_day c0" using d(4) b(3) ok(4) d31 by simp
    moreover have "w = c_dow c0" using w(4) b(4) ok(6) dow_byte [OF ok(6)] by simp
    moreover have "h = c_hour c0" by (rule h(3) [OF ok(7) b(5)])
    moreover have "mi = c_minute c0" using mi(4) b(6) ok(8) by simp
    moreover have "se = c_second c0" using se(4) b(7) ok(9) by simp
    ultimately show ?thesis using md(6) ok(5) by simp
  qed
  moreover have "mode24 (write_all b st) = mode24 st" by (simp add: W m4)
  ultimately show ?thesis by blast
qed

text \<open>Restoring a saved state always yields a date and time, whatever the file held, and keeps a
  date and time that is one.\<close>

lemma CheckEndOfMonth_other: "2 < j \<Longrightarrow> DateTime (CheckEndOfMonth st) j = DateTime st j"
  by (simp add: CheckEndOfMonth_def CountMonth_def CountYear_def Let_def)

lemma WriteDateTime_other: "n \<le> j \<Longrightarrow> DateTime (WriteDateTime n v st) j = DateTime st j"
proof -
  assume j: "n \<le> j"
  show ?thesis
  proof (cases "n = 5")
    case True
    obtain h where "WriteDateTime 5 v st = set_dt 4 (hour_reg (mode24 st) h) st" using WriteDateTime_hour by metis
    with True j show ?thesis by simp
  next
    case False
    with j show ?thesis by (simp add: WriteDateTime_def CheckEndOfMonth_other)
  qed
qed

lemma SetState_eq: "SetState st = write_all (DateTime st) st"
proof -
  have step: "i \<le> 7 \<Longrightarrow>
      fold (\<lambda>i st. WriteDateTime (i + 1) (DateTime st i) st) [0..<i] st =
        fold (\<lambda>i. WriteDateTime (i + 1) (DateTime st i)) [0..<i] st \<and>
      (\<forall>j \<ge> i. DateTime (fold (\<lambda>i. WriteDateTime (i + 1) (DateTime st i)) [0..<i] st) j = DateTime st j)" for i
    by (induction i) (auto simp: WriteDateTime_other)
  show ?thesis using step [of 7] by (simp add: SetState_def write_all_def)
qed

text \<open>A restored clock state, whatever its bytes, is a valid calendar date, and a state that was valid is the same date after it.\<close>

theorem SetState_cal:
  "\<exists>c. has_cal (SetState st) c \<and> cal_ok c \<and> (\<forall>c0. has_cal st c0 \<longrightarrow> cal_ok c0 \<longrightarrow> c = c0)"
proof -
  obtain c where c: "has_cal (SetState st) c" "cal_ok c"
    "\<And>c0 st0. has_cal st0 c0 \<Longrightarrow> cal_ok c0 \<Longrightarrow> mode24 st0 = mode24 st \<Longrightarrow> DateTime st0 = DateTime st \<Longrightarrow> c = c0"
    using write_all_cal [of "DateTime st" st] unfolding SetState_eq by metis
  have "c = c0" if "has_cal st c0" "cal_ok c0" for c0
    using c(3) [OF that] by simp
  with c(1,2) show ?thesis by blast
qed

theorem SetState_cal_witness: "has_cal (SetState rtc0) cal0"
  using SetState_cal [of rtc0] rtc0_cal(1,2) by blast

section \<open>The rate of the clock\<close>

lemma TimerError_step:
  assumes "unat e < 2 ^ 15"
  shows "unat (asr (33513982 + e :: u32) 15) = (33513982 + unat e) div 2 ^ 15"
    and "unat ((33513982 + e :: u32) AND 0x7FFF) = (33513982 + unat e) mod 2 ^ 15"
proof -
  have u: "unat (33513982 + e :: u32) = 33513982 + unat e"
    using assms by (subst unat_add_small) simp_all
  have "\<not> bit (33513982 + e :: u32) 31"
    by (rule not_bit_small [where n = 26]) (use u assms in simp_all)
  then have "asr (33513982 + e :: u32) 15 = shr (33513982 + e) 15"
    by (intro asr_eq_shr) simp
  then show "unat (asr (33513982 + e :: u32) 15) = (33513982 + unat e) div 2 ^ 15"
    by (simp only: unat_shr u)
  have "(33513982 + e :: u32) AND 0x7FFF = take_bit 15 (33513982 + e)"
    by (simp add: take_bit_eq_mask mask_eq_exp_minus_1)
  then show "unat ((33513982 + e :: u32) AND 0x7FFF) = (33513982 + unat e) mod 2 ^ 15"
    by (simp only: unsigned_take_bit_eq take_bit_nat_def u)
qed

lemma ScheduleTimer_step:
  assumes "\<not> pending Event_RTC s" "unat (rtc_TimerError (RTC s)) < 2 ^ 15" "unat (event_time Event_RTC s) < 2 ^ 63"
  shows "unat (event_time Event_RTC (ScheduleTimer False s)) =
      unat (event_time Event_RTC s) + (33513982 + unat (rtc_TimerError (RTC s))) div 2 ^ 15"
    and "unat (rtc_TimerError (RTC (ScheduleTimer False s))) = (33513982 + unat (rtc_TimerError (RTC s))) mod 2 ^ 15"
    and "rst (ScheduleTimer False s) = rst s" "rtc_ClockCount (RTC (ScheduleTimer False s)) = rtc_ClockCount (RTC s)"
    and "SysTimestamp (ScheduleTimer False s) = SysTimestamp s"
    and "pending i (ScheduleTimer False s) \<longleftrightarrow> i = Event_RTC \<or> pending i s"
    and "i \<noteq> Event_RTC \<Longrightarrow> event_time i (ScheduleTimer False s) = event_time i s"
proof -
  define e where "e = rtc_TimerError (RTC s)"
  define s1 where "s1 = upd_rtc (\<lambda>r. r\<lparr>rtc_TimerError := (33513982 + e) AND 0x7FFF\<rparr>) s"
  have S: "ScheduleTimer False s = ScheduleEvent Event_RTC True (asr (33513982 + e) 15) 0 0 s1"
    by (simp add: ScheduleTimer_def Let_def s1_def e_def)
  have s1: "pending i s1 = pending i s" "event_time i s1 = event_time i s" "rst s1 = rst s"
    "rtc_ClockCount (RTC s1) = rtc_ClockCount (RTC s)" "SysTimestamp s1 = SysTimestamp s" for i
    by (simp_all add: s1_def pending_def event_time_def)
  note step = TimerError_step [OF assms(2), folded e_def]
  have d: "unat (asr (33513982 + e) 15) < 2 ^ 11"
    unfolding step(1) using assms(2) unfolding e_def [symmetric] by simp
  have "\<not> bit (asr (33513982 + e) 15) 31"
    by (rule not_bit_small [OF d]) simp
  then have sc: "unat (scast (asr (33513982 + e) 15) :: u64) = unat (asr (33513982 + e) 15)"
    by (intro unat_scast_nonneg) simp_all
  have "event_time Event_RTC (ScheduleTimer False s) = event_time Event_RTC s + scast (asr (33513982 + e) 15)"
    unfolding S using assms(1) by (simp add: event_time_ScheduleEvent_periodic s1)
  moreover have "unat (event_time Event_RTC s + scast (asr (33513982 + e) 15)) =
      unat (event_time Event_RTC s) + unat (asr (33513982 + e) 15)"
    using assms(3) d sc by (subst unat_add_small) simp_all
  ultimately show "unat (event_time Event_RTC (ScheduleTimer False s)) =
      unat (event_time Event_RTC s) + (33513982 + unat (rtc_TimerError (RTC s))) div 2 ^ 15"
    using step(1) by (simp add: e_def)
  show "unat (rtc_TimerError (RTC (ScheduleTimer False s))) = (33513982 + unat (rtc_TimerError (RTC s))) mod 2 ^ 15"
    unfolding S ScheduleEvent_frame using step(2) by (simp add: s1_def e_def)
  show "rst (ScheduleTimer False s) = rst s" "rtc_ClockCount (RTC (ScheduleTimer False s)) = rtc_ClockCount (RTC s)"
    "SysTimestamp (ScheduleTimer False s) = SysTimestamp s"
    unfolding S ScheduleEvent_frame by (simp_all add: s1)
  show "pending i (ScheduleTimer False s) \<longleftrightarrow> i = Event_RTC \<or> pending i s"
    unfolding S by (simp add: pending_ScheduleEvent event_numbers s1)
  show "i \<noteq> Event_RTC \<Longrightarrow> event_time i (ScheduleTimer False s) = event_time i s"
    unfolding S by (simp add: s1)
qed

text \<open>One clock event, as the scheduler runs it: the event is taken off the list first.\<close>

definition rtc_tick :: "nds \<Rightarrow> nds" where
  "rtc_tick s = ClockTimer (Param (SchedList s Event_RTC)) (CancelEvent Event_RTC s)"

definition clock_step :: "nds \<Rightarrow> nds" where
  "clock_step s =
     (let s = upd_rtc (\<lambda>r. r\<lparr>rtc_ClockCount := rtc_ClockCount r + 1\<rparr>) s;
          cc = rtc_ClockCount (RTC s);
          s = (if \<not> tst cc 0x7FFF then CountSecond s
               else if cc AND 0x7FFF = 4 then upd_state (\<lambda>st. st\<lparr>IRQFlag := IRQFlag st AND NOT 0x01\<rparr>) s
               else s)
      in ProcessIRQ 1 s)"

lemma ClockTimer_eq: "ClockTimer p s = ScheduleTimer False (clock_step s)"
  by (simp add: ClockTimer_def clock_step_def Let_def)

text \<open>Everything but the calendar and the clock count.\<close>

definition same_sched :: "nds \<Rightarrow> nds \<Rightarrow> bool" where
  "same_sched s t \<longleftrightarrow>
     rtc_TimerError (RTC t) = rtc_TimerError (RTC s) \<and> rtc_ClockCount (RTC t) = rtc_ClockCount (RTC s) \<and>
     SchedList t = SchedList s \<and> SchedListMask t = SchedListMask s \<and> SysTimestamp t = SysTimestamp s"

lemma same_sched_clock: "same_clock s t \<Longrightarrow> same_sched s t"
  by (simp add: same_clock_def same_sched_def)

lemma same_sched_trans: "same_sched s t \<Longrightarrow> same_sched t u \<Longrightarrow> same_sched s u"
  by (simp add: same_sched_def)

lemma same_sched_upd_state: "same_sched s (upd_state f s)"
  by (simp add: same_sched_def)

lemma same_sched_CountMinute: "same_sched s (CountMinute s)"
  unfolding CountMinute_eq Let_def
  by (rule same_sched_trans [OF same_sched_upd_state
        same_sched_trans [OF same_sched_upd_state same_sched_clock [OF same_clock_ProcessIRQ]]])

lemma same_sched_CountSecond: "same_sched s (CountSecond s)"
  unfolding CountSecond_def Let_def
  by (rule if_both [of "same_sched s", OF
        same_sched_trans [OF same_sched_upd_state same_sched_trans [OF same_sched_upd_state same_sched_CountMinute]]
        same_sched_upd_state])

lemma clock_step_frame:
  "rtc_TimerError (RTC (clock_step s)) = rtc_TimerError (RTC s)"
  "rtc_ClockCount (RTC (clock_step s)) = rtc_ClockCount (RTC s) + 1"
  "SysTimestamp (clock_step s) = SysTimestamp s"
  "pending i (clock_step s) = pending i s" "event_time i (clock_step s) = event_time i s"
proof -
  let ?s = "upd_rtc (\<lambda>r. r\<lparr>rtc_ClockCount := rtc_ClockCount r + 1\<rparr>) s"
  have "same_sched ?s (clock_step s)"
    unfolding clock_step_def Let_def
    by (rule same_sched_trans [OF _ same_sched_clock [OF same_clock_ProcessIRQ]],
        intro if_both [of "same_sched ?s"] same_sched_CountSecond same_sched_upd_state)
      (simp add: same_sched_def)
  then show "rtc_TimerError (RTC (clock_step s)) = rtc_TimerError (RTC s)"
    "rtc_ClockCount (RTC (clock_step s)) = rtc_ClockCount (RTC s) + 1"
    "SysTimestamp (clock_step s) = SysTimestamp s"
    "pending i (clock_step s) = pending i s" "event_time i (clock_step s) = event_time i s"
    by (simp_all add: same_sched_def pending_def event_time_def)
qed

lemma clock_step_cal:
  assumes "has_cal (rst s) c" "cal_ok c"
  shows "has_cal (rst (clock_step s)) (if unat (rtc_ClockCount (RTC s) + 1) mod 2 ^ 15 = 0 then cal_tick c else c)"
proof -
  let ?s = "upd_rtc (\<lambda>r. r\<lparr>rtc_ClockCount := rtc_ClockCount r + 1\<rparr>) s"
  let ?cc = "rtc_ClockCount (RTC s) + 1"
  have "?cc AND 0x7FFF = take_bit 15 ?cc" by (simp add: take_bit_eq_mask mask_eq_exp_minus_1)
  then have t: "\<not> tst ?cc 0x7FFF \<longleftrightarrow> unat ?cc mod 2 ^ 15 = 0"
    by (simp only: word_eq_unat unsigned_take_bit_eq take_bit_nat_def unsigned_0 not_not)
  have s: "has_cal (rst ?s) c" using assms(1) by simp
  have flag: "has_cal (rst (upd_state (\<lambda>st. st\<lparr>IRQFlag := IRQFlag st AND NOT 0x01\<rparr>) ?s)) c"
    using s has_cal_same [OF same_clock_IRQFlag [of ?s "\<lambda>x. x AND NOT 0x01"]] by simp
  have "has_cal (rst (ProcessIRQ 1 t)) d = has_cal (rst t) d" for t d
    by (rule has_cal_same [OF same_clock_ProcessIRQ])
  then show ?thesis
    using CountSecond_cal [OF s assms(2)] s flag
    by (simp add: clock_step_def Let_def t del: not_not)
qed

lemma rtc_tick_step:
  assumes "unat (rtc_TimerError (RTC s)) < 2 ^ 15" "unat (event_time Event_RTC s) < 2 ^ 63"
  shows "unat (event_time Event_RTC (rtc_tick s)) * 2 ^ 15 + unat (rtc_TimerError (RTC (rtc_tick s))) =
      unat (event_time Event_RTC s) * 2 ^ 15 + unat (rtc_TimerError (RTC s)) + 33513982"
    and "unat (rtc_TimerError (RTC (rtc_tick s))) < 2 ^ 15"
    and "rtc_ClockCount (RTC (rtc_tick s)) = rtc_ClockCount (RTC s) + 1"
    and "unat (event_time Event_RTC (rtc_tick s)) \<le> unat (event_time Event_RTC s) + 1023"
    and "unat (event_time Event_RTC s) + 1022 \<le> unat (event_time Event_RTC (rtc_tick s))"
    and "rst (rtc_tick s) = rst (clock_step (CancelEvent Event_RTC s))"
    and "SysTimestamp (rtc_tick s) = SysTimestamp s"
    and "pending i (rtc_tick s) \<longleftrightarrow> i = Event_RTC \<or> pending i s"
    and "i \<noteq> Event_RTC \<Longrightarrow> event_time i (rtc_tick s) = event_time i s"
proof -
  let ?s = "clock_step (CancelEvent Event_RTC s)"
  have R: "rtc_tick s = ScheduleTimer False ?s" by (simp add: rtc_tick_def ClockTimer_eq)
  have np: "\<not> pending Event_RTC ?s" by (simp add: clock_step_frame pending_CancelEvent)
  have e: "rtc_TimerError (RTC ?s) = rtc_TimerError (RTC s)" and t: "event_time i ?s = event_time i s" for i
    by (simp_all add: clock_step_frame)
  note st = ScheduleTimer_step [of ?s, unfolded e t, OF np assms, folded R]
  show "unat (event_time Event_RTC (rtc_tick s)) * 2 ^ 15 + unat (rtc_TimerError (RTC (rtc_tick s))) =
      unat (event_time Event_RTC s) * 2 ^ 15 + unat (rtc_TimerError (RTC s)) + 33513982"
  proof -
    have "(a + n div m) * m + n mod m = a * m + n" for a n m :: nat by (simp add: add_mult_distrib)
    then show ?thesis unfolding st(1,2) by simp
  qed
  show "unat (rtc_TimerError (RTC (rtc_tick s))) < 2 ^ 15" unfolding st(2) by simp
  show "rtc_ClockCount (RTC (rtc_tick s)) = rtc_ClockCount (RTC s) + 1" unfolding st(4) by (simp add: clock_step_frame)
  show "unat (event_time Event_RTC (rtc_tick s)) \<le> unat (event_time Event_RTC s) + 1023"
    "unat (event_time Event_RTC s) + 1022 \<le> unat (event_time Event_RTC (rtc_tick s))"
    unfolding st(1) using assms(1) by simp_all
  show "rst (rtc_tick s) = rst ?s" by (rule st(3))
  show "SysTimestamp (rtc_tick s) = SysTimestamp s" unfolding st(5) by (simp add: clock_step_frame)
  show "pending i (rtc_tick s) \<longleftrightarrow> i = Event_RTC \<or> pending i s"
    unfolding st(6) by (auto simp: clock_step_frame pending_CancelEvent)
  show "i \<noteq> Event_RTC \<Longrightarrow> event_time i (rtc_tick s) = event_time i s" using st(7) [of i] by (simp add: t)
qed

text \<open>The clock after \<open>n\<close> events: time on the console and time on the calendar.\<close>

definition clock_at :: "nds \<Rightarrow> cal \<Rightarrow> nat \<Rightarrow> nds \<Rightarrow> cal \<Rightarrow> bool" where
  "clock_at s c n t d \<longleftrightarrow>
     unat (event_time Event_RTC t) * 2 ^ 15 + unat (rtc_TimerError (RTC t)) =
       unat (event_time Event_RTC s) * 2 ^ 15 + unat (rtc_TimerError (RTC s)) + n * 33513982 \<and>
     unat (rtc_TimerError (RTC t)) < 2 ^ 15 \<and>
     unat (event_time Event_RTC t) \<le> unat (event_time Event_RTC s) + 1023 * n \<and>
     unat (rtc_ClockCount (RTC t)) = unat (rtc_ClockCount (RTC s)) + n \<and>
     has_cal (rst t) d \<and> cal_ok d \<and> dow_ok d \<and>
     cal_seconds d + unat (rtc_ClockCount (RTC s)) div 2 ^ 15 = cal_seconds c + (unat (rtc_ClockCount (RTC s)) + n) div 2 ^ 15"

lemma clock_at_Suc:
  assumes at: "clock_at s c n t d" and ok: "unat (event_time Event_RTC s) + 1023 * n < 2 ^ 63"
    and cc: "unat (rtc_ClockCount (RTC s)) + Suc n < 2 ^ 32" and cent: "cal_seconds d + 1 < century"
  shows "\<exists>d'. clock_at s c (Suc n) (rtc_tick t) d'"
proof -
  have e: "unat (rtc_TimerError (RTC t)) < 2 ^ 15" and et: "unat (event_time Event_RTC t) < 2 ^ 63"
    using at ok by (simp_all add: clock_at_def)
  note st = rtc_tick_step [OF e et]
  have cct: "unat (rtc_ClockCount (RTC t)) = unat (rtc_ClockCount (RTC s)) + n" using at by (simp add: clock_at_def)
  have cct1: "unat (rtc_ClockCount (RTC t) + 1) = unat (rtc_ClockCount (RTC s)) + Suc n"
    using cc cct by (subst unat_add_small) simp_all
  let ?b = "unat (rtc_ClockCount (RTC s)) + Suc n"
  let ?d = "if ?b mod 2 ^ 15 = 0 then cal_tick d else d"
  have d: "has_cal (rst t) d" "cal_ok d" "dow_ok d" using at by (simp_all add: clock_at_def)
  have "has_cal (rst (CancelEvent Event_RTC t)) d" using d by simp
  from clock_step_cal [OF this d(2)] have "has_cal (rst (rtc_tick t)) ?d"
    unfolding st(6) by (simp add: cct1 [simplified])
  moreover have "cal_ok ?d" "dow_ok ?d" using d cal_tick_ok dow_cal_tick [OF d(2,3) cent] by auto
  moreover have "cal_seconds ?d = cal_seconds d + (if ?b mod 2 ^ 15 = 0 then 1 else 0)"
    using cal_seconds_next [OF d(2)] cent by simp
  moreover have "?b div 2 ^ 15 = (unat (rtc_ClockCount (RTC s)) + n) div 2 ^ 15 + (if ?b mod 2 ^ 15 = 0 then 1 else 0)"
    by (simp add: div_Suc)
  ultimately show ?thesis
    using at st(1-4) cct1 by (intro exI [of _ ?d]) (simp add: clock_at_def del: power_Suc)
qed

lemma rtc_ticks:
  assumes "unat (rtc_TimerError (RTC s)) < 2 ^ 15" "unat (event_time Event_RTC s) + 1023 * n < 2 ^ 63"
    and "has_cal (rst s) c" "cal_ok c" "dow_ok c" "unat (rtc_ClockCount (RTC s)) + n < 2 ^ 32"
    and "cal_seconds c + n < century"
  shows "\<exists>d. clock_at s c n ((rtc_tick ^^ n) s) d"
  using assms
proof (induction n)
  case 0
  then show ?case by (auto simp: clock_at_def)
next
  case (Suc n)
  then obtain d where d: "clock_at s c n ((rtc_tick ^^ n) s) d" by auto
  have "(unat (rtc_ClockCount (RTC s)) + n) div 2 ^ 15 \<le> unat (rtc_ClockCount (RTC s)) div 2 ^ 15 + n"
    by (induction n) (simp_all add: div_Suc)
  with d Suc.prems(7) have "cal_seconds d + 1 < century" by (simp add: clock_at_def)
  with clock_at_Suc [OF d] Suc.prems(2,6) show ?case by simp
qed

text \<open>C2: The clock does not drift: 32768 events take exactly one second of the console's clock
  (33513982 cycles) and advance the calendar by exactly one second.\<close>

theorem rtc_second:
  assumes "rtc_TimerError (RTC s) = 0" "unat (event_time Event_RTC s) < 2 ^ 62"
    and "has_cal (rst s) c" "cal_ok c" "dow_ok c" "unat (rtc_ClockCount (RTC s)) < 2 ^ 31"
    and "cal_seconds c + 32768 < century"
  shows "unat (event_time Event_RTC ((rtc_tick ^^ 32768) s)) = unat (event_time Event_RTC s) + 33513982 \<and>
    rtc_TimerError (RTC ((rtc_tick ^^ 32768) s)) = 0 \<and>
    (\<exists>d. has_cal (rst ((rtc_tick ^^ 32768) s)) d \<and> cal_ok d \<and> dow_ok d \<and> cal_seconds d = cal_seconds c + 1)"
proof -
  define n :: nat where "n = 32768"
  define t where "t = (rtc_tick ^^ n) s"
  obtain d where d: "clock_at s c n t d"
    using rtc_ticks [of s n c] assms unfolding t_def by (auto simp: n_def)
  then have sum: "unat (event_time Event_RTC t) * 32768 + unat (rtc_TimerError (RTC t)) =
      unat (event_time Event_RTC s) * 32768 + 32768 * 33513982"
    and e: "unat (rtc_TimerError (RTC t)) < 32768"
    using assms(1) by (simp_all add: clock_at_def n_def)
  have ev: "unat (event_time Event_RTC t) = unat (event_time Event_RTC s) + 33513982"
  proof -
    have "unat (event_time Event_RTC t) = (unat (event_time Event_RTC t) * 32768 + unat (rtc_TimerError (RTC t))) div 32768"
      using e by simp
    also have "\<dots> = (unat (event_time Event_RTC s) + 33513982) * 32768 div 32768"
      unfolding sum by (simp add: algebra_simps)
    finally show ?thesis by simp
  qed
  moreover from this have "rtc_TimerError (RTC t) = 0" using sum by (simp add: word_eq_unat)
  moreover have "has_cal (rst t) d \<and> cal_ok d \<and> dow_ok d \<and> cal_seconds d = cal_seconds c + 1"
    using d div_add_self2 [of 32768 "unat (rtc_ClockCount (RTC s))"] by (simp add: clock_at_def n_def)
  ultimately show ?thesis unfolding n_def [symmetric] t_def by blast
qed

theorem rtc_second_witness: "unat (event_time Event_RTC ((rtc_tick ^^ 32768) (blank_nds\<lparr>RTC := blank_rtc\<lparr>rtc_State := rtc0\<rparr>\<rparr>))) = 33513982"
proof -
  let ?s = "blank_nds\<lparr>RTC := blank_rtc\<lparr>rtc_State := rtc0\<rparr>\<rparr>"
  have "rtc_TimerError (RTC ?s) = 0" "event_time Event_RTC ?s = 0" "unat (rtc_ClockCount (RTC ?s)) < 2 ^ 31"
    by (simp_all add: blank_nds_def blank_rtc_def event_time_def)
  moreover have "has_cal (rst ?s) cal0" using rtc0_cal by simp
  ultimately show ?thesis
    using rtc_second [of ?s cal0] rtc0_cal by (simp add: century_def)
qed

section \<open>The interrupt line\<close>

text \<open>The console sees an interrupt exactly on the rising edge of the two interrupt flags, and only
  with the line enabled in \<^verbatim>\<open>RCNT\<close>.\<close>

theorem RTC_SetIRQ_edge:
  assumes "irq = 0x10 \<or> irq = 0x20"
  shows "IFl (RTC_SetIRQ irq s) =
      (if IRQFlag (rst s) AND 0x30 = 0 \<and> RCnt s AND 0xC100 = 0x8100
       then (IFl s)(1 := IFl s 1 OR shl 1 7) else IFl s) \<and>
    IRQFlag (rst (RTC_SetIRQ irq s)) = IRQFlag (rst s) OR irq \<and>
    DateTime (rst (RTC_SetIRQ irq s)) = DateTime (rst s)"
proof -
  have "tst (x OR irq) 0x30" for x :: u8
    using assms by (auto simp: bit.conj_disj_distrib2 or_eq_0_iff)
  then show ?thesis
    by (simp add: RTC_SetIRQ_def Let_def SetIRQ_IFl irq_numbers)
qed

theorem RTC_SetIRQ_edge_witness: "IFl (RTC_SetIRQ 0x10 (blank_nds\<lparr>RCnt := 0x8100\<rparr>)) 1 = 0x80"
  using RTC_SetIRQ_edge [of "0x10" "blank_nds\<lparr>RCnt := 0x8100\<rparr>"] by (simp add: blank_nds_def blank_rtc_def)

section \<open>The serial protocol\<close>

text \<open>The bounds that keep the code inside \<^verbatim>\<open>Output[8]\<close> and its shifts below eight.\<close>

definition serial_ok :: "rtc \<Rightarrow> bool" where
  "serial_ok r \<longleftrightarrow> rtc_InputBit r < 8 \<and> rtc_OutputBit r < 8 \<and> rtc_OutputPos r < 8"

text \<open>What the commands leave alone.\<close>

definition same_serial :: "nds \<Rightarrow> nds \<Rightarrow> bool" where
  "same_serial s t \<longleftrightarrow>
     rtc_InputBit (RTC t) = rtc_InputBit (RTC s) \<and> rtc_InputPos (RTC t) = rtc_InputPos (RTC s) \<and>
     rtc_OutputBit (RTC t) = rtc_OutputBit (RTC s) \<and> rtc_OutputPos (RTC t) = rtc_OutputPos (RTC s) \<and>
     rtc_IO (RTC t) = rtc_IO (RTC s)"

lemma same_serial_refl [simp]: "same_serial s s"
  by (simp add: same_serial_def)

lemma same_serial_trans: "same_serial s t \<Longrightarrow> same_serial t u \<Longrightarrow> same_serial s u"
  by (simp add: same_serial_def)

lemma same_serial_upd_state: "same_serial s t \<Longrightarrow> same_serial s (upd_state f t)"
  by (simp add: same_serial_def upd_state_def)

lemma same_serial_out: "same_serial s t \<Longrightarrow> same_serial s (out_set i v t)" "same_serial s t \<Longrightarrow> same_serial s (out_copy a i n t)"
  by (simp_all add: same_serial_def out_set_def out_copy_def)

lemma same_serial_SaveDateTime: "same_serial s t \<Longrightarrow> same_serial s (SaveDateTime t)"
  by (simp add: same_serial_def SaveDateTime_def case_prod_beta)

lemma same_serial_SetIRQ: "same_serial s (RTC_SetIRQ irq s)"
  by (simp add: RTC_SetIRQ_def Let_def same_serial_def upd_state_def)

lemma same_serial_Clear: "same_serial s t \<Longrightarrow> same_serial s (RTC_ClearIRQ irq t)"
  unfolding RTC_ClearIRQ_def by (rule same_serial_upd_state)

lemma same_serial_ProcessIRQ: "same_serial s (ProcessIRQ type s)"
proof -
  have "same_serial s (ProcessINT1 type s)" for s
    unfolding ProcessINT1_def Let_def
    by (intro if_both [of "same_serial s"] same_serial_refl same_serial_Clear same_serial_SetIRQ)
  moreover have "same_serial s (ProcessINT2 type s)" for s
    unfolding ProcessINT2_def
    by (intro if_both [of "same_serial s"] same_serial_refl same_serial_Clear same_serial_SetIRQ)
  ultimately show ?thesis unfolding ProcessIRQ_def by (rule same_serial_trans)
qed

lemma same_serial_CmdRead: "same_serial s (CmdRead s)"
  unfolding CmdRead_def Let_def
  by (intro if_both [of "same_serial s"] same_serial_refl same_serial_out same_serial_upd_state)

lemma same_serial_CmdWrite: "same_serial s (CmdWrite v s)"
  unfolding CmdWrite_def Let_def
  by (intro if_both [of "same_serial s"] same_serial_refl same_serial_upd_state same_serial_SaveDateTime
      same_serial_trans [OF same_serial_upd_state same_serial_ProcessIRQ])

lemma same_serial_ByteIn: "same_serial s (ByteIn v s)"
proof -
  have "same_serial s (upd_rtc (\<lambda>r. r\<lparr>rtc_CurCmd := c\<rparr>) s)" for c by (simp add: same_serial_def)
  then show ?thesis
    unfolding ByteIn_def Let_def
    by (intro if_both [of "same_serial s"] same_serial_CmdWrite same_serial_trans [OF _ same_serial_CmdRead]) assumption+
qed

lemma RTC_Write_cases:
  "RTC_Write val False s =
     (let s' = (if tst val 0x0004 then
                 if \<not> tst (rtc_IO (RTC s)) 0x0004 then upd_rtc serial_start s
                 else if \<not> tst val 0x0002 then
                   if tst val 0x0010 then serial_in val s else upd_rtc serial_out s
                 else s
               else s)
      in upd_rtc (\<lambda>r. r\<lparr>rtc_IO := if tst val 0x0010 then val else (rtc_IO r AND 0x0001) OR (val AND 0xFFFE)\<rparr>) s')"
  by (simp add: RTC_Write_def Let_def)

lemma u32_bit_inc: "x < 8 \<Longrightarrow> \<not> x + 1 \<ge> 8 \<Longrightarrow> x + 1 < (8 :: u32)"
  by simp

lemma serial_ok_out: "serial_ok r \<Longrightarrow> serial_ok (serial_out r)"
proof -
  assume ok: "serial_ok r"
  have "rtc_OutputPos r + 1 < 8" if "rtc_OutputPos r < 7"
    using that by (simp add: unat_lt_iff unat_Suc_small [of "rtc_OutputPos r" 7])
  with ok show ?thesis by (auto simp: serial_ok_def serial_out_def Let_def not_le)
qed

lemma serial_ok_in: "serial_ok (RTC s) \<Longrightarrow> serial_ok (RTC (serial_in v s))"
proof -
  assume ok: "serial_ok (RTC s)"
  have "serial_ok (RTC (upd_rtc (\<lambda>r. r\<lparr>rtc_InputPos := rtc_InputPos r + 1\<rparr>) (upd_rtc (\<lambda>r. r\<lparr>rtc_Input := 0\<rparr>) (ByteIn b t))))"
    if "serial_ok (RTC t)" for t b
    using that same_serial_ByteIn [of t b] by (simp add: serial_ok_def same_serial_def)
  with ok show ?thesis by (auto simp: serial_in_def Let_def serial_ok_def not_le)
qed

text \<open>No access of the serial port moves its bit and byte positions out of the arrays they index.\<close>

theorem RTC_Write_serial_ok:
  assumes "serial_ok (RTC s)"
  shows "serial_ok (RTC (RTC_Write val byte s))"
proof -
  have "serial_ok (r\<lparr>rtc_IO := x\<rparr>) = serial_ok r" for r x by (simp add: serial_ok_def)
  moreover have "serial_ok (serial_start r)" for r by (simp add: serial_ok_def serial_start_def)
  ultimately show ?thesis
    using assms serial_ok_in [OF assms] serial_ok_out [OF assms]
    by (simp add: RTC_Write_def Let_def)
qed

theorem RTC_Write_serial_ok_witness: "serial_ok (RTC (RTC_Write 7 False blank_nds))"
  using RTC_Write_serial_ok [of blank_nds 7 False] by (simp add: serial_ok_def blank_nds_def blank_rtc_def)

text \<open>The value the ARM7 writes to clock bit \<open>i\<close> of a byte in: select, clock low, direction in.\<close>

definition bit_in :: "u8 \<Rightarrow> nat \<Rightarrow> u16" where
  "bit_in v i = (if bit v i then 0x0015 else 0x0014)"

lemma bit_in_tst: "tst (bit_in v i) 0x0004" "\<not> tst (bit_in v i) 0x0002" "tst (bit_in v i) 0x0010"
  "tst (bit_in v i) 0x0001 = bit v i"
  by (simp_all add: bit_in_def)

lemma take_bit_snoc: "take_bit (Suc k) v = take_bit k v OR (if bit v k then shl 1 k else 0)" for v :: "'a::len word"
  by (rule bit_word_eqI) (auto simp: bit_take_bit_iff bit_or_iff bit_pow2 less_Suc_eq)

lemma serial_in_bit:
  assumes "k < 7"
  shows "serial_in (bit_in v k) (upd_rtc (\<lambda>r. r\<lparr>rtc_Input := take_bit k v, rtc_InputBit := word_of_nat k, rtc_IO := x\<rparr>) s) =
    upd_rtc (\<lambda>r. r\<lparr>rtc_Input := take_bit (Suc k) v, rtc_InputBit := word_of_nat (Suc k), rtc_IO := x\<rparr>) s"
proof -
  have u: "unat (word_of_nat k :: u32) = k" using assms by (simp add: unsigned_of_nat take_bit_nat_eq_self)
  have "unat (word_of_nat k + 1 :: u32) = Suc k"
    using unat_Suc_small [of "word_of_nat k :: u32" 8] u assms by simp
  then have ge: "\<not> (8 :: u32) \<le> word_of_nat k + 1" using assms unfolding unat_le_iff by simp
  show ?thesis
    using ge by (simp add: serial_in_def Let_def bit_in_tst take_bit_snoc u upd_rtc_def add.commute)
qed

lemma serial_bits_in:
  assumes "tst (rtc_IO (RTC s)) 0x0004" "rtc_Input (RTC s) = 0" "rtc_InputBit (RTC s) = 0" "k < 7"
  shows "fold (\<lambda>i. RTC_Write (bit_in v i) False) [0..<Suc k] s =
    upd_rtc (\<lambda>r. r\<lparr>rtc_Input := take_bit (Suc k) v, rtc_InputBit := word_of_nat (Suc k), rtc_IO := bit_in v k\<rparr>) s"
  using assms(4)
proof (induction k)
  case 0
  have "s = upd_rtc (\<lambda>r. r\<lparr>rtc_Input := take_bit 0 v, rtc_InputBit := word_of_nat 0, rtc_IO := rtc_IO (RTC s)\<rparr>) s"
    using assms(2,3) by (simp add: upd_rtc_def)
  with serial_in_bit [of 0 v "rtc_IO (RTC s)" s]
  have "serial_in (bit_in v 0) s = upd_rtc (\<lambda>r. r\<lparr>rtc_Input := take_bit 1 v, rtc_InputBit := 1, rtc_IO := rtc_IO (RTC s)\<rparr>) s"
    by simp
  then show ?case
    using assms(1) by (simp add: RTC_Write_cases bit_in_tst Let_def upd_rtc_def)
next
  case (Suc k)
  let ?s = "upd_rtc (\<lambda>r. r\<lparr>rtc_Input := take_bit (Suc k) v, rtc_InputBit := word_of_nat (Suc k), rtc_IO := bit_in v k\<rparr>) s"
  have "fold (\<lambda>i. RTC_Write (bit_in v i) False) [0..<Suc (Suc k)] s = RTC_Write (bit_in v (Suc k)) False ?s"
    using Suc by simp
  also have "\<dots> = upd_rtc (\<lambda>r. r\<lparr>rtc_IO := bit_in v (Suc k)\<rparr>) (serial_in (bit_in v (Suc k)) ?s)"
    using bit_in_tst by (simp add: RTC_Write_cases Let_def)
  also have "\<dots> = upd_rtc (\<lambda>r. r\<lparr>rtc_Input := take_bit (Suc (Suc k)) v, rtc_InputBit := word_of_nat (Suc (Suc k)), rtc_IO := bit_in v (Suc k)\<rparr>) s"
    using Suc.prems by (subst serial_in_bit) (simp_all add: upd_rtc_def)
  finally show ?case .
qed

text \<open>Eight clocked bits, least significant first, hand the byte they spell to the command decoder, once, and leave the port ready for the next byte.\<close>

theorem serial_byte_in:
  assumes "tst (rtc_IO (RTC s)) 0x0004" "rtc_Input (RTC s) = 0" "rtc_InputBit (RTC s) = 0"
  shows "fold (\<lambda>i. RTC_Write (bit_in v i) False) [0..<8] s =
    upd_rtc (\<lambda>r. r\<lparr>rtc_Input := 0, rtc_InputPos := rtc_InputPos r + 1, rtc_IO := bit_in v 7\<rparr>)
      (ByteIn v (upd_rtc (\<lambda>r. r\<lparr>rtc_Input := v, rtc_IO := bit_in v 6\<rparr>) s))"
proof -
  let ?s = "upd_rtc (\<lambda>r. r\<lparr>rtc_Input := take_bit (Suc 6) v, rtc_InputBit := word_of_nat (Suc 6), rtc_IO := bit_in v 6\<rparr>) s"
  have ord: "r\<lparr>rtc_IO := x, rtc_Input := y, rtc_InputBit := z\<rparr> = r\<lparr>rtc_Input := y, rtc_InputBit := z, rtc_IO := x\<rparr>"
    "r\<lparr>rtc_Input := y, rtc_IO := x, rtc_InputBit := z\<rparr> = r\<lparr>rtc_Input := y, rtc_InputBit := z, rtc_IO := x\<rparr>"
    for r :: rtc and x y z
    by simp_all
  have "[0..<8] = [0..<Suc 6] @ [7]" by (simp add: upt_rec)
  then have "fold (\<lambda>i. RTC_Write (bit_in v i) False) [0..<8] s = RTC_Write (bit_in v 7) False ?s"
    using serial_bits_in [OF assms, of 6 v] by simp
  moreover have "take_bit 7 v OR (if bit v 7 then 0x80 else 0) = v"
  proof -
    have "take_bit (Suc 7) v = v" using take_bit_length_eq [of v] by simp
    moreover have "shl 1 7 = (0x80 :: u8)" by simp
    ultimately show ?thesis using take_bit_snoc [of 7 v] by (simp only:)
  qed
  then have "serial_in (bit_in v 7) ?s =
      upd_rtc (\<lambda>r. r\<lparr>rtc_InputPos := rtc_InputPos r + 1\<rparr>) (upd_rtc (\<lambda>r. r\<lparr>rtc_Input := 0\<rparr>)
        (ByteIn v (upd_rtc (\<lambda>r. r\<lparr>rtc_Input := v, rtc_InputBit := 0, rtc_IO := bit_in v 6\<rparr>) s)))"
    by (simp add: serial_in_def Let_def bit_in_tst upd_rtc_def ord split: if_splits)
  moreover have "upd_rtc (\<lambda>r. r\<lparr>rtc_Input := v, rtc_InputBit := 0, rtc_IO := bit_in v 6\<rparr>) s =
      upd_rtc (\<lambda>r. r\<lparr>rtc_Input := v, rtc_IO := bit_in v 6\<rparr>) s"
    using assms(3) by (simp add: upd_rtc_def)
  ultimately show ?thesis
    using bit_in_tst by (simp add: RTC_Write_cases Let_def) (simp add: upd_rtc_def)
qed

theorem serial_byte_in_witness: "rtc_Input (RTC (fold (\<lambda>i. RTC_Write (bit_in 0x26 i) False) [0..<8] (blank_nds\<lparr>RTC := blank_rtc\<lparr>rtc_IO := 4\<rparr>\<rparr>))) = 0"
  using serial_byte_in [of "blank_nds\<lparr>RTC := blank_rtc\<lparr>rtc_IO := 4\<rparr>\<rparr>" "0x26"]
  by (simp add: blank_nds_def blank_rtc_def upd_rtc_def)

text \<open>In the other direction the bits of the output byte appear on the data line, least significant
  first, and the eighth moves on to the next byte.\<close>

definition out_byte :: "nds \<Rightarrow> u8" where
  "out_byte s = rtc_Output (RTC s) (unat (rtc_OutputPos (RTC s)))"

lemma serial_out_bit:
  assumes "tst (rtc_IO (RTC s)) 0x0004" "serial_ok (RTC s)"
  defines "t \<equiv> RTC_Write 0x0004 False s"
  shows "tst (rtc_IO (RTC t)) 0x0004" "serial_ok (RTC t)" "rtc_Output (RTC t) = rtc_Output (RTC s)"
    "bit (rtc_IO (RTC t)) 0 = bit (out_byte s) (unat (rtc_OutputBit (RTC s)))"
    "unat (rtc_OutputBit (RTC s)) < 7 \<Longrightarrow> unat (rtc_OutputBit (RTC t)) = Suc (unat (rtc_OutputBit (RTC s))) \<and>
      rtc_OutputPos (RTC t) = rtc_OutputPos (RTC s)"
    "unat (rtc_OutputBit (RTC s)) = 7 \<Longrightarrow> rtc_OutputBit (RTC t) = 0 \<and>
      unat (rtc_OutputPos (RTC t)) = min 7 (Suc (unat (rtc_OutputPos (RTC s))))"
proof -
  let ?r = "RTC s" and ?io = "rtc_IO (serial_out (RTC s))"
  have T: "RTC t = (serial_out ?r)\<lparr>rtc_IO := ?io AND 0x0001 OR 0x0004\<rparr>"
    unfolding t_def RTC_Write_cases Let_def using assms(1) by simp
  have tb: "tst (out_byte s) (shl 1 n) = bit (out_byte s) n" for n by (rule tst_shl1)
  have io: "?io = (if bit (out_byte s) (unat (rtc_OutputBit ?r)) then rtc_IO ?r OR 0x0001 else rtc_IO ?r AND 0xFFFE)"
    using tb by (simp add: serial_out_def Let_def out_byte_def bits)
  show "tst (rtc_IO (RTC t)) 0x0004" by (simp add: T bit.conj_disj_distrib2 bits or_eq_0_iff)
  show "serial_ok (RTC t)" using serial_ok_out [OF assms(2)] by (simp add: T serial_ok_def)
  show "rtc_Output (RTC t) = rtc_Output (RTC s)" by (simp add: T serial_out_def Let_def)
  show "bit (rtc_IO (RTC t)) 0 = bit (out_byte s) (unat (rtc_OutputBit (RTC s)))"
    unfolding T using io by (simp add: bit_or_iff bit_and_iff)
  have ok: "rtc_OutputBit ?r < 8" "rtc_OutputPos ?r < 8" using assms(2) by (simp_all add: serial_ok_def)
  have s1: "unat (rtc_OutputBit ?r + 1) = Suc (unat (rtc_OutputBit ?r))"
    using ok unat_Suc_small [of "rtc_OutputBit ?r" 8] by (simp add: unat_lt_iff)
  have s2: "unat (rtc_OutputPos ?r + 1) = Suc (unat (rtc_OutputPos ?r))"
    using ok unat_Suc_small [of "rtc_OutputPos ?r" 8] by (simp add: unat_lt_iff)
  have ge: "(rtc_OutputBit ?r + 1 \<ge> 8) = (unat (rtc_OutputBit ?r) = 7)"
    using s1 ok by (simp add: unat_le_iff unat_lt_iff)  arith
  show "unat (rtc_OutputBit (RTC s)) < 7 \<Longrightarrow> unat (rtc_OutputBit (RTC t)) = Suc (unat (rtc_OutputBit (RTC s))) \<and>
      rtc_OutputPos (RTC t) = rtc_OutputPos (RTC s)"
    using ge s1 by (simp add: T serial_out_def Let_def)
  show "unat (rtc_OutputBit (RTC s)) = 7 \<Longrightarrow> rtc_OutputBit (RTC t) = 0 \<and>
      unat (rtc_OutputPos (RTC t)) = min 7 (Suc (unat (rtc_OutputPos (RTC s))))"
    using ge s2 ok by (auto simp: T serial_out_def Let_def unat_lt_iff)
qed

text \<open>Eight read clocks deliver the bits of the current output byte, least significant first, and move on to the next byte.\<close>

theorem serial_byte_out:
  assumes "tst (rtc_IO (RTC s)) 0x0004" "serial_ok (RTC s)" "rtc_OutputBit (RTC s) = 0"
  shows "(\<forall>k < 8. bit (rtc_IO (RTC ((RTC_Write 0x0004 False ^^ Suc k) s))) 0 = bit (out_byte s) k) \<and>
    rtc_OutputBit (RTC ((RTC_Write 0x0004 False ^^ 8) s)) = 0 \<and>
    unat (rtc_OutputPos (RTC ((RTC_Write 0x0004 False ^^ 8) s))) = min 7 (Suc (unat (rtc_OutputPos (RTC s))))"
proof -
  let ?w = "RTC_Write 0x0004 False"
  have main: "k < 8 \<Longrightarrow> tst (rtc_IO (RTC ((?w ^^ k) s))) 0x0004 \<and> serial_ok (RTC ((?w ^^ k) s)) \<and>
      out_byte ((?w ^^ k) s) = out_byte s \<and> unat (rtc_OutputBit (RTC ((?w ^^ k) s))) = k \<and>
      rtc_OutputPos (RTC ((?w ^^ k) s)) = rtc_OutputPos (RTC s)" for k
  proof (induction k)
    case 0
    then show ?case using assms by simp
  next
    case (Suc k)
    then have IH: "tst (rtc_IO (RTC ((?w ^^ k) s))) 0x0004" "serial_ok (RTC ((?w ^^ k) s))"
      "out_byte ((?w ^^ k) s) = out_byte s" "unat (rtc_OutputBit (RTC ((?w ^^ k) s))) = k"
      "rtc_OutputPos (RTC ((?w ^^ k) s)) = rtc_OutputPos (RTC s)" by auto
    from serial_out_bit [OF IH(1,2)] IH(3-5) Suc.prems show ?case
      by (simp add: out_byte_def)
  qed
  have bits: "bit (rtc_IO (RTC ((?w ^^ Suc k) s))) 0 = bit (out_byte s) k" if "k < 8" for k
    using main [OF that] serial_out_bit(4) [of "(?w ^^ k) s"] by simp
  have seven: "unat (rtc_OutputBit (RTC ((?w ^^ 7) s))) = 7" using main [of 7] by simp
  have "(?w ^^ 8) s = ?w ((?w ^^ 7) s)" by (simp add: numeral_eq_Suc)
  with bits main [of 7] serial_out_bit(6) [OF _ _ seven] show ?thesis by simp
qed

theorem serial_byte_out_witness: "unat (rtc_OutputPos (RTC ((RTC_Write 0x0004 False ^^ 8) (blank_nds\<lparr>RTC := blank_rtc\<lparr>rtc_IO := 4\<rparr>\<rparr>)))) = 1"
  using serial_byte_out [of "blank_nds\<lparr>RTC := blank_rtc\<lparr>rtc_IO := 4\<rparr>\<rparr>"]
  by (simp add: blank_nds_def blank_rtc_def serial_ok_def)

end
