(* ===== verification/Crc32.thy ===== *)
theory Crc32
  imports Prelude
begin

text \<open>
  \<^verbatim>\<open>src/src/CRC32.cpp\<close>: the table-driven CRC-32 with which the emulator identifies ROMs,
  firmware and BIOS images. The table is computed by the code itself (bit reflection and
  the polynomial \<^verbatim>\<open>0x04C11DB7\<close>); it is shown to be the table of the reflected polynomial
  \<open>0xEDB88320\<close>, and the byte loop to be the bit-serial division by it.
\<close>

section \<open>The code\<close>

text \<open>\<^verbatim>\<open>_reflect\<close>: the loop \<^verbatim>\<open>for (i = 1; i < ch + 1; i++)\<close>.\<close>

function reflect_loop :: "nat \<Rightarrow> nat \<Rightarrow> u32 \<Rightarrow> u32 \<Rightarrow> u32" where
  "reflect_loop ch i rf value =
     (if i < ch + 1
      then reflect_loop ch (i + 1) (shr rf 1) (if tst rf 1 then value OR shl 1 (ch - i) else value)
      else value)"
  by pat_completeness auto
termination
  by (relation "measure (\<lambda>(ch, i, rf, value). ch + 1 - i)") auto

declare reflect_loop.simps [simp del]

definition reflect :: "u32 \<Rightarrow> nat \<Rightarrow> u32" where
  "reflect rf ch = reflect_loop ch 1 rf 0"

definition crc_polynomial :: u32 where
  "crc_polynomial = 0x04C11DB7"

fun table_loop :: "nat \<Rightarrow> u32 \<Rightarrow> u32" where
  "table_loop 0 e = e"
| "table_loop (Suc j) e =
     table_loop j (shl e 1 XOR (if tst e (shl 1 31) then crc_polynomial else 0))"

definition Crc32Table :: "u32 \<Rightarrow> u32" where
  "Crc32Table i = reflect (table_loop 8 (shl (reflect i 8) 24)) 32"

text \<open>\<^verbatim>\<open>CRC32(data, len, start)\<close>; a null \<open>data\<close> checksums \<open>len\<close> zero bytes.\<close>

fun crc_bytes :: "u32 \<Rightarrow> u8 list \<Rightarrow> u32" where
  "crc_bytes crc [] = crc"
| "crc_bytes crc (b # bs) =
     crc_bytes (shr crc 8 XOR Crc32Table ((crc AND 0xFF) XOR ucast b)) bs"

fun crc_zeros :: "u32 \<Rightarrow> nat \<Rightarrow> u32" where
  "crc_zeros crc 0 = crc"
| "crc_zeros crc (Suc len) = crc_zeros (shr crc 8 XOR Crc32Table (crc AND 0xFF)) len"

definition CRC32 :: "u8 list option \<Rightarrow> nat \<Rightarrow> u32 \<Rightarrow> u32" where
  "CRC32 data len start =
     (let crc = start XOR 0xFFFFFFFF in
      (case data of
         Some bs \<Rightarrow> crc_bytes crc (take len bs)
       | None \<Rightarrow> crc_zeros crc len) XOR 0xFFFFFFFF)"

section \<open>The bit-serial specification\<close>

definition crc_bit :: "u32 \<Rightarrow> u32" where
  "crc_bit c = shr c 1 XOR (if bit c 0 then 0xEDB88320 else 0)"

definition crc_byte_spec :: "u32 \<Rightarrow> u8 \<Rightarrow> u32" where
  "crc_byte_spec c b = (crc_bit ^^ 8) (c XOR ucast b)"

definition CRC32_spec :: "u8 list \<Rightarrow> u32" where
  "CRC32_spec bs = NOT (foldl crc_byte_spec (NOT 0) bs)"

section \<open>The table\<close>

text \<open>\<open>reflect\<close> reverses the low \<open>ch\<close> bits.\<close>

lemma bit_reflect_loop:
  "1 \<le> i \<Longrightarrow> i \<le> ch + 1 \<Longrightarrow> ch \<le> 32 \<Longrightarrow>
   bit (reflect_loop ch i rf v) n \<longleftrightarrow> bit v n \<or> (n + i \<le> ch \<and> bit rf (ch - i - n))"
proof (induction ch i rf v rule: reflect_loop.induct)
  case (1 ch i rf v)
  show ?case
  proof (cases "i < ch + 1")
    case True
    let ?v = "if tst rf 1 then v OR shl 1 (ch - i) else v"
    have v: "bit ?v n \<longleftrightarrow> bit v n \<or> (bit rf 0 \<and> n = ch - i \<and> n < 32)"
      by (auto simp: bit_simps and_one_eq odd_iff_mod_2_eq_one bit_0 split: if_splits)
    have "reflect_loop ch i rf v = reflect_loop ch (i + 1) (shr rf 1) ?v"
      using True by (subst reflect_loop.simps) simp
    then have "bit (reflect_loop ch i rf v) n \<longleftrightarrow>
        bit ?v n \<or> (n + (i + 1) \<le> ch \<and> bit (shr rf 1) (ch - (i + 1) - n))"
      using "1.IH" [OF True] True "1.prems" by simp
    moreover have "n + (i + 1) \<le> ch \<Longrightarrow> Suc (ch - (i + 1) - n) = ch - i - n"
      by arith
    ultimately show ?thesis
      using v True "1.prems"
      by (cases "n = ch - i") (auto simp: bit_simps)
  next
    case False
    with "1.prems" show ?thesis by (subst reflect_loop.simps) auto
  qed
qed

lemma bit_reflect: "ch \<le> 32 \<Longrightarrow> bit (reflect rf ch) n \<longleftrightarrow> n < ch \<and> bit rf (ch - 1 - n)"
  by (auto simp: reflect_def bit_reflect_loop)

lemma reflect_polynomial: "reflect crc_polynomial 32 = 0xEDB88320"
  by code_simp

lemma reflect_xor: "reflect (x XOR y) 32 = reflect x 32 XOR reflect y 32"
  by (rule bit_word_eqI) (auto simp: bit_reflect bit_simps)

lemma reflect_table_step:
  "reflect (shl e 1 XOR (if tst e (shl 1 31) then crc_polynomial else 0)) 32 = crc_bit (reflect e 32)"
proof -
  have top: "tst e (shl 1 31) \<longleftrightarrow> bit e 31"
    by (simp add: bit_iff_and_push_bit_not_eq_0)
  have "reflect (shl e 1) 32 = shr (reflect e 32) 1"
    by (rule bit_word_eqI)
       (auto simp: bit_reflect bit_push_bit_iff bit_drop_bit_eq simp del: push_bit_Suc One_nat_def)
  moreover have "reflect (0 :: u32) 32 = 0"
    by (rule bit_word_eqI) (auto simp: bit_reflect)
  ultimately show ?thesis
    unfolding top crc_bit_def by (cases "bit e 31") (simp_all add: reflect_xor bit_reflect reflect_polynomial)
qed

lemma reflect_table_loop: "reflect (table_loop n e) 32 = (crc_bit ^^ n) (reflect e 32)"
proof (induction n arbitrary: e)
  case (Suc n)
  show ?case
    by (simp only: table_loop.simps Suc.IH reflect_table_step funpow_Suc_right o_apply)
qed simp

lemma Crc32Table_eq: "Crc32Table (ucast (b :: u8)) = (crc_bit ^^ 8) (ucast b)"
proof -
  have "reflect (shl (reflect (ucast b) 8) 24) 32 = ucast b"
  proof (rule bit_word_eqI)
    fix n
    have "bit b n \<Longrightarrow> 7 - (7 - n) = n" by (auto dest: bit_imp_le_length)
    then show "bit (reflect (shl (reflect (ucast b) 8) 24) 32) n \<longleftrightarrow> bit (ucast b :: u32) n"
      by (auto simp: bit_reflect bit_push_bit_iff bit_unsigned_iff dest: bit_imp_le_length)
  qed
  then show ?thesis by (simp add: Crc32Table_def reflect_table_loop)
qed

section \<open>Division is linear\<close>

lemma crc_bit_xor: "crc_bit (x XOR y) = crc_bit x XOR crc_bit y"
  by (rule bit_word_eqI) (auto simp: crc_bit_def bit_simps)

lemma crc_bits_xor: "(crc_bit ^^ n) (x XOR y) = (crc_bit ^^ n) x XOR (crc_bit ^^ n) y"
  by (induction n) (simp_all add: crc_bit_xor)

lemma crc_bits_shift:
  "\<forall>i < n. \<not> bit x i \<Longrightarrow> (crc_bit ^^ n) x = shr x n"
proof (induction n)
  case (Suc n)
  then have "(crc_bit ^^ Suc n) x = crc_bit (shr x n)" and "\<not> bit x n" by simp_all
  moreover from this(2) have "crc_bit (shr x n) = shr x (Suc n)"
    by (simp add: crc_bit_def bit_drop_bit_eq)
  ultimately show ?case by simp
qed simp

lemma bit_0xFF: "bit (0xFF :: u32) i \<longleftrightarrow> i < 8"
  using bit_mask_iff [of 8 i, where 'a = u32] by (auto simp: mask_numeral)

lemma crc_bits_low:
  "(crc_bit ^^ 8) x = shr x 8 XOR (crc_bit ^^ 8) (x AND 0xFF)"
proof -
  have split: "x = (x AND NOT 0xFF) XOR (x AND 0xFF)"
    by (rule bit_word_eqI) (auto simp: bit_simps)
  have "(crc_bit ^^ 8) (x AND NOT 0xFF) = shr (x AND NOT 0xFF) 8"
    by (rule crc_bits_shift) (simp only: bit_and_iff bit_not_iff bit_0xFF, blast)
  also have "\<dots> = shr x 8"
    by (rule bit_word_eqI)
       (simp only: bit_drop_bit_eq bit_and_iff bit_not_iff bit_0xFF possible_bit_def o_apply, auto dest: bit_imp_le_length)
  finally have "(crc_bit ^^ 8) (x AND NOT 0xFF) = shr x 8" .
  with crc_bits_xor [of 8 "x AND NOT 0xFF" "x AND 0xFF"] split show ?thesis by metis
qed

lemma crc_step_eq: "shr c 8 XOR Crc32Table ((c AND 0xFF) XOR ucast b) = crc_byte_spec c b"
proof -
  have low: "(c AND 0xFF) XOR ucast b = ucast (ucast c XOR b)"
    by (rule bit_word_eqI)
       (auto simp: bit_and_iff bit_xor_iff bit_0xFF bit_unsigned_iff
          simp del: bit_numeral_word_iff dest: bit_imp_le_length)
  have "(c XOR ucast b) AND 0xFF = ucast (ucast c XOR b)"
    by (rule bit_word_eqI)
       (auto simp: bit_and_iff bit_xor_iff bit_0xFF bit_unsigned_iff
          simp del: bit_numeral_word_iff dest: bit_imp_le_length)
  moreover have "shr (c XOR ucast b) 8 = shr c 8"
    by (rule bit_word_eqI)
       (auto simp: bit_xor_iff bit_drop_bit_eq bit_unsigned_iff dest: bit_imp_le_length)
  ultimately show ?thesis
    using crc_bits_low [of "c XOR ucast b"]
    by (simp only: crc_byte_spec_def low Crc32Table_eq)
qed

lemma crc_bytes_eq: "crc_bytes c bs = foldl crc_byte_spec c bs"
  by (induction bs arbitrary: c) (simp_all add: crc_step_eq)

lemma crc_zeros_eq: "crc_zeros c n = crc_bytes c (replicate n 0)"
  by (induction n arbitrary: c) simp_all

text \<open>C11: The table-driven checksum is the bit-serial CRC-32 of the reflected polynomial; checksumming a
  concatenation is checksumming the parts in turn through \<^verbatim>\<open>start\<close>; a null pointer stands for zero bytes.\<close>

theorem CRC32_bit_serial:
  "CRC32 (Some bs) len 0 = CRC32_spec (take len bs) \<and>
   CRC32 (Some (xs @ ys)) (length (xs @ ys)) start = CRC32 (Some ys) (length ys) (CRC32 (Some xs) (length xs) start) \<and>
   CRC32 None len start = CRC32 (Some (replicate len 0)) len start"
proof -
  have m: "(0xFFFFFFFF :: u32) = -1" by simp
  have x: "x XOR 0xFFFFFFFF = NOT x" for x :: u32
    unfolding m by simp
  show ?thesis
    by (simp only: CRC32_def CRC32_spec_def x Let_def option.case take_all_iff length_append order_refl
      length_replicate take_all crc_bytes_eq crc_zeros_eq foldl_append bit.double_compl)
qed

end
