(* ===== verification/PowerOf2.thy ===== *)
theory PowerOf2
  imports Prelude
begin

text \<open>
  \<^verbatim>\<open>src/src/Utils.cpp\<close>: the ROM and save buffers are padded with zeros to the next power
  of two, so that the bus can address them with a mask. The doubling loop runs on a
  \<^verbatim>\<open>u32\<close>: for a length above \<open>2^31\<close> the size wraps to zero and the loop never ends.
\<close>

text \<open>\<^verbatim>\<open>while (newlen < len) newlen <<= 1;\<close> as a partial function, \<open>None\<close> when it never ends.\<close>

partial_function (option) pad_loop :: "u32 \<Rightarrow> u32 \<Rightarrow> u32 option" where
  "pad_loop newlen len = (if newlen < len then pad_loop (shl newlen 1) len else Some newlen)"

text \<open>The allocation and the copy: \<open>newlen\<close> zero bytes, the first \<open>len\<close> of them overwritten;
  \<open>None\<close> when the source array is shorter than \<open>len\<close>.\<close>

definition pad_copy :: "u8 list \<Rightarrow> u32 \<Rightarrow> u32 \<Rightarrow> u8 list option" where
  "pad_copy data len newlen =
     (if unat len \<le> length data \<and> len \<le> newlen
      then Some (take (unat len) data @ replicate (unat newlen - unat len) 0) else None)"

text \<open>\<^verbatim>\<open>PadToPowerOf2(std::unique_ptr<u8[]>&&, u32)\<close>\<close>

definition PadToPowerOf2_owned :: "u8 list option \<Rightarrow> u32 \<Rightarrow> (u8 list option \<times> u32) option" where
  "PadToPowerOf2_owned data len =
     (case data of
        None \<Rightarrow> Some (None, 0)
      | Some d \<Rightarrow>
          if len = 0 then Some (None, 0)
          else if len AND (len - 1) = 0 then Some (Some d, len)
          else case pad_loop 1 len of
            None \<Rightarrow> None
          | Some newlen \<Rightarrow> map_option (\<lambda>nd. (Some nd, newlen)) (pad_copy d len newlen))"

text \<open>\<^verbatim>\<open>PadToPowerOf2(const u8*, u32)\<close>\<close>

definition PadToPowerOf2_copy :: "u8 list \<Rightarrow> u32 \<Rightarrow> (u8 list option \<times> u32) option" where
  "PadToPowerOf2_copy data len =
     (if len = 0 then Some (None, 0)
      else case pad_loop 1 len of
        None \<Rightarrow> None
      | Some newlen \<Rightarrow> map_option (\<lambda>nd. (Some nd, newlen)) (pad_copy data len newlen))"

text \<open>\<^verbatim>\<open>CopyToUnique\<close>\<close>

definition CopyToUnique :: "u8 list option \<Rightarrow> u32 \<Rightarrow> u8 list option option" where
  "CopyToUnique data len =
     (case data of
        None \<Rightarrow> Some None
      | Some d \<Rightarrow>
          if len = 0 then Some None
          else map_option Some (pad_copy d len len))"

section \<open>The loop\<close>

lemma unat_2p: "n < 32 \<Longrightarrow> unat (2 ^ n :: u32) = 2 ^ n"
proof -
  assume "n < 32"
  then have "(2 :: nat) ^ n < 2 ^ 32" by (rule power_strict_increasing) simp
  moreover have "(2 ^ n :: u32) = of_nat (2 ^ n)" by simp
  ultimately show ?thesis by (simp only: unat_of_nat) simp
qed

lemma shl_2p: "shl (2 ^ n :: u32) 1 = 2 ^ Suc n"
  by (simp add: push_bit_eq_mult)

lemma pad_loop_terminates:
  assumes "k \<le> 31" "unat len \<le> 2 ^ 31" "k = 0 \<or> 2 ^ (k - 1) < unat len"
  shows "\<exists>j. j \<le> 31 \<and> pad_loop (2 ^ k) len = Some (2 ^ j) \<and> unat len \<le> 2 ^ j \<and>
    (j = 0 \<or> 2 ^ (j - 1) < unat len)"
  using assms
proof (induction "31 - k" arbitrary: k)
  case 0
  then have "k = 31" by simp
  with 0 show ?case
    by (intro exI [of _ 31]) (subst pad_loop.simps, simp add: unat_lt_iff)
next
  case (Suc n)
  show ?case
  proof (cases "(2 ^ k :: u32) < len")
    case True
    then have "2 ^ (Suc k - 1) < unat len" using Suc.hyps(2) by (simp add: unat_lt_iff unat_2p)
    moreover have "n = 31 - Suc k" "Suc k \<le> 31" using Suc.hyps(2) by auto
    ultimately obtain j where j: "j \<le> 31" "pad_loop (2 ^ Suc k) len = Some (2 ^ j)"
        "unat len \<le> 2 ^ j" "j = 0 \<or> 2 ^ (j - 1) < unat len"
      using Suc.hyps(1) [of "Suc k"] Suc.prems(2) by blast
    have "pad_loop (2 ^ k) len = pad_loop (2 ^ Suc k) len"
      using True by (subst pad_loop.simps) (simp add: push_bit_eq_mult mult.commute)
    with j show ?thesis by metis
  next
    case False
    then have "pad_loop (2 ^ k) len = Some (2 ^ k)" by (subst pad_loop.simps) simp
    moreover have "unat len \<le> 2 ^ k" using False Suc.prems(1) by (simp add: unat_lt_iff unat_2p not_less)
    ultimately show ?thesis using Suc.prems by blast
  qed
qed

text \<open>The sizes the loop goes through are powers of two, and zero once the shift overflows.\<close>

definition pow2_or_0 :: "u32 \<Rightarrow> bool" where
  "pow2_or_0 n \<longleftrightarrow> n = 0 \<or> (\<exists>k<32. n = 2 ^ k)"

lemma pow2_or_0_shl: "pow2_or_0 n \<Longrightarrow> pow2_or_0 (shl n 1)"
proof (cases "n = 0 \<or> n = 2 ^ 31")
  case False
  assume "pow2_or_0 n"
  with False obtain k where k: "k < 32" "n = 2 ^ k" by (auto simp: pow2_or_0_def)
  with False have "k \<noteq> 31" by auto
  with k have "Suc k < 32" by simp
  with k(2) show ?thesis using shl_2p [of k] unfolding pow2_or_0_def by metis
qed (auto simp: pow2_or_0_def)

lemma pow2_or_0_le: "pow2_or_0 n \<Longrightarrow> unat n \<le> 2 ^ 31"
proof -
  have "(2 :: nat) ^ k \<le> 2 ^ 31" if "k < 32" for k
    using that by (intro power_increasing) simp_all
  then show "pow2_or_0 n \<Longrightarrow> unat n \<le> 2 ^ 31" unfolding pow2_or_0_def by (metis unat_2p unat_0 zero_le)
qed

lemma pad_loop_large:
  assumes ret: "pad_loop n len = Some r"
  shows "pow2_or_0 n \<longrightarrow> \<not> 2 ^ 31 < unat len"
proof (rule pad_loop.raw_induct [where P = "\<lambda>n len r. pow2_or_0 n \<longrightarrow> \<not> 2 ^ 31 < unat len", OF _ ret])
  fix f n len r
  assume ih: "\<And>n len r. f n len = Some r \<Longrightarrow> pow2_or_0 n \<longrightarrow> \<not> 2 ^ 31 < unat len"
    and eq: "(if n < len then f (shl n 1) len else Some n) = Some r"
  show "pow2_or_0 n \<longrightarrow> \<not> 2 ^ 31 < unat len"
  proof (cases "n < len")
    case True
    with eq ih [of "shl n 1" len r] show ?thesis by (simp only: if_True) (blast intro: pow2_or_0_shl)
  next
    case False
    with pow2_or_0_le [of n] show ?thesis by (auto simp: unat_lt_iff)
  qed
qed

lemma pad_loop_diverges:
  assumes "2 ^ 31 < unat len"
  shows "pad_loop 1 len = None"
proof -
  have "pow2_or_0 1" by (auto simp: pow2_or_0_def intro: exI [of _ 0])
  with pad_loop_large [of 1 len] assms show ?thesis by (cases "pad_loop 1 len") auto
qed

text \<open>For a length up to \<open>2 ^ 31\<close> the padding returns, with the data followed by zeros up to the least power of two that holds it.\<close>

theorem PadToPowerOf2_padded:
  assumes "0 < len" "unat len \<le> 2 ^ 31" "unat len \<le> length data"
  shows "\<exists>k\<le>31. PadToPowerOf2_copy data len = Some (Some (take (unat len) data @ replicate (2 ^ k - unat len) 0), 2 ^ k) \<and>
    unat len \<le> 2 ^ k \<and> (k = 0 \<or> 2 ^ (k - 1) < unat len)"
proof -
  have "len \<noteq> 0" using assms(1) by auto
  obtain j where "j \<le> 31" "pad_loop (2 ^ 0) len = Some (2 ^ j)" "unat len \<le> 2 ^ j" "j = 0 \<or> 2 ^ (j - 1) < unat len"
    using pad_loop_terminates [of 0 len] assms(2) by auto
  moreover have "unat (2 ^ j :: u32) = 2 ^ j" using \<open>j \<le> 31\<close> by (simp add: unat_2p)
  ultimately show ?thesis using assms \<open>len \<noteq> 0\<close>
    by (intro exI [of _ j]) (simp add: PadToPowerOf2_copy_def pad_copy_def unat_le_iff)
qed

theorem PadToPowerOf2_padded_witness: "\<exists>k\<le>31. PadToPowerOf2_copy [1, 2, 3] 3 = Some (Some ([1, 2, 3] @ replicate (2 ^ k - 3) 0), 2 ^ k) \<and> 3 \<le> (2::nat) ^ k"
  using PadToPowerOf2_padded [of 3 "[1, 2, 3]"] by auto

lemma and_pred_nonzero: 
  assumes "2 ^ 31 < unat len" shows "len AND (len - 1) \<noteq> (0 :: u32)"
proof -
  have "bit len 31" "bit (len - 1) 31"
  proof -
    have top: "bit x 31" if "2 ^ 31 \<le> unat x" for x :: u32
    proof (rule ccontr)
      assume "\<not> bit x 31"
      then have "take_bit 31 x = x"
        by (intro bit_word_eqI) (auto simp: bit_take_bit_iff less_Suc_eq numeral_eq_Suc)
      then have "unat x < 2 ^ 31" by (metis take_bit_nat_less_exp unsigned_take_bit_eq)
      with that show False by simp
    qed
    show "bit len 31" by (rule top) (use assms in simp)
    show "bit (len - 1) 31" by (rule top) (use assms unat_sub_le [of 1 len] in \<open>simp add: unat_le_iff\<close>)
  qed
  then have "bit (len AND (len - 1)) 31" by (simp add: bit_and_iff)
  then show ?thesis by (metis bit_0_eq bot_apply bot_bool_def)
qed



end
