(* ===== verification/System.thy ===== *)
theory System
  imports MathUnit Interrupts RtcSerial Crc32 PowerOf2
begin

text \<open>
  The scheduler of theory \<open>Sched\<close> with the event functions of the components: the clock of the
  real-time clock, the divider and the square root unit. The event functions of the devices
  outside this development (display, sound, wireless, cartridges, DSi devices) are the parameter
  \<open>other\<close>, under the same contract.
\<close>

section \<open>The event functions\<close>

definition nds_event :: "(nat \<Rightarrow> u32 \<Rightarrow> u32 \<Rightarrow> nds \<Rightarrow> nds) \<Rightarrow> nat \<Rightarrow> u32 \<Rightarrow> u32 \<Rightarrow> nds \<Rightarrow> nds" where
  "nds_event other i func param s =
     (if i = Event_RTC then ClockTimer param s
      else if i = Event_Div then DivDone param s
      else if i = Event_Sqrt then SqrtDone param s
      else other i func param s)"

text \<open>What holds between two runs of the scheduler: no wrap-around of the clock is near, and the
  clock event, when pending, is less than 1000 cycles late (its period is 1022).\<close>

definition sys_inv :: "nds \<Rightarrow> bool" where
  "sys_inv s \<longleftrightarrow>
     unat (SysTimestamp s) < 2 ^ 62 \<and> unat (rtc_TimerError (RTC s)) < 2 ^ 15 \<and>
     (pending Event_RTC s \<longrightarrow>
        unat (SysTimestamp s) < unat (event_time Event_RTC s) + 1000 \<and> unat (event_time Event_RTC s) < 2 ^ 63)"

section \<open>The contract holds\<close>

lemma math_frame [simp]:
  "SchedList (DivDone p s) = SchedList s" "SchedListMask (DivDone p s) = SchedListMask s"
  "SysTimestamp (DivDone p s) = SysTimestamp s" "RTC (DivDone p s) = RTC s"
  "SchedList (SqrtDone p s) = SchedList s" "SchedListMask (SqrtDone p s) = SchedListMask s"
  "SysTimestamp (SqrtDone p s) = SysTimestamp s" "RTC (SqrtDone p s) = RTC s"
proof -
  have "SchedList (div_switch s) = SchedList s" "SchedListMask (div_switch s) = SchedListMask s"
    "SysTimestamp (div_switch s) = SysTimestamp s" "RTC (div_switch s) = RTC s" for s
    by (simp_all add: div_switch_def Let_def)
  then show "SchedList (DivDone p s) = SchedList s" "SchedListMask (DivDone p s) = SchedListMask s"
    "SysTimestamp (DivDone p s) = SysTimestamp s" "RTC (DivDone p s) = RTC s"
    by (simp_all add: DivDone_def Let_def)
  show "SchedList (SqrtDone p s) = SchedList s" "SchedListMask (SqrtDone p s) = SchedListMask s"
    "SysTimestamp (SqrtDone p s) = SysTimestamp s" "RTC (SqrtDone p s) = RTC s"
    by (simp_all add: SqrtDone_def Let_def case_prod_beta)
qed

lemma math_event_frame:
  "pending j (DivDone p s) = pending j s" "event_time j (DivDone p s) = event_time j s"
  "pending j (SqrtDone p s) = pending j s" "event_time j (SqrtDone p s) = event_time j s"
  by (simp_all add: pending_def event_time_def)

lemma sys_inv_CancelEvent: "sys_inv s \<Longrightarrow> sys_inv (CancelEvent i s)"
  by (auto simp: sys_inv_def pending_CancelEvent)

lemma ClockTimer_event:
  fixes p :: u32
  assumes "sys_inv s" "due Event_RTC s"
  defines "t \<equiv> ClockTimer p (CancelEvent Event_RTC s)"
  shows "sys_inv t" "SysTimestamp t = SysTimestamp s" "\<not> due Event_RTC t"
    "j \<noteq> Event_RTC \<Longrightarrow> pending j t = pending j s" "j \<noteq> Event_RTC \<Longrightarrow> event_time j t = event_time j s"
proof -
  have pre: "unat (rtc_TimerError (RTC s)) < 2 ^ 15" "unat (event_time Event_RTC s) < 2 ^ 63"
    "unat (SysTimestamp s) < unat (event_time Event_RTC s) + 1000" "unat (SysTimestamp s) < 2 ^ 62"
    and le: "unat (event_time Event_RTC s) \<le> unat (SysTimestamp s)"
    using assms(1,2) by (auto simp: sys_inv_def due_def unat_le_iff)
  have T: "t = rtc_tick s" by (simp add: t_def rtc_tick_def ClockTimer_eq)
  note st = rtc_tick_step [OF pre(1,2), folded T]
  show "SysTimestamp t = SysTimestamp s" by (rule st(7))
  show "sys_inv t"
    using st(2,4,5,7) pre le unfolding sys_inv_def by simp
  show "\<not> due Event_RTC t"
    using st(5,7) pre(3) by (simp add: due_def unat_le_iff)
  show "j \<noteq> Event_RTC \<Longrightarrow> pending j t = pending j s" using st(8) [of j] by simp
  show "j \<noteq> Event_RTC \<Longrightarrow> event_time j t = event_time j s" by (rule st(9))
qed

text \<open>If the devices outside the development keep the contract, so do all events together.\<close>

locale system_events = event_handlers other sys_inv for other :: "nat \<Rightarrow> u32 \<Rightarrow> u32 \<Rightarrow> nds \<Rightarrow> nds"

sublocale system_events \<subseteq> sys: event_handlers "nds_event other" sys_inv
proof unfold_locales
  fix s :: nds and i
  assume inv: "sys_inv s" and i: "i < Event_MAX" and d: "due i s"
  let ?t = "nds_event other i (FuncID (SchedList s i)) (Param (SchedList s i)) (CancelEvent i s)"
  consider "i = Event_RTC" | "i = Event_Div" | "i = Event_Sqrt"
    | "i \<noteq> Event_RTC" "i \<noteq> Event_Div" "i \<noteq> Event_Sqrt" by blast
  then have "sys_inv ?t \<and> SysTimestamp ?t = SysTimestamp s \<and>
    (\<forall>j. j \<noteq> i \<longrightarrow> pending j s \<longrightarrow> pending j ?t \<and> event_time j ?t = event_time j s) \<and>
    (\<forall>j. j = i \<or> \<not> pending j s \<longrightarrow> \<not> due j ?t)"
  proof cases
    case 1
    have t: "?t = ClockTimer (Param (SchedList s Event_RTC)) (CancelEvent Event_RTC s)"
      using 1 by (simp add: nds_event_def)
    have "due Event_RTC s" using d 1 by simp
    note C = ClockTimer_event [OF inv this, where p = "Param (SchedList s Event_RTC)", folded t]
    show ?thesis
      using C [folded 1] d unfolding due_def by metis
  next
    case 2
    then have "?t = DivDone (Param (SchedList s i)) (CancelEvent i s)" by (simp add: nds_event_def event_numbers)
    then show ?thesis
      using sys_inv_CancelEvent [OF inv, of i]
      by (auto simp: sys_inv_def math_event_frame due_def pending_CancelEvent)
  next
    case 3
    then have "?t = SqrtDone (Param (SchedList s i)) (CancelEvent i s)" by (simp add: nds_event_def event_numbers)
    then show ?thesis
      using sys_inv_CancelEvent [OF inv, of i]
      by (auto simp: sys_inv_def math_event_frame due_def pending_CancelEvent)
  next
    case 4
    then have "?t = other i (FuncID (SchedList s i)) (Param (SchedList s i)) (CancelEvent i s)"
      by (simp add: nds_event_def)
    then show ?thesis
      using keeps_inv [OF inv i d] keeps_time [OF inv i d] keeps_others [OF inv i d] schedules_later [OF inv i d]
      by auto
  qed
  then show "sys_inv ?t" "SysTimestamp ?t = SysTimestamp s"
    "\<And>j. j \<noteq> i \<Longrightarrow> pending j s \<Longrightarrow> pending j ?t \<and> event_time j ?t = event_time j s"
    "\<And>j. j = i \<or> \<not> pending j s \<Longrightarrow> \<not> due j ?t" by blast+
qed

context system_events
begin

lemma nds_handlers: "event_handlers (nds_event other) sys_inv"
  by (rule sys.event_handlers_axioms)

end

interpretation no_devices: system_events "\<lambda>_ _ _ s. s"
  by unfold_locales (auto simp: sys_inv_CancelEvent pending_CancelEvent due_def)

lemma RunSystem_events:
  assumes "event_handlers other sys_inv" "sys_inv (s\<lparr>SysTimestamp := t\<rparr>)"
  shows "sys_inv (RunSystem (nds_event other) t s)" "SysTimestamp (RunSystem (nds_event other) t s) = t"
    "j < Event_MAX \<Longrightarrow> \<not> due j (RunSystem (nds_event other) t s)"
proof -
  have "system_events other" using assms(1) by (simp add: system_events_def)
  then have "event_handlers (nds_event other) sys_inv" by (rule system_events.nds_handlers)
  from event_handlers.RunSystem_done [OF this assms(2)]
  show "sys_inv (RunSystem (nds_event other) t s)" "SysTimestamp (RunSystem (nds_event other) t s) = t"
    "j < Event_MAX \<Longrightarrow> \<not> due j (RunSystem (nds_event other) t s)" by blast+
qed



end
