(* ===== verification/Arm.thy ===== *)
theory Arm
  imports Nds
begin

text \<open>
  The two ARM processors of \<^verbatim>\<open>src/src/ARM.h\<close> and \<^verbatim>\<open>src/src/ARM.cpp\<close>: registers and banked
  registers, program status, mode switches, the pipeline refill of a jump, exceptions and cycle
  counting. \<open>Num = 0\<close> is the ARM9 (class \<^verbatim>\<open>ARMv5\<close>), \<open>Num = 1\<close> the ARM7 (class \<^verbatim>\<open>ARMv4\<close>); a
  virtual method is a case distinction on it. \<open>Halted\<close> and \<open>IRQ\<close> of a processor are the
  fields \<open>ARM_Halted\<close> and \<open>ARM_IRQ\<close> of the console, which theory \<open>Nds\<close> keeps.

  What lies behind the bus (memory, devices, the memory timing tables) is reached through the
  methods collected in the record \<open>env\<close>; they act on the console and on a memory of any type.
\<close>

section \<open>State\<close>

type_synonym 'm console = "nds \<times> 'm"

record 'm arm =
  Num :: nat
  Cycles :: s32
  IdleLoop :: u8
  CodeRegion :: u32
  CodeCycles :: s32
  DataRegion :: u32
  DataCycles :: s32
  R :: "nat \<Rightarrow> u32"
  CPSR :: u32
  R_FIQ :: "nat \<Rightarrow> u32"
  R_SVC :: "nat \<Rightarrow> u32"
  R_ABT :: "nat \<Rightarrow> u32"
  R_IRQ :: "nat \<Rightarrow> u32"
  R_UND :: "nat \<Rightarrow> u32"
  CurInstr :: u32
  NextInstr :: "nat \<Rightarrow> u32"
  ExceptionBase :: u32
  CodeMem :: "nat option \<times> u32"
  CP15Control :: u32
  RNGSeed :: u32
  TraceProcessID :: u32
  DTCMSetting :: u32
  ITCMSetting :: u32
  ITCMSize :: u32
  DTCMBase :: u32
  DTCMMask :: u32
  RegionCodeCycles :: s32
  ITCM :: "nat \<Rightarrow> u8"
  DTCM :: "nat \<Rightarrow> u8"
  ICache :: "nat \<Rightarrow> u8"
  ICacheTags :: "nat \<Rightarrow> u32"
  ICacheCount :: "nat \<Rightarrow> u8"
  PU_CodeCacheable :: u32
  PU_DataCacheable :: u32
  PU_DataCacheWrite :: u32
  PU_CodeRW :: u32
  PU_DataRW :: u32
  PU_Region :: "nat \<Rightarrow> u32"
  PU_PrivMap :: "nat \<Rightarrow> u8"
  PU_UserMap :: "nat \<Rightarrow> u8"
  PU_MapUser :: bool
  MemTimings :: "nat \<Rightarrow> nat \<Rightarrow> u8"
  CurICacheLine :: "nat option"
  con :: "'m console"

text \<open>The methods of the rest of the console that the processors call. \<open>MemRead32 p a\<close> is the
  32-bit read at offset \<open>a\<close> of the array that the pointer \<open>p\<close> stands for; \<open>ub_shl n\<close> is what the
  compiler makes of \<^verbatim>\<open>1 << n\<close> for a shift count of 32 and more, which C++ leaves undefined, and
  \<open>indet\<close> the value of a local variable that is read before it is written.\<close>

record 'm env =
  BusRead8 :: "nat \<Rightarrow> u32 \<Rightarrow> 'm console \<Rightarrow> u8 \<times> 'm console"
  BusRead16 :: "nat \<Rightarrow> u32 \<Rightarrow> 'm console \<Rightarrow> u16 \<times> 'm console"
  BusRead32 :: "nat \<Rightarrow> u32 \<Rightarrow> 'm console \<Rightarrow> u32 \<times> 'm console"
  BusWrite8 :: "nat \<Rightarrow> u32 \<Rightarrow> u8 \<Rightarrow> 'm console \<Rightarrow> 'm console"
  BusWrite16 :: "nat \<Rightarrow> u32 \<Rightarrow> u16 \<Rightarrow> 'm console \<Rightarrow> 'm console"
  BusWrite32 :: "nat \<Rightarrow> u32 \<Rightarrow> u32 \<Rightarrow> 'm console \<Rightarrow> 'm console"
  ARM9GetMemRegion :: "u32 \<Rightarrow> 'm console \<Rightarrow> nat option \<times> u32"
  MemRead32 :: "nat \<Rightarrow> u32 \<Rightarrow> 'm console \<Rightarrow> u32"
  ARM9MemTimings :: "'m console \<Rightarrow> nat \<Rightarrow> nat \<Rightarrow> u8"
  ARM7MemTimings :: "'m console \<Rightarrow> nat \<Rightarrow> nat \<Rightarrow> u8"
  MonitorARM9Jump :: "u32 \<Rightarrow> 'm console \<Rightarrow> 'm console"
  NDS_Stop :: "'m console \<Rightarrow> 'm console"
  RunCheats :: "'m console \<Rightarrow> 'm console"
  NocashPrint :: "nat \<Rightarrow> u32 \<Rightarrow> 'm console \<Rightarrow> 'm console"
  InvalidateITCM :: "u32 \<Rightarrow> 'm console \<Rightarrow> 'm console"
  RemapDTCM :: "u32 \<Rightarrow> u32 \<Rightarrow> 'm console \<Rightarrow> 'm console"
  SoftReset :: "'m console \<Rightarrow> 'm console"
  ub_shl :: "nat \<Rightarrow> u32"
  indet :: u32

definition upd_con :: "('m console \<Rightarrow> 'm console) \<Rightarrow> 'm arm \<Rightarrow> 'm arm" where
  "upd_con f s = s\<lparr>con := f (con s)\<rparr>"

definition set_R :: "nat \<Rightarrow> u32 \<Rightarrow> 'm arm \<Rightarrow> 'm arm" where
  "set_R i v s = s\<lparr>R := (R s)(i := v)\<rparr>"

text \<open>\<^verbatim>\<open>ARM::Halt\<close> on the processor itself.\<close>

definition Halt :: "u8 \<Rightarrow> 'm arm \<Rightarrow> 'm arm" where
  "Halt h s = upd_con (\<lambda>(n, m). (ARM_Halt (Num s) h n, m)) s"

section \<open>Flags and conditions\<close>

definition ROR :: "u32 \<Rightarrow> nat \<Rightarrow> u32" where
  "ROR x n = shr x (n mod 32) OR shl x ((32 - n mod 32) mod 32)"

definition ConditionTable :: "u16 list" where
  "ConditionTable = [0xF0F0, 0x0F0F, 0xCCCC, 0x3333, 0xFF00, 0x00FF, 0xAAAA, 0x5555,
     0x0C0C, 0xF3F3, 0xAA55, 0x55AA, 0x0A05, 0xF5FA, 0xFFFF, 0x0000]"

definition CheckCondition :: "nat \<Rightarrow> 'm arm \<Rightarrow> bool" where
  "CheckCondition code s =
     (if code = 0xE then True
      else if tst (ConditionTable ! code) (shl 1 (unat (shr (CPSR s) 28))) then True
      else False)"

definition SetC :: "bool \<Rightarrow> 'm arm \<Rightarrow> 'm arm" where
  "SetC c s = (if c then s\<lparr>CPSR := CPSR s OR 0x20000000\<rparr> else s\<lparr>CPSR := CPSR s AND NOT 0x20000000\<rparr>)"

definition SetNZ :: "bool \<Rightarrow> bool \<Rightarrow> 'm arm \<Rightarrow> 'm arm" where
  "SetNZ n z s =
     (let s = s\<lparr>CPSR := CPSR s AND NOT 0xC0000000\<rparr>;
          s = (if n then s\<lparr>CPSR := CPSR s OR 0x80000000\<rparr> else s)
      in if z then s\<lparr>CPSR := CPSR s OR 0x40000000\<rparr> else s)"

definition SetNZCV :: "bool \<Rightarrow> bool \<Rightarrow> bool \<Rightarrow> bool \<Rightarrow> 'm arm \<Rightarrow> 'm arm" where
  "SetNZCV n z c v s =
     (let s = s\<lparr>CPSR := CPSR s AND NOT 0xF0000000\<rparr>;
          s = (if n then s\<lparr>CPSR := CPSR s OR 0x80000000\<rparr> else s);
          s = (if z then s\<lparr>CPSR := CPSR s OR 0x40000000\<rparr> else s);
          s = (if c then s\<lparr>CPSR := CPSR s OR 0x20000000\<rparr> else s)
      in if v then s\<lparr>CPSR := CPSR s OR 0x10000000\<rparr> else s)"

definition ModeIs :: "u32 \<Rightarrow> 'm arm \<Rightarrow> bool" where
  "ModeIs mode s =
     (let cm = CPSR s AND 0x1F; mode = mode AND 0x1F in
      if mode = cm then True
      else if mode = 0x17 then 0x14 \<le> cm \<and> cm \<le> 0x17
      else if mode = 0x1B then 0x18 \<le> cm \<and> cm \<le> 0x1B
      else False)"

section \<open>Modes and banked registers\<close>

text \<open>\<^verbatim>\<open>std::swap(R[r], bank[i])\<close> for consecutive registers.\<close>

definition swap_regs :: "nat \<Rightarrow> nat \<Rightarrow> (nat \<Rightarrow> u32) \<Rightarrow> (nat \<Rightarrow> u32) \<Rightarrow> (nat \<Rightarrow> u32) \<times> (nat \<Rightarrow> u32)" where
  "swap_regs r n regs bank =
     ((\<lambda>i. if r \<le> i \<and> i < r + n then bank (i - r) else regs i),
      (\<lambda>i. if i < n then regs (r + i) else bank i))"

definition swap_bank :: "u32 \<Rightarrow> 'm arm \<Rightarrow> 'm arm" where
  "swap_bank mode s =
     (let m = mode AND 0x1F in
      if m = 0x11 then let (r, b) = swap_regs 8 7 (R s) (R_FIQ s) in s\<lparr>R := r, R_FIQ := b\<rparr>
      else if m = 0x12 then let (r, b) = swap_regs 13 2 (R s) (R_IRQ s) in s\<lparr>R := r, R_IRQ := b\<rparr>
      else if m = 0x13 then let (r, b) = swap_regs 13 2 (R s) (R_SVC s) in s\<lparr>R := r, R_SVC := b\<rparr>
      else if m = 0x17 then let (r, b) = swap_regs 13 2 (R s) (R_ABT s) in s\<lparr>R := r, R_ABT := b\<rparr>
      else if m = 0x1B then let (r, b) = swap_regs 13 2 (R s) (R_UND s) in s\<lparr>R := r, R_UND := b\<rparr>
      else s)"

definition UpdateMode :: "u32 \<Rightarrow> u32 \<Rightarrow> bool \<Rightarrow> 'm arm \<Rightarrow> 'm arm" where
  "UpdateMode oldmode newmode phony s =
     (if oldmode AND 0x1F = newmode AND 0x1F then s
      else
        let s = swap_bank newmode (swap_bank oldmode s)
        in if \<not> phony \<and> Num s = 0
           then s\<lparr>PU_MapUser := (newmode AND 0x1F = 0x10)\<rparr>
           else s)"

definition PU_Map :: "'m arm \<Rightarrow> nat \<Rightarrow> u8" where
  "PU_Map s = (if PU_MapUser s then PU_UserMap s else PU_PrivMap s)"

text \<open>The saved status register of the current mode, \<open>None\<close> in user and system mode.\<close>

definition spsr :: "'m arm \<Rightarrow> u32 option" where
  "spsr s =
     (let m = CPSR s AND 0x1F in
      if m = 0x11 then Some (R_FIQ s 7)
      else if m = 0x12 then Some (R_IRQ s 2)
      else if m = 0x13 then Some (R_SVC s 2)
      else if 0x14 \<le> m \<and> m \<le> 0x17 then Some (R_ABT s 2)
      else if 0x18 \<le> m \<and> m \<le> 0x1B then Some (R_UND s 2)
      else None)"

definition RestoreCPSR :: "'m arm \<Rightarrow> 'm arm" where
  "RestoreCPSR s =
     (let oldcpsr = CPSR s;
          s = (case spsr s of Some v \<Rightarrow> s\<lparr>CPSR := v\<rparr> | None \<Rightarrow> s);
          s = s\<lparr>CPSR := CPSR s OR 0x00000010\<rparr>
      in UpdateMode oldcpsr (CPSR s) False s)"

section \<open>Fetching code\<close>

definition ITCMPhysicalSize :: u32 where "ITCMPhysicalSize = 0x8000"
definition DTCMPhysicalSize :: u32 where "DTCMPhysicalSize = 0x4000"

text \<open>Little-endian accesses to a byte array.\<close>

definition get16 :: "(nat \<Rightarrow> u8) \<Rightarrow> nat \<Rightarrow> u16" where
  "get16 f a = ucast (f a) OR shl (ucast (f (a + 1))) 8"

definition get32 :: "(nat \<Rightarrow> u8) \<Rightarrow> nat \<Rightarrow> u32" where
  "get32 f a = ucast (f a) OR shl (ucast (f (a + 1))) 8 OR shl (ucast (f (a + 2))) 16 OR shl (ucast (f (a + 3))) 24"

definition put16 :: "nat \<Rightarrow> u16 \<Rightarrow> (nat \<Rightarrow> u8) \<Rightarrow> nat \<Rightarrow> u8" where
  "put16 a v f = f(a := ucast v, a + 1 := ucast (shr v 8))"

definition put32 :: "nat \<Rightarrow> u32 \<Rightarrow> (nat \<Rightarrow> u8) \<Rightarrow> nat \<Rightarrow> u8" where
  "put32 a v f =
     f(a := ucast v, a + 1 := ucast (shr v 8), a + 2 := ucast (shr v 16), a + 3 := ucast (shr v 24))"

definition kCodeCacheTiming :: s32 where "kCodeCacheTiming = 3"

text \<open>\<^verbatim>\<open>ARMv5::CodeRead32\<close>\<close>

definition CodeRead32_9 :: "'m env \<Rightarrow> u32 \<Rightarrow> bool \<Rightarrow> 'm arm \<Rightarrow> u32 \<times> 'm arm" where
  "CodeRead32_9 env addr branch s =
     (if addr < ITCMSize s then
        (get32 (ITCM s) (unat (addr AND (ITCMPhysicalSize - 1))), s\<lparr>CodeCycles := 1\<rparr>)
      else
        let s = s\<lparr>CodeCycles := RegionCodeCycles s\<rparr>;
            s = (if CodeCycles s = 0xFF then
                   if branch \<or> \<not> tst addr 0x1F then s\<lparr>CodeCycles := kCodeCacheTiming\<rparr> else s\<lparr>CodeCycles := 1\<rparr>
                 else s)
        in case CodeMem s of
             (Some p, m) \<Rightarrow> (MemRead32 env p (addr AND m) (con s), s)
           | (None, _) \<Rightarrow> let (v, c) = BusRead32 env (Num s) addr (con s) in (v, s\<lparr>con := c\<rparr>))"

text \<open>\<^verbatim>\<open>ARMv4::CodeRead16\<close> and \<^verbatim>\<open>ARMv4::CodeRead32\<close>\<close>

definition CodeRead16_7 :: "'m env \<Rightarrow> u32 \<Rightarrow> 'm arm \<Rightarrow> u32 \<times> 'm arm" where
  "CodeRead16_7 env addr s = (let (v, c) = BusRead16 env (Num s) addr (con s) in (ucast v, s\<lparr>con := c\<rparr>))"

definition CodeRead32_7 :: "'m env \<Rightarrow> u32 \<Rightarrow> 'm arm \<Rightarrow> u32 \<times> 'm arm" where
  "CodeRead32_7 env addr s = (let (v, c) = BusRead32 env (Num s) addr (con s) in (v, s\<lparr>con := c\<rparr>))"

definition SetupCodeMem :: "'m env \<Rightarrow> u32 \<Rightarrow> 'm arm \<Rightarrow> 'm arm" where
  "SetupCodeMem env addr s = (if Num s = 0 then s\<lparr>CodeMem := ARM9GetMemRegion env addr (con s)\<rparr> else s)"

definition set_Next :: "nat \<Rightarrow> u32 \<times> 'm arm \<Rightarrow> 'm arm" where
  "set_Next i vs = (case vs of (v, s) \<Rightarrow> s\<lparr>NextInstr := (NextInstr s)(i := v)\<rparr>)"

definition add_Cycles :: "s32 \<Rightarrow> 'm arm \<Rightarrow> 'm arm" where
  "add_Cycles c s = s\<lparr>Cycles := Cycles s + c\<rparr>"

section \<open>Jumps\<close>

text \<open>The part of \<^verbatim>\<open>ARMv5::JumpTo\<close> before the check of the protection unit; it returns the
  aligned address.\<close>

definition jump_restore :: "u32 \<Rightarrow> bool \<Rightarrow> 'm arm \<Rightarrow> u32 \<times> 'm arm" where
  "jump_restore addr restorecpsr s =
     (if restorecpsr then
        let s = RestoreCPSR s
        in (if tst (CPSR s) 0x20 then addr OR 0x1 else addr AND NOT 0x1, s)
      else (addr, s))"

definition fetch_9_thumb :: "'m env \<Rightarrow> u32 \<Rightarrow> 'm arm \<Rightarrow> 'm arm" where
  "fetch_9_thumb env addr s =
     (if tst addr 0x2 then
        let (v, s) = CodeRead32_9 env (addr - 2) True s;
            s = set_Next 0 (shr v 16, s);
            s = add_Cycles (CodeCycles s) s;
            s = set_Next 1 (CodeRead32_9 env (addr + 2) False s)
        in add_Cycles (CodeCycles s) s
      else
        let s = set_Next 0 (CodeRead32_9 env addr True s);
            s = set_Next 1 (shr (NextInstr s 0) 16, s)
        in add_Cycles (CodeCycles s) s)"

definition fetch_9_arm :: "'m env \<Rightarrow> u32 \<Rightarrow> 'm arm \<Rightarrow> 'm arm" where
  "fetch_9_arm env addr s =
     (let s = set_Next 0 (CodeRead32_9 env addr True s);
          s = add_Cycles (CodeCycles s) s;
          s = set_Next 1 (CodeRead32_9 env (addr + 4) False s)
      in add_Cycles (CodeCycles s) s)"

definition refill_9 :: "'m env \<Rightarrow> u32 \<Rightarrow> 'm arm \<Rightarrow> u32 \<times> 'm arm" where
  "refill_9 env addr s =
     (let oldregion = shr (R s 15) 24;
          newregion = shr addr 24;
          s = s\<lparr>RegionCodeCycles := ucast (MemTimings s (unat (shr addr 12)) 0)\<rparr>
      in if tst addr 0x1 then
           let addr = addr AND NOT 0x1;
               s = set_R 15 (addr + 2) s;
               s = (if newregion \<noteq> oldregion then SetupCodeMem env addr s else s);
               s = fetch_9_thumb env addr s
           in (addr, s\<lparr>CPSR := CPSR s OR 0x20\<rparr>)
         else
           let addr = addr AND NOT 0x3;
               s = set_R 15 (addr + 4) s;
               s = (if newregion \<noteq> oldregion then SetupCodeMem env addr s else s);
               s = fetch_9_arm env addr s
           in (addr, s\<lparr>CPSR := CPSR s AND NOT 0x20\<rparr>))"

text \<open>\<^verbatim>\<open>ARMv5::JumpTo\<close> and \<^verbatim>\<open>ARMv5::PrefetchAbort\<close> call each other; \<open>fuel\<close> bounds the
  recursion, and two levels are enough (below).\<close>

definition enter_abort :: "'m arm \<Rightarrow> 'm arm" where
  "enter_abort s =
     (let oldcpsr = CPSR s;
          s = s\<lparr>CPSR := CPSR s AND NOT 0xBF\<rparr>;
          s = s\<lparr>CPSR := CPSR s OR 0x97\<rparr>
      in UpdateMode oldcpsr (CPSR s) False s)"

definition PrefetchAbort_with :: "(u32 \<Rightarrow> 'm arm \<Rightarrow> 'm arm) \<Rightarrow> 'm env \<Rightarrow> 'm arm \<Rightarrow> 'm arm" where
  "PrefetchAbort_with jump env s =
     (let oldcpsr = CPSR s;
          s = enter_abort s
      in if \<not> tst (PU_Map s (unat (shr (ExceptionBase s) 12))) 0x04 then upd_con (NDS_Stop env) s
         else
           let s = s\<lparr>R_ABT := (R_ABT s)(2 := oldcpsr)\<rparr>;
               s = set_R 14 (R s 15 + (if tst oldcpsr 0x20 then 2 else 0)) s
           in jump (ExceptionBase s + 0x0C) s)"

fun JumpTo_fuel :: "nat \<Rightarrow> 'm env \<Rightarrow> u32 \<Rightarrow> bool \<Rightarrow> 'm arm \<Rightarrow> 'm arm" where
  "JumpTo_fuel 0 env addr restorecpsr s = s"
| "JumpTo_fuel (Suc fuel) env addr restorecpsr s =
     (let (addr, s) = jump_restore addr restorecpsr s;
          (addr, s) = refill_9 env addr s
      in if \<not> tst (PU_Map s (unat (shr addr 12))) 0x04
         then PrefetchAbort_with (\<lambda>a. JumpTo_fuel fuel env a False) env s
         else upd_con (MonitorARM9Jump env addr) s)"

definition JumpTo_9 :: "'m env \<Rightarrow> u32 \<Rightarrow> bool \<Rightarrow> 'm arm \<Rightarrow> 'm arm" where
  "JumpTo_9 = JumpTo_fuel 2"

definition PrefetchAbort :: "'m env \<Rightarrow> 'm arm \<Rightarrow> 'm arm" where
  "PrefetchAbort env = PrefetchAbort_with (\<lambda>a. JumpTo_9 env a False) env"

text \<open>\<^verbatim>\<open>ARMv4::JumpTo\<close>\<close>

definition timing_7 :: "'m env \<Rightarrow> nat \<Rightarrow> 'm arm \<Rightarrow> s32" where
  "timing_7 env k s = ucast (ARM7MemTimings env (con s) (unat (CodeCycles s)) k)"

definition JumpTo_7 :: "'m env \<Rightarrow> u32 \<Rightarrow> bool \<Rightarrow> 'm arm \<Rightarrow> 'm arm" where
  "JumpTo_7 env addr restorecpsr s =
     (let (addr, s) = jump_restore addr restorecpsr s;
          s = s\<lparr>CodeRegion := shr addr 24, CodeCycles := shr addr 15\<rparr>
      in if tst addr 0x1 then
           let addr = addr AND NOT 0x1;
               s = set_R 15 (addr + 2) s;
               s = set_Next 0 (CodeRead16_7 env addr s);
               s = set_Next 1 (CodeRead16_7 env (addr + 2) s);
               s = add_Cycles (timing_7 env 0 s + timing_7 env 1 s) s
           in s\<lparr>CPSR := CPSR s OR 0x20\<rparr>
         else
           let addr = addr AND NOT 0x3;
               s = set_R 15 (addr + 4) s;
               s = set_Next 0 (CodeRead32_7 env addr s);
               s = set_Next 1 (CodeRead32_7 env (addr + 4) s);
               s = add_Cycles (timing_7 env 2 s + timing_7 env 3 s) s
           in s\<lparr>CPSR := CPSR s AND NOT 0x20\<rparr>)"

definition JumpTo :: "'m env \<Rightarrow> u32 \<Rightarrow> bool \<Rightarrow> 'm arm \<Rightarrow> 'm arm" where
  "JumpTo env addr restorecpsr s =
     (if Num s = 0 then JumpTo_9 env addr restorecpsr s else JumpTo_7 env addr restorecpsr s)"

text \<open>\<^verbatim>\<open>FillPipeline\<close> of both processors.\<close>

definition FillPipeline :: "'m env \<Rightarrow> 'm arm \<Rightarrow> 'm arm" where
  "FillPipeline env s =
     (let s = SetupCodeMem env (R s 15) s in
      if Num s = 0 then
        if tst (CPSR s) 0x20 then
          if tst (R s 15 - 2) 0x2 then
            let (v, s) = CodeRead32_9 env (R s 15 - 4) False s;
                s = set_Next 0 (shr v 16, s)
            in set_Next 1 (CodeRead32_9 env (R s 15) False s)
          else
            let s = set_Next 0 (CodeRead32_9 env (R s 15 - 2) False s)
            in set_Next 1 (shr (NextInstr s 0) 16, s)
        else
          let s = set_Next 0 (CodeRead32_9 env (R s 15 - 4) False s)
          in set_Next 1 (CodeRead32_9 env (R s 15) False s)
      else
        if tst (CPSR s) 0x20 then
          let s = set_Next 0 (CodeRead16_7 env (R s 15 - 2) s)
          in set_Next 1 (CodeRead16_7 env (R s 15) s)
        else
          let s = set_Next 0 (CodeRead32_7 env (R s 15 - 4) s)
          in set_Next 1 (CodeRead32_7 env (R s 15) s))"

section \<open>Exceptions\<close>

definition TriggerIRQ :: "'m env \<Rightarrow> 'm arm \<Rightarrow> 'm arm" where
  "TriggerIRQ env s =
     (if tst (CPSR s) 0x80 then s
      else
        let oldcpsr = CPSR s;
            s = s\<lparr>CPSR := CPSR s AND NOT 0xFF\<rparr>;
            s = s\<lparr>CPSR := CPSR s OR 0xD2\<rparr>;
            s = UpdateMode oldcpsr (CPSR s) False s;
            s = s\<lparr>R_IRQ := (R_IRQ s)(2 := oldcpsr)\<rparr>;
            s = set_R 14 (R s 15 + (if tst oldcpsr 0x20 then 2 else 0)) s;
            s = JumpTo env (ExceptionBase s + 0x18) False s
        in if Num s = 1 then
             if tst (IFl (fst (con s)) 1 AND IE (fst (con s)) 1) (shl 1 0)
             then upd_con (RunCheats env) s else s
           else s)"

definition DataAbort :: "'m env \<Rightarrow> 'm arm \<Rightarrow> 'm arm" where
  "DataAbort env s =
     (let oldcpsr = CPSR s;
          s = enter_abort s;
          s = s\<lparr>R_ABT := (R_ABT s)(2 := oldcpsr)\<rparr>;
          s = set_R 14 (R s 15 + (if tst oldcpsr 0x20 then 4 else 0)) s
      in JumpTo env (ExceptionBase s + 0x10) False s)"

text \<open>The undefined instruction exception (\<^verbatim>\<open>A_UNK\<close> and \<^verbatim>\<open>T_UNK\<close> of \<^verbatim>\<open>src/src/ARMInterpreter.cpp\<close>).\<close>

definition enter_und :: "u32 \<Rightarrow> 'm env \<Rightarrow> 'm arm \<Rightarrow> 'm arm" where
  "enter_und back env s =
     (let oldcpsr = CPSR s;
          s = s\<lparr>CPSR := CPSR s AND NOT 0xBF\<rparr>;
          s = s\<lparr>CPSR := CPSR s OR 0x9B\<rparr>;
          s = UpdateMode oldcpsr (CPSR s) False s;
          s = s\<lparr>R_UND := (R_UND s)(2 := oldcpsr)\<rparr>;
          s = set_R 14 (R s 15 - back) s
      in JumpTo env (ExceptionBase s + 0x04) False s)"

definition A_UNK :: "'m env \<Rightarrow> 'm arm \<Rightarrow> 'm arm" where
  "A_UNK = enter_und 4"

definition T_UNK :: "'m env \<Rightarrow> 'm arm \<Rightarrow> 'm arm" where
  "T_UNK = enter_und 2"

text \<open>\<^verbatim>\<open>ARM::Reset\<close>; \<^verbatim>\<open>ARMv5::Reset\<close> selects the privileged map first.\<close>

definition ARM_Reset :: "'m env \<Rightarrow> 'm arm \<Rightarrow> 'm arm" where
  "ARM_Reset env s =
     (let s = (if Num s = 0 then s\<lparr>PU_MapUser := False\<rparr> else s);
          s = s\<lparr>Cycles := 0\<rparr>;
          s = upd_con (\<lambda>(n, m). (n\<lparr>ARM_Halted := (ARM_Halted n)(Num s := 0), ARM_IRQ := (ARM_IRQ n)(Num s := 0)\<rparr>, m)) s;
          s = s\<lparr>R := (\<lambda>i. if i < 16 then 0 else R s i)\<rparr>;
          s = s\<lparr>CPSR := 0x000000D3\<rparr>;
          s = s\<lparr>R_FIQ := (\<lambda>i. if i < 7 then 0 else R_FIQ s i), R_SVC := (\<lambda>i. if i < 2 then 0 else R_SVC s i),
                R_ABT := (\<lambda>i. if i < 2 then 0 else R_ABT s i), R_IRQ := (\<lambda>i. if i < 2 then 0 else R_IRQ s i),
                R_UND := (\<lambda>i. if i < 2 then 0 else R_UND s i)\<rparr>;
          s = s\<lparr>R_FIQ := (R_FIQ s)(7 := 0x10), R_SVC := (R_SVC s)(2 := 0x10), R_ABT := (R_ABT s)(2 := 0x10),
                R_IRQ := (R_IRQ s)(2 := 0x10), R_UND := (R_UND s)(2 := 0x10)\<rparr>;
          s = s\<lparr>ExceptionBase := (if Num s \<noteq> 0 then 0x00000000 else 0xFFFF0000)\<rparr>;
          s = s\<lparr>CodeMem := (None, snd (CodeMem s))\<rparr>
      in JumpTo env (ExceptionBase s) False s)"

section \<open>Cycles\<close>

definition code_cycles_9 :: "'m arm \<Rightarrow> s32" where
  "code_cycles_9 s = (if tst (R s 15) 0x2 then 0 else CodeCycles s)"

text \<open>\<^verbatim>\<open>std::max\<close> on \<^verbatim>\<open>s32\<close>\<close>

definition s_max :: "s32 \<Rightarrow> s32 \<Rightarrow> s32" where
  "s_max a b = (if sint a < sint b then b else a)"

definition AddCycles_C :: "'m env \<Rightarrow> 'm arm \<Rightarrow> 'm arm" where
  "AddCycles_C env s =
     (if Num s = 0 then add_Cycles (code_cycles_9 s) s
      else add_Cycles (timing_7 env (if tst (CPSR s) 0x20 then 1 else 3) s) s)"

definition AddCycles_CI :: "'m env \<Rightarrow> s32 \<Rightarrow> 'm arm \<Rightarrow> 'm arm" where
  "AddCycles_CI env numI s =
     (if Num s = 0 then add_Cycles (code_cycles_9 s + numI) s
      else add_Cycles (timing_7 env (if tst (CPSR s) 0x20 then 0 else 2) s + numI) s)"

definition AddCycles_CDI :: "'m env \<Rightarrow> 'm arm \<Rightarrow> 'm arm" where
  "AddCycles_CDI env s =
     (if Num s = 0 then
        let numC = code_cycles_9 s; numD = DataCycles s
        in add_Cycles (s_max (numC + numD - 6) (s_max numC numD)) s
      else
        let numC = timing_7 env (if tst (CPSR s) 0x20 then 0 else 2) s; numD = DataCycles s
        in if shr (DataRegion s) 24 = 0x02 then
             if CodeRegion s = 0x02 then add_Cycles (numC + numD) s
             else let numC = numC + 1 in add_Cycles (s_max (numC + numD - 3) (s_max numC numD)) s
           else if CodeRegion s = 0x02 then
             let numD = numD + 1 in add_Cycles (s_max (numC + numD - 3) (s_max numC numD)) s
           else add_Cycles (numC + numD + 1) s)"

definition AddCycles_CD :: "'m env \<Rightarrow> 'm arm \<Rightarrow> 'm arm" where
  "AddCycles_CD env s =
     (if Num s = 0 then
        let numC = code_cycles_9 s; numD = DataCycles s
        in add_Cycles (s_max (numC + numD - 6) (s_max numC numD)) s
      else
        let numC = timing_7 env (if tst (CPSR s) 0x20 then 0 else 2) s; numD = DataCycles s
        in if shr (DataRegion s) 24 = 0x02 then
             if CodeRegion s = 0x02 then add_Cycles (numC + numD) s
             else add_Cycles (s_max (numC + numD - 3) (s_max numC numD)) s
           else if CodeRegion s = 0x02 then add_Cycles (s_max (numC + numD - 3) (s_max numC numD)) s
           else add_Cycles (numC + numD) s)"

section \<open>A concrete environment\<close>

text \<open>An instance of \<open>env\<close> for the examples: a flat little-endian memory of bytes behind the
  bus, no direct code region, and the same cycle count everywhere.\<close>

definition flat_env :: "(u32 \<Rightarrow> u8) env" where
  "flat_env = \<lparr>
     BusRead8 = (\<lambda>_ a (n, m). (m a, (n, m))),
     BusRead16 = (\<lambda>_ a (n, m). (ucast (m a) OR shl (ucast (m (a + 1))) 8, (n, m))),
     BusRead32 = (\<lambda>_ a (n, m). (ucast (m a) OR shl (ucast (m (a + 1))) 8 OR shl (ucast (m (a + 2))) 16
       OR shl (ucast (m (a + 3))) 24, (n, m))),
     BusWrite8 = (\<lambda>_ a v (n, m). (n, m(a := v))),
     BusWrite16 = (\<lambda>_ a v (n, m). (n, m(a := ucast v, a + 1 := ucast (shr v 8)))),
     BusWrite32 = (\<lambda>_ a v (n, m). (n, m(a := ucast v, a + 1 := ucast (shr v 8), a + 2 := ucast (shr v 16),
       a + 3 := ucast (shr v 24)))),
     ARM9GetMemRegion = (\<lambda>_ _. (None, 0)),
     MemRead32 = (\<lambda>_ _ _. 0),
     ARM9MemTimings = (\<lambda>_ _ _. 1),
     ARM7MemTimings = (\<lambda>_ _ _. 1),
     MonitorARM9Jump = (\<lambda>_ c. c),
     NDS_Stop = (\<lambda>(n, m). (n\<lparr>CPUStop := 0xFFFFFFFF\<rparr>, m)),
     RunCheats = (\<lambda>c. c),
     NocashPrint = (\<lambda>_ _ c. c),
     InvalidateITCM = (\<lambda>_ c. c),
     RemapDTCM = (\<lambda>_ _ c. c),
     SoftReset = (\<lambda>c. c),
     ub_shl = (\<lambda>n. shl 1 (n mod 32)),
     indet = 0\<rparr>"

text \<open>A processor with cleared registers in system mode, all pages executable, readable and
  writable.\<close>

definition blank_arm :: "nat \<Rightarrow> (u32 \<Rightarrow> u8) arm" where
  "blank_arm num = \<lparr>
     Num = num, Cycles = 0, IdleLoop = 0, CodeRegion = 0, CodeCycles = 0, DataRegion = 0, DataCycles = 0,
     R = (\<lambda>_. 0), CPSR = 0x1F, R_FIQ = (\<lambda>_. 0), R_SVC = (\<lambda>_. 0), R_ABT = (\<lambda>_. 0), R_IRQ = (\<lambda>_. 0),
     R_UND = (\<lambda>_. 0), CurInstr = 0, NextInstr = (\<lambda>_. 0), ExceptionBase = 0, CodeMem = (None, 0),
     CP15Control = 0, RNGSeed = 44203, TraceProcessID = 0, DTCMSetting = 0, ITCMSetting = 0, ITCMSize = 0,
     DTCMBase = 0xFFFFFFFF, DTCMMask = 0, RegionCodeCycles = 1, ITCM = (\<lambda>_. 0), DTCM = (\<lambda>_. 0),
     ICache = (\<lambda>_. 0), ICacheTags = (\<lambda>_. 0), ICacheCount = (\<lambda>_. 0), PU_CodeCacheable = 0,
     PU_DataCacheable = 0, PU_DataCacheWrite = 0, PU_CodeRW = 0, PU_DataRW = 0, PU_Region = (\<lambda>_. 0),
     PU_PrivMap = (\<lambda>_. 0x07), PU_UserMap = (\<lambda>_. 0x07), PU_MapUser = False,
     MemTimings = (\<lambda>_ _. 1), CurICacheLine = None, con = (blank_nds, \<lambda>_. 0)\<rparr>"

lemma blank_arm_simps [simp]:
  "Num (blank_arm n) = n" "R (blank_arm n) = (\<lambda>_. 0)" "CPSR (blank_arm n) = 0x1F" "CurInstr (blank_arm n) = 0"
  "ExceptionBase (blank_arm n) = 0" "PU_PrivMap (blank_arm n) = (\<lambda>_. 0x07)" "PU_UserMap (blank_arm n) = (\<lambda>_. 0x07)"
  "con (blank_arm n) = (blank_nds, \<lambda>_. 0)" "ITCMSize (blank_arm n) = 0"
  by (simp_all add: blank_arm_def)

end
