(* ===== verification/ArmAlu.thy ===== *)
theory ArmAlu
  imports Arm
begin

text \<open>
  The data processing instructions of \<^verbatim>\<open>src/src/ARMInterpreter_ALU.cpp\<close>, ARM and THUMB: flag
  helpers, the barrel shifter, the sixteen operations in all their addressing forms, the
  multiplications, \<open>CLZ\<close> and the saturating operations. The macros of the file are functions
  here: a shift operation maps an operand and a count to the shifted operand and the state.
\<close>

type_synonym 'm instr = "'m env \<Rightarrow> 'm arm \<Rightarrow> 'm arm"

section \<open>Flag helpers\<close>

definition CarryAdd :: "u32 \<Rightarrow> u32 \<Rightarrow> bool" where
  "CarryAdd a b \<longleftrightarrow> 0xFFFFFFFF - a < b"

definition CarrySub :: "u32 \<Rightarrow> u32 \<Rightarrow> bool" where
  "CarrySub a b \<longleftrightarrow> a \<ge> b"

definition OverflowAdd :: "u32 \<Rightarrow> u32 \<Rightarrow> bool" where
  "OverflowAdd a b = (let res = a + b in \<not> tst (a XOR b) 0x80000000 \<and> tst (a XOR res) 0x80000000)"

definition OverflowSub :: "u32 \<Rightarrow> u32 \<Rightarrow> bool" where
  "OverflowSub a b = (let res = a - b in tst (a XOR b) 0x80000000 \<and> tst (a XOR res) 0x80000000)"

definition OverflowAdc :: "u32 \<Rightarrow> u32 \<Rightarrow> u32 \<Rightarrow> bool" where
  "OverflowAdc a b carry =
     (let fullResult :: s64 = scast a + scast b + ucast carry; res = a + b + carry in scast res \<noteq> fullResult)"

definition OverflowSbc :: "u32 \<Rightarrow> u32 \<Rightarrow> u32 \<Rightarrow> bool" where
  "OverflowSbc a b carry =
     (let fullResult :: s64 = scast a - scast b - ucast carry; res = a - b - carry in scast res \<noteq> fullResult)"

section \<open>The barrel shifter\<close>

type_synonym 'm shiftop = "'m env \<Rightarrow> u32 \<Rightarrow> nat \<Rightarrow> 'm arm \<Rightarrow> u32 \<times> 'm arm"

text \<open>\<^verbatim>\<open>1 << n\<close> for a count that may be out of range.\<close>

definition one_shl :: "'m env \<Rightarrow> nat \<Rightarrow> u32" where
  "one_shl env n = (if n < 32 then shl 1 n else ub_shl env n)"

definition LSL_IMM :: "'m shiftop" where
  "LSL_IMM env x n s = (shl x n, s)"

definition LSR_IMM :: "'m shiftop" where
  "LSR_IMM env x n s = (if n = 0 then 0 else shr x n, s)"

definition ASR_IMM :: "'m shiftop" where
  "ASR_IMM env x n s = (if n = 0 then asr x 31 else asr x n, s)"

definition ROR_IMM :: "'m shiftop" where
  "ROR_IMM env x n s =
     (if n = 0 then shr x 1 OR shl (CPSR s AND 0x20000000) 2 else ROR x n, s)"

definition LSL_IMM_S :: "'m shiftop" where
  "LSL_IMM_S env x n s = (if n > 0 then (shl x n, SetC (tst x (shl 1 (32 - n))) s) else (x, s))"

definition LSR_IMM_S :: "'m shiftop" where
  "LSR_IMM_S env x n s =
     (if n = 0 then (0, SetC (tst x (shl 1 31)) s) else (shr x n, SetC (tst x (shl 1 (n - 1))) s))"

definition ASR_IMM_S :: "'m shiftop" where
  "ASR_IMM_S env x n s =
     (if n = 0 then (asr x 31, SetC (tst x (shl 1 31)) s) else (asr x n, SetC (tst x (shl 1 (n - 1))) s))"

definition ROR_IMM_S :: "'m shiftop" where
  "ROR_IMM_S env x n s =
     (if n = 0 then
        let newc = tst x 1; x = shr x 1 OR shl (CPSR s AND 0x20000000) 2 in (x, SetC newc s)
      else (ROR x n, SetC (tst x (shl 1 (n - 1))) s))"

definition LSL_REG :: "'m shiftop" where
  "LSL_REG env x n s = (if n > 31 then 0 else shl x n, s)"

definition LSR_REG :: "'m shiftop" where
  "LSR_REG env x n s = (if n > 31 then 0 else shr x n, s)"

definition ASR_REG :: "'m shiftop" where
  "ASR_REG env x n s = (if n > 31 then asr x 31 else asr x n, s)"

definition ROR_REG :: "'m shiftop" where
  "ROR_REG env x n s = (ROR x (n mod 32), s)"

definition LSL_REG_S :: "'m shiftop" where
  "LSL_REG_S env x n s =
     (if n > 31 then (0, SetC (if n > 32 then False else tst x (shl 1 0)) s)
      else if n > 0 then (shl x n, SetC (tst x (shl 1 (32 - n))) s) else (x, s))"

definition LSR_REG_S :: "'m shiftop" where
  "LSR_REG_S env x n s =
     (if n > 31 then (0, SetC (if n > 32 then False else tst x (shl 1 31)) s)
      else if n > 0 then (shr x n, SetC (tst x (shl 1 (n - 1))) s) else (x, s))"

definition ASR_REG_S :: "'m shiftop" where
  "ASR_REG_S env x n s =
     (if n > 31 then (asr x 31, SetC (tst x (shl 1 31)) s)
      else if n > 0 then (asr x n, SetC (tst x (shl 1 (n - 1))) s) else (x, s))"

definition ROR_REG_S :: "'m shiftop" where
  "ROR_REG_S env x n s =
     (let s = (if n > 0 then SetC (tst x (one_shl env (n - 1))) s else s) in (ROR x (n mod 32), s))"

section \<open>The second operand\<close>

text \<open>A register number in the instruction word.\<close>

definition reg4 :: "nat \<Rightarrow> 'm arm \<Rightarrow> nat" where
  "reg4 k s = unat (shr (CurInstr s) k AND 0xF)"

definition A_CALC_OP2_IMM :: "'m env \<Rightarrow> 'm arm \<Rightarrow> u32 \<times> 'm arm" where
  "A_CALC_OP2_IMM env s = (ROR (CurInstr s AND 0xFF) (unat (shr (CurInstr s) 7 AND 0x1E)), s)"

definition A_CALC_OP2_IMM_S :: "'m env \<Rightarrow> 'm arm \<Rightarrow> u32 \<times> 'm arm" where
  "A_CALC_OP2_IMM_S env s =
     (let b = ROR (CurInstr s AND 0xFF) (unat (shr (CurInstr s) 7 AND 0x1E))
      in (b, if tst (shr (CurInstr s) 7) 0x1E then SetC (tst b 0x80000000) s else s))"

definition A_CALC_OP2_REG_SHIFT_IMM :: "'m shiftop \<Rightarrow> 'm env \<Rightarrow> 'm arm \<Rightarrow> u32 \<times> 'm arm" where
  "A_CALC_OP2_REG_SHIFT_IMM shiftop env s =
     (let b = R s (reg4 0 s); n = unat (shr (CurInstr s) 7 AND 0x1F) in shiftop env b n s)"

definition A_CALC_OP2_REG_SHIFT_REG :: "'m shiftop \<Rightarrow> 'm env \<Rightarrow> 'm arm \<Rightarrow> u32 \<times> 'm arm" where
  "A_CALC_OP2_REG_SHIFT_REG shiftop env s =
     (let b = R s (reg4 0 s);
          b = (if reg4 0 s = 15 then b + 4 else b)
      in shiftop env b (unat (R s (reg4 8 s) AND 0xFF)) s)"

text \<open>The nine addressing forms the macros \<^verbatim>\<open>A_IMPLEMENT_ALU_OP\<close> and \<^verbatim>\<open>A_IMPLEMENT_ALU_TEST\<close>
  instantiate. \<open>st\<close> tells whether the macro's argument \<^verbatim>\<open>s\<close> is \<^verbatim>\<open>_S\<close>: the operations that take
  the carry from the shifter.\<close>

datatype op2 =
    IMM
  | REG_LSL_IMM | REG_LSR_IMM | REG_ASR_IMM | REG_ROR_IMM
  | REG_LSL_REG | REG_LSR_REG | REG_ASR_REG | REG_ROR_REG

definition A_CALC_OP2 :: "bool \<Rightarrow> op2 \<Rightarrow> 'm env \<Rightarrow> 'm arm \<Rightarrow> u32 \<times> 'm arm" where
  "A_CALC_OP2 st kind = (case kind of
       IMM \<Rightarrow> if st then A_CALC_OP2_IMM_S else A_CALC_OP2_IMM
     | REG_LSL_IMM \<Rightarrow> A_CALC_OP2_REG_SHIFT_IMM (if st then LSL_IMM_S else LSL_IMM)
     | REG_LSR_IMM \<Rightarrow> A_CALC_OP2_REG_SHIFT_IMM (if st then LSR_IMM_S else LSR_IMM)
     | REG_ASR_IMM \<Rightarrow> A_CALC_OP2_REG_SHIFT_IMM (if st then ASR_IMM_S else ASR_IMM)
     | REG_ROR_IMM \<Rightarrow> A_CALC_OP2_REG_SHIFT_IMM (if st then ROR_IMM_S else ROR_IMM)
     | REG_LSL_REG \<Rightarrow> A_CALC_OP2_REG_SHIFT_REG (if st then LSL_REG_S else LSL_REG)
     | REG_LSR_REG \<Rightarrow> A_CALC_OP2_REG_SHIFT_REG (if st then LSR_REG_S else LSR_REG)
     | REG_ASR_REG \<Rightarrow> A_CALC_OP2_REG_SHIFT_REG (if st then ASR_REG_S else ASR_REG)
     | REG_ROR_REG \<Rightarrow> A_CALC_OP2_REG_SHIFT_REG (if st then ROR_REG_S else ROR_REG))"

definition op2_cycles :: "op2 \<Rightarrow> s32" where
  "op2_cycles kind =
     (if kind \<in> {REG_LSL_REG, REG_LSR_REG, REG_ASR_REG, REG_ROR_REG} then 1 else 0)"

type_synonym 'm aluop = "s32 \<Rightarrow> u32 \<Rightarrow> 'm env \<Rightarrow> 'm arm \<Rightarrow> 'm arm"

definition A_IMPLEMENT_ALU_OP :: "'m aluop \<Rightarrow> 'm aluop \<Rightarrow> bool \<Rightarrow> op2 \<Rightarrow> bool \<Rightarrow> 'm instr" where
  "A_IMPLEMENT_ALU_OP f f_S st kind setflags env s =
     (if setflags then let (b, s) = A_CALC_OP2 st kind env s in f_S (op2_cycles kind) b env s
      else let (b, s) = A_CALC_OP2 False kind env s in f (op2_cycles kind) b env s)"

definition A_IMPLEMENT_ALU_TEST :: "'m aluop \<Rightarrow> bool \<Rightarrow> op2 \<Rightarrow> 'm instr" where
  "A_IMPLEMENT_ALU_TEST f st kind env s =
     (let (b, s) = A_CALC_OP2 st kind env s in f (op2_cycles kind) b env s)"

section \<open>The operations\<close>

definition alu_cycles :: "s32 \<Rightarrow> 'm env \<Rightarrow> 'm arm \<Rightarrow> 'm arm" where
  "alu_cycles c env s = (if c \<noteq> 0 then AddCycles_CI env c s else AddCycles_C env s)"

definition write_rd :: "'m env \<Rightarrow> u32 \<Rightarrow> 'm arm \<Rightarrow> 'm arm" where
  "write_rd env res s =
     (if reg4 12 s = 15 then JumpTo env (res AND NOT 1) False s else set_R (reg4 12 s) res s)"

definition write_rd_S :: "'m env \<Rightarrow> u32 \<Rightarrow> 'm arm \<Rightarrow> 'm arm" where
  "write_rd_S env res s =
     (if reg4 12 s = 15 then JumpTo env res True s else set_R (reg4 12 s) res s)"

definition carry_in :: "'m arm \<Rightarrow> bool" where
  "carry_in s \<longleftrightarrow> tst (CPSR s) 0x20000000"

definition A_AND :: "'m aluop" where
  "A_AND c b env s =
     (let a = R s (reg4 16 s); res = a AND b in write_rd env res (alu_cycles c env s))"

definition A_AND_S :: "'m aluop" where
  "A_AND_S c b env s =
     (let a = R s (reg4 16 s); res = a AND b;
          s = SetNZ (tst res 0x80000000) (res = 0) s
      in write_rd_S env res (alu_cycles c env s))"

definition A_EOR :: "'m aluop" where
  "A_EOR c b env s =
     (let a = R s (reg4 16 s); res = a XOR b in write_rd env res (alu_cycles c env s))"

definition A_EOR_S :: "'m aluop" where
  "A_EOR_S c b env s =
     (let a = R s (reg4 16 s); res = a XOR b;
          s = SetNZ (tst res 0x80000000) (res = 0) s
      in write_rd_S env res (alu_cycles c env s))"

definition A_SUB :: "'m aluop" where
  "A_SUB c b env s =
     (let a = R s (reg4 16 s); res = a - b in write_rd env res (alu_cycles c env s))"

definition A_SUB_S :: "'m aluop" where
  "A_SUB_S c b env s =
     (let a = R s (reg4 16 s); res = a - b;
          s = SetNZCV (tst res 0x80000000) (res = 0) (CarrySub a b) (OverflowSub a b) s
      in write_rd_S env res (alu_cycles c env s))"

definition A_RSB :: "'m aluop" where
  "A_RSB c b env s =
     (let a = R s (reg4 16 s); res = b - a in write_rd env res (alu_cycles c env s))"

definition A_RSB_S :: "'m aluop" where
  "A_RSB_S c b env s =
     (let a = R s (reg4 16 s); res = b - a;
          s = SetNZCV (tst res 0x80000000) (res = 0) (CarrySub b a) (OverflowSub b a) s
      in write_rd_S env res (alu_cycles c env s))"

definition A_ADD :: "'m aluop" where
  "A_ADD c b env s =
     (let a = R s (reg4 16 s); res = a + b in write_rd env res (alu_cycles c env s))"

definition A_ADD_S :: "'m aluop" where
  "A_ADD_S c b env s =
     (let a = R s (reg4 16 s); res = a + b;
          s = SetNZCV (tst res 0x80000000) (res = 0) (CarryAdd a b) (OverflowAdd a b) s
      in write_rd_S env res (alu_cycles c env s))"

definition A_ADC :: "'m aluop" where
  "A_ADC c b env s =
     (let a = R s (reg4 16 s); res = a + b + (if carry_in s then 1 else 0)
      in write_rd env res (alu_cycles c env s))"

definition A_ADC_S :: "'m aluop" where
  "A_ADC_S c b env s =
     (let a = R s (reg4 16 s); res_tmp = a + b; carry = (if carry_in s then 1 else 0); res = res_tmp + carry;
          s = SetNZCV (tst res 0x80000000) (res = 0) (CarryAdd a b \<or> CarryAdd res_tmp carry)
                (OverflowAdc a b carry) s
      in write_rd_S env res (alu_cycles c env s))"

definition A_SBC :: "'m aluop" where
  "A_SBC c b env s =
     (let a = R s (reg4 16 s); res = a - b - (if carry_in s then 0 else 1)
      in write_rd env res (alu_cycles c env s))"

definition A_SBC_S :: "'m aluop" where
  "A_SBC_S c b env s =
     (let a = R s (reg4 16 s); res_tmp = a - b; carry = (if carry_in s then 0 else 1); res = res_tmp - carry;
          s = SetNZCV (tst res 0x80000000) (res = 0) (CarrySub a b \<and> CarrySub res_tmp carry)
                (OverflowSbc a b carry) s
      in write_rd_S env res (alu_cycles c env s))"

definition A_RSC :: "'m aluop" where
  "A_RSC c b env s =
     (let a = R s (reg4 16 s); res = b - a - (if carry_in s then 0 else 1)
      in write_rd env res (alu_cycles c env s))"

definition A_RSC_S :: "'m aluop" where
  "A_RSC_S c b env s =
     (let a = R s (reg4 16 s); res_tmp = b - a; carry = (if carry_in s then 0 else 1); res = res_tmp - carry;
          s = SetNZCV (tst res 0x80000000) (res = 0) (CarrySub b a \<and> CarrySub res_tmp carry)
                (OverflowSbc b a carry) s
      in write_rd_S env res (alu_cycles c env s))"

definition A_TST :: "'m aluop" where
  "A_TST c b env s =
     (let a = R s (reg4 16 s); res = a AND b
      in alu_cycles c env (SetNZ (tst res 0x80000000) (res = 0) s))"

definition A_TEQ :: "'m aluop" where
  "A_TEQ c b env s =
     (let a = R s (reg4 16 s); res = a XOR b
      in alu_cycles c env (SetNZ (tst res 0x80000000) (res = 0) s))"

definition A_CMP :: "'m aluop" where
  "A_CMP c b env s =
     (let a = R s (reg4 16 s); res = a - b
      in alu_cycles c env (SetNZCV (tst res 0x80000000) (res = 0) (CarrySub a b) (OverflowSub a b) s))"

definition A_CMN :: "'m aluop" where
  "A_CMN c b env s =
     (let a = R s (reg4 16 s); res = a + b
      in alu_cycles c env (SetNZCV (tst res 0x80000000) (res = 0) (CarryAdd a b) (OverflowAdd a b) s))"

definition A_ORR :: "'m aluop" where
  "A_ORR c b env s =
     (let a = R s (reg4 16 s); res = a OR b in write_rd env res (alu_cycles c env s))"

definition A_ORR_S :: "'m aluop" where
  "A_ORR_S c b env s =
     (let a = R s (reg4 16 s); res = a OR b;
          s = SetNZ (tst res 0x80000000) (res = 0) s
      in write_rd_S env res (alu_cycles c env s))"

definition A_MOV :: "'m aluop" where
  "A_MOV c b env s = write_rd env b (alu_cycles c env s)"

definition A_MOV_S :: "'m aluop" where
  "A_MOV_S c b env s =
     (let s = SetNZ (tst b 0x80000000) (b = 0) s in write_rd_S env b (alu_cycles c env s))"

definition A_BIC :: "'m aluop" where
  "A_BIC c b env s =
     (let a = R s (reg4 16 s); res = a AND NOT b in write_rd env res (alu_cycles c env s))"

definition A_BIC_S :: "'m aluop" where
  "A_BIC_S c b env s =
     (let a = R s (reg4 16 s); res = a AND NOT b;
          s = SetNZ (tst res 0x80000000) (res = 0) s
      in write_rd_S env res (alu_cycles c env s))"

definition A_MVN :: "'m aluop" where
  "A_MVN c b env s = (let b = NOT b in write_rd env b (alu_cycles c env s))"

definition A_MVN_S :: "'m aluop" where
  "A_MVN_S c b env s =
     (let b = NOT b; s = SetNZ (tst b 0x80000000) (b = 0) s in write_rd_S env b (alu_cycles c env s))"

text \<open>All the instructions the macros generate, by operation code.\<close>

datatype alu_op = AND_op | EOR_op | SUB_op | RSB_op | ADD_op | ADC_op | SBC_op | RSC_op | ORR_op | MOV_op
  | BIC_op | MVN_op

definition alu_instr :: "alu_op \<Rightarrow> op2 \<Rightarrow> bool \<Rightarrow> 'm instr" where
  "alu_instr op = (case op of
       AND_op \<Rightarrow> A_IMPLEMENT_ALU_OP A_AND A_AND_S True
     | EOR_op \<Rightarrow> A_IMPLEMENT_ALU_OP A_EOR A_EOR_S True
     | SUB_op \<Rightarrow> A_IMPLEMENT_ALU_OP A_SUB A_SUB_S False
     | RSB_op \<Rightarrow> A_IMPLEMENT_ALU_OP A_RSB A_RSB_S False
     | ADD_op \<Rightarrow> A_IMPLEMENT_ALU_OP A_ADD A_ADD_S False
     | ADC_op \<Rightarrow> A_IMPLEMENT_ALU_OP A_ADC A_ADC_S False
     | SBC_op \<Rightarrow> A_IMPLEMENT_ALU_OP A_SBC A_SBC_S False
     | RSC_op \<Rightarrow> A_IMPLEMENT_ALU_OP A_RSC A_RSC_S False
     | ORR_op \<Rightarrow> A_IMPLEMENT_ALU_OP A_ORR A_ORR_S True
     | MOV_op \<Rightarrow> A_IMPLEMENT_ALU_OP A_MOV A_MOV_S True
     | BIC_op \<Rightarrow> A_IMPLEMENT_ALU_OP A_BIC A_BIC_S True
     | MVN_op \<Rightarrow> A_IMPLEMENT_ALU_OP A_MVN A_MVN_S True)"

datatype test_op = TST_op | TEQ_op | CMP_op | CMN_op

definition test_instr :: "test_op \<Rightarrow> op2 \<Rightarrow> 'm instr" where
  "test_instr op = (case op of
       TST_op \<Rightarrow> A_IMPLEMENT_ALU_TEST A_TST True
     | TEQ_op \<Rightarrow> A_IMPLEMENT_ALU_TEST A_TEQ True
     | CMP_op \<Rightarrow> A_IMPLEMENT_ALU_TEST A_CMP False
     | CMN_op \<Rightarrow> A_IMPLEMENT_ALU_TEST A_CMN False)"

definition A_MOV_REG_LSL_IMM_DBG :: "'m instr" where
  "A_MOV_REG_LSL_IMM_DBG env s =
     (let s = alu_instr MOV_op REG_LSL_IMM False env s in
      if CurInstr s = 0xE1A0C00C \<and> NextInstr s 0 AND 0xFF000000 = 0xEA000000 \<and> NextInstr s 1 AND 0xFFFF = 0x6464
      then let addr = R s 15 + 4 in upd_con (NocashPrint env (Num s) addr) s
      else s)"

end
