(* ===== verification/ArmMul.thy ===== *)
theory ArmMul
  imports ArmAlu
begin

text \<open>
  The multiplications, \<open>CLZ\<close> and the saturating additions of
  \<^verbatim>\<open>src/src/ARMInterpreter_ALU.cpp\<close>.
\<close>

section \<open>Multiplications\<close>

text \<open>The early termination of the ARM7's multiplier: the cycles depend on the upper bytes of
  the operand, all zero or (for the signed forms) all ones.\<close>

definition mul_cycles :: "bool \<Rightarrow> s32 \<Rightarrow> u32 \<Rightarrow> s32" where
  "mul_cycles sg least rs =
     (if rs AND 0xFFFFFF00 = 0x00000000 \<or> sg \<and> rs AND 0xFFFFFF00 = 0xFFFFFF00 then least
      else if rs AND 0xFFFF0000 = 0x00000000 \<or> sg \<and> rs AND 0xFFFF0000 = 0xFFFF0000 then least + 1
      else if rs AND 0xFF000000 = 0x00000000 \<or> sg \<and> rs AND 0xFF000000 = 0xFF000000 then least + 2
      else least + 3)"

definition mul_time :: "bool \<Rightarrow> s32 \<Rightarrow> u32 \<Rightarrow> 'm arm \<Rightarrow> s32" where
  "mul_time sg least rs s =
     (if Num s = 0 then if tst (CurInstr s) (shl 1 20) then 3 else 1 else mul_cycles sg least rs)"

definition mul_flags :: "bool \<Rightarrow> bool \<Rightarrow> 'm arm \<Rightarrow> 'm arm" where
  "mul_flags n z s =
     (if tst (CurInstr s) (shl 1 20) then
        let s = SetNZ n z s in if Num s = 1 then SetC False s else s
      else s)"

definition A_MUL :: "'m instr" where
  "A_MUL env s =
     (let rm = R s (reg4 0 s);
          rs = R s (reg4 8 s);
          res = rm * rs;
          s = set_R (reg4 16 s) res s;
          s = mul_flags (tst res 0x80000000) (res = 0) s
      in AddCycles_CI env (mul_time True 1 rs s) s)"

definition A_MLA :: "'m instr" where
  "A_MLA env s =
     (let rm = R s (reg4 0 s);
          rs = R s (reg4 8 s);
          rn = R s (reg4 12 s);
          res = rm * rs + rn;
          s = set_R (reg4 16 s) res s;
          s = mul_flags (tst res 0x80000000) (res = 0) s
      in AddCycles_CI env (mul_time True 2 rs s) s)"

text \<open>A 64-bit result in two registers, low word first.\<close>

definition set_RdHiLo :: "u64 \<Rightarrow> 'm arm \<Rightarrow> 'm arm" where
  "set_RdHiLo res s =
     (let s = set_R (reg4 12 s) (ucast res) s in set_R (reg4 16 s) (ucast (shr res 32)) s)"

definition get_RdHiLo :: "'m arm \<Rightarrow> u64" where
  "get_RdHiLo s = ucast (R s (reg4 12 s)) OR shl (ucast (R s (reg4 16 s))) 32"

definition A_UMULL :: "'m instr" where
  "A_UMULL env s =
     (let rm = R s (reg4 0 s);
          rs = R s (reg4 8 s);
          res :: u64 = ucast rm * ucast rs;
          s = set_RdHiLo res s;
          s = mul_flags (shr res 63 \<noteq> 0) (res = 0) s
      in AddCycles_CI env (mul_time False 2 rs s) s)"

definition A_UMLAL :: "'m instr" where
  "A_UMLAL env s =
     (let rm = R s (reg4 0 s);
          rs = R s (reg4 8 s);
          res :: u64 = ucast rm * ucast rs;
          rd = get_RdHiLo s;
          res = res + rd;
          s = set_RdHiLo res s;
          s = mul_flags (shr res 63 \<noteq> 0) (res = 0) s
      in AddCycles_CI env (mul_time False 2 rs s) s)"

definition A_SMULL :: "'m instr" where
  "A_SMULL env s =
     (let rm = R s (reg4 0 s);
          rs = R s (reg4 8 s);
          res :: s64 = scast rm * scast rs;
          s = set_RdHiLo res s;
          s = mul_flags (asr res 63 \<noteq> 0) (res = 0) s
      in AddCycles_CI env (mul_time True 2 rs s) s)"

definition A_SMLAL :: "'m instr" where
  "A_SMLAL env s =
     (let rm = R s (reg4 0 s);
          rs = R s (reg4 8 s);
          res :: s64 = scast rm * scast rs;
          rd = get_RdHiLo s;
          res = res + rd;
          s = set_RdHiLo res s;
          s = mul_flags (asr res 63 \<noteq> 0) (res = 0) s
      in AddCycles_CI env (mul_time True 2 rs s) s)"

text \<open>A halfword of a register, as \<^verbatim>\<open>s16\<close>.\<close>

definition half :: "nat \<Rightarrow> u32 \<Rightarrow> 'm arm \<Rightarrow> 16 word" where
  "half k x s = (if tst (CurInstr s) (shl 1 k) then ucast (shr x 16) else ucast (x AND 0xFFFF))"

definition set_Q :: "'m arm \<Rightarrow> 'm arm" where
  "set_Q s = s\<lparr>CPSR := CPSR s OR 0x08000000\<rparr>"

definition A_SMLAxy :: "'m instr" where
  "A_SMLAxy env s =
     (if Num s \<noteq> 0 then s
      else
        let rm = R s (reg4 0 s);
            rs = R s (reg4 8 s);
            rn = R s (reg4 12 s);
            res_mul :: u32 = scast (half 5 rm s) * scast (half 6 rs s);
            res = res_mul + rn;
            s = set_R (reg4 16 s) res s;
            s = (if OverflowAdd res_mul rn then set_Q s else s)
        in AddCycles_C env s)"

definition A_SMLAWy :: "'m instr" where
  "A_SMLAWy env s =
     (if Num s \<noteq> 0 then s
      else
        let rm = R s (reg4 0 s);
            rs = R s (reg4 8 s);
            rn = R s (reg4 12 s);
            res_mul :: u32 = ucast (asr (scast rm * scast (half 6 rs s) :: s64) 16);
            res = res_mul + rn;
            s = set_R (reg4 16 s) res s;
            s = (if OverflowAdd res_mul rn then set_Q s else s)
        in AddCycles_C env s)"

definition A_SMULxy :: "'m instr" where
  "A_SMULxy env s =
     (if Num s \<noteq> 0 then s
      else
        let rm = R s (reg4 0 s);
            rs = R s (reg4 8 s);
            res :: u32 = scast (half 5 rm s) * scast (half 6 rs s);
            s = set_R (reg4 16 s) res s
        in AddCycles_C env s)"

definition A_SMULWy :: "'m instr" where
  "A_SMULWy env s =
     (if Num s \<noteq> 0 then s
      else
        let rm = R s (reg4 0 s);
            rs = R s (reg4 8 s);
            res :: u32 = ucast (asr (scast rm * scast (half 6 rs s) :: s64) 16);
            s = set_R (reg4 16 s) res s
        in AddCycles_C env s)"

definition A_SMLALxy :: "'m instr" where
  "A_SMLALxy env s =
     (if Num s \<noteq> 0 then s
      else
        let rm = R s (reg4 0 s);
            rs = R s (reg4 8 s);
            res :: s64 = scast (half 5 rm s) * scast (half 6 rs s);
            rd = get_RdHiLo s;
            res = res + rd;
            s = set_RdHiLo res s
        in AddCycles_CI env 1 s)"

section \<open>Count leading zeros\<close>

text \<open>The two loops: both shift in ones from below, so that the value grows.\<close>

function clz_bytes :: "u32 \<Rightarrow> u32 \<Rightarrow> u32 \<times> u32" where
  "clz_bytes val res =
     (if val AND 0xFF000000 = 0 then clz_bytes (shl val 8 OR 0xFF) (res + 8) else (val, res))"
  by pat_completeness auto
termination
proof (relation "measure (\<lambda>(val, res). 2 ^ 32 - unat val)", goal_cases)
  case (2 val res)
  then have "unat val < 2 ^ 24" by (simp add: and_FF000000)
  then have "unat (shl val 8 OR 0xFF) = unat val * 256 + 255" "unat val * 256 + 255 < 2 ^ 32"
    using unat_shl_or [of val 8 "0xFF"] by simp_all
  then show ?case by simp
qed simp

function clz_bits :: "u32 \<Rightarrow> u32 \<Rightarrow> u32 \<times> u32" where
  "clz_bits val res =
     (if val AND 0x80000000 = 0 then clz_bits (shl val 1 OR 0x1) (res + 1) else (val, res))"
  by pat_completeness auto
termination
proof (relation "measure (\<lambda>(val, res). 2 ^ 32 - unat val)", goal_cases)
  case (2 val res)
  then have "unat val < 2 ^ 31" by (simp add: and_80000000)
  then have "unat (shl val 1 OR 0x1) = unat val * 2 + 1" "unat val * 2 + 1 < 2 ^ 32"
    using unat_shl_or [of val 1 1] by simp_all
  then show ?case by simp
qed simp

declare clz_bytes.simps [simp del] clz_bits.simps [simp del]

definition A_CLZ :: "'m instr" where
  "A_CLZ env s =
     (if Num s \<noteq> 0 then A_UNK env s
      else
        let val = R s (reg4 0 s);
            res = 0;
            (val, res) = clz_bytes val res;
            (val, res) = clz_bits val res;
            s = set_R (reg4 12 s) res s
        in AddCycles_C env s)"

section \<open>Saturating arithmetic\<close>

definition saturate :: "u32 \<Rightarrow> u32" where
  "saturate res = (if tst res 0x80000000 then 0x7FFFFFFF else 0x80000000)"

definition A_QADD :: "'m instr" where
  "A_QADD env s =
     (if Num s \<noteq> 0 then A_UNK env s
      else
        let rm = R s (reg4 0 s);
            rn = R s (reg4 16 s);
            res = rm + rn;
            (res, s) = (if OverflowAdd rm rn then (saturate res, set_Q s) else (res, s));
            s = set_R (reg4 12 s) res s
        in AddCycles_C env s)"

definition A_QSUB :: "'m instr" where
  "A_QSUB env s =
     (if Num s \<noteq> 0 then A_UNK env s
      else
        let rm = R s (reg4 0 s);
            rn = R s (reg4 16 s);
            res = rm - rn;
            (res, s) = (if OverflowSub rm rn then (saturate res, set_Q s) else (res, s));
            s = set_R (reg4 12 s) res s
        in AddCycles_C env s)"

definition q_double :: "u32 \<Rightarrow> 'm arm \<Rightarrow> u32 \<times> 'm arm" where
  "q_double rn s =
     (if OverflowAdd rn rn
      then (if tst rn 0x80000000 then 0x80000000 else 0x7FFFFFFF, set_Q s)
      else (shl rn 1, s))"

definition A_QDADD :: "'m instr" where
  "A_QDADD env s =
     (if Num s \<noteq> 0 then A_UNK env s
      else
        let rm = R s (reg4 0 s);
            rn = R s (reg4 16 s);
            (rn, s) = q_double rn s;
            res = rm + rn;
            (res, s) = (if OverflowAdd rm rn then (saturate res, set_Q s) else (res, s));
            s = set_R (reg4 12 s) res s
        in AddCycles_C env s)"

definition A_QDSUB :: "'m instr" where
  "A_QDSUB env s =
     (if Num s \<noteq> 0 then A_UNK env s
      else
        let rm = R s (reg4 0 s);
            rn = R s (reg4 16 s);
            (rn, s) = q_double rn s;
            res = rm - rn;
            (res, s) = (if OverflowSub rm rn then (saturate res, set_Q s) else (res, s));
            s = set_R (reg4 12 s) res s
        in AddCycles_C env s)"

section \<open>The loops of \<open>CLZ\<close> count the leading zeros\<close>

text \<open>Both loops keep \<open>(x + 1) * 2 ^ res = val + 1\<close>.\<close>

definition clz_at :: "u32 \<Rightarrow> u32 \<times> u32 \<Rightarrow> bool" where
  "clz_at x vr \<longleftrightarrow> (unat x + 1) * 2 ^ unat (snd vr) = unat (fst vr) + 1"

lemma clz_at_le: "clz_at x (v, r) \<Longrightarrow> unat r \<le> 32"
proof (rule ccontr)
  assume "clz_at x (v, r)" "\<not> unat r \<le> 32"
  then have "(2::nat) ^ 33 \<le> 2 ^ unat r" by (intro power_increasing) auto
  also have "\<dots> \<le> (unat x + 1) * 2 ^ unat r" by simp
  also have "\<dots> \<le> 2 ^ 32" using \<open>clz_at x (v, r)\<close> unat_bound [of v] by (simp add: clz_at_def)
  finally show False by simp
qed

lemma clz_step:
  assumes "clz_at x (v, r)" "unat v < 2 ^ (32 - k)" "k \<le> 8" "unat w = 2 ^ k - 1"
  shows "clz_at x (shl v k OR w, r + word_of_nat k)"
proof -
  have "(2::nat) ^ (32 - k) * 2 ^ k = 2 ^ 32" using assms(3) by (simp flip: power_add)
  then have lt: "unat v * 2 ^ k + 2 ^ k \<le> 2 ^ 32"
    using assms(2) mult_le_mono1 [of "Suc (unat v)" "2 ^ (32 - k)" "2 ^ k"] by simp
  moreover have "0 < (2::nat) ^ k" by simp
  ultimately have "unat (shl v k OR w) = unat v * 2 ^ k + (2 ^ k - 1)"
    using unat_shl_or [of v k w] assms(4) by simp
  moreover have "unat (r + word_of_nat k) = unat r + k"
    using clz_at_le [OF assms(1)] assms(3)
    by (subst unat_add_small) (simp_all add: unsigned_of_nat take_bit_nat_eq_self)
  moreover have "(unat x + 1) * (2 ^ unat r * 2 ^ k) = (unat v + 1) * 2 ^ k"
    using assms(1) unfolding mult.assoc [symmetric] by (simp add: clz_at_def)
  ultimately show ?thesis using \<open>0 < 2 ^ k\<close> by (simp add: clz_at_def power_add)
qed

lemma clz_bytes_at: "clz_at x (v, r) \<Longrightarrow> clz_at x (clz_bytes v r)"
proof (induction v r rule: clz_bytes.induct)
  case (1 v r)
  show ?case
  proof (cases "v AND 0xFF000000 = 0")
    case True
    then have "unat v < 2 ^ (32 - 8)" by (simp add: and_FF000000)
    from clz_step [OF "1.prems" this, of "0xFF"] "1.IH" [OF True] True
    show ?thesis by (subst clz_bytes.simps) simp
  next
    case False
    with "1.prems" show ?thesis by (subst clz_bytes.simps) simp
  qed
qed

lemma clz_bits_at: "clz_at x (v, r) \<Longrightarrow> clz_at x (clz_bits v r) \<and> 2 ^ 31 \<le> unat (fst (clz_bits v r))"
proof (induction v r rule: clz_bits.induct)
  case (1 v r)
  show ?case
  proof (cases "v AND 0x80000000 = 0")
    case True
    then have "unat v < 2 ^ (32 - 1)" by (simp add: and_80000000)
    from clz_step [OF "1.prems" this, of 1] "1.IH" [OF True] True
    show ?thesis by (subst (1 2) clz_bits.simps) simp
  next
    case False
    moreover have "\<not> unat v < 2 ^ 31" using False by (simp add: and_80000000)
    ultimately show ?thesis using "1.prems" by (subst (1 2) clz_bits.simps) simp
  qed
qed

lemma clz_correct:
  assumes "(v, r) = (case clz_bytes x 0 of (v, r) \<Rightarrow> clz_bits v r)"
  shows "unat r \<le> 32 \<and> unat x < 2 ^ (32 - unat r) \<and> (x \<noteq> 0 \<longrightarrow> unat r < 32 \<and> 2 ^ (31 - unat r) \<le> unat x)"
proof -
  have "clz_at x (x, 0)" by (simp add: clz_at_def)
  then have "clz_at x (clz_bytes x 0)" by (rule clz_bytes_at)
  then have "clz_at x (clz_bytes x 0)" "clz_bits (fst (clz_bytes x 0)) (snd (clz_bytes x 0)) = (v, r)"
    using assms by (simp_all add: case_prod_beta)
  then have at: "clz_at x (v, r)" and big: "2 ^ 31 \<le> unat v"
    using clz_bits_at [of x "fst (clz_bytes x 0)" "snd (clz_bytes x 0)"] by simp_all
  have r: "unat r \<le> 32" by (rule clz_at_le [OF at])
  have eq: "(unat x + 1) * 2 ^ unat r = unat v + 1" using at by (simp add: clz_at_def)
  have p: "(2::nat) ^ (32 - unat r) * 2 ^ unat r = 2 ^ 32" using r by (simp flip: power_add)
  have "(unat x + 1) * 2 ^ unat r \<le> 2 ^ (32 - unat r) * 2 ^ unat r"
    using eq unat_bound [of v] unfolding p by simp
  then have ub: "unat x + 1 \<le> 2 ^ (32 - unat r)" by (rule mult_right_le_imp_le) simp
  have "unat r < 32 \<and> 2 ^ (31 - unat r) \<le> unat x" if "x \<noteq> 0"
  proof -
    have "0 < unat x" using that by (simp add: unat_gt_0)
    with ub have r31: "unat r < 32" by (cases "unat r = 32") (use r in auto)
    then have "(2::nat) ^ (31 - unat r) * 2 ^ unat r = 2 ^ 31" by (simp flip: power_add)
    then have "2 ^ (31 - unat r) * 2 ^ unat r < (unat x + 1) * 2 ^ unat r"
      using eq big by simp
    then have "2 ^ (31 - unat r) < unat x + 1" by (rule mult_right_less_imp_less) simp
    then show ?thesis using r31 by simp
  qed
  with r ub show ?thesis by simp
qed

end
