(* ===== verification/ArmAluSpec.thy ===== *)
theory ArmAluSpec
  imports ArmMul
begin

text \<open>
  The data processing instructions against the ARM architecture manual: addition with carry as
  the manual defines it, on the unsigned and the signed values of the operands; the results and
  flags of all instructions of theory \<open>ArmAlu\<close>; and the shifter operand with its carry out.
\<close>

section \<open>Addition with carry\<close>

text \<open>The result, and whether the unsigned and the signed sum do not fit 32 bits.\<close>

definition AddWithCarry :: "u32 \<Rightarrow> u32 \<Rightarrow> bool \<Rightarrow> u32 \<times> bool \<times> bool" where
  "AddWithCarry x y c =
     (let us = unat x + unat y + of_bool c; ss = sint x + sint y + of_bool c; res = word_of_nat us
      in (res, unat res \<noteq> us, sint res \<noteq> ss))"

lemma sint_range32: "- (2 ^ 31) \<le> sint (x :: u32)" "sint (x :: u32) < 2 ^ 31"
  using sint_lt [of x] sint_ge [of x] by simp_all

lemma bit31_sint: "bit x 31 \<longleftrightarrow> sint x < 0" for x :: u32
  using bit_last_iff [of x] by simp

lemma wrap32:
  fixes k :: int
  assumes "- 3 * 2 ^ 31 \<le> k" "k < 3 * 2 ^ 31"
  shows "signed_take_bit 31 k = (if 2 ^ 31 \<le> k then k - 2 ^ 32 else if k < - (2 ^ 31) then k + 2 ^ 32 else k)"
proof -
  have e: "signed_take_bit 31 k = (k + 2 ^ 31) mod 2 ^ 32 - 2 ^ 31"
    using signed_take_bit_eq_take_bit_shift [of 31 k] by (simp add: take_bit_eq_mod)
  consider "2 ^ 31 \<le> k" | "k < - (2 ^ 31)" | "- (2 ^ 31) \<le> k" "k < 2 ^ 31" by linarith
  then show ?thesis
  proof cases
    case 1
    have "(k + 2 ^ 31) mod 2 ^ 32 = (k + 2 ^ 31 - 2 ^ 32) mod 2 ^ 32"
      by (rule minus_mod_self2 [symmetric])
    also have "\<dots> = k + 2 ^ 31 - 2 ^ 32" using 1 assms by (intro mod_pos_pos_trivial) simp_all
    finally show ?thesis using 1 by (simp add: e)
  next
    case 2
    have "(k + 2 ^ 31) mod 2 ^ 32 = (k + 2 ^ 31 + 2 ^ 32) mod 2 ^ 32"
      by (rule mod_add_self2 [symmetric])
    also have "\<dots> = k + 2 ^ 31 + 2 ^ 32" using 2 assms by (intro mod_pos_pos_trivial) simp_all
    finally show ?thesis using 2 by (simp add: e)
  next
    case 3
    then have "(k + 2 ^ 31) mod 2 ^ 32 = k + 2 ^ 31" by (intro mod_pos_pos_trivial) simp_all
    then show ?thesis using 3 by (simp add: e)
  qed
qed

lemma sint_word_of_int32: "sint (word_of_int k :: u32) = signed_take_bit 31 k"
  by (simp add: signed_of_int)

lemma sint_add32: "sint (a + b) = signed_take_bit 31 (sint a + sint b)" for a b :: u32
  by (simp flip: sint_word_of_int32)
lemma sint_sub32: "sint (a - b) = signed_take_bit 31 (sint a - sint b)" for a b :: u32
  by (simp flip: sint_word_of_int32)

lemma CarryAdd_iff: "CarryAdd a b \<longleftrightarrow> 2 ^ 32 \<le> unat a + unat b"
proof -
  have "unat (0xFFFFFFFF - a) = 2 ^ 32 - 1 - unat a"
    using unat_bound [of a] by (subst unat_sub_le) (simp_all add: unat_le_iff)
  then show ?thesis using unat_bound [of a] by (auto simp: CarryAdd_def unat_lt_iff)
qed

lemma tst_bit31: "tst x 0x80000000 \<longleftrightarrow> bit x 31" for x :: u32
  using tst_pow2 [of x 31] by simp

lemma tst_xor_sign: "tst (x XOR y) 0x80000000 \<longleftrightarrow> (sint x < 0) \<noteq> (sint y < 0)" for x y :: u32
  unfolding tst_bit31 bit_xor_iff unfolding bit31_sint ..

lemma OverflowAdd_iff: "OverflowAdd a b \<longleftrightarrow> sint (a + b) \<noteq> sint a + sint b"
  unfolding OverflowAdd_def Let_def tst_xor_sign sint_add32
  using sint_range32 [of a] sint_range32 [of b] by (simp add: wrap32) linarith

lemma OverflowSub_iff: "OverflowSub a b \<longleftrightarrow> sint (a - b) \<noteq> sint a - sint b"
  unfolding OverflowSub_def Let_def tst_xor_sign sint_sub32
  using sint_range32 [of a] sint_range32 [of b] by (simp add: wrap32) linarith

lemma scast_up_sint: "sint (scast x :: s64) = sint x" for x :: u32
  by (rule sint_up_scast) (simp add: is_up)

lemma sint64_of_int:
  assumes "- (2 ^ 63) \<le> k" "k < 2 ^ 63"
  shows "sint (word_of_int k :: s64) = k"
proof -
  have "sint (word_of_int k :: s64) = signed_take_bit 63 k" by (simp add: signed_of_int)
  also have "\<dots> = k" by (rule signed_take_bit_int_eq_self) (use assms in simp_all)
  finally show ?thesis .
qed

lemma word_of_int64_eq_iff:
  assumes "- (2 ^ 40) \<le> x" "x < 2 ^ 40" "- (2 ^ 40) \<le> y" "y < 2 ^ 40"
  shows "(word_of_int x :: s64) = word_of_int y \<longleftrightarrow> x = y"
proof
  assume "(word_of_int x :: s64) = word_of_int y"
  then have "sint (word_of_int x :: s64) = sint (word_of_int y :: s64)" by simp
  moreover have "sint (word_of_int x :: s64) = x" by (rule sint64_of_int) (use assms in simp_all)
  moreover have "sint (word_of_int y :: s64) = y" by (rule sint64_of_int) (use assms in simp_all)
  ultimately show "x = y" by simp
qed simp

lemma scast_of_int: "(scast x :: s64) = word_of_int (sint x)" for x :: u32
  by (rule scast_eq)

lemma ucast_bit: "(ucast (of_bool c :: u32) :: s64) = word_of_int (of_bool c)"
  by (cases c) simp_all

lemma OverflowAdc_iff: "OverflowAdc a b (of_bool c) \<longleftrightarrow> sint (a + b + of_bool c) \<noteq> sint a + sint b + of_bool c"
proof -
  note r = sint_range32 [of a] sint_range32 [of b] sint_range32 [of "a + b + of_bool c"]
  have "OverflowAdc a b (of_bool c) \<longleftrightarrow>
      (word_of_int (sint (a + b + of_bool c)) :: s64) \<noteq> word_of_int (sint a + sint b + of_bool c)"
    unfolding OverflowAdc_def Let_def scast_of_int ucast_bit by (simp only: wi_hom_add)
  also have "\<dots> \<longleftrightarrow> sint (a + b + of_bool c) \<noteq> sint a + sint b + of_bool c"
    by (subst word_of_int64_eq_iff) (use r in \<open>cases c; simp\<close>)+
  finally show ?thesis .
qed

lemma OverflowSbc_iff: "OverflowSbc a b (of_bool c) \<longleftrightarrow> sint (a - b - of_bool c) \<noteq> sint a - sint b - of_bool c"
proof -
  note r = sint_range32 [of a] sint_range32 [of b] sint_range32 [of "a - b - of_bool c"]
  have "OverflowSbc a b (of_bool c) \<longleftrightarrow>
      (word_of_int (sint (a - b - of_bool c)) :: s64) \<noteq> word_of_int (sint a - sint b - of_bool c)"
    unfolding OverflowSbc_def Let_def scast_of_int ucast_bit by (simp only: wi_hom_sub)
  also have "\<dots> \<longleftrightarrow> sint (a - b - of_bool c) \<noteq> sint a - sint b - of_bool c"
    by (subst word_of_int64_eq_iff) (use r in \<open>cases c; simp\<close>)+
  finally show ?thesis .
qed

lemma unat_not32: "unat (NOT b :: u32) = 2 ^ 32 - 1 - unat b"
proof -
  have "NOT b = 0xFFFFFFFF - b" by (simp add: not_eq_complement)
  then show ?thesis using unat_bound [of b] by (simp add: unat_sub_le unat_le_iff)
qed

lemma sint_not32: "sint (NOT b :: u32) = - 1 - sint b"
proof -
  have "NOT b = word_of_int (- 1 - sint b)" by (simp add: not_eq_complement)
  then have "sint (NOT b) = signed_take_bit 31 (- 1 - sint b)" by (simp only: sint_word_of_int32)
  then show ?thesis using sint_range32 [of b] by (simp add: wrap32)
qed

lemma AddWithCarry_carry: "fst (snd (AddWithCarry a b c)) \<longleftrightarrow> 2 ^ 32 \<le> unat a + unat b + of_bool c"
proof -
  have "unat (word_of_nat (unat a + unat b + of_bool c) :: u32) = (unat a + unat b + of_bool c) mod 2 ^ 32"
    by (simp only: unat_of_nat) simp
  moreover have "unat a + unat b + of_bool c < 2 * 2 ^ 32" using unat_bound [of a] unat_bound [of b] by (cases c) simp_all
  ultimately show ?thesis unfolding AddWithCarry_def Let_def fst_conv snd_conv
    by (cases "unat a + unat b + of_bool c < 2 ^ 32") (simp_all add: not_less le_mod_geq)
qed

lemma adc_ref:
  "(a + b + of_bool c, CarryAdd a b \<or> CarryAdd (a + b) (of_bool c), OverflowAdc a b (of_bool c)) = AddWithCarry a b c"
proof -
  have "CarryAdd a b \<or> CarryAdd (a + b) (of_bool c) \<longleftrightarrow> 2 ^ 32 \<le> unat a + unat b + of_bool c"
  proof (cases "2 ^ 32 \<le> unat a + unat b")
    case True
    then show ?thesis by (simp add: CarryAdd_iff)
  next
    case False
    then have "unat (a + b) = unat a + unat b" by (simp add: unat_add_small)
    then show ?thesis using False by (simp add: CarryAdd_iff)
  qed
  moreover have "snd (snd (AddWithCarry a b c)) = OverflowAdc a b (of_bool c)"
    by (simp add: AddWithCarry_def Let_def OverflowAdc_iff)
  ultimately show ?thesis
    using AddWithCarry_carry [of a b c] by (simp add: prod_eq_iff) (simp add: AddWithCarry_def Let_def)
qed

lemma add_ref: "(a + b, CarryAdd a b, OverflowAdd a b) = AddWithCarry a b False"
proof -
  have "CarryAdd (a + b) 0 = False" by (simp add: CarryAdd_def)
  then show ?thesis
    using adc_ref [of a b False] by (simp add: OverflowAdd_iff AddWithCarry_def Let_def)
qed

lemma sbc_ref:
  "(a - b - of_bool (\<not> c), CarrySub a b \<and> CarrySub (a - b) (of_bool (\<not> c)), OverflowSbc a b (of_bool (\<not> c)))
     = AddWithCarry a (NOT b) c"
proof -
  have eq: "a - b - of_bool (\<not> c) = a + NOT b + of_bool c" by (cases c) (simp_all add: not_eq_complement)
  have res: "word_of_nat (unat a + unat (NOT b) + of_bool c) = a + NOT b + of_bool c" by simp
  have cin: "(CarrySub a b \<and> CarrySub (a - b) (of_bool (\<not> c))) = (2 ^ 32 \<le> unat a + unat (NOT b) + of_bool c)"
  proof (cases "b \<le> a")
    case True
    then have le: "unat b \<le> unat a" and "unat (a - b) = unat a - unat b" by (simp_all add: unat_le_iff unat_sub_le)
    then show ?thesis using unat_bound [of b] True
      by (cases c) (auto simp: CarrySub_def unat_le_iff unat_not32)
  next
    case False
    then have "unat a < unat b" by (simp add: unat_le_iff)
    then show ?thesis using unat_bound [of b] False by (cases c) (auto simp: CarrySub_def unat_le_iff unat_not32)
  qed
  have "sint a + sint (NOT b) + of_bool c = sint a - sint b - of_bool (\<not> c)"
    by (cases c) (simp_all add: sint_not32)
  then have "snd (snd (AddWithCarry a (NOT b) c)) = OverflowSbc a b (of_bool (\<not> c))"
    by (simp only: AddWithCarry_def Let_def snd_conv res OverflowSbc_iff eq)
  moreover have "fst (snd (AddWithCarry a (NOT b) c)) = (2 ^ 32 \<le> unat a + unat (NOT b) + of_bool c)"
    by (rule AddWithCarry_carry)
  ultimately show ?thesis by (simp add: cin eq prod_eq_iff) (simp add: AddWithCarry_def Let_def)
qed

lemma sub_ref: "(a - b, CarrySub a b, OverflowSub a b) = AddWithCarry a (NOT b) True"
proof -
  have "CarrySub (a - b) 0" by (simp add: CarrySub_def)
  then show ?thesis
    using sbc_ref [of a b True] by (simp add: OverflowSub_iff OverflowSbc_iff [of a b False, simplified])
qed

section \<open>The reference semantics\<close>

fun alu_ref :: "alu_op \<Rightarrow> u32 \<Rightarrow> u32 \<Rightarrow> bool \<Rightarrow> u32 \<times> (bool \<times> bool) option" where
  "alu_ref AND_op a b c = (a AND b, None)"
| "alu_ref EOR_op a b c = (a XOR b, None)"
| "alu_ref SUB_op a b c = map_prod id Some (AddWithCarry a (NOT b) True)"
| "alu_ref RSB_op a b c = map_prod id Some (AddWithCarry b (NOT a) True)"
| "alu_ref ADD_op a b c = map_prod id Some (AddWithCarry a b False)"
| "alu_ref ADC_op a b c = map_prod id Some (AddWithCarry a b c)"
| "alu_ref SBC_op a b c = map_prod id Some (AddWithCarry a (NOT b) c)"
| "alu_ref RSC_op a b c = map_prod id Some (AddWithCarry b (NOT a) c)"
| "alu_ref ORR_op a b c = (a OR b, None)"
| "alu_ref MOV_op a b c = (b, None)"
| "alu_ref BIC_op a b c = (a AND NOT b, None)"
| "alu_ref MVN_op a b c = (NOT b, None)"

definition is_logic :: "alu_op \<Rightarrow> bool" where
  "is_logic op \<longleftrightarrow> op \<in> {AND_op, EOR_op, ORR_op, MOV_op, BIC_op, MVN_op}"

definition ref_flags :: "u32 \<Rightarrow> (bool \<times> bool) option \<Rightarrow> 'm arm \<Rightarrow> 'm arm" where
  "ref_flags res cv s = (case cv of
       None \<Rightarrow> SetNZ (bit res 31) (res = 0) s
     | Some (c, v) \<Rightarrow> SetNZCV (bit res 31) (res = 0) c v s)"

lemma alu_ref_code:
  "alu_ref SUB_op a b c = (a - b, Some (CarrySub a b, OverflowSub a b))"
  "alu_ref RSB_op a b c = (b - a, Some (CarrySub b a, OverflowSub b a))"
  "alu_ref ADD_op a b c = (a + b, Some (CarryAdd a b, OverflowAdd a b))"
  "alu_ref ADC_op a b c = (a + b + of_bool c,
     Some (CarryAdd a b \<or> CarryAdd (a + b) (of_bool c), OverflowAdc a b (of_bool c)))"
  "alu_ref SBC_op a b c = (a - b - of_bool (\<not> c),
     Some (CarrySub a b \<and> CarrySub (a - b) (of_bool (\<not> c)), OverflowSbc a b (of_bool (\<not> c))))"
  "alu_ref RSC_op a b c = (b - a - of_bool (\<not> c),
     Some (CarrySub b a \<and> CarrySub (b - a) (of_bool (\<not> c)), OverflowSbc b a (of_bool (\<not> c))))"
  by (simp_all only: alu_ref.simps sub_ref [symmetric] add_ref [symmetric] map_prod_simp id_apply)
    (simp only: adc_ref [symmetric] map_prod_simp id_apply, (simp only: sbc_ref [symmetric] map_prod_simp id_apply)+)

lemma alu_instr_ref:
  "alu_instr op kind True env s =
     (let (b, s) = A_CALC_OP2 (is_logic op) kind env s;
          (res, cv) = alu_ref op (R s (reg4 16 s)) b (carry_in s)
      in write_rd_S env res (alu_cycles (op2_cycles kind) env (ref_flags res cv s)))"
  "alu_instr op kind False env s =
     (let (b, s) = A_CALC_OP2 False kind env s;
          (res, cv) = alu_ref op (R s (reg4 16 s)) b (carry_in s)
      in write_rd env res (alu_cycles (op2_cycles kind) env s))"
proof -
  have c: "(if x then 1 else 0) = (of_bool x :: u32)" "(if x then 0 else 1) = (of_bool (\<not> x) :: u32)" for x
    by simp_all
  show "alu_instr op kind True env s =
     (let (b, s) = A_CALC_OP2 (is_logic op) kind env s;
          (res, cv) = alu_ref op (R s (reg4 16 s)) b (carry_in s)
      in write_rd_S env res (alu_cycles (op2_cycles kind) env (ref_flags res cv s)))"
    by (cases op) (simp_all add: alu_instr_def A_IMPLEMENT_ALU_OP_def is_logic_def ref_flags_def Let_def case_prod_beta
       A_AND_S_def A_EOR_S_def A_SUB_S_def A_RSB_S_def A_ADD_S_def A_ADC_S_def A_SBC_S_def A_RSC_S_def A_ORR_S_def
       A_MOV_S_def A_BIC_S_def A_MVN_S_def tst_bit31 c alu_ref_code del: alu_ref.simps(3-8))
  show "alu_instr op kind False env s =
     (let (b, s) = A_CALC_OP2 False kind env s;
          (res, cv) = alu_ref op (R s (reg4 16 s)) b (carry_in s)
      in write_rd env res (alu_cycles (op2_cycles kind) env s))"
    by (cases op) (simp_all add: alu_instr_def A_IMPLEMENT_ALU_OP_def Let_def case_prod_beta
       A_AND_def A_EOR_def A_SUB_def A_RSB_def A_ADD_def A_ADC_def A_SBC_def A_RSC_def A_ORR_def
       A_MOV_def A_BIC_def A_MVN_def c alu_ref_code del: alu_ref.simps(3-8))
qed

section \<open>Results and flags\<close>

lemma bit_single:
  "bit (0x80000000 :: u32) i \<longleftrightarrow> i = 31" "bit (0x40000000 :: u32) i \<longleftrightarrow> i = 30"
  "bit (0x20000000 :: u32) i \<longleftrightarrow> i = 29" "bit (0x10000000 :: u32) i \<longleftrightarrow> i = 28"
  using bit_pow2 [of 31 i, where 'a = 32] bit_pow2 [of 30 i, where 'a = 32]
    bit_pow2 [of 29 i, where 'a = 32] bit_pow2 [of 28 i, where 'a = 32] by simp_all

lemma bit_multi:
  "bit (0xC0000000 :: u32) i \<longleftrightarrow> i = 31 \<or> i = 30"
  "bit (0xF0000000 :: u32) i \<longleftrightarrow> i = 31 \<or> i = 30 \<or> i = 29 \<or> i = 28"
proof -
  have "bit (0x80000000 OR 0x40000000 :: u32) i \<longleftrightarrow> i = 31 \<or> i = 30"
    by (simp only: bit_or_iff bit_single)
  then show "bit (0xC0000000 :: u32) i \<longleftrightarrow> i = 31 \<or> i = 30" by simp
  have "bit (0x80000000 OR 0x40000000 OR 0x20000000 OR 0x10000000 :: u32) i \<longleftrightarrow> i = 31 \<or> i = 30 \<or> i = 29 \<or> i = 28"
    by (simp only: bit_or_iff bit_single disj_assoc)
  then show "bit (0xF0000000 :: u32) i \<longleftrightarrow> i = 31 \<or> i = 30 \<or> i = 29 \<or> i = 28" by simp
qed

lemma SetNZ_bits:
  assumes "i < 32"
  shows "bit (CPSR (SetNZ n z s)) i \<longleftrightarrow> (if i = 31 then n else if i = 30 then z else bit (CPSR s) i)"
proof -
  define mn mz mnz :: u32 where "mn = 0x80000000" "mz = 0x40000000" "mnz = 0xC0000000"
  note m = this
  have b: "bit mn j \<longleftrightarrow> j = 31" "bit mz j \<longleftrightarrow> j = 30" "bit mnz j \<longleftrightarrow> j = 31 \<or> j = 30" for j
    unfolding m by (rule bit_single bit_multi)+
  show ?thesis unfolding SetNZ_def Let_def m [symmetric] using assms
    by (auto simp: bit_or_iff bit_and_iff bit_not_iff possible_bit_word b)
qed

lemma SetNZCV_bits:
  assumes "i < 32"
  shows "bit (CPSR (SetNZCV n z c v s)) i \<longleftrightarrow>
    (if i = 31 then n else if i = 30 then z else if i = 29 then c else if i = 28 then v else bit (CPSR s) i)"
proof -
  define mn mz mc mv mf :: u32 where "mn = 0x80000000" "mz = 0x40000000" "mc = 0x20000000" "mv = 0x10000000" "mf = 0xF0000000"
  note m = this
  have b: "bit mn j \<longleftrightarrow> j = 31" "bit mz j \<longleftrightarrow> j = 30" "bit mc j \<longleftrightarrow> j = 29" "bit mv j \<longleftrightarrow> j = 28"
    "bit mf j \<longleftrightarrow> j = 31 \<or> j = 30 \<or> j = 29 \<or> j = 28" for j
    unfolding m by (rule bit_single bit_multi)+
  show ?thesis unfolding SetNZCV_def Let_def m [symmetric] using assms
    by (auto simp: bit_or_iff bit_and_iff bit_not_iff possible_bit_word b)
qed

lemma SetC_bits:
  assumes "i < 32"
  shows "bit (CPSR (SetC c s)) i \<longleftrightarrow> (if i = 29 then c else bit (CPSR s) i)"
proof -
  define mc :: u32 where m: "mc = 0x20000000"
  have b: "bit mc j \<longleftrightarrow> j = 29" for j unfolding m by (rule bit_single)
  show ?thesis unfolding SetC_def m [symmetric] using assms
    by (auto simp: bit_or_iff bit_and_iff bit_not_iff possible_bit_word b)
qed

text \<open>The flag setters touch the status register only.\<close>

lemma flag_frame [simp]:
  "R (SetC c s) = R s" "CurInstr (SetC c s) = CurInstr s" "Num (SetC c s) = Num s" "Cycles (SetC c s) = Cycles s"
  "R (SetNZ n z s) = R s" "CurInstr (SetNZ n z s) = CurInstr s" "Num (SetNZ n z s) = Num s" 
  "R (SetNZCV n z c v s) = R s" "CurInstr (SetNZCV n z c v s) = CurInstr s" "Num (SetNZCV n z c v s) = Num s"
  by (simp_all add: SetC_def SetNZ_def SetNZCV_def Let_def)

lemma add_Cycles_frame [simp]:
  "R (add_Cycles c s) = R s" "CPSR (add_Cycles c s) = CPSR s" "CurInstr (add_Cycles c s) = CurInstr s" "Num (add_Cycles c s) = Num s"
  by (simp_all add: add_Cycles_def)

lemma alu_cycles_frame [simp]:
  "R (AddCycles_C env s) = R s" "CPSR (AddCycles_C env s) = CPSR s" "CurInstr (AddCycles_C env s) = CurInstr s"
  "R (AddCycles_CI env n s) = R s" "CPSR (AddCycles_CI env n s) = CPSR s" "CurInstr (AddCycles_CI env n s) = CurInstr s"
  "R (alu_cycles c env s) = R s" "CPSR (alu_cycles c env s) = CPSR s" "CurInstr (alu_cycles c env s) = CurInstr s"
  by (simp_all add: AddCycles_C_def AddCycles_CI_def alu_cycles_def)

lemma set_R_frame [simp]:
  "R (set_R i v s) = (R s)(i := v)" "CPSR (set_R i v s) = CPSR s" "CurInstr (set_R i v s) = CurInstr s" "Num (set_R i v s) = Num s"
  by (simp_all add: set_R_def)

lemma reg4_cong: "CurInstr t = CurInstr s \<Longrightarrow> reg4 k t = reg4 k s"
  by (simp add: reg4_def)

lemma A_CALC_OP2_frame [simp]:
  "R (snd (A_CALC_OP2 st kind env s)) = R s" "CurInstr (snd (A_CALC_OP2 st kind env s)) = CurInstr s"
  by (cases kind; simp add: A_CALC_OP2_def A_CALC_OP2_IMM_S_def A_CALC_OP2_IMM_def A_CALC_OP2_REG_SHIFT_IMM_def
      A_CALC_OP2_REG_SHIFT_REG_def LSL_IMM_def LSR_IMM_def ASR_IMM_def ROR_IMM_def LSL_IMM_S_def LSR_IMM_S_def
      ASR_IMM_S_def ROR_IMM_S_def LSL_REG_def LSR_REG_def ASR_REG_def ROR_REG_def LSL_REG_S_def LSR_REG_S_def
      ASR_REG_S_def ROR_REG_S_def Let_def)+

lemma A_CALC_OP2_CPSR:
  "i < 32 \<Longrightarrow> i \<noteq> 29 \<Longrightarrow> bit (CPSR (snd (A_CALC_OP2 st kind env s))) i = bit (CPSR s) i"
  "\<not> st \<Longrightarrow> CPSR (snd (A_CALC_OP2 st kind env s)) = CPSR s"
  by (cases kind; simp add: A_CALC_OP2_def A_CALC_OP2_IMM_S_def A_CALC_OP2_IMM_def A_CALC_OP2_REG_SHIFT_IMM_def
      A_CALC_OP2_REG_SHIFT_REG_def LSL_IMM_def LSR_IMM_def ASR_IMM_def ROR_IMM_def LSL_IMM_S_def LSR_IMM_S_def
      ASR_IMM_S_def ROR_IMM_S_def LSL_REG_def LSR_REG_def ASR_REG_def ROR_REG_def LSL_REG_S_def LSR_REG_S_def
      ASR_REG_S_def ROR_REG_S_def Let_def SetC_bits)+

text \<open>C32: a flag-setting data processing instruction with a destination other than the program
  counter writes the result of the architecture's operation (\<open>AddWithCarry\<close> of the operands for the
  arithmetic ones) to that register and to no other, sets N and Z from the result, C and V from the
  unsigned and signed overflow of the sum, or for a logical operation C from the shifter with V kept, and
  keeps every lower bit of the status register. It holds for all twelve operations and all nine forms of
  the second operand.\<close>

theorem alu_instr_result:
  fixes op :: alu_op and kind :: op2 and env :: "'m env" and s :: "'m arm"
  assumes "reg4 12 s \<noteq> 15"
  defines "op2 \<equiv> A_CALC_OP2 (is_logic op) kind env s"
  defines "t \<equiv> alu_instr op kind True env s"
    and "ref \<equiv> alu_ref op (R s (reg4 16 s)) (fst op2) (carry_in s)"
  shows "R t = (R s)(reg4 12 s := fst ref) \<and>
    bit (CPSR t) 31 = bit (fst ref) 31 \<and> bit (CPSR t) 30 = (fst ref = 0) \<and>
    (case snd ref of Some (c, v) \<Rightarrow> bit (CPSR t) 29 = c \<and> bit (CPSR t) 28 = v
       | None \<Rightarrow> bit (CPSR t) 29 = bit (CPSR (snd op2)) 29 \<and> bit (CPSR t) 28 = bit (CPSR s) 28) \<and>
    (\<forall>i < 28. bit (CPSR t) i = bit (CPSR s) i)"
proof -
  have logic: "snd (alu_ref op a b c) = None \<longleftrightarrow> is_logic op" for a b c
    by (cases op) (simp_all add: is_logic_def AddWithCarry_def Let_def)
  have carry: "carry_in (snd op2) = carry_in s" if "\<not> is_logic op"
    using A_CALC_OP2_CPSR(2) [of "is_logic op" kind env s] that by (simp add: op2_def carry_in_def)
  have indep: "alu_ref op a b c = alu_ref op a b c'" if "is_logic op" for a b c c'
    using that by (cases op) (simp_all add: is_logic_def)
  have ref: "alu_ref op (R s (reg4 16 s)) (fst op2) (carry_in (snd op2)) = ref"
  proof (cases "is_logic op")
    case True
    show ?thesis unfolding ref_def by (rule indep [OF True])
  next
    case False
    show ?thesis unfolding ref_def carry [OF False] ..
  qed
  have r: "reg4 k (snd op2) = reg4 k s" "R (snd op2) = R s" for k unfolding op2_def by (rule reg4_cong, simp, simp)
  have t: "t = write_rd_S env (fst ref) (alu_cycles (op2_cycles kind) env (ref_flags (fst ref) (snd ref) (snd op2)))"
    unfolding t_def alu_instr_ref(1) op2_def [symmetric] Let_def case_prod_beta r ref ..
  have cpsr: "CPSR t = CPSR (ref_flags (fst ref) (snd ref) (snd op2))"
    and regs: "R t = (R s)(reg4 12 s := fst ref)"
    unfolding t write_rd_S_def using assms(1) r
    by (simp_all add: reg4_def ref_flags_def split: option.splits)
  have op2: "bit (CPSR (snd op2)) i = bit (CPSR s) i" if "i < 32" "i \<noteq> 29" for i
    unfolding op2_def by (rule A_CALC_OP2_CPSR(1) [OF that])
  show ?thesis unfolding regs cpsr ref_flags_def
    by (cases "snd ref") (auto simp: SetNZ_bits SetNZCV_bits op2 split: prod.splits)
qed

theorem alu_instr_result_witness:
  "let t = alu_instr ADD_op IMM True flat_env ((blank_arm 0)\<lparr>CurInstr := 0xE2910001, R := (\<lambda>_. 0xFFFFFFFF)\<rparr>)
   in R t 0 = 0 \<and> bit (CPSR t) 30 \<and> bit (CPSR t) 29 \<and> \<not> bit (CPSR t) 28"
proof -
  define s where "s = (blank_arm 0)\<lparr>CurInstr := 0xE2910001, R := (\<lambda>_. 0xFFFFFFFF)\<rparr>"
  have r: "reg4 12 s = 0" "R s (reg4 16 s) = 0xFFFFFFFF" by (simp_all add: s_def reg4_def)
  have b: "fst (A_CALC_OP2 (is_logic ADD_op) IMM flat_env s) = 1"
    by (simp add: A_CALC_OP2_def is_logic_def A_CALC_OP2_IMM_def ROR_def s_def)
  have ref: "alu_ref ADD_op 0xFFFFFFFF 1 c = (0, Some (True, False))" for c
    by (simp add: AddWithCarry_def)
  show ?thesis using alu_instr_result [of s ADD_op IMM flat_env] unfolding r b ref Let_def s_def [symmetric] by simp
qed

section \<open>The shifter\<close>

datatype shift_type = SR_LSL | SR_LSR | SR_ASR | SR_ROR | SR_RRX

definition shift_ref :: "shift_type \<Rightarrow> u32 \<Rightarrow> nat \<Rightarrow> bool \<Rightarrow> u32 \<times> bool" where
  "shift_ref ty x n cin =
     (if n = 0 then (x, cin)
      else case ty of
          SR_LSL \<Rightarrow> (word_of_nat (unat x * 2 ^ n), n \<le> 32 \<and> bit x (32 - n))
        | SR_LSR \<Rightarrow> (word_of_nat (unat x div 2 ^ n), n \<le> 32 \<and> bit x (n - 1))
        | SR_ASR \<Rightarrow> (word_of_int (sint x div 2 ^ n), bit x (min n 32 - 1))
        | SR_ROR \<Rightarrow> (word_rotr n x, bit (word_rotr n x) 31)
        | SR_RRX \<Rightarrow> (word_of_nat (unat x div 2 + (if cin then 2 ^ 31 else 0)), bit x 0))"

definition decode_imm_shift :: "shift_type \<Rightarrow> nat \<Rightarrow> shift_type \<times> nat" where
  "decode_imm_shift ty n =
     (if n \<noteq> 0 \<or> ty = SR_LSL then (ty, n) else if ty = SR_ROR then (SR_RRX, 1) else (ty, 32))"

definition shifts_to :: "u32 \<times> 'm arm \<Rightarrow> 'm arm \<Rightarrow> u32 \<times> bool \<Rightarrow> bool" where
  "shifts_to res s ref \<longleftrightarrow> fst res = fst ref \<and> bit (CPSR (snd res)) 29 = snd ref \<and>
     (\<exists>c. snd res = s \<or> snd res = SetC c s)"

lemma ROR_rotr: "ROR x n = word_rotr n x"
proof (rule bit_word_eqI)
  fix i assume "i < LENGTH(32)"
  then have i: "i < 32" by simp
  define r where "r = n mod 32"
  have r: "r < 32" by (simp add: r_def)
  have rot: "bit (word_rotr n x) i = bit x ((i + r) mod 32)"
    using i by (simp add: bit_word_rotr_iff r_def mod_add_right_eq)
  have ror: "bit (ROR x n) i = (bit x (r + i) \<or> (32 - r) mod 32 \<le> i \<and> bit x (i - (32 - r) mod 32))"
    using i by (simp only: ROR_def bit_or_iff bit_drop_bit_eq bit_push_bit_iff r_def [symmetric]) simp
  show "bit (ROR x n) i = bit (word_rotr n x) i"
  proof (cases "i + r < 32")
    case True
    have m: "(i + r) mod 32 = r + i" using True by (simp add: mod_less add.commute)
    show ?thesis
    proof (cases "r = 0")
      case True
      then show ?thesis using m unfolding ror rot by simp
    next
      case False
      then have "(32 - r) mod 32 = 32 - r" by simp
      moreover have "\<not> 32 - r \<le> i" using \<open>i + r < 32\<close> by linarith
      ultimately show ?thesis using m unfolding ror rot by (simp add: add.commute)
    qed
  next
    case False
    then have ge: "32 \<le> i + r" by simp
    have "0 < r" using ge i by simp
    then have "(32 - r) mod 32 = 32 - r" by simp
    moreover have "32 - r \<le> i" using ge by simp
    moreover have "(i + r) mod 32 = i - (32 - r)"
    proof -
      have "(i + r) mod 32 = (i + r - 32) mod 32" by (rule le_mod_geq [OF ge])
      also have "\<dots> = i + r - 32" by (rule mod_less) (use i r in simp)
      finally show ?thesis using ge r by simp
    qed
    moreover have "\<not> bit x (r + i)" using ge by (auto dest: bit_imp_le_length)
    ultimately have "(32 - r) mod 32 = 32 - r" "32 - r \<le> i" "(i + r) mod 32 = i - (32 - r)" "\<not> bit x (r + i)" by blast+
    then show ?thesis unfolding ror rot by simp
  qed
qed

lemma asr_div: "asr x n = word_of_int (sint x div 2 ^ n)" for x :: u32
proof -
  have "sint (asr x n) = sint x div 2 ^ n"
    unfolding sint_signed_drop_bit_eq drop_bit_eq_div by (rule refl)
  then have "word_of_int (sint (asr x n)) = (word_of_int (sint x div 2 ^ n) :: u32)" by (rule arg_cong)
  then show ?thesis by simp
qed

lemma asr_sat: "31 \<le> n \<Longrightarrow> asr x n = asr x 31" for x :: u32
proof -
  assume n: "31 \<le> n"
  have p: "(2::int) ^ 31 \<le> 2 ^ n" using n by (intro power_increasing) simp_all
  have "sint x div 2 ^ k = (if sint x < 0 then -1 else 0)" if "(2::int) ^ 31 \<le> 2 ^ k" for k
  proof (cases "sint x < 0")
    case True
    then have "sint x = 2 ^ k * (-1) + (sint x + 2 ^ k)" "0 \<le> sint x + 2 ^ k" "sint x + 2 ^ k < 2 ^ k"
      using sint_range32 [of x] that by simp_all
    then have "sint x div 2 ^ k = -1" by (rule int_div_pos_eq)
    with True show ?thesis by simp
  next
    case False
    then have "sint x < 2 ^ k" using sint_range32 [of x] that by linarith
    with False show ?thesis by (simp add: div_pos_pos_trivial)
  qed
  from this [OF p] this [of 31] show ?thesis by (simp only: asr_div)
qed

lemma shl_mult: "shl x n = word_of_nat (unat x * 2 ^ n)" for x :: u32
  by (simp add: push_bit_eq_mult)

lemma shr_div: "shr x n = word_of_nat (unat x div 2 ^ n)" for x :: u32
  by (simp flip: unat_shr)


lemma shl_ge32: "32 \<le> n \<Longrightarrow> shl x n = 0" for x :: u32
  by (rule bit_word_eqI) (auto simp: bit_push_bit_iff)
lemma shr_ge32: "32 \<le> n \<Longrightarrow> shr x n = 0" for x :: u32
  by (rule bit_word_eqI) (auto simp: bit_drop_bit_eq dest: bit_imp_le_length)

lemma rrx: "shr x 1 OR shl (CPSR s AND 0x20000000) 2 = word_of_nat (unat x div 2 + (if carry_in s then 2 ^ 31 else 0))"
proof -
  have c: "shl (CPSR s AND 0x20000000) 2 = (if carry_in s then 0x80000000 else 0)"
    using and_pow2 [of "CPSR s" 29] by (simp add: carry_in_def)
  have bit_shr1: "bit (shr x 1) i = bit x (Suc i)" for i by (simp add: bit_drop_bit_eq)
  have d: "shr x 1 AND 0x80000000 = (0 :: u32)"
  proof (rule bit_word_eqI)
    fix i assume "i < LENGTH(32)"
    show "bit (shr x 1 AND 0x80000000) i = bit (0 :: u32) i"
      unfolding bit_and_iff bit_shr1 bit_single by (auto dest: bit_imp_le_length)
  qed
  have "shr x 1 OR 0x80000000 = shr x 1 + 0x80000000"
    by (rule disjunctive_add_eq_or [symmetric]) (rule d)
  then show ?thesis unfolding c using shr_div [where x = x and n = 1] by simp
qed

lemma carry_bit: "carry_in s = bit (CPSR s) 29"
  using tst_pow2 [of "CPSR s" 29] by (simp add: carry_in_def)

lemma SetC_carry: "bit (CPSR (SetC c s)) 29 = c" by (simp add: SetC_bits)

text \<open>The shifts by an immediate amount compute the value and the carry of the architecture's
  shifter on unbounded numbers, with an amount of zero standing for a shift by 32 (\<open>LSR\<close>, \<open>ASR\<close>) or for the
  rotation through the carry (\<open>ROR\<close>), and change nothing but the carry flag.\<close>

theorem shift_imm_ref:
  assumes "n < 32"
  shows "shifts_to (LSL_IMM_S env x n s) s (case_prod (\<lambda>ty n. shift_ref ty x n (carry_in s)) (decode_imm_shift SR_LSL n)) \<and>
    shifts_to (LSR_IMM_S env x n s) s (case_prod (\<lambda>ty n. shift_ref ty x n (carry_in s)) (decode_imm_shift SR_LSR n)) \<and>
    shifts_to (ASR_IMM_S env x n s) s (case_prod (\<lambda>ty n. shift_ref ty x n (carry_in s)) (decode_imm_shift SR_ASR n)) \<and>
    shifts_to (ROR_IMM_S env x n s) s (case_prod (\<lambda>ty n. shift_ref ty x n (carry_in s)) (decode_imm_shift SR_ROR n))"
proof (intro conjI)
  have b0: "tst x 1 = bit x 0" for x :: u32 by (rule tst_1)
  have a32: "asr x 31 = word_of_int (sint x div 4294967296)"
    using asr_sat [where x = x and n = 32] asr_div [where x = x and n = 32] by simp
  have z: "unat x div 4294967296 = 0" using unat_bound [of x] by simp
  show "shifts_to (LSL_IMM_S env x n s) s (case_prod (\<lambda>ty n. shift_ref ty x n (carry_in s)) (decode_imm_shift SR_LSL n))"
    using assms by (auto simp: shifts_to_def LSL_IMM_S_def shift_ref_def decode_imm_shift_def SetC_carry carry_bit shl_mult tst_shl1 tst_pow2)
  show "shifts_to (LSR_IMM_S env x n s) s (case_prod (\<lambda>ty n. shift_ref ty x n (carry_in s)) (decode_imm_shift SR_LSR n))"
    using assms by (auto simp: shifts_to_def LSR_IMM_S_def shift_ref_def decode_imm_shift_def SetC_carry carry_bit tst_shl1 tst_pow2 tst_bit31 z simp flip: shr_div)
  show "shifts_to (ASR_IMM_S env x n s) s (case_prod (\<lambda>ty n. shift_ref ty x n (carry_in s)) (decode_imm_shift SR_ASR n))"
    using assms a32 by (auto simp: shifts_to_def ASR_IMM_S_def shift_ref_def decode_imm_shift_def SetC_carry carry_bit tst_shl1 tst_pow2 tst_bit31 simp flip: asr_div)
  show "shifts_to (ROR_IMM_S env x n s) s (case_prod (\<lambda>ty n. shift_ref ty x n (carry_in s)) (decode_imm_shift SR_ROR n))"
  proof (cases "n = 0")
    case True
    then show ?thesis
      unfolding shifts_to_def ROR_IMM_S_def decode_imm_shift_def shift_ref_def
      by (simp only: rrx) (auto simp: SetC_carry tst_1)
  next
    case False
    then have "(31 + n) mod 32 = n - 1" using assms by (simp add: mod_if)
    with False assms show ?thesis
      by (auto simp: shifts_to_def ROR_IMM_S_def shift_ref_def decode_imm_shift_def SetC_carry tst_shl1 tst_pow2 ROR_rotr bit_word_rotr_iff)
  qed
qed

theorem shift_imm_ref_witness:
  "LSR_IMM_S flat_env 0x80000001 0 (blank_arm 0) = (0, SetC True (blank_arm 0)) \<and>
   bit (CPSR (snd (ROR_IMM_S flat_env 0x80000001 0 (blank_arm 0)))) 29"
proof -
  have "shifts_to (ROR_IMM_S flat_env 0x80000001 0 (blank_arm 0)) (blank_arm 0)
      (case_prod (\<lambda>ty n. shift_ref ty 0x80000001 n (carry_in (blank_arm 0))) (decode_imm_shift SR_ROR 0))"
    using shift_imm_ref [of 0 flat_env "0x80000001" "blank_arm 0"] by simp
  then have "bit (CPSR (snd (ROR_IMM_S flat_env 0x80000001 0 (blank_arm 0)))) 29"
    by (simp add: shifts_to_def decode_imm_shift_def shift_ref_def)
  then show ?thesis by (simp add: LSR_IMM_S_def)
qed

text \<open>The shifts by register; the amount is the low byte of the register.\<close>

lemma shift_ref_LSL:
  "shift_ref SR_LSL x n c = (if n = 0 then (x, c) else (shl x n, n \<le> 32 \<and> bit x (32 - n)))"
  by (simp add: shift_ref_def shl_mult)

text \<open>The shifts by a register amount of up to 255 compute the value and the carry of the
  architecture's shifter: amounts of 32 and more shift everything out, with the right last bit in the
  carry, and an amount of zero leaves the carry alone.\<close>

theorem shift_reg_ref:
  assumes "n \<le> 255"
  shows "shifts_to (LSL_REG_S env x n s) s (shift_ref SR_LSL x n (carry_in s)) \<and>
    shifts_to (LSR_REG_S env x n s) s (shift_ref SR_LSR x n (carry_in s)) \<and>
    shifts_to (ASR_REG_S env x n s) s (shift_ref SR_ASR x n (carry_in s))"
proof (intro conjI)
  have z: "unat x div 4294967296 = 0" using unat_bound [of x] by simp
  show "shifts_to (LSL_REG_S env x n s) s (shift_ref SR_LSL x n (carry_in s))"
    using assms by (auto simp: shifts_to_def LSL_REG_S_def shift_ref_LSL SetC_carry carry_bit tst_shl1 tst_pow2 tst_1 shl_ge32)
  show "shifts_to (LSR_REG_S env x n s) s (shift_ref SR_LSR x n (carry_in s))"
    using assms by (cases "n = 32") (auto simp: shifts_to_def LSR_REG_S_def shift_ref_def SetC_carry carry_bit tst_shl1 tst_pow2 tst_bit31 shr_ge32 z simp flip: shr_div)
  show "shifts_to (ASR_REG_S env x n s) s (shift_ref SR_ASR x n (carry_in s))"
  proof -
    have "bit x (min n 32 - 1) = (if 31 < n then bit x 31 else bit x (n - 1))" if "n \<noteq> 0"
    proof (cases "31 < n")
      case True
      then have "min n 32 = 32" by linarith
      with True show ?thesis by simp
    next
      case False
      then have "min n 32 = n" by linarith
      with False show ?thesis by simp
    qed
    then show ?thesis using asr_sat [where x = x and n = n]
      by (simp add: shifts_to_def ASR_REG_S_def shift_ref_def carry_bit tst_shl1 asr_div [symmetric] del: One_nat_def)
        (auto simp: SetC_carry tst_pow2 tst_bit31)
  qed
qed

theorem shift_reg_ref_witness:
  "fst (LSL_REG_S flat_env 3 32 (blank_arm 0)) = 0 \<and> bit (CPSR (snd (LSL_REG_S flat_env 3 32 (blank_arm 0)))) 29"
  using shift_reg_ref [of 32 flat_env 3 "blank_arm 0"] by (simp add: shifts_to_def shift_ref_def)

end
