(* ===== verification/ArmThumb.thy ===== *)
theory ArmThumb
  imports ArmAlu
begin

text \<open>The THUMB data processing instructions of \<^verbatim>\<open>src/src/ARMInterpreter_ALU.cpp\<close>.\<close>

definition reg3 :: "nat \<Rightarrow> 'm arm \<Rightarrow> nat" where
  "reg3 k s = unat (shr (CurInstr s) k AND 0x7)"

definition T_shift_imm :: "'m shiftop \<Rightarrow> 'm instr" where
  "T_shift_imm shiftop env s =
     (let op = R s (reg3 3 s);
          n = unat (shr (CurInstr s) 6 AND 0x1F);
          (op, s) = shiftop env op n s;
          s = set_R (reg3 0 s) op s;
          s = SetNZ (tst op 0x80000000) (op = 0) s
      in AddCycles_C env s)"

definition T_LSL_IMM :: "'m instr" where "T_LSL_IMM = T_shift_imm LSL_IMM_S"
definition T_LSR_IMM :: "'m instr" where "T_LSR_IMM = T_shift_imm LSR_IMM_S"
definition T_ASR_IMM :: "'m instr" where "T_ASR_IMM = T_shift_imm ASR_IMM_S"

text \<open>A result with the flags of an addition or a subtraction, written to register \<open>rd\<close>.\<close>

definition T_add_to :: "nat \<Rightarrow> u32 \<Rightarrow> u32 \<Rightarrow> 'm instr" where
  "T_add_to rd a b env s =
     (let res = a + b;
          s = set_R rd res s;
          s = SetNZCV (tst res 0x80000000) (res = 0) (CarryAdd a b) (OverflowAdd a b) s
      in AddCycles_C env s)"

definition T_sub_to :: "nat \<Rightarrow> u32 \<Rightarrow> u32 \<Rightarrow> 'm instr" where
  "T_sub_to rd a b env s =
     (let res = a - b;
          s = set_R rd res s;
          s = SetNZCV (tst res 0x80000000) (res = 0) (CarrySub a b) (OverflowSub a b) s
      in AddCycles_C env s)"

definition T_cmp :: "u32 \<Rightarrow> u32 \<Rightarrow> 'm instr" where
  "T_cmp a b env s =
     (let res = a - b;
          s = SetNZCV (tst res 0x80000000) (res = 0) (CarrySub a b) (OverflowSub a b) s
      in AddCycles_C env s)"

definition T_ADD_REG3 :: "'m instr" where
  "T_ADD_REG3 env s = T_add_to (reg3 0 s) (R s (reg3 3 s)) (R s (reg3 6 s)) env s"

definition T_SUB_REG3 :: "'m instr" where
  "T_SUB_REG3 env s = T_sub_to (reg3 0 s) (R s (reg3 3 s)) (R s (reg3 6 s)) env s"

definition T_ADD_IMM3 :: "'m instr" where
  "T_ADD_IMM3 env s = T_add_to (reg3 0 s) (R s (reg3 3 s)) (shr (CurInstr s) 6 AND 0x7) env s"

definition T_SUB_IMM3 :: "'m instr" where
  "T_SUB_IMM3 env s = T_sub_to (reg3 0 s) (R s (reg3 3 s)) (shr (CurInstr s) 6 AND 0x7) env s"

definition T_MOV_IMM :: "'m instr" where
  "T_MOV_IMM env s =
     (let b = CurInstr s AND 0xFF;
          s = set_R (reg3 8 s) b s;
          s = SetNZ False (b = 0) s
      in AddCycles_C env s)"

definition T_CMP_IMM :: "'m instr" where
  "T_CMP_IMM env s = T_cmp (R s (reg3 8 s)) (CurInstr s AND 0xFF) env s"

definition T_ADD_IMM :: "'m instr" where
  "T_ADD_IMM env s = T_add_to (reg3 8 s) (R s (reg3 8 s)) (CurInstr s AND 0xFF) env s"

definition T_SUB_IMM :: "'m instr" where
  "T_SUB_IMM env s = T_sub_to (reg3 8 s) (R s (reg3 8 s)) (CurInstr s AND 0xFF) env s"

text \<open>The register forms: destination and first operand in bits 0-2, second operand in bits 3-5.\<close>

definition T_logic :: "(u32 \<Rightarrow> u32 \<Rightarrow> u32) \<Rightarrow> 'm instr" where
  "T_logic f env s =
     (let a = R s (reg3 0 s);
          b = R s (reg3 3 s);
          res = f a b;
          s = set_R (reg3 0 s) res s;
          s = SetNZ (tst res 0x80000000) (res = 0) s
      in AddCycles_C env s)"

definition T_AND_REG :: "'m instr" where "T_AND_REG = T_logic (\<lambda>a b. a AND b)"
definition T_EOR_REG :: "'m instr" where "T_EOR_REG = T_logic (\<lambda>a b. a XOR b)"
definition T_ORR_REG :: "'m instr" where "T_ORR_REG = T_logic (\<lambda>a b. a OR b)"
definition T_BIC_REG :: "'m instr" where "T_BIC_REG = T_logic (\<lambda>a b. a AND NOT b)"
definition T_MVN_REG :: "'m instr" where "T_MVN_REG = T_logic (\<lambda>a b. NOT b)"

definition T_shift_reg :: "'m shiftop \<Rightarrow> 'm instr" where
  "T_shift_reg shiftop env s =
     (let a = R s (reg3 0 s);
          b = R s (reg3 3 s) AND 0xFF;
          (a, s) = shiftop env a (unat b) s;
          s = set_R (reg3 0 s) a s;
          s = SetNZ (tst a 0x80000000) (a = 0) s
      in AddCycles_CI env 1 s)"

definition T_LSL_REG :: "'m instr" where "T_LSL_REG = T_shift_reg LSL_REG_S"
definition T_LSR_REG :: "'m instr" where "T_LSR_REG = T_shift_reg LSR_REG_S"
definition T_ASR_REG :: "'m instr" where "T_ASR_REG = T_shift_reg ASR_REG_S"
definition T_ROR_REG :: "'m instr" where "T_ROR_REG = T_shift_reg ROR_REG_S"

definition T_ADC_REG :: "'m instr" where
  "T_ADC_REG env s =
     (let a = R s (reg3 0 s);
          b = R s (reg3 3 s);
          res_tmp = a + b;
          carry = (if carry_in s then 1 else 0);
          res = res_tmp + carry;
          s = set_R (reg3 0 s) res s;
          s = SetNZCV (tst res 0x80000000) (res = 0) (CarryAdd a b \<or> CarryAdd res_tmp carry)
                (OverflowAdc a b carry) s
      in AddCycles_C env s)"

definition T_SBC_REG :: "'m instr" where
  "T_SBC_REG env s =
     (let a = R s (reg3 0 s);
          b = R s (reg3 3 s);
          res_tmp = a - b;
          carry = (if carry_in s then 0 else 1);
          res = res_tmp - carry;
          s = set_R (reg3 0 s) res s;
          s = SetNZCV (tst res 0x80000000) (res = 0) (CarrySub a b \<and> CarrySub res_tmp carry)
                (OverflowSbc a b carry) s
      in AddCycles_C env s)"

definition T_TST_REG :: "'m instr" where
  "T_TST_REG env s =
     (let a = R s (reg3 0 s);
          b = R s (reg3 3 s);
          res = a AND b
      in AddCycles_C env (SetNZ (tst res 0x80000000) (res = 0) s))"

definition T_NEG_REG :: "'m instr" where
  "T_NEG_REG env s =
     (let b = R s (reg3 3 s);
          res = - b;
          s = set_R (reg3 0 s) res s;
          s = SetNZCV (tst res 0x80000000) (res = 0) (CarrySub 0 b) (OverflowSub 0 b) s
      in AddCycles_C env s)"

definition T_CMP_REG :: "'m instr" where
  "T_CMP_REG env s = T_cmp (R s (reg3 0 s)) (R s (reg3 3 s)) env s"

definition T_CMN_REG :: "'m instr" where
  "T_CMN_REG env s =
     (let a = R s (reg3 0 s);
          b = R s (reg3 3 s);
          res = a + b;
          s = SetNZCV (tst res 0x80000000) (res = 0) (CarryAdd a b) (OverflowAdd a b) s
      in AddCycles_C env s)"

definition T_MUL_REG :: "'m instr" where
  "T_MUL_REG env s =
     (let a = R s (reg3 0 s);
          b = R s (reg3 3 s);
          res = a * b;
          s = set_R (reg3 0 s) res s;
          s = SetNZ (tst res 0x80000000) (res = 0) s
      in if Num s = 0 then AddCycles_CI env 3 s
         else
           let s = SetC False s;
               cycles = (if tst a 0xFF000000 then 4 else if tst a 0x00FF0000 then 3
                         else if tst a 0x0000FF00 then 2 else 1)
           in AddCycles_CI env cycles s)"

text \<open>The forms that reach all sixteen registers.\<close>

definition reg_hi :: "'m arm \<Rightarrow> nat" where
  "reg_hi s = unat ((CurInstr s AND 0x7) OR (shr (CurInstr s) 4 AND 0x8))"

definition T_ADD_HIREG :: "'m instr" where
  "T_ADD_HIREG env s =
     (let rd = reg_hi s;
          rs = reg4 3 s;
          a = R s rd;
          b = R s rs;
          s = AddCycles_C env s
      in if rd = 15 then JumpTo env ((a + b) OR 1) False s else set_R rd (a + b) s)"

definition T_CMP_HIREG :: "'m instr" where
  "T_CMP_HIREG env s = T_cmp (R s (reg_hi s)) (R s (reg4 3 s)) env s"

definition T_MOV_HIREG :: "'m instr" where
  "T_MOV_HIREG env s =
     (let rd = reg_hi s;
          rs = reg4 3 s;
          s = AddCycles_C env s;
          s = (if rd = 15 then JumpTo env (R s rs OR 1) False s else set_R rd (R s rs) s)
      in if CurInstr s AND 0xFFFF = 0x46E4 \<and> NextInstr s 0 AND 0xF800 = 0xE000 \<and> NextInstr s 1 AND 0xFFFF = 0x6464
         then let addr = R s 15 + 4 in upd_con (NocashPrint env (Num s) addr) s
         else s)"

definition T_ADD_PCREL :: "'m instr" where
  "T_ADD_PCREL env s =
     (let val = R s 15 AND NOT 2;
          val = val + shl (CurInstr s AND 0xFF) 2
      in AddCycles_C env (set_R (reg3 8 s) val s))"

definition T_ADD_SPREL :: "'m instr" where
  "T_ADD_SPREL env s =
     (let val = R s 13;
          val = val + shl (CurInstr s AND 0xFF) 2
      in AddCycles_C env (set_R (reg3 8 s) val s))"

definition T_ADD_SP :: "'m instr" where
  "T_ADD_SP env s =
     (let val = R s 13;
          val = (if tst (CurInstr s) (shl 1 7) then val - shl (CurInstr s AND 0x7F) 2
                 else val + shl (CurInstr s AND 0x7F) 2)
      in AddCycles_C env (set_R 13 val s))"

end
