(* ===== verification/ArmBranch.thy ===== *)
theory ArmBranch
  imports ArmThumb
begin

text \<open>
  The branches of \<^verbatim>\<open>src/src/ARMInterpreter_Branch.cpp\<close> and the status register and system call
  instructions of \<^verbatim>\<open>src/src/ARMInterpreter.cpp\<close>.
\<close>

section \<open>Branches\<close>

definition A_B :: "'m instr" where
  "A_B env s =
     (let offset = asr (shl (CurInstr s) 8) 6 in JumpTo env (R s 15 + offset) False s)"

definition A_BL :: "'m instr" where
  "A_BL env s =
     (let offset = asr (shl (CurInstr s) 8) 6;
          s = set_R 14 (R s 15 - 4) s
      in JumpTo env (R s 15 + offset) False s)"

definition A_BLX_IMM :: "'m instr" where
  "A_BLX_IMM env s =
     (let offset = asr (shl (CurInstr s) 8) 6;
          offset = (if tst (CurInstr s) 0x01000000 then offset + 2 else offset);
          s = set_R 14 (R s 15 - 4) s
      in JumpTo env (R s 15 + offset + 1) False s)"

definition A_BX :: "'m instr" where
  "A_BX env s = JumpTo env (R s (reg4 0 s)) False s"

definition A_BLX_REG :: "'m instr" where
  "A_BLX_REG env s =
     (let lr = R s 15 - 4;
          s = JumpTo env (R s (reg4 0 s)) False s
      in set_R 14 lr s)"

definition T_BCOND :: "'m instr" where
  "T_BCOND env s =
     (if CheckCondition (reg4 8 s) s then
        let offset = asr (shl (CurInstr s) 24) 23 in JumpTo env (R s 15 + offset + 1) False s
      else AddCycles_C env s)"

definition T_BX :: "'m instr" where
  "T_BX env s = JumpTo env (R s (reg4 3 s)) False s"

definition T_BLX_REG :: "'m instr" where
  "T_BLX_REG env s =
     (if Num s = 1 then s
      else
        let lr = R s 15 - 1;
            s = JumpTo env (R s (reg4 3 s)) False s
        in set_R 14 lr s)"

definition T_B :: "'m instr" where
  "T_B env s =
     (let offset = asr (shl (CurInstr s AND 0x7FF) 21) 20 in JumpTo env (R s 15 + offset + 1) False s)"

definition T_BL_LONG_1 :: "'m instr" where
  "T_BL_LONG_1 env s =
     (let offset = asr (shl (CurInstr s AND 0x7FF) 21) 9
      in AddCycles_C env (set_R 14 (R s 15 + offset) s))"

definition T_BL_LONG_2 :: "'m instr" where
  "T_BL_LONG_2 env s =
     (let offset = shl (CurInstr s AND 0x7FF) 1;
          pc = R s 14 + offset
      in if Num s = 1 \<or> tst (CurInstr s) (shl 1 12) then
           JumpTo env (pc OR 1) False (set_R 14 ((R s 15 - 2) OR 1) s)
         else if tst (CurInstr s) 1 then T_UNK env s
         else JumpTo env (pc AND NOT 1) False (set_R 14 ((R s 15 - 2) OR 1) s))"

section \<open>Status registers\<close>

definition set_spsr :: "u32 \<Rightarrow> 'm arm \<Rightarrow> 'm arm" where
  "set_spsr v s =
     (let m = CPSR s AND 0x1F in
      if m = 0x11 then s\<lparr>R_FIQ := (R_FIQ s)(7 := v)\<rparr>
      else if m = 0x12 then s\<lparr>R_IRQ := (R_IRQ s)(2 := v)\<rparr>
      else if m = 0x13 then s\<lparr>R_SVC := (R_SVC s)(2 := v)\<rparr>
      else if 0x14 \<le> m \<and> m \<le> 0x17 then s\<lparr>R_ABT := (R_ABT s)(2 := v)\<rparr>
      else if 0x18 \<le> m \<and> m \<le> 0x1B then s\<lparr>R_UND := (R_UND s)(2 := v)\<rparr>
      else s)"

text \<open>\<^verbatim>\<open>A_MSR_IMM\<close> and \<^verbatim>\<open>A_MSR_REG\<close> differ in the value only. \<open>spsr s = None\<close> is the default case of
  their switch.\<close>

definition msr_mask :: "'m arm \<Rightarrow> u32" where
  "msr_mask s =
     (let i = CurInstr s; m = 0;
          m = (if tst i (shl 1 16) then m OR 0x000000FF else m);
          m = (if tst i (shl 1 17) then m OR 0x0000FF00 else m);
          m = (if tst i (shl 1 18) then m OR 0x00FF0000 else m);
          m = (if tst i (shl 1 19) then m OR 0xFF000000 else m);
          m = (if \<not> tst i (shl 1 22) then m AND 0xFFFFFFDF else m)
      in if CPSR s AND 0x1F = 0x10 then m AND 0xFFFFFF00 else m)"

definition msr :: "u32 \<Rightarrow> 'm instr" where
  "msr val env s =
     (let m = msr_mask s; val = val OR 0x00000010 in
      if tst (CurInstr s) (shl 1 22) then
        (case spsr s of
           None \<Rightarrow> AddCycles_C env s
         | Some oldpsr \<Rightarrow> AddCycles_C env (set_spsr ((oldpsr AND NOT m) OR (val AND m)) s))
      else
        let oldpsr = CPSR s;
            s = s\<lparr>CPSR := (oldpsr AND NOT m) OR (val AND m)\<rparr>
        in AddCycles_C env (UpdateMode oldpsr (CPSR s) False s))"

definition A_MSR_IMM :: "'m instr" where
  "A_MSR_IMM env s =
     msr (ROR (CurInstr s AND 0xFF) (unat (shr (CurInstr s) 7 AND 0x1E))) env s"

definition A_MSR_REG :: "'m instr" where
  "A_MSR_REG env s = msr (R s (reg4 0 s)) env s"

definition A_MRS :: "'m instr" where
  "A_MRS env s =
     (let psr = (if tst (CurInstr s) (shl 1 22)
                 then (case spsr s of Some v \<Rightarrow> v | None \<Rightarrow> CPSR s) else CPSR s)
      in AddCycles_C env (set_R (reg4 12 s) psr s))"

section \<open>System calls\<close>

definition enter_svc :: "u32 \<Rightarrow> 'm instr" where
  "enter_svc back env s =
     (let oldcpsr = CPSR s;
          s = s\<lparr>CPSR := CPSR s AND NOT 0xBF\<rparr>;
          s = s\<lparr>CPSR := CPSR s OR 0x93\<rparr>;
          s = UpdateMode oldcpsr (CPSR s) False s;
          s = s\<lparr>R_SVC := (R_SVC s)(2 := oldcpsr)\<rparr>;
          s = set_R 14 (R s 15 - back) s
      in JumpTo env (ExceptionBase s + 0x08) False s)"

definition A_SVC :: "'m instr" where "A_SVC = enter_svc 4"
definition T_SVC :: "'m instr" where "T_SVC = enter_svc 2"

end
