(* ===== verification/ArmModes.thy ===== *)
theory ArmModes
  imports ArmAluSpec ArmBranch
begin

text \<open>
  Conditions, banked registers, jumps and exceptions of the processors: the condition table against
  the architecture's conditions, mode switches as exchanges of banks, what a jump leaves alone, and
  the entry into and the return from every exception.
\<close>

section \<open>Conditions\<close>

definition arm_condition :: "nat \<Rightarrow> bool \<Rightarrow> bool \<Rightarrow> bool \<Rightarrow> bool \<Rightarrow> bool" where
  "arm_condition code n z c v =
     (let k = code div 2;
          base = (if k = 0 then z else if k = 1 then c else if k = 2 then n else if k = 3 then v
            else if k = 4 then c \<and> \<not> z else if k = 5 then n = v else if k = 6 then \<not> z \<and> n = v else True)
      in base = even code)"

lemma nat_lt_16: "k < 16 \<Longrightarrow> k \<in> set [0..<16]"
  by simp

lemma bit_top4:
  "bit (shr x 28) i = bit x (28 + i)" for x :: u32
  by (simp add: bit_drop_bit_eq)

lemma ConditionTable_bits:
  assumes "code < 16" "k < 16"
  shows "bit (ConditionTable ! code) k = arm_condition code (bit k 3) (bit k 2) (bit k 1) (bit k 0)"
proof -
  have "\<forall>code \<in> set [0..<16]. \<forall>k \<in> set [0..<16].
     bit (ConditionTable ! code) k = arm_condition code (bit k 3) (bit k 2) (bit k 1) (bit k 0)"
    by code_simp
  then show ?thesis using nat_lt_16 [OF assms(1)] nat_lt_16 [OF assms(2)] by blast
qed

text \<open>A condition code is tested as the architecture defines it, for all sixteen codes and all
  sixteen settings of the flags, with the code 15 never true.\<close>

theorem CheckCondition_arm:
  assumes "code < 16"
  shows "CheckCondition code s =
    arm_condition code (bit (CPSR s) 31) (bit (CPSR s) 30) (bit (CPSR s) 29) (bit (CPSR s) 28)"
proof -
  define k where "k = unat (shr (CPSR s) 28)"
  have k: "k < 16"
    using unat_bound [of "CPSR s"] unfolding k_def unat_shr by (intro less_mult_imp_div_less) simp
  have b: "bit k i = bit (CPSR s) (28 + i)" for i
    unfolding k_def by (simp add: bit_unsigned_iff bit_drop_bit_eq bit_imp_le_length)
  have "CheckCondition code s = bit (ConditionTable ! code) k"
    using tst_shl1 [of "ConditionTable ! code" k] k ConditionTable_bits [OF assms k]
    by (cases "code = 14") (auto simp: CheckCondition_def k_def [symmetric] arm_condition_def)
  then show ?thesis using ConditionTable_bits [OF assms k] b [of 3] b [of 2] b [of 1] b [of 0] by simp
qed

theorem CheckCondition_arm_witness: "CheckCondition 12 (blank_arm 0) \<and> \<not> CheckCondition 15 (blank_arm 0)"
  using CheckCondition_arm [of 12 "blank_arm 0"] CheckCondition_arm [of 15 "blank_arm 0"]
  by (simp add: arm_condition_def)

section \<open>Banked registers\<close>

lemma swap_regs_twice:
  "fst (swap_regs r n (fst (swap_regs r n a b)) (snd (swap_regs r n a b))) = a"
  "snd (swap_regs r n (fst (swap_regs r n a b)) (snd (swap_regs r n a b))) = b"
  by (auto simp: swap_regs_def fun_eq_iff)

lemma swap_bank_twice: "swap_bank m (swap_bank m s) = s"
  by (simp add: swap_bank_def Let_def case_prod_beta swap_regs_twice)

lemma swap_bank_MapUser: "swap_bank m (s\<lparr>PU_MapUser := b\<rparr>) = (swap_bank m s)\<lparr>PU_MapUser := b\<rparr>"
  by (simp add: swap_bank_def Let_def case_prod_beta)

text \<open>A switch to another mode and back restores every register and every banked register; only
  the selection of the memory protection map may differ.\<close>

theorem UpdateMode_back:
  "\<exists>b. UpdateMode new old p (UpdateMode old new p s) = s\<lparr>PU_MapUser := b\<rparr>"
proof (cases "old AND 0x1F = new AND 0x1F")
  case True
  then show ?thesis by (intro exI [of _ "PU_MapUser s"]) (simp add: UpdateMode_def)
next
  case False
  have u: "\<exists>b. UpdateMode x y p t = (swap_bank y (swap_bank x t))\<lparr>PU_MapUser := b\<rparr>"
    if "x AND 0x1F \<noteq> y AND 0x1F" for x y t
    using that by (auto simp: UpdateMode_def Let_def intro: exI [of _ "PU_MapUser (swap_bank y (swap_bank x t))"])
  obtain b where b: "UpdateMode old new p s = (swap_bank new (swap_bank old s))\<lparr>PU_MapUser := b\<rparr>"
    using u [OF False] by blast
  obtain c where "UpdateMode new old p (UpdateMode old new p s) =
      (swap_bank old (swap_bank new (UpdateMode old new p s)))\<lparr>PU_MapUser := c\<rparr>"
    using u [of new old] False by metis
  then show ?thesis unfolding b by (intro exI [of _ c]) (simp add: swap_bank_MapUser swap_bank_twice)
qed


section \<open>What a jump leaves alone\<close>

text \<open>The part of the processor that instruction fetches do not touch.\<close>

definition core :: "'m arm \<Rightarrow> (nat \<Rightarrow> u32) \<times> u32 \<times> ((nat \<Rightarrow> u32) \<times> (nat \<Rightarrow> u32) \<times> (nat \<Rightarrow> u32) \<times> (nat \<Rightarrow> u32) \<times> (nat \<Rightarrow> u32)) \<times>
    nat \<times> u32 \<times> ((nat \<Rightarrow> u8) \<times> (nat \<Rightarrow> u8) \<times> bool) \<times> u32" where
  "core s = (R s, CPSR s, (R_FIQ s, R_SVC s, R_ABT s, R_IRQ s, R_UND s), Num s, ExceptionBase s,
     (PU_PrivMap s, PU_UserMap s, PU_MapUser s), CurInstr s)"

lemma core_eqD:
  assumes "core t = core s"
  shows "R t = R s" "CPSR t = CPSR s" "R_FIQ t = R_FIQ s" "R_SVC t = R_SVC s" "R_ABT t = R_ABT s" "R_IRQ t = R_IRQ s"
    "R_UND t = R_UND s" "Num t = Num s" "ExceptionBase t = ExceptionBase s" "PU_PrivMap t = PU_PrivMap s"
    "PU_UserMap t = PU_UserMap s" "PU_MapUser t = PU_MapUser s" "CurInstr t = CurInstr s" "PU_Map t = PU_Map s"
  using assms by (simp_all add: core_def PU_Map_def)

lemma core_upd [simp]:
  "core (s\<lparr>CodeCycles := v1\<rparr>) = core s" "core (s\<lparr>con := v2\<rparr>) = core s" "core (s\<lparr>NextInstr := v3\<rparr>) = core s"
  "core (s\<lparr>Cycles := v4\<rparr>) = core s" "core (s\<lparr>RegionCodeCycles := v5\<rparr>) = core s" "core (s\<lparr>CodeMem := v6\<rparr>) = core s"
  "core (s\<lparr>CodeRegion := v7\<rparr>) = core s"
  by (simp_all add: core_def)

lemma core_R_cong: "core t = core s \<Longrightarrow> core (t\<lparr>R := r\<rparr>) = core (s\<lparr>R := r\<rparr>)"
  and core_CPSR_cong: "core t = core s \<Longrightarrow> core (t\<lparr>CPSR := c\<rparr>) = core (s\<lparr>CPSR := c\<rparr>)"
  by (simp_all add: core_def)

lemma core_fetch [simp]:
  "core (snd (CodeRead32_9 env a b s)) = core s" "core (snd (CodeRead16_7 env a s)) = core s"
  "core (snd (CodeRead32_7 env a s)) = core s"
  by (auto simp: CodeRead32_9_def CodeRead16_7_def CodeRead32_7_def Let_def case_prod_beta split: option.split)

lemma core_ops [simp]:
  "core (set_Next i vs) = core (snd vs)" "core (add_Cycles c s) = core s" "core (SetupCodeMem env a s) = core s"
  "core (upd_con f s) = core s"
  by (simp_all add: set_Next_def add_Cycles_def SetupCodeMem_def upd_con_def case_prod_beta)

definition jump_target :: "u32 \<Rightarrow> u32" where
  "jump_target addr = (if tst addr 1 then addr AND NOT 1 else addr AND NOT 3)"

definition jumped :: "u32 \<Rightarrow> 'm arm \<Rightarrow> 'm arm" where
  "jumped addr s = s\<lparr>R := (R s)(15 := jump_target addr + (if tst addr 1 then 2 else 4)),
     CPSR := (if tst addr 1 then CPSR s OR 0x20 else CPSR s AND NOT 0x20)\<rparr>"

lemma core_jumped:
  assumes "core u = core (set_R 15 (jump_target addr + (if tst addr 1 then 2 else 4)) s)"
  shows "core (u\<lparr>CPSR := (if tst addr 1 then CPSR u OR 0x20 else CPSR u AND NOT 0x20)\<rparr>) = core (jumped addr s)"
  using core_CPSR_cong [OF assms] core_eqD(2) [OF assms] by (simp add: jumped_def set_R_def core_def)

lemma core_fetch_9 [simp]: "core (fetch_9_thumb env a s) = core s" "core (fetch_9_arm env a s) = core s"
  by (simp_all add: fetch_9_thumb_def fetch_9_arm_def Let_def case_prod_beta)

lemma core_set_R: "core (set_R i v (s\<lparr>RegionCodeCycles := x\<rparr>)) = core (set_R i v s)"
  "core (set_R i v (s\<lparr>CodeRegion := y, CodeCycles := z\<rparr>)) = core (set_R i v s)"
  by (simp_all add: core_def set_R_def)

lemma refill_9_core:
  "fst (refill_9 env addr s) = jump_target addr \<and> core (snd (refill_9 env addr s)) = core (jumped addr s)"
proof (cases "tst addr 1")
  case True
  let ?a = "addr AND NOT 1"
  let ?s = "set_R 15 (?a + 2) (s\<lparr>RegionCodeCycles := ucast (MemTimings s (unat (shr addr 12)) 0)\<rparr>)"
  let ?u = "fetch_9_thumb env ?a (if shr addr 24 \<noteq> shr (R s 15) 24 then SetupCodeMem env ?a ?s else ?s)"
  have r: "refill_9 env addr s = (?a, ?u\<lparr>CPSR := CPSR ?u OR 0x20\<rparr>)"
    using True unfolding refill_9_def Let_def by (simp only: not_False_eq_True if_True)
  have "core ?u = core (set_R 15 (jump_target addr + (if tst addr 1 then 2 else 4)) s)"
    using True by (simp add: core_set_R jump_target_def del: One_nat_def)
  from core_jumped [OF this] True show ?thesis unfolding r by (simp add: jump_target_def)
next
  case False
  let ?a = "addr AND NOT 3"
  let ?s = "set_R 15 (?a + 4) (s\<lparr>RegionCodeCycles := ucast (MemTimings s (unat (shr addr 12)) 0)\<rparr>)"
  let ?u = "fetch_9_arm env ?a (if shr addr 24 \<noteq> shr (R s 15) 24 then SetupCodeMem env ?a ?s else ?s)"
  have r: "refill_9 env addr s = (?a, ?u\<lparr>CPSR := CPSR ?u AND NOT 0x20\<rparr>)"
    using False unfolding refill_9_def Let_def by (simp only: not_True_eq_False if_False)
  have "core ?u = core (set_R 15 (jump_target addr + (if tst addr 1 then 2 else 4)) s)"
    using False by (simp add: core_set_R jump_target_def del: One_nat_def)
  from core_jumped [OF this] False show ?thesis unfolding r by (simp add: jump_target_def)
qed

lemma JumpTo_7_core: "core (JumpTo_7 env addr False s) = core (jumped addr s)"
proof (cases "tst addr 1")
  case True
  have "core (snd (CodeRead16_7 env b (set_Next i (CodeRead16_7 env c t)))) = core t" for b i c t by simp
  define u where "u = (let s = set_R 15 ((addr AND NOT 1) + 2) (s\<lparr>CodeRegion := shr addr 24, CodeCycles := shr addr 15\<rparr>);
      s = set_Next 0 (CodeRead16_7 env (addr AND NOT 1) s);
      s = set_Next 1 (CodeRead16_7 env ((addr AND NOT 1) + 2) s)
    in add_Cycles (timing_7 env 0 s + timing_7 env 1 s) s)"
  have r: "JumpTo_7 env addr False s = u\<lparr>CPSR := CPSR u OR 0x20\<rparr>"
    using True unfolding JumpTo_7_def jump_restore_def u_def Let_def by (simp only: not_False_eq_True if_True if_False prod.case)
  have "core u = core (set_R 15 (jump_target addr + (if tst addr 1 then 2 else 4)) s)"
    using True unfolding u_def Let_def by (simp add: core_set_R jump_target_def)
  from core_jumped [OF this] True show ?thesis unfolding r by simp
next
  case False
  define u where "u = (let s = set_R 15 ((addr AND NOT 3) + 4) (s\<lparr>CodeRegion := shr addr 24, CodeCycles := shr addr 15\<rparr>);
      s = set_Next 0 (CodeRead32_7 env (addr AND NOT 3) s);
      s = set_Next 1 (CodeRead32_7 env ((addr AND NOT 3) + 4) s)
    in add_Cycles (timing_7 env 2 s + timing_7 env 3 s) s)"
  have r: "JumpTo_7 env addr False s = u\<lparr>CPSR := CPSR u AND NOT 0x20\<rparr>"
    using False unfolding JumpTo_7_def jump_restore_def u_def Let_def by (simp only: not_True_eq_False if_False prod.case)
  have "core u = core (set_R 15 (jump_target addr + (if tst addr 1 then 2 else 4)) s)"
    using False unfolding u_def Let_def by (simp add: core_set_R jump_target_def)
  from core_jumped [OF this] False show ?thesis unfolding r by simp
qed

definition executable :: "'m arm \<Rightarrow> u32 \<Rightarrow> bool" where
  "executable s addr \<longleftrightarrow> (Num s = 0 \<longrightarrow> tst (PU_Map s (unat (shr (jump_target addr) 12))) 0x04)"

lemma JumpTo_fuel_executable:
  assumes "tst (PU_Map s (unat (shr (jump_target addr) 12))) 0x04"
  shows "JumpTo_fuel (Suc n) env addr False s =
    upd_con (MonitorARM9Jump env (jump_target addr)) (snd (refill_9 env addr s))"
proof -
  have r: "fst (refill_9 env addr s) = jump_target addr" "core (snd (refill_9 env addr s)) = core (jumped addr s)"
    using refill_9_core [of env addr s] by simp_all
  have "PU_Map (snd (refill_9 env addr s)) = PU_Map s"
    unfolding core_eqD(14) [OF r(2)] by (simp add: PU_Map_def jumped_def)
  then show ?thesis using assms r(1) by (simp add: jump_restore_def case_prod_beta Let_def)
qed

lemma JumpTo_core:
  assumes "executable s addr"
  shows "core (JumpTo env addr False s) = core (jumped addr s)"
proof (cases "Num s = 0")
  case True
  then have "tst (PU_Map s (unat (shr (jump_target addr) 12))) 0x04" using assms by (simp add: executable_def)
  from JumpTo_fuel_executable [OF this, of 1 env] True show ?thesis
    using refill_9_core [of env addr s] by (simp add: JumpTo_def JumpTo_9_def numeral_2_eq_2)
next
  case False
  then show ?thesis by (simp add: JumpTo_def JumpTo_7_core)
qed

section \<open>Exceptions\<close>

text \<open>Two processors with the same registers, in \<open>R\<close> (but the program counter) and in the banks, the bank of mode
  \<open>m\<close> left out.\<close>

definition same_regs :: "u32 \<Rightarrow> 'm arm \<Rightarrow> 'm arm \<Rightarrow> bool" where
  "same_regs m a b \<longleftrightarrow> (\<forall>i<15. R a i = R b i) \<and> (\<forall>i<7. R_FIQ a i = R_FIQ b i) \<and>
     (m \<noteq> 0x12 \<longrightarrow> (\<forall>i<2. R_IRQ a i = R_IRQ b i)) \<and> (m \<noteq> 0x13 \<longrightarrow> (\<forall>i<2. R_SVC a i = R_SVC b i)) \<and>
     (m \<noteq> 0x17 \<longrightarrow> (\<forall>i<2. R_ABT a i = R_ABT b i)) \<and> (m \<noteq> 0x1B \<longrightarrow> (\<forall>i<2. R_UND a i = R_UND b i))"

lemma same_regs_swap:
  assumes "same_regs m a b" "old AND 0x1F \<noteq> m"
  shows "same_regs m (swap_bank old a) (swap_bank old b)"
proof -
  define o' where "o' = old AND 0x1F"
  consider "o' = 0x11" | "o' = 0x12" | "o' = 0x13" | "o' = 0x17" | "o' = 0x1B" | "o' \<notin> {0x11, 0x12, 0x13, 0x17, 0x1B}" by blast
  then show ?thesis
    using assms by cases (auto simp: same_regs_def swap_bank_def swap_regs_def o'_def [symmetric])
qed

lemma swap_bank_other:
  "CPSR (swap_bank m s) = CPSR s" "Num (swap_bank m s) = Num s" "ExceptionBase (swap_bank m s) = ExceptionBase s"
  "PU_PrivMap (swap_bank m s) = PU_PrivMap s" "PU_UserMap (swap_bank m s) = PU_UserMap s"
  "PU_MapUser (swap_bank m s) = PU_MapUser s" "CurInstr (swap_bank m s) = CurInstr s" "R (swap_bank m s) 15 = R s 15"
  by (simp_all add: swap_bank_def swap_regs_def Let_def)

lemma swap_bank_spsr:
  "R_FIQ (swap_bank m s) 7 = R_FIQ s 7" "R_SVC (swap_bank m s) 2 = R_SVC s 2" "R_ABT (swap_bank m s) 2 = R_ABT s 2"
  "R_IRQ (swap_bank m s) 2 = R_IRQ s 2" "R_UND (swap_bank m s) 2 = R_UND s 2"
  by (simp_all add: swap_bank_def swap_regs_def Let_def)

lemma swap_bank_R_cong: "swap_bank m (s\<lparr>CPSR := c\<rparr>) = (swap_bank m s)\<lparr>CPSR := c\<rparr>"
  by (simp add: swap_bank_def Let_def case_prod_beta)

definition exc_modes :: "u32 set" where "exc_modes = {0x12, 0x13, 0x17, 0x1B}"

lemma exc_modesE:
  assumes "m \<in> exc_modes" obtains "m = 0x12" | "m = 0x13" | "m = 0x17" | "m = 0x1B"
  using assms by (auto simp: exc_modes_def)

lemma swap_out:
  assumes "m \<in> exc_modes" "\<forall>i<14. R t i = R (swap_bank m u) i"
    "\<forall>i<7. R_FIQ t i = R_FIQ (swap_bank m u) i" "\<forall>i<2. R_IRQ t i = R_IRQ (swap_bank m u) i"
    "\<forall>i<2. R_SVC t i = R_SVC (swap_bank m u) i" "\<forall>i<2. R_ABT t i = R_ABT (swap_bank m u) i"
    "\<forall>i<2. R_UND t i = R_UND (swap_bank m u) i"
  shows "same_regs m (swap_bank m t) u"
proof -
  have two: "i < 15 \<Longrightarrow> i < 14 \<or> i = 14" "i < 2 \<Longrightarrow> i = 0 \<or> i = 1" for i :: nat by auto
  show ?thesis
    using assms by (elim exc_modesE) (auto simp: same_regs_def swap_bank_def swap_regs_def)
qed


definition enter_exc :: "u32 \<Rightarrow> u32 \<Rightarrow> 'm arm \<Rightarrow> 'm arm" where
  "enter_exc new lr s =
     set_R 14 lr (set_spsr (CPSR s) (UpdateMode (CPSR s) new False (s\<lparr>CPSR := new\<rparr>)))"

lemma UpdateMode_CPSR [simp]: "CPSR (UpdateMode a b p s) = CPSR s"
  and UpdateMode_other [simp]: "Num (UpdateMode a b p s) = Num s" "ExceptionBase (UpdateMode a b p s) = ExceptionBase s"
    "PU_PrivMap (UpdateMode a b p s) = PU_PrivMap s" "PU_UserMap (UpdateMode a b p s) = PU_UserMap s" "R (UpdateMode a b p s) 15 = R s 15"
  by (simp_all add: UpdateMode_def Let_def swap_bank_other)

lemma set_spsr_other [simp]:
  "CPSR (set_spsr v s) = CPSR s" "Num (set_spsr v s) = Num s" "ExceptionBase (set_spsr v s) = ExceptionBase s"
  "PU_PrivMap (set_spsr v s) = PU_PrivMap s" "PU_UserMap (set_spsr v s) = PU_UserMap s" "R (set_spsr v s) = R s"
  "PU_MapUser (set_spsr v s) = PU_MapUser s"
  by (simp_all add: set_spsr_def Let_def)

lemma set_spsr_banks:
  "i < 7 \<Longrightarrow> R_FIQ (set_spsr v s) i = R_FIQ s i" "i < 2 \<Longrightarrow> R_IRQ (set_spsr v s) i = R_IRQ s i"
  "i < 2 \<Longrightarrow> R_SVC (set_spsr v s) i = R_SVC s i" "i < 2 \<Longrightarrow> R_ABT (set_spsr v s) i = R_ABT s i"
  "i < 2 \<Longrightarrow> R_UND (set_spsr v s) i = R_UND s i"
  by (simp_all add: set_spsr_def Let_def)

lemma spsr_set_spsr: "CPSR s AND 0x1F \<in> exc_modes \<Longrightarrow> spsr (set_spsr v s) = Some v"
  by (elim exc_modesE) (simp_all add: spsr_def set_spsr_def Let_def)

lemma mode_of_jumped: "CPSR (jumped addr s) AND 0x1F = CPSR s AND 0x1F"
  by (simp add: jumped_def and.assoc bit.conj_disj_distrib2)

lemma spsr_cong:
  assumes "CPSR t AND 0x1F = CPSR s AND 0x1F" "R_FIQ t = R_FIQ s" "R_SVC t = R_SVC s" "R_ABT t = R_ABT s"
    "R_IRQ t = R_IRQ s" "R_UND t = R_UND s"
  shows "spsr t = spsr s"
  using assms by (simp add: spsr_def Let_def)

lemma swap_bank_cong: "x AND 0x1F = y AND 0x1F \<Longrightarrow> swap_bank x s = swap_bank y s"
  by (simp add: swap_bank_def)

lemma UpdateMode_bank:
  assumes "x AND 0x1F \<noteq> y AND 0x1F"
  shows "same_regs 0 (UpdateMode x y p s) (swap_bank y (swap_bank x s))"
  using assms by (simp add: UpdateMode_def Let_def same_regs_def)

lemma or_bit4: "bit x 4 \<Longrightarrow> x OR 0x10 = (x :: u32)"
proof -
  assume "bit x 4"
  then have "bit (x OR 2 ^ 4) i = bit x i" if "i < LENGTH(32)" for i
    unfolding bit_or_iff bit_pow2 by auto
  then have "x OR 2 ^ 4 = x" by (rule bit_word_eqI)
  then show ?thesis by simp
qed

lemma exc_mode_swap: "m \<in> exc_modes \<Longrightarrow> m AND 0x1F = m"
  by (elim exc_modesE) simp_all

lemma enter_return:
  fixes s t :: "'m arm"
  assumes m: "m \<in> exc_modes" "new AND 0x1F = m" and old: "CPSR s AND 0x1F \<noteq> m" "bit (CPSR s) 4"
    and t: "core t = core (jumped addr (enter_exc new lr s))"
  shows "spsr t = Some (CPSR s) \<and> CPSR (RestoreCPSR t) = CPSR s \<and> (\<forall>i<15. R (RestoreCPSR t) i = R s i)"
proof -
  define e where "e = enter_exc new lr s"
  define u where "u = swap_bank (CPSR s) (s\<lparr>CPSR := new\<rparr>)"
  define w where "w = swap_bank new u"
  have ne: "CPSR s AND 0x1F \<noteq> new AND 0x1F" using m old by simp
  have upd: "same_regs 0 (UpdateMode (CPSR s) new False (s\<lparr>CPSR := new\<rparr>)) w"
    unfolding w_def u_def by (rule UpdateMode_bank [OF ne])
  have cp: "CPSR t AND 0x1F = m" "CPSR e = new"
    unfolding core_eqD(2) [OF t] mode_of_jumped using m by (simp_all add: enter_exc_def e_def)
  have banks: "R_FIQ t = R_FIQ e" "R_SVC t = R_SVC e" "R_ABT t = R_ABT e" "R_IRQ t = R_IRQ e" "R_UND t = R_UND e"
    using core_eqD [OF t] by (simp_all add: e_def jumped_def)
  have sp: "spsr t = Some (CPSR s)"
  proof -
    have "spsr t = spsr e" by (rule spsr_cong) (use cp banks m in simp_all)
    also have "\<dots> = spsr (set_spsr (CPSR s) (UpdateMode (CPSR s) new False (s\<lparr>CPSR := new\<rparr>)))"
      unfolding e_def enter_exc_def by (rule spsr_cong) (simp_all add: set_R_def)
    finally show ?thesis using m by (simp add: spsr_set_spsr)
  qed
  have R: "\<forall>i<14. R t i = R w i"
    using upd core_eqD(1) [OF t] by (simp add: jumped_def enter_exc_def same_regs_def)
  have "same_regs m (swap_bank new t) u"
    unfolding swap_bank_cong [of new m t, unfolded exc_mode_swap [OF m(1)], OF m(2)]
  proof (rule swap_out [OF m(1)])
    have w: "swap_bank m u = w" unfolding w_def by (rule swap_bank_cong) (simp add: m exc_mode_swap)
    show "\<forall>i<14. R t i = R (swap_bank m u) i" unfolding w by (rule R)
  qed (use upd in \<open>simp_all add: banks e_def enter_exc_def set_R_def set_spsr_banks same_regs_def w_def
      swap_bank_cong [of m new u, unfolded exc_mode_swap [OF m(1)], OF m(2) [symmetric]]\<close>)
  then have "same_regs m (swap_bank (CPSR s) (swap_bank new t)) (swap_bank (CPSR s) u)"
    by (rule same_regs_swap [OF _ old(1)])
  moreover have "swap_bank (CPSR s) u = s\<lparr>CPSR := new\<rparr>" unfolding u_def by (rule swap_bank_twice)
  moreover have "RestoreCPSR t = UpdateMode (CPSR t) (CPSR s) False (t\<lparr>CPSR := CPSR s\<rparr>)"
    using sp old(2) by (simp add: RestoreCPSR_def Let_def or_bit4)
  moreover have "same_regs 0 (UpdateMode (CPSR t) (CPSR s) False (t\<lparr>CPSR := CPSR s\<rparr>))
      (swap_bank (CPSR s) (swap_bank new t)\<lparr>CPSR := CPSR s\<rparr>)"
    using UpdateMode_bank [of "CPSR t" "CPSR s" False "t\<lparr>CPSR := CPSR s\<rparr>"] cp m ne old
      swap_bank_cong [of "CPSR t" new t] by (simp add: swap_bank_R_cong)
  ultimately show ?thesis using sp by (simp add: same_regs_def)
qed


text \<open>The exceptions: mode, vector and handler.\<close>

definition exceptions :: "'m env \<Rightarrow> (u32 \<times> u32 \<times> ('m arm \<Rightarrow> 'm arm)) list" where
  "exceptions env =
     [(0x12, 0x18, TriggerIRQ env), (0x17, 0x10, DataAbort env), (0x1B, 0x04, A_UNK env), (0x1B, 0x04, T_UNK env),
      (0x13, 0x08, A_SVC env), (0x13, 0x08, T_SVC env)]"

definition exc_cpsr :: "u32 \<Rightarrow> u32 \<Rightarrow> u32" where
  "exc_cpsr m x = (if m = 0x12 then (x AND NOT 0xFF) OR 0xD2 else (x AND NOT 0xBF) OR (m OR 0x80))"

lemma exc_cpsr_mode:
  assumes "m \<in> exc_modes"
  shows "exc_cpsr m x AND 0x1F = m \<and> tst (exc_cpsr m x) 0x80"
  using assms by (elim exc_modesE) (simp_all add: exc_cpsr_def bit.conj_disj_distrib2 and.assoc)

lemma enter_spsr:
  assumes "CPSR s AND 0x1F = m" "m \<in> exc_modes"
  shows "set_spsr v s = (if m = 0x12 then s\<lparr>R_IRQ := (R_IRQ s)(2 := v)\<rparr> else if m = 0x13 then s\<lparr>R_SVC := (R_SVC s)(2 := v)\<rparr>
    else if m = 0x17 then s\<lparr>R_ABT := (R_ABT s)(2 := v)\<rparr> else s\<lparr>R_UND := (R_UND s)(2 := v)\<rparr>)"
  using assms(2) by (elim exc_modesE) (simp_all add: set_spsr_def Let_def assms(1))

lemma set_R_fields [simp]: "ExceptionBase (set_R i v s) = ExceptionBase s" "PU_PrivMap (set_R i v s) = PU_PrivMap s"
    "PU_MapUser (set_R i v s) = PU_MapUser s" "PU_UserMap (set_R i v s) = PU_UserMap s"
  by (simp_all add: set_R_def)

lemma exception_enters:
  fixes env :: "'m env" and s :: "'m arm"
  assumes "(m, vec, f) \<in> set (exceptions env)" "m = 0x12 \<longrightarrow> \<not> tst (CPSR s) 0x80"
  shows "m \<in> exc_modes \<and> (\<exists>lr. core (f s) =
     core (JumpTo env (ExceptionBase s + vec) False (enter_exc (exc_cpsr m (CPSR s)) lr s)))"
proof -
  have sp: "set_spsr v (UpdateMode x (exc_cpsr m z) p (s\<lparr>CPSR := exc_cpsr m z\<rparr>)) =
    (let s = UpdateMode x (exc_cpsr m z) p (s\<lparr>CPSR := exc_cpsr m z\<rparr>) in
    (if m = 0x12 then s\<lparr>R_IRQ := (R_IRQ s)(2 := v)\<rparr> else if m = 0x13 then s\<lparr>R_SVC := (R_SVC s)(2 := v)\<rparr>
    else if m = 0x17 then s\<lparr>R_ABT := (R_ABT s)(2 := v)\<rparr> else s\<lparr>R_UND := (R_UND s)(2 := v)\<rparr>))"
    if "m \<in> exc_modes" for v x p z m and s :: "'m arm"
    unfolding Let_def by (rule enter_spsr) (use exc_cpsr_mode [OF that] that in simp_all)
  note d = enter_exc_def Let_def exc_cpsr_def enter_abort_def
  have irq: "core (TriggerIRQ env s) = core (JumpTo env (ExceptionBase s + 0x18) False
      (enter_exc (exc_cpsr 0x12 (CPSR s)) (R s 15 + (if tst (CPSR s) 0x20 then 2 else 0)) s))"
    if "\<not> tst (CPSR s) 0x80"
    using that unfolding enter_exc_def by (subst sp) (simp_all add: exc_modes_def TriggerIRQ_def Let_def exc_cpsr_def)
  have abt: "core (DataAbort env s) = core (JumpTo env (ExceptionBase s + 0x10) False
      (enter_exc (exc_cpsr 0x17 (CPSR s)) (R s 15 + (if tst (CPSR s) 0x20 then 4 else 0)) s))"
    unfolding enter_exc_def by (subst sp) (simp_all add: exc_modes_def DataAbort_def enter_abort_def Let_def exc_cpsr_def)
  have und: "core (enter_und b env s) = core (JumpTo env (ExceptionBase s + 0x04) False
      (enter_exc (exc_cpsr 0x1B (CPSR s)) (R s 15 - b) s))" for b
    unfolding enter_exc_def by (subst sp) (simp_all add: exc_modes_def enter_und_def Let_def exc_cpsr_def)
  have svc: "core (enter_svc b env s) = core (JumpTo env (ExceptionBase s + 0x08) False
      (enter_exc (exc_cpsr 0x13 (CPSR s)) (R s 15 - b) s))" for b
    unfolding enter_exc_def by (subst sp) (simp_all add: exc_modes_def enter_svc_def Let_def exc_cpsr_def)
  show ?thesis
    using assms irq abt und svc unfolding exceptions_def A_UNK_def T_UNK_def A_SVC_def T_SVC_def
    by (auto simp: exc_modes_def)
qed

lemma shr_add_vector:
  "b \<in> {0, 0xFFFF0000} \<Longrightarrow> vec \<in> {0x04, 0x08, 0x0C, 0x10, 0x18} \<Longrightarrow>
   jump_target (b + vec) = b + vec \<and> \<not> tst (b + vec) 1 \<and> shr (b + vec) 12 = shr b 12" for b :: u32
  by (auto simp: jump_target_def)

text \<open>C31: an interrupt, data abort, undefined instruction or supervisor call that comes from another
  mode enters its mode with interrupts off, in ARM state, at its vector and with the old status register
  saved; \<open>RestoreCPSR\<close> then brings back the status register and \<open>R0\<close> to \<open>R14\<close> exactly, through all the
  exchanges of banks. On the ARM9 the page of the vectors has to be executable.\<close>

theorem exception_return:
  fixes env :: "'m env" and s :: "'m arm"
  assumes "(m, vec, f) \<in> set (exceptions env)" "m = 0x12 \<longrightarrow> \<not> tst (CPSR s) 0x80"
    and old: "CPSR s AND 0x1F \<noteq> m" "bit (CPSR s) 4" and base: "ExceptionBase s \<in> {0, 0xFFFF0000}"
    and exec: "Num s = 0 \<longrightarrow> tst (PU_PrivMap s (unat (shr (ExceptionBase s) 12))) 0x04"
  shows "CPSR (f s) AND 0x1F = m \<and> tst (CPSR (f s)) 0x80 \<and> \<not> tst (CPSR (f s)) 0x20 \<and>
    R (f s) 15 = ExceptionBase s + vec + 4 \<and>
    spsr (f s) = Some (CPSR s) \<and> CPSR (RestoreCPSR (f s)) = CPSR s \<and> (\<forall>i<15. R (RestoreCPSR (f s)) i = R s i)"
proof -
  from exception_enters [OF assms(1,2)] obtain lr where m: "m \<in> exc_modes" and
    f: "core (f s) = core (JumpTo env (ExceptionBase s + vec) False (enter_exc (exc_cpsr m (CPSR s)) lr s))" by blast
  define e where "e = enter_exc (exc_cpsr m (CPSR s)) lr s"
  have vec: "vec \<in> {0x04, 0x08, 0x0C, 0x10, 0x18}" using assms(1) by (auto simp: exceptions_def)
  note j = shr_add_vector [OF base vec]
  have e: "Num e = Num s" "ExceptionBase e = ExceptionBase s" "PU_PrivMap e = PU_PrivMap s" "CPSR e = exc_cpsr m (CPSR s)"
    by (simp_all add: e_def enter_exc_def)
  have "\<not> PU_MapUser e" if "Num s = 0"
    using that m old(1) exc_cpsr_mode [OF m, of "CPSR s"]
    by (auto simp: e_def enter_exc_def UpdateMode_def Let_def swap_bank_other exc_modes_def)
  then have "executable e (ExceptionBase s + vec)"
    using exec j e by (auto simp: executable_def PU_Map_def)
  from JumpTo_core [OF this] f have c: "core (f s) = core (jumped (ExceptionBase s + vec) e)" by (simp add: e_def)
  have cpsr: "CPSR (f s) = exc_cpsr m (CPSR s) AND NOT 0x20" and pc: "R (f s) 15 = ExceptionBase s + vec + 4"
    unfolding core_eqD [OF c] using j e by (simp_all add: jumped_def)
  have "CPSR (f s) AND 0x1F = m \<and> tst (CPSR (f s)) 0x80 \<and> \<not> tst (CPSR (f s)) 0x20"
    unfolding cpsr using exc_cpsr_mode [OF m, of "CPSR s"] by (simp add: and.assoc)
  with enter_return [OF m conjunct1 [OF exc_cpsr_mode [OF m]] old c [unfolded e_def]] pc show ?thesis by simp
qed

theorem exception_return_witness:
  "R (TriggerIRQ flat_env (blank_arm 1)) 15 = 0x1C \<and> CPSR (RestoreCPSR (TriggerIRQ flat_env (blank_arm 1))) = 0x1F"
  using exception_return [of "0x12" "0x18" "TriggerIRQ flat_env" flat_env "blank_arm 1"]
  by (simp add: exceptions_def)

section \<open>Prefetch aborts do not nest\<close>

lemma PrefetchAbort_with_cong:
  assumes "\<And>t. ExceptionBase t = ExceptionBase s \<Longrightarrow> tst (PU_Map t (unat (shr (ExceptionBase s) 12))) 0x04 \<Longrightarrow>
    f (ExceptionBase s + 0x0C) t = g (ExceptionBase s + 0x0C) t"
  shows "PrefetchAbort_with f env s = PrefetchAbort_with g env s"
proof -
  define t where "t = enter_abort s"
  have EB: "ExceptionBase t = ExceptionBase s" by (simp add: t_def enter_abort_def Let_def)
  have "PU_Map (set_R 14 v (t\<lparr>R_ABT := x\<rparr>)) = PU_Map t" for v x by (simp add: PU_Map_def)
  then show ?thesis
    using assms EB unfolding PrefetchAbort_with_def Let_def t_def [symmetric] by simp
qed

lemma RestoreCPSR_EB [simp]: "ExceptionBase (RestoreCPSR s) = ExceptionBase s"
  by (simp add: RestoreCPSR_def Let_def split: option.split)

text \<open>C33: a jump takes at most one prefetch abort: \<open>JumpTo\<close> and \<open>PrefetchAbort\<close> call each other,
  but the second jump goes to a page that was checked to be executable, so that two levels of the recursion
  give the same result as any greater number.\<close>

theorem JumpTo_fuel_enough:
  assumes "ExceptionBase s \<in> {0, 0xFFFF0000}"
  shows "JumpTo_fuel (Suc (Suc n)) env addr b s = JumpTo_9 env addr b s"
proof -
  define s1 where "s1 = snd (jump_restore addr b s)"
  define s2 where "s2 = snd (refill_9 env (fst (jump_restore addr b s)) s1)"
  have EB: "ExceptionBase s2 = ExceptionBase s"
    using core_eqD(9) [OF conjunct2 [OF refill_9_core [of env "fst (jump_restore addr b s)" s1]]]
    by (simp add: s2_def s1_def jumped_def jump_restore_def Let_def)
  note j = shr_add_vector [OF assms, of "0x0C"]
  have abort: "PrefetchAbort_with (\<lambda>a. JumpTo_fuel (Suc k) env a False) env s2 =
      PrefetchAbort_with (\<lambda>a. JumpTo_fuel (Suc l) env a False) env s2" for k l
    by (rule PrefetchAbort_with_cong) (subst (1 2) JumpTo_fuel_executable, use j EB in simp_all)
  show ?thesis
    using abort [of n 0] unfolding JumpTo_9_def numeral_2_eq_2
    unfolding JumpTo_fuel.simps(2) [of "Suc n"] JumpTo_fuel.simps(2) [of "Suc 0"]
    by (simp only: case_prod_beta s1_def [symmetric] s2_def [symmetric] Let_def)
qed

theorem JumpTo_fuel_enough_witness:
  "JumpTo_fuel 5 flat_env 0x2000 True (blank_arm 0) = JumpTo_fuel 2 flat_env 0x2000 True (blank_arm 0)"
  using JumpTo_fuel_enough [of "blank_arm 0" 3 flat_env "0x2000" True] by (simp add: JumpTo_9_def)

end
