(* ===== verification/ArmMulSpec.thy ===== *)
theory ArmMulSpec
  imports ArmMul ArmAluSpec
begin

text \<open>
  The multiplications, the saturating additions and \<open>CLZ\<close> of theory \<open>ArmMul\<close> against arithmetic on
  unbounded integers.
\<close>

section \<open>Long multiplication\<close>

lemma unat_ucast64: "unat (ucast x :: u64) = unat x" for x :: u32
  by (rule unsigned_ucast_eq [THEN trans]) (rule take_bit_nat_eq_self, rule less_le_trans [OF unat_bound], simp)

lemma umull_exact: "unat (ucast a * ucast b :: u64) = unat a * unat b" for a b :: u32
proof -
  have "unat a * unat b < 2 ^ 32 * 2 ^ 32"
    by (rule mult_strict_mono) (use unat_bound [of a] unat_bound [of b] in simp_all)
  then show ?thesis by (simp add: unat_mult_lem [THEN iffD1] unat_ucast64)
qed

lemma smull_exact: "sint (scast a * scast b :: s64) = sint a * sint b" for a b :: u32
proof -
  have "\<bar>sint a * sint b\<bar> \<le> 2 ^ 31 * 2 ^ 31"
    unfolding abs_mult by (rule mult_mono) (use sint_range32 [of a] sint_range32 [of b] in auto)
  then have "- (2 ^ 63) \<le> sint a * sint b" "sint a * sint b < 2 ^ 63" by simp_all
  then show ?thesis unfolding scast_of_int wi_hom_mult by (rule sint64_of_int)
qed

definition wide :: "u32 \<Rightarrow> u32 \<Rightarrow> nat" where
  "wide hi lo = unat hi * 2 ^ 32 + unat lo"

lemma wide_halves: "wide (ucast (shr x 32)) (ucast x) = unat x" for x :: u64
proof -
  have "unat (ucast x :: u32) = unat x mod 2 ^ 32"
    by (simp add: unsigned_ucast_eq take_bit_eq_mod)
  moreover have "unat (ucast (shr x 32) :: u32) = unat x div 2 ^ 32"
  proof -
    have "unat x div 2 ^ 32 < 2 ^ 32" using unat_bound [of x] by (intro less_mult_imp_div_less) simp
    then show ?thesis by (simp add: unsigned_ucast_eq take_bit_eq_mod unat_shr)
  qed
  ultimately show ?thesis unfolding wide_def by simp
qed

lemma wide_get:
  "unat (ucast lo OR shl (ucast hi) 32 :: u64) = wide hi lo" for hi lo :: u32
proof -
  have "unat hi * 2 ^ 32 + 2 ^ 32 \<le> 2 ^ 64" using unat_bound [of hi] by simp
  then have "unat (shl (ucast hi) 32 OR ucast lo :: u64) = unat (ucast hi :: u64) * 2 ^ 32 + unat (ucast lo :: u64)"
    using unat_bound [of lo] by (intro unat_shl_or) (simp_all add: unat_ucast64)
  then show ?thesis by (simp add: wide_def unat_ucast64 or.commute)
qed


lemma set_RdHiLo_R:
  assumes "reg4 12 s \<noteq> reg4 16 s"
  shows "wide (R (set_RdHiLo res s) (reg4 16 s)) (R (set_RdHiLo res s) (reg4 12 s)) = unat res"
proof -
  have "reg4 16 (set_R (reg4 12 s) v s) = reg4 16 s" for v by (rule reg4_cong) simp
  then show ?thesis using assms by (simp add: set_RdHiLo_def Let_def wide_halves)
qed

lemma get_RdHiLo_wide: "unat (get_RdHiLo s) = wide (R s (reg4 16 s)) (R s (reg4 12 s))"
  by (simp add: get_RdHiLo_def wide_get)

lemma mul_flags_frame [simp]: "R (mul_flags n z s) = R s"
  by (simp add: mul_flags_def Let_def)

lemma mul_flags_NZ:
  "bit (CurInstr s) 20 \<Longrightarrow> bit (CPSR (mul_flags n z s)) 31 = n \<and> bit (CPSR (mul_flags n z s)) 30 = z"
  using tst_pow2 [of "CurInstr s" 20] by (simp add: mul_flags_def Let_def SetC_bits SetNZ_bits)

lemma set_RdHiLo_frame [simp]: "CPSR (set_RdHiLo v s) = CPSR s" "CurInstr (set_RdHiLo v s) = CurInstr s"
    "Num (set_RdHiLo v s) = Num s"
  by (simp_all add: set_RdHiLo_def Let_def)

lemma bit63_asr: "asr x 63 \<noteq> 0 \<longleftrightarrow> sint x < 0" for x :: s64
proof -
  have "sint (asr x 63) = sint x div 2 ^ 63"
    unfolding sint_signed_drop_bit_eq drop_bit_eq_div by (rule refl)
  moreover have "asr x 63 = 0 \<longleftrightarrow> sint (asr x 63) = 0"
    by (metis signed_0 signed_word_eqI)
  ultimately have "asr x 63 \<noteq> 0 \<longleftrightarrow> sint x div 2 ^ 63 \<noteq> 0" by simp
  also have "\<dots> \<longleftrightarrow> sint x < 0"
    using sint_lt [of x] by (cases "sint x < 0") (simp_all add: div_pos_pos_trivial div_eq_0_iff zdiv_eq_0_iff)
  finally show ?thesis .
qed

text \<open>The long multiplications leave the exact product in the pair of destination registers: the
  64-bit product of the unsigned or signed operands, and with accumulation the product plus the old
  contents of the pair modulo \<open>2 ^ 64\<close>.\<close>

theorem long_multiply:
  fixes env :: "'m env" and s :: "'m arm"
  assumes "reg4 12 s \<noteq> reg4 16 s"
  defines "rm \<equiv> R s (reg4 0 s)" and "rs \<equiv> R s (reg4 8 s)"
    and "acc \<equiv> \<lambda>t :: 'm arm. wide (R t (reg4 16 s)) (R t (reg4 12 s))"
  shows "acc (A_UMULL env s) = unat rm * unat rs \<and>
    acc (A_UMLAL env s) = (unat rm * unat rs + acc s) mod 2 ^ 64 \<and>
    int (acc (A_SMULL env s)) = (sint rm * sint rs) mod 2 ^ 64 \<and>
    int (acc (A_SMLAL env s)) = (sint rm * sint rs + int (acc s)) mod 2 ^ 64"
proof (intro conjI)
  note r = set_RdHiLo_R [OF assms(1)]
  have int_unat: "int (unat x) = sint x mod 2 ^ 64" for x :: u64
    using uint_sint [of x] by (simp add: take_bit_eq_mod)
  have unat_plus_mod: "unat (a + b) = (unat a + unat b) mod 2 ^ 64" for a b :: u64
    by (simp add: unat_word_ariths)
  show "acc (A_UMULL env s) = unat rm * unat rs"
    by (simp add: A_UMULL_def Let_def acc_def r umull_exact rm_def rs_def)
  show "acc (A_UMLAL env s) = (unat rm * unat rs + acc s) mod 2 ^ 64"
    by (simp add: A_UMLAL_def Let_def acc_def r umull_exact rm_def rs_def unat_plus_mod get_RdHiLo_wide)
  show "int (acc (A_SMULL env s)) = (sint rm * sint rs) mod 2 ^ 64"
  proof -
    have "acc (A_SMULL env s) = unat (scast rm * scast rs :: u64)"
      by (simp add: A_SMULL_def Let_def acc_def r rm_def rs_def)
    then show ?thesis by (simp only: int_unat smull_exact)
  qed
  show "int (acc (A_SMLAL env s)) = (sint rm * sint rs + int (acc s)) mod 2 ^ 64"
  proof -
    have "acc (A_SMLAL env s) = unat (scast rm * scast rs + get_RdHiLo s)"
      by (simp add: A_SMLAL_def Let_def acc_def r rm_def rs_def)
    also have "int \<dots> = (int (unat (scast rm * scast rs :: u64)) + int (acc s)) mod 2 ^ 64"
      by (simp only: unat_plus_mod get_RdHiLo_wide acc_def zmod_int of_nat_add of_nat_power of_nat_numeral)
    also have "\<dots> = (sint rm * sint rs + int (acc s)) mod 2 ^ 64"
      by (simp only: int_unat smull_exact mod_add_left_eq)
    finally show ?thesis .
  qed
qed

theorem long_multiply_witness:
  "let t = A_UMULL flat_env ((blank_arm 1)\<lparr>CurInstr := 0xE0810392, R := (\<lambda>_. 0xFFFFFFFF)\<rparr>)
   in wide (R t 1) (R t 0) = 0xFFFFFFFE00000001"
proof -
  define s where "s = (blank_arm 1)\<lparr>CurInstr := 0xE0810392, R := (\<lambda>_. 0xFFFFFFFF)\<rparr>"
  have r: "reg4 12 s = 0" "reg4 16 s = 1" "reg4 0 s = 2" "reg4 8 s = 3" by (simp_all add: s_def reg4_def)
  have v: "R s 2 = 0xFFFFFFFF" "R s 3 = 0xFFFFFFFF" "reg4 12 s \<noteq> reg4 16 s" using r by (simp_all add: s_def)
  have t: "reg4 k (A_UMULL flat_env s) = reg4 k s" for k by (rule reg4_cong) (simp add: A_UMULL_def Let_def mul_flags_def)
  show ?thesis using long_multiply [OF v(3), of flat_env] unfolding Let_def s_def [symmetric] t r v by simp
qed

section \<open>Saturation\<close>

definition clamp32 :: "int \<Rightarrow> int" where
  "clamp32 k = max (- (2 ^ 31)) (min (2 ^ 31 - 1) k)"

lemma sat_add: "sint (if OverflowAdd a b then saturate (a + b) else a + b) = clamp32 (sint a + sint b)"
  and sat_add_iff: "OverflowAdd a b \<longleftrightarrow> clamp32 (sint a + sint b) \<noteq> sint a + sint b"
  unfolding OverflowAdd_iff saturate_def tst_bit31 bit31_sint sint_add32 clamp32_def
  using sint_range32 [of a] sint_range32 [of b] by (auto simp: wrap32 sint_add32)

lemma sat_sub: "sint (if OverflowSub a b then saturate (a - b) else a - b) = clamp32 (sint a - sint b)"
  and sat_sub_iff: "OverflowSub a b \<longleftrightarrow> clamp32 (sint a - sint b) \<noteq> sint a - sint b"
  unfolding OverflowSub_iff saturate_def tst_bit31 bit31_sint sint_sub32 clamp32_def
  using sint_range32 [of a] sint_range32 [of b] by (auto simp: wrap32 sint_sub32)

lemma q_double_val: "sint (fst (q_double a s)) = clamp32 (2 * sint a)"
proof (cases "OverflowAdd a a")
  case True
  then have "sint (fst (q_double a s)) = (if sint a < 0 then - (2 ^ 31) else 2 ^ 31 - 1)"
    by (simp add: q_double_def tst_bit31 bit31_sint)
  moreover have "clamp32 (2 * sint a) = (if sint a < 0 then - (2 ^ 31) else 2 ^ 31 - 1)"
    using True sint_range32 [of a] unfolding sat_add_iff clamp32_def by auto
  ultimately show ?thesis by simp
next
  case False
  have "shl a 1 = a + a" by (simp add: push_bit_eq_mult)
  then have "sint (fst (q_double a s)) = sint (a + a)"
    using False by (simp only: q_double_def if_False fst_conv)
  also have "\<dots> = sint a + sint a" using False unfolding OverflowAdd_iff by blast
  finally show ?thesis using False unfolding sat_add_iff by simp
qed

lemma q_double_frame [simp]: "R (snd (q_double a s)) = R s" "CurInstr (snd (q_double a s)) = CurInstr s"
    "Num (snd (q_double a s)) = Num s"
  by (simp_all add: q_double_def set_Q_def)

lemma set_Q_frame [simp]: "R (set_Q s) = R s" "CurInstr (set_Q s) = CurInstr s" "Num (set_Q s) = Num s"
  by (simp_all add: set_Q_def)

lemma set_Q_27: "bit (CPSR (set_Q s)) 27"
proof -
  have "bit (0x08000000 :: u32) 27" by simp
  then show ?thesis by (simp add: set_Q_def bit_or_iff)
qed

text \<open>\<open>QADD\<close>, \<open>QSUB\<close>, \<open>QDADD\<close> and \<open>QDSUB\<close> compute the signed sum or difference clamped to the
  range of a 32-bit integer, with the doubled operand clamped first.\<close>

theorem saturating_arithmetic:
  fixes env :: "'m env" and s :: "'m arm"
  assumes "Num s = 0"
  defines "rm \<equiv> sint (R s (reg4 0 s))" and "rn \<equiv> sint (R s (reg4 16 s))"
    and "rd \<equiv> \<lambda>t :: 'm arm. sint (R t (reg4 12 s))"
  shows "rd (A_QADD env s) = clamp32 (rm + rn) \<and>
    rd (A_QSUB env s) = clamp32 (rm - rn) \<and>
    rd (A_QDADD env s) = clamp32 (rm + clamp32 (2 * rn)) \<and>
    rd (A_QDSUB env s) = clamp32 (rm - clamp32 (2 * rn))"
proof (intro conjI)
  have r: "reg4 12 t = reg4 12 s" if "CurInstr t = CurInstr s" for t :: "'m arm"
    using that by (rule reg4_cong)
  have add: "rd (AddCycles_C env (set_R (reg4 12 t) v t)) = sint v" if "CurInstr t = CurInstr s" for t v
    using r [OF that] by (simp add: rd_def)
  show "rd (A_QADD env s) = clamp32 (rm + rn)"
    using assms(1) by (simp add: A_QADD_def Let_def add rm_def rn_def flip: sat_add)
  show "rd (A_QSUB env s) = clamp32 (rm - rn)"
    using assms(1) by (simp add: A_QSUB_def Let_def add rm_def rn_def flip: sat_sub)
  show "rd (A_QDADD env s) = clamp32 (rm + clamp32 (2 * rn))"
    using assms(1) unfolding rn_def q_double_val [symmetric, where s = s]
    by (simp add: A_QDADD_def Let_def case_prod_beta add rm_def flip: sat_add)
  show "rd (A_QDSUB env s) = clamp32 (rm - clamp32 (2 * rn))"
    using assms(1) unfolding rn_def q_double_val [symmetric, where s = s]
    by (simp add: A_QDSUB_def Let_def case_prod_beta add rm_def flip: sat_sub)
qed

theorem saturating_arithmetic_witness:
  "R (A_QADD flat_env ((blank_arm 0)\<lparr>CurInstr := 0xE1010052, R := (\<lambda>_. 0x7FFFFFFF)\<rparr>)) 0 = 0x7FFFFFFF"
proof -
  define s where "s = (blank_arm 0)\<lparr>CurInstr := 0xE1010052, R := (\<lambda>_. 0x7FFFFFFF)\<rparr>"
  have r: "reg4 12 s = 0" "reg4 16 s = 1" "reg4 0 s = 2" "R s k = 0x7FFFFFFF" "Num s = 0" for k by (simp_all add: s_def reg4_def)
  have "sint (R (A_QADD flat_env s) 0) = clamp32 (sint (0x7FFFFFFF :: u32) + sint (0x7FFFFFFF :: u32))"
    using saturating_arithmetic [OF r(5), of flat_env] unfolding r by blast
  then have "sint (R (A_QADD flat_env s) 0) = sint (0x7FFFFFFF :: u32)" by (simp add: clamp32_def)
  then have "R (A_QADD flat_env s) 0 = 0x7FFFFFFF" by (rule signed_word_eqI)
  then show ?thesis by (simp add: s_def)
qed

text \<open>\<open>CLZ\<close> returns the number of leading zeros: the operand is below \<open>2 ^ (32 - n)\<close>, and a nonzero
  operand has its top bit at position \<open>31 - n\<close>. Both loops end for every operand, zero included.\<close>

theorem A_CLZ_counts:
  fixes env :: "'m env" and s :: "'m arm"
  assumes "Num s = 0"
  defines "x \<equiv> R s (reg4 0 s)" and "n \<equiv> unat (R (A_CLZ env s) (reg4 12 s))"
  shows "n \<le> 32 \<and> unat x < 2 ^ (32 - n) \<and> (x \<noteq> 0 \<longrightarrow> n < 32 \<and> 2 ^ (31 - n) \<le> unat x)"
proof -
  obtain v r where vr: "(v, r) = (case clz_bytes x 0 of (v, r) \<Rightarrow> clz_bits v r)"
    by (metis surj_pair)
  have "A_CLZ env s = AddCycles_C env (set_R (reg4 12 s) r s)"
    using assms(1) vr unfolding A_CLZ_def Let_def x_def [symmetric]
    by (simp split: prod.splits) (metis prod.inject)
  then have "n = unat r" by (simp add: n_def)
  with clz_correct [OF vr] show ?thesis by simp
qed

theorem A_CLZ_counts_witness:
  "unat (R (A_CLZ flat_env ((blank_arm 0)\<lparr>CurInstr := 0xE16F0F12, R := (\<lambda>_. 1)\<rparr>)) 0) = 31"
proof -
  define s where "s = (blank_arm 0)\<lparr>CurInstr := 0xE16F0F12, R := (\<lambda>_. 1)\<rparr>"
  have r: "reg4 12 s = 0" "R s k = 1" "Num s = 0" for k by (simp_all add: s_def reg4_def)
  define n where "n = unat (R (A_CLZ flat_env s) 0)"
  have n: "n \<le> 32 \<and> 1 < (2::nat) ^ (32 - n) \<and> n < 32 \<and> (2::nat) ^ (31 - n) \<le> 1"
    using A_CLZ_counts [OF r(3), of flat_env] by (simp add: r n_def)
  then have "31 - n = 0" by (metis nat_le_linear not_less one_less_numeral_iff one_less_power semiring_norm(76) gr0I)
  then have "n = 31" using n by simp
  then show ?thesis by (simp add: n_def s_def)
qed

end
