(* ===== verification/Cp15.thy ===== *)
theory Cp15
  imports ArmBranch
begin

text \<open>
  The system control coprocessor of the ARM9 (\<^verbatim>\<open>src/src/CP15.cpp\<close>): the tightly coupled memories,
  the protection unit with its maps of access rights and timings, the instruction cache, the
  coprocessor registers, and the data accesses of the ARM9. The maps have \<open>0x100000\<close> pages of 4K; a
  loop that writes one value to a range of pages is an update of the map on that range.
\<close>

section \<open>Tightly coupled memories\<close>

definition UpdateDTCMSetting :: "'m instr" where
  "UpdateDTCMSetting env s =
     (let (newDTCMSize, newDTCMMask, newDTCMBase) =
        (if tst (CP15Control s) (shl 1 16) then
           let size = shl 0x200 (unat (shr (DTCMSetting s) 1 AND 0x1F));
               size = (if size < 0x1000 then 0x1000 else size);
               msk = 0xFFFFF000 AND NOT (size - 1)
           in (size, msk, DTCMSetting s AND msk)
         else (0, 0, 0xFFFFFFFF))
      in if newDTCMBase \<noteq> DTCMBase s \<or> newDTCMMask \<noteq> DTCMMask s then
           let s = upd_con (RemapDTCM env newDTCMBase newDTCMSize) s
           in s\<lparr>DTCMBase := newDTCMBase, DTCMMask := newDTCMMask\<rparr>
         else s)"

definition UpdateITCMSetting :: "'m arm \<Rightarrow> 'm arm" where
  "UpdateITCMSetting s =
     (if tst (CP15Control s) (shl 1 18)
      then s\<lparr>ITCMSize := shl 0x200 (unat (shr (ITCMSetting s) 1 AND 0x1F))\<rparr>
      else s\<lparr>ITCMSize := 0\<rparr>)"

section \<open>Protection unit\<close>

definition kDataCacheTiming :: u8 where "kDataCacheTiming = 3"

text \<open>A bus timing in ARM9 cycles.\<close>

definition bus_timing :: "'m env \<Rightarrow> 'm arm \<Rightarrow> nat \<Rightarrow> nat \<Rightarrow> u32" where
  "bus_timing env s i k = shl (ucast (ARM9MemTimings env (con s) i k)) (ARM9ClockShift (fst (con s)))"

definition region_timing :: "'m env \<Rightarrow> 'm arm \<Rightarrow> nat \<Rightarrow> nat \<Rightarrow> u8" where
  "region_timing env s i k =
     (let pu = PU_Map s i in
      if k = 0 then if tst pu 0x40 then 0xFF else ucast (bus_timing env s (i div 4) 2)
      else if tst pu 0x10 then if k = 3 then 1 else kDataCacheTiming
      else ucast (bus_timing env s (i div 4) (if k = 1 then 0 else k)))"

definition UpdateRegionTimings :: "nat \<Rightarrow> nat \<Rightarrow> 'm instr" where
  "UpdateRegionTimings addrstart addrend env s =
     s\<lparr>MemTimings := (\<lambda>i k. if addrstart \<le> i \<and> i < addrend \<and> k < 4 then region_timing env s i k else MemTimings s i k)\<rparr>"

definition region_masks :: "u32 \<Rightarrow> u32 \<Rightarrow> u8 \<times> u8" where
  "region_masks datarw coderw =
     (let (privmask, usermask) =
        (if datarw = 1 then (0x03, 0)
         else if datarw = 2 then (0x03, 0x01)
         else if datarw = 3 then (0x03, 0x03)
         else if datarw = 5 then (0x01, 0)
         else if datarw = 6 then (0x01, 0x01)
         else (0, 0))
      in if coderw = 1 then (privmask OR 0x04, usermask)
         else if coderw = 2 then (privmask OR 0x04, usermask OR 0x04)
         else if coderw = 3 then (privmask OR 0x04, usermask OR 0x04)
         else if coderw = 5 then (privmask OR 0x04, usermask)
         else if coderw = 6 then (privmask OR 0x04, usermask OR 0x04)
         else (privmask, usermask))"

text \<open>First page and page after the last of a region.\<close>

definition region_range :: "u32 \<Rightarrow> u32 \<times> u32" where
  "region_range rgn =
     (let size = unat (shr rgn 1 AND 0x1F) - 11;
          start = shl (shr (shr rgn 12) size) size
      in (start, start + shl 1 size))"

text \<open>The entries of a region for the privileged and the user map.\<close>

definition region_rights :: "nat \<Rightarrow> 'm arm \<Rightarrow> u8 \<times> u8" where
  "region_rights n s =
     (let coderw = shr (PU_CodeRW s) (4 * n) AND 0xF;
          datarw = shr (PU_DataRW s) (4 * n) AND 0xF;
          codecache = (if tst (CP15Control s) (shl 1 12) then shr (PU_CodeCacheable s) n AND 0x1 else 0);
          (datacache, datawrite) =
            (if tst (CP15Control s) (shl 1 2)
             then (shr (PU_DataCacheable s) n AND 0x1, shr (PU_DataCacheWrite s) n AND 0x1) else (0, 0));
          (privmask, usermask) = region_masks datarw coderw;
          (privmask, usermask) =
            (if tst datacache 0x1
             then if tst datawrite 0x1 then (privmask OR 0x10 OR 0x20, usermask OR 0x10 OR 0x20)
                  else (privmask OR 0x10, usermask OR 0x10)
             else (privmask, usermask))
      in if tst codecache 0x1 then (privmask OR 0x40, usermask OR 0x40) else (privmask, usermask))"

definition UpdatePURegion :: "nat \<Rightarrow> 'm instr" where
  "UpdatePURegion n env s =
     (if \<not> tst (CP15Control s) (shl 1 0) then s
      else if \<not> tst (PU_Region s n) (shl 1 0) then s
      else
        let (start, end') = region_range (PU_Region s n);
            (privmask, usermask) = region_rights n s;
            s = s\<lparr>PU_PrivMap := (\<lambda>i. if unat start \<le> i \<and> i < unat end' then privmask else PU_PrivMap s i),
                  PU_UserMap := (\<lambda>i. if unat start \<le> i \<and> i < unat end' then usermask else PU_UserMap s i)\<rparr>
        in UpdateRegionTimings (unat start) (unat end') env s)"

definition fill_maps :: "u8 \<Rightarrow> 'm arm \<Rightarrow> 'm arm" where
  "fill_maps msk s =
     s\<lparr>PU_PrivMap := (\<lambda>i. if i < 0x100000 then msk else PU_PrivMap s i),
       PU_UserMap := (\<lambda>i. if i < 0x100000 then msk else PU_UserMap s i)\<rparr>"

definition UpdatePURegions :: "bool \<Rightarrow> 'm instr" where
  "UpdatePURegions update_all env s =
     (if \<not> tst (CP15Control s) (shl 1 0) then
        let msk = 0x07;
            msk = (if tst (CP15Control s) (shl 1 2) then msk OR 0x30 else msk);
            msk = (if tst (CP15Control s) (shl 1 12) then msk OR 0x40 else msk)
        in UpdateRegionTimings 0 0x100000 env (fill_maps msk s)
      else
        let s = (if update_all then fill_maps 0 s else s);
            s = fold (\<lambda>n. UpdatePURegion n env) [0..<8] s
        in if update_all then UpdateRegionTimings 0 0x100000 env s else s)"

section \<open>Instruction cache\<close>

definition RandomLineIndex :: "'m arm \<Rightarrow> u32 \<times> 'm arm" where
  "RandomLineIndex s =
     (let seed = RNGSeed s;
          r = RNGSeed s XOR (seed * 17);
          r = r XOR (seed * 7)
      in (shr r 17 AND 0x3, s\<lparr>RNGSeed := r\<rparr>))"

text \<open>The index of the way of the set at \<open>k\<close> that holds \<open>tag\<close>.\<close>

definition cache_way :: "u32 \<Rightarrow> nat \<Rightarrow> 'm arm \<Rightarrow> nat option" where
  "cache_way tag k s = find (\<lambda>i. ICacheTags s i = tag) [k + 0, k + 1, k + 2, k + 3]"

definition cache_id :: "u32 \<Rightarrow> nat" where
  "cache_id addr = unat (shl (shr addr 5 AND 0x3F) 2)"

text \<open>The 32 bytes of a line, read word by word from the code region or from the bus.\<close>

definition cache_fill_word :: "'m env \<Rightarrow> u32 \<Rightarrow> nat \<Rightarrow> nat \<Rightarrow> 'm arm \<Rightarrow> 'm arm" where
  "cache_fill_word env addr line i s =
     (let (v, s) = (case CodeMem s of
          (Some p, m) \<Rightarrow> (MemRead32 env p ((addr AND m) + word_of_nat i) (con s), s)
        | (None, _) \<Rightarrow> let (v, c) = BusRead32 env 0 (addr + word_of_nat i) (con s) in (v, s\<lparr>con := c\<rparr>))
      in s\<lparr>ICache := put32 (line * 32 + i) v (ICache s)\<rparr>)"

definition ICacheLookup :: "u32 \<Rightarrow> 'm instr" where
  "ICacheLookup addr env s =
     (let tag = addr AND 0xFFFFF800; id = cache_id addr in
      case cache_way tag id s of
        Some way \<Rightarrow> s\<lparr>CodeCycles := 1, CurICacheLine := Some (way * 32)\<rparr>
      | None \<Rightarrow>
          let (line, s) =
                (if tst (CP15Control s) (shl 1 14) then
                   let line = ucast (ICacheCount s (id div 4)) :: u32
                   in (line, s\<lparr>ICacheCount := (ICacheCount s)(id div 4 := ucast ((line + 1) AND 0x3))\<rparr>)
                 else RandomLineIndex s);
              line = unat line + id;
              addr = addr AND NOT 0x1F;
              s = fold (cache_fill_word env addr line) [0, 4, 8, 12, 16, 20, 24, 28] s;
              s = s\<lparr>ICacheTags := (ICacheTags s)(line := tag)\<rparr>;
              t = (\<lambda>k. ucast (ARM9MemTimings env (con s) (unat (shr addr 14)) k) :: s32)
          in s\<lparr>CodeCycles := shl (t 2 + t 3 * 7) (ARM9ClockShift (fst (con s))), CurICacheLine := Some (line * 32)\<rparr>)"

definition ICacheInvalidateByAddr :: "u32 \<Rightarrow> 'm arm \<Rightarrow> 'm arm" where
  "ICacheInvalidateByAddr addr s =
     (case cache_way (addr AND 0xFFFFF800) (cache_id addr) s of
        Some way \<Rightarrow> s\<lparr>ICacheTags := (ICacheTags s)(way := 1)\<rparr>
      | None \<Rightarrow> s)"

definition ICacheInvalidateAll :: "'m arm \<Rightarrow> 'm arm" where
  "ICacheInvalidateAll s = s\<lparr>ICacheTags := (\<lambda>i. if i < 64 * 4 then 1 else ICacheTags s i)\<rparr>"

section \<open>Coprocessor registers\<close>

definition CP15Reset :: "'m instr" where
  "CP15Reset env s =
     (let s = s\<lparr>CP15Control := 0x2078, RNGSeed := 44203, TraceProcessID := 0, DTCMSetting := 0, ITCMSetting := 0,
            ITCM := (\<lambda>i. if i < 0x8000 then 0 else ITCM s i), DTCM := (\<lambda>i. if i < 0x4000 then 0 else DTCM s i),
            ITCMSize := 0, DTCMBase := 0xFFFFFFFF, DTCMMask := 0,
            ICache := (\<lambda>i. if i < 0x2000 then 0 else ICache s i)\<rparr>;
          s = ICacheInvalidateAll s;
          s = s\<lparr>ICacheCount := (\<lambda>i. if i < 64 then 0 else ICacheCount s i),
            PU_CodeCacheable := 0, PU_DataCacheable := 0, PU_DataCacheWrite := 0, PU_CodeRW := 0, PU_DataRW := 0,
            PU_Region := (\<lambda>i. if i < 8 then 0 else PU_Region s i)\<rparr>;
          s = UpdatePURegions True env s
      in s\<lparr>CurICacheLine := None\<rparr>)"

text \<open>\<^verbatim>\<open>if (diff & (w << (i*k))) UpdatePURegion(i)\<close> for all eight regions.\<close>

definition update_changed :: "u32 \<Rightarrow> nat \<Rightarrow> u32 \<Rightarrow> 'm instr" where
  "update_changed w k diff env s =
     fold (\<lambda>i s. if tst diff (shl w (i * k)) then UpdatePURegion i env s else s) [0..<8] s"

text \<open>The legacy permission registers have two bits per region, the extended ones four.\<close>

definition legacy_to_rw :: "u32 \<Rightarrow> u32" where
  "legacy_to_rw val =
     (val AND 0x0003) OR shl (val AND 0x000C) 2 OR shl (val AND 0x0030) 4 OR shl (val AND 0x00C0) 6 OR
     shl (val AND 0x0300) 8 OR shl (val AND 0x0C00) 10 OR shl (val AND 0x3000) 12 OR shl (val AND 0xC000) 14"

definition rw_to_legacy :: "u32 \<Rightarrow> u32" where
  "rw_to_legacy rw =
     (rw AND 0x00000003) OR shr (rw AND 0x00000030) 2 OR shr (rw AND 0x00000300) 4 OR shr (rw AND 0x00003000) 6 OR
     shr (rw AND 0x00030000) 8 OR shr (rw AND 0x00300000) 10 OR shr (rw AND 0x03000000) 12 OR shr (rw AND 0x30000000) 14"

definition CP15Write_control :: "u32 \<Rightarrow> 'm instr" where
  "CP15Write_control val env s =
     (let old = CP15Control s;
          val = val AND 0x000FF085;
          s = s\<lparr>CP15Control := (CP15Control s AND NOT 0x000FF085) OR val\<rparr>;
          s = UpdateDTCMSetting env s;
          s = UpdateITCMSetting s;
          s = (if old AND 0x1005 \<noteq> val AND 0x1005
               then UpdatePURegions (old AND 0x1 \<noteq> val AND 0x1) env s else s)
      in if tst val (shl 1 13) then s\<lparr>ExceptionBase := 0xFFFF0000\<rparr> else s\<lparr>ExceptionBase := 0x00000000\<rparr>)"

definition region_ids :: "u32 list" where
  "region_ids = [0x600, 0x601, 0x610, 0x611, 0x620, 0x621, 0x630, 0x631, 0x640, 0x641, 0x650, 0x651,
     0x660, 0x661, 0x670, 0x671]"

definition CP15Write :: "u32 \<Rightarrow> u32 \<Rightarrow> 'm instr" where
  "CP15Write i val env s =
     (if i = 0x100 then CP15Write_control val env s
      else if i = 0x200 then
        let diff = PU_DataCacheable s XOR val in update_changed 1 1 diff env (s\<lparr>PU_DataCacheable := val\<rparr>)
      else if i = 0x201 then
        let diff = PU_CodeCacheable s XOR val in update_changed 1 1 diff env (s\<lparr>PU_CodeCacheable := val\<rparr>)
      else if i = 0x300 then
        let diff = PU_DataCacheWrite s XOR val in update_changed 1 1 diff env (s\<lparr>PU_DataCacheWrite := val\<rparr>)
      else if i = 0x500 then
        let old = PU_DataRW s; s = s\<lparr>PU_DataRW := legacy_to_rw val\<rparr>; diff = old XOR PU_DataRW s
        in update_changed 0xF 4 diff env s
      else if i = 0x501 then
        let old = PU_CodeRW s; s = s\<lparr>PU_CodeRW := legacy_to_rw val\<rparr>; diff = old XOR PU_CodeRW s
        in update_changed 0xF 4 diff env s
      else if i = 0x502 then
        let diff = PU_DataRW s XOR val in update_changed 0xF 4 diff env (s\<lparr>PU_DataRW := val\<rparr>)
      else if i = 0x503 then
        let diff = PU_CodeRW s XOR val in update_changed 0xF 4 diff env (s\<lparr>PU_CodeRW := val\<rparr>)
      else if i \<in> set region_ids then
        UpdatePURegions True env (s\<lparr>PU_Region := (PU_Region s)(unat (shr i 4 AND 0xF) := val)\<rparr>)
      else if i = 0x704 \<or> i = 0x782 then Halt 1 s
      else if i = 0x750 then ICacheInvalidateAll s
      else if i = 0x751 then ICacheInvalidateByAddr val s
      else if i = 0x910 then UpdateDTCMSetting env (s\<lparr>DTCMSetting := val AND 0xFFFFF03E\<rparr>)
      else if i = 0x911 then UpdateITCMSetting (s\<lparr>ITCMSetting := val AND 0x0000003E\<rparr>)
      else if i = 0xD01 then s\<lparr>TraceProcessID := val\<rparr>
      else s)"

definition CP15Read :: "u32 \<Rightarrow> 'm arm \<Rightarrow> u32" where
  "CP15Read i s =
     (if i \<in> {0x000, 0x003, 0x004, 0x005, 0x006, 0x007} then 0x41059461
      else if i = 0x001 then 0x0F0D2112
      else if i = 0x002 then shl 6 6 OR shl 5 18
      else if i = 0x100 then CP15Control s
      else if i = 0x200 then PU_DataCacheable s
      else if i = 0x201 then PU_CodeCacheable s
      else if i = 0x300 then PU_DataCacheWrite s
      else if i = 0x500 then rw_to_legacy (PU_DataRW s)
      else if i = 0x501 then rw_to_legacy (PU_CodeRW s)
      else if i = 0x502 then PU_DataRW s
      else if i = 0x503 then PU_CodeRW s
      else if i \<in> set region_ids then PU_Region s (unat (shr i 4 AND 0xF))
      else if i = 0x910 then DTCMSetting s
      else if i = 0x911 then ITCMSetting s
      else if i = 0xD01 then TraceProcessID s
      else 0)"

section \<open>Data accesses of the ARM9\<close>

text \<open>A read returns \<open>None\<close> when it ends in a data abort: then nothing is stored through the pointer.\<close>

definition in_DTCM :: "u32 \<Rightarrow> 'm arm \<Rightarrow> bool" where
  "in_DTCM addr s \<longleftrightarrow> addr AND DTCMMask s = DTCMBase s"

definition itcm_at :: "u32 \<Rightarrow> nat" where "itcm_at addr = unat (addr AND (ITCMPhysicalSize - 1))"
definition dtcm_at :: "u32 \<Rightarrow> nat" where "dtcm_at addr = unat (addr AND (DTCMPhysicalSize - 1))"

definition page_timing :: "u32 \<Rightarrow> nat \<Rightarrow> 'm arm \<Rightarrow> s32" where
  "page_timing addr k s = ucast (MemTimings s (unat (shr addr 12)) k)"

definition may :: "u8 \<Rightarrow> u32 \<Rightarrow> 'm arm \<Rightarrow> bool" where
  "may bits addr s \<longleftrightarrow> tst (PU_Map s (unat (shr addr 12))) bits"

definition DataRead8_9 :: "'m env \<Rightarrow> u32 \<Rightarrow> 'm arm \<Rightarrow> u32 option \<times> 'm arm" where
  "DataRead8_9 env addr s =
     (if \<not> may 0x01 addr s then (None, DataAbort env s)
      else
        let s = s\<lparr>DataRegion := addr\<rparr>
        in if addr < ITCMSize s then (Some (ucast (ITCM s (itcm_at addr))), s\<lparr>DataCycles := 1\<rparr>)
           else if in_DTCM addr s then (Some (ucast (DTCM s (dtcm_at addr))), s\<lparr>DataCycles := 1\<rparr>)
           else let (v, c) = BusRead8 env 0 addr (con s)
                in (Some (ucast v), s\<lparr>con := c, DataCycles := page_timing addr 1 s\<rparr>))"

definition DataRead16_9 :: "'m env \<Rightarrow> u32 \<Rightarrow> 'm arm \<Rightarrow> u32 option \<times> 'm arm" where
  "DataRead16_9 env addr s =
     (if \<not> may 0x01 addr s then (None, DataAbort env s)
      else
        let s = s\<lparr>DataRegion := addr\<rparr>; addr = addr AND NOT 1
        in if addr < ITCMSize s then (Some (ucast (get16 (ITCM s) (itcm_at addr))), s\<lparr>DataCycles := 1\<rparr>)
           else if in_DTCM addr s then (Some (ucast (get16 (DTCM s) (dtcm_at addr))), s\<lparr>DataCycles := 1\<rparr>)
           else let (v, c) = BusRead16 env 0 addr (con s)
                in (Some (ucast v), s\<lparr>con := c, DataCycles := page_timing addr 1 s\<rparr>))"

definition DataRead32_9 :: "'m env \<Rightarrow> u32 \<Rightarrow> 'm arm \<Rightarrow> u32 option \<times> 'm arm" where
  "DataRead32_9 env addr s =
     (if \<not> may 0x01 addr s then (None, DataAbort env s)
      else
        let s = s\<lparr>DataRegion := addr\<rparr>; addr = addr AND NOT 3
        in if addr < ITCMSize s then (Some (get32 (ITCM s) (itcm_at addr)), s\<lparr>DataCycles := 1\<rparr>)
           else if in_DTCM addr s then (Some (get32 (DTCM s) (dtcm_at addr)), s\<lparr>DataCycles := 1\<rparr>)
           else let (v, c) = BusRead32 env 0 addr (con s)
                in (Some v, s\<lparr>con := c, DataCycles := page_timing addr 2 s\<rparr>))"

definition DataRead32S_9 :: "'m env \<Rightarrow> u32 \<Rightarrow> 'm arm \<Rightarrow> u32 option \<times> 'm arm" where
  "DataRead32S_9 env addr s =
     (let addr = addr AND NOT 3
      in if addr < ITCMSize s then (Some (get32 (ITCM s) (itcm_at addr)), s\<lparr>DataCycles := DataCycles s + 1\<rparr>)
         else if in_DTCM addr s then (Some (get32 (DTCM s) (dtcm_at addr)), s\<lparr>DataCycles := DataCycles s + 1\<rparr>)
         else let (v, c) = BusRead32 env 0 addr (con s)
              in (Some v, s\<lparr>con := c, DataCycles := DataCycles s + page_timing addr 3 s\<rparr>))"

definition DataWrite8_9 :: "'m env \<Rightarrow> u32 \<Rightarrow> u8 \<Rightarrow> 'm arm \<Rightarrow> 'm arm" where
  "DataWrite8_9 env addr val s =
     (if \<not> may 0x02 addr s then DataAbort env s
      else
        let s = s\<lparr>DataRegion := addr\<rparr>
        in if addr < ITCMSize s then
             upd_con (InvalidateITCM env addr) (s\<lparr>DataCycles := 1, ITCM := (ITCM s)(itcm_at addr := val)\<rparr>)
           else if in_DTCM addr s then s\<lparr>DataCycles := 1, DTCM := (DTCM s)(dtcm_at addr := val)\<rparr>
           else s\<lparr>con := BusWrite8 env 0 addr val (con s), DataCycles := page_timing addr 1 s\<rparr>)"

definition DataWrite16_9 :: "'m env \<Rightarrow> u32 \<Rightarrow> u16 \<Rightarrow> 'm arm \<Rightarrow> 'm arm" where
  "DataWrite16_9 env addr val s =
     (if \<not> may 0x02 addr s then DataAbort env s
      else
        let s = s\<lparr>DataRegion := addr\<rparr>; addr = addr AND NOT 1
        in if addr < ITCMSize s then
             upd_con (InvalidateITCM env addr) (s\<lparr>DataCycles := 1, ITCM := put16 (itcm_at addr) val (ITCM s)\<rparr>)
           else if in_DTCM addr s then s\<lparr>DataCycles := 1, DTCM := put16 (dtcm_at addr) val (DTCM s)\<rparr>
           else s\<lparr>con := BusWrite16 env 0 addr val (con s), DataCycles := page_timing addr 1 s\<rparr>)"

definition DataWrite32_9 :: "'m env \<Rightarrow> u32 \<Rightarrow> u32 \<Rightarrow> 'm arm \<Rightarrow> 'm arm" where
  "DataWrite32_9 env addr val s =
     (if \<not> may 0x02 addr s then DataAbort env s
      else
        let s = s\<lparr>DataRegion := addr\<rparr>; addr = addr AND NOT 3
        in if addr < ITCMSize s then
             upd_con (InvalidateITCM env addr) (s\<lparr>DataCycles := 1, ITCM := put32 (itcm_at addr) val (ITCM s)\<rparr>)
           else if in_DTCM addr s then s\<lparr>DataCycles := 1, DTCM := put32 (dtcm_at addr) val (DTCM s)\<rparr>
           else s\<lparr>con := BusWrite32 env 0 addr val (con s), DataCycles := page_timing addr 2 s\<rparr>)"

definition DataWrite32S_9 :: "'m env \<Rightarrow> u32 \<Rightarrow> u32 \<Rightarrow> 'm arm \<Rightarrow> 'm arm" where
  "DataWrite32S_9 env addr val s =
     (let addr = addr AND NOT 3
      in if addr < ITCMSize s then
           upd_con (InvalidateITCM env addr)
             (s\<lparr>DataCycles := DataCycles s + 1, ITCM := put32 (itcm_at addr) val (ITCM s)\<rparr>)
         else if in_DTCM addr s then
           s\<lparr>DataCycles := DataCycles s + 1, DTCM := put32 (dtcm_at addr) val (DTCM s)\<rparr>
         else s\<lparr>con := BusWrite32 env 0 addr val (con s), DataCycles := DataCycles s + page_timing addr 3 s\<rparr>)"

section \<open>Data accesses of both processors\<close>

definition bus_timing_7 :: "'m env \<Rightarrow> u32 \<Rightarrow> nat \<Rightarrow> 'm arm \<Rightarrow> s32" where
  "bus_timing_7 env addr k s = ucast (ARM7MemTimings env (con s) (unat (shr addr 15)) k)"

definition DataRead8 :: "'m env \<Rightarrow> u32 \<Rightarrow> 'm arm \<Rightarrow> u32 option \<times> 'm arm" where
  "DataRead8 env addr s =
     (if Num s = 0 then DataRead8_9 env addr s
      else let (v, c) = BusRead8 env 1 addr (con s); s = s\<lparr>con := c, DataRegion := addr\<rparr>
           in (Some (ucast v), s\<lparr>DataCycles := bus_timing_7 env addr 0 s\<rparr>))"

definition DataRead16 :: "'m env \<Rightarrow> u32 \<Rightarrow> 'm arm \<Rightarrow> u32 option \<times> 'm arm" where
  "DataRead16 env addr s =
     (if Num s = 0 then DataRead16_9 env addr s
      else let addr = addr AND NOT 1; (v, c) = BusRead16 env 1 addr (con s); s = s\<lparr>con := c, DataRegion := addr\<rparr>
           in (Some (ucast v), s\<lparr>DataCycles := bus_timing_7 env addr 0 s\<rparr>))"

definition DataRead32 :: "'m env \<Rightarrow> u32 \<Rightarrow> 'm arm \<Rightarrow> u32 option \<times> 'm arm" where
  "DataRead32 env addr s =
     (if Num s = 0 then DataRead32_9 env addr s
      else let addr = addr AND NOT 3; (v, c) = BusRead32 env 1 addr (con s); s = s\<lparr>con := c, DataRegion := addr\<rparr>
           in (Some v, s\<lparr>DataCycles := bus_timing_7 env addr 2 s\<rparr>))"

definition DataRead32S :: "'m env \<Rightarrow> u32 \<Rightarrow> 'm arm \<Rightarrow> u32 option \<times> 'm arm" where
  "DataRead32S env addr s =
     (if Num s = 0 then DataRead32S_9 env addr s
      else let addr = addr AND NOT 3; (v, c) = BusRead32 env 1 addr (con s); s = s\<lparr>con := c\<rparr>
           in (Some v, s\<lparr>DataCycles := DataCycles s + bus_timing_7 env addr 3 s\<rparr>))"

definition DataWrite8 :: "'m env \<Rightarrow> u32 \<Rightarrow> u8 \<Rightarrow> 'm arm \<Rightarrow> 'm arm" where
  "DataWrite8 env addr val s =
     (if Num s = 0 then DataWrite8_9 env addr val s
      else let s = s\<lparr>con := BusWrite8 env 1 addr val (con s), DataRegion := addr\<rparr>
           in s\<lparr>DataCycles := bus_timing_7 env addr 0 s\<rparr>)"

definition DataWrite16 :: "'m env \<Rightarrow> u32 \<Rightarrow> u16 \<Rightarrow> 'm arm \<Rightarrow> 'm arm" where
  "DataWrite16 env addr val s =
     (if Num s = 0 then DataWrite16_9 env addr val s
      else let addr = addr AND NOT 1; s = s\<lparr>con := BusWrite16 env 1 addr val (con s), DataRegion := addr\<rparr>
           in s\<lparr>DataCycles := bus_timing_7 env addr 0 s\<rparr>)"

definition DataWrite32 :: "'m env \<Rightarrow> u32 \<Rightarrow> u32 \<Rightarrow> 'm arm \<Rightarrow> 'm arm" where
  "DataWrite32 env addr val s =
     (if Num s = 0 then DataWrite32_9 env addr val s
      else let addr = addr AND NOT 3; s = s\<lparr>con := BusWrite32 env 1 addr val (con s), DataRegion := addr\<rparr>
           in s\<lparr>DataCycles := bus_timing_7 env addr 2 s\<rparr>)"

definition DataWrite32S :: "'m env \<Rightarrow> u32 \<Rightarrow> u32 \<Rightarrow> 'm arm \<Rightarrow> 'm arm" where
  "DataWrite32S env addr val s =
     (if Num s = 0 then DataWrite32S_9 env addr val s
      else let addr = addr AND NOT 3; s = s\<lparr>con := BusWrite32 env 1 addr val (con s)\<rparr>
           in s\<lparr>DataCycles := DataCycles s + bus_timing_7 env addr 3 s\<rparr>)"

section \<open>Coprocessor instructions\<close>

text \<open>\<open>A_MCR\<close> and \<open>A_MRC\<close> of \<^verbatim>\<open>src/src/ARMInterpreter.cpp\<close>.\<close>

definition cp_register :: "'m arm \<Rightarrow> u32" where
  "cp_register s =
     (let cn = shr (CurInstr s) 16 AND 0xF; cm = CurInstr s AND 0xF; cpinfo = shr (CurInstr s) 5 AND 0x7
      in shl cn 8 OR shl cm 4 OR cpinfo)"

definition A_MCR :: "'m instr" where
  "A_MCR env s =
     (if CPSR s AND 0x1F = 0x10 then A_UNK env s
      else let cp = shr (CurInstr s) 8 AND 0xF in
        if Num s = 0 \<and> cp = 15 then
          AddCycles_CI env (1 + 1) (CP15Write (cp_register s) (R s (reg4 12 s)) env s)
        else if Num s = 1 \<and> cp = 14 then AddCycles_CI env (1 + 1) s
        else A_UNK env s)"

definition A_MRC :: "'m instr" where
  "A_MRC env s =
     (if CPSR s AND 0x1F = 0x10 then A_UNK env s
      else let cp = shr (CurInstr s) 8 AND 0xF in
        if Num s = 0 \<and> cp = 15 then
          AddCycles_CI env (2 + 1) (set_R (reg4 12 s) (CP15Read (cp_register s) s) s)
        else if Num s = 1 \<and> cp = 14 then AddCycles_CI env (2 + 1) s
        else A_UNK env s)"

end
