(* ===== verification/Cp15Spec.thy ===== *)
theory Cp15Spec
  imports Cp15
begin

text \<open>
  What the system control coprocessor of \<^verbatim>\<open>src/src/CP15.cpp\<close> guarantees: the pages a protection region
  covers, the permission maps it computes from the eight regions, the registers it lets the program
  read back, and the windows of the tightly coupled memories.
\<close>

section \<open>Regions of the protection unit\<close>

lemma nat32: "k < 2 ^ 32 \<Longrightarrow> unat (word_of_nat k :: u32) = k"
  by (simp add: unsigned_of_nat take_bit_nat_eq_self)

definition region_log :: "u32 \<Rightarrow> nat" where
  "region_log rgn = unat (shr rgn 1 AND 0x1F) - 11"

lemma region_log_le: "region_log rgn \<le> 20"
proof -
  have "shr rgn 1 AND 0x1F \<le> 0x1F" by (rule word_and_le1)
  then have "unat (shr rgn 1 AND 0x1F) \<le> 31" by (simp add: unat_le_iff)
  then show ?thesis by (simp add: region_log_def)
qed

lemma region_range_nat:
  fixes rgn :: u32
  defines "n \<equiv> region_log rgn"
  shows "unat (fst (region_range rgn)) = unat rgn div 2 ^ 12 div 2 ^ n * 2 ^ n" (is ?st)
    and "unat (snd (region_range rgn)) = unat rgn div 2 ^ 12 div 2 ^ n * 2 ^ n + 2 ^ n" (is ?en)
    and "unat rgn div 2 ^ 12 div 2 ^ n * 2 ^ n + 2 ^ n \<le> 2 ^ 20" (is ?le)
proof -
  have n: "n \<le> 20" unfolding n_def by (rule region_log_le)
  have p: "2 ^ (20 - n) * 2 ^ n = (2::nat) ^ 20" using n by (simp flip: power_add)
  have "unat rgn div 2 ^ 12 < 2 ^ 20"
    using unat_bound [of rgn] by (intro less_mult_imp_div_less) simp
  then have "unat rgn div 2 ^ 12 div 2 ^ n < 2 ^ (20 - n)"
    by (intro less_mult_imp_div_less) (simp add: p)
  then have "(unat rgn div 2 ^ 12 div 2 ^ n + 1) * 2 ^ n \<le> 2 ^ (20 - n) * 2 ^ n"
    by (intro mult_le_mono1) simp
  then show le: ?le by (simp only: p add_mult_distrib mult_1)
  have small: "unat rgn div 2 ^ 12 div 2 ^ n * 2 ^ n + 2 ^ n < 2 ^ 32" using le by simp
  define X where "X = shr (shr rgn 12) n"
  have X: "unat X = unat rgn div 2 ^ 12 div 2 ^ n" unfolding X_def by (simp only: unat_shr)
  have "fst (region_range rgn) = word_of_nat (unat X * 2 ^ n)"
    by (simp add: region_range_def Let_def region_log_def [symmetric] n_def [symmetric] X_def [symmetric] push_bit_eq_mult
        del: drop_bit_drop_bit One_nat_def)
  then have st: "fst (region_range rgn) = word_of_nat (unat rgn div 2 ^ 12 div 2 ^ n * 2 ^ n)" unfolding X .
  show st': ?st unfolding st by (rule nat32) (use small in linarith)
  have "snd (region_range rgn) = fst (region_range rgn) + word_of_nat (2 ^ n)"
    by (simp add: region_range_def Let_def region_log_def n_def push_bit_eq_mult)
  then have "snd (region_range rgn) = word_of_nat (unat rgn div 2 ^ 12 div 2 ^ n * 2 ^ n + 2 ^ n)"
    unfolding st by (simp only: of_nat_add)
  then show ?en by (simp only: nat32 [OF small])
qed

definition region_covers :: "u32 \<Rightarrow> nat \<Rightarrow> bool" where
  "region_covers rgn p \<longleftrightarrow> tst rgn 1 \<and> p div 2 ^ region_log rgn = unat rgn div 2 ^ 12 div 2 ^ region_log rgn"

lemma in_range_iff: "k * m \<le> p \<and> p < k * m + m \<longleftrightarrow> p div m = k" if "0 < m" for k m p :: nat
proof
  assume "k * m \<le> p \<and> p < k * m + m"
  then show "p div m = k" by (intro div_nat_eqI) (simp_all add: mult.commute)
next
  assume "p div m = k"
  then show "k * m \<le> p \<and> p < k * m + m"
    using that by (metis add.commute div_times_less_eq_dividend dividend_less_div_times)
qed

text \<open>The page range that \<open>UpdatePURegion\<close> computes from a region register is not empty, lies in the
  32-bit address space, starts at a multiple of its size, and consists of the pages that agree with the
  base address of the register above the size of the region.\<close>

theorem PU_region_pages:
  fixes rgn :: u32
  defines "st \<equiv> unat (fst (region_range rgn))" and "en \<equiv> unat (snd (region_range rgn))"
  shows "st < en \<and> en \<le> 0x100000 \<and> 2 ^ region_log rgn dvd st \<and>
    (\<forall>p. st \<le> p \<and> p < en \<longleftrightarrow> p div 2 ^ region_log rgn = unat rgn div 2 ^ 12 div 2 ^ region_log rgn)"
  unfolding st_def en_def region_range_nat(1,2) using region_range_nat(3) [of rgn] by (auto simp: in_range_iff)

lemma UpdateRegionTimings_other [simp]:
  "PU_PrivMap (UpdateRegionTimings a b env s) = PU_PrivMap s" "PU_UserMap (UpdateRegionTimings a b env s) = PU_UserMap s"
  "CP15Control (UpdateRegionTimings a b env s) = CP15Control s" "PU_Region (UpdateRegionTimings a b env s) = PU_Region s"
  "region_rights n (UpdateRegionTimings a b env s) = region_rights n s"
  by (simp_all add: UpdateRegionTimings_def region_rights_def)

lemma UpdatePURegion_maps:
  assumes "tst (CP15Control s) 1"
  shows "(PU_PrivMap (UpdatePURegion n env s) p, PU_UserMap (UpdatePURegion n env s) p) =
    (if region_covers (PU_Region s n) p then region_rights n s else (PU_PrivMap s p, PU_UserMap s p))"
  using assms by (auto simp: UpdatePURegion_def region_covers_def Let_def case_prod_beta region_range_nat in_range_iff prod_eq_iff)

lemma UpdatePURegion_other [simp]:
  "CP15Control (UpdatePURegion n env s) = CP15Control s" "PU_Region (UpdatePURegion n env s) = PU_Region s"
  "region_rights k (UpdatePURegion n env s) = region_rights k s"
  by (simp_all add: UpdatePURegion_def Let_def case_prod_beta) (simp add: region_rights_def)

lemma find_append: "find P (xs @ ys) = (case find P xs of Some x \<Rightarrow> Some x | None \<Rightarrow> find P ys)"
  by (induction xs) simp_all

lemma fold_UpdatePURegion:
  assumes "tst (CP15Control s) 1"
  shows "(let t = fold (\<lambda>n. UpdatePURegion n env) ns s in (PU_PrivMap t p, PU_UserMap t p)) =
    (case find (\<lambda>n. region_covers (PU_Region s n) p) (rev ns) of
       Some n \<Rightarrow> region_rights n s | None \<Rightarrow> (PU_PrivMap s p, PU_UserMap s p))"
  using assms
proof (induction ns arbitrary: s)
  case (Cons n ns)
  show ?case
    using Cons.IH [of "UpdatePURegion n env s"] Cons.prems UpdatePURegion_maps [OF Cons.prems, of n env p]
    by (auto simp: Let_def find_append split: option.splits)
qed simp

definition page_region :: "'m arm \<Rightarrow> nat \<Rightarrow> nat option" where
  "page_region s p = find (\<lambda>n. region_covers (PU_Region s n) p) (rev [0..<8])"

lemma PU_maps_by_priority':
  fixes env :: "'m env" and s :: "'m arm"
  assumes "tst (CP15Control s) 1" "p < 0x100000"
  defines "t \<equiv> UpdatePURegions True env s"
  shows "(PU_PrivMap t p, PU_UserMap t p) =
    (case page_region s p of Some n \<Rightarrow> region_rights n s | None \<Rightarrow> (0, 0))"
proof -
  define u where "u = fill_maps 0 s"
  define v where "v = fold (\<lambda>n. UpdatePURegion n env) [0..<8] u"
  have u: "CP15Control u = CP15Control s" "PU_Region u = PU_Region s" "PU_PrivMap u p = 0" "PU_UserMap u p = 0"
      "region_rights n u = region_rights n s" for n
    using assms(2) by (simp_all add: u_def fill_maps_def region_rights_def)
  have "t = UpdateRegionTimings 0 0x100000 env v"
    using assms(1) unfolding t_def UpdatePURegions_def Let_def v_def u_def by simp
  then have "(PU_PrivMap t p, PU_UserMap t p) = (PU_PrivMap v p, PU_UserMap v p)" by simp
  also have "\<dots> = (case page_region s p of Some n \<Rightarrow> region_rights n s | None \<Rightarrow> (0, 0))"
    using fold_UpdatePURegion [of u env "[0..<8]" p] assms(1)
    unfolding u Let_def v_def [symmetric] page_region_def by simp
  finally show ?thesis .
qed

text \<open>C25: rebuilding the protection tables gives every page of the address space the permissions of the
  enabled region with the highest number that covers it, for privileged and for user mode, and no permissions
  when no region covers it.\<close>

theorem PU_maps_by_priority:
  assumes "tst (CP15Control s) 1" "p < 0x100000"
  shows "(PU_PrivMap (UpdatePURegions True env s) p, PU_UserMap (UpdatePURegions True env s) p) =
    (case page_region s p of Some n \<Rightarrow> region_rights n s | None \<Rightarrow> (0, 0))"
  by (rule PU_maps_by_priority') (rule assms)+

definition two_regions :: "(u32 \<Rightarrow> u8) arm" where
  "two_regions = (blank_arm 0)\<lparr>CP15Control := 0x40001, PU_DataRW := 0x31,
     PU_Region := (\<lambda>_. 0)(0 := 0x3F, 1 := 0x02000025)\<rparr>"

lemma two_regions_pages:
  "region_covers (PU_Region two_regions 0) 0x2000" "page_region two_regions 0x2000 = Some 1"
  "page_region two_regions 0x5000 = Some 0"
  by (simp_all add: two_regions_def page_region_def region_covers_def region_log_def upt_rec del: upt_rec_numeral)

theorem PU_maps_by_priority_witness:
  "let t = UpdatePURegions True flat_env two_regions
   in (PU_PrivMap t 0x2000, PU_UserMap t 0x2000) = region_rights 1 two_regions \<and>
      (PU_PrivMap t 0x5000, PU_UserMap t 0x5000) = region_rights 0 two_regions"
proof -
  have c: "tst (CP15Control two_regions) 1" by (simp add: two_regions_def)
  show ?thesis
    using PU_maps_by_priority [OF c, of "0x2000" flat_env] PU_maps_by_priority [OF c, of "0x5000" flat_env]
    by (simp add: two_regions_pages)
qed

section \<open>Coprocessor registers\<close>

lemma word32_eqI_list: "list_all (\<lambda>i. bit x i = bit y i) [0..<32] \<Longrightarrow> x = y" for x y :: u32
  by (rule bit_word_eqI) (simp add: list_all_iff)

lemma legacy_roundtrip: "rw_to_legacy (legacy_to_rw v) = v AND 0xFFFF"
  by (rule word32_eqI_list)
    (simp add: upt_rec rw_to_legacy_def legacy_to_rw_def bit_or_iff bit_and_iff bit_push_bit_iff bit_drop_bit_eq)

text \<open>The registers themselves, without the tables computed from them.\<close>

definition cp15_regs :: "'m arm \<Rightarrow> u32 \<times> u32 \<times> u32 \<times> u32 \<times> u32 \<times> u32 \<times> u32 \<times> u32 \<times> u32 \<times> (nat \<Rightarrow> u32)" where
  "cp15_regs s = (CP15Control s, PU_CodeCacheable s, PU_DataCacheable s, PU_DataCacheWrite s, PU_CodeRW s, PU_DataRW s,
     DTCMSetting s, ITCMSetting s, TraceProcessID s, PU_Region s)"

lemma cp15_regs_eqD:
  assumes "cp15_regs t = cp15_regs s"
  shows "CP15Control t = CP15Control s" "PU_CodeCacheable t = PU_CodeCacheable s" "PU_DataCacheable t = PU_DataCacheable s"
    "PU_DataCacheWrite t = PU_DataCacheWrite s" "PU_CodeRW t = PU_CodeRW s" "PU_DataRW t = PU_DataRW s"
    "DTCMSetting t = DTCMSetting s" "ITCMSetting t = ITCMSetting s" "TraceProcessID t = TraceProcessID s"
    "PU_Region t = PU_Region s"
  using assms by (simp_all add: cp15_regs_def)

lemma fold_keeps: "(\<And>x s. f (g x s) = f s) \<Longrightarrow> f (fold g xs s) = f s"
  by (induction xs arbitrary: s) simp_all

lemma cp15_regs_timings [simp]: "cp15_regs (UpdateRegionTimings a b env s) = cp15_regs s"
  by (simp add: UpdateRegionTimings_def cp15_regs_def)

lemma cp15_regs_region [simp]: "cp15_regs (UpdatePURegion n env s) = cp15_regs s"
  by (simp add: UpdatePURegion_def Let_def case_prod_beta) (simp add: cp15_regs_def)

lemma cp15_regs_fill [simp]: "cp15_regs (fill_maps m s) = cp15_regs s"
  by (simp add: fill_maps_def cp15_regs_def)

lemma cp15_regs_regions [simp]: "cp15_regs (UpdatePURegions b env s) = cp15_regs s"
proof -
  have "cp15_regs (fold (\<lambda>n. UpdatePURegion n env) ns t) = cp15_regs t" for ns t
    by (rule fold_keeps) simp
  then show ?thesis by (simp add: UpdatePURegions_def Let_def)
qed

lemma cp15_regs_changed [simp]: "cp15_regs (update_changed w k d env s) = cp15_regs s"
  unfolding update_changed_def by (rule fold_keeps) simp

lemma cp15_regs_tcm [simp]: "cp15_regs (UpdateDTCMSetting env s) = cp15_regs s" "cp15_regs (UpdateITCMSetting s) = cp15_regs s"
  by (simp_all add: UpdateDTCMSetting_def UpdateITCMSetting_def Let_def cp15_regs_def upd_con_def case_prod_beta)

definition writable_ids :: "u32 list" where
  "writable_ids = [0x100, 0x200, 0x201, 0x300, 0x500, 0x501, 0x502, 0x503, 0x910, 0x911, 0xD01] @ region_ids"

definition cp15_readback :: "u32 \<Rightarrow> u32 \<Rightarrow> 'm arm \<Rightarrow> u32" where
  "cp15_readback i v s =
     (if i = 0x100 then (CP15Control s AND NOT 0x000FF085) OR (v AND 0x000FF085)
      else if i = 0x500 \<or> i = 0x501 then v AND 0xFFFF
      else if i = 0x910 then v AND 0xFFFFF03E
      else if i = 0x911 then v AND 0x3E
      else v)"

lemma CP15Write_control_reg:
  "CP15Control (CP15Write_control v env s) = (CP15Control s AND NOT 0x000FF085) OR (v AND 0x000FF085)"
proof -
  define t where "t = s\<lparr>CP15Control := (CP15Control s AND NOT 0x000FF085) OR (v AND 0x000FF085)\<rparr>"
  have "cp15_regs (UpdateITCMSetting (UpdateDTCMSetting env t)) = cp15_regs t"
    "cp15_regs (UpdatePURegions b env (UpdateITCMSetting (UpdateDTCMSetting env t))) = cp15_regs t" for b
    by simp_all
  note c = this [THEN cp15_regs_eqD(1)]
  show ?thesis unfolding CP15Write_control_def Let_def t_def [symmetric] by (simp add: c) (simp add: t_def)
qed

text \<open>A coprocessor register that can be written reads back what was written: all of it for the
  registers that are kept whole, the bits that exist for the control and the memory setting registers, and the
  low sixteen bits for the old format of the permission registers, which survives its conversion.\<close>

theorem CP15_readback:
  assumes "i \<in> set writable_ids"
  shows "CP15Read i (CP15Write i v env s) = cp15_readback i v s"
proof (cases "i \<in> set region_ids")
  case True
  have "cp15_regs (UpdatePURegions True env u) = cp15_regs u" for u by simp
  note r = cp15_regs_eqD(10) [OF this]
  have "i \<noteq> 0x100 \<and> i \<noteq> 0x200 \<and> i \<noteq> 0x201 \<and> i \<noteq> 0x300 \<and> i \<noteq> 0x500 \<and> i \<noteq> 0x501 \<and> i \<noteq> 0x502 \<and> i \<noteq> 0x503 \<and>
      i \<noteq> 0x910 \<and> i \<noteq> 0x911 \<and> i \<notin> {0x000, 0x003, 0x004, 0x005, 0x006, 0x007} \<and> i \<noteq> 0x001 \<and> i \<noteq> 0x002"
    using True unfolding region_ids_def list.set by (elim insertE emptyE) simp_all
  with True show ?thesis by (simp add: CP15Write_def CP15Read_def cp15_readback_def r)
next
  case False
  then have "i \<in> {0x100, 0x200, 0x201, 0x300, 0x500, 0x501, 0x502, 0x503, 0x910, 0x911, 0xD01}"
    using assms by (auto simp: writable_ids_def)
  then show ?thesis
    by (elim insertE emptyE) (simp_all add: CP15Write_def CP15Read_def cp15_readback_def region_ids_def Let_def
        CP15Write_control_reg legacy_roundtrip
        cp15_regs_eqD [OF cp15_regs_changed] cp15_regs_eqD [OF cp15_regs_tcm(1)] cp15_regs_eqD [OF cp15_regs_tcm(2)])
qed

theorem CP15_readback_witness:
  "CP15Read 0x911 (CP15Write 0x911 0xFFFFFFFF flat_env (blank_arm 0)) = 0x3E"
  using CP15_readback [of "0x911" "0xFFFFFFFF" flat_env "blank_arm 0"]
  by (simp add: writable_ids_def cp15_readback_def)

section \<open>Changing the permissions of one region\<close>

lemma update_changed_one:
  assumes "n < 8" "tst d (shl w (n * k))" "\<forall>i<8. i \<noteq> n \<longrightarrow> \<not> tst d (shl w (i * k))"
  shows "update_changed w k d env s = UpdatePURegion n env s"
proof -
  have split: "[0..<8] = [0..<n] @ [n] @ [Suc n..<8]"
    using assms(1) upt_add_eq_append [of 0 n "8 - n"] by (simp add: upt_conv_Cons)
  have skip: "fold (\<lambda>i s. if tst d (shl w (i * k)) then UpdatePURegion i env s else s) is t = t"
    if "\<forall>i \<in> set is. \<not> tst d (shl w (i * k))" for "is" t
    using that by (induction "is" arbitrary: t) simp_all
  show ?thesis unfolding update_changed_def split fold_append
    using assms by (simp add: skip)
qed

text \<open>C26: writing the data permission register updates only the region whose permissions change, and
  gives its permissions to every page it covers: a page that a region of higher priority covers too loses the
  permissions of that region, until the tables are rebuilt.\<close>

theorem permission_update_ignores_priority:
  fixes env :: "'m env" and s :: "'m arm"
  assumes "tst (CP15Control s) 1" "n < 8" "p < 0x100000"
    and "tst (PU_DataRW s XOR v) (shl 0xF (n * 4))" "\<forall>i<8. i \<noteq> n \<longrightarrow> \<not> tst (PU_DataRW s XOR v) (shl 0xF (i * 4))"
    and "region_covers (PU_Region s n) p" "page_region s p = Some m"
  defines "t \<equiv> CP15Write 0x502 v env s"
  defines "u \<equiv> UpdatePURegions True env t"
  shows "(PU_PrivMap t p, PU_UserMap t p) = region_rights n t \<and> (PU_PrivMap u p, PU_UserMap u p) = region_rights m t"
proof -
  define s' where "s' = s\<lparr>PU_DataRW := v\<rparr>"
  have t: "t = UpdatePURegion n env s'"
    using update_changed_one [OF assms(2,4,5), of env s'] by (simp add: t_def s'_def CP15Write_def Let_def)
  have c: "tst (CP15Control s') 1" "tst (CP15Control t) 1" using assms(1) by (simp_all add: t s'_def)
  have pr: "page_region t p = Some m" using assms(7) by (simp add: page_region_def t s'_def)
  show ?thesis
    using UpdatePURegion_maps [OF c(1), of n env p] PU_maps_by_priority' [OF c(2) assms(3), of env] assms(6) pr
    by (simp add: t [symmetric] u_def) (simp add: t s'_def)
qed

theorem permission_update_ignores_priority_witness:
  "let t = CP15Write 0x502 0x32 flat_env two_regions; u = UpdatePURegions True flat_env t
   in (PU_PrivMap t 0x2000, PU_UserMap t 0x2000) = region_rights 0 t \<and>
      (PU_PrivMap u 0x2000, PU_UserMap u 0x2000) = region_rights 1 t"
proof -
  have "\<not> tst (PU_DataRW two_regions XOR 0x32) (shl 0xF (i * 4))" if "i < 8" "i \<noteq> 0" for i
  proof -
    have "i \<in> {1, 2, 3, 4, 5, 6, 7}" using that by (simp add: less_Suc_eq numeral_eq_Suc)
    then show ?thesis by (elim insertE emptyE) (simp_all add: two_regions_def)
  qed
  then show ?thesis
    using permission_update_ignores_priority [of two_regions 0 "0x2000" "0x32" 1 flat_env] two_regions_pages
    by (simp add: two_regions_def)
qed

section \<open>Windows of the tightly coupled memories\<close>

definition tcm_code :: "u32 \<Rightarrow> nat" where
  "tcm_code v = unat (shr v 1 AND 0x1F)"

lemma tcm_size: "unat (shl 0x200 n :: u32) = (if n < 23 then 2 ^ (9 + n) else 0)"
proof (cases "n < 23")
  case True
  then have "(2::nat) ^ (9 + n) < 2 ^ 32" by (intro power_strict_increasing) simp_all
  moreover have "shl 0x200 n = (word_of_nat (2 ^ (9 + n)) :: u32)" by (simp add: push_bit_eq_mult power_add)
  ultimately have "unat (shl 0x200 n :: u32) = 2 ^ (9 + n)" by (simp only: nat32)
  then show ?thesis using True by simp
next
  case False
  have "shl 0x200 n = (0 :: u32)"
  proof (rule bit_word_eqI)
    fix i assume "i < LENGTH(32)"
    have "(0x200 :: u32) = 2 ^ 9" by simp
    then show "bit (shl 0x200 n :: u32) i = bit (0 :: u32) i"
      using False \<open>i < LENGTH(32)\<close> by (simp only: bit_push_bit_iff bit_pow2) auto
  qed
  then show ?thesis using False by simp
qed

text \<open>With the instruction memory enabled, a write of its setting register gives it a window of
  512 bytes shifted left by the size code, as long as that fits in 32 bits; from the code 23 on, which stands for
  the whole address space, the window is empty.\<close>

theorem ITCM_window:
  assumes "tst (CP15Control s) (shl 1 18)"
  shows "unat (ITCMSize (CP15Write 0x911 v env s)) = (if tcm_code v < 23 then 2 ^ (9 + tcm_code v) else 0)"
proof -
  have "shr (v AND 0x3E) 1 AND 0x1F = shr v 1 AND 0x1F"
    by (rule word32_eqI_list) (simp add: upt_rec bit_and_iff bit_drop_bit_eq)
  then show ?thesis using assms tcm_size
    by (simp add: CP15Write_def UpdateITCMSetting_def region_ids_def tcm_code_def)
qed

theorem ITCM_window_witness:
  "unat (ITCMSize (CP15Write 0x911 0x20 flat_env two_regions)) = 0x2000000 \<and>
   unat (ITCMSize (CP15Write 0x911 0x2E flat_env two_regions)) = 0"
proof -
  have c: "tst (CP15Control two_regions) (shl 1 18)" by (simp add: two_regions_def)
  show ?thesis
    using ITCM_window [OF c, of "0x20" flat_env] ITCM_window [OF c, of "0x2E" flat_env] by (simp add: tcm_code_def)
qed

end
