(* ===== verification/ArmLoadStore.thy ===== *)
theory ArmLoadStore
  imports Cp15
begin

text \<open>
  The loads and stores of \<^verbatim>\<open>src/src/ARMInterpreter_LoadStore.cpp\<close>. As in the code, a data abort in
  the middle of an instruction enters the exception, and the rest of the instruction goes on from
  there: a destination register is then left alone, and a local variable stays undefined.
\<close>

section \<open>Destinations of a read\<close>

text \<open>The pointer argument of a read: a register, or a local variable with the given old value.\<close>

definition to_reg :: "nat \<Rightarrow> u32 option \<times> 'm arm \<Rightarrow> 'm arm" where
  "to_reg r vs = (case vs of (Some v, s) \<Rightarrow> set_R r v s | (None, s) \<Rightarrow> s)"

definition to_local :: "u32 \<Rightarrow> u32 option \<times> 'm arm \<Rightarrow> u32 \<times> 'm arm" where
  "to_local old vs = (case vs of (Some v, s) \<Rightarrow> (v, s) | (None, s) \<Rightarrow> (old, s))"

definition add_R :: "nat \<Rightarrow> u32 \<Rightarrow> 'm arm \<Rightarrow> 'm arm" where
  "add_R r v s = set_R r (R s r + v) s"

text \<open>\<open>(s32)(s8)R[r]\<close> and \<open>(s32)(s16)R[r]\<close>\<close>

definition sext8 :: "nat \<Rightarrow> 'm arm \<Rightarrow> 'm arm" where
  "sext8 r s = set_R r (scast (ucast (R s r) :: 8 word)) s"

definition sext16 :: "nat \<Rightarrow> 'm arm \<Rightarrow> 'm arm" where
  "sext16 r s = set_R r (scast (ucast (R s r) :: 16 word)) s"

section \<open>Words and bytes\<close>

datatype ls_addr = Off_IMM | Off_REG_LSL | Off_REG_LSR | Off_REG_ASR | Off_REG_ROR

definition signed_offset :: "u32 \<Rightarrow> 'm arm \<Rightarrow> u32" where
  "signed_offset offset s = (if \<not> tst (CurInstr s) (shl 1 23) then - offset else offset)"

definition A_WB_CALC_OFFSET_IMM :: "'m arm \<Rightarrow> u32" where
  "A_WB_CALC_OFFSET_IMM s = signed_offset (CurInstr s AND 0xFFF) s"

definition A_WB_CALC_OFFSET_REG :: "'m shiftop \<Rightarrow> 'm env \<Rightarrow> 'm arm \<Rightarrow> u32" where
  "A_WB_CALC_OFFSET_REG shiftop env s =
     (let offset = R s (reg4 0 s);
          shift = unat (shr (CurInstr s) 7 AND 0x1F);
          offset = fst (shiftop env offset shift s)
      in signed_offset offset s)"

definition A_WB_CALC_OFFSET :: "ls_addr \<Rightarrow> 'm env \<Rightarrow> 'm arm \<Rightarrow> u32" where
  "A_WB_CALC_OFFSET k env s = (case k of
       Off_IMM \<Rightarrow> A_WB_CALC_OFFSET_IMM s
     | Off_REG_LSL \<Rightarrow> A_WB_CALC_OFFSET_REG LSL_IMM env s
     | Off_REG_LSR \<Rightarrow> A_WB_CALC_OFFSET_REG LSR_IMM env s
     | Off_REG_ASR \<Rightarrow> A_WB_CALC_OFFSET_REG ASR_IMM env s
     | Off_REG_ROR \<Rightarrow> A_WB_CALC_OFFSET_REG ROR_IMM env s)"

definition writeback :: "u32 \<Rightarrow> 'm arm \<Rightarrow> 'm arm" where
  "writeback offset s = (if tst (CurInstr s) (shl 1 21) then set_R (reg4 16 s) offset s else s)"

definition store_value :: "'m arm \<Rightarrow> u32" where
  "store_value s = (let v = R s (reg4 12 s) in if reg4 12 s = 0xF then v + 4 else v)"

type_synonym 'm lsop = "u32 \<Rightarrow> 'm env \<Rightarrow> 'm arm \<Rightarrow> 'm arm"

definition A_STR :: "'m lsop" where
  "A_STR offset env s =
     (let offset = offset + R s (reg4 16 s);
          s = DataWrite32 env offset (store_value s) s
      in AddCycles_CD env (writeback offset s))"

definition A_STR_POST :: "'m lsop" where
  "A_STR_POST offset env s =
     (let addr = R s (reg4 16 s);
          s = DataWrite32 env addr (store_value s) s
      in AddCycles_CD env (add_R (reg4 16 s) offset s))"

definition A_STRB :: "'m lsop" where
  "A_STRB offset env s =
     (let offset = offset + R s (reg4 16 s);
          s = DataWrite8 env offset (ucast (R s (reg4 12 s))) s
      in AddCycles_CD env (writeback offset s))"

definition A_STRB_POST :: "'m lsop" where
  "A_STRB_POST offset env s =
     (let addr = R s (reg4 16 s);
          s = DataWrite8 env addr (ucast (R s (reg4 12 s))) s
      in AddCycles_CD env (add_R (reg4 16 s) offset s))"

text \<open>The common end of a word load: into the program counter it is a jump.\<close>

definition load_rd :: "u32 \<Rightarrow> 'm env \<Rightarrow> 'm arm \<Rightarrow> 'm arm" where
  "load_rd val env s =
     (if reg4 12 s = 15 then
        let val = (if Num s = 1 then val AND NOT 0x1 else val) in JumpTo env val False s
      else set_R (reg4 12 s) val s)"

definition A_LDR :: "'m lsop" where
  "A_LDR offset env s =
     (let offset = offset + R s (reg4 16 s);
          (val, s) = to_local (indet env) (DataRead32 env offset s);
          val = ROR val (unat (shl (offset AND 0x3) 3));
          s = writeback offset s
      in load_rd val env (AddCycles_CDI env s))"

definition A_LDR_POST :: "'m lsop" where
  "A_LDR_POST offset env s =
     (let addr = R s (reg4 16 s);
          (val, s) = to_local (indet env) (DataRead32 env addr s);
          val = ROR val (unat (shl (addr AND 0x3) 3));
          s = add_R (reg4 16 s) offset s
      in load_rd val env (AddCycles_CDI env s))"

definition A_LDRB :: "'m lsop" where
  "A_LDRB offset env s =
     (let offset = offset + R s (reg4 16 s);
          (val, s) = to_local (indet env) (DataRead8 env offset s);
          s = writeback offset s;
          s = AddCycles_CDI env s
      in set_R (reg4 12 s) val s)"

definition A_LDRB_POST :: "'m lsop" where
  "A_LDRB_POST offset env s =
     (let addr = R s (reg4 16 s);
          (val, s) = to_local (indet env) (DataRead8 env addr s);
          s = add_R (reg4 16 s) offset s;
          s = AddCycles_CDI env s
      in set_R (reg4 12 s) val s)"

text \<open>The functions the macro generates: operation, indexing and form of the offset.\<close>

datatype ls_op = STR_op | STRB_op | LDR_op | LDRB_op

definition A_IMPLEMENT_WB_LDRSTR :: "ls_op \<Rightarrow> bool \<Rightarrow> ls_addr \<Rightarrow> 'm instr" where
  "A_IMPLEMENT_WB_LDRSTR x post k env s =
     (let offset = A_WB_CALC_OFFSET k env s
      in (case x of
            STR_op \<Rightarrow> if post then A_STR_POST else A_STR
          | STRB_op \<Rightarrow> if post then A_STRB_POST else A_STRB
          | LDR_op \<Rightarrow> if post then A_LDR_POST else A_LDR
          | LDRB_op \<Rightarrow> if post then A_LDRB_POST else A_LDRB) offset env s)"

section \<open>Halfwords, signed bytes and doublewords\<close>

definition A_HD_CALC_OFFSET_IMM :: "'m arm \<Rightarrow> u32" where
  "A_HD_CALC_OFFSET_IMM s =
     signed_offset ((CurInstr s AND 0xF) OR (shr (CurInstr s) 4 AND 0xF0)) s"

definition A_HD_CALC_OFFSET_REG :: "'m arm \<Rightarrow> u32" where
  "A_HD_CALC_OFFSET_REG s = signed_offset (R s (reg4 0 s)) s"

definition A_STRH :: "'m lsop" where
  "A_STRH offset env s =
     (let offset = offset + R s (reg4 16 s);
          s = DataWrite16 env offset (ucast (R s (reg4 12 s))) s
      in AddCycles_CD env (writeback offset s))"

definition A_STRH_POST :: "'m lsop" where
  "A_STRH_POST offset env s =
     (let addr = R s (reg4 16 s);
          s = DataWrite16 env addr (ucast (R s (reg4 12 s))) s
      in AddCycles_CD env (add_R (reg4 16 s) offset s))"

text \<open>The even register of a pair.\<close>

definition even_reg :: "'m arm \<Rightarrow> nat" where
  "even_reg s = (let r = reg4 12 s in if odd r then r - 1 else r)"

definition A_LDRD :: "'m lsop" where
  "A_LDRD offset env s =
     (if Num s \<noteq> 0 then s
      else
        let offset = offset + R s (reg4 16 s);
            s = writeback offset s;
            r = even_reg s;
            s = to_reg r (DataRead32 env offset s);
            s = to_reg (r + 1) (DataRead32S env (offset + 4) s)
        in AddCycles_CDI env s)"

definition A_LDRD_POST :: "'m lsop" where
  "A_LDRD_POST offset env s =
     (if Num s \<noteq> 0 then s
      else
        let addr = R s (reg4 16 s);
            s = add_R (reg4 16 s) offset s;
            r = even_reg s;
            s = to_reg r (DataRead32 env addr s);
            s = to_reg (r + 1) (DataRead32S env (addr + 4) s)
        in AddCycles_CDI env s)"

definition A_STRD :: "'m lsop" where
  "A_STRD offset env s =
     (if Num s \<noteq> 0 then s
      else
        let offset = offset + R s (reg4 16 s);
            s = writeback offset s;
            r = even_reg s;
            s = DataWrite32 env offset (R s r) s;
            s = DataWrite32S env (offset + 4) (R s (r + 1)) s
        in AddCycles_CD env s)"

definition A_STRD_POST :: "'m lsop" where
  "A_STRD_POST offset env s =
     (if Num s \<noteq> 0 then s
      else
        let addr = R s (reg4 16 s);
            s = add_R (reg4 16 s) offset s;
            r = even_reg s;
            s = DataWrite32 env addr (R s r) s;
            s = DataWrite32S env (addr + 4) (R s (r + 1)) s
        in AddCycles_CD env s)"

definition A_LDRH :: "'m lsop" where
  "A_LDRH offset env s =
     (let offset = offset + R s (reg4 16 s);
          s = writeback offset s;
          s = to_reg (reg4 12 s) (DataRead16 env offset s)
      in AddCycles_CDI env s)"

definition A_LDRH_POST :: "'m lsop" where
  "A_LDRH_POST offset env s =
     (let addr = R s (reg4 16 s);
          s = add_R (reg4 16 s) offset s;
          s = to_reg (reg4 12 s) (DataRead16 env addr s)
      in AddCycles_CDI env s)"

definition A_LDRSB :: "'m lsop" where
  "A_LDRSB offset env s =
     (let offset = offset + R s (reg4 16 s);
          s = writeback offset s;
          s = to_reg (reg4 12 s) (DataRead8 env offset s);
          s = sext8 (reg4 12 s) s
      in AddCycles_CDI env s)"

definition A_LDRSB_POST :: "'m lsop" where
  "A_LDRSB_POST offset env s =
     (let addr = R s (reg4 16 s);
          s = add_R (reg4 16 s) offset s;
          s = to_reg (reg4 12 s) (DataRead8 env addr s);
          s = sext8 (reg4 12 s) s
      in AddCycles_CDI env s)"

definition A_LDRSH :: "'m lsop" where
  "A_LDRSH offset env s =
     (let offset = offset + R s (reg4 16 s);
          s = writeback offset s;
          s = to_reg (reg4 12 s) (DataRead16 env offset s);
          s = sext16 (reg4 12 s) s
      in AddCycles_CDI env s)"

definition A_LDRSH_POST :: "'m lsop" where
  "A_LDRSH_POST offset env s =
     (let addr = R s (reg4 16 s);
          s = add_R (reg4 16 s) offset s;
          s = to_reg (reg4 12 s) (DataRead16 env addr s);
          s = sext16 (reg4 12 s) s
      in AddCycles_CDI env s)"

datatype hd_op = STRH_op | LDRD_op | STRD_op | LDRH_op | LDRSB_op | LDRSH_op

definition A_IMPLEMENT_HD_LDRSTR :: "hd_op \<Rightarrow> bool \<Rightarrow> bool \<Rightarrow> 'm instr" where
  "A_IMPLEMENT_HD_LDRSTR x post imm env s =
     (let offset = (if imm then A_HD_CALC_OFFSET_IMM s else A_HD_CALC_OFFSET_REG s)
      in (case x of
            STRH_op \<Rightarrow> if post then A_STRH_POST else A_STRH
          | LDRD_op \<Rightarrow> if post then A_LDRD_POST else A_LDRD
          | STRD_op \<Rightarrow> if post then A_STRD_POST else A_STRD
          | LDRH_op \<Rightarrow> if post then A_LDRH_POST else A_LDRH
          | LDRSB_op \<Rightarrow> if post then A_LDRSB_POST else A_LDRSB
          | LDRSH_op \<Rightarrow> if post then A_LDRSH_POST else A_LDRSH) offset env s)"

section \<open>Swaps\<close>

definition A_SWP :: "'m instr" where
  "A_SWP env s =
     (let base = R s (reg4 16 s);
          rm = R s (reg4 0 s);
          (val, s) = to_local (indet env) (DataRead32 env base s);
          s = set_R (reg4 12 s) (ROR val (unat (8 * (base AND 0x3)))) s;
          numD = DataCycles s;
          s = DataWrite32 env base rm s;
          s = s\<lparr>DataCycles := DataCycles s + numD\<rparr>
      in AddCycles_CDI env s)"

definition A_SWPB :: "'m instr" where
  "A_SWPB env s =
     (let base = R s (reg4 16 s);
          rm = R s (reg4 0 s) AND 0xFF;
          s = to_reg (reg4 12 s) (DataRead8 env base s);
          numD = DataCycles s;
          s = DataWrite8 env base (ucast rm) s;
          s = s\<lparr>DataCycles := DataCycles s + numD\<rparr>
      in AddCycles_CDI env s)"

section \<open>Block transfers\<close>

definition popcount :: "u32 \<Rightarrow> nat" where
  "popcount x = length (filter (bit x) [0..<32])"

definition lists :: "nat \<Rightarrow> 'm arm \<Rightarrow> bool" where
  "lists i s \<longleftrightarrow> tst (CurInstr s) (shl 1 i)"

text \<open>The first transfer of a block is nonsequential and checked, the others are sequential.\<close>

definition block_read :: "'m env \<Rightarrow> bool \<Rightarrow> u32 \<Rightarrow> 'm arm \<Rightarrow> u32 option \<times> 'm arm" where
  "block_read env first addr s = (if first then DataRead32 env addr s else DataRead32S env addr s)"

definition block_write :: "'m env \<Rightarrow> bool \<Rightarrow> u32 \<Rightarrow> u32 \<Rightarrow> 'm arm \<Rightarrow> 'm arm" where
  "block_write env first addr v s = (if first then DataWrite32 env addr v s else DataWrite32S env addr v s)"

type_synonym 'm block = "u32 \<times> bool \<times> 'm arm"

definition ldm_reg :: "'m env \<Rightarrow> bool \<Rightarrow> nat \<Rightarrow> 'm block \<Rightarrow> 'm block" where
  "ldm_reg env preinc i = (\<lambda>(base, first, s).
     if lists i s then
       let base = (if preinc then base + 4 else base);
           s = to_reg i (block_read env first base s);
           base = (if \<not> preinc then base + 4 else base)
       in (base, False, s)
     else (base, first, s))"

definition user_cpsr :: "'m arm \<Rightarrow> u32" where
  "user_cpsr s = (CPSR s AND NOT 0x1F) OR 0x10"

definition A_LDM :: "'m instr" where
  "A_LDM env s =
     (let baseid = reg4 16 s;
          base = R s baseid;
          preinc = lists 24 s;
          (base, wbbase, preinc) =
            (if \<not> lists 23 s then
               let base = base - 4 * word_of_nat (popcount (CurInstr s AND 0xFFFF)) in (base, base, \<not> preinc)
             else (base, 0, preinc));
          s = (if lists 22 s \<and> \<not> lists 15 s then UpdateMode (CPSR s) (user_cpsr s) True s else s);
          (base, first, s) = fold (ldm_reg env preinc) [0..<15] (base, True, s);
          (base, pc, s) =
            (if lists 15 s then
               let base = (if preinc then base + 4 else base);
                   (pc, s) = to_local 0 (block_read env first base s);
                   base = (if \<not> preinc then base + 4 else base);
                   pc = (if Num s = 1 then pc AND NOT 0x1 else pc)
               in (base, pc, s)
             else (base, 0, s));
          s = (if lists 21 s then
                 let wbbase = (if lists 23 s then base else wbbase) in
                 if lists baseid s then
                   if Num s = 0 then
                     let rlist = CurInstr s AND 0xFFFF in
                     if \<not> tst rlist (NOT (shl 1 baseid)) \<or> tst rlist (NOT (shl 2 baseid - 1))
                     then set_R baseid wbbase s else s
                   else s
                 else set_R baseid wbbase s
               else s);
          s = (if lists 22 s \<and> \<not> lists 15 s then UpdateMode (user_cpsr s) (CPSR s) True s else s);
          s = (if lists 15 s then JumpTo env pc (lists 22 s) s else s)
      in AddCycles_CDI env s)"

definition stm_value :: "nat \<Rightarrow> bool \<Rightarrow> u32 \<Rightarrow> u32 \<Rightarrow> nat \<Rightarrow> 'm arm \<Rightarrow> u32" where
  "stm_value baseid isbanked oldbase base i s =
     (if i = baseid \<and> \<not> isbanked then
        if Num s = 0 \<or> \<not> tst (CurInstr s) (shl 1 i - 1) then oldbase else base
      else R s i)"

definition stm_reg :: "'m env \<Rightarrow> bool \<Rightarrow> nat \<Rightarrow> bool \<Rightarrow> u32 \<Rightarrow> nat \<Rightarrow> 'm block \<Rightarrow> 'm block" where
  "stm_reg env preinc baseid isbanked oldbase i = (\<lambda>(base, first, s).
     if lists i s then
       let base = (if preinc then base + 4 else base);
           s = block_write env first base (stm_value baseid isbanked oldbase base i s) s;
           base = (if \<not> preinc then base + 4 else base)
       in (base, False, s)
     else (base, first, s))"

definition A_STM :: "'m instr" where
  "A_STM env s =
     (let baseid = reg4 16 s;
          oldbase = R s baseid;
          preinc = lists 24 s;
          (base, preinc, s) =
            (if \<not> lists 23 s then
               let base = oldbase - 4 * word_of_nat (popcount (CurInstr s AND 0xFFFF))
               in (base, \<not> preinc, if lists 21 s then set_R baseid base s else s)
             else (oldbase, preinc, s));
          (isbanked, s) =
            (if lists 22 s then
               let mode = CPSR s AND 0x1F
               in (if mode = 0x11 then 8 \<le> baseid \<and> baseid < 15
                   else if mode \<noteq> 0x10 \<and> mode \<noteq> 0x1F then 13 \<le> baseid \<and> baseid < 15 else False,
                   UpdateMode (CPSR s) (user_cpsr s) True s)
             else (False, s));
          (base, first, s) = fold (stm_reg env preinc baseid isbanked oldbase) [0..<16] (base, True, s);
          s = (if lists 22 s then UpdateMode (user_cpsr s) (CPSR s) True s else s);
          s = (if lists 23 s \<and> lists 21 s then set_R baseid base s else s)
      in AddCycles_CD env s)"

section \<open>THUMB\<close>

definition T_LDR_PCREL :: "'m instr" where
  "T_LDR_PCREL env s =
     (let addr = (R s 15 AND NOT 0x2) + shl (CurInstr s AND 0xFF) 2
      in AddCycles_CDI env (to_reg (reg3 8 s) (DataRead32 env addr s)))"

definition T_addr_reg :: "'m arm \<Rightarrow> u32" where
  "T_addr_reg s = R s (reg3 3 s) + R s (reg3 6 s)"

definition T_STR_REG :: "'m instr" where
  "T_STR_REG env s = AddCycles_CD env (DataWrite32 env (T_addr_reg s) (R s (reg3 0 s)) s)"

definition T_STRB_REG :: "'m instr" where
  "T_STRB_REG env s = AddCycles_CD env (DataWrite8 env (T_addr_reg s) (ucast (R s (reg3 0 s))) s)"

definition T_LDR_REG :: "'m instr" where
  "T_LDR_REG env s =
     (let addr = T_addr_reg s;
          (val, s) = to_local (indet env) (DataRead32 env addr s)
      in AddCycles_CDI env (set_R (reg3 0 s) (ROR val (unat (8 * (addr AND 0x3)))) s))"

definition T_LDRB_REG :: "'m instr" where
  "T_LDRB_REG env s = AddCycles_CDI env (to_reg (reg3 0 s) (DataRead8 env (T_addr_reg s) s))"

definition T_STRH_REG :: "'m instr" where
  "T_STRH_REG env s = AddCycles_CD env (DataWrite16 env (T_addr_reg s) (ucast (R s (reg3 0 s))) s)"

definition T_LDRSB_REG :: "'m instr" where
  "T_LDRSB_REG env s =
     AddCycles_CDI env (sext8 (reg3 0 s) (to_reg (reg3 0 s) (DataRead8 env (T_addr_reg s) s)))"

definition T_LDRH_REG :: "'m instr" where
  "T_LDRH_REG env s = AddCycles_CDI env (to_reg (reg3 0 s) (DataRead16 env (T_addr_reg s) s))"

definition T_LDRSH_REG :: "'m instr" where
  "T_LDRSH_REG env s =
     AddCycles_CDI env (sext16 (reg3 0 s) (to_reg (reg3 0 s) (DataRead16 env (T_addr_reg s) s)))"

definition T_STR_IMM :: "'m instr" where
  "T_STR_IMM env s =
     (let offset = (shr (CurInstr s) 4 AND 0x7C) + R s (reg3 3 s)
      in AddCycles_CD env (DataWrite32 env offset (R s (reg3 0 s)) s))"

definition T_LDR_IMM :: "'m instr" where
  "T_LDR_IMM env s =
     (let offset = (shr (CurInstr s) 4 AND 0x7C) + R s (reg3 3 s);
          (val, s) = to_local (indet env) (DataRead32 env offset s)
      in AddCycles_CDI env (set_R (reg3 0 s) (ROR val (unat (8 * (offset AND 0x3)))) s))"

definition T_STRB_IMM :: "'m instr" where
  "T_STRB_IMM env s =
     (let offset = (shr (CurInstr s) 6 AND 0x1F) + R s (reg3 3 s)
      in AddCycles_CD env (DataWrite8 env offset (ucast (R s (reg3 0 s))) s))"

definition T_LDRB_IMM :: "'m instr" where
  "T_LDRB_IMM env s =
     (let offset = (shr (CurInstr s) 6 AND 0x1F) + R s (reg3 3 s)
      in AddCycles_CDI env (to_reg (reg3 0 s) (DataRead8 env offset s)))"

definition T_STRH_IMM :: "'m instr" where
  "T_STRH_IMM env s =
     (let offset = (shr (CurInstr s) 5 AND 0x3E) + R s (reg3 3 s)
      in AddCycles_CD env (DataWrite16 env offset (ucast (R s (reg3 0 s))) s))"

definition T_LDRH_IMM :: "'m instr" where
  "T_LDRH_IMM env s =
     (let offset = (shr (CurInstr s) 5 AND 0x3E) + R s (reg3 3 s)
      in AddCycles_CDI env (to_reg (reg3 0 s) (DataRead16 env offset s)))"

definition T_STR_SPREL :: "'m instr" where
  "T_STR_SPREL env s =
     (let offset = (shl (CurInstr s) 2 AND 0x3FC) + R s 13
      in AddCycles_CD env (DataWrite32 env offset (R s (reg3 8 s)) s))"

definition T_LDR_SPREL :: "'m instr" where
  "T_LDR_SPREL env s =
     (let offset = (shl (CurInstr s) 2 AND 0x3FC) + R s 13
      in AddCycles_CDI env (to_reg (reg3 8 s) (DataRead32 env offset s)))"

definition T_store_reg :: "'m env \<Rightarrow> nat \<Rightarrow> 'm block \<Rightarrow> 'm block" where
  "T_store_reg env i = (\<lambda>(base, first, s).
     if lists i s then (base + 4, False, block_write env first base (R s i) s) else (base, first, s))"

definition T_load_reg :: "'m env \<Rightarrow> nat \<Rightarrow> 'm block \<Rightarrow> 'm block" where
  "T_load_reg env i = (\<lambda>(base, first, s).
     if lists i s then (base + 4, False, to_reg i (block_read env first base s)) else (base, first, s))"

definition T_PUSH :: "'m instr" where
  "T_PUSH env s =
     (let nregs = popcount (CurInstr s AND 0x1FF);
          base = R s 13 - word_of_nat (nregs * 4);
          s = set_R 13 base s;
          (base, first, s) = fold (T_store_reg env) [0..<8] (base, True, s);
          s = (if lists 8 s then block_write env first base (R s 14) s else s)
      in AddCycles_CD env s)"

definition T_POP :: "'m instr" where
  "T_POP env s =
     (let base = R s 13;
          (base, first, s) = fold (T_load_reg env) [0..<8] (base, True, s);
          (base, s) =
            (if lists 8 s then
               let (pc, s) = to_local (indet env) (block_read env first base s);
                   pc = (if Num s = 1 then pc OR 0x1 else pc)
               in (base + 4, JumpTo env pc False s)
             else (base, s));
          s = set_R 13 base s
      in AddCycles_CDI env s)"

definition T_STMIA :: "'m instr" where
  "T_STMIA env s =
     (let base = R s (reg3 8 s);
          (base, first, s) = fold (T_store_reg env) [0..<8] (base, True, s);
          s = set_R (reg3 8 s) base s
      in AddCycles_CD env s)"

definition T_LDMIA :: "'m instr" where
  "T_LDMIA env s =
     (let base = R s (reg3 8 s);
          (base, first, s) = fold (T_load_reg env) [0..<8] (base, True, s);
          s = (if \<not> lists (reg3 8 s) s then set_R (reg3 8 s) base s else s)
      in AddCycles_CDI env s)"

end
