(* ===== verification/ArmTable.thy ===== *)
theory ArmTable
  imports ArmLoadStore ArmMul
begin

text \<open>
  The instruction tables of \<^verbatim>\<open>src/src/ARM_InstrTable.h\<close>, row by row, and what the entries stand
  for. An entry names the generated function: \<open>ALU op form set_flags\<close>, \<open>TEST op form\<close>,
  \<open>LDST op post form\<close> for words and bytes, \<open>HALF op post immediate\<close> for the halfword group, and
  \<open>MISC\<close> for the rest. The ARM table is indexed by bits 27 to 20 and 7 to 4 of an instruction, the
  THUMB table by bits 15 to 6; the rows of 16 entries are those of the source.
\<close>

section \<open>Entries\<close>

datatype misc_op =
    iMOV_DBG | iMUL | iMLA | iUNK | iUMULL | iUMLAL | iSMULL | iSMLAL | iMRS | iQADD | iSMLAxy
    | iSWP | iMSR_REG | iBX | iBLX_REG | iQSUB | iSMLAWy | iSMULWy | iQDADD | iSMLALxy | iSWPB
    | iCLZ | iQDSUB | iSMULxy | iMSR_IMM | iSTM | iLDM | iB | iBL | iMCR | iMRC | iSVC

datatype arm_instr =
    ALU alu_op op2 bool
  | TEST test_op op2
  | LDST ls_op bool ls_addr
  | HALF hd_op bool bool
  | MISC misc_op

datatype thumb_instr =
    tLSL_IMM | tLSR_IMM | tASR_IMM | tADD_REG3 | tSUB_REG3 | tADD_IMM3 | tSUB_IMM3 | tMOV_IMM
    | tCMP_IMM | tADD_IMM | tSUB_IMM | tAND_REG | tEOR_REG | tLSL_REG | tLSR_REG | tASR_REG
    | tADC_REG | tSBC_REG | tROR_REG | tTST_REG | tNEG_REG | tCMP_REG | tCMN_REG | tORR_REG
    | tMUL_REG | tBIC_REG | tMVN_REG | tADD_HIREG | tCMP_HIREG | tMOV_HIREG | tBX | tBLX_REG
    | tLDR_PCREL | tSTR_REG | tSTRH_REG | tSTRB_REG | tLDRSB_REG | tLDR_REG | tLDRH_REG
    | tLDRB_REG | tLDRSH_REG | tSTR_IMM | tLDR_IMM | tSTRB_IMM | tLDRB_IMM | tSTRH_IMM | tLDRH_IMM
    | tSTR_SPREL | tLDR_SPREL | tADD_PCREL | tADD_SPREL | tADD_SP | tUNK | tPUSH | tPOP | tSTMIA
    | tLDMIA | tBCOND | tSVC | tB | tBL_LONG_2 | tBL_LONG_1

definition exec_misc :: "misc_op \<Rightarrow> 'm instr" where
  "exec_misc op = (case op of
       iMOV_DBG \<Rightarrow> A_MOV_REG_LSL_IMM_DBG
     | iMUL \<Rightarrow> A_MUL
     | iMLA \<Rightarrow> A_MLA
     | iUNK \<Rightarrow> A_UNK
     | iUMULL \<Rightarrow> A_UMULL
     | iUMLAL \<Rightarrow> A_UMLAL
     | iSMULL \<Rightarrow> A_SMULL
     | iSMLAL \<Rightarrow> A_SMLAL
     | iMRS \<Rightarrow> A_MRS
     | iQADD \<Rightarrow> A_QADD
     | iSMLAxy \<Rightarrow> A_SMLAxy
     | iSWP \<Rightarrow> A_SWP
     | iMSR_REG \<Rightarrow> A_MSR_REG
     | iBX \<Rightarrow> A_BX
     | iBLX_REG \<Rightarrow> A_BLX_REG
     | iQSUB \<Rightarrow> A_QSUB
     | iSMLAWy \<Rightarrow> A_SMLAWy
     | iSMULWy \<Rightarrow> A_SMULWy
     | iQDADD \<Rightarrow> A_QDADD
     | iSMLALxy \<Rightarrow> A_SMLALxy
     | iSWPB \<Rightarrow> A_SWPB
     | iCLZ \<Rightarrow> A_CLZ
     | iQDSUB \<Rightarrow> A_QDSUB
     | iSMULxy \<Rightarrow> A_SMULxy
     | iMSR_IMM \<Rightarrow> A_MSR_IMM
     | iSTM \<Rightarrow> A_STM
     | iLDM \<Rightarrow> A_LDM
     | iB \<Rightarrow> A_B
     | iBL \<Rightarrow> A_BL
     | iMCR \<Rightarrow> A_MCR
     | iMRC \<Rightarrow> A_MRC
     | iSVC \<Rightarrow> A_SVC)"

definition exec_arm :: "arm_instr \<Rightarrow> 'm instr" where
  "exec_arm i = (case i of
       ALU op kind st \<Rightarrow> alu_instr op kind st
     | TEST op kind \<Rightarrow> test_instr op kind
     | LDST op post k \<Rightarrow> A_IMPLEMENT_WB_LDRSTR op post k
     | HALF op post imm \<Rightarrow> A_IMPLEMENT_HD_LDRSTR op post imm
     | MISC op \<Rightarrow> exec_misc op)"

definition exec_thumb :: "thumb_instr \<Rightarrow> 'm instr" where
  "exec_thumb i = (case i of
       tLSL_IMM \<Rightarrow> T_LSL_IMM
     | tLSR_IMM \<Rightarrow> T_LSR_IMM
     | tASR_IMM \<Rightarrow> T_ASR_IMM
     | tADD_REG3 \<Rightarrow> T_ADD_REG3
     | tSUB_REG3 \<Rightarrow> T_SUB_REG3
     | tADD_IMM3 \<Rightarrow> T_ADD_IMM3
     | tSUB_IMM3 \<Rightarrow> T_SUB_IMM3
     | tMOV_IMM \<Rightarrow> T_MOV_IMM
     | tCMP_IMM \<Rightarrow> T_CMP_IMM
     | tADD_IMM \<Rightarrow> T_ADD_IMM
     | tSUB_IMM \<Rightarrow> T_SUB_IMM
     | tAND_REG \<Rightarrow> T_AND_REG
     | tEOR_REG \<Rightarrow> T_EOR_REG
     | tLSL_REG \<Rightarrow> T_LSL_REG
     | tLSR_REG \<Rightarrow> T_LSR_REG
     | tASR_REG \<Rightarrow> T_ASR_REG
     | tADC_REG \<Rightarrow> T_ADC_REG
     | tSBC_REG \<Rightarrow> T_SBC_REG
     | tROR_REG \<Rightarrow> T_ROR_REG
     | tTST_REG \<Rightarrow> T_TST_REG
     | tNEG_REG \<Rightarrow> T_NEG_REG
     | tCMP_REG \<Rightarrow> T_CMP_REG
     | tCMN_REG \<Rightarrow> T_CMN_REG
     | tORR_REG \<Rightarrow> T_ORR_REG
     | tMUL_REG \<Rightarrow> T_MUL_REG
     | tBIC_REG \<Rightarrow> T_BIC_REG
     | tMVN_REG \<Rightarrow> T_MVN_REG
     | tADD_HIREG \<Rightarrow> T_ADD_HIREG
     | tCMP_HIREG \<Rightarrow> T_CMP_HIREG
     | tMOV_HIREG \<Rightarrow> T_MOV_HIREG
     | tBX \<Rightarrow> T_BX
     | tBLX_REG \<Rightarrow> T_BLX_REG
     | tLDR_PCREL \<Rightarrow> T_LDR_PCREL
     | tSTR_REG \<Rightarrow> T_STR_REG
     | tSTRH_REG \<Rightarrow> T_STRH_REG
     | tSTRB_REG \<Rightarrow> T_STRB_REG
     | tLDRSB_REG \<Rightarrow> T_LDRSB_REG
     | tLDR_REG \<Rightarrow> T_LDR_REG
     | tLDRH_REG \<Rightarrow> T_LDRH_REG
     | tLDRB_REG \<Rightarrow> T_LDRB_REG
     | tLDRSH_REG \<Rightarrow> T_LDRSH_REG
     | tSTR_IMM \<Rightarrow> T_STR_IMM
     | tLDR_IMM \<Rightarrow> T_LDR_IMM
     | tSTRB_IMM \<Rightarrow> T_STRB_IMM
     | tLDRB_IMM \<Rightarrow> T_LDRB_IMM
     | tSTRH_IMM \<Rightarrow> T_STRH_IMM
     | tLDRH_IMM \<Rightarrow> T_LDRH_IMM
     | tSTR_SPREL \<Rightarrow> T_STR_SPREL
     | tLDR_SPREL \<Rightarrow> T_LDR_SPREL
     | tADD_PCREL \<Rightarrow> T_ADD_PCREL
     | tADD_SPREL \<Rightarrow> T_ADD_SPREL
     | tADD_SP \<Rightarrow> T_ADD_SP
     | tUNK \<Rightarrow> T_UNK
     | tPUSH \<Rightarrow> T_PUSH
     | tPOP \<Rightarrow> T_POP
     | tSTMIA \<Rightarrow> T_STMIA
     | tLDMIA \<Rightarrow> T_LDMIA
     | tBCOND \<Rightarrow> T_BCOND
     | tSVC \<Rightarrow> T_SVC
     | tB \<Rightarrow> T_B
     | tBL_LONG_2 \<Rightarrow> T_BL_LONG_2
     | tBL_LONG_1 \<Rightarrow> T_BL_LONG_1)"

section \<open>The ARM table\<close>

definition ARMInstrTable_0 :: "arm_instr list list" where
  "ARMInstrTable_0 = [
     [ALU AND_op REG_LSL_IMM False, ALU AND_op REG_LSL_REG False, ALU AND_op REG_LSR_IMM False,
      ALU AND_op REG_LSR_REG False, ALU AND_op REG_ASR_IMM False, ALU AND_op REG_ASR_REG False,
      ALU AND_op REG_ROR_IMM False, ALU AND_op REG_ROR_REG False, ALU AND_op REG_LSL_IMM False, MISC iMUL,
      ALU AND_op REG_LSR_IMM False, HALF STRH_op True False, ALU AND_op REG_ASR_IMM False, HALF LDRD_op True False,
      ALU AND_op REG_ROR_IMM False, HALF STRD_op True False],
     [ALU AND_op REG_LSL_IMM True, ALU AND_op REG_LSL_REG True, ALU AND_op REG_LSR_IMM True,
      ALU AND_op REG_LSR_REG True, ALU AND_op REG_ASR_IMM True, ALU AND_op REG_ASR_REG True,
      ALU AND_op REG_ROR_IMM True, ALU AND_op REG_ROR_REG True, ALU AND_op REG_LSL_IMM True, MISC iMUL,
      ALU AND_op REG_LSR_IMM True, HALF LDRH_op True False, ALU AND_op REG_ASR_IMM True, HALF LDRSB_op True False,
      ALU AND_op REG_ROR_IMM True, HALF LDRSH_op True False],
     [ALU EOR_op REG_LSL_IMM False, ALU EOR_op REG_LSL_REG False, ALU EOR_op REG_LSR_IMM False,
      ALU EOR_op REG_LSR_REG False, ALU EOR_op REG_ASR_IMM False, ALU EOR_op REG_ASR_REG False,
      ALU EOR_op REG_ROR_IMM False, ALU EOR_op REG_ROR_REG False, ALU EOR_op REG_LSL_IMM False, MISC iMLA,
      ALU EOR_op REG_LSR_IMM False, MISC iUNK, ALU EOR_op REG_ASR_IMM False, MISC iUNK, ALU EOR_op REG_ROR_IMM False,
      MISC iUNK],
     [ALU EOR_op REG_LSL_IMM True, ALU EOR_op REG_LSL_REG True, ALU EOR_op REG_LSR_IMM True,
      ALU EOR_op REG_LSR_REG True, ALU EOR_op REG_ASR_IMM True, ALU EOR_op REG_ASR_REG True,
      ALU EOR_op REG_ROR_IMM True, ALU EOR_op REG_ROR_REG True, ALU EOR_op REG_LSL_IMM True, MISC iMLA,
      ALU EOR_op REG_ROR_IMM True, MISC iUNK, ALU EOR_op REG_ASR_IMM True, MISC iUNK, ALU EOR_op REG_ROR_IMM True,
      MISC iUNK],
     [ALU SUB_op REG_LSL_IMM False, ALU SUB_op REG_LSL_REG False, ALU SUB_op REG_LSR_IMM False,
      ALU SUB_op REG_LSR_REG False, ALU SUB_op REG_ASR_IMM False, ALU SUB_op REG_ASR_REG False,
      ALU SUB_op REG_ROR_IMM False, ALU SUB_op REG_ROR_REG False, ALU SUB_op REG_LSL_IMM False, MISC iUNK,
      ALU SUB_op REG_LSR_IMM False, HALF STRH_op True True, ALU SUB_op REG_ASR_IMM False, HALF LDRD_op True True,
      ALU SUB_op REG_ROR_IMM False, HALF STRD_op True True],
     [ALU SUB_op REG_LSL_IMM True, ALU SUB_op REG_LSL_REG True, ALU SUB_op REG_LSR_IMM True,
      ALU SUB_op REG_LSR_REG True, ALU SUB_op REG_ASR_IMM True, ALU SUB_op REG_ASR_REG True,
      ALU SUB_op REG_ROR_IMM True, ALU SUB_op REG_ROR_REG True, ALU SUB_op REG_LSL_IMM True, MISC iUNK,
      ALU SUB_op REG_LSR_IMM True, HALF LDRH_op True True, ALU SUB_op REG_ASR_IMM True, HALF LDRSB_op True True,
      ALU SUB_op REG_ROR_IMM True, HALF LDRSH_op True True],
     [ALU RSB_op REG_LSL_IMM False, ALU RSB_op REG_LSL_REG False, ALU RSB_op REG_LSR_IMM False,
      ALU RSB_op REG_LSR_REG False, ALU RSB_op REG_ASR_IMM False, ALU RSB_op REG_ASR_REG False,
      ALU RSB_op REG_ROR_IMM False, ALU RSB_op REG_ROR_REG False, ALU RSB_op REG_LSL_IMM False, MISC iUNK,
      ALU RSB_op REG_LSR_IMM False, MISC iUNK, ALU RSB_op REG_ASR_IMM False, MISC iUNK, ALU RSB_op REG_ROR_IMM False,
      MISC iUNK],
     [ALU RSB_op REG_LSL_IMM True, ALU RSB_op REG_LSL_REG True, ALU RSB_op REG_LSR_IMM True,
      ALU RSB_op REG_LSR_REG True, ALU RSB_op REG_ASR_IMM True, ALU RSB_op REG_ASR_REG True,
      ALU RSB_op REG_ROR_IMM True, ALU RSB_op REG_ROR_REG True, ALU RSB_op REG_LSL_IMM True, MISC iUNK,
      ALU RSB_op REG_LSR_IMM True, MISC iUNK, ALU RSB_op REG_ASR_IMM True, MISC iUNK, ALU RSB_op REG_ROR_IMM True,
      MISC iUNK],
     [ALU ADD_op REG_LSL_IMM False, ALU ADD_op REG_LSL_REG False, ALU ADD_op REG_LSR_IMM False,
      ALU ADD_op REG_LSR_REG False, ALU ADD_op REG_ASR_IMM False, ALU ADD_op REG_ASR_REG False,
      ALU ADD_op REG_ROR_IMM False, ALU ADD_op REG_ROR_REG False, ALU ADD_op REG_LSL_IMM False, MISC iUMULL,
      ALU ADD_op REG_LSR_IMM False, HALF STRH_op True False, ALU ADD_op REG_ASR_IMM False, HALF LDRD_op True False,
      ALU ADD_op REG_ROR_IMM False, HALF STRD_op True False],
     [ALU ADD_op REG_LSL_IMM True, ALU ADD_op REG_LSL_REG True, ALU ADD_op REG_LSR_IMM True,
      ALU ADD_op REG_LSR_REG True, ALU ADD_op REG_ASR_IMM True, ALU ADD_op REG_ASR_REG True,
      ALU ADD_op REG_ROR_IMM True, ALU ADD_op REG_ROR_REG True, ALU ADD_op REG_LSL_IMM True, MISC iUMULL,
      ALU ADD_op REG_LSR_IMM True, HALF LDRH_op True False, ALU ADD_op REG_ASR_IMM True, HALF LDRSB_op True False,
      ALU ADD_op REG_ROR_IMM True, HALF LDRSH_op True False],
     [ALU ADC_op REG_LSL_IMM False, ALU ADC_op REG_LSL_REG False, ALU ADC_op REG_LSR_IMM False,
      ALU ADC_op REG_LSR_REG False, ALU ADC_op REG_ASR_IMM False, ALU ADC_op REG_ASR_REG False,
      ALU ADC_op REG_ROR_IMM False, ALU ADC_op REG_ROR_REG False, ALU ADC_op REG_LSL_IMM False, MISC iUMLAL,
      ALU ADC_op REG_LSR_IMM False, MISC iUNK, ALU ADC_op REG_ASR_IMM False, MISC iUNK, ALU ADC_op REG_ROR_IMM False,
      MISC iUNK],
     [ALU ADC_op REG_LSL_IMM True, ALU ADC_op REG_LSL_REG True, ALU ADC_op REG_LSR_IMM True,
      ALU ADC_op REG_LSR_REG True, ALU ADC_op REG_ASR_IMM True, ALU ADC_op REG_ASR_REG True,
      ALU ADC_op REG_ROR_IMM True, ALU ADC_op REG_ROR_REG True, ALU ADC_op REG_LSL_IMM True, MISC iUMLAL,
      ALU ADC_op REG_LSR_IMM True, MISC iUNK, ALU ADC_op REG_ASR_IMM True, MISC iUNK, ALU ADC_op REG_ROR_IMM True,
      MISC iUNK],
     [ALU SBC_op REG_LSL_IMM False, ALU SBC_op REG_LSL_REG False, ALU SBC_op REG_LSR_IMM False,
      ALU SBC_op REG_LSR_REG False, ALU SBC_op REG_ASR_IMM False, ALU SBC_op REG_ASR_REG False,
      ALU SBC_op REG_ROR_IMM False, ALU SBC_op REG_ROR_REG False, ALU SBC_op REG_LSL_IMM False, MISC iSMULL,
      ALU SBC_op REG_LSR_IMM False, HALF STRH_op True True, ALU SBC_op REG_ASR_IMM False, HALF LDRD_op True True,
      ALU SBC_op REG_ROR_IMM False, HALF STRD_op True True],
     [ALU SBC_op REG_LSL_IMM True, ALU SBC_op REG_LSL_REG True, ALU SBC_op REG_LSR_IMM True,
      ALU SBC_op REG_LSR_REG True, ALU SBC_op REG_ASR_IMM True, ALU SBC_op REG_ASR_REG True,
      ALU SBC_op REG_ROR_IMM True, ALU SBC_op REG_ROR_REG True, ALU SBC_op REG_LSL_IMM True, MISC iSMULL,
      ALU SBC_op REG_LSR_IMM True, HALF LDRH_op True True, ALU SBC_op REG_ASR_IMM True, HALF LDRSB_op True True,
      ALU SBC_op REG_ROR_IMM True, HALF LDRSH_op True True],
     [ALU RSC_op REG_LSL_IMM False, ALU RSC_op REG_LSL_REG False, ALU RSC_op REG_LSR_IMM False,
      ALU RSC_op REG_LSR_REG False, ALU RSC_op REG_ASR_IMM False, ALU RSC_op REG_ASR_REG False,
      ALU RSC_op REG_ROR_IMM False, ALU RSC_op REG_ROR_REG False, ALU RSC_op REG_LSL_IMM False, MISC iSMLAL,
      ALU RSC_op REG_LSR_IMM False, MISC iUNK, ALU RSC_op REG_ASR_IMM False, MISC iUNK, ALU RSC_op REG_ROR_IMM False,
      MISC iUNK],
     [ALU RSC_op REG_LSL_IMM True, ALU RSC_op REG_LSL_REG True, ALU RSC_op REG_LSR_IMM True,
      ALU RSC_op REG_LSR_REG True, ALU RSC_op REG_ASR_IMM True, ALU RSC_op REG_ASR_REG True,
      ALU RSC_op REG_ROR_IMM True, ALU RSC_op REG_ROR_REG True, ALU RSC_op REG_LSL_IMM True, MISC iSMLAL,
      ALU RSC_op REG_LSR_IMM True, MISC iUNK, ALU RSC_op REG_ASR_IMM True, MISC iUNK, ALU RSC_op REG_ROR_IMM True,
      MISC iUNK]]"

definition ARMInstrTable_1 :: "arm_instr list list" where
  "ARMInstrTable_1 = [
     [MISC iMRS, MISC iUNK, MISC iUNK, MISC iUNK, MISC iUNK, MISC iQADD, MISC iUNK, MISC iUNK, MISC iSMLAxy,
      MISC iSWP, MISC iSMLAxy, HALF STRH_op False False, MISC iSMLAxy, HALF LDRD_op False False, MISC iSMLAxy,
      HALF STRD_op False False],
     [TEST TST_op REG_LSL_IMM, TEST TST_op REG_LSL_REG, TEST TST_op REG_LSR_IMM, TEST TST_op REG_LSR_REG,
      TEST TST_op REG_ASR_IMM, TEST TST_op REG_ASR_REG, TEST TST_op REG_ROR_IMM, TEST TST_op REG_ROR_REG,
      TEST TST_op REG_LSL_IMM, MISC iUNK, TEST TST_op REG_LSR_IMM, HALF LDRH_op False False, TEST TST_op REG_ASR_IMM,
      HALF LDRSB_op False False, TEST TST_op REG_ROR_IMM, HALF LDRSH_op False False],
     [MISC iMSR_REG, MISC iBX, MISC iUNK, MISC iBLX_REG, MISC iUNK, MISC iQSUB, MISC iUNK, MISC iUNK, MISC iSMLAWy,
      MISC iUNK, MISC iSMULWy, HALF STRH_op False False, MISC iSMLAWy, HALF LDRD_op False False, MISC iSMULWy,
      HALF STRD_op False False],
     [TEST TEQ_op REG_LSL_IMM, TEST TEQ_op REG_LSL_REG, TEST TEQ_op REG_LSR_IMM, TEST TEQ_op REG_LSR_REG,
      TEST TEQ_op REG_ASR_IMM, TEST TEQ_op REG_ASR_REG, TEST TEQ_op REG_ROR_IMM, TEST TEQ_op REG_ROR_REG,
      TEST TEQ_op REG_LSL_IMM, MISC iUNK, TEST TEQ_op REG_LSR_IMM, HALF LDRH_op False False, TEST TEQ_op REG_ASR_IMM,
      HALF LDRSB_op False False, TEST TEQ_op REG_ROR_IMM, HALF LDRSH_op False False],
     [MISC iMRS, MISC iUNK, MISC iUNK, MISC iUNK, MISC iUNK, MISC iQDADD, MISC iUNK, MISC iUNK, MISC iSMLALxy,
      MISC iSWPB, MISC iSMLALxy, HALF STRH_op False True, MISC iSMLALxy, HALF LDRD_op False True, MISC iSMLALxy,
      HALF STRD_op False True],
     [TEST CMP_op REG_LSL_IMM, TEST CMP_op REG_LSL_REG, TEST CMP_op REG_LSR_IMM, TEST CMP_op REG_LSR_REG,
      TEST CMP_op REG_ASR_IMM, TEST CMP_op REG_ASR_REG, TEST CMP_op REG_ROR_IMM, TEST CMP_op REG_ROR_REG,
      TEST CMP_op REG_LSL_IMM, MISC iUNK, TEST CMP_op REG_LSR_IMM, HALF LDRH_op False True, TEST CMP_op REG_ASR_IMM,
      HALF LDRSB_op False True, TEST CMP_op REG_ROR_IMM, HALF LDRSH_op False True],
     [MISC iMSR_REG, MISC iCLZ, MISC iUNK, MISC iUNK, MISC iUNK, MISC iQDSUB, MISC iUNK, MISC iUNK, MISC iSMULxy,
      MISC iUNK, MISC iSMULxy, HALF STRH_op False True, MISC iSMULxy, HALF LDRD_op False True, MISC iSMULxy,
      HALF STRD_op False True],
     [TEST CMN_op REG_LSL_IMM, TEST CMN_op REG_LSL_REG, TEST CMN_op REG_LSR_IMM, TEST CMN_op REG_LSR_REG,
      TEST CMN_op REG_ASR_IMM, TEST CMN_op REG_ASR_REG, TEST CMN_op REG_ROR_IMM, TEST CMN_op REG_ROR_REG,
      TEST CMN_op REG_LSL_IMM, MISC iUNK, TEST CMN_op REG_LSR_IMM, HALF LDRH_op False True, TEST CMN_op REG_ASR_IMM,
      HALF LDRSB_op False True, TEST CMN_op REG_ROR_IMM, HALF LDRSH_op False True],
     [ALU ORR_op REG_LSL_IMM False, ALU ORR_op REG_LSL_REG False, ALU ORR_op REG_LSR_IMM False,
      ALU ORR_op REG_LSR_REG False, ALU ORR_op REG_ASR_IMM False, ALU ORR_op REG_ASR_REG False,
      ALU ORR_op REG_ROR_IMM False, ALU ORR_op REG_ROR_REG False, ALU ORR_op REG_LSL_IMM False, MISC iUNK,
      ALU ORR_op REG_LSR_IMM False, HALF STRH_op False False, ALU ORR_op REG_ASR_IMM False, HALF LDRD_op False False,
      ALU ORR_op REG_ROR_IMM False, HALF STRD_op False False],
     [ALU ORR_op REG_LSL_IMM True, ALU ORR_op REG_LSL_REG True, ALU ORR_op REG_LSR_IMM True,
      ALU ORR_op REG_LSR_REG True, ALU ORR_op REG_ASR_IMM True, ALU ORR_op REG_ASR_REG True,
      ALU ORR_op REG_ROR_IMM True, ALU ORR_op REG_ROR_REG True, ALU ORR_op REG_LSL_IMM True, MISC iUNK,
      ALU ORR_op REG_LSR_IMM True, HALF LDRH_op False False, ALU ORR_op REG_ASR_IMM True, HALF LDRSB_op False False,
      ALU ORR_op REG_ROR_IMM True, HALF LDRSH_op False False],
     [MISC iMOV_DBG, ALU MOV_op REG_LSL_REG False, ALU MOV_op REG_LSR_IMM False, ALU MOV_op REG_LSR_REG False,
      ALU MOV_op REG_ASR_IMM False, ALU MOV_op REG_ASR_REG False, ALU MOV_op REG_ROR_IMM False,
      ALU MOV_op REG_ROR_REG False, ALU MOV_op REG_LSL_IMM False, MISC iUNK, ALU MOV_op REG_LSR_IMM False,
      HALF STRH_op False False, ALU MOV_op REG_ASR_IMM False, HALF LDRD_op False False, ALU MOV_op REG_ROR_IMM False,
      HALF STRD_op False False],
     [ALU MOV_op REG_LSL_IMM True, ALU MOV_op REG_LSL_REG True, ALU MOV_op REG_LSR_IMM True,
      ALU MOV_op REG_LSR_REG True, ALU MOV_op REG_ASR_IMM True, ALU MOV_op REG_ASR_REG True,
      ALU MOV_op REG_ROR_IMM True, ALU MOV_op REG_ROR_REG True, ALU MOV_op REG_LSL_IMM True, MISC iUNK,
      ALU MOV_op REG_LSR_IMM True, HALF LDRH_op False False, ALU MOV_op REG_ASR_IMM True, HALF LDRSB_op False False,
      ALU MOV_op REG_ROR_IMM True, HALF LDRSH_op False False],
     [ALU BIC_op REG_LSL_IMM False, ALU BIC_op REG_LSL_REG False, ALU BIC_op REG_LSR_IMM False,
      ALU BIC_op REG_LSR_REG False, ALU BIC_op REG_ASR_IMM False, ALU BIC_op REG_ASR_REG False,
      ALU BIC_op REG_ROR_IMM False, ALU BIC_op REG_ROR_REG False, ALU BIC_op REG_LSL_IMM False, MISC iUNK,
      ALU BIC_op REG_LSR_IMM False, HALF STRH_op False True, ALU BIC_op REG_ASR_IMM False, HALF LDRD_op False True,
      ALU BIC_op REG_ROR_IMM False, HALF STRD_op False True],
     [ALU BIC_op REG_LSL_IMM True, ALU BIC_op REG_LSL_REG True, ALU BIC_op REG_LSR_IMM True,
      ALU BIC_op REG_LSR_REG True, ALU BIC_op REG_ASR_IMM True, ALU BIC_op REG_ASR_REG True,
      ALU BIC_op REG_ROR_IMM True, ALU BIC_op REG_ROR_REG True, ALU BIC_op REG_LSL_IMM True, MISC iUNK,
      ALU BIC_op REG_LSR_IMM True, HALF LDRH_op False True, ALU BIC_op REG_ASR_IMM True, HALF LDRSB_op False True,
      ALU BIC_op REG_ROR_IMM True, HALF LDRSH_op False True],
     [ALU MVN_op REG_LSL_IMM False, ALU MVN_op REG_LSL_REG False, ALU MVN_op REG_LSR_IMM False,
      ALU MVN_op REG_LSR_REG False, ALU MVN_op REG_ASR_IMM False, ALU MVN_op REG_ASR_REG False,
      ALU MVN_op REG_ROR_IMM False, ALU MVN_op REG_ROR_REG False, ALU MVN_op REG_LSL_IMM False, MISC iUNK,
      ALU MVN_op REG_LSR_IMM False, HALF STRH_op False True, ALU MVN_op REG_ASR_IMM False, HALF LDRD_op False True,
      ALU MVN_op REG_ROR_IMM False, HALF STRD_op False True],
     [ALU MVN_op REG_LSL_IMM True, ALU MVN_op REG_LSL_REG True, ALU MVN_op REG_LSR_IMM True,
      ALU MVN_op REG_LSR_REG True, ALU MVN_op REG_ASR_IMM True, ALU MVN_op REG_ASR_REG True,
      ALU MVN_op REG_ROR_IMM True, ALU MVN_op REG_ROR_REG True, ALU MVN_op REG_LSL_IMM True, MISC iUNK,
      ALU MVN_op REG_LSR_IMM True, HALF LDRH_op False True, ALU MVN_op REG_ASR_IMM True, HALF LDRSB_op False True,
      ALU MVN_op REG_ROR_IMM True, HALF LDRSH_op False True]]"

definition ARMInstrTable_2 :: "arm_instr list list" where
  "ARMInstrTable_2 = [
     replicate 16 (ALU AND_op IMM False),
     replicate 16 (ALU AND_op IMM True),
     replicate 16 (ALU EOR_op IMM False),
     replicate 16 (ALU EOR_op IMM True),
     replicate 16 (ALU SUB_op IMM False),
     replicate 16 (ALU SUB_op IMM True),
     replicate 16 (ALU RSB_op IMM False),
     replicate 16 (ALU RSB_op IMM True),
     replicate 16 (ALU ADD_op IMM False),
     replicate 16 (ALU ADD_op IMM True),
     replicate 16 (ALU ADC_op IMM False),
     replicate 16 (ALU ADC_op IMM True),
     replicate 16 (ALU SBC_op IMM False),
     replicate 16 (ALU SBC_op IMM True),
     replicate 16 (ALU RSC_op IMM False),
     replicate 16 (ALU RSC_op IMM True)]"

definition ARMInstrTable_3 :: "arm_instr list list" where
  "ARMInstrTable_3 = [
     replicate 16 (MISC iUNK),
     replicate 16 (TEST TST_op IMM),
     replicate 16 (MISC iMSR_IMM),
     replicate 16 (TEST TEQ_op IMM),
     replicate 16 (MISC iUNK),
     replicate 16 (TEST CMP_op IMM),
     replicate 16 (MISC iMSR_IMM),
     replicate 16 (TEST CMN_op IMM),
     replicate 16 (ALU ORR_op IMM False),
     replicate 16 (ALU ORR_op IMM True),
     replicate 16 (ALU MOV_op IMM False),
     replicate 16 (ALU MOV_op IMM True),
     replicate 16 (ALU BIC_op IMM False),
     replicate 16 (ALU BIC_op IMM True),
     replicate 16 (ALU MVN_op IMM False),
     replicate 16 (ALU MVN_op IMM True)]"

definition ARMInstrTable_4 :: "arm_instr list list" where
  "ARMInstrTable_4 = [
     replicate 16 (LDST STR_op True Off_IMM),
     replicate 16 (LDST LDR_op True Off_IMM),
     replicate 16 (LDST STR_op True Off_IMM),
     replicate 16 (LDST LDR_op True Off_IMM),
     replicate 16 (LDST STRB_op True Off_IMM),
     replicate 16 (LDST LDRB_op True Off_IMM),
     replicate 16 (LDST STRB_op True Off_IMM),
     replicate 16 (LDST LDRB_op True Off_IMM),
     replicate 16 (LDST STR_op True Off_IMM),
     replicate 16 (LDST LDR_op True Off_IMM),
     replicate 16 (LDST STR_op True Off_IMM),
     replicate 16 (LDST LDR_op True Off_IMM),
     replicate 16 (LDST STRB_op True Off_IMM),
     replicate 16 (LDST LDRB_op True Off_IMM),
     replicate 16 (LDST STRB_op True Off_IMM),
     replicate 16 (LDST LDRB_op True Off_IMM)]"

definition ARMInstrTable_5 :: "arm_instr list list" where
  "ARMInstrTable_5 = [
     replicate 16 (LDST STR_op False Off_IMM),
     replicate 16 (LDST LDR_op False Off_IMM),
     replicate 16 (LDST STR_op False Off_IMM),
     replicate 16 (LDST LDR_op False Off_IMM),
     replicate 16 (LDST STRB_op False Off_IMM),
     replicate 16 (LDST LDRB_op False Off_IMM),
     replicate 16 (LDST STRB_op False Off_IMM),
     replicate 16 (LDST LDRB_op False Off_IMM),
     replicate 16 (LDST STR_op False Off_IMM),
     replicate 16 (LDST LDR_op False Off_IMM),
     replicate 16 (LDST STR_op False Off_IMM),
     replicate 16 (LDST LDR_op False Off_IMM),
     replicate 16 (LDST STRB_op False Off_IMM),
     replicate 16 (LDST LDRB_op False Off_IMM),
     replicate 16 (LDST STRB_op False Off_IMM),
     replicate 16 (LDST LDRB_op False Off_IMM)]"

definition ARMInstrTable_6 :: "arm_instr list list" where
  "ARMInstrTable_6 = [
     [LDST STR_op True Off_REG_LSL, MISC iUNK, LDST STR_op True Off_REG_LSR, MISC iUNK, LDST STR_op True Off_REG_ASR,
      MISC iUNK, LDST STR_op True Off_REG_ROR, MISC iUNK, LDST STR_op True Off_REG_LSL, MISC iUNK,
      LDST STR_op True Off_REG_LSR, MISC iUNK, LDST STR_op True Off_REG_ASR, MISC iUNK, LDST STR_op True Off_REG_ROR,
      MISC iUNK],
     [LDST LDR_op True Off_REG_LSL, MISC iUNK, LDST LDR_op True Off_REG_LSR, MISC iUNK, LDST LDR_op True Off_REG_ASR,
      MISC iUNK, LDST LDR_op True Off_REG_ROR, MISC iUNK, LDST LDR_op True Off_REG_LSL, MISC iUNK,
      LDST LDR_op True Off_REG_LSR, MISC iUNK, LDST LDR_op True Off_REG_ASR, MISC iUNK, LDST LDR_op True Off_REG_ROR,
      MISC iUNK],
     [LDST STR_op True Off_REG_LSL, MISC iUNK, LDST STR_op True Off_REG_LSR, MISC iUNK, LDST STR_op True Off_REG_ASR,
      MISC iUNK, LDST STR_op True Off_REG_ROR, MISC iUNK, LDST STR_op True Off_REG_LSL, MISC iUNK,
      LDST STR_op True Off_REG_LSR, MISC iUNK, LDST STR_op True Off_REG_ASR, MISC iUNK, LDST STR_op True Off_REG_ROR,
      MISC iUNK],
     [LDST LDR_op True Off_REG_LSL, MISC iUNK, LDST LDR_op True Off_REG_LSR, MISC iUNK, LDST LDR_op True Off_REG_ASR,
      MISC iUNK, LDST LDR_op True Off_REG_ROR, MISC iUNK, LDST LDR_op True Off_REG_LSL, MISC iUNK,
      LDST LDR_op True Off_REG_LSR, MISC iUNK, LDST LDR_op True Off_REG_ASR, MISC iUNK, LDST LDR_op True Off_REG_ROR,
      MISC iUNK],
     [LDST STRB_op True Off_REG_LSL, MISC iUNK, LDST STRB_op True Off_REG_LSR, MISC iUNK,
      LDST STRB_op True Off_REG_ASR, MISC iUNK, LDST STRB_op True Off_REG_ROR, MISC iUNK,
      LDST STRB_op True Off_REG_LSL, MISC iUNK, LDST STRB_op True Off_REG_LSR, MISC iUNK,
      LDST STRB_op True Off_REG_ASR, MISC iUNK, LDST STRB_op True Off_REG_ROR, MISC iUNK],
     [LDST LDRB_op True Off_REG_LSL, MISC iUNK, LDST LDRB_op True Off_REG_LSR, MISC iUNK,
      LDST LDRB_op True Off_REG_ASR, MISC iUNK, LDST LDRB_op True Off_REG_ROR, MISC iUNK,
      LDST LDRB_op True Off_REG_LSL, MISC iUNK, LDST LDRB_op True Off_REG_LSR, MISC iUNK,
      LDST LDRB_op True Off_REG_ASR, MISC iUNK, LDST LDRB_op True Off_REG_ROR, MISC iUNK],
     [LDST STRB_op True Off_REG_LSL, MISC iUNK, LDST STRB_op True Off_REG_LSR, MISC iUNK,
      LDST STRB_op True Off_REG_ASR, MISC iUNK, LDST STRB_op True Off_REG_ROR, MISC iUNK,
      LDST STRB_op True Off_REG_LSL, MISC iUNK, LDST STRB_op True Off_REG_LSR, MISC iUNK,
      LDST STRB_op True Off_REG_ASR, MISC iUNK, LDST STRB_op True Off_REG_ROR, MISC iUNK],
     [LDST LDRB_op True Off_REG_LSL, MISC iUNK, LDST LDRB_op True Off_REG_LSR, MISC iUNK,
      LDST LDRB_op True Off_REG_ASR, MISC iUNK, LDST LDRB_op True Off_REG_ROR, MISC iUNK,
      LDST LDRB_op True Off_REG_LSL, MISC iUNK, LDST LDRB_op True Off_REG_LSR, MISC iUNK,
      LDST LDRB_op True Off_REG_ASR, MISC iUNK, LDST LDRB_op True Off_REG_ROR, MISC iUNK],
     [LDST STR_op True Off_REG_LSL, MISC iUNK, LDST STR_op True Off_REG_LSR, MISC iUNK, LDST STR_op True Off_REG_ASR,
      MISC iUNK, LDST STR_op True Off_REG_ROR, MISC iUNK, LDST STR_op True Off_REG_LSL, MISC iUNK,
      LDST STR_op True Off_REG_LSR, MISC iUNK, LDST STR_op True Off_REG_ASR, MISC iUNK, LDST STR_op True Off_REG_ROR,
      MISC iUNK],
     [LDST LDR_op True Off_REG_LSL, MISC iUNK, LDST LDR_op True Off_REG_LSR, MISC iUNK, LDST LDR_op True Off_REG_ASR,
      MISC iUNK, LDST LDR_op True Off_REG_ROR, MISC iUNK, LDST LDR_op True Off_REG_LSL, MISC iUNK,
      LDST LDR_op True Off_REG_LSR, MISC iUNK, LDST LDR_op True Off_REG_ASR, MISC iUNK, LDST LDR_op True Off_REG_ROR,
      MISC iUNK],
     [LDST STR_op True Off_REG_LSL, MISC iUNK, LDST STR_op True Off_REG_LSR, MISC iUNK, LDST STR_op True Off_REG_ASR,
      MISC iUNK, LDST STR_op True Off_REG_ROR, MISC iUNK, LDST STR_op True Off_REG_LSL, MISC iUNK,
      LDST STR_op True Off_REG_LSR, MISC iUNK, LDST STR_op True Off_REG_ASR, MISC iUNK, LDST STR_op True Off_REG_ROR,
      MISC iUNK],
     [LDST LDR_op True Off_REG_LSL, MISC iUNK, LDST LDR_op True Off_REG_LSR, MISC iUNK, LDST LDR_op True Off_REG_ASR,
      MISC iUNK, LDST LDR_op True Off_REG_ROR, MISC iUNK, LDST LDR_op True Off_REG_LSL, MISC iUNK,
      LDST LDR_op True Off_REG_LSR, MISC iUNK, LDST LDR_op True Off_REG_ASR, MISC iUNK, LDST LDR_op True Off_REG_ROR,
      MISC iUNK],
     [LDST STRB_op True Off_REG_LSL, MISC iUNK, LDST STRB_op True Off_REG_LSR, MISC iUNK,
      LDST STRB_op True Off_REG_ASR, MISC iUNK, LDST STRB_op True Off_REG_ROR, MISC iUNK,
      LDST STRB_op True Off_REG_LSL, MISC iUNK, LDST STRB_op True Off_REG_LSR, MISC iUNK,
      LDST STRB_op True Off_REG_ASR, MISC iUNK, LDST STRB_op True Off_REG_ROR, MISC iUNK],
     [LDST LDRB_op True Off_REG_LSL, MISC iUNK, LDST LDRB_op True Off_REG_LSR, MISC iUNK,
      LDST LDRB_op True Off_REG_ASR, MISC iUNK, LDST LDRB_op True Off_REG_ROR, MISC iUNK,
      LDST LDRB_op True Off_REG_LSL, MISC iUNK, LDST LDRB_op True Off_REG_LSR, MISC iUNK,
      LDST LDRB_op True Off_REG_ASR, MISC iUNK, LDST LDRB_op True Off_REG_ROR, MISC iUNK],
     [LDST STRB_op True Off_REG_LSL, MISC iUNK, LDST STRB_op True Off_REG_LSR, MISC iUNK,
      LDST STRB_op True Off_REG_ASR, MISC iUNK, LDST STRB_op True Off_REG_ROR, MISC iUNK,
      LDST STRB_op True Off_REG_LSL, MISC iUNK, LDST STRB_op True Off_REG_LSR, MISC iUNK,
      LDST STRB_op True Off_REG_ASR, MISC iUNK, LDST STRB_op True Off_REG_ROR, MISC iUNK],
     [LDST LDRB_op True Off_REG_LSL, MISC iUNK, LDST LDRB_op True Off_REG_LSR, MISC iUNK,
      LDST LDRB_op True Off_REG_ASR, MISC iUNK, LDST LDRB_op True Off_REG_ROR, MISC iUNK,
      LDST LDRB_op True Off_REG_LSL, MISC iUNK, LDST LDRB_op True Off_REG_LSR, MISC iUNK,
      LDST LDRB_op True Off_REG_ASR, MISC iUNK, LDST LDRB_op True Off_REG_ROR, MISC iUNK]]"

definition ARMInstrTable_7 :: "arm_instr list list" where
  "ARMInstrTable_7 = [
     [LDST STR_op False Off_REG_LSL, MISC iUNK, LDST STR_op False Off_REG_LSR, MISC iUNK,
      LDST STR_op False Off_REG_ASR, MISC iUNK, LDST STR_op False Off_REG_ROR, MISC iUNK,
      LDST STR_op False Off_REG_LSL, MISC iUNK, LDST STR_op False Off_REG_LSR, MISC iUNK,
      LDST STR_op False Off_REG_ASR, MISC iUNK, LDST STR_op False Off_REG_ROR, MISC iUNK],
     [LDST LDR_op False Off_REG_LSL, MISC iUNK, LDST LDR_op False Off_REG_LSR, MISC iUNK,
      LDST LDR_op False Off_REG_ASR, MISC iUNK, LDST LDR_op False Off_REG_ROR, MISC iUNK,
      LDST LDR_op False Off_REG_LSL, MISC iUNK, LDST LDR_op False Off_REG_LSR, MISC iUNK,
      LDST LDR_op False Off_REG_ASR, MISC iUNK, LDST LDR_op False Off_REG_ROR, MISC iUNK],
     [LDST STR_op False Off_REG_LSL, MISC iUNK, LDST STR_op False Off_REG_LSR, MISC iUNK,
      LDST STR_op False Off_REG_ASR, MISC iUNK, LDST STR_op False Off_REG_ROR, MISC iUNK,
      LDST STR_op False Off_REG_LSL, MISC iUNK, LDST STR_op False Off_REG_LSR, MISC iUNK,
      LDST STR_op False Off_REG_ASR, MISC iUNK, LDST STR_op False Off_REG_ROR, MISC iUNK],
     [LDST LDR_op False Off_REG_LSL, MISC iUNK, LDST LDR_op False Off_REG_LSR, MISC iUNK,
      LDST LDR_op False Off_REG_ASR, MISC iUNK, LDST LDR_op False Off_REG_ROR, MISC iUNK,
      LDST LDR_op False Off_REG_LSL, MISC iUNK, LDST LDR_op False Off_REG_LSR, MISC iUNK,
      LDST LDR_op False Off_REG_ASR, MISC iUNK, LDST LDR_op False Off_REG_ROR, MISC iUNK],
     [LDST STRB_op False Off_REG_LSL, MISC iUNK, LDST STRB_op False Off_REG_LSR, MISC iUNK,
      LDST STRB_op False Off_REG_ASR, MISC iUNK, LDST STRB_op False Off_REG_ROR, MISC iUNK,
      LDST STRB_op False Off_REG_LSL, MISC iUNK, LDST STRB_op False Off_REG_LSR, MISC iUNK,
      LDST STRB_op False Off_REG_ASR, MISC iUNK, LDST STRB_op False Off_REG_ROR, MISC iUNK],
     [LDST LDRB_op False Off_REG_LSL, MISC iUNK, LDST LDRB_op False Off_REG_LSR, MISC iUNK,
      LDST LDRB_op False Off_REG_ASR, MISC iUNK, LDST LDRB_op False Off_REG_ROR, MISC iUNK,
      LDST LDRB_op False Off_REG_LSL, MISC iUNK, LDST LDRB_op False Off_REG_LSR, MISC iUNK,
      LDST LDRB_op False Off_REG_ASR, MISC iUNK, LDST LDRB_op False Off_REG_ROR, MISC iUNK],
     [LDST STRB_op False Off_REG_LSL, MISC iUNK, LDST STRB_op False Off_REG_LSR, MISC iUNK,
      LDST STRB_op False Off_REG_ASR, MISC iUNK, LDST STRB_op False Off_REG_ROR, MISC iUNK,
      LDST STRB_op False Off_REG_LSL, MISC iUNK, LDST STRB_op False Off_REG_LSR, MISC iUNK,
      LDST STRB_op False Off_REG_ASR, MISC iUNK, LDST STRB_op False Off_REG_ROR, MISC iUNK],
     [LDST LDRB_op False Off_REG_LSL, MISC iUNK, LDST LDRB_op False Off_REG_LSR, MISC iUNK,
      LDST LDRB_op False Off_REG_ASR, MISC iUNK, LDST LDRB_op False Off_REG_ROR, MISC iUNK,
      LDST LDRB_op False Off_REG_LSL, MISC iUNK, LDST LDRB_op False Off_REG_LSR, MISC iUNK,
      LDST LDRB_op False Off_REG_ASR, MISC iUNK, LDST LDRB_op False Off_REG_ROR, MISC iUNK],
     [LDST STR_op False Off_REG_LSL, MISC iUNK, LDST STR_op False Off_REG_LSR, MISC iUNK,
      LDST STR_op False Off_REG_ASR, MISC iUNK, LDST STR_op False Off_REG_ROR, MISC iUNK,
      LDST STR_op False Off_REG_LSL, MISC iUNK, LDST STR_op False Off_REG_LSR, MISC iUNK,
      LDST STR_op False Off_REG_ASR, MISC iUNK, LDST STR_op False Off_REG_ROR, MISC iUNK],
     [LDST LDR_op False Off_REG_LSL, MISC iUNK, LDST LDR_op False Off_REG_LSR, MISC iUNK,
      LDST LDR_op False Off_REG_ASR, MISC iUNK, LDST LDR_op False Off_REG_ROR, MISC iUNK,
      LDST LDR_op False Off_REG_LSL, MISC iUNK, LDST LDR_op False Off_REG_LSR, MISC iUNK,
      LDST LDR_op False Off_REG_ASR, MISC iUNK, LDST LDR_op False Off_REG_ROR, MISC iUNK],
     [LDST STR_op False Off_REG_LSL, MISC iUNK, LDST STR_op False Off_REG_LSR, MISC iUNK,
      LDST STR_op False Off_REG_ASR, MISC iUNK, LDST STR_op False Off_REG_ROR, MISC iUNK,
      LDST STR_op False Off_REG_LSL, MISC iUNK, LDST STR_op False Off_REG_LSR, MISC iUNK,
      LDST STR_op False Off_REG_ASR, MISC iUNK, LDST STR_op False Off_REG_ROR, MISC iUNK],
     [LDST LDR_op False Off_REG_LSL, MISC iUNK, LDST LDR_op False Off_REG_LSR, MISC iUNK,
      LDST LDR_op False Off_REG_ASR, MISC iUNK, LDST LDR_op False Off_REG_ROR, MISC iUNK,
      LDST LDR_op False Off_REG_LSL, MISC iUNK, LDST LDR_op False Off_REG_LSR, MISC iUNK,
      LDST LDR_op False Off_REG_ASR, MISC iUNK, LDST LDR_op False Off_REG_ROR, MISC iUNK],
     [LDST STRB_op False Off_REG_LSL, MISC iUNK, LDST STRB_op False Off_REG_LSR, MISC iUNK,
      LDST STRB_op False Off_REG_ASR, MISC iUNK, LDST STRB_op False Off_REG_ROR, MISC iUNK,
      LDST STRB_op False Off_REG_LSL, MISC iUNK, LDST STRB_op False Off_REG_LSR, MISC iUNK,
      LDST STRB_op False Off_REG_ASR, MISC iUNK, LDST STRB_op False Off_REG_ROR, MISC iUNK],
     [LDST LDRB_op False Off_REG_LSL, MISC iUNK, LDST LDRB_op False Off_REG_LSR, MISC iUNK,
      LDST LDRB_op False Off_REG_ASR, MISC iUNK, LDST LDRB_op False Off_REG_ROR, MISC iUNK,
      LDST LDRB_op False Off_REG_LSL, MISC iUNK, LDST LDRB_op False Off_REG_LSR, MISC iUNK,
      LDST LDRB_op False Off_REG_ASR, MISC iUNK, LDST LDRB_op False Off_REG_ROR, MISC iUNK],
     [LDST STRB_op False Off_REG_LSL, MISC iUNK, LDST STRB_op False Off_REG_LSR, MISC iUNK,
      LDST STRB_op False Off_REG_ASR, MISC iUNK, LDST STRB_op False Off_REG_ROR, MISC iUNK,
      LDST STRB_op False Off_REG_LSL, MISC iUNK, LDST STRB_op False Off_REG_LSR, MISC iUNK,
      LDST STRB_op False Off_REG_ASR, MISC iUNK, LDST STRB_op False Off_REG_ROR, MISC iUNK],
     [LDST LDRB_op False Off_REG_LSL, MISC iUNK, LDST LDRB_op False Off_REG_LSR, MISC iUNK,
      LDST LDRB_op False Off_REG_ASR, MISC iUNK, LDST LDRB_op False Off_REG_ROR, MISC iUNK,
      LDST LDRB_op False Off_REG_LSL, MISC iUNK, LDST LDRB_op False Off_REG_LSR, MISC iUNK,
      LDST LDRB_op False Off_REG_ASR, MISC iUNK, LDST LDRB_op False Off_REG_ROR, MISC iUNK]]"

definition ARMInstrTable_8 :: "arm_instr list list" where
  "ARMInstrTable_8 = [
     replicate 16 (MISC iSTM),
     replicate 16 (MISC iLDM),
     replicate 16 (MISC iSTM),
     replicate 16 (MISC iLDM),
     replicate 16 (MISC iSTM),
     replicate 16 (MISC iLDM),
     replicate 16 (MISC iSTM),
     replicate 16 (MISC iLDM),
     replicate 16 (MISC iSTM),
     replicate 16 (MISC iLDM),
     replicate 16 (MISC iSTM),
     replicate 16 (MISC iLDM),
     replicate 16 (MISC iSTM),
     replicate 16 (MISC iLDM),
     replicate 16 (MISC iSTM),
     replicate 16 (MISC iLDM)]"

definition ARMInstrTable_9 :: "arm_instr list list" where
  "ARMInstrTable_9 = [
     replicate 16 (MISC iSTM),
     replicate 16 (MISC iLDM),
     replicate 16 (MISC iSTM),
     replicate 16 (MISC iLDM),
     replicate 16 (MISC iSTM),
     replicate 16 (MISC iLDM),
     replicate 16 (MISC iSTM),
     replicate 16 (MISC iLDM),
     replicate 16 (MISC iSTM),
     replicate 16 (MISC iLDM),
     replicate 16 (MISC iSTM),
     replicate 16 (MISC iLDM),
     replicate 16 (MISC iSTM),
     replicate 16 (MISC iLDM),
     replicate 16 (MISC iSTM),
     replicate 16 (MISC iLDM)]"

definition ARMInstrTable_10 :: "arm_instr list list" where
  "ARMInstrTable_10 = [
     replicate 16 (MISC iB),
     replicate 16 (MISC iB),
     replicate 16 (MISC iB),
     replicate 16 (MISC iB),
     replicate 16 (MISC iB),
     replicate 16 (MISC iB),
     replicate 16 (MISC iB),
     replicate 16 (MISC iB),
     replicate 16 (MISC iB),
     replicate 16 (MISC iB),
     replicate 16 (MISC iB),
     replicate 16 (MISC iB),
     replicate 16 (MISC iB),
     replicate 16 (MISC iB),
     replicate 16 (MISC iB),
     replicate 16 (MISC iB)]"

definition ARMInstrTable_11 :: "arm_instr list list" where
  "ARMInstrTable_11 = [
     replicate 16 (MISC iBL),
     replicate 16 (MISC iBL),
     replicate 16 (MISC iBL),
     replicate 16 (MISC iBL),
     replicate 16 (MISC iBL),
     replicate 16 (MISC iBL),
     replicate 16 (MISC iBL),
     replicate 16 (MISC iBL),
     replicate 16 (MISC iBL),
     replicate 16 (MISC iBL),
     replicate 16 (MISC iBL),
     replicate 16 (MISC iBL),
     replicate 16 (MISC iBL),
     replicate 16 (MISC iBL),
     replicate 16 (MISC iBL),
     replicate 16 (MISC iBL)]"

definition ARMInstrTable_12 :: "arm_instr list list" where
  "ARMInstrTable_12 = [
     replicate 16 (MISC iUNK),
     replicate 16 (MISC iUNK),
     replicate 16 (MISC iUNK),
     replicate 16 (MISC iUNK),
     replicate 16 (MISC iUNK),
     replicate 16 (MISC iUNK),
     replicate 16 (MISC iUNK),
     replicate 16 (MISC iUNK),
     replicate 16 (MISC iUNK),
     replicate 16 (MISC iUNK),
     replicate 16 (MISC iUNK),
     replicate 16 (MISC iUNK),
     replicate 16 (MISC iUNK),
     replicate 16 (MISC iUNK),
     replicate 16 (MISC iUNK),
     replicate 16 (MISC iUNK)]"

definition ARMInstrTable_13 :: "arm_instr list list" where
  "ARMInstrTable_13 = [
     replicate 16 (MISC iUNK),
     replicate 16 (MISC iUNK),
     replicate 16 (MISC iUNK),
     replicate 16 (MISC iUNK),
     replicate 16 (MISC iUNK),
     replicate 16 (MISC iUNK),
     replicate 16 (MISC iUNK),
     replicate 16 (MISC iUNK),
     replicate 16 (MISC iUNK),
     replicate 16 (MISC iUNK),
     replicate 16 (MISC iUNK),
     replicate 16 (MISC iUNK),
     replicate 16 (MISC iUNK),
     replicate 16 (MISC iUNK),
     replicate 16 (MISC iUNK),
     replicate 16 (MISC iUNK)]"

definition ARMInstrTable_14 :: "arm_instr list list" where
  "ARMInstrTable_14 = [
     [MISC iUNK, MISC iMCR, MISC iUNK, MISC iMCR, MISC iUNK, MISC iMCR, MISC iUNK, MISC iMCR, MISC iUNK, MISC iMCR,
      MISC iUNK, MISC iMCR, MISC iUNK, MISC iMCR, MISC iUNK, MISC iMCR],
     [MISC iUNK, MISC iMRC, MISC iUNK, MISC iMRC, MISC iUNK, MISC iMRC, MISC iUNK, MISC iMRC, MISC iUNK, MISC iMRC,
      MISC iUNK, MISC iMRC, MISC iUNK, MISC iMRC, MISC iUNK, MISC iMRC],
     [MISC iUNK, MISC iMCR, MISC iUNK, MISC iMCR, MISC iUNK, MISC iMCR, MISC iUNK, MISC iMCR, MISC iUNK, MISC iMCR,
      MISC iUNK, MISC iMCR, MISC iUNK, MISC iMCR, MISC iUNK, MISC iMCR],
     [MISC iUNK, MISC iMRC, MISC iUNK, MISC iMRC, MISC iUNK, MISC iMRC, MISC iUNK, MISC iMRC, MISC iUNK, MISC iMRC,
      MISC iUNK, MISC iMRC, MISC iUNK, MISC iMRC, MISC iUNK, MISC iMRC],
     [MISC iUNK, MISC iMCR, MISC iUNK, MISC iMCR, MISC iUNK, MISC iMCR, MISC iUNK, MISC iMCR, MISC iUNK, MISC iMCR,
      MISC iUNK, MISC iMCR, MISC iUNK, MISC iMCR, MISC iUNK, MISC iMCR],
     [MISC iUNK, MISC iMRC, MISC iUNK, MISC iMRC, MISC iUNK, MISC iMRC, MISC iUNK, MISC iMRC, MISC iUNK, MISC iMRC,
      MISC iUNK, MISC iMRC, MISC iUNK, MISC iMRC, MISC iUNK, MISC iMRC],
     [MISC iUNK, MISC iMCR, MISC iUNK, MISC iMCR, MISC iUNK, MISC iMCR, MISC iUNK, MISC iMCR, MISC iUNK, MISC iMCR,
      MISC iUNK, MISC iMCR, MISC iUNK, MISC iMCR, MISC iUNK, MISC iMCR],
     [MISC iUNK, MISC iMRC, MISC iUNK, MISC iMRC, MISC iUNK, MISC iMRC, MISC iUNK, MISC iMRC, MISC iUNK, MISC iMRC,
      MISC iUNK, MISC iMRC, MISC iUNK, MISC iMRC, MISC iUNK, MISC iMRC],
     [MISC iUNK, MISC iMCR, MISC iUNK, MISC iMCR, MISC iUNK, MISC iMCR, MISC iUNK, MISC iMCR, MISC iUNK, MISC iMCR,
      MISC iUNK, MISC iMCR, MISC iUNK, MISC iMCR, MISC iUNK, MISC iMCR],
     [MISC iUNK, MISC iMRC, MISC iUNK, MISC iMRC, MISC iUNK, MISC iMRC, MISC iUNK, MISC iMRC, MISC iUNK, MISC iMRC,
      MISC iUNK, MISC iMRC, MISC iUNK, MISC iMRC, MISC iUNK, MISC iMRC],
     [MISC iUNK, MISC iMCR, MISC iUNK, MISC iMCR, MISC iUNK, MISC iMCR, MISC iUNK, MISC iMCR, MISC iUNK, MISC iMCR,
      MISC iUNK, MISC iMCR, MISC iUNK, MISC iMCR, MISC iUNK, MISC iMCR],
     [MISC iUNK, MISC iMRC, MISC iUNK, MISC iMRC, MISC iUNK, MISC iMRC, MISC iUNK, MISC iMRC, MISC iUNK, MISC iMRC,
      MISC iUNK, MISC iMRC, MISC iUNK, MISC iMRC, MISC iUNK, MISC iMRC],
     [MISC iUNK, MISC iMCR, MISC iUNK, MISC iMCR, MISC iUNK, MISC iMCR, MISC iUNK, MISC iMCR, MISC iUNK, MISC iMCR,
      MISC iUNK, MISC iMCR, MISC iUNK, MISC iMCR, MISC iUNK, MISC iMCR],
     [MISC iUNK, MISC iMRC, MISC iUNK, MISC iMRC, MISC iUNK, MISC iMRC, MISC iUNK, MISC iMRC, MISC iUNK, MISC iMRC,
      MISC iUNK, MISC iMRC, MISC iUNK, MISC iMRC, MISC iUNK, MISC iMRC],
     [MISC iUNK, MISC iMCR, MISC iUNK, MISC iMCR, MISC iUNK, MISC iMCR, MISC iUNK, MISC iMCR, MISC iUNK, MISC iMCR,
      MISC iUNK, MISC iMCR, MISC iUNK, MISC iMCR, MISC iUNK, MISC iMCR],
     [MISC iUNK, MISC iMRC, MISC iUNK, MISC iMRC, MISC iUNK, MISC iMRC, MISC iUNK, MISC iMRC, MISC iUNK, MISC iMRC,
      MISC iUNK, MISC iMRC, MISC iUNK, MISC iMRC, MISC iUNK, MISC iMRC]]"

definition ARMInstrTable_15 :: "arm_instr list list" where
  "ARMInstrTable_15 = [
     replicate 16 (MISC iSVC),
     replicate 16 (MISC iSVC),
     replicate 16 (MISC iSVC),
     replicate 16 (MISC iSVC),
     replicate 16 (MISC iSVC),
     replicate 16 (MISC iSVC),
     replicate 16 (MISC iSVC),
     replicate 16 (MISC iSVC),
     replicate 16 (MISC iSVC),
     replicate 16 (MISC iSVC),
     replicate 16 (MISC iSVC),
     replicate 16 (MISC iSVC),
     replicate 16 (MISC iSVC),
     replicate 16 (MISC iSVC),
     replicate 16 (MISC iSVC),
     replicate 16 (MISC iSVC)]"

definition ARMInstrTable :: "arm_instr list" where
  "ARMInstrTable = concat (ARMInstrTable_0 @
     ARMInstrTable_1 @
     ARMInstrTable_2 @
     ARMInstrTable_3 @
     ARMInstrTable_4 @
     ARMInstrTable_5 @
     ARMInstrTable_6 @
     ARMInstrTable_7 @
     ARMInstrTable_8 @
     ARMInstrTable_9 @
     ARMInstrTable_10 @
     ARMInstrTable_11 @
     ARMInstrTable_12 @
     ARMInstrTable_13 @
     ARMInstrTable_14 @
     ARMInstrTable_15)"

section \<open>The THUMB table\<close>

definition THUMBInstrTable_0 :: "thumb_instr list list" where
  "THUMBInstrTable_0 = [
     replicate 16 (tLSL_IMM),
     replicate 16 (tLSL_IMM),
     replicate 16 (tLSR_IMM),
     replicate 16 (tLSR_IMM),
     replicate 16 (tASR_IMM),
     replicate 16 (tASR_IMM),
     [tADD_REG3, tADD_REG3, tADD_REG3, tADD_REG3, tADD_REG3, tADD_REG3, tADD_REG3, tADD_REG3, tSUB_REG3, tSUB_REG3,
      tSUB_REG3, tSUB_REG3, tSUB_REG3, tSUB_REG3, tSUB_REG3, tSUB_REG3],
     [tADD_IMM3, tADD_IMM3, tADD_IMM3, tADD_IMM3, tADD_IMM3, tADD_IMM3, tADD_IMM3, tADD_IMM3, tSUB_IMM3, tSUB_IMM3,
      tSUB_IMM3, tSUB_IMM3, tSUB_IMM3, tSUB_IMM3, tSUB_IMM3, tSUB_IMM3],
     replicate 16 (tMOV_IMM),
     replicate 16 (tMOV_IMM),
     replicate 16 (tCMP_IMM),
     replicate 16 (tCMP_IMM),
     replicate 16 (tADD_IMM),
     replicate 16 (tADD_IMM),
     replicate 16 (tSUB_IMM),
     replicate 16 (tSUB_IMM)]"

definition THUMBInstrTable_1 :: "thumb_instr list list" where
  "THUMBInstrTable_1 = [
     [tAND_REG, tEOR_REG, tLSL_REG, tLSR_REG, tASR_REG, tADC_REG, tSBC_REG, tROR_REG, tTST_REG, tNEG_REG, tCMP_REG,
      tCMN_REG, tORR_REG, tMUL_REG, tBIC_REG, tMVN_REG],
     [tADD_HIREG, tADD_HIREG, tADD_HIREG, tADD_HIREG, tCMP_HIREG, tCMP_HIREG, tCMP_HIREG, tCMP_HIREG, tMOV_HIREG,
      tMOV_HIREG, tMOV_HIREG, tMOV_HIREG, tBX, tBX, tBLX_REG, tBLX_REG],
     replicate 16 (tLDR_PCREL),
     replicate 16 (tLDR_PCREL),
     [tSTR_REG, tSTR_REG, tSTR_REG, tSTR_REG, tSTR_REG, tSTR_REG, tSTR_REG, tSTR_REG, tSTRH_REG, tSTRH_REG,
      tSTRH_REG, tSTRH_REG, tSTRH_REG, tSTRH_REG, tSTRH_REG, tSTRH_REG],
     [tSTRB_REG, tSTRB_REG, tSTRB_REG, tSTRB_REG, tSTRB_REG, tSTRB_REG, tSTRB_REG, tSTRB_REG, tLDRSB_REG, tLDRSB_REG,
      tLDRSB_REG, tLDRSB_REG, tLDRSB_REG, tLDRSB_REG, tLDRSB_REG, tLDRSB_REG],
     [tLDR_REG, tLDR_REG, tLDR_REG, tLDR_REG, tLDR_REG, tLDR_REG, tLDR_REG, tLDR_REG, tLDRH_REG, tLDRH_REG,
      tLDRH_REG, tLDRH_REG, tLDRH_REG, tLDRH_REG, tLDRH_REG, tLDRH_REG],
     [tLDRB_REG, tLDRB_REG, tLDRB_REG, tLDRB_REG, tLDRB_REG, tLDRB_REG, tLDRB_REG, tLDRB_REG, tLDRSH_REG, tLDRSH_REG,
      tLDRSH_REG, tLDRSH_REG, tLDRSH_REG, tLDRSH_REG, tLDRSH_REG, tLDRSH_REG],
     replicate 16 (tSTR_IMM),
     replicate 16 (tSTR_IMM),
     replicate 16 (tLDR_IMM),
     replicate 16 (tLDR_IMM),
     replicate 16 (tSTRB_IMM),
     replicate 16 (tSTRB_IMM),
     replicate 16 (tLDRB_IMM),
     replicate 16 (tLDRB_IMM)]"

definition THUMBInstrTable_2 :: "thumb_instr list list" where
  "THUMBInstrTable_2 = [
     replicate 16 (tSTRH_IMM),
     replicate 16 (tSTRH_IMM),
     replicate 16 (tLDRH_IMM),
     replicate 16 (tLDRH_IMM),
     replicate 16 (tSTR_SPREL),
     replicate 16 (tSTR_SPREL),
     replicate 16 (tLDR_SPREL),
     replicate 16 (tLDR_SPREL),
     replicate 16 (tADD_PCREL),
     replicate 16 (tADD_PCREL),
     replicate 16 (tADD_SPREL),
     replicate 16 (tADD_SPREL),
     [tADD_SP, tADD_SP, tADD_SP, tADD_SP, tUNK, tUNK, tUNK, tUNK, tUNK, tUNK, tUNK, tUNK, tUNK, tUNK, tUNK, tUNK],
     [tPUSH, tPUSH, tPUSH, tPUSH, tPUSH, tPUSH, tPUSH, tPUSH, tUNK, tUNK, tUNK, tUNK, tUNK, tUNK, tUNK, tUNK],
     replicate 16 (tUNK),
     [tPOP, tPOP, tPOP, tPOP, tPOP, tPOP, tPOP, tPOP, tUNK, tUNK, tUNK, tUNK, tUNK, tUNK, tUNK, tUNK]]"

definition THUMBInstrTable_3 :: "thumb_instr list list" where
  "THUMBInstrTable_3 = [
     replicate 16 (tSTMIA),
     replicate 16 (tSTMIA),
     replicate 16 (tLDMIA),
     replicate 16 (tLDMIA),
     replicate 16 (tBCOND),
     replicate 16 (tBCOND),
     replicate 16 (tBCOND),
     [tBCOND, tBCOND, tBCOND, tBCOND, tBCOND, tBCOND, tBCOND, tBCOND, tUNK, tUNK, tUNK, tUNK, tSVC, tSVC, tSVC, tSVC],
     replicate 16 (tB),
     replicate 16 (tB),
     replicate 16 (tBL_LONG_2),
     replicate 16 (tBL_LONG_2),
     replicate 16 (tBL_LONG_1),
     replicate 16 (tBL_LONG_1),
     replicate 16 (tBL_LONG_2),
     replicate 16 (tBL_LONG_2)]"

definition THUMBInstrTable :: "thumb_instr list" where
  "THUMBInstrTable = concat (THUMBInstrTable_0 @ THUMBInstrTable_1 @ THUMBInstrTable_2 @ THUMBInstrTable_3)"

end
