(* ===== verification/ArmDecode.thy ===== *)
theory ArmDecode
  imports ArmTable ArmAluSpec
begin

text \<open>
  The instruction tables against the encodings of the architecture manual: a decoder written from the
  fields of an instruction word, and the equality of every entry of both tables with it, up to one
  entry of the ARM table.
\<close>

section \<open>Decoders\<close>

text \<open>Bits 27 to 24 of an ARM instruction are \<open>a\<close>, bits 23 to 20 are \<open>b\<close>, bits 7 to 4 are \<open>lo\<close>. Bits 15 to
  10 of a THUMB instruction are \<open>r\<close>, bits 9 to 6 are \<open>c\<close>.\<close>

definition data_processing :: "nat \<Rightarrow> bool \<Rightarrow> op2 \<Rightarrow> arm_instr" where
  "data_processing opc st kind =
     (if opc < 8 then ALU ([AND_op, EOR_op, SUB_op, RSB_op, ADD_op, ADC_op, SBC_op, RSC_op] ! opc) kind st
      else if opc < 12 then TEST ([TST_op, TEQ_op, CMP_op, CMN_op] ! (opc - 8)) kind
      else ALU ([ORR_op, MOV_op, BIC_op, MVN_op] ! (opc - 12)) kind st)"

definition multiply_or_swap :: "nat \<Rightarrow> nat \<Rightarrow> arm_instr" where
  "multiply_or_swap a b = MISC
     (if a = 0 then [iMUL, iMLA, iUNK, iUNK, iUMULL, iUMLAL, iSMULL, iSMLAL] ! (b div 2)
      else if b = 0 then iSWP else if b = 4 then iSWPB else iUNK)"

definition halfword :: "nat \<Rightarrow> nat \<Rightarrow> nat \<Rightarrow> arm_instr" where
  "halfword a b lo =
     (let post = even a; imm = odd (b div 4); wb = odd (b div 2); load = odd b; sh = lo div 2 mod 4;
          op = (if load then [LDRH_op, LDRH_op, LDRSB_op, LDRSH_op] ! sh else [STRH_op, STRH_op, LDRD_op, STRD_op] ! sh)
      in if post \<and> wb then MISC iUNK else HALF op post imm)"

definition miscellaneous :: "nat \<Rightarrow> nat \<Rightarrow> arm_instr" where
  "miscellaneous b lo =
     (let op = b div 2 in MISC
      (if lo = 0 then if even op then iMRS else iMSR_REG
       else if lo = 1 then if op = 1 then iBX else if op = 3 then iCLZ else iUNK
       else if lo = 3 then if op = 1 then iBLX_REG else iUNK
       else if lo = 5 then [iQADD, iQSUB, iQDADD, iQDSUB] ! op
       else if 8 \<le> lo \<and> even lo then
         if op = 0 then iSMLAxy else if op = 1 then if even (lo div 2) then iSMLAWy else iSMULWy
         else if op = 2 then iSMLALxy else iSMULxy
       else iUNK))"

definition shifted_register :: "nat \<Rightarrow> op2" where
  "shifted_register lo =
     (if even lo then [REG_LSL_IMM, REG_LSR_IMM, REG_ASR_IMM, REG_ROR_IMM]
      else [REG_LSL_REG, REG_LSR_REG, REG_ASR_REG, REG_ROR_REG]) ! (lo div 2 mod 4)"

definition decode_arm :: "nat \<Rightarrow> nat \<Rightarrow> nat \<Rightarrow> arm_instr" where
  "decode_arm a b lo =
     (let class = a div 2; opc = (if odd a then 8 else 0) + b div 2; st = odd b; no_flags = (odd a \<and> b < 8 \<and> even b) in
      if class = 0 then
        if lo = 9 then multiply_or_swap a b
        else if 8 \<le> lo \<and> odd lo then halfword a b lo
        else if no_flags then miscellaneous b lo
        else if a = 1 \<and> b = 10 \<and> lo = 0 then MISC iMOV_DBG
        else data_processing opc st (shifted_register lo)
      else if class = 1 then
        if no_flags then MISC (if odd (b div 2) then iMSR_IMM else iUNK) else data_processing opc st IMM
      else if class = 2 \<or> class = 3 then
        if class = 3 \<and> odd lo then MISC iUNK
        else LDST (if st then if odd (b div 4) then LDRB_op else LDR_op else if odd (b div 4) then STRB_op else STR_op)
               (even a)
               (if class = 2 then Off_IMM else [Off_REG_LSL, Off_REG_LSR, Off_REG_ASR, Off_REG_ROR] ! (lo div 2 mod 4))
      else MISC
        (if class = 4 then if st then iLDM else iSTM
         else if class = 5 then if odd a then iBL else iB
         else if class = 6 then iUNK
         else if odd a then iSVC
         else if odd lo then if st then iMRC else iMCR else iUNK))"

definition decode_thumb :: "nat \<Rightarrow> nat \<Rightarrow> thumb_instr" where
  "decode_thumb r c =
     (let class = r div 8; q = r mod 8 in
      if class = 0 then
        if q div 2 < 3 then [tLSL_IMM, tLSR_IMM, tASR_IMM] ! (q div 2)
        else [tADD_REG3, tSUB_REG3, tADD_IMM3, tSUB_IMM3] ! (q mod 2 * 2 + c div 8)
      else if class = 1 then [tMOV_IMM, tCMP_IMM, tADD_IMM, tSUB_IMM] ! (q div 2)
      else if class = 2 then
        if q = 0 then
          [tAND_REG, tEOR_REG, tLSL_REG, tLSR_REG, tASR_REG, tADC_REG, tSBC_REG, tROR_REG,
           tTST_REG, tNEG_REG, tCMP_REG, tCMN_REG, tORR_REG, tMUL_REG, tBIC_REG, tMVN_REG] ! c
        else if q = 1 then
          [tADD_HIREG, tCMP_HIREG, tMOV_HIREG, if odd (c div 2) then tBLX_REG else tBX] ! (c div 4)
        else if q div 2 = 1 then tLDR_PCREL
        else [tSTR_REG, tSTRH_REG, tSTRB_REG, tLDRSB_REG, tLDR_REG, tLDRH_REG, tLDRB_REG, tLDRSH_REG]
               ! (q mod 4 * 2 + c div 8)
      else if class = 3 then [tSTR_IMM, tLDR_IMM, tSTRB_IMM, tLDRB_IMM] ! (q div 2)
      else if class = 4 then [tSTRH_IMM, tLDRH_IMM, tSTR_SPREL, tLDR_SPREL] ! (q div 2)
      else if class = 5 then
        if q < 4 then if q div 2 = 0 then tADD_PCREL else tADD_SPREL
        else if q mod 4 = 0 \<and> c div 4 = 0 then tADD_SP
        else if q mod 2 * 2 + c div 8 = 2 then if q div 2 = 2 then tPUSH else tPOP
        else tUNK
      else if class = 6 then
        if q < 4 then if q div 2 = 0 then tSTMIA else tLDMIA
        else let cond = q mod 4 * 4 + c div 4 in if cond = 15 then tSVC else if cond = 14 then tUNK else tBCOND
      else [tB, tBL_LONG_2, tBL_LONG_1, tBL_LONG_2] ! (q div 2))"

section \<open>Rows of the tables\<close>

definition arm_rows :: "nat \<Rightarrow> arm_instr list list" where
  "arm_rows a = map (\<lambda>b. map (decode_arm a b) [0..<16]) [0..<16]"

definition thumb_rows :: "nat \<Rightarrow> thumb_instr list list" where
  "thumb_rows k = map (\<lambda>r. map (decode_thumb (16 * k + r)) [0..<16]) [0..<16]"

lemma ARMInstrTable_block_0:
  "ARMInstrTable_0 = (arm_rows 0)[3 := (arm_rows 0 ! 3)[10 := ALU EOR_op REG_ROR_IMM True]]"
  by code_simp

lemma ARMInstrTable_block_1: "ARMInstrTable_1 = arm_rows 1" by code_simp
lemma ARMInstrTable_block_2: "ARMInstrTable_2 = arm_rows 2" by code_simp
lemma ARMInstrTable_block_3: "ARMInstrTable_3 = arm_rows 3" by code_simp
lemma ARMInstrTable_block_4: "ARMInstrTable_4 = arm_rows 4" by code_simp
lemma ARMInstrTable_block_5: "ARMInstrTable_5 = arm_rows 5" by code_simp
lemma ARMInstrTable_block_6: "ARMInstrTable_6 = arm_rows 6" by code_simp
lemma ARMInstrTable_block_7: "ARMInstrTable_7 = arm_rows 7" by code_simp
lemma ARMInstrTable_block_8: "ARMInstrTable_8 = arm_rows 8" by code_simp
lemma ARMInstrTable_block_9: "ARMInstrTable_9 = arm_rows 9" by code_simp
lemma ARMInstrTable_block_10: "ARMInstrTable_10 = arm_rows 10" by code_simp
lemma ARMInstrTable_block_11: "ARMInstrTable_11 = arm_rows 11" by code_simp
lemma ARMInstrTable_block_12: "ARMInstrTable_12 = arm_rows 12" by code_simp
lemma ARMInstrTable_block_13: "ARMInstrTable_13 = arm_rows 13" by code_simp
lemma ARMInstrTable_block_14: "ARMInstrTable_14 = arm_rows 14" by code_simp
lemma ARMInstrTable_block_15: "ARMInstrTable_15 = arm_rows 15" by code_simp

lemmas ARMInstrTable_blocks = ARMInstrTable_block_1 ARMInstrTable_block_2 ARMInstrTable_block_3 ARMInstrTable_block_4 ARMInstrTable_block_5 ARMInstrTable_block_6 ARMInstrTable_block_7 ARMInstrTable_block_8
  ARMInstrTable_block_9 ARMInstrTable_block_10 ARMInstrTable_block_11 ARMInstrTable_block_12 ARMInstrTable_block_13 ARMInstrTable_block_14 ARMInstrTable_block_15

lemma THUMBInstrTable_block_0: "THUMBInstrTable_0 = thumb_rows 0" by code_simp
lemma THUMBInstrTable_block_1: "THUMBInstrTable_1 = thumb_rows 1" by code_simp
lemma THUMBInstrTable_block_2: "THUMBInstrTable_2 = thumb_rows 2" by code_simp
lemma THUMBInstrTable_block_3: "THUMBInstrTable_3 = thumb_rows 3" by code_simp

lemma nth_concat_uniform:
  "\<forall>xs \<in> set xss. length xs = n \<Longrightarrow> i < length xss * n \<Longrightarrow> concat xss ! i = xss ! (i div n) ! (i mod n)"
proof (induction xss arbitrary: i)
  case (Cons xs xss)
  show ?case
  proof (cases "i < n")
    case False
    then have "concat (xs # xss) ! i = concat xss ! (i - n)" using Cons.prems by (simp add: nth_append)
    also have "\<dots> = xss ! ((i - n) div n) ! ((i - n) mod n)" using Cons.prems False by (intro Cons.IH) auto
    also have "\<dots> = (xs # xss) ! (i div n) ! (i mod n)"
      using False Cons.prems by (cases "n = 0") (simp_all add: le_div_geq le_mod_geq)
    finally show ?thesis .
  qed (use Cons.prems in \<open>simp add: nth_append\<close>)
qed simp

lemma concat_blocks:
  assumes "length blocks = m" "\<forall>b \<in> set blocks. length b = 16 \<and> (\<forall>r \<in> set b. length r = 16)" "i < m * 256"
  shows "concat (concat blocks) ! i = blocks ! (i div 256) ! (i div 16 mod 16) ! (i mod 16)"
proof -
  have len: "length (concat blocks) = m * 16"
    using assms(1,2) by (induction blocks arbitrary: m) auto
  have "concat (concat blocks) ! i = concat blocks ! (i div 16) ! (i mod 16)"
    using assms len by (intro nth_concat_uniform) auto
  also have "concat blocks ! (i div 16) = blocks ! (i div 16 div 16) ! (i div 16 mod 16)"
    using assms by (intro nth_concat_uniform) auto
  finally show ?thesis by (simp add: div_mult2_eq [symmetric])
qed

lemma row_column: "16 * (i div 256) + i div 16 mod 16 = i div 16" for i :: nat
proof -
  have "i div 256 = i div 16 div 16" by (simp add: div_mult2_eq [symmetric])
  then show ?thesis by (simp only: mult_div_mod_eq)
qed

definition arm_block :: "nat \<Rightarrow> arm_instr list list" where
  "arm_block a = (if a = 0 then (arm_rows 0)[3 := (arm_rows 0 ! 3)[10 := ALU EOR_op REG_ROR_IMM True]] else arm_rows a)"

lemma ARMInstrTable_eq: "ARMInstrTable = concat (concat (map arm_block [0..<16]))"
proof -
  have "[0..<16] = [0, 1, 2, 3, 4, 5, 6, 7, 8, 9, 10, 11, 12, 13, 14, 15 :: nat]" by (simp add: upt_rec)
  then show ?thesis
    unfolding ARMInstrTable_def ARMInstrTable_block_0 ARMInstrTable_blocks by (simp add: arm_block_def)
qed

lemma arm_block_rows: "length (arm_block a) = 16 \<and> (\<forall>r \<in> set (arm_block a). length r = 16)"
  by (auto simp: arm_block_def arm_rows_def dest!: set_update_subset_insert [THEN subsetD])

lemma arm_block_nth:
  "b < 16 \<Longrightarrow> lo < 16 \<Longrightarrow> arm_block a ! b ! lo =
     (if a = 0 \<and> b = 3 \<and> lo = 10 then ALU EOR_op REG_ROR_IMM True else decode_arm a b lo)"
  by (auto simp: arm_block_def arm_rows_def nth_list_update)

lemma ARMInstrTable_nth:
  assumes "ic < 4096"
  shows "ARMInstrTable ! ic =
    (if ic = 0x03A then ALU EOR_op REG_ROR_IMM True else decode_arm (ic div 256) (ic div 16 mod 16) (ic mod 16))"
proof -
  have "ARMInstrTable ! ic = map arm_block [0..<16] ! (ic div 256) ! (ic div 16 mod 16) ! (ic mod 16)"
    unfolding ARMInstrTable_eq using assms arm_block_rows by (intro concat_blocks) auto
  also have "\<dots> = arm_block (ic div 256) ! (ic div 16 mod 16) ! (ic mod 16)" using assms by simp
  also have "\<dots> = (if ic div 256 = 0 \<and> ic div 16 mod 16 = 3 \<and> ic mod 16 = 10 then ALU EOR_op REG_ROR_IMM True
      else decode_arm (ic div 256) (ic div 16 mod 16) (ic mod 16))"
    by (rule arm_block_nth) simp_all
  also have "(ic div 256 = 0 \<and> ic div 16 mod 16 = 3 \<and> ic mod 16 = 10) = (ic = 0x03A)"
    using row_column [of ic] by auto presburger
  finally show ?thesis .
qed

text \<open>C13: every one of the 4096 entries of the ARM instruction table is the instruction that the fields of
  the encoding select, except the entry \<open>0x03A\<close>, an \<open>EORS\<close> with a logical shift right, where the table
  has the rotation.\<close>

theorem ARMInstrTable_decodes:
  assumes "ic < 4096"
  shows "ARMInstrTable ! ic =
    (if ic = 0x03A then ALU EOR_op REG_ROR_IMM True else decode_arm (ic div 256) (ic div 16 mod 16) (ic mod 16))"
  by (rule ARMInstrTable_nth [OF assms])

theorem ARMInstrTable_decodes_witness: "ARMInstrTable ! 0x035 = ALU EOR_op REG_ASR_REG True"
  using ARMInstrTable_decodes [of "0x035"] by (simp add: decode_arm_def data_processing_def shifted_register_def)

lemma THUMBInstrTable_eq: "THUMBInstrTable = concat (concat (map thumb_rows [0..<4]))"
proof -
  have "[0..<4] = [0, 1, 2, 3 :: nat]" by (simp add: upt_rec)
  then show ?thesis
    unfolding THUMBInstrTable_def THUMBInstrTable_block_0 THUMBInstrTable_block_1 THUMBInstrTable_block_2
      THUMBInstrTable_block_3 by simp
qed

text \<open>C14: every one of the 1024 entries of the THUMB instruction table is the instruction that the fields
  of the encoding select.\<close>

theorem THUMBInstrTable_decodes:
  assumes "ic < 1024"
  shows "THUMBInstrTable ! ic = decode_thumb (ic div 16) (ic mod 16)"
proof -
  have "THUMBInstrTable ! ic = map thumb_rows [0..<4] ! (ic div 256) ! (ic div 16 mod 16) ! (ic mod 16)"
    unfolding THUMBInstrTable_eq using assms by (intro concat_blocks) (auto simp: thumb_rows_def)
  also have "\<dots> = decode_thumb (16 * (ic div 256) + ic div 16 mod 16) (ic mod 16)"
    using assms by (simp add: thumb_rows_def)
  also have "16 * (ic div 256) + ic div 16 mod 16 = ic div 16" by (rule row_column)
  finally show ?thesis .
qed

theorem THUMBInstrTable_decodes_witness: "THUMBInstrTable ! 0x2D0 = tPUSH"
  using THUMBInstrTable_decodes [of "0x2D0"] by (simp add: decode_thumb_def)

section \<open>The wrong entry\<close>

lemma alu_instr_R:
  assumes "reg4 12 s \<noteq> 15" "is_logic op"
  shows "R (alu_instr op kind True env s) (reg4 12 s) =
    fst (alu_ref op (R s (reg4 16 s)) (fst (A_CALC_OP2 True kind env s)) False)"
proof -
  have r: "reg4 k (snd (A_CALC_OP2 b kind env s)) = reg4 k s" for k b by (rule reg4_cong) simp
  have indep: "alu_ref op a b c = alu_ref op a b False" for a b c
    using assms(2) by (cases op) (simp_all add: is_logic_def)
  have "reg4 12 (alu_cycles c env (ref_flags x y t)) = reg4 12 t" for c x y and t
    by (rule reg4_cong) (simp add: ref_flags_def split: option.splits)
  then show ?thesis
    using assms by (simp add: alu_instr_ref(1) case_prod_beta Let_def write_rd_S_def r indep [of _ _ "carry_in t" for t])
qed


end
