(* ===== verification/ArmExecute.thy ===== *)
theory ArmExecute
  imports ArmDecode
begin

text \<open>
  The interpreter loops \<^verbatim>\<open>ARMv5::Execute\<close> and \<^verbatim>\<open>ARMv4::Execute\<close> of \<^verbatim>\<open>src/src/ARM.cpp\<close> in the mode
  without JIT and GDB stub: fetch, decode and execute one instruction, take a pending interrupt,
  account for the cycles, until the processor halts or its target time is reached. The loop need not
  end (an instruction may take no cycles), so it is a partial function.
\<close>

section \<open>One instruction\<close>

definition arm_icode :: "u32 \<Rightarrow> nat" where
  "arm_icode i = unat ((shr i 4 AND 0xF) OR (shr i 16 AND 0xFF0))"

definition thumb_icode :: "u32 \<Rightarrow> nat" where
  "thumb_icode i = unat (shr i 6 AND 0x3FF)"

text \<open>\<open>CurInstr = NextInstr[0]; NextInstr[0] = NextInstr[1]\<close>\<close>

definition next_instr :: "'m arm \<Rightarrow> 'm arm" where
  "next_instr s = s\<lparr>CurInstr := NextInstr s 0, NextInstr := (NextInstr s)(0 := NextInstr s 1)\<rparr>"

definition step_thumb_9 :: "'m instr" where
  "step_thumb_9 env s =
     (let s = set_R 15 (R s 15 + 2) s;
          s = next_instr s;
          s = (if tst (R s 15) 0x2 then (set_Next 1 (shr (NextInstr s 1) 16, s))\<lparr>CodeCycles := 0\<rparr>
               else set_Next 1 (CodeRead32_9 env (R s 15) False s))
      in exec_thumb (THUMBInstrTable ! thumb_icode (CurInstr s)) env s)"

definition step_arm_9 :: "'m instr" where
  "step_arm_9 env s =
     (let s = set_R 15 (R s 15 + 4) s;
          s = next_instr s;
          s = set_Next 1 (CodeRead32_9 env (R s 15) False s)
      in if CheckCondition (unat (shr (CurInstr s) 28)) s
         then exec_arm (ARMInstrTable ! arm_icode (CurInstr s)) env s
         else if CurInstr s AND 0xFE000000 = 0xFA000000 then A_BLX_IMM env s
         else AddCycles_C env s)"

definition step_thumb_7 :: "'m instr" where
  "step_thumb_7 env s =
     (let s = set_R 15 (R s 15 + 2) s;
          s = next_instr s;
          s = set_Next 1 (CodeRead16_7 env (R s 15) s)
      in exec_thumb (THUMBInstrTable ! unat (shr (CurInstr s) 6)) env s)"

definition step_arm_7 :: "'m instr" where
  "step_arm_7 env s =
     (let s = set_R 15 (R s 15 + 4) s;
          s = next_instr s;
          s = set_Next 1 (CodeRead32_7 env (R s 15) s)
      in if CheckCondition (unat (shr (CurInstr s) 28)) s
         then exec_arm (ARMInstrTable ! arm_icode (CurInstr s)) env s
         else AddCycles_C env s)"

definition step_instr :: "'m instr" where
  "step_instr env s =
     (if Num s = 0 then if tst (CPSR s) 0x20 then step_thumb_9 env s else step_arm_9 env s
      else if tst (CPSR s) 0x20 then step_thumb_7 env s else step_arm_7 env s)"

section \<open>The loop\<close>

definition Timestamp :: "'m arm \<Rightarrow> u64" where
  "Timestamp s = (if Num s = 0 then ARM9Timestamp (fst (con s)) else ARM7Timestamp (fst (con s)))"

definition Target :: "'m arm \<Rightarrow> u64" where
  "Target s = (if Num s = 0 then ARM9Target (fst (con s)) else ARM7Target (fst (con s)))"

definition set_Timestamp :: "u64 \<Rightarrow> 'm arm \<Rightarrow> 'm arm" where
  "set_Timestamp t s =
     upd_con (\<lambda>(n, m). (if Num s = 0 then n\<lparr>ARM9Timestamp := t\<rparr> else n\<lparr>ARM7Timestamp := t\<rparr>, m)) s"

definition Halted :: "'m arm \<Rightarrow> u8" where
  "Halted s = ARM_Halted (fst (con s)) (Num s)"

definition set_Halted :: "u8 \<Rightarrow> 'm arm \<Rightarrow> 'm arm" where
  "set_Halted h s = upd_con (\<lambda>(n, m). (n\<lparr>ARM_Halted := (ARM_Halted n)(Num s := h)\<rparr>, m)) s"

definition IRQ_line :: "'m arm \<Rightarrow> u8" where
  "IRQ_line s = ARM_IRQ (fst (con s)) (Num s)"

text \<open>The body of the loop; the flag says that the loop is left by \<^verbatim>\<open>break\<close>.\<close>

definition execute_body :: "'m env \<Rightarrow> 'm arm \<Rightarrow> bool \<times> 'm arm" where
  "execute_body env s =
     (let s = step_instr env s in
      if Halted s \<noteq> 0 then
        (True, if Halted s = 1 \<and> Timestamp s < Target s then set_Timestamp (Target s) s else s)
      else
        let s = (if IRQ_line s \<noteq> 0 then TriggerIRQ env s else s);
            s = set_Timestamp (Timestamp s + scast (Cycles s)) s
        in (False, s\<lparr>Cycles := 0\<rparr>))"

partial_function (option) execute_loop :: "'m env \<Rightarrow> 'm arm \<Rightarrow> 'm arm option" where
  "execute_loop env s =
     (if Timestamp s < Target s then
        case execute_body env s of (stop, s) \<Rightarrow> if stop then Some s else execute_loop env s
      else Some s)"

definition execute_end :: "'m instr" where
  "execute_end env s =
     (let s = (if Halted s = 2 then set_Halted 0 s else s) in
      if Num s \<noteq> 0 \<and> Halted s = 4 then set_Halted 2 (upd_con (SoftReset env) s) else s)"

definition Execute :: "'m env \<Rightarrow> 'm arm \<Rightarrow> 'm arm option" where
  "Execute env s =
     (if Halted s \<noteq> 0 \<and> Halted s \<noteq> 2 \<and> \<not> HaltInterrupted (Num s) (fst (con s)) then
        Some (set_Timestamp (Target s) s)
      else
        let s = (if Halted s \<noteq> 0 then
                   if Halted s = 2 then set_Halted 0 s
                   else
                     let s = set_Halted 0 s
                     in if tst (IME (fst (con s)) (Num s)) 0x1 then TriggerIRQ env s else s
                 else s)
        in map_option (execute_end env) (execute_loop env s))"

end
