(* ===== verification/ArmLoadStoreSpec.thy ===== *)
theory ArmLoadStoreSpec
  imports ArmLoadStore ArmModes
begin

text \<open>
  What the loads and stores guarantee: the byte memories as stores of words (one locale, four
  interpretations), the round trip of \<open>PUSH\<close> and \<open>POP\<close> over a memory, reading back the tightly coupled
  memories of the ARM9, and what an aborted load leaves in its destination.
\<close>

section \<open>Stores of cells\<close>

locale cell_store =
  fixes get :: "'m \<Rightarrow> 'a \<Rightarrow> 'v" and put :: "'a \<Rightarrow> 'v \<Rightarrow> 'm \<Rightarrow> 'm" and cell :: "'a \<Rightarrow> bool"
  assumes get_put: "cell a \<Longrightarrow> cell b \<Longrightarrow> get (put a v m) b = (if a = b then v else get m b)"
begin

lemma get_put_all:
  "\<forall>(a, v) \<in> set avs. cell a \<Longrightarrow> cell b \<Longrightarrow> get (fold (\<lambda>(a, v). put a v) avs m) b =
     (case map_of (rev avs) b of Some v \<Rightarrow> v | None \<Rightarrow> get m b)"
proof (induction avs arbitrary: m)
  case (Cons av avs)
  obtain a v where av: "av = (a, v)" by (cases av)
  have "get (fold (\<lambda>(a, v). put a v) (av # avs) m) b = (case map_of (rev avs) b of Some v \<Rightarrow> v | None \<Rightarrow> get (put a v m) b)"
    using Cons.IH [of "put a v m"] Cons.prems by (simp add: av)
  also have "\<dots> = (case map_of (rev (av # avs)) b of Some v \<Rightarrow> v | None \<Rightarrow> get m b)"
    using Cons.prems get_put [of a b v m] by (auto simp: av map_add_def split: option.split)
  finally show ?case .
qed simp

lemma get_put_zip:
  assumes "distinct as" "length vs = length as" "\<forall>a \<in> set as. cell a" "k < length as"
  shows "get (fold (\<lambda>(a, v). put a v) (zip as vs) m) (as ! k) = vs ! k"
proof -
  have mem: "(as ! k, vs ! k) \<in> set (rev (zip as vs))" using assms by (auto simp: in_set_zip)
  have "distinct (map fst (rev (zip as vs)))" using assms by (simp add: rev_map [symmetric])
  from map_of_is_SomeI [OF this mem] show ?thesis
    using assms by (subst get_put_all) (auto dest: set_zip_leftD)
qed

end

interpretation byte_cells: cell_store "\<lambda>f a. f a" "\<lambda>a v f. f(a := v)" "\<lambda>_ :: nat. True"
  by unfold_locales simp

lemma bytes_of_word:
  "ucast (ucast v :: u8) OR shl (ucast (ucast (shr v 8) :: u8)) 8 OR shl (ucast (ucast (shr v 16) :: u8)) 16 OR
   shl (ucast (ucast (shr v 24) :: u8)) 24 = v" for v :: u32
proof (rule bit_word_eqI)
  fix n assume "n < LENGTH(32)"
  then consider "n < 8" | "8 \<le> n" "n < 16" | "16 \<le> n" "n < 24" | "24 \<le> n" "n < 32" by fastforce
  then show "bit (ucast (ucast v :: u8) OR shl (ucast (ucast (shr v 8) :: u8)) 8 OR shl (ucast (ucast (shr v 16) :: u8)) 16 OR
     shl (ucast (ucast (shr v 24) :: u8)) 24 :: u32) n = bit v n"
    by cases (auto simp: bit_or_iff bit_push_bit_iff bit_drop_bit_eq bit_ucast_iff)
qed

lemma bytes_of_half: "ucast (ucast v :: u8) OR shl (ucast (ucast (shr v 8) :: u8)) 8 = v" for v :: u16
  by (rule bit_word_eqI) (auto simp: bit_or_iff bit_push_bit_iff bit_drop_bit_eq bit_ucast_iff)

interpretation half_cells: cell_store get16 put16 "\<lambda>a. 2 dvd a"
proof unfold_locales
  fix a b :: nat and v m assume "2 dvd a" "2 dvd b"
  then have "a = b \<or> a + 2 \<le> b \<or> b + 2 \<le> a" by presburger
  then show "get16 (put16 a v m) b = (if a = b then v else get16 m b)"
    by (auto simp: get16_def put16_def bytes_of_half)
qed

interpretation word_cells: cell_store get32 put32 "\<lambda>a. 4 dvd a"
proof unfold_locales
  fix a b :: nat and v m assume "4 dvd a" "4 dvd b"
  then have "a = b \<or> a + 4 \<le> b \<or> b + 4 \<le> a" by presburger
  then show "get32 (put32 a v m) b = (if a = b then v else get32 m b)"
    by (auto simp: get32_def put32_def bytes_of_word)
qed


section \<open>Words of the flat memory\<close>

definition word_at :: "(u32 \<Rightarrow> u8) \<Rightarrow> u32 \<Rightarrow> u32" where
  "word_at m a = ucast (m a) OR shl (ucast (m (a + 1))) 8 OR shl (ucast (m (a + 2))) 16 OR shl (ucast (m (a + 3))) 24"

definition put_word :: "u32 \<Rightarrow> u32 \<Rightarrow> (u32 \<Rightarrow> u8) \<Rightarrow> u32 \<Rightarrow> u8" where
  "put_word a v m = m(a := ucast v, a + 1 := ucast (shr v 8), a + 2 := ucast (shr v 16), a + 3 := ucast (shr v 24))"

definition aligned :: "u32 \<Rightarrow> bool" where
  "aligned a \<longleftrightarrow> a AND 3 = 0"

lemma and_3: "a AND 3 = a mod 4" for a :: u32
proof -
  have "take_bit 2 a = a mod 2 ^ 2" by (rule take_bit_eq_mod)
  moreover have "take_bit 2 a = a AND 3" by (simp add: take_bit_eq_mask mask_eq_exp_minus_1)
  ultimately show ?thesis by simp
qed

lemma unat_mod4: "unat (a mod 4) = unat a mod 4" for a :: u32
  by (simp add: unat_mod)

lemma aligned_iff: "aligned a \<longleftrightarrow> 4 dvd unat a"
  unfolding aligned_def and_3 by (simp add: word_eq_unat unat_mod4 dvd_eq_mod_eq_0)

lemma aligned_offset:
  assumes "aligned a" "k < 4"
  shows "unat (a + word_of_nat k) = unat a + k"
proof -
  have "unat a + 4 \<le> 2 ^ 32"
  proof -
    obtain q where q: "unat a = 4 * q" using assms(1) by (auto simp: aligned_iff)
    then have "q < 2 ^ 30" using unat_bound [of a] by simp
    then show ?thesis using q by simp
  qed
  then have "unat a + k < 2 ^ 32" using assms(2) by simp
  then have "unat (word_of_nat (unat a + k) :: u32) = unat a + k" by (simp only: unsigned_of_nat) (simp add: take_bit_nat_eq_self)
  moreover have "word_of_nat (unat a + k) = a + word_of_nat k" by simp
  ultimately show ?thesis by (simp only:)
qed

interpretation flat_words: cell_store word_at put_word aligned
proof unfold_locales
  fix a b :: u32 and v m assume al: "aligned a" "aligned b"
  have off: "unat (a + 1) = unat a + 1" "unat (a + 2) = unat a + 2" "unat (a + 3) = unat a + 3"
    "unat (b + 1) = unat b + 1" "unat (b + 2) = unat b + 2" "unat (b + 3) = unat b + 3"
    using aligned_offset [OF al(1), of 1] aligned_offset [OF al(1), of 2] aligned_offset [OF al(1), of 3]
      aligned_offset [OF al(2), of 1] aligned_offset [OF al(2), of 2] aligned_offset [OF al(2), of 3] by simp_all
  show "word_at (put_word a v m) b = (if a = b then v else word_at m b)"
  proof (cases "a = b")
    case True
    then have "a \<noteq> a + 1 \<and> a \<noteq> a + 2 \<and> a \<noteq> a + 3 \<and> a + 1 \<noteq> a + 2 \<and> a + 1 \<noteq> a + 3 \<and> a + 2 \<noteq> a + 3"
      by simp
    then show ?thesis using True by (simp add: word_at_def put_word_def bytes_of_word)
  next
    case False
    have "unat a + 4 \<le> unat b \<or> unat b + 4 \<le> unat a"
      using al False unfolding aligned_iff word_eq_unat by presburger
    note far = this
    have "b + i \<noteq> a + j" if ij: "i \<in> {0, 1, 2, 3}" "j \<in> {0, 1, 2, 3}" for i j :: u32
    proof -
      have "unat (b + i) = unat b + unat i" "unat (a + j) = unat a + unat j" "unat i < 4" "unat j < 4"
        using ij off unfolding insert_iff empty_iff by (elim disjE; simp)+
      note offs = this
      show ?thesis
      proof
        assume "b + i = a + j"
        then have "unat b + unat i = unat a + unat j" using offs by simp
        then show False using far offs by linarith
      qed
    qed
    then have "put_word a v m (b + i) = m (b + i)" if "i \<in> {0, 1, 2, 3}" for i
      using that by (fastforce simp: put_word_def)
    from this [of 0] this [of 1] this [of 2] this [of 3] show ?thesis
      using False by (simp add: word_at_def)
  qed
qed

section \<open>Block transfers\<close>

text \<open>The addresses of the words of a block.\<close>

definition down4 :: "u32 \<Rightarrow> u32" where
  "down4 a = a AND NOT 3"

primrec slots :: "u32 \<Rightarrow> nat \<Rightarrow> u32 list" where
  "slots b 0 = []"
| "slots b (Suc n) = down4 b # slots (b + 4) n"

lemma take_bit_2: "take_bit 2 a = a AND 3" for a :: u32
  by (simp add: take_bit_eq_mask mask_eq_exp_minus_1)

lemma down4_minus: "down4 x = x - take_bit 2 x"
proof -
  have "(x AND 3) + (x AND NOT 3) = (x AND 3) OR (x AND NOT 3)"
    by (rule disjunctive_add) (simp only: bit_and_iff bit_not_iff, blast)
  also have "\<dots> = x" by (simp only: bit.conj_disj_distrib [symmetric] bit.disj_cancel_right bit.conj_one_right)
  finally show ?thesis unfolding down4_def take_bit_2 by (metis add_diff_cancel_left')
qed

lemma down4_add: "down4 (b + 4 * x) = down4 b + 4 * x"
proof -
  have r: "unat (b + 4 * x) = (unat b + (4 * unat x) mod 2 ^ 32) mod 2 ^ 32"
    by (simp add: unat_word_ariths)
  have d: "(4::nat) dvd 2 ^ 32" by simp
  have "unat (b + 4 * x) mod 4 = (unat b + (4 * unat x) mod 2 ^ 32) mod 4"
    unfolding r by (rule mod_mod_cancel [OF d])
  also have "\<dots> = (unat b + (4 * unat x) mod 2 ^ 32 mod 4) mod 4" by (rule mod_add_right_eq [symmetric])
  also have "(4 * unat x) mod 2 ^ 32 mod 4 = (4 * unat x) mod 4" by (rule mod_mod_cancel [OF d])
  also have "(unat b + (4 * unat x) mod 4) mod 4 = unat b mod 4" by simp
  finally have "take_bit 2 (b + 4 * x) = take_bit 2 b"
    unfolding take_bit_2 and_3 by (simp add: word_eq_unat unat_mod4)
  then show ?thesis by (simp add: down4_minus)
qed

lemma length_slots [simp]: "length (slots b n) = n"
  by (induction n arbitrary: b) simp_all

lemma nth_slots: "k < n \<Longrightarrow> slots b n ! k = down4 b + 4 * word_of_nat k"
  proof (induction n arbitrary: b k)
  case (Suc n)
  show ?case
  proof (cases k)
    case (Suc j)
    have "down4 (b + 4) = down4 b + 4" using down4_add [of b 1] by simp
    then show ?thesis using Suc.prems Suc.IH [of j "b + 4"] Suc by (simp add: algebra_simps)
  qed simp
qed simp

lemma aligned_down4 [simp]: "aligned (down4 a)"
  by (simp add: aligned_def down4_def and.assoc)

lemma aligned_slots: "a \<in> set (slots b n) \<Longrightarrow> aligned a"
  by (induction n arbitrary: b) auto

lemma distinct_slots: "n \<le> 16 \<Longrightarrow> distinct (slots b n)"
proof (unfold distinct_conv_nth, intro allI impI)
  fix i j assume n: "n \<le> 16" and ij: "i < length (slots b n)" "j < length (slots b n)" "i \<noteq> j"
  show "slots b n ! i \<noteq> slots b n ! j"
  proof
    assume "slots b n ! i = slots b n ! j"
    then have "4 * word_of_nat i = (4 * word_of_nat j :: u32)" using ij by (simp add: nth_slots)
    then have "unat (word_of_nat (4 * i) :: u32) = unat (word_of_nat (4 * j) :: u32)" by simp
    then show False using n ij by (simp only: unsigned_of_nat) (simp add: take_bit_nat_eq_self)
  qed
qed

definition mem :: "'m arm \<Rightarrow> 'm" where "mem s = snd (con s)"

lemma block_write_flat:
  assumes "Num s = 1"
  shows "mem (block_write flat_env first a v s) = put_word (down4 a) v (mem s)"
    "R (block_write flat_env first a v s) = R s" "Num (block_write flat_env first a v s) = 1"
    "CurInstr (block_write flat_env first a v s) = CurInstr s"
  using assms by (simp_all add: block_write_def DataWrite32_def DataWrite32S_def flat_env_def put_word_def mem_def down4_def
      Let_def case_prod_beta)

lemma block_read_flat:
  assumes "Num s = 1"
  shows "mem (snd (block_read flat_env first a s)) = mem s"
    "R (snd (block_read flat_env first a s)) = R s" "Num (snd (block_read flat_env first a s)) = 1"
    "CurInstr (snd (block_read flat_env first a s)) = CurInstr s"
    "fst (block_read flat_env first a s) = Some (word_at (mem s) (down4 a))"
  using assms by (simp_all add: block_read_def DataRead32_def DataRead32S_def flat_env_def word_at_def mem_def down4_def
      Let_def case_prod_beta)

lemma T_store_regs:
  fixes s :: "(u32 \<Rightarrow> u8) arm" and rs :: "nat list"
  assumes "Num s = 1"
  defines "fs \<equiv> filter (\<lambda>i. lists i s) rs"
  obtains first' s' where "fold (T_store_reg flat_env) rs (base, first, s) = (base + 4 * word_of_nat (length fs), first', s')"
    "mem s' = fold (\<lambda>(a, v). put_word a v) (zip (slots base (length fs)) (map (R s) fs)) (mem s)"
    "R s' = R s" "Num s' = 1" "CurInstr s' = CurInstr s"
proof -
  have "\<exists>first' s'. fold (T_store_reg flat_env) rs (base, first, s) = (base + 4 * word_of_nat (length fs), first', s') \<and>
    mem s' = fold (\<lambda>(a, v). put_word a v) (zip (slots base (length fs)) (map (R s) fs)) (mem s) \<and>
    R s' = R s \<and> Num s' = 1 \<and> CurInstr s' = CurInstr s"
    using assms(1) unfolding fs_def
  proof (induction rs arbitrary: base first s)
    case (Cons i rs)
    show ?case
    proof (cases "lists i s")
      case True
      define t where "t = block_write flat_env first base (R s i) s"
      note w = block_write_flat [OF Cons.prems, of first base "R s i", folded t_def]
      have l: "lists k t = lists k s" for k using w by (simp add: lists_def)
      show ?thesis using Cons.IH [OF w(3), of "base + 4" False] True w l
        by (simp add: T_store_reg_def t_def [symmetric] algebra_simps)
    next
      case False
      then show ?thesis using Cons.IH [OF Cons.prems, of base first] by (simp add: T_store_reg_def)
    qed
  qed simp
  then show ?thesis using that by blast
qed

lemma T_load_regs:
  fixes s :: "(u32 \<Rightarrow> u8) arm" and rs :: "nat list"
  assumes "Num s = 1" "distinct rs"
  defines "fs \<equiv> filter (\<lambda>i. lists i s) rs"
  obtains first' s' where "fold (T_load_reg flat_env) rs (base, first, s) = (base + 4 * word_of_nat (length fs), first', s')"
    "R s' = fold (\<lambda>(i, v) r. r(i := v)) (zip fs (map (word_at (mem s)) (slots base (length fs)))) (R s)"
    "mem s' = mem s" "Num s' = 1" "CurInstr s' = CurInstr s"
proof -
  have "\<exists>first' s'. fold (T_load_reg flat_env) rs (base, first, s) = (base + 4 * word_of_nat (length fs), first', s') \<and>
    R s' = fold (\<lambda>(i, v) r. r(i := v)) (zip fs (map (word_at (mem s)) (slots base (length fs)))) (R s) \<and>
    mem s' = mem s \<and> Num s' = 1 \<and> CurInstr s' = CurInstr s"
    using assms(1) unfolding fs_def
  proof (induction rs arbitrary: base first s)
    case (Cons i rs)
    show ?case
    proof (cases "lists i s")
      case True
      define t where "t = to_reg i (block_read flat_env first base s)"
      have t: "mem t = mem s" "R t = (R s)(i := word_at (mem s) (down4 base))" "Num t = 1" "CurInstr t = CurInstr s"
        using block_read_flat [OF Cons.prems, of first base]
        by (simp_all add: t_def to_reg_def case_prod_beta set_R_def mem_def)
      have l: "lists k t = lists k s" for k using t by (simp add: lists_def)
      show ?thesis using Cons.IH [OF t(3), of "base + 4" False] True t l
        by (simp add: T_load_reg_def t_def [symmetric] algebra_simps)
    next
      case False
      then show ?thesis using Cons.IH [OF Cons.prems, of base first] by (simp add: T_load_reg_def)
    qed
  qed simp
  then show ?thesis using that by blast
qed


lemma lists_bit: "lists i s = bit (CurInstr s) i"
  unfolding lists_def by (rule tst_shl1)

lemma bit_1FF: "i < 32 \<Longrightarrow> bit (0x1FF :: u32) i \<longleftrightarrow> i < 9"
  using bit_mask_iff [where 'a = "32 word", of 9 i] by (auto simp: mask_eq_exp_minus_1)

lemma mem_set_R [simp]: "mem (set_R i v s) = mem s"
  by (simp add: mem_def set_R_def)

lemma popcount_list: "popcount (CurInstr s AND 0x1FF) = length (filter (\<lambda>i. lists i s) [0..<9])"
proof -
  have "filter (bit (CurInstr s AND 0x1FF)) [0..<32] = filter (\<lambda>i. lists i s) (filter (\<lambda>i. i < 9) [0..<32])"
    unfolding filter_filter
  proof (intro filter_cong refl)
    fix i :: nat assume "i \<in> set [0..<32]"
    then have "bit (0x1FF :: u32) i \<longleftrightarrow> i < 9" by (intro bit_1FF) simp
    then show "bit (CurInstr s AND 0x1FF) i \<longleftrightarrow> i < 9 \<and> lists i s" by (simp only: bit_and_iff lists_bit conj_commute)
  qed
  moreover have "filter (\<lambda>i. i < 9) [0..<32] = [0..<9]" by (simp add: upt_rec)
  ultimately show ?thesis by (simp add: popcount_def)
qed

lemma cycles_keep_memory [simp]:
  "mem (AddCycles_CD env s) = mem s" "mem (AddCycles_CDI env s) = mem s"
  "R (AddCycles_CD env s) = R s" "R (AddCycles_CDI env s) = R s"
  by (simp_all add: AddCycles_CD_def AddCycles_CDI_def add_Cycles_def Let_def mem_def)

lemma regs_map_of:
  "distinct fs \<Longrightarrow> fold (\<lambda>(i, v) r. r(i := v)) (zip fs (map f fs)) r k = (if k \<in> set fs then f k else r k)"
proof (induction fs arbitrary: r)
  case (Cons i fs)
  then show ?case by auto
qed simp




section \<open>Tightly coupled memories\<close>

definition tcm_addr :: "u32 \<Rightarrow> 'm arm \<Rightarrow> bool" where
  "tcm_addr a s \<longleftrightarrow> down4 a < ITCMSize s \<or> in_DTCM (down4 a) s"

lemma and_mask_dvd4: "aligned a \<Longrightarrow> 4 dvd unat (a AND m)"
proof -
  assume "aligned a"
  then have "a AND 3 = 0" by (simp only: aligned_def)
  moreover have "(a AND m) AND 3 = (a AND 3) AND m" by (simp only: and.assoc and.commute [of m])
  ultimately show ?thesis unfolding aligned_iff [symmetric] aligned_def by (simp only: zero_and_eq)
qed

lemma tcm_cells: "4 dvd itcm_at (down4 a)" "4 dvd dtcm_at (down4 a)"
  unfolding itcm_at_def dtcm_at_def by (intro and_mask_dvd4 aligned_down4)+

text \<open>A word read from a tightly coupled memory of the ARM9 after a word was written there is the one
  written if both addresses lead to the same word of the same memory, whichever of its mirrors they lie in, and
  the old one otherwise; the instruction memory takes precedence where the windows overlap.\<close>

theorem TCM_read_after_write:
  assumes "may 2 a s" "may 1 b s" "tcm_addr a s" "tcm_addr b s"
  shows "fst (DataRead32_9 env b (DataWrite32_9 env a v s)) =
    Some (if down4 b < ITCMSize s
          then if down4 a < ITCMSize s \<and> itcm_at (down4 a) = itcm_at (down4 b) then v else get32 (ITCM s) (itcm_at (down4 b))
          else if \<not> down4 a < ITCMSize s \<and> dtcm_at (down4 a) = dtcm_at (down4 b) then v else get32 (DTCM s) (dtcm_at (down4 b)))"
proof -
  have pu: "may 1 b (DataWrite32_9 env a v s) = may 1 b s" "ITCMSize (DataWrite32_9 env a v s) = ITCMSize s"
    "in_DTCM x (DataWrite32_9 env a v s) = in_DTCM x s" for x
    using assms(1) by (simp_all add: DataWrite32_9_def Let_def upd_con_def may_def PU_Map_def in_DTCM_def)
  note rd = DataRead32_9_def [folded down4_def] and wr = DataWrite32_9_def [folded down4_def]
  show ?thesis
    using assms word_cells.get_put [OF tcm_cells(1) tcm_cells(1), of a v "ITCM s" b]
      word_cells.get_put [OF tcm_cells(2) tcm_cells(2), of a v "DTCM s" b]
    unfolding rd [of env b] pu Let_def
    by (cases "down4 a < ITCMSize s"; cases "down4 b < ITCMSize s")
      (auto simp: wr upd_con_def Let_def tcm_addr_def in_DTCM_def)
qed


theorem TCM_read_after_write_witness:
  "fst (DataRead32_9 flat_env 0x8100 (DataWrite32_9 flat_env 0x103 0xDEADBEEF ((blank_arm 0)\<lparr>ITCMSize := 0x10000\<rparr>))) =
   Some 0xDEADBEEF"
  using TCM_read_after_write [of "0x103" "(blank_arm 0)\<lparr>ITCMSize := 0x10000\<rparr>" "0x8100" flat_env "0xDEADBEEF"]
  by (simp add: may_def PU_Map_def tcm_addr_def down4_def itcm_at_def ITCMPhysicalSize_def)

section \<open>Aborted loads\<close>

lemma CurInstr_refill [simp]: "CurInstr (snd (refill_9 env addr s)) = CurInstr s"
  using core_eqD(13) [OF conjunct2 [OF refill_9_core [of env addr s]]] by (simp add: jumped_def)

lemma CurInstr_modes [simp]: "CurInstr (UpdateMode a b p s) = CurInstr s" "CurInstr (enter_abort s) = CurInstr s"
  by (simp_all add: UpdateMode_def enter_abort_def Let_def swap_bank_other)

lemma CurInstr_JumpTo_fuel: "CurInstr (JumpTo_fuel n env addr False s) = CurInstr s"
proof (induction n arbitrary: addr s)
  case (Suc n)
  then show ?case
    by (simp add: jump_restore_def case_prod_beta Let_def PrefetchAbort_with_def upd_con_def set_R_def)
qed simp

lemma CurInstr_JumpTo [simp]: "CurInstr (JumpTo env addr False s) = CurInstr s"
  using core_eqD(13) [OF JumpTo_7_core, of env addr s]
  by (simp add: JumpTo_def JumpTo_9_def CurInstr_JumpTo_fuel jumped_def)

lemma CurInstr_DataAbort [simp]: "CurInstr (DataAbort env s) = CurInstr s"
  by (simp add: DataAbort_def Let_def)

text \<open>C27: a load that the protection unit refuses enters the data abort exception and then still writes its
  destination: the register of the abort mode, the return address in register 14 for one, is replaced by an
  uninitialised local variable.\<close>

theorem LDR_aborted:
  assumes "Num s = 0" "\<not> may 1 (offset + R s (reg4 16 s)) s" "reg4 12 s \<noteq> 15" "\<not> tst (CurInstr s) (shl 1 21)"
  shows "R (A_LDR offset env s) = (R (DataAbort env s))
    (reg4 12 s := ROR (indet env) (unat (shl ((offset + R s (reg4 16 s)) AND 0x3) 3)))"
proof -
  have "to_local (indet env) (DataRead32 env (offset + R s (reg4 16 s)) s) = (indet env, DataAbort env s)"
    using assms(1,2) by (simp add: DataRead32_def DataRead32_9_def to_local_def)
  moreover have "reg4 12 (DataAbort env s) = reg4 12 s" by (simp add: reg4_def)
  ultimately show ?thesis using assms(3,4) 
    by (simp add: A_LDR_def Let_def writeback_def load_rd_def AddCycles_CDI_def add_Cycles_def reg4_def set_R_def)
qed

theorem LDR_aborted_witness:
  "R (A_LDR 0 (flat_env\<lparr>indet := 0xBAD\<rparr>)
     ((blank_arm 0)\<lparr>PU_PrivMap := (\<lambda>_. 0x06), CurInstr := 0xE590E000\<rparr>)) 14 = 0xBAD"
proof -
  define s where "s = (blank_arm 0)\<lparr>PU_PrivMap := (\<lambda>_. 0x06), CurInstr := 0xE590E000\<rparr>"
  have "Num s = 0" "\<not> may 1 (0 + R s (reg4 16 s)) s" "reg4 12 s = 14" "\<not> tst (CurInstr s) (shl 1 21)"
    by (simp_all add: s_def may_def PU_Map_def reg4_def blank_arm_def)
  then show ?thesis
    using LDR_aborted [of s 0 "flat_env\<lparr>indet := 0xBAD\<rparr>"] unfolding s_def [symmetric]
    by (simp add: ROR_def) (simp add: s_def)
qed

end
