(* ===== verification/ArmExecuteSpec.thy ===== *)
theory ArmExecuteSpec
  imports ArmExecute ArmLoadStoreSpec
begin

text \<open>
  Progress of the interpreter loop: a locale for program states in which every turn of the loop advances the
  time stamp, with the proof that the loop then returns, and its instance for the branch to itself.
\<close>

section \<open>Loops that make progress\<close>

locale progressing =
  fixes env :: "'m env" and ready :: "'m arm \<Rightarrow> bool" and step :: nat
  assumes progress: "ready s \<Longrightarrow> Timestamp s < Target s \<Longrightarrow>
    \<exists>s'. execute_body env s = (False, s') \<and> ready s' \<and> Target s' = Target s \<and>
      unat (Timestamp s) < unat (Timestamp s') \<and> unat (Timestamp s') \<le> unat (Timestamp s) + step"
begin

lemma loop_returns:
  assumes "ready s"
  shows "\<exists>t. execute_loop env s = Some t \<and> ready t \<and> Target t = Target s \<and> Target t \<le> Timestamp t \<and>
    (Timestamp s < Target s \<longrightarrow> unat (Timestamp t) < unat (Target t) + step)"
  using assms
proof (induction "unat (Target s) - unat (Timestamp s)" arbitrary: s rule: less_induct)
  case less
  show ?case
  proof (cases "Timestamp s < Target s")
    case True
    from progress [OF less.prems True] obtain s' where s':
      "execute_body env s = (False, s')" "ready s'" "Target s' = Target s"
      "unat (Timestamp s) < unat (Timestamp s')" "unat (Timestamp s') \<le> unat (Timestamp s) + step" by blast
    have lt: "unat (Timestamp s) < unat (Target s)" using True by (simp add: word_less_nat_alt)
    with s' have "unat (Target s') - unat (Timestamp s') < unat (Target s) - unat (Timestamp s)" by simp
    from less.hyps [OF this s'(2)] obtain t where t: "execute_loop env s' = Some t" "ready t" "Target t = Target s'"
      "Target t \<le> Timestamp t" "Timestamp s' < Target s' \<longrightarrow> unat (Timestamp t) < unat (Target t) + step" by blast
    have "unat (Timestamp t) < unat (Target t) + step"
    proof (cases "Timestamp s' < Target s'")
      case False
      then have "execute_loop env s' = Some s'" by (simp add: execute_loop.simps)
      then show ?thesis using t(1,3) s' lt by simp
    qed (use t in blast)
    then show ?thesis using True s'(1,3) t by (subst execute_loop.simps) simp
  next
    case False
    then show ?thesis using less.prems by (simp add: execute_loop.simps)
  qed
qed

end

section \<open>The idle loop of the ARM7\<close>

definition spinning :: "u32 \<Rightarrow> (u32 \<Rightarrow> u8) arm \<Rightarrow> bool" where
  "spinning a s \<longleftrightarrow> Num s = 1 \<and> \<not> tst (CPSR s) 0x20 \<and> NextInstr s 0 = 0xEAFFFFFE \<and> R s 15 = a + 4 \<and>
     a AND 3 = 0 \<and> fst (BusRead32 flat_env 1 a (con s)) = 0xEAFFFFFE \<and> Halted s = 0 \<and> IRQ_line s = 0 \<and>
     Cycles s = 0 \<and> unat (Target s) + 2 < 2 ^ 64"

lemma flat_reads [simp]: "snd (BusRead32 flat_env n x c) = c" "snd (BusRead16 flat_env n x c) = c"
  by (cases c, simp add: flat_env_def)+

lemma flat_timing [simp]: "timing_7 flat_env k s = 1"
  by (simp add: timing_7_def flat_env_def)

lemma JumpTo_7_arm:
  assumes "a AND 3 = 0" "Num s = 1"
  defines "t \<equiv> JumpTo_7 flat_env a False s"
  shows "Num t = 1" "R t 15 = a + 4" "NextInstr t 0 = fst (BusRead32 flat_env 1 a (con s))" "con t = con s"
    "Cycles t = Cycles s + 2" "\<not> tst (CPSR t) 0x20"
proof -
  have "a AND 1 = (a AND 3) AND 1" by (simp add: and.assoc)
  then have a1: "a AND 1 = 0" using assms(1) by simp
  have a3: "a AND NOT 3 = a"
  proof -
    have "down4 a = a" using assms(1) by (simp add: down4_minus take_bit_2)
    then show ?thesis by (simp add: down4_def)
  qed
  note d = t_def JumpTo_7_def jump_restore_def Let_def CodeRead32_7_def case_prod_beta set_Next_def add_Cycles_def set_R_def
  show "Num t = 1" "R t 15 = a + 4" "NextInstr t 0 = fst (BusRead32 flat_env 1 a (con s))" "con t = con s"
    "Cycles t = Cycles s + 2" "\<not> tst (CPSR t) 0x20"
    using a1 a3 assms(2) by (simp_all add: d and.assoc)
qed

lemma spin_step:
  assumes "spinning a s"
  defines "t \<equiv> step_instr flat_env s"
  shows "Num t = 1" "R t 15 = a + 4" "NextInstr t 0 = 0xEAFFFFFE" "con t = con s" "Cycles t = 2" "\<not> tst (CPSR t) 0x20"
proof -
  have icode: "arm_icode 0xEAFFFFFE = 0xAFF" by (simp add: arm_icode_def)
  have entry: "ARMInstrTable ! 0xAFF = MISC iB"
    using ARMInstrTable_nth [of "0xAFF"] by (simp add: decode_arm_def)
  have cond: "unat (shr 0xEAFFFFFE 28 :: u32) = 0xE" by simp
  note sp = assms(1) [unfolded spinning_def]
  define u where "u = set_Next 1 (CodeRead32_7 flat_env (a + 8) (next_instr (set_R 15 (a + 8) s)))"
  have pc: "R (next_instr (set_R 15 (a + 8) s)) 15 = a + 8" "R s 15 + 4 = a + 8"
    using sp by (simp_all add: next_instr_def set_R_def)
  have u: "Num u = 1" "R u 15 = a + 8" "CurInstr u = 0xEAFFFFFE" "con u = con s" "Cycles u = 0"
    using sp by (simp_all add: u_def next_instr_def set_R_def set_Next_def CodeRead32_7_def case_prod_beta)
  have "step_instr flat_env s = step_arm_7 flat_env s" using sp by (simp add: step_instr_def)
  also have "\<dots> = exec_arm (ARMInstrTable ! 0xAFF) flat_env u"
    unfolding step_arm_7_def Let_def pc u_def [symmetric] u(3) icode cond by (simp add: CheckCondition_def)
  also have "\<dots> = A_B flat_env u" by (simp add: entry exec_arm_def exec_misc_def)
  also have "\<dots> = JumpTo_7 flat_env a False u"
    unfolding A_B_def Let_def u(2,3) JumpTo_def u(1) by simp
  finally have t: "t = JumpTo_7 flat_env a False u" unfolding t_def .
  have "a AND 3 = 0" using sp by simp
  from JumpTo_7_arm [OF this u(1)] show "Num t = 1" "R t 15 = a + 4" "NextInstr t 0 = 0xEAFFFFFE" "con t = con s"
    "Cycles t = 2" "\<not> tst (CPSR t) 0x20"
    using sp unfolding t [symmetric] u by simp_all
qed

lemma flat_word_cong: "snd c = snd d \<Longrightarrow> fst (BusRead32 flat_env n x c) = fst (BusRead32 flat_env n x d)"
  by (cases c; cases d) (simp add: flat_env_def)

lemma con_status:
  assumes "con t = con s" "Num t = Num s"
  shows "Halted t = Halted s" "IRQ_line t = IRQ_line s" "Timestamp t = Timestamp s" "Target t = Target s"
  using assms by (simp_all add: Halted_def IRQ_line_def Timestamp_def Target_def)

lemma set_Timestamp_status:
  assumes "Num s = 1"
  shows "Halted (set_Timestamp x s) = Halted s" "IRQ_line (set_Timestamp x s) = IRQ_line s"
    "Timestamp (set_Timestamp x s) = x" "Target (set_Timestamp x s) = Target s" "snd (con (set_Timestamp x s)) = snd (con s)"
    "Num (set_Timestamp x s) = Num s" "CPSR (set_Timestamp x s) = CPSR s" "NextInstr (set_Timestamp x s) = NextInstr s"
    "R (set_Timestamp x s) = R s" "Cycles (set_Timestamp x s) = Cycles s"
  using assms by (simp_all add: set_Timestamp_def Halted_def IRQ_line_def Timestamp_def Target_def upd_con_def case_prod_beta)

lemma status_Cycles [simp]:
  "Halted (s\<lparr>Cycles := x\<rparr>) = Halted s" "IRQ_line (s\<lparr>Cycles := x\<rparr>) = IRQ_line s"
  "Timestamp (s\<lparr>Cycles := x\<rparr>) = Timestamp s" "Target (s\<lparr>Cycles := x\<rparr>) = Target s"
  by (simp_all add: Halted_def IRQ_line_def Timestamp_def Target_def)

lemma spin_body:
  assumes "spinning a s"
  obtains s' where "execute_body flat_env s = (False, s')" "spinning a s'" "Target s' = Target s"
    "Timestamp s' = Timestamp s + 2"
proof -
  define t where "t = step_instr flat_env s"
  note t = spin_step [OF assms, folded t_def] and sp = assms [unfolded spinning_def]
  have n: "Num t = Num s" using t(1) sp by simp
  note st = con_status [OF t(4) n] and ts = set_Timestamp_status [OF t(1)]
  define s' where "s' = (set_Timestamp (Timestamp s + 2) t)\<lparr>Cycles := 0\<rparr>"
  have "execute_body flat_env s = (False, s')"
    unfolding execute_body_def Let_def t_def [symmetric] using sp t(5) by (simp add: st s'_def)
  moreover have "fst (BusRead32 flat_env 1 a (con s')) = fst (BusRead32 flat_env 1 a (con s))"
    by (rule flat_word_cong) (simp add: s'_def ts t(4))
  then have "spinning a s'"
    using sp t st unfolding spinning_def by (simp add: s'_def ts)
  moreover have "Target s' = Target s" "Timestamp s' = Timestamp s + 2" by (simp_all add: s'_def ts st)
  ultimately show ?thesis using that by blast
qed

interpretation spin: progressing flat_env "spinning a" 2
proof
  fix s assume sp: "spinning a s" and lt: "Timestamp s < Target s"
  from spin_body [OF sp] obtain s' where s': "execute_body flat_env s = (False, s')" "spinning a s'" "Target s' = Target s"
    "Timestamp s' = Timestamp s + 2" .
  have "unat (Timestamp s) + 2 < 2 ^ 64" using sp lt by (simp add: spinning_def word_less_nat_alt)
  then have "unat (Timestamp s + 2) = unat (Timestamp s) + 2" by (simp add: unat_word_ariths)
  then show "\<exists>s'. execute_body flat_env s = (False, s') \<and> spinning a s' \<and> Target s' = Target s \<and>
      unat (Timestamp s) < unat (Timestamp s') \<and> unat (Timestamp s') \<le> unat (Timestamp s) + 2"
    using s' by auto
qed



end
