(* ===== verification/Dma.thy ===== *)
theory Dma
  imports Nds
begin

text \<open>
  The DMA controllers (\<^verbatim>\<open>src/src/DMA.h\<close>, \<^verbatim>\<open>DMA.cpp\<close>, the tables of \<^verbatim>\<open>DMA_Timings.cpp\<close>, and the
  registers and group operations in \<^verbatim>\<open>NDS.cpp\<close>): four channels for each processor, channel \<open>n\<close> of
  the ARM9 and \<open>n + 4\<close> of the ARM7. A transfer stops its processor, moves units while the time of the
  processor lasts, and wakes it up at the end.

  The bus is a parameter. A bus access may reach every device, the DMA registers included, so it acts on the
  channels and the console together; the transfer loop is a partial function for that reason.
\<close>

section \<open>State\<close>

record dma =
  SrcAddr :: u32
  DstAddr :: u32
  dma_Cnt :: u32
  dma_CPU :: nat
  dma_Num :: nat
  StartMode :: u32
  CurSrcAddr :: u32
  CurDstAddr :: u32
  RemCount :: u32
  IterCount :: u32
  SrcAddrInc :: s32
  DstAddrInc :: s32
  dma_Running :: u32
  InProgress :: bool
  Executing :: bool
  Stall :: bool
  IsGXFIFODMA :: bool
  MRAMBurstCount :: nat
  MRAMBurstTable :: "u8 list"

text \<open>The console with its channels; \<open>'m\<close> is what else there is on the buses.\<close>

record 'm dsys =
  DMAs :: "nat \<Rightarrow> dma"
  DMA9Fill :: "nat \<Rightarrow> u32"
  dcon :: nds
  dmem :: 'm

text \<open>The 16 and 32 bit accesses of \<^verbatim>\<open>NDS::ARM9Read16\<close> and so on, first argument the processor, and
  the tables of the memory regions and their timings.\<close>

record 'm dma_env =
  Read16 :: "nat \<Rightarrow> u32 \<Rightarrow> 'm dsys \<Rightarrow> u16 \<times> 'm dsys"
  Read32 :: "nat \<Rightarrow> u32 \<Rightarrow> 'm dsys \<Rightarrow> u32 \<times> 'm dsys"
  Write16 :: "nat \<Rightarrow> u32 \<Rightarrow> u16 \<Rightarrow> 'm dsys \<Rightarrow> 'm dsys"
  Write32 :: "nat \<Rightarrow> u32 \<Rightarrow> u32 \<Rightarrow> 'm dsys \<Rightarrow> 'm dsys"
  ARM9Regions :: "'m dsys \<Rightarrow> nat \<Rightarrow> u32"
  ARM7Regions :: "'m dsys \<Rightarrow> nat \<Rightarrow> u32"
  dma_ARM9MemTimings :: "'m dsys \<Rightarrow> nat \<Rightarrow> nat \<Rightarrow> u8"
  dma_ARM7MemTimings :: "'m dsys \<Rightarrow> nat \<Rightarrow> nat \<Rightarrow> u8"

definition upd_dma :: "nat \<Rightarrow> (dma \<Rightarrow> dma) \<Rightarrow> 'm dsys \<Rightarrow> 'm dsys" where
  "upd_dma n f s = s\<lparr>DMAs := (DMAs s)(n := f (DMAs s n))\<rparr>"

definition upd_nds :: "(nds \<Rightarrow> nds) \<Rightarrow> 'm dsys \<Rightarrow> 'm dsys" where
  "upd_nds f s = s\<lparr>dcon := f (dcon s)\<rparr>"

section \<open>Burst tables\<close>

text \<open>The arrays have 256 elements; the elements after the closing zero are zero too.\<close>

definition MRAMRead16Bursts_0 :: "u8 list" where
  "MRAMRead16Bursts_0 =
    [7, 3] @ replicate 117 2 @ [7, 3] @ replicate 117 2 @ [7, 3, 0]"

definition MRAMRead16Bursts_1 :: "u8 list" where
  "MRAMRead16Bursts_1 =
    [8, 6] @ replicate 94 5 @ [0]"

definition MRAMRead16Bursts_2 :: "u8 list" where
  "MRAMRead16Bursts_2 =
    [10, 8] @ replicate 32 7 @ [12, 8] @ replicate 32 7 @ [12, 8] @ replicate 32 7 @ [12, 8] @
    replicate 32 7 @ [12, 8] @ replicate 32 7 @ [12, 8] @ replicate 32 7 @ [12, 8] @ replicate 32 7 @
    [12, 8, 0]"

definition MRAMRead32Bursts_0 :: "u8 list" where
  "MRAMRead32Bursts_0 =
    [9, 4] @ replicate 77 3 @ [9, 0]"

definition MRAMRead32Bursts_1 :: "u8 list" where
  "MRAMRead32Bursts_1 =
    [9, 3] @ replicate 116 2 @ [0]"

definition MRAMRead32Bursts_2 :: "u8 list" where
  "MRAMRead32Bursts_2 =
    [14, 10] @ replicate 25 9 @ [13, 10] @ replicate 25 9 @ [13, 10] @ replicate 25 9 @ [13, 10] @
    replicate 25 9 @ [13, 10] @ replicate 25 9 @ [13, 0]"

definition MRAMRead32Bursts_3 :: "u8 list" where
  "MRAMRead32Bursts_3 =
    [18, 14] @ replicate 17 13 @ [17, 14] @ replicate 17 13 @ [17, 14] @ replicate 17 13 @ [17, 14] @
    replicate 17 13 @ [17, 14] @ replicate 17 13 @ [17, 0]"

definition MRAMWrite16Bursts_0 :: "u8 list" where
  "MRAMWrite16Bursts_0 =
    [8] @ replicate 119 2 @ [0]"

definition MRAMWrite16Bursts_1 :: "u8 list" where
  "MRAMWrite16Bursts_1 =
    [10] @ replicate 47 5 @ [0]"

definition MRAMWrite16Bursts_2 :: "u8 list" where
  "MRAMWrite16Bursts_2 =
    [9] @ replicate 34 7 @ [0]"

definition MRAMWrite32Bursts_0 :: "u8 list" where
  "MRAMWrite32Bursts_0 =
    [9] @ replicate 59 4 @ [0]"

definition MRAMWrite32Bursts_1 :: "u8 list" where
  "MRAMWrite32Bursts_1 =
    [9] @ replicate 79 3 @ [0]"

definition MRAMWrite32Bursts_2 :: "u8 list" where
  "MRAMWrite32Bursts_2 =
    [15] @ replicate 23 10 @ [0]"

definition MRAMWrite32Bursts_3 :: "u8 list" where
  "MRAMWrite32Bursts_3 =
    [16] @ replicate 17 14 @ [0]"

definition MRAMDummy :: "u8 list" where
  "MRAMDummy = []"

definition table_at :: "u8 list \<Rightarrow> nat \<Rightarrow> u8" where
  "table_at t i = (if i < length t then t ! i else 0)"

definition IRQ_DMA0 :: nat where "IRQ_DMA0 = 8"

section \<open>Registers and start\<close>

definition dma_new :: "nat \<Rightarrow> nat \<Rightarrow> dma" where
  "dma_new cpu num = \<lparr>SrcAddr = 0, DstAddr = 0, dma_Cnt = 0, dma_CPU = cpu, dma_Num = num, StartMode = 0,
     CurSrcAddr = 0, CurDstAddr = 0, RemCount = 0, IterCount = 0, SrcAddrInc = 0, DstAddrInc = 0, dma_Running = 0,
     InProgress = False, Executing = False, Stall = False, IsGXFIFODMA = False, MRAMBurstCount = 0,
     MRAMBurstTable = MRAMDummy\<rparr>"

definition DMA_Reset :: "dma \<Rightarrow> dma" where
  "DMA_Reset d = d\<lparr>SrcAddr := 0, DstAddr := 0, dma_Cnt := 0, StartMode := 0, CurSrcAddr := 0, CurDstAddr := 0,
     RemCount := 0, IterCount := 0, SrcAddrInc := 0, DstAddrInc := 0, Stall := False, dma_Running := 0,
     Executing := False, InProgress := False, MRAMBurstCount := 0, MRAMBurstTable := MRAMDummy\<rparr>"

definition countmask :: "dma \<Rightarrow> u32" where
  "countmask d = (if dma_CPU d = 0 then 0x001FFFFF else if dma_Num d = 3 then 0x0000FFFF else 0x00003FFF)"

text \<open>The steps of \<^verbatim>\<open>DMA::Start\<close> on the channel: the units of the transfer, those of the next
  block, the reload of the addresses.\<close>

definition load_count :: "dma \<Rightarrow> dma" where
  "load_count d =
     (if \<not> InProgress d then
        let rem = dma_Cnt d AND countmask d in d\<lparr>RemCount := if rem = 0 then countmask d + 1 else rem\<rparr>
      else d)"

definition load_block :: "dma \<Rightarrow> dma" where
  "load_block d =
     (if StartMode d = 0x07 \<and> RemCount d > 112 then d\<lparr>IterCount := 112\<rparr> else d\<lparr>IterCount := RemCount d\<rparr>)"

definition reload :: "dma \<Rightarrow> dma" where
  "reload d =
     (let d = (if dma_Cnt d AND 0x01800000 = 0x01800000 then d\<lparr>CurSrcAddr := SrcAddr d\<rparr> else d)
      in if dma_Cnt d AND 0x00600000 = 0x00600000 then d\<lparr>CurDstAddr := DstAddr d\<rparr> else d)"

definition start_channel :: "dma \<Rightarrow> dma" where
  "start_channel d =
     (let d = reload (load_block (load_count d));
          d = d\<lparr>IsGXFIFODMA := (dma_CPU d = 0 \<and> shr (CurSrcAddr d) 24 = 0x02 \<and> CurDstAddr d = 0x04000400 \<and>
                 DstAddrInc d = 0)\<rparr>
      in d\<lparr>dma_Running := 2, MRAMBurstTable := MRAMDummy, InProgress := True\<rparr>)"

definition DMA_Start :: "nat \<Rightarrow> 'm dsys \<Rightarrow> 'm dsys" where
  "DMA_Start n s =
     (if dma_Running (DMAs s n) \<noteq> 0 then s
      else
        let s = upd_dma n start_channel s; d = DMAs s n
        in upd_nds (StopCPU (dma_CPU d) (shl 1 (dma_Num d))) s)"

definition IsInMode :: "u32 \<Rightarrow> dma \<Rightarrow> bool" where
  "IsInMode mode d \<longleftrightarrow> mode = StartMode d \<and> tst (dma_Cnt d) 0x80000000"

definition IsRunning :: "dma \<Rightarrow> bool" where
  "IsRunning d \<longleftrightarrow> dma_Running d \<noteq> 0"

definition StartIfNeeded :: "u32 \<Rightarrow> nat \<Rightarrow> 'm dsys \<Rightarrow> 'm dsys" where
  "StartIfNeeded mode n s =
     (if mode = StartMode (DMAs s n) \<and> tst (dma_Cnt (DMAs s n)) 0x80000000 then DMA_Start n s else s)"

definition StopIfNeeded :: "u32 \<Rightarrow> nat \<Rightarrow> 'm dsys \<Rightarrow> 'm dsys" where
  "StopIfNeeded mode n s =
     (if mode = StartMode (DMAs s n) then upd_dma n (\<lambda>d. d\<lparr>dma_Cnt := dma_Cnt d AND NOT 0x80000000\<rparr>) s else s)"

definition StallIfRunning :: "dma \<Rightarrow> dma" where
  "StallIfRunning d = (if Executing d then d\<lparr>Stall := True\<rparr> else d)"

section \<open>All channels of a processor\<close>

definition chans :: "nat \<Rightarrow> nat list" where
  "chans cpu = (let cpu = cpu * 4 in [cpu + 0, cpu + 1, cpu + 2, cpu + 3])"

definition DMAsInMode :: "nat \<Rightarrow> u32 \<Rightarrow> 'm dsys \<Rightarrow> bool" where
  "DMAsInMode cpu mode s = list_ex (\<lambda>n. IsInMode mode (DMAs s n)) (chans cpu)"

definition DMAsRunning :: "nat \<Rightarrow> 'm dsys \<Rightarrow> bool" where
  "DMAsRunning cpu s = list_ex (\<lambda>n. IsRunning (DMAs s n)) (chans cpu)"

definition CheckDMAs :: "nat \<Rightarrow> u32 \<Rightarrow> 'm dsys \<Rightarrow> 'm dsys" where
  "CheckDMAs cpu mode = fold (StartIfNeeded mode) (chans cpu)"

definition StopDMAs :: "nat \<Rightarrow> u32 \<Rightarrow> 'm dsys \<Rightarrow> 'm dsys" where
  "StopDMAs cpu mode = fold (StopIfNeeded mode) (chans cpu)"

text \<open>\<^verbatim>\<open>GPU3D::CheckFIFODMA\<close>, and \<^verbatim>\<open>NDS::GXFIFOStall\<close> of a console that is not a DSi.\<close>

definition CheckFIFODMA :: "'m dsys \<Rightarrow> 'm dsys" where
  "CheckFIFODMA s = (if CmdFIFO_Level (dcon s) < 128 then CheckDMAs 0 0x07 s else s)"

definition GXFIFOStall :: "'m dsys \<Rightarrow> 'm dsys" where
  "GXFIFOStall s =
     (if tst (CPUStop (dcon s)) CPUStop_GXStall then s
      else
        let s = upd_nds (\<lambda>c. c\<lparr>CPUStop := CPUStop c OR CPUStop_GXStall\<rparr>) s
        in if CurCPU (dcon s) = 1 then upd_nds (ARM_Halt 0 2) s
           else fold (\<lambda>n. upd_dma n StallIfRunning) (chans 0) s)"

definition start_mode :: "dma \<Rightarrow> u32" where
  "start_mode d = (if dma_CPU d = 0 then shr (dma_Cnt d) 27 AND 0x7 else (shr (dma_Cnt d) 28 AND 0x3) OR 0x10)"

definition dst_inc :: "u32 \<Rightarrow> s32" where
  "dst_inc cnt = (let m = cnt AND 0x00600000 in
     if m = 0x00000000 then 1 else if m = 0x00200000 then -1 else if m = 0x00400000 then 0 else 1)"

definition src_inc :: "u32 \<Rightarrow> s32" where
  "src_inc cnt = (let m = cnt AND 0x01800000 in
     if m = 0x00000000 then 1 else if m = 0x00800000 then -1 else if m = 0x01000000 then 0 else 1)"

definition WriteCnt :: "u32 \<Rightarrow> nat \<Rightarrow> 'm dsys \<Rightarrow> 'm dsys" where
  "WriteCnt val n s =
     (let oldcnt = dma_Cnt (DMAs s n);
          s = upd_dma n (\<lambda>d. d\<lparr>dma_Cnt := val\<rparr>) s
      in if \<not> tst oldcnt 0x80000000 \<and> tst val 0x80000000 then
           let s = upd_dma n (\<lambda>d. d\<lparr>CurSrcAddr := SrcAddr d, CurDstAddr := DstAddr d, DstAddrInc := dst_inc (dma_Cnt d),
                     SrcAddrInc := src_inc (dma_Cnt d), StartMode := start_mode d\<rparr>) s;
               mode = StartMode (DMAs s n)
           in if mode AND 0x7 = 0 then DMA_Start n s
              else if mode = 0x07 then CheckFIFODMA s
              else s
         else s)"

section \<open>The registers\<close>

text \<open>The cases of \<^verbatim>\<open>ARM9IORead32\<close> and its relatives: address, channel, and register (0 source, 1
  destination, 2 control) or half of the control register. The channels of the ARM7 are at the same
  addresses.\<close>

definition dma_ports32 :: "(u32 \<times> nat \<times> nat) list" where
  "dma_ports32 =
     [(0x040000B0, 0, 0), (0x040000B4, 0, 1), (0x040000B8, 0, 2), (0x040000BC, 1, 0), (0x040000C0, 1, 1), (0x040000C4, 1, 2),
      (0x040000C8, 2, 0), (0x040000CC, 2, 1), (0x040000D0, 2, 2), (0x040000D4, 3, 0), (0x040000D8, 3, 1), (0x040000DC, 3, 2)]"

definition dma_ports16 :: "(u32 \<times> nat \<times> nat) list" where
  "dma_ports16 =
     [(0x040000B8, 0, 0), (0x040000BA, 0, 1), (0x040000C4, 1, 0), (0x040000C6, 1, 1),
      (0x040000D0, 2, 0), (0x040000D2, 2, 1), (0x040000DC, 3, 0), (0x040000DE, 3, 1)]"

definition dma_reg :: "nat \<Rightarrow> dma \<Rightarrow> u32" where
  "dma_reg r d = (if r = 0 then SrcAddr d else if r = 1 then DstAddr d else dma_Cnt d)"

definition read_dma32 :: "nat \<Rightarrow> u32 \<Rightarrow> 'm dsys \<Rightarrow> u32 option" where
  "read_dma32 cpu addr s = map_option (\<lambda>(n, r). dma_reg r (DMAs s (4 * cpu + n))) (map_of dma_ports32 addr)"

definition read_dma16 :: "nat \<Rightarrow> u32 \<Rightarrow> 'm dsys \<Rightarrow> u16 option" where
  "read_dma16 cpu addr s = map_option (\<lambda>(n, h). let c = dma_Cnt (DMAs s (4 * cpu + n))
     in if h = 0 then ucast (c AND 0xFFFF) else ucast (shr c 16)) (map_of dma_ports16 addr)"

definition write_dma32 :: "nat \<Rightarrow> u32 \<Rightarrow> u32 \<Rightarrow> 'm dsys \<Rightarrow> 'm dsys option" where
  "write_dma32 cpu addr val s = map_option (\<lambda>(n, r). let n = 4 * cpu + n in
       if r = 0 then upd_dma n (\<lambda>d. d\<lparr>SrcAddr := val\<rparr>) s
       else if r = 1 then upd_dma n (\<lambda>d. d\<lparr>DstAddr := val\<rparr>) s
       else WriteCnt val n s) (map_of dma_ports32 addr)"

definition write_dma16 :: "nat \<Rightarrow> u32 \<Rightarrow> u16 \<Rightarrow> 'm dsys \<Rightarrow> 'm dsys option" where
  "write_dma16 cpu addr val s = map_option (\<lambda>(n, h). let n = 4 * cpu + n; c = dma_Cnt (DMAs s n) in
       if h = 0 then WriteCnt ((c AND 0xFFFF0000) OR ucast val) n s
       else WriteCnt ((c AND 0x0000FFFF) OR shl (ucast val) 16) n s) (map_of dma_ports16 addr)"

text \<open>The fill registers of the ARM9, at \<^verbatim>\<open>0x040000E0\<close>.\<close>

definition fill_port :: "u32 \<Rightarrow> u32 \<Rightarrow> nat option" where
  "fill_port w addr =
     (if 0x040000E0 \<le> addr \<and> addr < 0x040000F0 \<and> addr AND (w - 1) = 0 then Some (unat (shr (addr - 0x040000E0) 2)) else None)"

definition read_fill32 :: "u32 \<Rightarrow> 'm dsys \<Rightarrow> u32 option" where
  "read_fill32 addr s = map_option (DMA9Fill s) (fill_port 4 addr)"

definition read_fill16 :: "u32 \<Rightarrow> 'm dsys \<Rightarrow> u16 option" where
  "read_fill16 addr s =
     map_option (\<lambda>k. if tst addr 2 then ucast (shr (DMA9Fill s k) 16) else ucast (DMA9Fill s k)) (fill_port 2 addr)"

definition write_fill32 :: "u32 \<Rightarrow> u32 \<Rightarrow> 'm dsys \<Rightarrow> 'm dsys option" where
  "write_fill32 addr val s = map_option (\<lambda>k. s\<lparr>DMA9Fill := (DMA9Fill s)(k := val)\<rparr>) (fill_port 4 addr)"

definition write_fill16 :: "u32 \<Rightarrow> u16 \<Rightarrow> 'm dsys \<Rightarrow> 'm dsys option" where
  "write_fill16 addr val s = map_option (\<lambda>k. s\<lparr>DMA9Fill := (DMA9Fill s)(k :=
     if tst addr 2 then (DMA9Fill s k AND 0x0000FFFF) OR shl (ucast val) 16
     else (DMA9Fill s k AND 0xFFFF0000) OR ucast val)\<rparr>) (fill_port 2 addr)"

section \<open>Time of one unit\<close>

text \<open>The next time of a burst; \<open>tbl\<close> is the table of a burst that begins here.\<close>

definition burst_time :: "bool \<Rightarrow> u8 list \<Rightarrow> dma \<Rightarrow> u32 \<times> dma" where
  "burst_time burststart tbl d =
     (let d = (if burststart \<or> table_at (MRAMBurstTable d) (MRAMBurstCount d) = 0
               then d\<lparr>MRAMBurstCount := 0, MRAMBurstTable := tbl\<rparr> else d)
      in (ucast (table_at (MRAMBurstTable d) (MRAMBurstCount d)), d\<lparr>MRAMBurstCount := MRAMBurstCount d + 1\<rparr>))"

text \<open>The functions have one shape; they differ in the numbers of the regions, in the units that count as
  slow devices, and in the constants of the two widths. \<open>sn\<close>, \<open>ss\<close>, \<open>dn\<close>, \<open>ds\<close> are the first and
  the following access times of source and destination.\<close>

definition Mem9_MainRAM :: u32 where "Mem9_MainRAM = 0x8"
definition Mem9_GBAROM :: u32 where "Mem9_GBAROM = 0x20000"
definition Mem7_MainRAM :: u32 where "Mem7_MainRAM = 0x2"
definition Mem7_Wifi0 :: u32 where "Mem7_Wifi0 = 0x10"
definition Mem7_Wifi1 :: u32 where "Mem7_Wifi1 = 0x20"
definition Mem7_GBAROM :: u32 where "Mem7_GBAROM = 0x100"

lemmas dma_regions = Mem9_MainRAM_def Mem9_GBAROM_def Mem7_MainRAM_def Mem7_Wifi0_def Mem7_Wifi1_def Mem7_GBAROM_def

definition unit_16 :: "u32 \<Rightarrow> (u32 \<Rightarrow> bool) \<Rightarrow> u32 \<Rightarrow> u32 \<Rightarrow> u32 \<times> u32 \<times> u32 \<times> u32 \<Rightarrow> bool \<Rightarrow> dma \<Rightarrow> u32 \<times> dma" where
  "unit_16 ram slow src_rgn dst_rgn ts burststart d =
     (let (sn, ss, dn, ds) = ts in
      if src_rgn = ram then
        if dst_rgn = ram then (16, d)
        else if 0 <s SrcAddrInc d then
          burst_time burststart
            (if slow dst_rgn then if ds = 4 then MRAMRead16Bursts_1 else MRAMRead16Bursts_2 else MRAMRead16Bursts_0) d
        else ((if CurSrcAddr d AND 0x1F = 0x1E then 7 else 8) + (if burststart then dn else ds), d)
      else if dst_rgn = ram then
        if 0 <s DstAddrInc d then
          burst_time burststart
            (if slow src_rgn then if ss = 4 then MRAMWrite16Bursts_1 else MRAMWrite16Bursts_2 else MRAMWrite16Bursts_0) d
        else ((if burststart then sn else ss) + 7, d)
      else if tst src_rgn dst_rgn then (sn + dn + 1, d)
      else if burststart then (sn + dn, d)
      else (ss + ds, d))"

definition unit_32 :: "u32 \<Rightarrow> (u32 \<Rightarrow> bool) \<Rightarrow> u32 \<Rightarrow> u32 \<Rightarrow> u32 \<times> u32 \<times> u32 \<times> u32 \<Rightarrow> bool \<Rightarrow> dma \<Rightarrow> u32 \<times> dma" where
  "unit_32 ram slow src_rgn dst_rgn ts burststart d =
     (let (sn, ss, dn, ds) = ts in
      if src_rgn = ram then
        if dst_rgn = ram then (18, d)
        else if 0 <s SrcAddrInc d then
          burst_time burststart
            (if slow dst_rgn then if ds = 8 then MRAMRead32Bursts_2 else MRAMRead32Bursts_3
             else if dn = 2 then MRAMRead32Bursts_0 else MRAMRead32Bursts_1) d
        else ((if CurSrcAddr d AND 0x1F = 0x1C then if dn = 2 then 7 else 8 else 9) + (if burststart then dn else ds), d)
      else if dst_rgn = ram then
        if 0 <s DstAddrInc d then
          burst_time burststart
            (if slow src_rgn then if ss = 8 then MRAMWrite32Bursts_2 else MRAMWrite32Bursts_3
             else if sn = 2 then MRAMWrite32Bursts_0 else MRAMWrite32Bursts_1) d
        else ((if burststart then sn else ss) + 8, d)
      else if tst src_rgn dst_rgn then (sn + dn + 1, d)
      else if burststart then (sn + dn, d)
      else (ss + ds, d))"

definition unit_times :: "(nat \<Rightarrow> nat \<Rightarrow> u8) \<Rightarrow> nat \<Rightarrow> nat \<Rightarrow> nat \<Rightarrow> u32 \<times> u32 \<times> u32 \<times> u32" where
  "unit_times timings src_id dst_id k =
     (ucast (timings src_id k), ucast (timings src_id (k + 1)), ucast (timings dst_id k), ucast (timings dst_id (k + 1)))"

definition slow9 :: "u32 \<Rightarrow> bool" where "slow9 rgn \<longleftrightarrow> rgn = Mem9_GBAROM"
definition slow7 :: "u32 \<Rightarrow> bool" where "slow7 rgn \<longleftrightarrow> rgn = Mem7_GBAROM \<or> rgn = Mem7_Wifi0 \<or> rgn = Mem7_Wifi1"

definition UnitTimings9_16 :: "'m dma_env \<Rightarrow> bool \<Rightarrow> 'm dsys \<Rightarrow> dma \<Rightarrow> u32 \<times> dma" where
  "UnitTimings9_16 env burststart s d =
     (let src_id = unat (shr (CurSrcAddr d) 14); dst_id = unat (shr (CurDstAddr d) 14)
      in unit_16 Mem9_MainRAM slow9 (ARM9Regions env s src_id) (ARM9Regions env s dst_id)
           (unit_times (dma_ARM9MemTimings env s) src_id dst_id 4) burststart d)"

definition UnitTimings9_32 :: "'m dma_env \<Rightarrow> bool \<Rightarrow> 'm dsys \<Rightarrow> dma \<Rightarrow> u32 \<times> dma" where
  "UnitTimings9_32 env burststart s d =
     (let src_id = unat (shr (CurSrcAddr d) 14); dst_id = unat (shr (CurDstAddr d) 14)
      in unit_32 Mem9_MainRAM slow9 (ARM9Regions env s src_id) (ARM9Regions env s dst_id)
           (unit_times (dma_ARM9MemTimings env s) src_id dst_id 6) burststart d)"

definition UnitTimings7_16 :: "'m dma_env \<Rightarrow> bool \<Rightarrow> 'm dsys \<Rightarrow> dma \<Rightarrow> u32 \<times> dma" where
  "UnitTimings7_16 env burststart s d =
     (let src_id = unat (shr (CurSrcAddr d) 15); dst_id = unat (shr (CurDstAddr d) 15)
      in unit_16 Mem7_MainRAM slow7 (ARM7Regions env s src_id) (ARM7Regions env s dst_id)
           (unit_times (dma_ARM7MemTimings env s) src_id dst_id 0) burststart d)"

definition UnitTimings7_32 :: "'m dma_env \<Rightarrow> bool \<Rightarrow> 'm dsys \<Rightarrow> dma \<Rightarrow> u32 \<times> dma" where
  "UnitTimings7_32 env burststart s d =
     (let src_id = unat (shr (CurSrcAddr d) 15); dst_id = unat (shr (CurDstAddr d) 15)
      in unit_32 Mem7_MainRAM slow7 (ARM7Regions env s src_id) (ARM7Regions env s dst_id)
           (unit_times (dma_ARM7MemTimings env s) src_id dst_id 2) burststart d)"

section \<open>Transfers\<close>

text \<open>One unit on the bus of processor \<open>cpu\<close>, of 32 bits when \<open>wide\<close>.\<close>

definition unit_timings :: "'m dma_env \<Rightarrow> nat \<Rightarrow> bool \<Rightarrow> bool \<Rightarrow> 'm dsys \<Rightarrow> dma \<Rightarrow> u32 \<times> dma" where
  "unit_timings env cpu wide =
     (if cpu = 0 then if wide then UnitTimings9_32 env else UnitTimings9_16 env
      else if wide then UnitTimings7_32 env else UnitTimings7_16 env)"

definition dma_time :: "nat \<Rightarrow> nds \<Rightarrow> u64" where
  "dma_time cpu c = (if cpu = 0 then ARM9Timestamp c else ARM7Timestamp c)"

definition dma_target :: "nat \<Rightarrow> nds \<Rightarrow> u64" where
  "dma_target cpu c = (if cpu = 0 then ARM9Target c else ARM7Target c)"

definition dma_advance :: "nat \<Rightarrow> u32 \<Rightarrow> nds \<Rightarrow> nds" where
  "dma_advance cpu t c =
     (if cpu = 0 then c\<lparr>ARM9Timestamp := ARM9Timestamp c + ucast (shl t (ARM9ClockShift c))\<rparr>
      else c\<lparr>ARM7Timestamp := ARM7Timestamp c + ucast t\<rparr>)"

definition bus_copy :: "'m dma_env \<Rightarrow> nat \<Rightarrow> bool \<Rightarrow> nat \<Rightarrow> 'm dsys \<Rightarrow> 'm dsys" where
  "bus_copy env cpu wide n s =
     (if wide then
        let (v, s) = Read32 env cpu (CurSrcAddr (DMAs s n)) s in Write32 env cpu (CurDstAddr (DMAs s n)) v s
      else
        let (v, s) = Read16 env cpu (CurSrcAddr (DMAs s n)) s in Write16 env cpu (CurDstAddr (DMAs s n)) v s)"

definition next_unit :: "bool \<Rightarrow> dma \<Rightarrow> dma" where
  "next_unit wide d =
     (let k = (if wide then 2 else 1) in
      d\<lparr>CurSrcAddr := CurSrcAddr d + shl (SrcAddrInc d) k, CurDstAddr := CurDstAddr d + shl (DstAddrInc d) k,
        IterCount := IterCount d - 1, RemCount := RemCount d - 1\<rparr>)"

definition transfer_unit :: "'m dma_env \<Rightarrow> nat \<Rightarrow> bool \<Rightarrow> nat \<Rightarrow> bool \<Rightarrow> 'm dsys \<Rightarrow> 'm dsys" where
  "transfer_unit env cpu wide n burststart s =
     (let (t, d) = unit_timings env cpu wide burststart s (DMAs s n);
          s = upd_nds (dma_advance cpu t) (upd_dma n (\<lambda>_. d) s)
      in upd_dma n (next_unit wide) (bus_copy env cpu wide n s))"

partial_function (option) transfer_loop ::
    "'m dma_env \<Rightarrow> nat \<Rightarrow> bool \<Rightarrow> nat \<Rightarrow> bool \<Rightarrow> 'm dsys \<Rightarrow> 'm dsys option" where
  "transfer_loop env cpu wide n burststart s =
     (if 0 < IterCount (DMAs s n) \<and> \<not> Stall (DMAs s n) then
        let s = transfer_unit env cpu wide n burststart s
        in if dma_target cpu (dcon s) \<le> dma_time cpu (dcon s) then Some s else transfer_loop env cpu wide n False s
      else Some s)"

text \<open>What follows the loop. Only the channels of the ARM9 look at the geometry engine again.\<close>

definition transfer_end :: "nat \<Rightarrow> nat \<Rightarrow> 'm dsys \<Rightarrow> 'm dsys" where
  "transfer_end cpu n s =
     (let s = upd_dma n (\<lambda>d. d\<lparr>Executing := False, Stall := False\<rparr>) s;
          d = DMAs s n; m = shl 1 (dma_Num d)
      in if RemCount d \<noteq> 0 then
           if IterCount d = 0 then
             let s = upd_nds (ResumeCPU cpu m) (upd_dma n (\<lambda>d. d\<lparr>dma_Running := 0\<rparr>) s)
             in if cpu = 0 \<and> StartMode d = 0x07 then CheckFIFODMA s else s
           else s
         else
           let s = (if \<not> tst (dma_Cnt d) (shl 1 25)
                    then upd_dma n (\<lambda>d. d\<lparr>dma_Cnt := dma_Cnt d AND NOT (shl 1 31)\<rparr>) s else s);
               s = (if tst (dma_Cnt (DMAs s n)) (shl 1 30) then upd_nds (SetIRQ cpu (IRQ_DMA0 + dma_Num d)) s else s);
               s = upd_dma n (\<lambda>d. d\<lparr>dma_Running := 0, InProgress := False\<rparr>) s
           in upd_nds (ResumeCPU cpu m) s)"

definition Run_on :: "nat \<Rightarrow> 'm dma_env \<Rightarrow> nat \<Rightarrow> 'm dsys \<Rightarrow> 'm dsys option" where
  "Run_on cpu env n s =
     (if dma_target cpu (dcon s) \<le> dma_time cpu (dcon s) then Some s
      else
        let burststart = (dma_Running (DMAs s n) = 2);
            s = upd_dma n (\<lambda>d. d\<lparr>Executing := True, dma_Running := 1\<rparr>) s
        in map_option (transfer_end cpu n)
             (transfer_loop env cpu (tst (dma_Cnt (DMAs s n)) (shl 1 26)) n burststart s))"

definition Run9 :: "'m dma_env \<Rightarrow> nat \<Rightarrow> 'm dsys \<Rightarrow> 'm dsys option" where
  "Run9 = Run_on 0"

definition Run7 :: "'m dma_env \<Rightarrow> nat \<Rightarrow> 'm dsys \<Rightarrow> 'm dsys option" where
  "Run7 = Run_on 1"

definition DMA_Run :: "'m dma_env \<Rightarrow> nat \<Rightarrow> 'm dsys \<Rightarrow> 'm dsys option" where
  "DMA_Run env n s =
     (if dma_Running (DMAs s n) = 0 then Some s
      else if dma_CPU (DMAs s n) = 0 then Run9 env n s else Run7 env n s)"

end
