(* ===== verification/DmaSpec.thy ===== *)
theory DmaSpec
  imports Dma
begin

text \<open>
  What a DMA transfer does: the time of its units is positive and read inside the burst tables; over a quiet
  bus (a locale) it copies unit by unit, in whatever slices it runs.
\<close>

section \<open>Time of one unit\<close>

definition burst_tables :: "u8 list set" where
  "burst_tables = {MRAMRead16Bursts_0, MRAMRead16Bursts_1, MRAMRead16Bursts_2, MRAMRead32Bursts_0, MRAMRead32Bursts_1,
     MRAMRead32Bursts_2, MRAMRead32Bursts_3, MRAMWrite16Bursts_0, MRAMWrite16Bursts_1, MRAMWrite16Bursts_2,
     MRAMWrite32Bursts_0, MRAMWrite32Bursts_1, MRAMWrite32Bursts_2, MRAMWrite32Bursts_3}"

lemmas burst_defs = MRAMRead16Bursts_0_def MRAMRead16Bursts_1_def MRAMRead16Bursts_2_def MRAMRead32Bursts_0_def
  MRAMRead32Bursts_1_def MRAMRead32Bursts_2_def MRAMRead32Bursts_3_def MRAMWrite16Bursts_0_def MRAMWrite16Bursts_1_def
  MRAMWrite16Bursts_2_def MRAMWrite32Bursts_0_def MRAMWrite32Bursts_1_def MRAMWrite32Bursts_2_def MRAMWrite32Bursts_3_def

lemma burst_table:
  assumes "t \<in> burst_tables"
  shows "1 < length t" "length t \<le> 256" "last t = 0" "0 < t ! 0" "\<forall>x \<in> set t. x \<le> 18"
  using assms unfolding burst_tables_def
  by (elim insertE emptyE; simp add: burst_defs)+

text \<open>The position in a burst table stays before its end.\<close>

definition burst_ok :: "dma \<Rightarrow> bool" where
  "burst_ok d \<longleftrightarrow> MRAMBurstTable d = MRAMDummy \<or>
     MRAMBurstTable d \<in> burst_tables \<and> MRAMBurstCount d < length (MRAMBurstTable d)"

lemma burst_time_ok:
  assumes "burst_ok d" "t \<in> burst_tables"
  shows "burst_ok (snd (burst_time b t d)) \<and> 0 < fst (burst_time b t d) \<and> fst (burst_time b t d) \<le> 18"
proof -
  define d' where "d' = (if b \<or> table_at (MRAMBurstTable d) (MRAMBurstCount d) = 0
    then d\<lparr>MRAMBurstCount := 0, MRAMBurstTable := t\<rparr> else d)"
  let ?t = "MRAMBurstTable d'" and ?k = "MRAMBurstCount d'"
  have t: "?t \<in> burst_tables" "?k < length ?t" "?t ! ?k \<noteq> 0"
    using assms burst_table(1,4) [OF assms(2)]
    by (auto simp: d'_def burst_ok_def table_at_def MRAMDummy_def split: if_splits)
  have "?k \<noteq> length ?t - 1"
    using t burst_table(1,3) [OF t(1)] by (metis last_conv_nth length_0_conv less_nat_zero_code)
  then have "?k + 1 < length ?t" using t(2) by simp
  moreover have "?t ! ?k \<le> 18" using burst_table(5) [OF t(1)] t(2) by (simp add: nth_mem)
  moreover have "0 < (ucast (?t ! ?k) :: u32) \<and> (ucast (?t ! ?k) :: u32) \<le> 18"
    using t(3) calculation(2) by (simp add: word_le_nat_alt word_less_nat_alt word_eq_unat unsigned_ucast_eq take_bit_nat_eq_self)
  moreover have "burst_time b t d = (ucast (?t ! ?k), d'\<lparr>MRAMBurstCount := ?k + 1\<rparr>)"
    using t(2) unfolding burst_time_def Let_def d'_def [symmetric] by (simp add: table_at_def)
  ultimately show ?thesis using t by (simp add: burst_ok_def)
qed


text \<open>The access times of the regions are between 1 and 255; the sum of two and one is not 0.\<close>

definition times_ok :: "u32 \<times> u32 \<times> u32 \<times> u32 \<Rightarrow> bool" where
  "times_ok = (\<lambda>(sn, ss, dn, ds). \<forall>x \<in> {sn, ss, dn, ds}. 0 < x \<and> x < 0x100)"

lemma sum_pos: "0 < x \<Longrightarrow> x < 0x100 \<Longrightarrow> y < 0x1000 \<Longrightarrow> 0 < x + y" for x y :: u32
  by (simp add: word_less_nat_alt unat_word_ariths)

lemma unit_ok:
  assumes "burst_ok d" "times_ok ts"
  shows "burst_ok (snd (unit_16 ram slow sr dr ts b d)) \<and> 0 < fst (unit_16 ram slow sr dr ts b d)"
    and "burst_ok (snd (unit_32 ram slow sr dr ts b d)) \<and> 0 < fst (unit_32 ram slow sr dr ts b d)"
proof -
  obtain sn ss dn ds where ts: "ts = (sn, ss, dn, ds)" by (cases ts)
  have p: "0 < sn" "0 < ss" "0 < dn" "0 < ds" "sn < 0x100" "ss < 0x100" "dn < 0x100" "ds < 0x100"
    using assms(2) by (simp_all add: times_ok_def ts)
  have q: "0 < x + y" "0 < y + x" if "x \<in> {sn, ss, dn, ds}" "y < 0x1000" for x y
    using sum_pos [of x y] that p by (auto simp: add.commute)
  have bt: "burst_ok (snd (burst_time b t d)) \<and> 0 < fst (burst_time b t d)" if "t \<in> burst_tables" for t
    using burst_time_ok [OF assms(1) that] by blast
  have small: "y < 0x1000" if "y < 0x100" for y :: u32 using that by (rule order.strict_trans) simp
  have dn1: "dn + 1 < 0x1000" using p by unat_arith
  show "burst_ok (snd (unit_16 ram slow sr dr ts b d)) \<and> 0 < fst (unit_16 ram slow sr dr ts b d)"
    using q(1) [of sn "dn + 1"] q small p dn1 bt assms(1)
    by (auto simp: unit_16_def ts Let_def burst_tables_def add.assoc)
  show "burst_ok (snd (unit_32 ram slow sr dr ts b d)) \<and> 0 < fst (unit_32 ram slow sr dr ts b d)"
    using q(1) [of sn "dn + 1"] q small p dn1 bt assms(1)
    by (auto simp: unit_32_def ts Let_def burst_tables_def add.assoc)
qed

text \<open>The time of a unit is never zero, so that a transfer cannot run for free, and the position in the burst
  table stays inside the table, whose last entry is a zero: the code never reads past it.\<close>

theorem unit_timings_positive:
  assumes "burst_ok d"
    and "\<And>i k. 0 < dma_ARM9MemTimings env s i k" "\<And>i k. 0 < dma_ARM7MemTimings env s i k"
  shows "burst_ok (snd (unit_timings env cpu wide b s d)) \<and> 0 < fst (unit_timings env cpu wide b s d)"
proof -
  have u: "0 < x \<Longrightarrow> 0 < (ucast x :: u32) \<and> (ucast x :: u32) < 0x100" for x :: u8
  proof -
    assume "0 < x"
    moreover have "unat x < 2 ^ 8" using unat_bound [of x] by simp
    ultimately show ?thesis by (simp add: word_less_nat_alt unsigned_ucast_eq take_bit_nat_eq_self)
  qed
  have t: "times_ok (unit_times (dma_ARM9MemTimings env s) i j k)" "times_ok (unit_times (dma_ARM7MemTimings env s) i j k)" for i j k
    using u [OF assms(2)] u [OF assms(3)] by (simp_all add: times_ok_def unit_times_def)
  show ?thesis
    using unit_ok [OF assms(1) t(1)] unit_ok [OF assms(1) t(2)]
    by (simp add: unit_timings_def UnitTimings9_16_def UnitTimings9_32_def UnitTimings7_16_def UnitTimings7_32_def Let_def)
qed

section \<open>Transfers over a quiet bus\<close>

text \<open>A memory with accesses of both widths, and the reference for a transfer: so many units copied
  one after the other.\<close>

record 'm bus_mem =
  ld16 :: "u32 \<Rightarrow> 'm \<Rightarrow> u16"
  st16 :: "u32 \<Rightarrow> u16 \<Rightarrow> 'm \<Rightarrow> 'm"
  ld32 :: "u32 \<Rightarrow> 'm \<Rightarrow> u32"
  st32 :: "u32 \<Rightarrow> u32 \<Rightarrow> 'm \<Rightarrow> 'm"

definition unit_copy :: "'m bus_mem \<Rightarrow> bool \<Rightarrow> u32 \<Rightarrow> u32 \<Rightarrow> 'm \<Rightarrow> 'm" where
  "unit_copy mm wide src dst m = (if wide then st32 mm dst (ld32 mm src m) m else st16 mm dst (ld16 mm src m) m)"

primrec copy_units :: "'m bus_mem \<Rightarrow> bool \<Rightarrow> s32 \<Rightarrow> s32 \<Rightarrow> nat \<Rightarrow> u32 \<Rightarrow> u32 \<Rightarrow> 'm \<Rightarrow> 'm" where
  "copy_units mm wide si di 0 src dst m = m"
| "copy_units mm wide si di (Suc k) src dst m =
     copy_units mm wide si di k (src + si) (dst + di) (unit_copy mm wide src dst m)"

definition width :: "bool \<Rightarrow> nat" where "width wide = (if wide then 2 else 1)"

text \<open>The memory at the end of a transfer that has units left.\<close>

definition final_mem :: "'m bus_mem \<Rightarrow> dma \<Rightarrow> 'm \<Rightarrow> 'm" where
  "final_mem mm d =
     (let wide = tst (dma_Cnt d) (shl 1 26) in
      copy_units mm wide (shl (SrcAddrInc d) (width wide)) (shl (DstAddrInc d) (width wide)) (unat (RemCount d))
        (CurSrcAddr d) (CurDstAddr d))"

text \<open>A channel without its position in the burst tables, after \<open>j\<close> more units.\<close>

definition unburst :: "dma \<Rightarrow> dma" where
  "unburst d = d\<lparr>MRAMBurstCount := 0, MRAMBurstTable := []\<rparr>"

definition moved :: "bool \<Rightarrow> nat \<Rightarrow> dma \<Rightarrow> dma" where
  "moved wide j d = d\<lparr>CurSrcAddr := CurSrcAddr d + word_of_nat j * shl (SrcAddrInc d) (width wide),
     CurDstAddr := CurDstAddr d + word_of_nat j * shl (DstAddrInc d) (width wide),
     IterCount := IterCount d - word_of_nat j, RemCount := RemCount d - word_of_nat j\<rparr>"

definition untimed :: "nds \<Rightarrow> nds" where
  "untimed c = c\<lparr>ARM9Timestamp := 0, ARM7Timestamp := 0\<rparr>"

lemma unburst_eqD:
  assumes "unburst d = unburst e"
  shows "SrcAddr d = SrcAddr e" "DstAddr d = DstAddr e" "dma_Cnt d = dma_Cnt e" "dma_CPU d = dma_CPU e" "dma_Num d = dma_Num e"
    "StartMode d = StartMode e" "CurSrcAddr d = CurSrcAddr e" "CurDstAddr d = CurDstAddr e" "RemCount d = RemCount e"
    "IterCount d = IterCount e" "SrcAddrInc d = SrcAddrInc e" "DstAddrInc d = DstAddrInc e" "dma_Running d = dma_Running e"
    "InProgress d = InProgress e" "Executing d = Executing e" "Stall d = Stall e"
  using assms by (cases d; cases e; simp add: unburst_def)+

lemma unburst_moved: "unburst d = unburst e \<Longrightarrow> unburst (moved w j d) = unburst (moved w j e)"
  by (cases d; cases e; simp add: moved_def unburst_def)

lemma moved_0 [simp]: "moved w 0 d = d"
  by (cases d) (simp add: moved_def)

lemma moved_next: "moved w j (next_unit w d) = moved w (Suc j) d"
  by (simp add: moved_def next_unit_def width_def Let_def algebra_simps)

lemma unburst_next: "unburst d = unburst e \<Longrightarrow> unburst (next_unit w d) = unburst (next_unit w e)"
  by (cases d; cases e; simp add: next_unit_def unburst_def Let_def)

lemma unburst_burst_time [simp]: "unburst (snd (burst_time b t d)) = unburst d"
  by (simp add: burst_time_def unburst_def Let_def)

lemma unburst_unit [simp]:
  "unburst (snd (unit_16 ram slow sr dr ts b d)) = unburst d" "unburst (snd (unit_32 ram slow sr dr ts b d)) = unburst d"
proof -
  obtain sn ss dn ds where ts: "ts = (sn, ss, dn, ds)" by (cases ts)
  show "unburst (snd (unit_16 ram slow sr dr ts b d)) = unburst d" "unburst (snd (unit_32 ram slow sr dr ts b d)) = unburst d"
    unfolding ts unit_16_def unit_32_def Let_def prod.case by (simp_all split: if_split)
qed

lemma unburst_timings [simp]: "unburst (snd (unit_timings env cpu w b s d)) = unburst d"
  by (simp add: unit_timings_def UnitTimings9_16_def UnitTimings9_32_def UnitTimings7_16_def UnitTimings7_32_def Let_def)

lemma copy_units_add:
  "copy_units mm w si di (i + j) src dst m =
   copy_units mm w si di j (src + word_of_nat i * si) (dst + word_of_nat i * di) (copy_units mm w si di i src dst m)"
  by (induction i arbitrary: src dst m) (simp_all add: algebra_simps)

lemma untimed_advance [simp]: "untimed (dma_advance cpu t c) = untimed c"
  by (simp add: untimed_def dma_advance_def)

lemma untimed_target: "untimed c = untimed d \<Longrightarrow> dma_target cpu c = dma_target cpu d"
  by (cases c; cases d; simp add: untimed_def dma_target_def)

locale quiet_bus =
  fixes env :: "'m dma_env" and mm :: "'m bus_mem"
  assumes read16: "Read16 env cpu a s = (ld16 mm a (dmem s), s)"
    and write16: "Write16 env cpu a v s = s\<lparr>dmem := st16 mm a v (dmem s)\<rparr>"
    and read32: "Read32 env cpu a s = (ld32 mm a (dmem s), s)"
    and write32: "Write32 env cpu a w s = s\<lparr>dmem := st32 mm a w (dmem s)\<rparr>"
begin

lemma bus_copy_mem: "bus_copy env cpu w n s =
  s\<lparr>dmem := unit_copy mm w (CurSrcAddr (DMAs s n)) (CurDstAddr (DMAs s n)) (dmem s)\<rparr>"
  by (simp add: bus_copy_def unit_copy_def read16 write16 read32 write32)

lemma transfer_unit_effect:
  fixes cpu :: nat and w :: bool and n :: nat and b :: bool
  defines "t \<equiv> transfer_unit env cpu w n b"
  shows "unburst (DMAs (t s) n) = unburst (next_unit w (DMAs s n))" "i \<noteq> n \<Longrightarrow> DMAs (t s) i = DMAs s i"
    "dmem (t s) = unit_copy mm w (CurSrcAddr (DMAs s n)) (CurDstAddr (DMAs s n)) (dmem s)"
    "untimed (dcon (t s)) = untimed (dcon s)" "DMA9Fill (t s) = DMA9Fill s"
proof -
  obtain x d where u: "unit_timings env cpu w b s (DMAs s n) = (x, d)" by fastforce
  then have d: "unburst d = unburst (DMAs s n)" using unburst_timings [of env cpu w b s "DMAs s n"] by simp
  note e = t_def transfer_unit_def u bus_copy_mem upd_dma_def upd_nds_def Let_def
  show "unburst (DMAs (t s) n) = unburst (next_unit w (DMAs s n))" using unburst_next [OF d] by (simp add: e)
  show "dmem (t s) = unit_copy mm w (CurSrcAddr (DMAs s n)) (CurDstAddr (DMAs s n)) (dmem s)"
    using unburst_eqD [OF d] by (simp add: e)
  show "i \<noteq> n \<Longrightarrow> DMAs (t s) i = DMAs s i" "untimed (dcon (t s)) = untimed (dcon s)" "DMA9Fill (t s) = DMA9Fill s"
    by (simp_all add: e)
qed

lemma transfer_loop_effect:
  assumes "\<not> Stall (DMAs s n)"
  defines "d \<equiv> DMAs s n"
  shows "\<exists>t j. transfer_loop env cpu w n b s = Some t \<and> j \<le> unat (IterCount d) \<and>
    unburst (DMAs t n) = unburst (moved w j d) \<and> (\<forall>i. i \<noteq> n \<longrightarrow> DMAs t i = DMAs s i) \<and>
    dmem t = copy_units mm w (shl (SrcAddrInc d) (width w)) (shl (DstAddrInc d) (width w)) j (CurSrcAddr d) (CurDstAddr d) (dmem s) \<and>
    untimed (dcon t) = untimed (dcon s) \<and> DMA9Fill t = DMA9Fill s \<and> (0 < IterCount d \<longrightarrow> 0 < j) \<and>
    (j = unat (IterCount d) \<or> dma_target cpu (dcon t) \<le> dma_time cpu (dcon t))"
  using assms(1) unfolding d_def
proof (induction "unat (IterCount (DMAs s n))" arbitrary: s b rule: less_induct)
  case less
  show ?case
  proof (cases "IterCount (DMAs s n) = 0")
    case True
    then have "transfer_loop env cpu w n b s = Some s" by (simp add: transfer_loop.simps)
    then show ?thesis using True by (intro exI [of _ s] exI [of _ 0]) simp
  next
    case False
    define u where "u = transfer_unit env cpu w n b s"
    note e = transfer_unit_effect [where cpu = cpu and w = w and n = n and b = b and s = s, folded u_def] and q = unburst_eqD [OF e(1)]
    have nx: "IterCount (DMAs u n) = IterCount (DMAs s n) - 1" "Stall (DMAs u n) = Stall (DMAs s n)"
        "SrcAddrInc (DMAs u n) = SrcAddrInc (DMAs s n)" "DstAddrInc (DMAs u n) = DstAddrInc (DMAs s n)"
        "CurSrcAddr (DMAs u n) = CurSrcAddr (DMAs s n) + shl (SrcAddrInc (DMAs s n)) (width w)"
        "CurDstAddr (DMAs u n) = CurDstAddr (DMAs s n) + shl (DstAddrInc (DMAs s n)) (width w)"
      unfolding q by (simp_all add: next_unit_def Let_def width_def)
    have it: "unat (IterCount (DMAs u n)) + 1 = unat (IterCount (DMAs s n))"
      using False unfolding nx(1) by (simp add: unat_minus_one Suc_diff_1 unat_gt_0)
    have un: "transfer_loop env cpu w n b s =
        (if dma_target cpu (dcon u) \<le> dma_time cpu (dcon u) then Some u else transfer_loop env cpu w n False u)"
      using False less.prems by (subst transfer_loop.simps) (simp add: u_def [symmetric] Let_def word_gt_0)
    show ?thesis
    proof (cases "dma_target cpu (dcon u) \<le> dma_time cpu (dcon u)")
      case True
      have "unburst (DMAs u n) = unburst (moved w 1 (DMAs s n))" using e(1) moved_next [of w 0 "DMAs s n"] by simp
      then show ?thesis using True un e it by (intro exI [of _ u] exI [of _ 1]) simp
    next
      case c: False
      have "\<not> Stall (DMAs u n)" using nx(2) less.prems by simp
      from less.hyps [OF _ this, of False] it obtain t j where t: "transfer_loop env cpu w n False u = Some t"
        "j \<le> unat (IterCount (DMAs u n))" "unburst (DMAs t n) = unburst (moved w j (DMAs u n))"
        "\<forall>i. i \<noteq> n \<longrightarrow> DMAs t i = DMAs u i"
        "dmem t = copy_units mm w (shl (SrcAddrInc (DMAs u n)) (width w)) (shl (DstAddrInc (DMAs u n)) (width w)) j
          (CurSrcAddr (DMAs u n)) (CurDstAddr (DMAs u n)) (dmem u)"
        "untimed (dcon t) = untimed (dcon u)" "DMA9Fill t = DMA9Fill u"
        "j = unat (IterCount (DMAs u n)) \<or> dma_target cpu (dcon t) \<le> dma_time cpu (dcon t)" by auto
      have "unburst (moved w j (DMAs u n)) = unburst (moved w (Suc j) (DMAs s n))"
        using unburst_moved [OF e(1), of w j] by (simp add: moved_next)
      moreover have "dmem t = copy_units mm w (shl (SrcAddrInc (DMAs s n)) (width w)) (shl (DstAddrInc (DMAs s n)) (width w)) (Suc j)
          (CurSrcAddr (DMAs s n)) (CurDstAddr (DMAs s n)) (dmem s)"
        unfolding t(5) nx e(3) by simp
      ultimately show ?thesis
        using c un t e it by (intro exI [of _ t] exI [of _ "Suc j"]) auto
    qed
  qed
qed

end

text \<open>A transfer in progress that is done in one block: every start mode but the one of the geometry
  engine, whose blocks have at most 112 units.\<close>

definition transferring :: "nat \<Rightarrow> 'm dsys \<Rightarrow> bool" where
  "transferring n s \<longleftrightarrow> (let d = DMAs s n in dma_Running d \<noteq> 0 \<and> InProgress d \<and> \<not> Stall d \<and> \<not> Executing d \<and>
     IterCount d = RemCount d \<and> RemCount d \<noteq> 0)"

definition cpu_time_left :: "nat \<Rightarrow> 'm dsys \<Rightarrow> bool" where
  "cpu_time_left cpu s \<longleftrightarrow> dma_time cpu (dcon s) < dma_target cpu (dcon s)"

definition stop_bit :: "nat \<Rightarrow> nat \<Rightarrow> u32" where
  "stop_bit cpu num = (if cpu \<noteq> 0 then shl (shl 1 num) 16 else shl 1 num)"

text \<open>What the last slice of a transfer leaves behind.\<close>

definition finished :: "nat \<Rightarrow> nat \<Rightarrow> dma \<Rightarrow> 'm dsys \<Rightarrow> bool" where
  "finished cpu n d t \<longleftrightarrow> (let e = DMAs t n in
     dma_Running e = 0 \<and> \<not> InProgress e \<and> RemCount e = 0 \<and>
     (tst (dma_Cnt e) (shl 1 31) \<longleftrightarrow> tst (dma_Cnt d) (shl 1 25) \<and> tst (dma_Cnt d) (shl 1 31)) \<and>
     (tst (dma_Cnt d) (shl 1 30) \<longrightarrow> tst (IFl (dcon t) cpu) (shl 1 (IRQ_DMA0 + dma_Num d))) \<and>
     \<not> tst (CPUStop (dcon t)) (stop_bit cpu (dma_Num d)))"

lemma upd_dma_simps [simp]:
  "DMAs (upd_dma n f s) n = f (DMAs s n)" "i \<noteq> n \<Longrightarrow> DMAs (upd_dma n f s) i = DMAs s i"
  "dmem (upd_dma n f s) = dmem s" "dcon (upd_dma n f s) = dcon s" "DMA9Fill (upd_dma n f s) = DMA9Fill s"
  "DMAs (upd_nds g s) = DMAs s" "dmem (upd_nds g s) = dmem s" "dcon (upd_nds g s) = g (dcon s)" "DMA9Fill (upd_nds g s) = DMA9Fill s"
  by (simp_all add: upd_dma_def upd_nds_def)

lemma final_mem_moved:
  assumes "j \<le> unat (RemCount d)" "unburst e = unburst (moved (tst (dma_Cnt d) (shl 1 26)) j d)"
  shows "final_mem mm e (copy_units mm (tst (dma_Cnt d) (shl 1 26)) (shl (SrcAddrInc d) (width (tst (dma_Cnt d) (shl 1 26))))
      (shl (DstAddrInc d) (width (tst (dma_Cnt d) (shl 1 26)))) j (CurSrcAddr d) (CurDstAddr d) m) = final_mem mm d m"
proof -
  have u: "unat (RemCount d - word_of_nat j) = unat (RemCount d) - j"
  proof -
    have "j < 2 ^ 32" using assms(1) unat_bound [of "RemCount d"] by simp
    then have "unat (word_of_nat j :: u32) = j" by (simp add: unsigned_of_nat take_bit_nat_eq_self)
    then show ?thesis using assms(1) by (subst unat_sub) (simp_all only: word_le_nat_alt)
  qed
  note q = unburst_eqD [OF assms(2)]
  have "copy_units mm w si di (unat (RemCount d)) src dst m =
    copy_units mm w si di (unat (RemCount d) - j) (src + word_of_nat j * si) (dst + word_of_nat j * di)
      (copy_units mm w si di j src dst m)" for w si di src dst
    using copy_units_add [of mm w si di j "unat (RemCount d) - j"] assms(1) by simp
  then show ?thesis unfolding final_mem_def Let_def q by (simp add: moved_def u)
qed

lemma final_mem_0: "RemCount d = 0 \<Longrightarrow> final_mem mm d m = m"
  by (simp add: final_mem_def Let_def)

lemma ResumeCPU_bit: "\<not> tst (CPUStop (ResumeCPU cpu (shl 1 num) c)) (stop_bit cpu num)"
  by (simp add: ResumeCPU_def stop_bit_def Let_def and.assoc)

lemma IFl_SetIRQ: "tst (IFl (SetIRQ cpu irq c) cpu) (shl 1 irq) = True \<or> 32 \<le> irq"
  by (auto simp: SetIRQ_def UpdateIRQ_def Let_def tst_shl1 bit_or_iff bit_push_bit_iff)

lemma transfer_end_more:
  assumes "RemCount (DMAs u n) \<noteq> 0" "IterCount (DMAs u n) \<noteq> 0"
  shows "transfer_end cpu n u = upd_dma n (\<lambda>d. d\<lparr>Executing := False, Stall := False\<rparr>) u"
  using assms by (simp add: transfer_end_def Let_def)

lemma transfer_end_done:
  fixes cpu :: nat
  assumes "RemCount (DMAs u n) = 0" "dma_Num (DMAs u n) < 4"
  defines "t \<equiv> transfer_end cpu n u" and "d \<equiv> DMAs u n"
  shows "dma_Running (DMAs t n) = 0" "\<not> InProgress (DMAs t n)" "RemCount (DMAs t n) = 0"
    "dma_Cnt (DMAs t n) = (if \<not> tst (dma_Cnt d) (shl 1 25) then dma_Cnt d AND NOT (shl 1 31) else dma_Cnt d)"
    "tst (dma_Cnt d) (shl 1 30) \<Longrightarrow> tst (IFl (dcon t) cpu) (shl 1 (IRQ_DMA0 + dma_Num d))"
    "\<not> tst (CPUStop (dcon t)) (stop_bit cpu (dma_Num d))" "dmem t = dmem u" "dma_CPU (DMAs t n) = dma_CPU d"
    "i \<noteq> n \<Longrightarrow> DMAs t i = DMAs u i" "dma_Num (DMAs t n) = dma_Num d"
proof -
  note e = t_def d_def transfer_end_def Let_def
  show "dma_Running (DMAs t n) = 0" "\<not> InProgress (DMAs t n)" "RemCount (DMAs t n) = 0" "dmem t = dmem u"
    "dma_CPU (DMAs t n) = dma_CPU d" "i \<noteq> n \<Longrightarrow> DMAs t i = DMAs u i" "dma_Num (DMAs t n) = dma_Num d"
    "dma_Cnt (DMAs t n) = (if \<not> tst (dma_Cnt d) (shl 1 25) then dma_Cnt d AND NOT (shl 1 31) else dma_Cnt d)"
    "\<not> tst (CPUStop (dcon t)) (stop_bit cpu (dma_Num d))"
    using assms(1) ResumeCPU_bit by (simp_all add: e)
  have "(c AND - 2147483649) AND 1073741824 = c AND 1073741824" for c :: u32 by (simp add: and.assoc)
  moreover have "tst (IFl (SetIRQ cpu (IRQ_DMA0 + dma_Num d) c) cpu) (shl 1 (IRQ_DMA0 + dma_Num d))" for c
    using IFl_SetIRQ [of cpu "IRQ_DMA0 + dma_Num d" c] assms(2) by (simp add: IRQ_DMA0_def d_def)
  ultimately show "tst (dma_Cnt d) (shl 1 30) \<Longrightarrow> tst (IFl (dcon t) cpu) (shl 1 (IRQ_DMA0 + dma_Num d))"
    using assms(1) by (simp add: e ResumeCPU_def)
qed

context quiet_bus
begin

lemma Run_on_slice:
  assumes "transferring n s" "cpu_time_left cpu s" "dma_Num (DMAs s n) < 4"
  defines "d \<equiv> DMAs s n"
  obtains t where "Run_on cpu env n s = Some t"
    "final_mem mm (DMAs t n) (dmem t) = final_mem mm d (dmem s)"
    "unat (RemCount (DMAs t n)) < unat (RemCount d)" "transferring n t \<and> dma_Cnt (DMAs t n) = dma_Cnt d \<or> finished cpu n d t"
    "dma_CPU (DMAs t n) = dma_CPU d" "dma_Num (DMAs t n) = dma_Num d" "\<forall>i. i \<noteq> n \<longrightarrow> DMAs t i = DMAs s i"
proof -
  define w where "w = tst (dma_Cnt d) (shl 1 26)"
  define r where "r = upd_dma n (\<lambda>d. d\<lparr>Executing := True, dma_Running := 1\<rparr>) s"
  have tr: "dma_Running d \<noteq> 0" "InProgress d" "\<not> Stall d" "IterCount d = RemCount d" "RemCount d \<noteq> 0"
    using assms(1) by (simp_all add: transferring_def d_def Let_def)
  have r: "DMAs r n = d\<lparr>Executing := True, dma_Running := 1\<rparr>" "dmem r = dmem s" "\<And>i. i \<noteq> n \<Longrightarrow> DMAs r i = DMAs s i"
    by (simp_all add: r_def d_def)
  have "\<not> Stall (DMAs r n)" using tr by (simp add: r)
  from transfer_loop_effect [OF this, of cpu w "dma_Running d = 2"] obtain u j where u:
    "transfer_loop env cpu w n (dma_Running d = 2) r = Some u" "j \<le> unat (RemCount d)" "0 < j"
    "unburst (DMAs u n) = unburst (moved w j (DMAs r n))" "\<And>i. i \<noteq> n \<Longrightarrow> DMAs u i = DMAs r i"
    "dmem u = copy_units mm w (shl (SrcAddrInc d) (width w)) (shl (DstAddrInc d) (width w)) j (CurSrcAddr d) (CurDstAddr d) (dmem s)"
    using tr by (auto simp: r word_gt_0)
  define t where "t = transfer_end cpu n u"
  have run: "Run_on cpu env n s = Some t"
    using assms(2) u(1) unfolding Run_on_def cpu_time_left_def Let_def r_def [symmetric] d_def [symmetric]
    by (simp add: not_le r w_def t_def)
  note q = unburst_eqD [OF u(4), unfolded r moved_def, simplified]
  have num: "dma_Num (DMAs u n) = dma_Num d" "dma_Cnt (DMAs u n) = dma_Cnt d" "dma_CPU (DMAs u n) = dma_CPU d"
    "IterCount (DMAs u n) = RemCount (DMAs u n)" "InProgress (DMAs u n)" "dma_Running (DMAs u n) = 1"
    using tr by (simp_all add: q)
  have "unburst (DMAs u n) = unburst (moved (tst (dma_Cnt (DMAs r n)) (shl 1 26)) j (DMAs r n))" using u(4) by (simp add: w_def r)
  from final_mem_moved [OF _ this] u(2)
  have fm: "final_mem mm (DMAs u n) (dmem u) = final_mem mm d (dmem s)"
    unfolding u(6) by (simp add: r w_def final_mem_def)
  have "unat (RemCount d - word_of_nat j) = unat (RemCount d) - j"
  proof -
    have "j < 2 ^ 32" using u(2) unat_bound [of "RemCount d"] by simp
    then have "unat (word_of_nat j :: u32) = j" by (simp add: unsigned_of_nat take_bit_nat_eq_self)
    then show ?thesis using u(2) by (subst unat_sub) (simp_all only: word_le_nat_alt)
  qed
  then have less: "unat (RemCount (DMAs u n)) < unat (RemCount d)"
    using u(2,3) by (simp add: q)
  show ?thesis
  proof (cases "RemCount (DMAs u n) = 0")
    case True
    have "dma_Num (DMAs u n) < 4" using num assms(3) by (simp add: d_def)
    note e = transfer_end_done [OF True this, where cpu = cpu, folded t_def]
    show ?thesis
    proof (rule that [OF run])
      show "final_mem mm (DMAs t n) (dmem t) = final_mem mm d (dmem s)"
        using e(3,7) fm True by (simp add: final_mem_0)
    qed (use e num less True u(5) r(3) in \<open>simp_all add: finished_def and.assoc\<close>)
  next
    case False
    then have t: "t = upd_dma n (\<lambda>d. d\<lparr>Executing := False, Stall := False\<rparr>) u"
      unfolding t_def by (rule transfer_end_more) (simp add: num False)
    show ?thesis
    proof (rule that [OF run])
      show "final_mem mm (DMAs t n) (dmem t) = final_mem mm d (dmem s)" using fm by (simp add: t final_mem_def)
    qed (use num less False u(5) r(3) in \<open>simp_all add: t transferring_def\<close>)
  qed
qed

end


section \<open>A transfer in slices\<close>

text \<open>Between two slices the rest of the console may change, but neither the channel nor the memory.\<close>

inductive slices :: "'m dma_env \<Rightarrow> nat \<Rightarrow> nat \<Rightarrow> 'm dsys \<Rightarrow> 'm dsys \<Rightarrow> bool" for env n where
  start: "slices env n 0 s s"
| slice: "slices env n k s u \<Longrightarrow> transferring n u \<Longrightarrow> DMAs v n = DMAs u n \<Longrightarrow> dmem v = dmem u \<Longrightarrow>
    cpu_time_left (dma_CPU (DMAs u n)) v \<Longrightarrow> DMA_Run env n v = Some t \<Longrightarrow> slices env n (Suc k) s t"

lemma DMA_Run_on: "dma_CPU (DMAs s n) < 2 \<Longrightarrow> dma_Running (DMAs s n) \<noteq> 0 \<Longrightarrow> DMA_Run env n s = Run_on (dma_CPU (DMAs s n)) env n s"
  by (auto simp: DMA_Run_def Run9_def Run7_def less_2_cases_iff)

context quiet_bus
begin

lemma slices_invariant:
  assumes "slices env n k s t" "transferring n s" "dma_CPU (DMAs s n) < 2" "dma_Num (DMAs s n) < 4"
  shows "final_mem mm (DMAs t n) (dmem t) = final_mem mm (DMAs s n) (dmem s) \<and>
    k + unat (RemCount (DMAs t n)) \<le> unat (RemCount (DMAs s n)) \<and>
    dma_CPU (DMAs t n) = dma_CPU (DMAs s n) \<and> dma_Num (DMAs t n) = dma_Num (DMAs s n) \<and>
    (transferring n t \<and> dma_Cnt (DMAs t n) = dma_Cnt (DMAs s n) \<or> finished (dma_CPU (DMAs s n)) n (DMAs s n) t)"
  using assms
proof (induction rule: slices.induct)
  case (slice k s u v t)
  then have u: "dma_CPU (DMAs v n) < 2" "dma_Num (DMAs v n) < 4" "transferring n v"
    by (simp_all add: transferring_def)
  then have "DMA_Run env n v = Run_on (dma_CPU (DMAs v n)) env n v" by (intro DMA_Run_on) (simp_all add: transferring_def Let_def)
  with slice.hyps(6) have run: "Run_on (dma_CPU (DMAs v n)) env n v = Some t" by simp
  have "cpu_time_left (dma_CPU (DMAs v n)) v" using slice.hyps(3,5) by simp
  from Run_on_slice [OF u(3) this u(2)] obtain t' where t': "Run_on (dma_CPU (DMAs v n)) env n v = Some t'"
    "final_mem mm (DMAs t' n) (dmem t') = final_mem mm (DMAs v n) (dmem v)" "unat (RemCount (DMAs t' n)) < unat (RemCount (DMAs v n))"
    "transferring n t' \<and> dma_Cnt (DMAs t' n) = dma_Cnt (DMAs v n) \<or> finished (dma_CPU (DMAs v n)) n (DMAs v n) t'"
    "dma_CPU (DMAs t' n) = dma_CPU (DMAs v n)" "dma_Num (DMAs t' n) = dma_Num (DMAs v n)" .
  have "t' = t" using run t'(1) by simp
  note t = t'(2-) [unfolded this slice.hyps(3,4)]
  have not: "\<not> finished c n d u" for c d
    using slice.hyps(2) by (simp add: finished_def transferring_def Let_def)
  have ih: "final_mem mm (DMAs u n) (dmem u) = final_mem mm (DMAs s n) (dmem s)" 
    "k + unat (RemCount (DMAs u n)) \<le> unat (RemCount (DMAs s n))" "dma_CPU (DMAs u n) = dma_CPU (DMAs s n)"
    "dma_Num (DMAs u n) = dma_Num (DMAs s n)" "dma_Cnt (DMAs u n) = dma_Cnt (DMAs s n)"
    using slice.IH [OF slice.prems] not by simp_all
  have fin: "finished c n (DMAs u n) t = finished c n (DMAs s n) t" for c
    by (simp only: finished_def ih(4,5))
  have "Suc k + unat (RemCount (DMAs t n)) \<le> unat (RemCount (DMAs s n))" using ih(2) t(2) by simp
  then show ?case using t(1,3,4,5) unfolding ih(1,3-5) fin by blast
qed simp

lemma slice_returns:
  assumes "transferring n v" "dma_CPU (DMAs v n) < 2" "dma_Num (DMAs v n) < 4" "cpu_time_left (dma_CPU (DMAs v n)) v"
  shows "\<exists>t. DMA_Run env n v = Some t"
proof -
  have "DMA_Run env n v = Run_on (dma_CPU (DMAs v n)) env n v"
    using assms(1,2) by (intro DMA_Run_on) (simp_all add: transferring_def Let_def)
  then show ?thesis using Run_on_slice [OF assms(1,4,3)] by metis
qed

end

text \<open>The number of units that a control value asks for.\<close>

definition unit_count :: "dma \<Rightarrow> u32 \<Rightarrow> nat" where
  "unit_count d val = (if val AND countmask d = 0 then unat (countmask d) + 1 else unat (val AND countmask d))"

lemma countmask_Suc: "unat (countmask d + 1) = unat (countmask d) + 1" "countmask d + 1 \<noteq> 0"
  by (simp_all add: countmask_def)

lemma load_count_fields [simp]:
  "dma_Cnt (load_count d) = dma_Cnt d" "dma_CPU (load_count d) = dma_CPU d" "dma_Num (load_count d) = dma_Num d"
  "SrcAddr (load_count d) = SrcAddr d" "DstAddr (load_count d) = DstAddr d" "SrcAddrInc (load_count d) = SrcAddrInc d"
  "DstAddrInc (load_count d) = DstAddrInc d" "Stall (load_count d) = Stall d" "Executing (load_count d) = Executing d"
  "CurSrcAddr (load_count d) = CurSrcAddr d" "CurDstAddr (load_count d) = CurDstAddr d" "StartMode (load_count d) = StartMode d"
  by (simp_all add: load_count_def Let_def)

lemma load_block_fields [simp]:
  "dma_Cnt (load_block d) = dma_Cnt d" "dma_CPU (load_block d) = dma_CPU d" "dma_Num (load_block d) = dma_Num d"
  "SrcAddr (load_block d) = SrcAddr d" "DstAddr (load_block d) = DstAddr d" "SrcAddrInc (load_block d) = SrcAddrInc d"
  "DstAddrInc (load_block d) = DstAddrInc d" "Stall (load_block d) = Stall d" "Executing (load_block d) = Executing d"
  "CurSrcAddr (load_block d) = CurSrcAddr d" "CurDstAddr (load_block d) = CurDstAddr d" "StartMode (load_block d) = StartMode d"
  "RemCount (load_block d) = RemCount d"
  by (simp_all add: load_block_def)

lemma reload_fields [simp]:
  "dma_Cnt (reload d) = dma_Cnt d" "dma_CPU (reload d) = dma_CPU d" "dma_Num (reload d) = dma_Num d"
  "SrcAddr (reload d) = SrcAddr d" "DstAddr (reload d) = DstAddr d" "SrcAddrInc (reload d) = SrcAddrInc d"
  "DstAddrInc (reload d) = DstAddrInc d" "Stall (reload d) = Stall d" "Executing (reload d) = Executing d"
  "IterCount (reload d) = IterCount d" "RemCount (reload d) = RemCount d"
  "CurSrcAddr (reload d) = (if dma_Cnt d AND 0x01800000 = 0x01800000 then SrcAddr d else CurSrcAddr d)"
  "CurDstAddr (reload d) = (if dma_Cnt d AND 0x00600000 = 0x00600000 then DstAddr d else CurDstAddr d)"
  by (simp_all add: reload_def Let_def)

lemma start_channel_fields:
  "dma_Cnt (start_channel d) = dma_Cnt d" "dma_CPU (start_channel d) = dma_CPU d" "dma_Num (start_channel d) = dma_Num d"
  "SrcAddrInc (start_channel d) = SrcAddrInc d" "DstAddrInc (start_channel d) = DstAddrInc d"
  "dma_Running (start_channel d) = 2" "InProgress (start_channel d)" "Stall (start_channel d) = Stall d"
  "Executing (start_channel d) = Executing d"
  "CurSrcAddr (start_channel d) = (if dma_Cnt d AND 0x01800000 = 0x01800000 then SrcAddr d else CurSrcAddr d)"
  "CurDstAddr (start_channel d) = (if dma_Cnt d AND 0x00600000 = 0x00600000 then DstAddr d else CurDstAddr d)"
  by (simp_all add: start_channel_def Let_def)

lemma start_channel_count:
  assumes "\<not> InProgress d"
  shows "RemCount (start_channel d) = (if dma_Cnt d AND countmask d = 0 then countmask d + 1 else dma_Cnt d AND countmask d)"
    "StartMode d \<noteq> 7 \<Longrightarrow> IterCount (start_channel d) = RemCount (start_channel d)"
  using assms by (simp_all add: start_channel_def Let_def load_count_def load_block_def)

lemma WriteCnt_immediate:
  assumes "dma_Running (DMAs s n) = 0" "\<not> InProgress (DMAs s n)" "\<not> Executing (DMAs s n)" "\<not> Stall (DMAs s n)"
    "\<not> tst (dma_Cnt (DMAs s n)) 0x80000000" "tst val 0x80000000" "start_mode ((DMAs s n)\<lparr>dma_Cnt := val\<rparr>) AND 7 = 0"
  defines "d \<equiv> DMAs s n" and "e \<equiv> DMAs (WriteCnt val n s) n"
  shows "transferring n (WriteCnt val n s)" "dma_Cnt e = val" "dma_CPU e = dma_CPU d" "dma_Num e = dma_Num d"
    "unat (RemCount e) = unit_count d val" "CurSrcAddr e = SrcAddr d" "CurDstAddr e = DstAddr d"
    "SrcAddrInc e = src_inc val" "DstAddrInc e = dst_inc val" "dmem (WriteCnt val n s) = dmem s"
    "dcon (WriteCnt val n s) = StopCPU (dma_CPU d) (shl 1 (dma_Num d)) (dcon s)"
proof -
  define d' where "d' = d\<lparr>dma_Cnt := val, CurSrcAddr := SrcAddr d, CurDstAddr := DstAddr d, DstAddrInc := dst_inc val,
    SrcAddrInc := src_inc val, StartMode := start_mode (d\<lparr>dma_Cnt := val\<rparr>)\<rparr>"
  define u where "u = upd_dma n (\<lambda>_. d') s"
  have eq: "upd_dma n (\<lambda>d. d\<lparr>CurSrcAddr := SrcAddr d, CurDstAddr := DstAddr d, DstAddrInc := dst_inc (dma_Cnt d),
      SrcAddrInc := src_inc (dma_Cnt d), StartMode := start_mode d\<rparr>) (upd_dma n (\<lambda>d. d\<lparr>dma_Cnt := val\<rparr>) s) = u"
    by (simp add: u_def upd_dma_def d'_def d_def)
  have un: "DMAs u n = d'" by (simp add: u_def)
  have st: "StartMode d' AND 7 = 0" "dma_Running d' = 0" using assms(1,7) by (simp_all add: d'_def d_def)
  then have mode: "StartMode d' \<noteq> 7" by auto
  have w: "WriteCnt val n s = upd_nds (StopCPU (dma_CPU (start_channel d')) (shl 1 (dma_Num (start_channel d')))) (upd_dma n start_channel u)"
    using assms(5,6) st unfolding WriteCnt_def Let_def eq un by (simp add: DMA_Start_def un Let_def)
  have e: "e = start_channel d'" unfolding e_def w by (simp add: un)
  have ip: "\<not> InProgress d'" using assms(2) by (simp add: d'_def d_def)
  have cm: "countmask d' = countmask d" by (simp add: d'_def countmask_def)
  have f: "dma_Cnt d' = val" "dma_CPU d' = dma_CPU d" "dma_Num d' = dma_Num d" "SrcAddrInc d' = src_inc val"
    "DstAddrInc d' = dst_inc val" "Stall d' = Stall d" "Executing d' = Executing d" "CurSrcAddr d' = SrcAddr d"
    "CurDstAddr d' = DstAddr d" "SrcAddr d' = SrcAddr d" "DstAddr d' = DstAddr d"
    by (simp_all add: d'_def)
  show "dma_Cnt e = val" "dma_CPU e = dma_CPU d" "dma_Num e = dma_Num d" "CurSrcAddr e = SrcAddr d" "CurDstAddr e = DstAddr d"
    "SrcAddrInc e = src_inc val" "DstAddrInc e = dst_inc val" "dmem (WriteCnt val n s) = dmem s"
    "dcon (WriteCnt val n s) = StopCPU (dma_CPU d) (shl 1 (dma_Num d)) (dcon s)"
    by (simp_all add: e start_channel_fields f) (simp_all add: w u_def start_channel_fields f)
  show count: "unat (RemCount e) = unit_count d val"
    unfolding e start_channel_count(1) [OF ip] f cm unit_count_def using countmask_Suc(1) [of d] by simp
  have "RemCount e \<noteq> 0" unfolding e start_channel_count(1) [OF ip] cm f using countmask_Suc(2) [of d] by simp
  then show "transferring n (WriteCnt val n s)"
    unfolding transferring_def Let_def e_def [symmetric] unfolding e
    using assms(3,4) start_channel_count(2) [OF ip mode] by (simp add: start_channel_fields f d_def)
qed




text \<open>A bus with a byte memory only, and no time but one cycle for each access.\<close>

definition flat_bus_mem :: "(u32 \<Rightarrow> u8) bus_mem" where
  "flat_bus_mem = \<lparr>
     ld16 = (\<lambda>a m. ucast (m a) OR shl (ucast (m (a + 1))) 8),
     st16 = (\<lambda>a v m. m(a := ucast v, a + 1 := ucast (shr v 8))),
     ld32 = (\<lambda>a m. ucast (m a) OR shl (ucast (m (a + 1))) 8 OR shl (ucast (m (a + 2))) 16 OR shl (ucast (m (a + 3))) 24),
     st32 = (\<lambda>a v m. m(a := ucast v, a + 1 := ucast (shr v 8), a + 2 := ucast (shr v 16), a + 3 := ucast (shr v 24)))\<rparr>"

definition flat_dma_env :: "(u32 \<Rightarrow> u8) dma_env" where
  "flat_dma_env = \<lparr>
     Read16 = (\<lambda>_ a s. (ld16 flat_bus_mem a (dmem s), s)), Read32 = (\<lambda>_ a s. (ld32 flat_bus_mem a (dmem s), s)),
     Write16 = (\<lambda>_ a v s. s\<lparr>dmem := st16 flat_bus_mem a v (dmem s)\<rparr>),
     Write32 = (\<lambda>_ a v s. s\<lparr>dmem := st32 flat_bus_mem a v (dmem s)\<rparr>),
     ARM9Regions = (\<lambda>_ _. 0x10), ARM7Regions = (\<lambda>_ _. 0x4),
     dma_ARM9MemTimings = (\<lambda>_ _ _. 1), dma_ARM7MemTimings = (\<lambda>_ _ _. 1)\<rparr>"

interpretation flat: quiet_bus flat_dma_env flat_bus_mem
  by unfold_locales (simp_all add: flat_dma_env_def)

definition copy_example :: "(u32 \<Rightarrow> u8) dsys" where
  "copy_example = \<lparr>DMAs = (\<lambda>n. (dma_new (n div 4) (n mod 4))\<lparr>SrcAddr := 0x1000, DstAddr := 0x2000\<rparr>), DMA9Fill = (\<lambda>_. 0),
     dcon = blank_nds\<lparr>ARM9Target := 100\<rparr>, dmem = (\<lambda>a. ucast a + 7)\<rparr>"



theorem unit_timings_positive_witness:
  "burst_ok (snd (unit_timings flat_dma_env 0 True True copy_example (dma_new 0 0))) \<and>
   0 < fst (unit_timings flat_dma_env 0 True True copy_example (dma_new 0 0))"
  using unit_timings_positive [of "dma_new 0 0" flat_dma_env copy_example 0 True True]
  by (simp add: burst_ok_def dma_new_def flat_dma_env_def)

end
