(* ===== verification/DmaStop.thy ===== *)
theory DmaStop
  imports DmaSpec
begin

text \<open>
  The DMA controllers and the stop flags of the processors: an invariant of every operation.
\<close>


section \<open>Stopped processors\<close>

text \<open>A processor is stopped by a channel exactly while the channel runs.\<close>

definition stop_ok :: "'m dsys \<Rightarrow> bool" where
  "stop_ok s \<longleftrightarrow> (\<forall>n<8. let d = DMAs s n in dma_CPU d = n div 4 \<and> dma_Num d = n mod 4 \<and>
     (dma_Running d \<noteq> 0 \<longleftrightarrow> tst (CPUStop (dcon s)) (stop_bit (dma_CPU d) (dma_Num d))))"

definition same_chan :: "dma \<Rightarrow> dma \<Rightarrow> bool" where
  "same_chan d e \<longleftrightarrow> dma_CPU d = dma_CPU e \<and> dma_Num d = dma_Num e \<and> (dma_Running d = 0 \<longleftrightarrow> dma_Running e = 0)"

lemma stop_ok_cong:
  assumes "\<And>n. n < 8 \<Longrightarrow> same_chan (DMAs t n) (DMAs s n)"
    "\<And>n. n < 8 \<Longrightarrow> tst (CPUStop (dcon t)) (stop_bit (n div 4) (n mod 4)) = tst (CPUStop (dcon s)) (stop_bit (n div 4) (n mod 4))"
  shows "stop_ok t = stop_ok s"
proof -
  have "(dma_CPU (DMAs t n) = n div 4 \<and> dma_Num (DMAs t n) = n mod 4 \<and>
      (dma_Running (DMAs t n) \<noteq> 0 \<longleftrightarrow> tst (CPUStop (dcon t)) (stop_bit (dma_CPU (DMAs t n)) (dma_Num (DMAs t n))))) =
    (dma_CPU (DMAs s n) = n div 4 \<and> dma_Num (DMAs s n) = n mod 4 \<and>
      (dma_Running (DMAs s n) \<noteq> 0 \<longleftrightarrow> tst (CPUStop (dcon s)) (stop_bit (dma_CPU (DMAs s n)) (dma_Num (DMAs s n)))))"
    if "n < 8" for n
    using assms [OF that] unfolding same_chan_def by (cases "dma_CPU (DMAs s n) = n div 4 \<and> dma_Num (DMAs s n) = n mod 4") auto
  then show ?thesis unfolding stop_ok_def Let_def by blast
qed

lemma shl_pow2: "shl (2 ^ n) k = (2 ^ (n + k) :: u32)"
  by (simp add: push_bit_eq_mult power_add)

lemma stop_bit_nth: "num < 4 \<Longrightarrow> cpu < 2 \<Longrightarrow> tst x (stop_bit cpu num) = bit x (num + 16 * cpu)"
proof -
  assume "num < 4" "cpu < 2"
  have "shl (shl (1 :: u32) num) 16 = shl 1 (num + 16)" by (simp only: push_bit_push_bit add.commute)
  with \<open>cpu < 2\<close> show ?thesis unfolding stop_bit_def less_2_cases_iff by (auto simp: tst_pow2 shl_pow2)
qed

lemma chan_bits:
  fixes n k :: nat
  shows "n mod 4 + 16 * (n div 4) = k mod 4 + 16 * (k div 4) \<longleftrightarrow> n = k"
proof
  assume "n mod 4 + 16 * (n div 4) = k mod 4 + 16 * (k div 4)" (is "?x = ?y")
  then have "?x div 16 = ?y div 16" "?x mod 16 = ?y mod 16" by simp_all
  then have "n div 4 = k div 4" "n mod 4 = k mod 4" by simp_all
  then show "n = k" by (metis div_mult_mod_eq)
qed simp

lemma bit_StopCPU:
  assumes "n < 8" "k < 8"
  shows "bit (CPUStop (StopCPU (n div 4) (2 ^ (n mod 4)) c)) (k mod 4 + 16 * (k div 4)) \<longleftrightarrow>
    n = k \<or> bit (CPUStop c) (k mod 4 + 16 * (k div 4))"
proof -
  have "CPUStop (StopCPU (n div 4) (2 ^ (n mod 4)) c) = CPUStop c OR stop_bit (n div 4) (n mod 4)"
    by (simp add: StopCPU_def ARM_Halt_def stop_bit_def)
  moreover have "stop_bit (n div 4) (n mod 4) = 2 ^ (n mod 4 + 16 * (n div 4))"
  proof -
    have "n div 4 < 2" using assms(1) by simp
    then show ?thesis unfolding less_2_cases_iff stop_bit_def by (auto simp: shl_pow2)
  qed
  moreover have "k mod 4 + 16 * (k div 4) < 32" using assms(2) mod_less_divisor [of 4 k] by linarith
  ultimately show ?thesis using chan_bits [of n k] by (auto simp: bit_or_iff bit_exp_iff)
qed

lemma bit_ResumeCPU:
  assumes "n < 8" "k < 8"
  shows "bit (CPUStop (ResumeCPU (n div 4) (2 ^ (n mod 4)) c)) (k mod 4 + 16 * (k div 4)) \<longleftrightarrow>
    n \<noteq> k \<and> bit (CPUStop c) (k mod 4 + 16 * (k div 4))"
proof -
  have "n div 4 < 2" using assms(1) by simp
  then have "CPUStop (ResumeCPU (n div 4) (2 ^ (n mod 4)) c) = CPUStop c AND NOT (2 ^ (n mod 4 + 16 * (n div 4)))"
    unfolding less_2_cases_iff by (auto simp: ResumeCPU_def shl_pow2)
  moreover have "k mod 4 + 16 * (k div 4) < 32" using assms(2) mod_less_divisor [of 4 k] by linarith
  ultimately show ?thesis using chan_bits [of n k] by (auto simp: bit_and_iff bit_not_iff bit_exp_iff)
qed

lemma stop_ok_bits:
  "stop_ok s \<longleftrightarrow> (\<forall>n<8. dma_CPU (DMAs s n) = n div 4 \<and> dma_Num (DMAs s n) = n mod 4 \<and>
     (dma_Running (DMAs s n) \<noteq> 0 \<longleftrightarrow> bit (CPUStop (dcon s)) (n mod 4 + 16 * (n div 4))))"
proof -
  have "tst x (stop_bit (n div 4) (n mod 4)) = bit x (n mod 4 + 16 * (n div 4))" if "n < 8" for x n
    using that by (intro stop_bit_nth) simp_all
  note tb = this
  have "(dma_CPU d = n div 4 \<and> dma_Num d = n mod 4 \<and>
      (dma_Running d \<noteq> 0 \<longleftrightarrow> tst x (stop_bit (dma_CPU d) (dma_Num d)))) =
    (dma_CPU d = n div 4 \<and> dma_Num d = n mod 4 \<and> (dma_Running d \<noteq> 0 \<longleftrightarrow> bit x (n mod 4 + 16 * (n div 4))))"
    if "n < 8" for n d x
    using tb [OF that, of x] by auto
  then show ?thesis unfolding stop_ok_def Let_def by blast
qed

lemma stop_ok_start:
  assumes "stop_ok s" "n < 8"
  shows "stop_ok (DMA_Start n s)"
proof (cases "dma_Running (DMAs s n) = 0")
  case True
  have d: "dma_CPU (DMAs s n) = n div 4" "dma_Num (DMAs s n) = n mod 4" using assms by (simp_all add: stop_ok_bits)
  then have "DMA_Start n s = upd_nds (StopCPU (n div 4) (shl 1 (n mod 4))) (upd_dma n start_channel s)"
    using True by (simp add: DMA_Start_def Let_def start_channel_fields)
  then show ?thesis
    using assms unfolding stop_ok_bits
    by (simp add: bit_StopCPU upd_dma_def upd_nds_def start_channel_fields d)
qed (use assms in \<open>simp add: DMA_Start_def\<close>)

lemma stop_ok_resume:
  assumes "stop_ok s" "n < 8" "\<And>d. dma_CPU (f d) = dma_CPU d" "\<And>d. dma_Num (f d) = dma_Num d" "\<And>d. dma_Running (f d) = 0"
  shows "stop_ok (upd_nds (ResumeCPU (n div 4) (shl 1 (n mod 4))) (upd_dma n f s))"
  using assms(1,2) unfolding stop_ok_bits
  by (auto simp: bit_ResumeCPU upd_dma_def upd_nds_def assms(3-5))

lemma stop_ok_dma:
  assumes "stop_ok s" "same_chan (f (DMAs s n)) (DMAs s n)"
  shows "stop_ok (upd_dma n f s)"
  using assms(1) stop_ok_cong [of "upd_dma n f s" s] assms(2) by (simp add: upd_dma_def same_chan_def)

lemma stop_ok_nds:
  assumes "stop_ok s" "CPUStop (f (dcon s)) AND 0x000F000F = CPUStop (dcon s) AND 0x000F000F"
  shows "stop_ok (upd_nds f s)"
proof -
  have "bit (CPUStop (f (dcon s))) i = bit (CPUStop (dcon s)) i" if "i \<in> {0, 1, 2, 3, 16, 17, 18, 19}" for i
  proof -
    have "bit (0x000F000F :: u32) i" using that by (elim insertE emptyE) simp_all
    moreover have "bit (CPUStop (f (dcon s)) AND 0x000F000F) i = bit (CPUStop (dcon s) AND 0x000F000F) i" by (simp only: assms(2))
    ultimately show ?thesis by (simp only: bit_and_iff simp_thms)
  qed
  moreover have "n mod 4 + 16 * (n div 4) \<in> {0, 1, 2, 3, 16, 17, 18, 19}" if "n < 8" for n :: nat
  proof -
    have "n \<in> {0, 1, 2, 3, 4, 5, 6, 7}" using that by (simp add: less_Suc_eq numeral_eq_Suc)
    then show ?thesis by (elim insertE emptyE) simp_all
  qed
  ultimately show ?thesis using assms(1) unfolding stop_ok_bits upd_nds_def by simp
qed


lemma same_chan_refl [simp]: "same_chan d d"
  by (simp add: same_chan_def)

lemma stop_ok_StartIfNeeded: "stop_ok s \<Longrightarrow> n < 8 \<Longrightarrow> stop_ok (StartIfNeeded mode n s)"
  by (simp add: StartIfNeeded_def stop_ok_start)

lemma stop_ok_fold:
  "stop_ok s \<Longrightarrow> \<forall>n \<in> set ns. n < 8 \<Longrightarrow> (\<And>n s. n < 8 \<Longrightarrow> stop_ok s \<Longrightarrow> stop_ok (f n s)) \<Longrightarrow> stop_ok (fold f ns s)"
  by (induction ns arbitrary: s) simp_all

lemma chans_lt: "cpu < 2 \<Longrightarrow> \<forall>n \<in> set (chans cpu). n < 8"
  by (auto simp: chans_def Let_def)

lemma stop_ok_CheckDMAs: "stop_ok s \<Longrightarrow> cpu < 2 \<Longrightarrow> stop_ok (CheckDMAs cpu mode s)"
  unfolding CheckDMAs_def by (rule stop_ok_fold) (simp_all add: chans_lt stop_ok_StartIfNeeded)

lemma stop_ok_StopDMAs: "stop_ok s \<Longrightarrow> cpu < 2 \<Longrightarrow> stop_ok (StopDMAs cpu mode s)"
  unfolding StopDMAs_def
  by (rule stop_ok_fold) (simp_all add: chans_lt StopIfNeeded_def stop_ok_dma same_chan_def)

lemma stop_ok_CheckFIFODMA: "stop_ok s \<Longrightarrow> stop_ok (CheckFIFODMA s)"
  by (simp add: CheckFIFODMA_def stop_ok_CheckDMAs)

lemma CPUStop_or_and: "(x OR CPUStop_GXStall) AND 0x000F000F = x AND 0x000F000F"
  by (simp only: bit.conj_disj_distrib2) (simp add: CPUStop_GXStall_def)

lemma stop_ok_GXFIFOStall: "stop_ok s \<Longrightarrow> stop_ok (GXFIFOStall s)"
proof -
  assume s: "stop_ok s"
  have t: "stop_ok (upd_nds (\<lambda>c. c\<lparr>CPUStop := CPUStop c OR CPUStop_GXStall\<rparr>) s)"
    by (rule stop_ok_nds [OF s]) (simp add: CPUStop_or_and)
  have "stop_ok (upd_nds (ARM_Halt 0 2) u)" "stop_ok (fold (\<lambda>n. upd_dma n StallIfRunning) (chans 0) u)" if "stop_ok u" for u :: "'a dsys"
    using stop_ok_nds [OF that, of "ARM_Halt 0 2"]
      chans_lt [of 0]
    by (auto simp: ARM_Halt_def StallIfRunning_def same_chan_def intro!: stop_ok_fold that stop_ok_dma)
  with s t show ?thesis by (simp add: GXFIFOStall_def Let_def)
qed

lemma stop_ok_WriteCnt: "stop_ok s \<Longrightarrow> n < 8 \<Longrightarrow> stop_ok (WriteCnt val n s)"
  by (auto simp: WriteCnt_def Let_def same_chan_def intro!: stop_ok_start stop_ok_CheckFIFODMA stop_ok_dma)

lemma SetIRQ_CPUStop: "CPUStop (SetIRQ cpu irq c) AND 0x000F000F = CPUStop c AND 0x000F000F"
proof -
  have "((x AND NOT CPUStop_Sleep) OR CPUStop_Wakeup) AND 0x000F000F = x AND 0x000F000F" for x :: u32
    by (simp only: bit.conj_disj_distrib2 and.assoc) (simp add: CPUStop_Sleep_def CPUStop_Wakeup_def)
  then show ?thesis by (simp add: SetIRQ_def UpdateIRQ_def Let_def)
qed

lemma stop_ok_transfer_end:
  assumes "stop_ok u" "n < 8"
  shows "stop_ok (transfer_end (n div 4) n u)"
proof -
  define v where "v = upd_dma n (\<lambda>d. d\<lparr>Executing := False, Stall := False\<rparr>) u"
  have v: "stop_ok v" unfolding v_def by (rule stop_ok_dma [OF assms(1)]) (simp add: same_chan_def)
  then have num: "dma_Num (DMAs v n) = n mod 4" using assms(2) by (simp add: stop_ok_bits)
  note resume = stop_ok_resume [OF _ assms(2)]
  show ?thesis
  proof (cases "RemCount (DMAs v n) = 0")
    case True
    define w where "w = (if \<not> tst (dma_Cnt (DMAs v n)) (shl 1 25)
      then upd_dma n (\<lambda>d. d\<lparr>dma_Cnt := dma_Cnt d AND NOT (shl 1 31)\<rparr>) v else v)"
    define x where "x = (if tst (dma_Cnt (DMAs w n)) (shl 1 30) then upd_nds (SetIRQ (n div 4) (IRQ_DMA0 + n mod 4)) w else w)"
    have w: "stop_ok w" using v unfolding w_def by (auto intro!: stop_ok_dma simp: same_chan_def)
    then have x: "stop_ok x" unfolding x_def by (auto intro!: stop_ok_nds SetIRQ_CPUStop)
    have "transfer_end (n div 4) n u = upd_nds (ResumeCPU (n div 4) (shl 1 (n mod 4)))
        (upd_dma n (\<lambda>d. d\<lparr>dma_Running := 0, InProgress := False\<rparr>) x)"
      using True unfolding transfer_end_def v_def [symmetric] Let_def num w_def [symmetric] x_def [symmetric] by simp
    then show ?thesis using resume [OF x, of "\<lambda>d. d\<lparr>dma_Running := 0, InProgress := False\<rparr>"] by simp
  next
    case False
    define w where "w = upd_nds (ResumeCPU (n div 4) (shl 1 (n mod 4))) (upd_dma n (\<lambda>d. d\<lparr>dma_Running := 0\<rparr>) v)"
    have "stop_ok w" using resume [OF v, of "\<lambda>d. d\<lparr>dma_Running := 0\<rparr>"] by (simp add: w_def)
    moreover have "transfer_end (n div 4) n u =
        (if IterCount (DMAs v n) = 0 then if n div 4 = 0 \<and> StartMode (DMAs v n) = 7 then CheckFIFODMA w else w else v)"
      using False unfolding transfer_end_def v_def [symmetric] Let_def num w_def [symmetric] by simp
    moreover have "stop_ok (CheckFIFODMA w)" using calculation(1) by (rule stop_ok_CheckFIFODMA)
    ultimately show ?thesis using v by simp
  qed
qed

context quiet_bus
begin

lemma stop_ok_Run_on:
  assumes "stop_ok s" "n < 8" "dma_Running (DMAs s n) \<noteq> 0" "Run_on (n div 4) env n s = Some t"
  shows "stop_ok t"
proof (cases "dma_target (n div 4) (dcon s) \<le> dma_time (n div 4) (dcon s)")
  case False
  define r where "r = upd_dma n (\<lambda>d. d\<lparr>Executing := True, dma_Running := 1\<rparr>) s"
  have r: "stop_ok r" unfolding r_def by (rule stop_ok_dma [OF assms(1)]) (use assms(3) in \<open>simp add: same_chan_def\<close>)
  from False assms(4) obtain w b u where u: "transfer_loop env (n div 4) w n b r = Some u" "t = transfer_end (n div 4) n u"
    unfolding Run_on_def Let_def r_def [symmetric] by auto
  have "stop_ok u"
  proof (cases "Stall (DMAs r n)")
    case True
    then have "u = r" using u(1) by (subst (asm) transfer_loop.simps) simp
    then show ?thesis using r by simp
  next
    case False
    from transfer_loop_effect [OF this, of "n div 4" w b] u(1) obtain j where j:
      "unburst (DMAs u n) = unburst (moved w j (DMAs r n))" "\<And>i. i \<noteq> n \<Longrightarrow> DMAs u i = DMAs r i" "untimed (dcon u) = untimed (dcon r)"
      by auto
    have "CPUStop (untimed c) = CPUStop c" for c by (simp add: untimed_def)
    then have "CPUStop (dcon u) = CPUStop (dcon r)" using j(3) by metis
    moreover have "same_chan (DMAs u i) (DMAs r i)" for i
      using j(2) [of i] unburst_eqD [OF j(1)] by (cases "i = n") (simp_all add: same_chan_def moved_def)
    ultimately show ?thesis using stop_ok_cong [of u r] r by simp
  qed
  then show ?thesis unfolding u(2) by (rule stop_ok_transfer_end) (rule assms(2))
qed (use assms in \<open>simp add: Run_on_def\<close>)

end

section \<open>Every operation\<close>

inductive dma_step :: "'m dma_env \<Rightarrow> 'm dsys \<Rightarrow> 'm dsys \<Rightarrow> bool" for env where
  write32: "cpu < 2 \<Longrightarrow> write_dma32 cpu addr val32 s = Some t \<Longrightarrow> dma_step env s t"
| write16: "cpu < 2 \<Longrightarrow> write_dma16 cpu addr val16 s = Some t \<Longrightarrow> dma_step env s t"
| check: "cpu < 2 \<Longrightarrow> dma_step env s (CheckDMAs cpu mode s)"
| stop: "cpu < 2 \<Longrightarrow> dma_step env s (StopDMAs cpu mode s)"
| fifo: "dma_step env s (CheckFIFODMA s)"
| stall: "dma_step env s (GXFIFOStall s)"
| run: "n < 8 \<Longrightarrow> DMA_Run env n s = Some t \<Longrightarrow> dma_step env s t"
| console: "CPUStop (f (dcon s)) AND 0x000F000F = CPUStop (dcon s) AND 0x000F000F \<Longrightarrow> dma_step env s (upd_nds f s)"
| memory: "dma_step env s (s\<lparr>dmem := m\<rparr>)"

lemma ports_lt: "(addr, n, r) \<in> set dma_ports32 \<Longrightarrow> n < 4" "(addr, n, r) \<in> set dma_ports16 \<Longrightarrow> n < 4"
  by (auto simp: dma_ports32_def dma_ports16_def)

lemma stop_ok_step:
  assumes "dma_step env s t" "quiet_bus env mm" "stop_ok s"
  shows "stop_ok t"
  using assms(1,3)
proof (induction rule: dma_step.induct)
  case (write32 cpu addr val32 s t)
  then obtain n r where p: "map_of dma_ports32 addr = Some (n, r)" by (auto simp: write_dma32_def)
  have "4 * cpu + n < 8" using ports_lt(1) [OF map_of_SomeD [OF p]] write32.hyps(1) by simp
  then show ?case using write32 p
    by (auto simp: write_dma32_def Let_def same_chan_def intro!: stop_ok_WriteCnt stop_ok_dma split: if_splits)
next
  case (write16 cpu addr val16 s t)
  then obtain n r where p: "map_of dma_ports16 addr = Some (n, r)" by (auto simp: write_dma16_def)
  have "4 * cpu + n < 8" using ports_lt(2) [OF map_of_SomeD [OF p]] write16.hyps(1) by simp
  then show ?case using write16 p by (auto simp: write_dma16_def Let_def intro!: stop_ok_WriteCnt split: if_splits)
next
  case (run n s t)
  then have c: "dma_CPU (DMAs s n) = n div 4" "n div 4 < 2" by (simp_all add: stop_ok_bits)
  show ?case
  proof (cases "dma_Running (DMAs s n) = 0")
    case False
    then have "Run_on (n div 4) env n s = Some t" using DMA_Run_on [of s n env] run.hyps(2) c by simp
    then show ?thesis by (rule quiet_bus.stop_ok_Run_on [OF assms(2) run.prems run.hyps(1) False])
  qed (use run in \<open>simp add: DMA_Run_def\<close>)
next
  case (memory s m)
  then show ?case using stop_ok_cong [of "s\<lparr>dmem := m\<rparr>" s] by simp
qed (simp_all add: stop_ok_CheckDMAs stop_ok_StopDMAs stop_ok_CheckFIFODMA stop_ok_GXFIFOStall stop_ok_nds)




end
