(* ===== verification/Key1.thy ===== *)
theory Key1
  imports Prelude
begin

text \<open>
  The ciphers of the cartridge interface (\<^verbatim>\<open>src/src/NDSCart.cpp\<close>): KEY1, its key schedule and what it
  is used for when a cartridge is inserted and booted, and the generator of KEY2. A pair of words
  \<open>(data[0], data[1])\<close> is what the code passes as a pointer.
\<close>

section \<open>KEY1\<close>

type_synonym keybuf = "nat \<Rightarrow> u32"
type_synonym block64 = "u32 \<times> u32"

definition ByteSwap :: "u32 \<Rightarrow> u32" where
  "ByteSwap val = shr val 24 OR (shr val 8 AND 0xFF00) OR (shl val 8 AND 0xFF0000) OR shl val 24"

text \<open>The body of both loops, on \<open>(x, y)\<close>.\<close>

definition Key1_F :: "keybuf \<Rightarrow> u32 \<Rightarrow> u32" where
  "Key1_F kb z =
     (let x = kb (0x012 + unat (shr z 24));
          x = x + kb (0x112 + unat (shr z 16 AND 0xFF));
          x = x XOR kb (0x212 + unat (shr z 8 AND 0xFF))
      in x + kb (0x312 + unat (z AND 0xFF)))"

definition Key1_round :: "keybuf \<Rightarrow> nat \<Rightarrow> u32 \<times> u32 \<Rightarrow> u32 \<times> u32" where
  "Key1_round kb i = (\<lambda>(x, y). let z = kb i XOR x in (Key1_F kb z XOR y, z))"

definition Key1_Encrypt :: "keybuf \<Rightarrow> block64 \<Rightarrow> block64" where
  "Key1_Encrypt kb data =
     (let (x, y) = fold (Key1_round kb) [0..<0x10] (snd data, fst data)
      in (x XOR kb 0x10, y XOR kb 0x11))"

definition Key1_Decrypt :: "keybuf \<Rightarrow> block64 \<Rightarrow> block64" where
  "Key1_Decrypt kb data =
     (let (x, y) = fold (Key1_round kb) (rev [0x2..<0x12]) (snd data, fst data)
      in (x XOR kb 0x1, y XOR kb 0x0))"

text \<open>The key schedule, on the key buffer and \<open>keycode[3]\<close>.\<close>

definition xor_keycode :: "nat \<Rightarrow> (nat \<Rightarrow> u32) \<Rightarrow> keybuf \<Rightarrow> keybuf" where
  "xor_keycode md keycode kb = (\<lambda>i. if i \<le> 0x11 then kb i XOR ByteSwap (keycode (i mod md)) else kb i)"

definition refill_step :: "nat \<Rightarrow> block64 \<times> keybuf \<Rightarrow> block64 \<times> keybuf" where
  "refill_step k = (\<lambda>(temp, kb). let temp = Key1_Encrypt kb temp; i = 2 * k
     in (temp, kb(i := snd temp, i + 1 := fst temp)))"

definition Key1_ApplyKeycode :: "nat \<Rightarrow> (nat \<Rightarrow> u32) \<times> keybuf \<Rightarrow> (nat \<Rightarrow> u32) \<times> keybuf" where
  "Key1_ApplyKeycode md = (\<lambda>(keycode, kb).
     let (a, b) = Key1_Encrypt kb (keycode 1, keycode 2); keycode = keycode(1 := a, 2 := b);
         (a, b) = Key1_Encrypt kb (keycode 0, keycode 1); keycode = keycode(0 := a, 1 := b);
         kb = xor_keycode md keycode kb
     in (keycode, snd (fold refill_step [0..<0x209] ((0, 0), kb))))"

text \<open>\<open>load\<close> is \<^verbatim>\<open>Key1_LoadKeyBuf\<close>: a copy out of one of the BIOS images, or zeros.\<close>

definition Key1_InitKeycode :: "(bool \<Rightarrow> keybuf) \<Rightarrow> bool \<Rightarrow> u32 \<Rightarrow> nat \<Rightarrow> nat \<Rightarrow> keybuf" where
  "Key1_InitKeycode load dsi idcode level md =
     (let s = ((\<lambda>i. if i = 0 then idcode else if i = 1 then shr idcode 1 else shl idcode 1), load dsi);
          s = (if 1 \<le> level then Key1_ApplyKeycode md s else s);
          s = (if 2 \<le> level then Key1_ApplyKeycode md s else s);
          s = (if 3 \<le> level then
                 let (keycode, kb) = s
                 in Key1_ApplyKeycode md (keycode(1 := shl (keycode 1) 1, 2 := shr (keycode 2) 1), kb)
               else s)
      in snd s)"

section \<open>KEY2\<close>

definition Key2_step_X :: "u64 \<Rightarrow> u64" where
  "Key2_step_X x = (((shr x 5 XOR shr x 17 XOR shr x 18 XOR shr x 31) AND 0xFF) + shl x 8) AND 0x7FFFFFFFFF"

definition Key2_step_Y :: "u64 \<Rightarrow> u64" where
  "Key2_step_Y y = (((shr y 5 XOR shr y 23 XOR shr y 18 XOR shr y 31) AND 0xFF) + shl y 8) AND 0x7FFFFFFFFF"

definition Key2_Encrypt :: "nat \<Rightarrow> u64 \<times> u64 \<Rightarrow> u64 \<times> u64" where
  "Key2_Encrypt len = (\<lambda>(x, y). ((Key2_step_X ^^ len) x, (Key2_step_Y ^^ len) y))"

section \<open>The secure area\<close>

text \<open>The first \<^verbatim>\<open>0x800\<close> bytes of the ARM9 binary as 256 blocks of two words. \<open>encryObj\<close> are the two
  words of the string.\<close>

definition encryObj :: block64 where "encryObj = (0x72636E65, 0x6A624F79)"
definition wiped :: u32 where "wiped = 0xE7FFDEFF"

text \<open>\<^verbatim>\<open>NDSCartSlot::SetCart\<close> on the secure area of the inserted cartridge.\<close>

definition reencrypt :: "(bool \<Rightarrow> keybuf) \<Rightarrow> u32 \<Rightarrow> block64 list \<Rightarrow> block64 list" where
  "reencrypt load gamecode area =
     (if fst (area ! 0) = wiped \<and> fst (area ! 2) \<noteq> wiped then
        let area = area[0 := encryObj];
            area = map (Key1_Encrypt (Key1_InitKeycode load False gamecode 3 2)) area
        in area[0 := Key1_Encrypt (Key1_InitKeycode load False gamecode 2 2) (area ! 0)]
      else area)"

definition DecryptSecureArea :: "(bool \<Rightarrow> keybuf) \<Rightarrow> u32 \<Rightarrow> block64 list \<Rightarrow> block64 list" where
  "DecryptSecureArea load gamecode area =
     (let out = area[0 := Key1_Decrypt (Key1_InitKeycode load False gamecode 2 2) (area ! 0)];
          out = map (Key1_Decrypt (Key1_InitKeycode load False gamecode 3 2)) out
      in if out ! 0 = encryObj then out[0 := (wiped, wiped)]
         else replicate (length area) (wiped, wiped))"

section \<open>Decryption\<close>

lemma Key1_round_back:
  assumes "Key1_round kb j (x, y) = (x', y')"
  shows "Key1_round kb (Suc (Suc j)) (y' XOR kb (Suc (Suc j)), x' XOR kb (Suc j)) = (y XOR kb (Suc j), x XOR kb j)"
proof -
  have "z XOR (w XOR z) = w" "z XOR (z XOR w) = w" for z w :: u32
    by (rule bit_word_eqI; auto simp: bit_xor_iff)+
  with assms show ?thesis by (auto simp: Key1_round_def Let_def xor.assoc xor.commute xor.left_commute)
qed

lemma Key1_rounds_back:
  fixes kb :: keybuf and s :: "u32 \<times> u32"
  defines "st \<equiv> \<lambda>n. fold (Key1_round kb) [0..<n] s"
  shows "fold (Key1_round kb) (rev [2..<Suc (Suc n)]) (snd (st n) XOR kb (Suc n), fst (st n) XOR kb n) =
    (snd s XOR kb 1, fst s XOR kb 0)"
proof (induction n)
  case 0
  show ?case by (simp add: st_def)
next
  case (Suc n)
  have "Key1_round kb n (fst (st n), snd (st n)) = (fst (st (Suc n)), snd (st (Suc n)))" by (simp add: st_def)
  from Key1_round_back [OF this] show ?case using Suc by simp
qed

lemma Key1_dec_enc: "Key1_Decrypt kb (Key1_Encrypt kb data) = data"
proof -
  define st where "st = (\<lambda>n. fold (Key1_round kb) [0..<n] (snd data, fst data))"
  have e: "Key1_Encrypt kb data = (fst (st 16) XOR kb 16, snd (st 16) XOR kb 17)"
    by (simp add: Key1_Encrypt_def st_def case_prod_beta Let_def)
  have "fold (Key1_round kb) (rev [2..<18]) (snd (st 16) XOR kb 17, fst (st 16) XOR kb 16) = (fst data XOR kb 1, snd data XOR kb 0)"
    using Key1_rounds_back [of kb 16 "(snd data, fst data)"] by (simp add: st_def)
  then show ?thesis by (simp add: Key1_Decrypt_def e xor.assoc)
qed

lemma Key1_enc_dec: "Key1_Encrypt kb (Key1_Decrypt kb data) = data"
proof -
  have "inj (Key1_Encrypt kb)" by (rule inj_on_inverseI) (rule Key1_dec_enc)
  then have "surj (Key1_Encrypt kb)" by (simp add: finite_UNIV_inj_surj)
  then obtain d where "data = Key1_Encrypt kb d" by (metis surjD)
  then show ?thesis by (simp only: Key1_dec_enc)
qed

text \<open>KEY1 decryption and encryption undo each other, whatever the key buffer.\<close>

theorem Key1_inverse:
  "Key1_Decrypt kb (Key1_Encrypt kb data) = data \<and> Key1_Encrypt kb (Key1_Decrypt kb data) = data"
  by (simp add: Key1_dec_enc Key1_enc_dec)

text \<open>C21: a cartridge image whose secure area was dumped decrypted, with its first words wiped, is encrypted
  again when the cartridge is inserted, and the boot code's decryption gives back the dumped area, with both
  words of its first block wiped.\<close>

theorem secure_area_restored:
  assumes "length area = 0x100" "fst (area ! 0) = wiped" "fst (area ! 2) \<noteq> wiped"
  shows "DecryptSecureArea load gamecode (reencrypt load gamecode area) = area[0 := (wiped, wiped)]"
proof -
  define k3 where "k3 = Key1_InitKeycode load False gamecode 3 2"
  define k2 where "k2 = Key1_InitKeycode load False gamecode 2 2"
  define enc where "enc = map (Key1_Encrypt k3) (area[0 := encryObj])"
  have len: "0 < length area" "0 < length enc" using assms(1) by (simp_all add: enc_def)
  have r: "reencrypt load gamecode area = enc[0 := Key1_Encrypt k2 (enc ! 0)]"
    using assms(2,3) by (simp add: reencrypt_def Let_def k3_def k2_def enc_def)
  have d: "map (Key1_Decrypt k3) enc = area[0 := encryObj]" by (simp add: enc_def o_def Key1_dec_enc)
  have "(area[0 := encryObj]) ! 0 = encryObj" using len by simp
  then show ?thesis
    using len by (simp add: DecryptSecureArea_def r k2_def [symmetric] k3_def [symmetric] Let_def Key1_dec_enc d)
qed

theorem secure_area_restored_witness:
  "DecryptSecureArea (\<lambda>_ i. word_of_nat i) 0x45414241
     (reencrypt (\<lambda>_ i. word_of_nat i) 0x45414241 ((wiped, 5) # replicate 0xFF (1, 2))) =
   (wiped, wiped) # replicate 0xFF (1, 2)"
  using secure_area_restored [of "(wiped, 5) # replicate 0xFF (1, 2)" "\<lambda>_ i. word_of_nat i" "0x45414241"]
  by (simp add: wiped_def)

end
