(* ===== verification/Buffers.thy ===== *)
theory Buffers
  imports Arm
begin

text \<open>
  Byte buffers, as functions from indices to bytes: a copy that the code lets run past the end of a
  buffer changes bytes at higher indices.
\<close>

type_synonym mem = "nat \<Rightarrow> u8"

definition memset :: "nat \<Rightarrow> u8 \<Rightarrow> nat \<Rightarrow> mem \<Rightarrow> mem" where
  "memset off v n d = (\<lambda>i. if off \<le> i \<and> i < off + n then v else d i)"

definition memcpy :: "nat \<Rightarrow> mem \<Rightarrow> nat \<Rightarrow> nat \<Rightarrow> mem \<Rightarrow> mem" where
  "memcpy doff src soff n d = (\<lambda>i. if doff \<le> i \<and> i < doff + n then src (soff + (i - doff)) else d i)"

definition of_list :: "u8 list \<Rightarrow> mem" where
  "of_list xs = (\<lambda>i. if i < length xs then xs ! i else 0)"

end
