(* ===== verification/Cart.thy ===== *)
theory Cart
  imports Key1 Buffers
begin

text \<open>
  Nintendo DS cartridges (\<^verbatim>\<open>src/src/NDSCart.h\<close>, \<^verbatim>\<open>NDSCart.cpp\<close>): the ROM commands of every cartridge
  and those of the retail cartridges, their save memories behind the SPI interface (two kinds of EEPROM,
  FLASH, NAND), and the copy of the save memory that the front end keeps for the save file
  (\<^verbatim>\<open>frontend/qt_sdl/SaveManager.cpp\<close>).

  A virtual method is a case distinction on the class of the cartridge, which is in \<open>cart_type\<close>. The
  cartridges with an SD card are not modelled; their methods are in the record \<open>cart_env\<close>.
\<close>

section \<open>Buffers\<close>

text \<open>The loop \<^verbatim>\<open>for (pos = 0; pos < len; pos += 4) *(u32*)&data[pos] = v;\<close>\<close>

definition fill32 :: "u32 \<Rightarrow> nat \<Rightarrow> mem \<Rightarrow> mem" where
  "fill32 v len d = fold (\<lambda>k. put32 (4 * k) v) [0..<(len + 3) div 4] d"

definition be32 :: "mem \<Rightarrow> nat \<Rightarrow> u32" where
  "be32 c i = shl (ucast (c i)) 24 OR shl (ucast (c (i + 1))) 16 OR shl (ucast (c (i + 2))) 8 OR ucast (c (i + 3))"

section \<open>The save file\<close>

record save_manager =
  Buffer :: mem
  Length :: u32
  FlushRequested :: bool
  SecondaryBuffer :: "mem option"
  SecondaryBufferLength :: u32
  FlushVersion :: u32
  PreviousFlushVersion :: u32
  TimeAtLastFlushRequest :: int

definition SaveManager :: save_manager where
  "SaveManager = \<lparr>Buffer = (\<lambda>_. 0), Length = 0, FlushRequested = False, SecondaryBuffer = None,
     SecondaryBufferLength = 0, FlushVersion = 0, PreviousFlushVersion = 0, TimeAtLastFlushRequest = 0\<rparr>"

text \<open>A buffer from \<^verbatim>\<open>std::make_unique\<close> is zero.\<close>

definition RequestFlush :: "mem \<Rightarrow> u32 \<Rightarrow> u32 \<Rightarrow> u32 \<Rightarrow> save_manager \<Rightarrow> save_manager" where
  "RequestFlush savedata savelen writeoffset writelen m =
     (let m = (if Length m \<noteq> savelen then
                 m\<lparr>Length := savelen, Buffer := memcpy 0 savedata 0 (unat savelen) (\<lambda>_. 0)\<rparr>
               else if writeoffset + writelen > savelen then
                 let len = savelen - writeoffset;
                     b = memcpy (unat writeoffset) savedata (unat writeoffset) (unat len) (Buffer m);
                     len = writelen - len;
                     len = (if len > savelen then savelen else len)
                 in m\<lparr>Buffer := memcpy 0 savedata 0 (unat len) b\<rparr>
               else m\<lparr>Buffer := memcpy (unat writeoffset) savedata (unat writeoffset) (unat writelen) (Buffer m)\<rparr>)
      in m\<lparr>FlushRequested := True\<rparr>)"

text \<open>\<open>now\<close> is the clock of the host.\<close>

definition CheckFlush :: "int \<Rightarrow> save_manager \<Rightarrow> save_manager" where
  "CheckFlush now m =
     (if \<not> FlushRequested m then m
      else
        let sb = (if SecondaryBufferLength m \<noteq> Length m then Some (\<lambda>_. 0) else SecondaryBuffer m)
        in m\<lparr>SecondaryBufferLength := Length m,
             SecondaryBuffer := map_option (memcpy 0 (Buffer m) 0 (unat (Length m))) sb, FlushRequested := False, FlushVersion := FlushVersion m + 1, TimeAtLastFlushRequest := now\<rparr>)"

definition NeedsFlush :: "save_manager \<Rightarrow> bool" where
  "NeedsFlush m \<longleftrightarrow> FlushVersion m \<noteq> PreviousFlushVersion m"

text \<open>\<^verbatim>\<open>FlushSecondaryBuffer\<close> without a destination: the bytes written to the file, if any; \<open>opens\<close> says
  whether the file can be opened.\<close>

definition FlushSecondaryBuffer :: "bool \<Rightarrow> save_manager \<Rightarrow> u8 list option \<times> save_manager" where
  "FlushSecondaryBuffer opens m =
     (case SecondaryBuffer m of
        None \<Rightarrow> (None, m)
      | Some b \<Rightarrow>
          if \<not> NeedsFlush m then (None, m)
          else (if opens then Some (map b [0..<unat (SecondaryBufferLength m)]) else None,
                m\<lparr>PreviousFlushVersion := FlushVersion m, TimeAtLastFlushRequest := 0\<rparr>))"

section \<open>The cartridge\<close>

datatype CartType = Default | Retail | RetailNAND | RetailIR | RetailBT | Homebrew | UnlicensedR4

record ROMListEntry =
  GameCode :: u32
  ROMSize :: u32
  SaveMemType :: u32

text \<open>\<open>ROM\<close> gives the memory from the start of the image on, \<open>ROMLength\<close> bytes of which are the image. The
  user data of a cartridge are the front end's save manager.\<close>

record cart =
  UserData :: save_manager
  ROM :: mem
  ROMLength :: u32
  ChipID :: u32
  cart_IsDSi :: bool
  DSiMode :: bool
  DSiBase :: u32
  CmdEncMode :: u32
  DataEncMode :: u32
  ROMParams :: ROMListEntry
  cart_type :: CartType
  SRAM :: mem
  SRAMLength :: u32
  SRAMType :: u32
  SRAMCmd :: u8
  SRAMAddr :: u32
  SRAMFirstAddr :: u32
  SRAMStatus :: u8
  SRAMBase :: u32
  SRAMWindow :: u32
  SRAMWriteBuffer :: mem
  SRAMWritePos :: u32
  IRVersion :: u32
  IRCmd :: u8

text \<open>Fields of the header (\<^verbatim>\<open>NDS_Header.h\<close>).\<close>

definition hdr_GameCode :: "mem \<Rightarrow> u32" where "hdr_GameCode rom = get32 rom 0x0C"
definition hdr_IsDSi :: "mem \<Rightarrow> bool" where "hdr_IsDSi rom = tst (rom 0x12) 0x02"
definition hdr_ARM9ROMOffset :: "mem \<Rightarrow> u32" where "hdr_ARM9ROMOffset rom = get32 rom 0x20"
definition hdr_BannerOffset :: "mem \<Rightarrow> u32" where "hdr_BannerOffset rom = get32 rom 0x68"
definition hdr_DSiRegionStart :: "mem \<Rightarrow> u16" where "hdr_DSiRegionStart rom = get16 rom 0x92"
definition hdr_DSiRegionMask :: "mem \<Rightarrow> u32" where "hdr_DSiRegionMask rom = get32 rom 0x1B0"

definition hdr_IsHomebrew :: "mem \<Rightarrow> bool" where
  "hdr_IsHomebrew rom \<longleftrightarrow> hdr_ARM9ROMOffset rom < 0x4000 \<or> hdr_GameCode rom = 0x23232323"

definition CartCommon :: "mem \<Rightarrow> u32 \<Rightarrow> u32 \<Rightarrow> bool \<Rightarrow> ROMListEntry \<Rightarrow> CartType \<Rightarrow> save_manager \<Rightarrow> cart" where
  "CartCommon rom len chipid badDSiDump romparams ty userdata =
     \<lparr>UserData = userdata, ROM = rom, ROMLength = len, ChipID = chipid,
      cart_IsDSi = (hdr_IsDSi rom \<and> \<not> badDSiDump), DSiMode = False,
      DSiBase = shl (ucast (hdr_DSiRegionStart rom)) 19, CmdEncMode = 0, DataEncMode = 0, ROMParams = romparams,
      cart_type = ty, SRAM = (\<lambda>_. 0), SRAMLength = 0, SRAMType = 0, SRAMCmd = 0, SRAMAddr = 0, SRAMFirstAddr = 0,
      SRAMStatus = 0, SRAMBase = 0, SRAMWindow = 0, SRAMWriteBuffer = (\<lambda>_. 0), SRAMWritePos = 0,
      IRVersion = 0, IRCmd = 0\<rparr>"

definition Common_Reset :: "cart \<Rightarrow> cart" where
  "Common_Reset c = c\<lparr>CmdEncMode := 0, DataEncMode := 0, DSiMode := False\<rparr>"

definition Common_SetupDirectBoot :: "int \<Rightarrow> cart \<Rightarrow> cart" where
  "Common_SetupDirectBoot ct c = c\<lparr>CmdEncMode := 2, DataEncMode := 2, DSiMode := cart_IsDSi c \<and> ct = 1\<rparr>"

definition ReadROM :: "cart \<Rightarrow> u32 \<Rightarrow> u32 \<Rightarrow> u32 \<Rightarrow> mem \<Rightarrow> mem" where
  "ReadROM c addr len off data =
     (if addr \<ge> ROMLength c then data
      else
        let len = (if addr + len > ROMLength c then ROMLength c - addr else len)
        in memcpy (unat off) (ROM c) (unat addr) (unat len) data)"

definition has_banner :: "cart \<Rightarrow> bool" where
  "has_banner c \<longleftrightarrow> (let bannersize = (if hdr_IsDSi (ROM c) then 0x23C0 else 0xA40) :: u64 in
     0x200 \<le> hdr_BannerOffset (ROM c) \<and> ucast (hdr_BannerOffset (ROM c)) < ucast (ROMLength c) - bannersize)"

section \<open>Commands of every cartridge\<close>

text \<open>\<open>load\<close> is \<^verbatim>\<open>Key1_LoadKeyBuf\<close> of the slot. A command gives the direction of the transfer, the
  cartridge, the key buffer of the slot and the transfer buffer.\<close>

type_synonym command_result = "u32 \<times> cart \<times> keybuf \<times> mem"

text \<open>The commands before KEY1: the loop of the header command repeats its first 4 KB.\<close>

definition read_header :: "cart \<Rightarrow> u32 \<Rightarrow> mem \<Rightarrow> mem" where
  "read_header c len data =
     (let data = memset 0 0 (unat len) data in
      if len > 0x1000 then
        let data = ReadROM c 0 0x1000 0 data
        in fold (\<lambda>k d. memcpy (0x1000 * k) d 0 0x1000 d) [1..<(unat len + 0xFFF) div 0x1000] data
      else ReadROM c 0 len 0 data)"

definition raw_command :: "(bool \<Rightarrow> keybuf) \<Rightarrow> mem \<Rightarrow> u32 \<Rightarrow> cart \<Rightarrow> keybuf \<Rightarrow> mem \<Rightarrow> command_result" where
  "raw_command load cmd len c kb data =
     (if cmd 0 = 0x9F then (0, c, kb, memset 0 0xFF (unat len) data)
      else if cmd 0 = 0x00 then (0, c, kb, read_header c len data)
      else if cmd 0 = 0x90 then (0, c, kb, fill32 (ChipID c) (unat len) data)
      else if cmd 0 = 0x3C then
        (0, c\<lparr>CmdEncMode := 1, DSiMode := False\<rparr>, Key1_InitKeycode load False (get32 (ROM c) 0xC) 2 2, data)
      else if cmd 0 = 0x3D \<and> cart_IsDSi c then
        (0, c\<lparr>CmdEncMode := 1, DSiMode := True\<rparr>, Key1_InitKeycode load True (get32 (ROM c) 0xC) 1 2, data)
      else (0, c, kb, data))"

text \<open>The two words of \<^verbatim>\<open>cmddec\<close> after the decryption.\<close>

definition decrypt_command :: "keybuf \<Rightarrow> mem \<Rightarrow> block64" where
  "decrypt_command kb cmd =
     (let (d0, d4) = Key1_Decrypt kb (ByteSwap (get32 cmd 4), ByteSwap (get32 cmd 0))
      in (ByteSwap d4, ByteSwap d0))"

definition key1_command :: "mem \<Rightarrow> u32 \<Rightarrow> cart \<Rightarrow> keybuf \<Rightarrow> mem \<Rightarrow> command_result" where
  "key1_command cmd len c kb data =
     (let w = fst (decrypt_command kb cmd); op = w AND 0xF0 in
      if op = 0x40 then (0, c\<lparr>DataEncMode := 2\<rparr>, kb, data)
      else if op = 0x10 then (0, c, kb, fill32 (ChipID c) (unat len) data)
      else if op = 0x20 then
        let addr = shl (shr w 16 AND 0xF0) 8;
            addr = (if DSiMode c then addr - 0x1000 + DSiBase c else addr)
        in (0, c, kb, ReadROM c addr 0x1000 0 data)
      else if op = 0xA0 then (0, c\<lparr>CmdEncMode := 2\<rparr>, kb, data)
      else (0, c, kb, data))"

definition Common_ROMCommandStart ::
  "(bool \<Rightarrow> keybuf) \<Rightarrow> mem \<Rightarrow> u32 \<Rightarrow> cart \<Rightarrow> keybuf \<Rightarrow> mem \<Rightarrow> command_result" where
  "Common_ROMCommandStart load cmd len c kb data =
     (if CmdEncMode c = 0 then raw_command load cmd len c kb data
      else if CmdEncMode c = 1 then key1_command cmd len c kb data
      else if CmdEncMode c = 2 \<and> cmd 0 = 0xB8 then (0, c, kb, fill32 (ChipID c) (unat len) data)
      else (0, c, kb, data))"

section \<open>Retail cartridges\<close>

definition sramlength :: "u32 \<Rightarrow> u32" where
  "sramlength t = [0, 512, 8192, 65536, 128 * 1024, 256 * 1024, 512 * 1024, 1024 * 1024,
     8192 * 1024, 16384 * 1024, 65536 * 1024] ! unat t"

definition sramtype :: "u32 \<Rightarrow> u32" where
  "sramtype t = (if t = 1 then 1 else if t \<in> {2, 3, 4} then 2 else if t \<in> {5, 6, 7} then 3
     else if t \<in> {8, 9, 10} then 4 else 0)"

text \<open>\<open>sram\<close> is the save file's data, if there is one, with its length.\<close>

definition CartRetail :: "mem \<Rightarrow> u32 \<Rightarrow> u32 \<Rightarrow> bool \<Rightarrow> ROMListEntry \<Rightarrow> (mem \<times> u32) option \<Rightarrow> save_manager \<Rightarrow> CartType \<Rightarrow> cart" where
  "CartRetail rom len chipid badDSiDump romparams sram userdata ty =
     (let c = CartCommon rom len chipid badDSiDump romparams ty userdata;
          t = (if SaveMemType romparams \<le> 10 then SaveMemType romparams else 0);
          n = sramlength t;
          c = c\<lparr>SRAMLength := n, SRAMType := sramtype t\<rparr>
      in if n = 0 then c
         else case sram of
           None \<Rightarrow> c\<lparr>SRAM := memset 0 0xFF (unat n) (\<lambda>_. 0)\<rparr>
         | Some (s, sramlen) \<Rightarrow>
             if sramlen = n then c\<lparr>SRAM := s\<rparr>
             else c\<lparr>SRAM := memcpy 0 s 0 (unat (min sramlen n)) (memset 0 0xFF (unat n) (\<lambda>_. 0))\<rparr>)"

definition Retail_Reset :: "cart \<Rightarrow> cart" where
  "Retail_Reset c = (Common_Reset c)\<lparr>SRAMCmd := 0, SRAMAddr := 0, SRAMStatus := 0\<rparr>"

definition Retail_SetSaveMemory :: "mem \<Rightarrow> u32 \<Rightarrow> cart \<Rightarrow> cart" where
  "Retail_SetSaveMemory savedata savelen c =
     (if SRAMLength c = 0 then c
      else
        let len = min savelen (SRAMLength c)
        in c\<lparr>SRAM := memcpy 0 savedata 0 (unat len) (SRAM c),
             UserData := RequestFlush savedata len 0 len (UserData c)\<rparr>)"

text \<open>Reads of the ROM after the boot.\<close>

definition redirect :: "cart \<Rightarrow> u32 \<Rightarrow> u32" where
  "redirect c addr =
     (let addr = addr AND (ROMLength c - 1);
          addr = (if addr < 0x8000 then 0x8000 + (addr AND 0x1FF) else addr)
      in if cart_IsDSi c \<and> addr \<ge> DSiBase c \<and> (\<not> DSiMode c \<or> addr < DSiBase c + 0x3000)
         then 0x8000 + (addr AND 0x1FF) else addr)"

definition ReadROM_B7 :: "cart \<Rightarrow> u32 \<Rightarrow> u32 \<Rightarrow> u32 \<Rightarrow> mem \<Rightarrow> mem" where
  "ReadROM_B7 c addr len off data = memcpy (unat off) (ROM c) (unat (redirect c addr)) (unat len) data"

definition command_B7 :: "cart \<Rightarrow> mem \<Rightarrow> u32 \<Rightarrow> mem \<Rightarrow> mem" where
  "command_B7 c cmd len data =
     (let addr = be32 cmd 1;
          data = memset 0 0 (unat len) data
      in if shr (addr + len - 1) 12 \<noteq> shr addr 12 then
           let len1 = 0x1000 - (addr AND 0xFFF);
               data = ReadROM_B7 c addr len1 0 data
           in ReadROM_B7 c (addr + len1) (len - len1) len1 data
         else ReadROM_B7 c addr len 0 data)"

definition Retail_ROMCommandStart ::
  "(bool \<Rightarrow> keybuf) \<Rightarrow> mem \<Rightarrow> u32 \<Rightarrow> cart \<Rightarrow> keybuf \<Rightarrow> mem \<Rightarrow> command_result" where
  "Retail_ROMCommandStart load cmd len c kb data =
     (if CmdEncMode c \<noteq> 2 then Common_ROMCommandStart load cmd len c kb data
      else if cmd 0 = 0xB7 then (0, c, kb, command_B7 c cmd len data)
      else Common_ROMCommandStart load cmd len c kb data)"

section \<open>Save memory on the SPI bus\<close>

text \<open>What the three kinds of chips share: an address byte of a read or a write, a byte stored if writes are
  enabled, a byte read, and the end of a command that changes the memory.\<close>

definition read_address :: "u8 \<Rightarrow> cart \<Rightarrow> cart" where
  "read_address val c = c\<lparr>SRAMAddr := shl (SRAMAddr c) 8 OR ucast val\<rparr>"

definition write_address :: "u8 \<Rightarrow> cart \<Rightarrow> cart" where
  "write_address val c = (let a = shl (SRAMAddr c) 8 OR ucast val in c\<lparr>SRAMAddr := a, SRAMFirstAddr := a\<rparr>)"

definition write_enabled :: "cart \<Rightarrow> bool" where
  "write_enabled c \<longleftrightarrow> tst (SRAMStatus c) 2"

definition store :: "u32 \<Rightarrow> u8 \<Rightarrow> cart \<Rightarrow> cart" where
  "store i val c =
     (let c = (if write_enabled c then c\<lparr>SRAM := (SRAM c)(unat i := val)\<rparr> else c)
      in c\<lparr>SRAMAddr := SRAMAddr c + 1\<rparr>)"

definition fetch :: "u32 \<Rightarrow> cart \<Rightarrow> u8 \<times> cart" where
  "fetch i c = (SRAM c (unat i), c\<lparr>SRAMAddr := SRAMAddr c + 1\<rparr>)"

definition finish :: "bool \<Rightarrow> u32 \<Rightarrow> cart \<Rightarrow> cart" where
  "finish islast off c =
     (if islast then
        c\<lparr>SRAMStatus := SRAMStatus c AND NOT 2,
          UserData := RequestFlush (SRAM c) (SRAMLength c) off (SRAMAddr c - SRAMFirstAddr c) (UserData c)\<rparr>
      else c)"

definition wrapped :: "cart \<Rightarrow> u32 \<Rightarrow> u32" where
  "wrapped c a = a AND (SRAMLength c - 1)"

definition write_status :: "u8 \<Rightarrow> u32 \<Rightarrow> cart \<Rightarrow> cart" where
  "write_status val pos c = (if pos = 1 then c\<lparr>SRAMStatus := (SRAMStatus c AND 0x01) OR (val AND 0x0C)\<rparr> else c)"

definition tiny :: "bool \<Rightarrow> u32 \<Rightarrow> u32" where
  "tiny high a = (a + (if high then 0x100 else 0)) AND 0x1FF"

definition SRAMWrite_EEPROMTiny :: "u8 \<Rightarrow> u32 \<Rightarrow> bool \<Rightarrow> cart \<Rightarrow> u8 \<times> cart" where
  "SRAMWrite_EEPROMTiny val pos islast c =
     (if SRAMCmd c = 0x01 then (0, write_status val pos c)
      else if SRAMCmd c = 0x05 then (SRAMStatus c OR 0xF0, c)
      else if SRAMCmd c = 0x02 \<or> SRAMCmd c = 0x0A then
        let high = (SRAMCmd c = 0x0A);
            c = (if pos < 2 then c\<lparr>SRAMAddr := ucast val, SRAMFirstAddr := ucast val\<rparr>
                 else store (tiny high (SRAMAddr c)) val c)
        in (0, finish islast (tiny high (SRAMFirstAddr c)) c)
      else if SRAMCmd c = 0x03 \<or> SRAMCmd c = 0x0B then
        (if pos < 2 then (0, c\<lparr>SRAMAddr := ucast val\<rparr>)
         else fetch (tiny (SRAMCmd c = 0x0B) (SRAMAddr c)) c)
      else (0xFF, c))"

definition addrsize :: "cart \<Rightarrow> u32" where
  "addrsize c = (if SRAMLength c > 65536 then 3 else 2)"

definition SRAMWrite_EEPROM :: "u8 \<Rightarrow> u32 \<Rightarrow> bool \<Rightarrow> cart \<Rightarrow> u8 \<times> cart" where
  "SRAMWrite_EEPROM val pos islast c =
     (if SRAMCmd c = 0x01 then (0, write_status val pos c)
      else if SRAMCmd c = 0x05 then (SRAMStatus c, c)
      else if SRAMCmd c = 0x02 then
        let c = (if pos \<le> addrsize c then write_address val c else store (wrapped c (SRAMAddr c)) val c)
        in (0, finish islast (wrapped c (SRAMFirstAddr c)) c)
      else if SRAMCmd c = 0x03 then
        (if pos \<le> addrsize c then (0, read_address val c) else fetch (wrapped c (SRAMAddr c)) c)
      else (0xFF, c))"

definition erase :: "nat \<Rightarrow> cart \<Rightarrow> cart" where
  "erase n c = ((\<lambda>c. c\<lparr>SRAM := (SRAM c)(unat (wrapped c (SRAMAddr c)) := 0), SRAMAddr := SRAMAddr c + 1\<rparr>) ^^ n) c"

definition SRAMWrite_FLASH :: "u8 \<Rightarrow> u32 \<Rightarrow> bool \<Rightarrow> cart \<Rightarrow> u8 \<times> cart" where
  "SRAMWrite_FLASH val pos islast c =
     (if SRAMCmd c = 0x05 then (SRAMStatus c, c)
      else if SRAMCmd c = 0x02 \<or> SRAMCmd c = 0x0A then
        let c = (if pos \<le> 3 then write_address val c
                 else store (wrapped c (SRAMAddr c)) (if SRAMCmd c = 0x02 then 0 else val) c)
        in (0, finish islast (wrapped c (SRAMFirstAddr c)) c)
      else if SRAMCmd c = 0x03 then
        (if pos \<le> 3 then (0, read_address val c) else fetch (wrapped c (SRAMAddr c)) c)
      else if SRAMCmd c = 0x0B then
        (if pos \<le> 3 then (0, read_address val c) else if pos = 4 then (0, c)
         else fetch (wrapped c (SRAMAddr c)) c)
      else if SRAMCmd c = 0x9F then (0xFF, c)
      else if SRAMCmd c = 0xD8 \<or> SRAMCmd c = 0xDB then
        let c = (if pos \<le> 3 then write_address val c else c);
            c = (if pos = 3 \<and> write_enabled c then erase (if SRAMCmd c = 0xD8 then 0x10000 else 0x100) c else c)
        in (0, finish islast (wrapped c (SRAMFirstAddr c)) c)
      else (0xFF, c))"

definition Retail_SPIWrite :: "u8 \<Rightarrow> u32 \<Rightarrow> bool \<Rightarrow> cart \<Rightarrow> u8 \<times> cart" where
  "Retail_SPIWrite val pos islast c =
     (if SRAMType c = 0 then (0, c)
      else if pos = 0 then
        (if val = 0x04 then (0, c\<lparr>SRAMStatus := SRAMStatus c AND NOT 2\<rparr>)
         else if val = 0x06 then (0, c\<lparr>SRAMStatus := SRAMStatus c OR 2\<rparr>)
         else (0xFF, c\<lparr>SRAMCmd := val, SRAMAddr := 0\<rparr>))
      else if SRAMType c = 1 then SRAMWrite_EEPROMTiny val pos islast c
      else if SRAMType c = 2 then SRAMWrite_EEPROM val pos islast c
      else if SRAMType c = 3 then SRAMWrite_FLASH val pos islast c
      else (0xFF, c))"

section \<open>NAND save memories\<close>

definition nand_id :: "u8 list" where
  "nand_id = [0xEC, 0x00, 0x9E, 0xA1, 0x51, 0x65, 0x34, 0x35, 0x30, 0x35, 0x30, 0x31, 0x19, 0x19, 0x02, 0x0A]"

definition nand_iddata :: "u8 list" where
  "nand_iddata = [0xEC, 0xF1, 0x00, 0x95, 0x40] @ replicate 43 0"

definition BuildSRAMID :: "cart \<Rightarrow> cart" where
  "BuildSRAMID c =
     (if SRAMLength c > 0x20000 then
        let n = unat (SRAMLength c)
        in c\<lparr>SRAM := memcpy (n - 0x800) (of_list nand_id) 0 16 (memset (n - 0x20000) 0xFF 0x20000 (SRAM c))\<rparr>
      else c)"

definition CartRetailNAND :: "mem \<Rightarrow> u32 \<Rightarrow> u32 \<Rightarrow> ROMListEntry \<Rightarrow> (mem \<times> u32) option \<Rightarrow> save_manager \<Rightarrow> cart" where
  "CartRetailNAND rom len chipid romparams sram userdata =
     BuildSRAMID (CartRetail rom len chipid False romparams sram userdata RetailNAND)"

definition NAND_Reset :: "cart \<Rightarrow> cart" where
  "NAND_Reset c = (Retail_Reset c)\<lparr>SRAMAddr := 0, SRAMStatus := 0x20, SRAMWindow := 0,
     SRAMBase := shl (ucast (get16 (ROM c) 0x96)) 17, SRAMWriteBuffer := memset 0 0 0x800 (SRAMWriteBuffer c)\<rparr>"

definition NAND_SetSaveMemory :: "mem \<Rightarrow> u32 \<Rightarrow> cart \<Rightarrow> cart" where
  "NAND_SetSaveMemory savedata savelen c = BuildSRAMID (Retail_SetSaveMemory savedata savelen c)"

definition window_ok :: "cart \<Rightarrow> bool" where
  "window_ok c \<longleftrightarrow> SRAMWindow c \<ge> SRAMBase c \<and> SRAMWindow c < SRAMBase c + SRAMLength c"

definition in_window :: "cart \<Rightarrow> u32 \<Rightarrow> bool" where
  "in_window c addr \<longleftrightarrow> addr \<ge> SRAMWindow c \<and> addr < SRAMWindow c + 0x20000"

definition nand_write :: "mem \<Rightarrow> cart \<Rightarrow> cart" where
  "nand_write cmd c =
     (if tst (SRAMStatus c) 0x10 \<and> window_ok c then
        (if in_window c (be32 cmd 1) \<and> SRAMAddr c = 0 then c\<lparr>SRAMAddr := be32 cmd 1\<rparr> else c)
      else c\<lparr>SRAMAddr := 0\<rparr>)"

definition nand_commit :: "cart \<Rightarrow> cart" where
  "nand_commit c =
     (let c = (if SRAMAddr c \<noteq> 0 \<and> SRAMWritePos c \<noteq> 0 then
                 let off = SRAMAddr c - SRAMBase c;
                     c = (if SRAMLength c \<noteq> 0 \<and> SRAMAddr c < SRAMBase c + SRAMLength c - 0x20000 then
                            let mem = memcpy (unat off) (SRAMWriteBuffer c) 0 0x800 (SRAM c)
                            in c\<lparr>SRAM := mem, UserData := RequestFlush mem (SRAMLength c) off 0x800 (UserData c)\<rparr>
                          else c)
                 in c\<lparr>SRAMAddr := 0, SRAMWritePos := 0\<rparr>
               else c)
      in c\<lparr>SRAMStatus := SRAMStatus c AND NOT 0x10\<rparr>)"

definition nand_read_id :: "cart \<Rightarrow> u32 \<Rightarrow> mem \<Rightarrow> mem" where
  "nand_read_id c len data =
     (let iddata = of_list nand_iddata;
          iddata = (if SRAMLength c \<noteq> 0 then memcpy 0x18 (SRAM c) (unat (SRAMLength c - 0x800)) 16 iddata else iddata)
      in memcpy 0 iddata 0 (unat (min len 0x30)) (memset 0 0 (unat len) data))"

definition nand_read :: "cart \<Rightarrow> mem \<Rightarrow> u32 \<Rightarrow> mem \<Rightarrow> mem" where
  "nand_read c cmd len data =
     (if SRAMWindow c = 0 then command_B7 c cmd len data
      else
        let data = memset 0 0xFF (unat len) data
        in if window_ok c \<and> in_window c (be32 cmd 1)
           then memcpy 0 (SRAM c) (unat (be32 cmd 1 - SRAMBase c)) (unat len) data else data)"

definition NAND_ROMCommandStart ::
  "(bool \<Rightarrow> keybuf) \<Rightarrow> mem \<Rightarrow> u32 \<Rightarrow> cart \<Rightarrow> keybuf \<Rightarrow> mem \<Rightarrow> command_result" where
  "NAND_ROMCommandStart load cmd len c kb data =
     (if CmdEncMode c \<noteq> 2 then Common_ROMCommandStart load cmd len c kb data
      else if cmd 0 = 0x81 then (1, nand_write cmd c, kb, data)
      else if cmd 0 = 0x82 then (0, nand_commit c, kb, data)
      else if cmd 0 = 0x84 then (0, c\<lparr>SRAMAddr := 0, SRAMWritePos := 0\<rparr>, kb, data)
      else if cmd 0 = 0x85 then
        (0, if SRAMWindow c \<noteq> 0 then c\<lparr>SRAMStatus := SRAMStatus c OR 0x10, SRAMWritePos := 0\<rparr> else c, kb, data)
      else if cmd 0 = 0x8B then (0, c\<lparr>SRAMWindow := 0\<rparr>, kb, data)
      else if cmd 0 = 0x94 then (0, c, kb, nand_read_id c len data)
      else if cmd 0 = 0xB2 then
        (0, c\<lparr>SRAMWindow := shl (ucast (cmd 1)) 24 OR shl (ucast (cmd 2) AND 0xFE) 16\<rparr>, kb, data)
      else if cmd 0 = 0xB7 then (0, c, kb, nand_read c cmd len data)
      else if cmd 0 = 0xD6 then (0, c, kb, fill32 (ucast (SRAMStatus c) * 0x01010101) (unat len) data)
      else Retail_ROMCommandStart load cmd len c kb data)"

definition NAND_ROMCommandFinish :: "mem \<Rightarrow> mem \<Rightarrow> u32 \<Rightarrow> cart \<Rightarrow> cart" where
  "NAND_ROMCommandFinish cmd data len c =
     (if CmdEncMode c = 2 \<and> cmd 0 = 0x81 \<and> SRAMAddr c \<noteq> 0 then
        let len = (if SRAMWritePos c + len > 0x800 then 0x800 - SRAMWritePos c else len)
        in c\<lparr>SRAMWriteBuffer := memcpy (unat (SRAMWritePos c)) data 0 (unat len) (SRAMWriteBuffer c),
             SRAMWritePos := SRAMWritePos c + len\<rparr>
      else c)"

section \<open>Infrared and Bluetooth cartridges\<close>

definition CartRetailIR ::
  "mem \<Rightarrow> u32 \<Rightarrow> u32 \<Rightarrow> u32 \<Rightarrow> bool \<Rightarrow> ROMListEntry \<Rightarrow> (mem \<times> u32) option \<Rightarrow> save_manager \<Rightarrow> cart" where
  "CartRetailIR rom len chipid irversion badDSiDump romparams sram userdata =
     (CartRetail rom len chipid badDSiDump romparams sram userdata RetailIR)\<lparr>IRVersion := irversion\<rparr>"

definition CartRetailBT :: "mem \<Rightarrow> u32 \<Rightarrow> u32 \<Rightarrow> ROMListEntry \<Rightarrow> (mem \<times> u32) option \<Rightarrow> save_manager \<Rightarrow> cart" where
  "CartRetailBT rom len chipid romparams sram userdata = CartRetail rom len chipid False romparams sram userdata RetailBT"

definition IR_Reset :: "cart \<Rightarrow> cart" where
  "IR_Reset c = (Retail_Reset c)\<lparr>IRCmd := 0\<rparr>"

definition IR_SPIWrite :: "u8 \<Rightarrow> u32 \<Rightarrow> bool \<Rightarrow> cart \<Rightarrow> u8 \<times> cart" where
  "IR_SPIWrite val pos islast c =
     (if pos = 0 then (0, c\<lparr>IRCmd := val\<rparr>)
      else if IRCmd c = 0x00 then Retail_SPIWrite val (pos - 1) islast c
      else if IRCmd c = 0x08 then (0xAA, c)
      else (0, c))"

section \<open>The virtual methods\<close>

record cart_env =
  LoadKeyBuf :: "bool \<Rightarrow> keybuf"
  SD_Reset :: "cart \<Rightarrow> cart"
  SD_SetupDirectBoot :: "cart \<Rightarrow> cart"
  SD_ROMCommandStart :: "mem \<Rightarrow> u32 \<Rightarrow> cart \<Rightarrow> keybuf \<Rightarrow> mem \<Rightarrow> command_result"
  SD_ROMCommandFinish :: "mem \<Rightarrow> mem \<Rightarrow> u32 \<Rightarrow> cart \<Rightarrow> cart"

definition Cart_Reset :: "cart_env \<Rightarrow> cart \<Rightarrow> cart" where
  "Cart_Reset env c =
     (case cart_type c of
        Default \<Rightarrow> Common_Reset c | Retail \<Rightarrow> Retail_Reset c | RetailBT \<Rightarrow> Retail_Reset c
      | RetailNAND \<Rightarrow> NAND_Reset c | RetailIR \<Rightarrow> IR_Reset c
      | Homebrew \<Rightarrow> SD_Reset env c | UnlicensedR4 \<Rightarrow> SD_Reset env c)"

definition Cart_SetupDirectBoot :: "cart_env \<Rightarrow> int \<Rightarrow> cart \<Rightarrow> cart" where
  "Cart_SetupDirectBoot env ct c =
     (if cart_type c = Homebrew then SD_SetupDirectBoot env c else Common_SetupDirectBoot ct c)"

definition ROMCommandStart :: "cart_env \<Rightarrow> mem \<Rightarrow> u32 \<Rightarrow> cart \<Rightarrow> keybuf \<Rightarrow> mem \<Rightarrow> command_result" where
  "ROMCommandStart env cmd len c =
     (case cart_type c of
        Default \<Rightarrow> Common_ROMCommandStart (LoadKeyBuf env) cmd len c
      | Retail \<Rightarrow> Retail_ROMCommandStart (LoadKeyBuf env) cmd len c
      | RetailIR \<Rightarrow> Retail_ROMCommandStart (LoadKeyBuf env) cmd len c
      | RetailBT \<Rightarrow> Retail_ROMCommandStart (LoadKeyBuf env) cmd len c
      | RetailNAND \<Rightarrow> NAND_ROMCommandStart (LoadKeyBuf env) cmd len c
      | Homebrew \<Rightarrow> SD_ROMCommandStart env cmd len c
      | UnlicensedR4 \<Rightarrow> SD_ROMCommandStart env cmd len c)"

definition ROMCommandFinish :: "cart_env \<Rightarrow> mem \<Rightarrow> mem \<Rightarrow> u32 \<Rightarrow> cart \<Rightarrow> cart" where
  "ROMCommandFinish env cmd data len c =
     (case cart_type c of
        RetailNAND \<Rightarrow> NAND_ROMCommandFinish cmd data len c
      | Homebrew \<Rightarrow> SD_ROMCommandFinish env cmd data len c
      | UnlicensedR4 \<Rightarrow> SD_ROMCommandFinish env cmd data len c
      | _ \<Rightarrow> c)"

definition SPIWrite :: "u8 \<Rightarrow> u32 \<Rightarrow> bool \<Rightarrow> cart \<Rightarrow> u8 \<times> cart" where
  "SPIWrite val pos islast c =
     (case cart_type c of
        Retail \<Rightarrow> Retail_SPIWrite val pos islast c
      | RetailIR \<Rightarrow> IR_SPIWrite val pos islast c
      | RetailBT \<Rightarrow> (0, c)
      | _ \<Rightarrow> (0xFF, c))"

definition SetSaveMemory :: "mem \<Rightarrow> u32 \<Rightarrow> cart \<Rightarrow> cart" where
  "SetSaveMemory savedata savelen c =
     (case cart_type c of
        Retail \<Rightarrow> Retail_SetSaveMemory savedata savelen c
      | RetailIR \<Rightarrow> Retail_SetSaveMemory savedata savelen c
      | RetailBT \<Rightarrow> Retail_SetSaveMemory savedata savelen c
      | RetailNAND \<Rightarrow> NAND_SetSaveMemory savedata savelen c
      | _ \<Rightarrow> c)"

end
