(* ===== verification/CartSpec.thy ===== *)
theory CartSpec
  imports Cart
begin

text \<open>
  The save memory of a retail cartridge: reading back what was written, the write protection, and the
  save file that follows the memory. The three kinds of chips are instances of one locale.
\<close>

section \<open>Commands\<close>

text \<open>The bytes of one command, from the selection of the chip to its end; the answers of the chip.\<close>

fun spi_bytes :: "u32 \<Rightarrow> u8 list \<Rightarrow> cart \<Rightarrow> u8 list \<times> cart" where
  "spi_bytes pos [] c = ([], c)"
| "spi_bytes pos (b # bs) c =
     (let (r, c) = Retail_SPIWrite b pos (bs = []) c; (rs, c) = spi_bytes (pos + 1) bs c in (r # rs, c))"

definition spi_command :: "u8 list \<Rightarrow> cart \<Rightarrow> u8 list \<times> cart" where
  "spi_command = spi_bytes 0"

definition address_of :: "u8 list \<Rightarrow> u32" where
  "address_of as = fold (\<lambda>b a. shl a 8 OR ucast b) as 0"

lemma or_2_and_2: "(x OR 2) AND 2 = (2 :: u8)"
  by (rule bit_word_eqI) (auto simp: bit_simps)

lemma unat_pos: "p < 2 ^ 32 \<Longrightarrow> unat (word_of_nat p :: u32) = p"
  by (simp add: unat_of_nat)

section \<open>A chip\<close>

locale spi_chip =
  fixes chip :: "cart \<Rightarrow> bool"
    and wcmd rcmd :: u8 and asz cap :: nat and ix :: "u32 \<Rightarrow> u32"
  assumes commands: "wcmd \<notin> {0x04, 0x06}" "rcmd \<notin> {0x04, 0x06}"
    and sizes: "0 < asz" "asz + cap < 2 ^ 31"
    and chip_type: "chip c \<Longrightarrow> SRAMType c \<noteq> 0"
    and chip_frame: "chip (c\<lparr>SRAMStatus := st\<rparr>) = chip c" "chip (c\<lparr>SRAMCmd := cmd\<rparr>) = chip c"
      "chip (c\<lparr>SRAMAddr := a\<rparr>) = chip c" "chip (c\<lparr>SRAMFirstAddr := a\<rparr>) = chip c" "chip (c\<lparr>SRAM := m\<rparr>) = chip c"
      "chip (c\<lparr>UserData := u\<rparr>) = chip c"
    and ix_inj: "i < cap \<Longrightarrow> j < cap \<Longrightarrow> ix (a + word_of_nat i) = ix (a + word_of_nat j) \<Longrightarrow> i = j"
    and write_addr: "chip c \<Longrightarrow> SRAMCmd c = wcmd \<Longrightarrow> 0 < p \<Longrightarrow> p \<le> asz \<Longrightarrow> (p = 1 \<longrightarrow> SRAMAddr c = 0) \<Longrightarrow>
      Retail_SPIWrite v (word_of_nat p) False c = (0, write_address v c)"
    and write_data: "chip c \<Longrightarrow> SRAMCmd c = wcmd \<Longrightarrow> asz < p \<Longrightarrow> p < 2 ^ 32 \<Longrightarrow>
      Retail_SPIWrite v (word_of_nat p) l c =
        (0, finish l (ix (SRAMFirstAddr c)) (store (ix (SRAMAddr c)) v c))"
    and read_addr: "chip c \<Longrightarrow> SRAMCmd c = rcmd \<Longrightarrow> 0 < p \<Longrightarrow> p \<le> asz \<Longrightarrow> (p = 1 \<longrightarrow> SRAMAddr c = 0) \<Longrightarrow>
      Retail_SPIWrite v (word_of_nat p) l c = (0, read_address v c)"
    and read_data: "chip c \<Longrightarrow> SRAMCmd c = rcmd \<Longrightarrow> asz < p \<Longrightarrow> p < 2 ^ 32 \<Longrightarrow>
      Retail_SPIWrite v (word_of_nat p) l c = fetch (ix (SRAMAddr c)) c"
begin

lemmas [simp] = chip_frame

lemma chip_steps [simp]:
  "chip (write_address v c) = chip c" "chip (read_address v c) = chip c" "chip (store i v c) = chip c"
  "chip (finish l off c) = chip c" "chip (snd (fetch i c)) = chip c"
  by (simp_all add: write_address_def read_address_def store_def finish_def fetch_def Let_def)

text \<open>The address bytes.\<close>

lemma read_addr_bytes:
  assumes "chip c" "SRAMCmd c = rcmd" "0 < p" "p + length as \<le> Suc asz" "p = 1 \<longrightarrow> SRAMAddr c = 0"
  shows "spi_bytes (word_of_nat p) (as @ bs) c =
    (let (rs, c) = spi_bytes (word_of_nat (p + length as)) bs
       (c\<lparr>SRAMAddr := fold (\<lambda>b a. shl a 8 OR ucast b) as (SRAMAddr c)\<rparr>) in (replicate (length as) 0 @ rs, c))"
  using assms
proof (induction as arbitrary: p c)
  case (Cons v as)
  have st: "Retail_SPIWrite v (word_of_nat p) (as @ bs = []) c = (0, read_address v c)"
    using Cons.prems by (intro read_addr) simp_all
  have "spi_bytes (word_of_nat (Suc p)) (as @ bs) (read_address v c) =
    (let (rs, c) = spi_bytes (word_of_nat (Suc p + length as)) bs ((read_address v c)\<lparr>SRAMAddr :=
      fold (\<lambda>b a. shl a 8 OR ucast b) as (SRAMAddr (read_address v c))\<rparr>) in (replicate (length as) 0 @ rs, c))"
    using Cons.prems by (intro Cons.IH) (simp_all add: read_address_def)
  then show ?case using st by (simp add: read_address_def case_prod_beta Let_def add.commute)
qed simp

lemma write_addr_bytes:
  assumes "chip c" "SRAMCmd c = wcmd" "0 < p" "p + length as \<le> Suc asz" "p = 1 \<longrightarrow> SRAMAddr c = 0" "bs \<noteq> []" "as \<noteq> []"
  shows "snd (spi_bytes (word_of_nat p) (as @ bs) c) =
    snd (spi_bytes (word_of_nat (p + length as)) bs
       (let a = fold (\<lambda>b a. shl a 8 OR ucast b) as (SRAMAddr c) in c\<lparr>SRAMAddr := a, SRAMFirstAddr := a\<rparr>))"
  using assms
proof (induction as arbitrary: p c)
  case (Cons v as)
  have st: "Retail_SPIWrite v (word_of_nat p) (as @ bs = []) c = (0, write_address v c)"
    using Cons.prems write_addr [of c p v] by simp
  show ?case
  proof (cases "as = []")
    case True
    then show ?thesis using st by (simp add: write_address_def case_prod_beta Let_def add.commute)
  next
    case False
    have "snd (spi_bytes (word_of_nat (Suc p)) (as @ bs) (write_address v c)) =
      snd (spi_bytes (word_of_nat (Suc p + length as)) bs (let a = fold (\<lambda>b a. shl a 8 OR ucast b) as (SRAMAddr (write_address v c))
        in (write_address v c)\<lparr>SRAMAddr := a, SRAMFirstAddr := a\<rparr>))"
      using Cons.prems False by (intro Cons.IH) (simp_all add: write_address_def Let_def)
    then show ?thesis using st by (simp add: write_address_def case_prod_beta Let_def add.commute)
  qed
qed simp

text \<open>The data bytes. The cells of the chip, and the chip after them.\<close>

lemma read_data_bytes:
  assumes "chip c" "SRAMCmd c = rcmd" "asz < p" "p + length bs < 2 ^ 32"
  shows "fst (spi_bytes (word_of_nat p) bs c) =
    map (\<lambda>k. SRAM c (unat (ix (SRAMAddr c + word_of_nat k)))) [0..<length bs]"
  using assms
proof (induction bs arbitrary: p c)
  case (Cons v bs)
  have st: "Retail_SPIWrite v (word_of_nat p) (bs = []) c = fetch (ix (SRAMAddr c)) c"
    using Cons.prems by (intro read_data) simp_all
  have "fst (spi_bytes (word_of_nat (Suc p)) bs (snd (fetch (ix (SRAMAddr c)) c))) =
    map (\<lambda>k. SRAM c (unat (ix (SRAMAddr c + 1 + word_of_nat k)))) [0..<length bs]"
    using Cons.prems by (subst Cons.IH) (simp_all add: fetch_def)
  then show ?case
    using st by (simp add: fetch_def case_prod_beta Let_def map_upt_Suc ac_simps del: upt_Suc)
qed simp

definition put_cells :: "u32 \<Rightarrow> u8 list \<Rightarrow> mem \<Rightarrow> mem" where
  "put_cells a bs m = fold (\<lambda>k m. m(unat (ix (a + word_of_nat k)) := bs ! k)) [0..<length bs] m"

lemma put_cells_Cons: "put_cells a (v # bs) m = put_cells (a + 1) bs (m(unat (ix a) := v))"
proof -
  have "[0..<length (v # bs)] = 0 # map Suc [0..<length bs]" by (simp add: map_Suc_upt upt_conv_Cons del: upt_Suc)
  then show ?thesis by (simp only: put_cells_def fold_map list.map fold.simps o_apply nth_Cons_0 nth_Cons_Suc) (simp add: o_def ac_simps)
qed

lemma put_cells_Nil [simp]: "put_cells a [] m = m"
  by (simp add: put_cells_def)

lemma write_data_bytes:
  assumes "chip c" "SRAMCmd c = wcmd" "asz < p" "p + length bs < 2 ^ 32" "write_enabled c"
  shows "SRAM (snd (spi_bytes (word_of_nat p) bs c)) =
      put_cells (SRAMAddr c) bs (SRAM c) \<and>
    chip (snd (spi_bytes (word_of_nat p) bs c)) \<and> (bs \<noteq> [] \<longrightarrow> \<not> write_enabled (snd (spi_bytes (word_of_nat p) bs c)))"
  using assms
proof (induction bs arbitrary: p c)
  case (Cons v bs)
  let ?c = "finish (bs = []) (ix (SRAMFirstAddr c)) (store (ix (SRAMAddr c)) v c)"
  have st: "Retail_SPIWrite v (word_of_nat p) (bs = []) c = (0, ?c)"
    using Cons.prems by (intro write_data) simp_all
  have c: "SRAM ?c = (SRAM c)(unat (ix (SRAMAddr c)) := v)" "SRAMAddr ?c = SRAMAddr c + 1" "SRAMCmd ?c = wcmd" "chip ?c"
    "write_enabled ?c \<longleftrightarrow> bs \<noteq> []"
    using Cons.prems by (simp_all add: finish_def store_def write_enabled_def Let_def and.assoc)
  have e: "spi_bytes (word_of_nat p) (v # bs) c = (0 # fst (spi_bytes (word_of_nat (Suc p)) bs ?c), snd (spi_bytes (word_of_nat (Suc p)) bs ?c))"
    using st by (simp add: case_prod_beta Let_def add.commute)
  show ?case
  proof (cases "bs = []")
    case True
    then show ?thesis using c e by (simp add: put_cells_Cons)
  next
    case False
    with Cons.prems c(3,4,5) have IH: "SRAM (snd (spi_bytes (word_of_nat (Suc p)) bs ?c)) =
      put_cells (SRAMAddr ?c) bs (SRAM ?c) \<and>
      chip (snd (spi_bytes (word_of_nat (Suc p)) bs ?c)) \<and> \<not> write_enabled (snd (spi_bytes (word_of_nat (Suc p)) bs ?c))"
      using Cons.IH [of ?c "Suc p"] by simp
    show ?thesis unfolding e snd_conv put_cells_Cons using IH unfolding c(1,2) by blast
  qed
qed simp

text \<open>A write command on a chip whose writes are enabled stores its bytes one after the other, and a read
  command gives the cells.\<close>

theorem write_command:
  assumes "chip c" "write_enabled c" "length as = asz" "bs \<noteq> []" "length bs \<le> cap"
  shows "SRAM (snd (spi_command (wcmd # as @ bs) c)) =
      put_cells (address_of as) bs (SRAM c)"
    "chip (snd (spi_command (wcmd # as @ bs) c))" "\<not> write_enabled (snd (spi_command (wcmd # as @ bs) c))"
proof -
  let ?a = "address_of as"
  let ?c1 = "c\<lparr>SRAMCmd := wcmd, SRAMAddr := 0\<rparr>"
  let ?c2 = "c\<lparr>SRAMCmd := wcmd, SRAMAddr := ?a, SRAMFirstAddr := ?a\<rparr>"
  have st: "Retail_SPIWrite wcmd 0 (as @ bs = []) c = (0xFF, ?c1)"
    using assms(1,3) sizes commands chip_type by (simp add: Retail_SPIWrite_def)
  have "snd (spi_command (wcmd # as @ bs) c) = snd (spi_bytes (word_of_nat 1) (as @ bs) ?c1)"
    using st by (simp add: spi_command_def case_prod_beta Let_def)
  also have "\<dots> = snd (spi_bytes (word_of_nat (1 + length as)) bs ?c2)"
    using assms sizes by (subst write_addr_bytes) (auto simp: address_of_def Let_def)
  finally have e: "snd (spi_command (wcmd # as @ bs) c) = snd (spi_bytes (word_of_nat (Suc asz)) bs ?c2)"
    using assms(3) by simp
  have "chip ?c2" "SRAMCmd ?c2 = wcmd" "write_enabled ?c2" "SRAM ?c2 = SRAM c" "SRAMAddr ?c2 = ?a"
    using assms by (simp_all add: write_enabled_def)
  with assms sizes write_data_bytes [of ?c2 "Suc asz" bs] e
  show "SRAM (snd (spi_command (wcmd # as @ bs) c)) =
      put_cells ?a bs (SRAM c)"
    "chip (snd (spi_command (wcmd # as @ bs) c))" "\<not> write_enabled (snd (spi_command (wcmd # as @ bs) c))"
    by simp_all
qed

theorem read_command:
  assumes "chip c" "length as = asz" "length bs \<le> cap"
  shows "drop (Suc asz) (fst (spi_command (rcmd # as @ bs) c)) =
    map (\<lambda>k. SRAM c (unat (ix (address_of as + word_of_nat k)))) [0..<length bs]"
proof -
  let ?c1 = "c\<lparr>SRAMCmd := rcmd, SRAMAddr := 0\<rparr>"
  let ?c2 = "c\<lparr>SRAMCmd := rcmd, SRAMAddr := address_of as\<rparr>"
  have st: "Retail_SPIWrite rcmd 0 (as @ bs = []) c = (0xFF, ?c1)"
    using assms(1) commands chip_type by (simp add: Retail_SPIWrite_def)
  have "fst (spi_command (rcmd # as @ bs) c) = 0xFF # fst (spi_bytes (word_of_nat 1) (as @ bs) ?c1)"
    using st by (simp add: spi_command_def case_prod_beta Let_def)
  also have "spi_bytes (word_of_nat 1) (as @ bs) ?c1 =
    (let (rs, c) = spi_bytes (word_of_nat (1 + length as)) bs ?c2 in (replicate (length as) 0 @ rs, c))"
    using assms sizes by (subst read_addr_bytes) (auto simp: address_of_def)
  finally have "drop (Suc asz) (fst (spi_command (rcmd # as @ bs) c)) = fst (spi_bytes (word_of_nat (Suc asz)) bs ?c2)"
    using assms(2) by (simp add: case_prod_beta Let_def)
  also have "\<dots> = map (\<lambda>k. SRAM ?c2 (unat (ix (SRAMAddr ?c2 + word_of_nat k)))) [0..<length bs]"
    using assms sizes by (intro read_data_bytes) simp_all
  finally show ?thesis by simp
qed

lemma cells_after_writes:
  assumes "length bs \<le> cap" "k < length bs"
  shows "put_cells a bs m (unat (ix (a + word_of_nat k))) = bs ! k"
proof -
  have "fold (\<lambda>k m. m(unat (ix (a + word_of_nat k)) := bs ! k)) [0..<n] m (unat (ix (a + word_of_nat k))) = bs ! k"
    if "k < n" "n \<le> length bs" for n
    using that
  proof (induction n)
    case (Suc n)
    show ?case
    proof (cases "k = n")
      case False
      then have "ix (a + word_of_nat k) \<noteq> ix (a + word_of_nat n)" using ix_inj [of k n a] Suc.prems assms by auto
      then have "unat (ix (a + word_of_nat k)) \<noteq> unat (ix (a + word_of_nat n))" by (simp only: word_eq_unat not_False_eq_True)
      with Suc False show ?thesis by simp
    qed simp
  qed simp
  with assms show ?thesis by (simp add: put_cells_def)
qed

theorem write_then_read:
  assumes "chip c" "length as = asz" "bs \<noteq> []" "length bs \<le> cap" "length ds = length bs"
  shows "drop (Suc asz) (fst (spi_command (rcmd # as @ ds)
      (snd (spi_command (wcmd # as @ bs) (snd (spi_command [0x06] c)))))) = bs"
proof -
  let ?e = "snd (spi_command [0x06] c)"
  have e: "chip ?e" "write_enabled ?e"
    using assms(1) chip_type [OF assms(1)]
    by (simp_all add: spi_command_def Retail_SPIWrite_def case_prod_beta Let_def write_enabled_def or_2_and_2)
  note w = write_command [OF e assms(2-4)]
  show ?thesis
    using assms(4,5) by (subst read_command [OF w(2) assms(2)], simp, simp only: w(1))
      (rule nth_equalityI, auto simp: cells_after_writes)
qed

end

end
