(* ===== verification/CartChips.thy ===== *)
theory CartChips
  imports CartSpec
begin

text \<open>
  The three kinds of chips of the retail cartridges fulfil the contract of the locale \<open>spi_chip\<close>.
\<close>

section \<open>The chips of the retail cartridges\<close>

lemma mask_inj:
  fixes a :: u32
  assumes "(a + word_of_nat i) AND mask k = (a + word_of_nat j) AND mask k" "k \<le> 32" "i < 2 ^ k" "j < 2 ^ k"
  shows "i = j"
proof -
  have d: "(2 :: nat) ^ k dvd 2 ^ 32" using assms(2) by (rule le_imp_power_dvd)
  have m: "unat ((a + word_of_nat n) AND mask k) = (unat a + n) mod 2 ^ k" for n
  proof -
    have "unat ((a + word_of_nat n) AND mask k) = unat (a + word_of_nat n) mod 2 ^ k"
      unfolding take_bit_eq_mask [symmetric] unsigned_take_bit_eq by (rule take_bit_eq_mod)
    also have "unat (a + word_of_nat n) = (unat a + n) mod 2 ^ 32"
      by (simp add: unat_word_ariths unat_of_nat mod_simps)
    finally show ?thesis using d by (simp only: mod_mod_cancel)
  qed
  have "(unat a + i) mod 2 ^ k = (unat a + j) mod 2 ^ k"
    by (simp only: m [symmetric] assms(1))
  from ring_index_inj [OF assms(3,4) this] show ?thesis .
qed

definition is_chip :: "u32 \<Rightarrow> u32 \<Rightarrow> cart \<Rightarrow> bool" where
  "is_chip typ len c \<longleftrightarrow> SRAMType c = typ \<and> SRAMLength c = len"

lemma word_pos:
  assumes "p < 2 ^ 32"
  shows "(word_of_nat p :: u32) = 0 \<longleftrightarrow> p = 0" "(word_of_nat p :: u32) \<le> numeral n \<longleftrightarrow> p \<le> unat (numeral n :: u32)"
    "(word_of_nat p :: u32) < numeral n \<longleftrightarrow> p < unat (numeral n :: u32)"
  using assms by (simp_all add: word_eq_unat unat_le_iff unat_lt_iff unat_pos del: unat_numeral)

lemma tiny_chip:
  "spi_chip (is_chip 1 512) (if high then 0x0A else 0x02) (if high then 0x0B else 0x03) 1 512 (tiny high)"
proof unfold_locales
  show "i = j" if "i < 512" "j < 512" "tiny high (a + word_of_nat i) = tiny high (a + word_of_nat j)" for a i j
  proof -
    have "(0x1FF :: u32) = mask 9" by (simp add: mask_eq_exp_minus_1)
    then show ?thesis
      using that mask_inj [of "a + (if high then 0x100 else 0)" i 9 j] by (simp add: tiny_def ac_simps split: if_splits)
  qed
  fix c v l and p :: nat
  assume c: "is_chip 1 512 c" and p: "p < 2 ^ 32"
  show "SRAMCmd c = (if high then 0x0A else 0x02) \<Longrightarrow> 1 < p \<Longrightarrow>
      Retail_SPIWrite v (word_of_nat p) l c = (0, finish l (tiny high (SRAMFirstAddr c)) (store (tiny high (SRAMAddr c)) v c))"
    using c p by (simp add: Retail_SPIWrite_def is_chip_def SRAMWrite_EEPROMTiny_def word_pos store_def Let_def)
  show "SRAMCmd c = (if high then 0x0B else 0x03) \<Longrightarrow> 1 < p \<Longrightarrow>
      Retail_SPIWrite v (word_of_nat p) l c = fetch (tiny high (SRAMAddr c)) c"
    using c p by (simp add: Retail_SPIWrite_def is_chip_def SRAMWrite_EEPROMTiny_def word_pos)
next
  fix c v l and p :: nat
  assume c: "is_chip 1 512 c" and p: "0 < p" "p \<le> 1" "p = 1 \<longrightarrow> SRAMAddr c = 0"
  have p1: "p = 1" using p by simp
  have a0: "SRAMAddr c = 0" using p p1 by simp
  show "SRAMCmd c = (if high then 0x0A else 0x02) \<Longrightarrow> Retail_SPIWrite v (word_of_nat p) False c = (0, write_address v c)"
    using c a0 unfolding p1 by (cases high) (simp_all add: Retail_SPIWrite_def is_chip_def SRAMWrite_EEPROMTiny_def finish_def write_address_def Let_def)
  show "SRAMCmd c = (if high then 0x0B else 0x03) \<Longrightarrow> Retail_SPIWrite v (word_of_nat p) l c = (0, read_address v c)"
    using c a0 unfolding p1 by (cases high) (simp_all add: Retail_SPIWrite_def is_chip_def SRAMWrite_EEPROMTiny_def read_address_def)
qed (simp_all add: is_chip_def)

lemma eeprom_chip:
  assumes "k \<in> {13, 16, 17}"
  shows "spi_chip (is_chip 2 (2 ^ k)) 0x02 0x03 (if k = 17 then 3 else 2) (2 ^ k) (\<lambda>a. a AND (2 ^ k - 1))"
proof unfold_locales
  have "(if k = 17 then 3 else 2) + 2 ^ k < (2 :: nat) ^ 31" using assms by auto
  then show "(if k = 17 then 3 else 2) + 2 ^ k < (2 :: nat) ^ 31" .
  show "i = j" if "i < 2 ^ k" "j < 2 ^ k" "(a + word_of_nat i) AND (2 ^ k - 1) = (a + word_of_nat j) AND (2 ^ k - 1)" for i j and a :: u32
    using that assms mask_inj [of a i k j] by (auto simp: mask_eq_exp_minus_1)
  fix c v l and p :: nat
  assume c: "is_chip 2 (2 ^ k) c"
  have a: "addrsize c = word_of_nat (if k = 17 then 3 else 2)" using c assms by (auto simp: addrsize_def is_chip_def)
  have asz: "(word_of_nat p :: u32) \<le> addrsize c \<longleftrightarrow> p \<le> (if k = 17 then 3 else 2)" if "p < 2 ^ 32"
    using that by (simp add: a unat_le_iff unat_pos)
  { assume p: "p < 2 ^ 32" "(if k = 17 then 3 else 2) < p"
    then have n: "(word_of_nat p :: u32) \<noteq> 0" "\<not> (word_of_nat p :: u32) \<le> addrsize c" using asz by (auto simp: word_pos split: if_splits)
    show "SRAMCmd c = 0x02 \<Longrightarrow> Retail_SPIWrite v (word_of_nat p) l c =
        (0, finish l (SRAMFirstAddr c AND (2 ^ k - 1)) (store (SRAMAddr c AND (2 ^ k - 1)) v c))"
      using c n by (simp add: Retail_SPIWrite_def is_chip_def SRAMWrite_EEPROM_def store_def wrapped_def Let_def)
    show "SRAMCmd c = 0x03 \<Longrightarrow> Retail_SPIWrite v (word_of_nat p) l c = fetch (SRAMAddr c AND (2 ^ k - 1)) c"
      using c n by (simp add: Retail_SPIWrite_def is_chip_def SRAMWrite_EEPROM_def wrapped_def) }
  { assume p: "0 < p" "p \<le> (if k = 17 then 3 else 2)"
    then have p32: "p < 2 ^ 32" by (auto split: if_splits)
    with p have n: "(word_of_nat p :: u32) \<noteq> 0" "(word_of_nat p :: u32) \<le> addrsize c" using asz by (simp_all add: word_pos)
    show "SRAMCmd c = 0x02 \<Longrightarrow> Retail_SPIWrite v (word_of_nat p) False c = (0, write_address v c)"
      using c n by (simp add: Retail_SPIWrite_def is_chip_def SRAMWrite_EEPROM_def finish_def Let_def)
    show "SRAMCmd c = 0x03 \<Longrightarrow> Retail_SPIWrite v (word_of_nat p) l c = (0, read_address v c)"
      using c n by (simp add: Retail_SPIWrite_def is_chip_def SRAMWrite_EEPROM_def) }
qed (use assms in \<open>auto simp: is_chip_def\<close>)

lemma flash_chip:
  assumes "k \<in> {18, 19, 20}"
  shows "spi_chip (is_chip 3 (2 ^ k)) 0x0A 0x03 3 (2 ^ k) (\<lambda>a. a AND (2 ^ k - 1))"
proof unfold_locales
  show "3 + 2 ^ k < (2 :: nat) ^ 31" using assms by auto
  show "i = j" if "i < 2 ^ k" "j < 2 ^ k" "(a + word_of_nat i) AND (2 ^ k - 1) = (a + word_of_nat j) AND (2 ^ k - 1)" for i j and a :: u32
    using that assms mask_inj [of a i k j] by (auto simp: mask_eq_exp_minus_1)
  fix c v l and p :: nat
  assume c: "is_chip 3 (2 ^ k) c"
  { assume p: "p < 2 ^ 32" "3 < p"
    show "SRAMCmd c = 0x0A \<Longrightarrow> Retail_SPIWrite v (word_of_nat p) l c =
        (0, finish l (SRAMFirstAddr c AND (2 ^ k - 1)) (store (SRAMAddr c AND (2 ^ k - 1)) v c))"
      using c p by (simp add: Retail_SPIWrite_def is_chip_def SRAMWrite_FLASH_def store_def wrapped_def Let_def word_pos)
    show "SRAMCmd c = 0x03 \<Longrightarrow> Retail_SPIWrite v (word_of_nat p) l c = fetch (SRAMAddr c AND (2 ^ k - 1)) c"
      using c p by (simp add: Retail_SPIWrite_def is_chip_def SRAMWrite_FLASH_def wrapped_def word_pos) }
  { assume p: "0 < p" "p \<le> 3"
    then have p32: "p < 2 ^ 32" by simp
    show "SRAMCmd c = 0x0A \<Longrightarrow> Retail_SPIWrite v (word_of_nat p) False c = (0, write_address v c)"
      using c p by (simp add: Retail_SPIWrite_def is_chip_def SRAMWrite_FLASH_def finish_def Let_def word_pos [OF p32])
    show "SRAMCmd c = 0x03 \<Longrightarrow> Retail_SPIWrite v (word_of_nat p) l c = (0, read_address v c)"
      using c p by (simp add: Retail_SPIWrite_def is_chip_def SRAMWrite_FLASH_def word_pos [OF p32]) }
qed (use assms in \<open>auto simp: is_chip_def\<close>)

end
