(* ===== verification/CartMirror.thy ===== *)
theory CartMirror
  imports CartChips
begin

text \<open>
  The copy of the save memory that the save file is written from follows the memory: every command on the SPI
  bus keeps the two equal.
\<close>

section \<open>The save file follows the memory\<close>

text \<open>The chips of the retail cartridges, and what a copy of the memory is.\<close>

definition retail_chip :: "cart \<Rightarrow> bool" where
  "retail_chip c \<longleftrightarrow> (\<exists>t \<in> {1, 2, 3, 4, 5, 6, 7}. is_chip (sramtype t) (sramlength t) c)"

definition mirrored :: "cart \<Rightarrow> bool" where
  "mirrored c \<longleftrightarrow> Length (UserData c) = SRAMLength c \<and>
     (\<forall>i < unat (SRAMLength c). Buffer (UserData c) i = SRAM c i)"

text \<open>The cell at a position of the address counter, the number of cells a command has written so far, and
  the cells it has not written.\<close>

definition cell :: "cart \<Rightarrow> u32 \<Rightarrow> nat" where
  "cell c a = unat ((a + (if SRAMType c = 1 \<and> SRAMCmd c = 0x0A then 0x100 else 0)) AND (SRAMLength c - 1))"

definition written :: "cart \<Rightarrow> nat" where
  "written c = unat (SRAMAddr c - SRAMFirstAddr c)"

definition clean_outside :: "cart \<Rightarrow> bool" where
  "clean_outside c \<longleftrightarrow> Length (UserData c) = SRAMLength c \<and>
     (\<forall>i < unat (SRAMLength c). (\<forall>k < written c. i \<noteq> cell c (SRAMFirstAddr c + word_of_nat k)) \<longrightarrow>
        Buffer (UserData c) i = SRAM c i)"

lemma clean_outside_0: "written c = 0 \<Longrightarrow> clean_outside c \<longleftrightarrow> mirrored c"
  by (simp add: clean_outside_def mirrored_def)

lemma retail_chip_length:
  assumes "retail_chip c"
  obtains k where "9 \<le> k" "k \<le> 20" "SRAMLength c = 2 ^ k" "SRAMLength c - 1 = mask k"
proof -
  have "\<exists>k. 9 \<le> k \<and> k \<le> 20 \<and> SRAMLength c = 2 ^ k"
    using assms unfolding retail_chip_def is_chip_def
  proof (elim bexE insertE emptyE conjE; hypsubst)
    show "SRAMLength c = sramlength 1 \<Longrightarrow> ?thesis" by (rule exI [of _ 9]) (simp add: sramlength_def)
    show "SRAMLength c = sramlength 2 \<Longrightarrow> ?thesis" by (rule exI [of _ 13]) (simp add: sramlength_def)
    show "SRAMLength c = sramlength 3 \<Longrightarrow> ?thesis" by (rule exI [of _ 16]) (simp add: sramlength_def)
    show "SRAMLength c = sramlength 4 \<Longrightarrow> ?thesis" by (rule exI [of _ 17]) (simp add: sramlength_def)
    show "SRAMLength c = sramlength 5 \<Longrightarrow> ?thesis" by (rule exI [of _ 18]) (simp add: sramlength_def)
    show "SRAMLength c = sramlength 6 \<Longrightarrow> ?thesis" by (rule exI [of _ 19]) (simp add: sramlength_def)
    show "SRAMLength c = sramlength 7 \<Longrightarrow> ?thesis" by (rule exI [of _ 20]) (simp add: sramlength_def)
  qed
  then show ?thesis using that by (auto simp: mask_eq_exp_minus_1)
qed

lemma unat_and_mask: "unat (x AND mask k) = unat x mod 2 ^ k" for x :: "'a::len word"
  unfolding take_bit_eq_mask [symmetric] unsigned_take_bit_eq by (rule take_bit_eq_mod)

lemma unat_add_mod: "unat (x + word_of_nat n :: u32) mod 2 ^ k = (unat x + n) mod 2 ^ k" if "k \<le> 32"
proof -
  have "(2 :: nat) ^ k dvd 2 ^ 32" using that by (rule le_imp_power_dvd)
  moreover have "unat (x + word_of_nat n) = (unat x + n) mod 2 ^ 32" by (simp add: unat_word_ariths unat_of_nat mod_simps)
  ultimately show ?thesis by (simp only: mod_mod_cancel)
qed

lemma unat_two_power: "k < 32 \<Longrightarrow> unat (2 ^ k :: u32) = 2 ^ k"
proof -
  assume "k < 32"
  then have "(2 :: nat) ^ k < 2 ^ 32" by (intro power_strict_increasing) simp_all
  then have "unat (word_of_nat (2 ^ k) :: u32) = 2 ^ k" by (rule unat_pos)
  then show ?thesis by simp
qed

lemma cell_add:
  assumes "retail_chip c"
  shows "cell c (a + word_of_nat n) = (cell c a + n) mod unat (SRAMLength c)" "cell c a < unat (SRAMLength c)"
proof -
  obtain k where k: "9 \<le> k" "k \<le> 20" "SRAMLength c = 2 ^ k" "SRAMLength c - 1 = mask k" by (rule retail_chip_length [OF assms])
  let ?h = "if SRAMType c = 1 \<and> SRAMCmd c = 0x0A then 0x100 else 0 :: u32"
  have len: "unat (SRAMLength c) = 2 ^ k" using k by (simp add: unat_two_power)
  have "cell c (a + word_of_nat n) = unat (a + ?h + word_of_nat n) mod 2 ^ k"
    unfolding cell_def k(4) unat_and_mask by (simp only: ac_simps)
  also have "\<dots> = (unat (a + ?h) + n) mod 2 ^ k" using k by (intro unat_add_mod) simp
  also have "\<dots> = (cell c a + n) mod 2 ^ k"
    unfolding cell_def k(4) unat_and_mask by (simp only: mod_add_left_eq)
  finally show "cell c (a + word_of_nat n) = (cell c a + n) mod unat (SRAMLength c)" by (simp only: len)
  show "cell c a < unat (SRAMLength c)" unfolding len unfolding cell_def k(4) unat_and_mask by simp
qed

text \<open>The request at the end of a command copies every cell the command has written.\<close>

lemma RequestFlush_mirrors:
  assumes m: "Length m = len" and len: "unat len < 2 ^ 31" and off: "unat off < unat len" and n: "unat n < 2 ^ 31"
    and clean: "\<And>i. i < unat len \<Longrightarrow> (\<And>k. k < unat n \<Longrightarrow> i \<noteq> (unat off + k) mod unat len) \<Longrightarrow> Buffer m i = mem i"
    and i: "i < unat len"
  shows "Buffer (RequestFlush mem len off n m) i = mem i"
proof -
  have sum: "unat (off + n) = unat off + unat n" using len off n by (intro unat_add_small) simp
  show ?thesis
  proof (cases "off + n > len")
    case False
    then have le: "unat off + unat n \<le> unat len" using sum by (simp add: unat_lt_iff)
    show ?thesis
    proof (cases "unat off \<le> i \<and> i < unat off + unat n")
      case True
      then show ?thesis using m False by (simp add: RequestFlush_def Let_def memcpy_def)
    next
      case out: False
      have "Buffer m i = mem i"
      proof (rule clean [OF i])
        fix k assume "k < unat n"
        with out le show "i \<noteq> (unat off + k) mod unat len" by auto
      qed
      with out m False show ?thesis by (simp add: RequestFlush_def Let_def memcpy_def)
    qed
  next
    case True
    have d: "unat (len - off) = unat len - unat off" using off by (intro unat_sub_le) (simp add: unat_le_iff)
    have gt: "unat len - unat off < unat n" using True sum off by (simp add: unat_lt_iff)
    have r: "unat (n - (len - off)) = unat n - (unat len - unat off)"
      using gt d by (subst unat_sub_le) (simp_all add: unat_le_iff)
    let ?r = "unat (if n - (len - off) > len then len else n - (len - off))"
    have b: "Buffer (RequestFlush mem len off n m) =
      memcpy 0 mem 0 ?r (memcpy (unat off) mem (unat off) (unat (len - off)) (Buffer m))"
      using m True by (simp add: RequestFlush_def Let_def)
    show ?thesis
    proof (cases "i < ?r \<or> unat off \<le> i")
      case True
      then show ?thesis using i off unfolding b by (auto simp: memcpy_def d)
    next
      case False
      then have nr: "unat n - (unat len - unat off) \<le> i" using i r by (auto simp: unat_lt_iff split: if_splits)
      have "Buffer m i = mem i"
      proof (rule clean [OF i])
        fix k assume k: "k < unat n"
        show "i \<noteq> (unat off + k) mod unat len"
        proof (cases "unat off + k < unat len")
          case True
          with False show ?thesis by auto
        next
          case ge: False
          have "unat off + k - unat len < i" using k nr off ge by linarith
          moreover have "(unat off + k) mod unat len = unat off + k - unat len"
            using ge \<open>unat off + k - unat len < i\<close> i by (simp add: mod_if)
          ultimately show ?thesis by simp
        qed
      qed
      with False show ?thesis unfolding b by (simp add: memcpy_def)
    qed
  qed
qed

lemma Length_RequestFlush: "Length (RequestFlush mem len off n m) = len"
  by (simp add: RequestFlush_def Let_def)

lemma finish_mirrors:
  assumes "retail_chip c" "clean_outside c" "written c < 2 ^ 31" "unat off = cell c (SRAMFirstAddr c)"
  shows "mirrored (finish True off c)"
proof -
  obtain k where k: "9 \<le> k" "k \<le> 20" "SRAMLength c = 2 ^ k" by (rule retail_chip_length [OF assms(1)])
  have "(2 :: nat) ^ k < 2 ^ 31" using k(2) by (intro power_strict_increasing) simp_all
  then have len: "unat (SRAMLength c) < 2 ^ 31" using k by (simp add: unat_two_power)
  have "Buffer (RequestFlush (SRAM c) (SRAMLength c) off (SRAMAddr c - SRAMFirstAddr c) (UserData c)) i = SRAM c i"
    if "i < unat (SRAMLength c)" for i
  proof (rule RequestFlush_mirrors [OF _ len _ _ _ that])
    show "Length (UserData c) = SRAMLength c" using assms(2) by (simp add: clean_outside_def)
    show "unat off < unat (SRAMLength c)" using cell_add(2) [OF assms(1)] assms(4) by simp
    show "unat (SRAMAddr c - SRAMFirstAddr c) < 2 ^ 31" using assms(3) by (simp add: written_def)
    fix i assume i: "i < unat (SRAMLength c)"
      "\<And>k. k < unat (SRAMAddr c - SRAMFirstAddr c) \<Longrightarrow> i \<noteq> (unat off + k) mod unat (SRAMLength c)"
    then show "Buffer (UserData c) i = SRAM c i"
      using assms(2) unfolding clean_outside_def by (simp add: cell_add(1) [OF assms(1)] assms(4) written_def)
  qed
  then show ?thesis by (simp add: mirrored_def finish_def Length_RequestFlush)
qed

text \<open>The steps inside a command that changes the memory.\<close>

lemma cell_cong:
  "SRAMType c = SRAMType d \<Longrightarrow> SRAMCmd c = SRAMCmd d \<Longrightarrow> SRAMLength c = SRAMLength d \<Longrightarrow> cell c = cell d"
  by (simp add: cell_def fun_eq_iff)

lemma address_clean: "mirrored c \<Longrightarrow> clean_outside (c\<lparr>SRAMAddr := a, SRAMFirstAddr := a\<rparr>)"
  by (subst clean_outside_0) (simp_all add: written_def mirrored_def)

lemma put_clean:
  assumes "clean_outside c" "written c + 1 < 2 ^ 32"
    and d: "d = c\<lparr>SRAM := m, SRAMAddr := SRAMAddr c + 1\<rparr>"
    and m: "\<And>i. i \<noteq> cell c (SRAMAddr c) \<Longrightarrow> m i = SRAM c i"
  shows "clean_outside d" "written d = written c + 1"
proof -
  have "written d = unat ((SRAMAddr c - SRAMFirstAddr c) + 1)" by (simp add: d written_def algebra_simps)
  also have "\<dots> = written c + 1" using assms(2) unfolding written_def by (subst unat_add_small) simp_all
  finally show w: "written d = written c + 1" .
  have eq: "cell d = cell c" by (rule cell_cong) (simp_all add: d)
  have a: "SRAMFirstAddr c + word_of_nat (written c) = SRAMAddr c" by (simp add: written_def)
  show "clean_outside d"
    unfolding clean_outside_def
  proof (intro conjI allI impI)
    show "Length (UserData d) = SRAMLength d" using assms(1) by (simp add: d clean_outside_def)
    fix i assume i: "i < unat (SRAMLength d)" "\<forall>k < written d. i \<noteq> cell d (SRAMFirstAddr d + word_of_nat k)"
    then have "i \<noteq> cell c (SRAMFirstAddr c + word_of_nat (written c))" "\<forall>k < written c. i \<noteq> cell c (SRAMFirstAddr c + word_of_nat k)"
      by (simp_all add: w eq) (simp_all add: d)
    with i(1) m assms(1) a show "Buffer (UserData d) i = SRAM d i" by (simp add: clean_outside_def d)
  qed
qed

lemma store_clean:
  assumes "clean_outside c" "written c + 1 < 2 ^ 32" "unat i = cell c (SRAMAddr c)"
  shows "clean_outside (store i v c)" "written (store i v c) = written c + 1"
proof -
  define m where "m = (if write_enabled c then (SRAM c)(unat i := v) else SRAM c)"
  have "store i v c = c\<lparr>SRAM := m, SRAMAddr := SRAMAddr c + 1\<rparr>" by (simp add: store_def Let_def m_def)
  from put_clean [OF assms(1,2) this] assms(3)
  show "clean_outside (store i v c)" "written (store i v c) = written c + 1" by (auto simp: m_def)
qed

lemma erase_Suc: "erase (Suc n) c = (let d = erase n c in
    d\<lparr>SRAM := (SRAM d)(unat (wrapped d (SRAMAddr d)) := 0), SRAMAddr := SRAMAddr d + 1\<rparr>)"
  by (simp add: erase_def Let_def)

lemma erase_clean:
  assumes "clean_outside c" "written c + n < 2 ^ 32" "SRAMType c = 3"
  shows "clean_outside (erase n c) \<and> written (erase n c) = written c + n \<and> SRAMType (erase n c) = 3 \<and>
    SRAMCmd (erase n c) = SRAMCmd c \<and> SRAMLength (erase n c) = SRAMLength c"
  using assms(2)
proof (induction n)
  case 0
  show ?case using assms by (simp add: erase_def)
next
  case (Suc n)
  let ?d = "erase n c"
  have IH: "clean_outside ?d" "written ?d = written c + n" "SRAMType ?d = 3" "SRAMCmd ?d = SRAMCmd c" "SRAMLength ?d = SRAMLength c"
    using Suc by simp_all
  have e: "erase (Suc n) c = ?d\<lparr>SRAM := (SRAM ?d)(unat (wrapped ?d (SRAMAddr ?d)) := 0), SRAMAddr := SRAMAddr ?d + 1\<rparr>"
    by (simp only: erase_Suc Let_def)
  have "unat (wrapped ?d (SRAMAddr ?d)) = cell ?d (SRAMAddr ?d)" by (simp add: wrapped_def cell_def IH)
  then have "clean_outside (erase (Suc n) c)" "written (erase (Suc n) c) = written ?d + 1"
    using put_clean [OF IH(1) _ e] IH(2) Suc.prems by simp_all
  then show ?case using IH by (simp add: e)
qed


text \<open>Where a command stands before the byte at position \<open>p\<close>: a command that does not change the memory
  leaves the copy right; one that does has written no cell before its address is complete, and an erase
  command writes all its cells with the third byte of the address.\<close>

definition changes :: "cart \<Rightarrow> bool" where
  "changes c \<longleftrightarrow>
     (if SRAMType c = 1 then SRAMCmd c \<in> {0x02, 0x0A} else if SRAMType c = 2 then SRAMCmd c = 0x02
      else SRAMCmd c \<in> {0x02, 0x0A, 0xD8, 0xDB})"

definition erases :: "cart \<Rightarrow> bool" where
  "erases c \<longleftrightarrow> SRAMType c = 3 \<and> SRAMCmd c \<in> {0xD8, 0xDB}"

definition addr_bytes :: "cart \<Rightarrow> nat" where
  "addr_bytes c = (if SRAMType c = 1 then 1 else if SRAMType c = 2 then unat (addrsize c) else 3)"

definition at_byte :: "nat \<Rightarrow> cart \<Rightarrow> bool" where
  "at_byte p c \<longleftrightarrow> retail_chip c \<and>
     (if changes c \<and> 1 < p then
        clean_outside c \<and> written c \<le> (if erases c then (if p \<le> 3 then 0 else 0x10000) else p - Suc (addr_bytes c))
      else mirrored c)"

lemma retail_chip_type: "retail_chip c \<Longrightarrow> SRAMType c \<in> {1, 2, 3}"
  unfolding retail_chip_def is_chip_def by (elim bexE insertE emptyE) (simp_all add: sramtype_def)

lemma same_chip:
  assumes "SRAMType d = SRAMType c" "SRAMLength d = SRAMLength c"
  shows "retail_chip d = retail_chip c"
  using assms by (simp add: retail_chip_def is_chip_def)

lemma same_command:
  assumes "SRAMType d = SRAMType c" "SRAMLength d = SRAMLength c" "SRAMCmd d = SRAMCmd c"
  shows "retail_chip d = retail_chip c" "changes d = changes c" "erases d = erases c" "addr_bytes d = addr_bytes c"
    "cell d = cell c"
  by (rule same_chip [OF assms(1,2)], simp_all only: changes_def erases_def addr_bytes_def addrsize_def cell_def fun_eq_iff assms simp_thms)

lemma at_byte_mirrored: "retail_chip c \<Longrightarrow> mirrored c \<Longrightarrow> p \<le> 1 \<or> \<not> changes c \<Longrightarrow> at_byte p c"
  by (auto simp: at_byte_def)

text \<open>The address bytes.\<close>

lemma at_byte_address:
  assumes "at_byte p c" "0 < p" "p \<le> addr_bytes c"
  shows "mirrored c"
proof (cases "changes c \<and> 1 < p")
  case True
  have "addr_bytes c \<le> 3" by (simp add: addr_bytes_def addrsize_def)
  with True assms have "clean_outside c" "written c = 0" by (auto simp: at_byte_def split: if_splits)
  then show ?thesis by (simp add: clean_outside_0)
qed (use assms in \<open>auto simp: at_byte_def\<close>)

text \<open>The last byte of the command, or one more to come.\<close>

lemma finish_same: "SRAMType (finish l off c) = SRAMType c" "SRAMLength (finish l off c) = SRAMLength c"
  "SRAMCmd (finish l off c) = SRAMCmd c" "finish False off c = c"
  by (simp_all add: finish_def)

lemma after_byte:
  assumes c: "retail_chip c" "changes c" "clean_outside c"
    and w: "written c \<le> (if erases c then (if p < 3 then 0 else 0x10000) else Suc p - Suc (addr_bytes c))"
    and p: "0 < p" "p < 2 ^ 30" and off: "unat off = cell c (SRAMFirstAddr c)"
  shows "if l then mirrored (finish l off c) \<and> retail_chip (finish l off c) else at_byte (Suc p) (finish l off c)"
proof -
  have "written c \<le> p + 0x10000" using w by (auto split: if_splits)
  with p have "written c < 2 ^ 31" by simp
  then have "mirrored (finish True off c)" by (rule finish_mirrors [OF c(1,3) _ off])
  moreover have "retail_chip (finish l off c)" using c(1) by (simp only: same_chip [OF finish_same(1,2)])
  moreover have "at_byte (Suc p) c" using c w p by (auto simp: at_byte_def split: if_splits)
  ultimately show ?thesis by (cases l) (simp_all add: finish_same)
qed


text \<open>Every byte after the first, on each kind of chip. \<open>same_memory\<close> is what a byte of any other command
  leaves alone.\<close>

definition same_memory :: "cart \<Rightarrow> cart \<Rightarrow> bool" where
  "same_memory c d \<longleftrightarrow> SRAM d = SRAM c \<and> UserData d = UserData c \<and> SRAMLength d = SRAMLength c \<and>
     SRAMType d = SRAMType c \<and> SRAMCmd d = SRAMCmd c"

lemma same_memory_step:
  assumes "at_byte p c" "\<not> changes c" "same_memory c d"
  shows "mirrored d \<and> retail_chip d \<and> at_byte q d"
proof -
  have d: "SRAMType d = SRAMType c" "SRAMLength d = SRAMLength c" "SRAMCmd d = SRAMCmd c"
    using assms(3) by (simp_all add: same_memory_def)
  have "mirrored c" "retail_chip c" using assms(1,2) by (simp_all add: at_byte_def)
  then have "mirrored d" "retail_chip d" "\<not> changes d"
    using assms(2,3) same_command(1,2) [OF d] by (simp_all add: mirrored_def same_memory_def)
  then show ?thesis by (simp add: at_byte_mirrored)
qed

lemma reading_step:
  assumes "retail_chip c" "\<not> changes c" "p \<noteq> 0"
  shows "same_memory c (snd (Retail_SPIWrite v p l c))"
proof -
  have "SRAMType c \<in> {1, 2, 3}" by (rule retail_chip_type [OF assms(1)])
  moreover have "SRAMType c = 1 \<Longrightarrow> ?thesis"
    using assms(2,3) by (simp add: Retail_SPIWrite_def SRAMWrite_EEPROMTiny_def changes_def same_memory_def write_status_def fetch_def)
  moreover have "SRAMType c = 2 \<Longrightarrow> ?thesis"
    using assms(2,3) by (simp add: Retail_SPIWrite_def SRAMWrite_EEPROM_def changes_def same_memory_def write_status_def fetch_def read_address_def)
  moreover have "SRAMType c = 3 \<Longrightarrow> ?thesis"
    using assms(2,3) by (simp add: Retail_SPIWrite_def SRAMWrite_FLASH_def changes_def same_memory_def fetch_def read_address_def)
  ultimately show ?thesis by auto
qed

text \<open>A byte of a command that changes the memory: what happens before the end of the command is looked at.\<close>

definition body :: "u8 \<Rightarrow> nat \<Rightarrow> cart \<Rightarrow> cart" where
  "body v p c =
     (if p \<le> addr_bytes c then
        let c = (if SRAMType c = 1 then c\<lparr>SRAMAddr := ucast v, SRAMFirstAddr := ucast v\<rparr> else write_address v c)
        in if erases c \<and> p = 3 \<and> write_enabled c then erase (if SRAMCmd c = 0xD8 then 0x10000 else 0x100) c else c
      else if erases c then c
      else store (word_of_nat (cell c (SRAMAddr c))) (if SRAMType c = 3 \<and> SRAMCmd c = 0x02 then 0 else v) c)"

lemma tiny_length: "retail_chip c \<Longrightarrow> SRAMType c = 1 \<Longrightarrow> SRAMLength c = 512"
  unfolding retail_chip_def is_chip_def by (elim bexE insertE emptyE) (simp_all add: sramtype_def sramlength_def)

lemma erase_fields: "SRAMType (erase n c) = SRAMType c \<and> SRAMCmd (erase n c) = SRAMCmd c \<and> SRAMLength (erase n c) = SRAMLength c \<and>
    SRAMFirstAddr (erase n c) = SRAMFirstAddr c"
  by (induction n) (simp_all add: erase_Suc Let_def, simp add: erase_def)

lemma body_fields: "SRAMType (body v p c) = SRAMType c" "SRAMCmd (body v p c) = SRAMCmd c" "SRAMLength (body v p c) = SRAMLength c"
  by (simp_all add: body_def Let_def erase_fields write_address_def store_def)

lemma finish_exists:
  assumes "snd (Retail_SPIWrite v p l c) = finish l off b" "unat off = cell b (SRAMFirstAddr b)"
  shows "\<exists>off. unat off = cell b (SRAMFirstAddr b) \<and> snd (Retail_SPIWrite v p l c) = finish l off b"
  using assms by blast

lemma writing_step_1:
  assumes "retail_chip c" "SRAMType c = 1" "changes c" "0 < p" "p < 2 ^ 30"
  shows "\<exists>off. unat off = cell (body v p c) (SRAMFirstAddr (body v p c)) \<and>
    snd (Retail_SPIWrite v (word_of_nat p) l c) = finish l off (body v p c)"
proof (rule finish_exists)
  let ?b = "body v p c"
  have len: "SRAMLength c - 1 = 0x1FF" using tiny_length [OF assms(1,2)] by simp
  have p: "(word_of_nat p :: u32) \<noteq> 0" "(word_of_nat p :: u32) < 2 \<longleftrightarrow> p \<le> 1" using assms(4,5) by (auto simp: word_pos)
  have ix: "word_of_nat (cell c a) = tiny (SRAMCmd c = 0x0A) a" for a using assms(2) len by (simp add: cell_def tiny_def)
  have b: "?b = (if p \<le> 1 then c\<lparr>SRAMAddr := ucast v, SRAMFirstAddr := ucast v\<rparr> else store (tiny (SRAMCmd c = 0x0A) (SRAMAddr c)) v c)"
    using assms(2) by (simp add: body_def addr_bytes_def erases_def ix)
  have "SRAMCmd c = 0x02 \<or> SRAMCmd c = 0x0A" using assms(2,3) by (simp add: changes_def)
  then show "snd (Retail_SPIWrite v (word_of_nat p) l c) = finish l (tiny (SRAMCmd ?b = 0x0A) (SRAMFirstAddr ?b)) ?b"
    unfolding body_fields unfolding b
    by (elim disjE) (use assms(2) p in \<open>simp_all add: Retail_SPIWrite_def SRAMWrite_EEPROMTiny_def Let_def store_def\<close>)
  show "unat (tiny (SRAMCmd ?b = 0x0A) (SRAMFirstAddr ?b)) = cell ?b (SRAMFirstAddr ?b)"
    using assms(2) len by (simp add: cell_def tiny_def body_fields)
qed

lemma writing_step_2:
  assumes "SRAMType c = 2" "changes c" "0 < p" "p < 2 ^ 30"
  shows "\<exists>off. unat off = cell (body v p c) (SRAMFirstAddr (body v p c)) \<and>
    snd (Retail_SPIWrite v (word_of_nat p) l c) = finish l off (body v p c)"
proof (rule finish_exists)
  let ?b = "body v p c"
  have p: "(word_of_nat p :: u32) \<noteq> 0" "(word_of_nat p :: u32) \<le> addrsize c \<longleftrightarrow> p \<le> unat (addrsize c)"
    using assms(3,4) by (auto simp: word_pos unat_le_iff unat_pos)
  have ix: "word_of_nat (cell c a) = wrapped c a" for a using assms(1) by (simp add: cell_def wrapped_def)
  have b: "?b = (if p \<le> unat (addrsize c) then write_address v c else store (wrapped c (SRAMAddr c)) v c)"
    using assms(1) by (simp add: body_def addr_bytes_def erases_def ix write_address_def Let_def)
  show "snd (Retail_SPIWrite v (word_of_nat p) l c) = finish l (wrapped ?b (SRAMFirstAddr ?b)) ?b"
    using assms(1,2) p unfolding b by (simp add: Retail_SPIWrite_def SRAMWrite_EEPROM_def Let_def changes_def)
  show "unat (wrapped ?b (SRAMFirstAddr ?b)) = cell ?b (SRAMFirstAddr ?b)"
    using assms(1) by (simp add: cell_def wrapped_def body_fields)
qed

lemma writing_step_3:
  assumes "SRAMType c = 3" "changes c" "0 < p" "p < 2 ^ 30"
  shows "\<exists>off. unat off = cell (body v p c) (SRAMFirstAddr (body v p c)) \<and>
    snd (Retail_SPIWrite v (word_of_nat p) l c) = finish l off (body v p c)"
proof (rule finish_exists)
  let ?b = "body v p c"
  have p32: "p < 2 ^ 32" using assms(4) by simp
  have p3: "(word_of_nat p :: u32) = 3 \<longleftrightarrow> p = 3" using unat_pos [OF p32] by (auto simp: word_eq_unat)
  have p: "(word_of_nat p :: u32) \<noteq> 0" "(word_of_nat p :: u32) \<le> 3 \<longleftrightarrow> p \<le> 3"
    using assms(3) by (simp_all add: word_pos [OF p32])
  have ix: "word_of_nat (cell c a) = wrapped c a" for a using assms(1) by (simp add: cell_def wrapped_def)
  have w: "SRAMCmd (write_address v c) = SRAMCmd c" "write_enabled (write_address v c) = write_enabled c"
    "SRAMType (write_address v c) = SRAMType c"
    by (simp_all add: write_address_def write_enabled_def Let_def)
  consider "SRAMCmd c = 0x02" | "SRAMCmd c = 0x0A" | "SRAMCmd c = 0xD8" | "SRAMCmd c = 0xDB"
    using assms(1,2) by (auto simp: changes_def)
  then show "snd (Retail_SPIWrite v (word_of_nat p) l c) = finish l (wrapped ?b (SRAMFirstAddr ?b)) ?b"
    by cases (use assms(1) p p3 w in \<open>simp_all add: Retail_SPIWrite_def SRAMWrite_FLASH_def Let_def body_def addr_bytes_def
      erases_def ix\<close>)
  show "unat (wrapped ?b (SRAMFirstAddr ?b)) = cell ?b (SRAMFirstAddr ?b)"
    using assms(1) by (simp add: cell_def wrapped_def body_fields)
qed

lemma writing_step:
  assumes "retail_chip c" "changes c" "0 < p" "p < 2 ^ 30"
  shows "\<exists>off. unat off = cell (body v p c) (SRAMFirstAddr (body v p c)) \<and>
    snd (Retail_SPIWrite v (word_of_nat p) l c) = finish l off (body v p c)"
  using retail_chip_type [OF assms(1)] writing_step_1 [OF assms(1) _ assms(2-4)] writing_step_2 [OF _ assms(2-4)]
    writing_step_3 [OF _ assms(2-4)] by blast

lemma body_clean:
  assumes "at_byte p c" "changes c" "0 < p" "p < 2 ^ 30"
  shows "clean_outside (body v p c) \<and>
    written (body v p c) \<le> (if erases c then (if p < 3 then 0 else 0x10000) else Suc p - Suc (addr_bytes c))"
proof (cases "p \<le> addr_bytes c")
  case True
  define a where "a = (if SRAMType c = 1 then c\<lparr>SRAMAddr := ucast v, SRAMFirstAddr := ucast v\<rparr> else write_address v c)"
  have m: "mirrored c" by (rule at_byte_address [OF assms(1,3) True])
  have a: "clean_outside a" "written a = 0" "erases a = erases c" "erases c \<Longrightarrow> SRAMType a = 3"
    using address_clean [OF m] by (auto simp: a_def write_address_def Let_def written_def erases_def)
  show ?thesis
  proof (cases "erases c \<and> p = 3 \<and> write_enabled a")
    case e: True
    then have t: "SRAMType a = 3" using a(4) by simp
    define n :: nat where "n = (if SRAMCmd a = 0xD8 then 0x10000 else 0x100)"
    have n: "n \<le> 0x10000" by (simp add: n_def)
    have "body v p c = erase n a" using e True a(3) by (simp add: body_def a_def [symmetric] Let_def n_def)
    moreover have "clean_outside (erase n a) \<and> written (erase n a) = n" using erase_clean [OF a(1) _ t, of n] n a(2) by simp
    ultimately show ?thesis using e n by simp
  next
    case False
    then have "body v p c = a" using True a(3) by (auto simp: body_def a_def [symmetric] Let_def)
    then show ?thesis using a by simp
  qed
next
  case False
  have p1: "1 < p" using False assms(3) by (auto simp: addr_bytes_def addrsize_def split: if_splits)
  then have c: "clean_outside c" "written c \<le> (if erases c then (if p \<le> 3 then 0 else 0x10000) else p - Suc (addr_bytes c))"
    "retail_chip c"
    using assms(1,2) by (simp_all add: at_byte_def)
  show ?thesis
  proof (cases "erases c")
    case True
    then have "\<not> p \<le> 3" using False by (simp add: erases_def addr_bytes_def)
    then show ?thesis using c True False by (simp add: body_def)
  next
    case ne: False
    have "cell c (SRAMAddr c) < unat (SRAMLength c)" by (rule cell_add(2) [OF c(3)])
    then have "unat (word_of_nat (cell c (SRAMAddr c)) :: u32) = cell c (SRAMAddr c)"
      using unat_bound [of "SRAMLength c"] by (intro unat_pos) simp
    moreover have "written c + 1 < 2 ^ 32" using c(2) ne assms(4) by simp
    ultimately have "clean_outside (body v p c)" "written (body v p c) = written c + 1"
      using store_clean [OF c(1)] False ne by (simp_all add: body_def)
    with c(2) ne False show ?thesis by simp
  qed
qed

lemma SPIWrite_step:
  assumes "at_byte p c" "0 < p" "p < 2 ^ 30"
  shows "let d = snd (Retail_SPIWrite v (word_of_nat p) l c) in
    if l then mirrored d \<and> retail_chip d else at_byte (Suc p) d"
proof (cases "changes c")
  case False
  have "(word_of_nat p :: u32) \<noteq> 0" using assms(2,3) by (simp add: word_pos)
  moreover have "retail_chip c" using assms(1) by (simp add: at_byte_def)
  ultimately have "same_memory c (snd (Retail_SPIWrite v (word_of_nat p) l c))" by (intro reading_step False)
  from same_memory_step [OF assms(1) False this, of "Suc p"] show ?thesis by (cases l) (simp_all add: Let_def)
next
  case True
  have c: "retail_chip c" using assms(1) by (simp add: at_byte_def)
  obtain off where off: "unat off = cell (body v p c) (SRAMFirstAddr (body v p c))"
    "snd (Retail_SPIWrite v (word_of_nat p) l c) = finish l off (body v p c)"
    using writing_step [OF c True assms(2,3)] by blast
  note s = same_command [OF body_fields(1,3,2), of v p c]
  have b: "clean_outside (body v p c)"
    "written (body v p c) \<le> (if erases (body v p c) then (if p < 3 then 0 else 0x10000) else Suc p - Suc (addr_bytes (body v p c)))"
    unfolding s using body_clean [OF assms(1) True assms(2,3), where v = v] by blast+
  show ?thesis
    unfolding Let_def off(2)
    by (rule after_byte [OF _ _ b assms(2,3) off(1)]) (simp_all add: s c True)
qed


lemma spi_bytes_mirror:
  assumes "at_byte p c" "0 < p" "p + length bs < 2 ^ 30" "bs \<noteq> []"
  shows "mirrored (snd (spi_bytes (word_of_nat p) bs c)) \<and> retail_chip (snd (spi_bytes (word_of_nat p) bs c))"
  using assms
proof (induction bs arbitrary: p c)
  case (Cons b bs)
  let ?d = "snd (Retail_SPIWrite b (word_of_nat p) (bs = []) c)"
  have e: "snd (spi_bytes (word_of_nat p) (b # bs) c) = snd (spi_bytes (word_of_nat (Suc p)) bs ?d)"
    by (simp add: case_prod_beta Let_def add.commute)
  have st: "if bs = [] then mirrored ?d \<and> retail_chip ?d else at_byte (Suc p) ?d"
    using SPIWrite_step [OF Cons.prems(1,2), of b "bs = []"] Cons.prems(3) by (simp add: Let_def)
  show ?case
  proof (cases "bs = []")
    case True
    then show ?thesis using e st by simp
  next
    case False
    then show ?thesis unfolding e using st Cons.prems by (intro Cons.IH) simp_all
  qed
qed simp

lemma command_mirrors:
  assumes "retail_chip c" "mirrored c" "length bs < 2 ^ 29"
  shows "mirrored (snd (spi_command bs c)) \<and> retail_chip (snd (spi_command bs c))"
proof (cases bs)
  case (Cons b as)
  let ?d = "snd (Retail_SPIWrite b 0 (as = []) c)"
  have e: "snd (spi_command bs c) = snd (spi_bytes (word_of_nat 1) as ?d)"
    by (simp add: spi_command_def Cons case_prod_beta Let_def)
  have "SRAMType c \<noteq> 0" using retail_chip_type [OF assms(1)] by auto
  then have f: "SRAMType ?d = SRAMType c" "SRAMLength ?d = SRAMLength c" "SRAM ?d = SRAM c" "UserData ?d = UserData c"
    by (simp_all add: Retail_SPIWrite_def)
  have d: "retail_chip ?d" using assms(1) by (simp only: same_chip [OF f(1,2)])
  have m: "mirrored ?d" using assms(2) unfolding mirrored_def f .
  show ?thesis
  proof (cases "as = []")
    case True
    then show ?thesis using m d unfolding e by simp
  next
    case False
    have "at_byte 1 ?d" by (rule at_byte_mirrored [OF d m]) simp
    from spi_bytes_mirror [OF this _ _ False] show ?thesis unfolding e using assms(3) Cons by simp
  qed
qed (use assms in \<open>simp add: spi_command_def\<close>)

end
