(* ===== verification/CartSlot.thy ===== *)
theory CartSlot
  imports Cart Dma Sched
begin

text \<open>
  The cartridge slot (\<^verbatim>\<open>NDSCartSlot\<close> in \<^verbatim>\<open>src/src/NDSCart.h\<close> and \<^verbatim>\<open>NDSCart.cpp\<close>) and its registers
  (\<^verbatim>\<open>src/src/NDS.cpp\<close>): the transfer of a ROM command and its words, which the scheduler and the DMA
  controllers drive, and the SPI bus of the save memory.

  The slot and the registers beside it are what the DMA system has on its buses, in the field
  \<open>dmem\<close>. The cartridge is in a variable of its own, which may be empty.
\<close>

section \<open>State\<close>

record slot =
  SPICnt :: u16
  ROMCnt :: u32
  ROMCommand :: mem
  SPIData :: u8
  SPIDataPos :: u32
  SPIHold :: bool
  ROMData :: u32
  TransferData :: mem
  TransferPos :: u32
  TransferLen :: u32
  TransferDir :: u32
  TransferCmd :: mem
  Cart :: "cart option"
  Key1_KeyBuf :: keybuf
  Key2_X :: u64
  Key2_Y :: u64

record slot_bus =
  CartSlot :: slot
  ExMemCnt :: "nat \<Rightarrow> u16"
  ROMSeed0 :: mem
  ROMSeed1 :: mem

type_synonym csys = "slot_bus dsys"

definition upd_slot :: "(slot \<Rightarrow> slot) \<Rightarrow> csys \<Rightarrow> csys" where
  "upd_slot f s = s\<lparr>dmem := (dmem s)\<lparr>CartSlot := f (CartSlot (dmem s))\<rparr>\<rparr>"

definition the_slot :: "csys \<Rightarrow> slot" where
  "the_slot s = CartSlot (dmem s)"

definition Event_ROMTransfer :: nat where "Event_ROMTransfer = 5"
definition Event_ROMSPITransfer :: nat where "Event_ROMSPITransfer = 6"
definition ROMTransfer_PrepareData :: u32 where "ROMTransfer_PrepareData = 0"
definition ROMTransfer_End :: u32 where "ROMTransfer_End = 1"
definition IRQ_CartXferDone :: nat where "IRQ_CartXferDone = 19"
definition IRQ_CartIREQMC :: nat where "IRQ_CartIREQMC = 20"

section \<open>The slot\<close>

definition ResetCart :: "cart_env \<Rightarrow> slot \<Rightarrow> slot" where
  "ResetCart env l =
     l\<lparr>SPICnt := 0, ROMCnt := 0, SPIData := 0, SPIDataPos := 0, SPIHold := False,
       ROMCommand := memset 0 0 8 (ROMCommand l), ROMData := 0, Key2_X := 0, Key2_Y := 0,
       TransferData := memset 0 0 0x4000 (TransferData l), TransferPos := 0, TransferLen := 0, TransferDir := 0,
       TransferCmd := (memset 0 0 8 (TransferCmd l))(0 := 0xFF), Cart := map_option (Cart_Reset env) (Cart l)\<rparr>"

definition EjectCart :: "csys \<Rightarrow> cart option \<times> csys" where
  "EjectCart s =
     (case Cart (the_slot s) of
        None \<Rightarrow> (None, s)
      | Some c \<Rightarrow>
          let s = upd_nds (\<lambda>n. SetIRQ 1 IRQ_CartIREQMC (SetIRQ 0 IRQ_CartIREQMC n)) s
          in (Some c, upd_slot (\<lambda>l. l\<lparr>Cart := None\<rparr>) s))"

text \<open>The secure area of an image as blocks, and back.\<close>

definition secure_area :: "nat \<Rightarrow> mem \<Rightarrow> block64 list" where
  "secure_area base rom = map (\<lambda>k. (get32 rom (base + 8 * k), get32 rom (base + 8 * k + 4))) [0..<0x100]"

definition put_blocks :: "nat \<Rightarrow> block64 list \<Rightarrow> mem \<Rightarrow> mem" where
  "put_blocks base bs rom =
     fold (\<lambda>(k, b) m. put32 (base + 8 * k + 4) (snd b) (put32 (base + 8 * k) (fst b) m)) (enumerate 0 bs) rom"

definition needs_encryption :: "cart \<Rightarrow> bool" where
  "needs_encryption c \<longleftrightarrow>
     (let off = hdr_ARM9ROMOffset (ROM c); area = secure_area (unat off) (ROM c)
      in 0x4000 \<le> off \<and> off < 0x8000 \<and> fst (area ! 0) = wiped \<and> fst (area ! 2) \<noteq> wiped)"

definition encrypt_image :: "(bool \<Rightarrow> keybuf) \<Rightarrow> cart \<Rightarrow> cart" where
  "encrypt_image load c =
     (let base = unat (hdr_ARM9ROMOffset (ROM c))
      in if needs_encryption c
         then c\<lparr>ROM := put_blocks base (reencrypt load (GameCode (ROMParams c)) (secure_area base (ROM c))) (ROM c)\<rparr>
         else c)"

definition insert_cart :: "cart_env \<Rightarrow> cart \<Rightarrow> slot \<Rightarrow> slot" where
  "insert_cart env c l =
     (let c = Cart_Reset env c;
          kb = (if needs_encryption c then Key1_InitKeycode (LoadKeyBuf env) False (GameCode (ROMParams c)) 2 2
                else Key1_KeyBuf l)
      in l\<lparr>Cart := Some (encrypt_image (LoadKeyBuf env) c), Key1_KeyBuf := kb\<rparr>)"

definition SetCart :: "cart_env \<Rightarrow> cart option \<Rightarrow> csys \<Rightarrow> csys" where
  "SetCart env c s =
     (let s = (if Cart (the_slot s) \<noteq> None then snd (EjectCart s) else s)
      in upd_slot (case c of None \<Rightarrow> (\<lambda>l. l\<lparr>Cart := None\<rparr>) | Some c \<Rightarrow> insert_cart env c) s)"

definition slot_SetSaveMemory :: "mem \<Rightarrow> u32 \<Rightarrow> slot \<Rightarrow> slot" where
  "slot_SetSaveMemory savedata savelen l = l\<lparr>Cart := map_option (SetSaveMemory savedata savelen) (Cart l)\<rparr>"

definition SetupDirectBoot :: "cart_env \<Rightarrow> csys \<Rightarrow> csys" where
  "SetupDirectBoot env s =
     upd_slot (\<lambda>l. l\<lparr>Cart := map_option (Cart_SetupDirectBoot env (ConsoleType (dcon s))) (Cart l)\<rparr>) s"

section \<open>ROM transfers\<close>

definition ROMEndTransfer :: "cart_env \<Rightarrow> u32 \<Rightarrow> csys \<Rightarrow> csys" where
  "ROMEndTransfer env param s =
     (let s = upd_slot (\<lambda>l. l\<lparr>ROMCnt := ROMCnt l AND NOT (shl 1 31)\<rparr>) s;
          s = (if tst (SPICnt (the_slot s)) (shl 1 14)
               then upd_nds (SetIRQ (unat (shr (ExMemCnt (dmem s) 0) 11 AND 0x1)) IRQ_CartXferDone) s else s)
      in upd_slot (\<lambda>l. l\<lparr>Cart := map_option (ROMCommandFinish env (TransferCmd l) (TransferData l) (TransferLen l)) (Cart l)\<rparr>) s)"

definition next_word :: "slot \<Rightarrow> slot" where
  "next_word l =
     (if TransferDir l = 0 then
        l\<lparr>ROMData := if TransferPos l \<ge> TransferLen l then 0 else get32 (TransferData l) (unat (TransferPos l)),
          TransferPos := TransferPos l + 4\<rparr>
      else l)"

definition ROMPrepareData :: "u32 \<Rightarrow> csys \<Rightarrow> csys" where
  "ROMPrepareData param s =
     (let s = upd_slot (\<lambda>l. (next_word l)\<lparr>ROMCnt := ROMCnt l OR shl 1 23\<rparr>) s
      in if tst (ExMemCnt (dmem s) 0) (shl 1 11) then CheckDMAs 1 0x12 s else CheckDMAs 0 0x05 s)"

text \<open>The seeds of KEY2: 39 bits in reverse order.\<close>

definition key2_seed :: "nat \<Rightarrow> mem \<Rightarrow> u64" where
  "key2_seed snum seed = ucast (get32 seed snum) OR shl (ucast (seed (snum + 4))) 32"

definition key2_load :: "u64 \<Rightarrow> u64" where
  "key2_load seed = fold (\<lambda>i x. if tst seed (shl 1 i) then x OR shl 1 (38 - i) else x) [0..<39] 0"

definition load_seeds :: "csys \<Rightarrow> csys" where
  "load_seeds s =
     (let snum = unat (shr (ExMemCnt (dmem s) 0) 8 AND 0x8)
      in upd_slot (\<lambda>l. l\<lparr>Key2_X := key2_load (key2_seed snum (ROMSeed0 (dmem s))),
                        Key2_Y := key2_load (key2_seed snum (ROMSeed1 (dmem s)))\<rparr>) s)"

definition datasize :: "u32 \<Rightarrow> u32" where
  "datasize cnt = (let n = shr cnt 24 AND 0x7 in if n = 7 then 4 else if n > 0 then shl 0x100 (unat n) else n)"

text \<open>The start of a command: on the slot, after the checks.\<close>

definition begin_command :: "cart_env \<Rightarrow> slot \<Rightarrow> slot" where
  "begin_command env l =
     (let len = datasize (ROMCnt l);
          l = l\<lparr>TransferPos := 0, TransferLen := len, TransferCmd := memcpy 0 (ROMCommand l) 0 8 (TransferCmd l),
                TransferData := memset 0 0xFF (unat len) (TransferData l), TransferDir := 0\<rparr>;
          l = (case Cart l of
                 None \<Rightarrow> l
               | Some c \<Rightarrow>
                   let (dir, c, kb, data) = ROMCommandStart env (TransferCmd l) len c (Key1_KeyBuf l) (TransferData l)
                   in l\<lparr>TransferDir := dir, Cart := Some c, Key1_KeyBuf := kb, TransferData := data\<rparr>)
      in l\<lparr>ROMCnt := ROMCnt l AND NOT (shl 1 23)\<rparr>)"

definition xfercycle :: "u32 \<Rightarrow> u32" where
  "xfercycle cnt = (if tst cnt (shl 1 27) then 8 else 5)"

definition cmddelay :: "u32 \<Rightarrow> u32" where
  "cmddelay cnt =
     (if tst cnt (shl 1 30) then 8
      else 8 + (cnt AND 0x1FFF) + (if datasize cnt \<noteq> 0 then shr cnt 16 AND 0x3F else 0))"

definition WriteROMCnt :: "cart_env \<Rightarrow> u32 \<Rightarrow> csys \<Rightarrow> csys" where
  "WriteROMCnt env val s =
     (let xferstart = val AND NOT (ROMCnt (the_slot s)) AND shl 1 31;
          s = upd_slot (\<lambda>l. l\<lparr>ROMCnt := (val AND 0xFF7F7FFF) OR (ROMCnt l AND 0x20800000)\<rparr>) s;
          s = (if tst val (shl 1 15) then load_seeds s else s)
      in if \<not> tst (SPICnt (the_slot s)) (shl 1 15) then s
         else if tst (SPICnt (the_slot s)) (shl 1 13) then s
         else if xferstart = 0 then s
         else
           let s = upd_slot (begin_command env) s;
               cnt = ROMCnt (the_slot s)
           in if datasize cnt = 0
              then upd_nds (ScheduleEvent Event_ROMTransfer False (xfercycle cnt * cmddelay cnt) ROMTransfer_End 0) s
              else upd_nds (ScheduleEvent Event_ROMTransfer False (xfercycle cnt * (cmddelay cnt + 4))
                     ROMTransfer_PrepareData 0) s)"

definition AdvanceROMTransfer :: "cart_env \<Rightarrow> csys \<Rightarrow> csys" where
  "AdvanceROMTransfer env s =
     (let s = upd_slot (\<lambda>l. l\<lparr>ROMCnt := ROMCnt l AND NOT (shl 1 23)\<rparr>) s; l = the_slot s; cnt = ROMCnt l
      in if TransferPos l < TransferLen l then
           let delay = (if \<not> tst cnt (shl 1 30) \<and> \<not> tst (TransferPos l) 0x1FF then 4 + (shr cnt 16 AND 0x3F) else 4)
           in upd_nds (ScheduleEvent Event_ROMTransfer False (xfercycle cnt * delay) ROMTransfer_PrepareData 0) s
         else ROMEndTransfer env 0 s)"

definition ReadROMData :: "cart_env \<Rightarrow> csys \<Rightarrow> u32 \<times> csys" where
  "ReadROMData env s =
     (if tst (ROMCnt (the_slot s)) (shl 1 30) then (0, s)
      else
        let s = (if tst (ROMCnt (the_slot s)) (shl 1 23) then AdvanceROMTransfer env s else s)
        in (ROMData (the_slot s), s))"

definition put_word :: "u32 \<Rightarrow> slot \<Rightarrow> slot" where
  "put_word val l =
     (if TransferDir l = 1 then
        l\<lparr>TransferData := if TransferPos l < TransferLen l
                         then put32 (unat (TransferPos l)) (ROMData l) (TransferData l) else TransferData l,
          TransferPos := TransferPos l + 4\<rparr>
      else l)"

definition WriteROMData :: "cart_env \<Rightarrow> u32 \<Rightarrow> csys \<Rightarrow> csys" where
  "WriteROMData env val s =
     (if \<not> tst (ROMCnt (the_slot s)) (shl 1 30) then s
      else
        let s = upd_slot (\<lambda>l. l\<lparr>ROMData := val\<rparr>) s
        in if tst (ROMCnt (the_slot s)) (shl 1 23) then AdvanceROMTransfer env (upd_slot (put_word val) s) else s)"

text \<open>The events of the slot.\<close>

definition ROMTransfer_event :: "cart_env \<Rightarrow> u32 \<Rightarrow> u32 \<Rightarrow> csys \<Rightarrow> csys" where
  "ROMTransfer_event env funcid param =
     (if funcid = ROMTransfer_PrepareData then ROMPrepareData param else ROMEndTransfer env param)"

section \<open>The SPI bus\<close>

definition WriteSPICnt :: "u16 \<Rightarrow> slot \<Rightarrow> slot" where
  "WriteSPICnt val l =
     (let l = (if SPICnt l AND 0x2040 = 0x2040 \<and> val AND 0x2000 = 0x0000 then l\<lparr>SPIHold := False\<rparr> else l)
      in l\<lparr>SPICnt := (SPICnt l AND 0x0080) OR (val AND 0xE043)\<rparr>)"

definition SPITransferDone :: "u32 \<Rightarrow> slot \<Rightarrow> slot" where
  "SPITransferDone param l = l\<lparr>SPICnt := SPICnt l AND NOT (shl 1 7)\<rparr>"

definition spi_ready :: "slot \<Rightarrow> bool" where
  "spi_ready l \<longleftrightarrow> tst (SPICnt l) (shl 1 15) \<and> tst (SPICnt l) (shl 1 13) \<and> \<not> tst (SPICnt l) (shl 1 7)"

definition ReadSPIData :: "slot \<Rightarrow> u8" where
  "ReadSPIData l = (if spi_ready l then SPIData l else 0)"

text \<open>The position of the byte in its command, and the cartridge's answer; the last byte of a command is
  written with the hold bit clear.\<close>

definition spi_position :: "bool \<Rightarrow> slot \<Rightarrow> slot" where
  "spi_position hold l =
     (if \<not> hold then l\<lparr>SPIDataPos := if SPIHold l then SPIDataPos l + 1 else 0, SPIHold := False\<rparr>
      else if \<not> SPIHold l then l\<lparr>SPIHold := True, SPIDataPos := 0\<rparr>
      else l\<lparr>SPIDataPos := SPIDataPos l + 1\<rparr>)"

definition spi_exchange :: "u8 \<Rightarrow> slot \<Rightarrow> slot" where
  "spi_exchange val l =
     (let l = l\<lparr>SPICnt := SPICnt l OR shl 1 7\<rparr>;
          hold = tst (SPICnt l) (shl 1 6);
          l = spi_position hold l
      in case Cart l of
           None \<Rightarrow> l\<lparr>SPIData := 0\<rparr>
         | Some c \<Rightarrow> let (r, c) = SPIWrite val (SPIDataPos l) (\<not> hold) c in l\<lparr>SPIData := r, Cart := Some c\<rparr>)"

definition WriteSPIData :: "u8 \<Rightarrow> csys \<Rightarrow> csys" where
  "WriteSPIData val s =
     (if \<not> spi_ready (the_slot s) then s
      else
        let s = upd_slot (spi_exchange val) s;
            delay = 8 * shl 8 (unat (SPICnt (the_slot s) AND 0x3))
        in upd_nds (ScheduleEvent Event_ROMSPITransfer False delay 0 0) s)"

section \<open>The registers\<close>

text \<open>The ports of \<^verbatim>\<open>NDS::ARM9IORead8\<close> to \<^verbatim>\<open>ARM7IOWrite32\<close>; the result is \<open>None\<close> at an address that is no
  port of the slot. The processor that does not own the slot reads zero, and its writes have no effect.\<close>

definition owns_slot :: "nat \<Rightarrow> csys \<Rightarrow> bool" where
  "owns_slot cpu s \<longleftrightarrow> (tst (ExMemCnt (dmem s) 0) (shl 1 11) \<longleftrightarrow> cpu = 1)"

definition command_port :: "u32 \<Rightarrow> u32 \<Rightarrow> nat option" where
  "command_port w addr =
     (if 0x040001A8 \<le> addr \<and> addr < 0x040001B0 \<and> addr AND (w - 1) = 0 then Some (unat (addr - 0x040001A8)) else None)"

definition slot_read8 :: "nat \<Rightarrow> u32 \<Rightarrow> csys \<Rightarrow> u8 option" where
  "slot_read8 cpu addr s =
     (let l = the_slot s;
          v = (if addr = 0x040001A0 then Some (ucast (SPICnt l))
               else if addr = 0x040001A1 then Some (ucast (shr (SPICnt l) 8))
               else if addr = 0x040001A2 then Some (ReadSPIData l)
               else if addr = 0x040001A4 then Some (ucast (ROMCnt l))
               else if addr = 0x040001A5 then Some (ucast (shr (ROMCnt l) 8))
               else if addr = 0x040001A6 then Some (ucast (shr (ROMCnt l) 16))
               else if addr = 0x040001A7 then Some (ucast (shr (ROMCnt l) 24))
               else map_option (ROMCommand l) (command_port 1 addr))
      in map_option (\<lambda>v. if owns_slot cpu s then v else 0) v)"

definition slot_read16 :: "nat \<Rightarrow> u32 \<Rightarrow> csys \<Rightarrow> u16 option" where
  "slot_read16 cpu addr s =
     (let l = the_slot s;
          v = (if addr = 0x040001A0 then Some (SPICnt l)
               else if addr = 0x040001A2 then Some (ucast (ReadSPIData l))
               else if addr = 0x040001A4 then Some (ucast (ROMCnt l))
               else if addr = 0x040001A6 then Some (ucast (shr (ROMCnt l) 16))
               else map_option (get16 (ROMCommand l)) (command_port 2 addr))
      in map_option (\<lambda>v. if owns_slot cpu s then v else 0) v)"

definition slot_read32 :: "cart_env \<Rightarrow> nat \<Rightarrow> u32 \<Rightarrow> csys \<Rightarrow> (u32 \<times> csys) option" where
  "slot_read32 env cpu addr s =
     (let l = the_slot s;
          v = (if addr = 0x040001A0 then Some (ucast (SPICnt l) OR shl (ucast (ReadSPIData l)) 16, s)
               else if addr = 0x040001A4 then Some (ROMCnt l, s)
               else if addr = 0x04100010 then Some (if owns_slot cpu s then ReadROMData env s else (0, s))
               else map_option (\<lambda>k. (get32 (ROMCommand l) k, s)) (command_port 4 addr))
      in map_option (\<lambda>v. if owns_slot cpu s then v else (0, s)) v)"

definition SetROMCommand :: "nat \<Rightarrow> u8 \<Rightarrow> slot \<Rightarrow> slot" where
  "SetROMCommand i val l = l\<lparr>ROMCommand := (ROMCommand l)(i := val)\<rparr>"

text \<open>The half-word ports of the ARM7 at \<^verbatim>\<open>0x040001A4\<close> and \<^verbatim>\<open>0x040001A6\<close> keep other bits than
  those of the ARM9.\<close>

definition low_half_kept :: "nat \<Rightarrow> u32" where
  "low_half_kept cpu = (if cpu = 1 then 0xFFFFFF00 else 0xFFFF0000)"

definition high_half_kept :: "nat \<Rightarrow> u32" where
  "high_half_kept cpu = (if cpu = 1 then 0xFF00FFFF else 0x0000FFFF)"

definition slot_write8 :: "cart_env \<Rightarrow> nat \<Rightarrow> u32 \<Rightarrow> u8 \<Rightarrow> csys \<Rightarrow> csys option" where
  "slot_write8 env cpu addr val s =
     (let l = the_slot s;
          t = (if addr = 0x040001A0 then Some (upd_slot (WriteSPICnt ((SPICnt l AND 0xFF00) OR ucast val)) s)
               else if addr = 0x040001A1 then Some (upd_slot (WriteSPICnt ((SPICnt l AND 0x00FF) OR shl (ucast val) 8)) s)
               else if addr = 0x040001A2 then Some (WriteSPIData val s)
               else if addr = 0x040001A4 then Some (WriteROMCnt env ((ROMCnt l AND 0xFFFFFF00) OR ucast val) s)
               else if addr = 0x040001A5 then Some (WriteROMCnt env ((ROMCnt l AND 0xFFFF00FF) OR shl (ucast val) 8) s)
               else if addr = 0x040001A6 then Some (WriteROMCnt env ((ROMCnt l AND 0xFF00FFFF) OR shl (ucast val) 16) s)
               else if addr = 0x040001A7 then Some (WriteROMCnt env ((ROMCnt l AND 0x00FFFFFF) OR shl (ucast val) 24) s)
               else map_option (\<lambda>k. upd_slot (SetROMCommand k val) s) (command_port 1 addr))
      in map_option (\<lambda>t. if owns_slot cpu s then t else s) t)"

definition slot_write16 :: "cart_env \<Rightarrow> nat \<Rightarrow> u32 \<Rightarrow> u16 \<Rightarrow> csys \<Rightarrow> csys option" where
  "slot_write16 env cpu addr val s =
     (let l = the_slot s;
          t = (if addr = 0x040001A0 then Some (upd_slot (WriteSPICnt val) s)
               else if addr = 0x040001A2 then Some (WriteSPIData (ucast val) s)
               else if addr = 0x040001A4 then Some (WriteROMCnt env ((ROMCnt l AND low_half_kept cpu) OR ucast val) s)
               else if addr = 0x040001A6 then Some (WriteROMCnt env ((ROMCnt l AND high_half_kept cpu) OR shl (ucast val) 16) s)
               else map_option (\<lambda>k. upd_slot (SetROMCommand (k + 1) (ucast (shr val 8)) \<circ> SetROMCommand k (ucast val)) s)
                      (command_port 2 addr))
      in map_option (\<lambda>t. if owns_slot cpu s then t else s) t)"

definition slot_write32 :: "cart_env \<Rightarrow> nat \<Rightarrow> u32 \<Rightarrow> u32 \<Rightarrow> csys \<Rightarrow> csys option" where
  "slot_write32 env cpu addr val s =
     (let t = (if addr = 0x040001A0 then
                 Some (WriteSPIData (ucast (shr val 16)) (upd_slot (WriteSPICnt (ucast val)) s))
               else if addr = 0x040001A4 then Some (WriteROMCnt env val s)
               else if addr = 0x04100010 then Some (WriteROMData env val s)
               else map_option (\<lambda>k. upd_slot (SetROMCommand (k + 3) (ucast (shr val 24)) \<circ> SetROMCommand (k + 2) (ucast (shr val 16)) \<circ>
                      SetROMCommand (k + 1) (ucast (shr val 8)) \<circ> SetROMCommand k (ucast val)) s) (command_port 4 addr))
      in map_option (\<lambda>t. if owns_slot cpu s then t else s) t)"

text \<open>The seeds of KEY2 have ports of their own for each processor.\<close>

definition seed_write32 :: "nat \<Rightarrow> u32 \<Rightarrow> u32 \<Rightarrow> csys \<Rightarrow> csys option" where
  "seed_write32 cpu addr val s =
     (if addr = 0x040001B0 then Some (s\<lparr>dmem := (dmem s)\<lparr>ROMSeed0 := put32 (8 * cpu) val (ROMSeed0 (dmem s))\<rparr>\<rparr>)
      else if addr = 0x040001B4 then Some (s\<lparr>dmem := (dmem s)\<lparr>ROMSeed1 := put32 (8 * cpu) val (ROMSeed1 (dmem s))\<rparr>\<rparr>)
      else None)"

definition seed_write16 :: "nat \<Rightarrow> u32 \<Rightarrow> u16 \<Rightarrow> csys \<Rightarrow> csys option" where
  "seed_write16 cpu addr val s =
     (if addr = 0x040001B8 then
        Some (s\<lparr>dmem := (dmem s)\<lparr>ROMSeed0 := (ROMSeed0 (dmem s))(8 * cpu + 4 := ucast (val AND 0x7F))\<rparr>\<rparr>)
      else if addr = 0x040001BA then
        Some (s\<lparr>dmem := (dmem s)\<lparr>ROMSeed1 := (ROMSeed1 (dmem s))(8 * cpu + 4 := ucast (val AND 0x7F))\<rparr>\<rparr>)
      else None)"

end
