(* ===== verification/CartBus.thy ===== *)
theory CartBus
  imports CartMirror CartSlot
begin

text \<open>
  The locale \<open>spi_chip\<close> on the chips of the ROM database, and the same commands sent by a processor
  through the registers of the slot.
\<close>

section \<open>Round trips\<close>

interpretation tiny_low: spi_chip "is_chip 1 512" "0x02" "0x03" 1 512 "tiny False"
  using tiny_chip [of False] by simp

interpretation tiny_high: spi_chip "is_chip 1 512" "0x0A" "0x0B" 1 512 "tiny True"
  using tiny_chip [of True] by simp

interpretation eeprom_8k: spi_chip "is_chip 2 (2 ^ 13)" "0x02" "0x03" 2 "2 ^ 13" "\<lambda>a. a AND (2 ^ 13 - 1)"
  using eeprom_chip [of 13] by simp

interpretation eeprom_64k: spi_chip "is_chip 2 (2 ^ 16)" "0x02" "0x03" 2 "2 ^ 16" "\<lambda>a. a AND (2 ^ 16 - 1)"
  using eeprom_chip [of 16] by simp

interpretation eeprom_128k: spi_chip "is_chip 2 (2 ^ 17)" "0x02" "0x03" 3 "2 ^ 17" "\<lambda>a. a AND (2 ^ 17 - 1)"
  using eeprom_chip [of 17] by simp

interpretation flash_256k: spi_chip "is_chip 3 (2 ^ 18)" "0x0A" "0x03" 3 "2 ^ 18" "\<lambda>a. a AND (2 ^ 18 - 1)"
  using flash_chip [of 18] by simp

interpretation flash_512k: spi_chip "is_chip 3 (2 ^ 19)" "0x0A" "0x03" 3 "2 ^ 19" "\<lambda>a. a AND (2 ^ 19 - 1)"
  using flash_chip [of 19] by simp

interpretation flash_1m: spi_chip "is_chip 3 (2 ^ 20)" "0x0A" "0x03" 3 "2 ^ 20" "\<lambda>a. a AND (2 ^ 20 - 1)"
  using flash_chip [of 20] by simp

text \<open>The commands to write and to read, and the bytes of an address, for each type of the ROM database; the
  small EEPROM has two pairs of commands, for its two halves.\<close>

definition chip_commands :: "u32 \<Rightarrow> bool \<Rightarrow> u8 \<times> u8 \<times> nat" where
  "chip_commands t high =
     (if t = 1 then (if high then (0x0A, 0x0B, 1) else (0x02, 0x03, 1))
      else if t \<in> {2, 3} then (0x02, 0x03, 2) else if t = 4 then (0x02, 0x03, 3) else (0x0A, 0x03, 3))"

lemma chip_round_trip:
  assumes "t \<in> {1, 2, 3, 4, 5, 6, 7}" "is_chip (sramtype t) (sramlength t) c" "chip_commands t high = (w, r, n)"
    and "length as = n" "bs \<noteq> []" "length bs \<le> unat (sramlength t)" "length ds = length bs"
  shows "drop (Suc n) (fst (spi_command (r # as @ ds) (snd (spi_command (w # as @ bs) (snd (spi_command [0x06] c)))))) = bs"
  using assms(1)
proof (elim insertE emptyE)
  assume t: "t = 1"
  show ?thesis
  proof (cases high)
    case True
    then have "w = 0x0A" "r = 0x0B" "n = 1" using assms(3) t by (simp_all add: chip_commands_def)
    then show ?thesis using tiny_high.write_then_read [of c as bs ds] assms t by (simp add: sramtype_def sramlength_def)
  next
    case False
    then have "w = 0x02" "r = 0x03" "n = 1" using assms(3) t by (simp_all add: chip_commands_def)
    then show ?thesis using tiny_low.write_then_read [of c as bs ds] assms t by (simp add: sramtype_def sramlength_def)
  qed
next
  assume t: "t = 2"
  then have "w = 0x02" "r = 0x03" "n = 2" using assms(3) by (simp_all add: chip_commands_def)
  then show ?thesis using eeprom_8k.write_then_read [of c as bs ds] assms t by (simp add: sramtype_def sramlength_def)
next
  assume t: "t = 3"
  then have "w = 0x02" "r = 0x03" "n = 2" using assms(3) by (simp_all add: chip_commands_def)
  then show ?thesis using eeprom_64k.write_then_read [of c as bs ds] assms t by (simp add: sramtype_def sramlength_def)
next
  assume t: "t = 4"
  then have "w = 0x02" "r = 0x03" "n = 3" using assms(3) by (simp_all add: chip_commands_def)
  then show ?thesis using eeprom_128k.write_then_read [of c as bs ds] assms t by (simp add: sramtype_def sramlength_def)
next
  assume t: "t = 5"
  then have "w = 0x0A" "r = 0x03" "n = 3" using assms(3) by (simp_all add: chip_commands_def)
  then show ?thesis using flash_256k.write_then_read [of c as bs ds] assms t by (simp add: sramtype_def sramlength_def)
next
  assume t: "t = 6"
  then have "w = 0x0A" "r = 0x03" "n = 3" using assms(3) by (simp_all add: chip_commands_def)
  then show ?thesis using flash_512k.write_then_read [of c as bs ds] assms t by (simp add: sramtype_def sramlength_def)
next
  assume t: "t = 7"
  then have "w = 0x0A" "r = 0x03" "n = 3" using assms(3) by (simp_all add: chip_commands_def)
  then show ?thesis using flash_1m.write_then_read [of c as bs ds] assms t by (simp add: sramtype_def sramlength_def)
qed

section \<open>Through the SPI registers\<close>

text \<open>A processor sends one command: for every byte it writes AUXSPICNT, with the hold bit set except for the last
  byte, writes the byte, lets the transfer end, and reads the answer.\<close>

definition bus_byte :: "cart_env \<Rightarrow> nat \<Rightarrow> bool \<Rightarrow> u8 \<Rightarrow> csys \<Rightarrow> u8 \<times> csys" where
  "bus_byte env cpu hold b s =
     (let s = the (slot_write16 env cpu 0x040001A0 (if hold then 0xA040 else 0xA000) s);
          s = the (slot_write8 env cpu 0x040001A2 b s);
          s = upd_slot (SPITransferDone 0) (upd_nds (CancelEvent Event_ROMSPITransfer) s)
      in (the (slot_read8 cpu 0x040001A2 s), s))"

fun bus_command :: "cart_env \<Rightarrow> nat \<Rightarrow> u8 list \<Rightarrow> csys \<Rightarrow> u8 list \<times> csys" where
  "bus_command env cpu [] s = ([], s)"
| "bus_command env cpu (b # bs) s =
     (let (r, s) = bus_byte env cpu (bs \<noteq> []) b s; (rs, s) = bus_command env cpu bs s in (r # rs, s))"

text \<open>The bus is idle when no transfer runs and no command is open.\<close>

definition spi_idle :: "nat \<Rightarrow> csys \<Rightarrow> bool" where
  "spi_idle cpu s \<longleftrightarrow> owns_slot cpu s \<and> \<not> tst (SPICnt (the_slot s)) 0x80 \<and> \<not> SPIHold (the_slot s)"

lemma upd_frame [simp]:
  "the_slot (upd_slot f s) = f (the_slot s)" "the_slot (upd_nds g s) = the_slot s"
  "ExMemCnt (dmem (upd_slot f s)) = ExMemCnt (dmem s)" "dmem (upd_nds g s) = dmem s"
  "dcon (upd_slot f s) = dcon s"
  by (simp_all add: the_slot_def upd_slot_def upd_nds_def)

lemma owns_upd [simp]: "owns_slot cpu (upd_slot f s) = owns_slot cpu s" "owns_slot cpu (upd_nds g s) = owns_slot cpu s"
  by (simp_all add: owns_slot_def)

lemma Retail_SPIWrite_type: "cart_type (snd (Retail_SPIWrite b p l c)) = cart_type c"
proof -
  have "cart_type (erase n c) = cart_type c" for n c by (induction n) (simp_all add: erase_Suc Let_def, simp add: erase_def)
  then show ?thesis
    by (simp add: Retail_SPIWrite_def SRAMWrite_EEPROMTiny_def SRAMWrite_EEPROM_def SRAMWrite_FLASH_def Let_def
      write_status_def store_def finish_def fetch_def read_address_def write_address_def)
qed

text \<open>One byte on the slot: the count register, the exchange, the end of the transfer.\<close>

definition slot_byte :: "bool \<Rightarrow> u8 \<Rightarrow> slot \<Rightarrow> slot" where
  "slot_byte hold b l =
     SPITransferDone 0 (spi_exchange b (l\<lparr>SPICnt := if hold then 0xA040 else 0xA000\<rparr>))"

lemma slot_byte_fields:
  assumes pos: "(SPIHold l \<and> p = SPIDataPos l + 1) \<or> (\<not> SPIHold l \<and> p = 0)"
    and c: "Cart l = Some c" "cart_type c = Retail"
  shows "SPICnt (slot_byte hold b l) = (if hold then 0xA040 else 0xA000)" "SPIHold (slot_byte hold b l) = hold"
    "SPIDataPos (slot_byte hold b l) = p" "Cart (slot_byte hold b l) = Some (snd (Retail_SPIWrite b p (\<not> hold) c))"
    "ReadSPIData (slot_byte hold b l) = fst (Retail_SPIWrite b p (\<not> hold) c)"
  using assms
  by (cases hold; cases "SPIHold l";
      simp add: slot_byte_def SPITransferDone_def spi_exchange_def spi_position_def Let_def SPIWrite_def case_prod_beta
        ReadSPIData_def spi_ready_def)+

lemma bus_byte_slot:
  assumes own: "owns_slot cpu s" and idle: "\<not> tst (SPICnt (the_slot s)) 0x80"
  shows "the_slot (snd (bus_byte env cpu hold b s)) = slot_byte hold b (the_slot s)"
    "owns_slot cpu (snd (bus_byte env cpu hold b s))"
    "fst (bus_byte env cpu hold b s) = ReadSPIData (slot_byte hold b (the_slot s))"
proof -
  define cnt :: u16 where "cnt = (if hold then 0xA040 else 0xA000)"
  define s1 where "s1 = upd_slot (WriteSPICnt cnt) s"
  define s2 where "s2 = WriteSPIData b s1"
  define s3 where "s3 = upd_slot (SPITransferDone 0) (upd_nds (CancelEvent Event_ROMSPITransfer) s2)"
  have w1: "the (slot_write16 env cpu 0x040001A0 cnt s) = s1" using own by (simp add: slot_write16_def s1_def)
  have l1: "the_slot s1 = (the_slot s)\<lparr>SPICnt := cnt\<rparr>"
    using idle by (cases hold) (simp_all add: s1_def WriteSPICnt_def Let_def cnt_def)
  have o1: "owns_slot cpu s1" using own by (simp add: s1_def)
  have w2: "the (slot_write8 env cpu 0x040001A2 b s1) = s2" using o1 by (simp add: slot_write8_def s2_def Let_def)
  have "spi_ready (the_slot s1)" unfolding l1 by (cases hold) (simp_all add: spi_ready_def cnt_def)
  then have l2: "the_slot s2 = spi_exchange b ((the_slot s)\<lparr>SPICnt := cnt\<rparr>)" and o2: "owns_slot cpu s2"
    using o1 by (simp_all add: s2_def WriteSPIData_def Let_def l1)
  have e: "bus_byte env cpu hold b s = (the (slot_read8 cpu 0x040001A2 s3), s3)"
    by (simp add: bus_byte_def Let_def w1 [unfolded cnt_def] w2 s3_def)
  have l3: "the_slot s3 = slot_byte hold b (the_slot s)" by (simp add: s3_def l2 slot_byte_def cnt_def)
  then show "the_slot (snd (bus_byte env cpu hold b s)) = slot_byte hold b (the_slot s)" by (simp add: e)
  have o3: "owns_slot cpu s3" using o2 by (simp add: s3_def)
  then show "owns_slot cpu (snd (bus_byte env cpu hold b s))" by (simp add: e)
  show "fst (bus_byte env cpu hold b s) = ReadSPIData (slot_byte hold b (the_slot s))"
    using o3 by (simp add: e slot_read8_def Let_def l3)
qed

lemma bus_command_bytes:
  assumes "owns_slot cpu s" "\<not> tst (SPICnt (the_slot s)) 0x80" "Cart (the_slot s) = Some c" "cart_type c = Retail"
    and "(SPIHold (the_slot s) \<and> p = SPIDataPos (the_slot s) + 1) \<or> (\<not> SPIHold (the_slot s) \<and> p = 0)" "bs \<noteq> []"
  shows "fst (bus_command env cpu bs s) = fst (spi_bytes p bs c) \<and>
    Cart (the_slot (snd (bus_command env cpu bs s))) = Some (snd (spi_bytes p bs c)) \<and>
    spi_idle cpu (snd (bus_command env cpu bs s))"
  using assms
proof (induction bs arbitrary: s c p)
  case (Cons b bs)
  let ?h = "bs \<noteq> []" and ?t = "snd (bus_byte env cpu (bs \<noteq> []) b s)" and ?d = "snd (Retail_SPIWrite b p (bs = []) c)"
  note B = bus_byte_slot [OF Cons.prems(1,2), of env ?h b]
  note F = slot_byte_fields [OF Cons.prems(5,3,4), of ?h b]
  have ty: "cart_type ?d = Retail" using Cons.prems(4) Retail_SPIWrite_type by simp
  have e: "bus_command env cpu (b # bs) s = (fst (Retail_SPIWrite b p (bs = []) c) # fst (bus_command env cpu bs ?t),
      snd (bus_command env cpu bs ?t))"
    using B(3) F(5) by (simp add: case_prod_beta Let_def)
  have f: "spi_bytes p (b # bs) c = (fst (Retail_SPIWrite b p (bs = []) c) # fst (spi_bytes (p + 1) bs ?d),
      snd (spi_bytes (p + 1) bs ?d))"
    by (simp add: case_prod_beta Let_def)
  have c: "Cart (the_slot ?t) = Some ?d" unfolding B(1) F(4) by simp
  show ?case
  proof (cases "bs = []")
    case True
    then show ?thesis using e f c B(1,2) F(1,2) by (simp add: spi_idle_def)
  next
    case False
    have "fst (bus_command env cpu bs ?t) = fst (spi_bytes (p + 1) bs ?d) \<and>
      Cart (the_slot (snd (bus_command env cpu bs ?t))) = Some (snd (spi_bytes (p + 1) bs ?d)) \<and>
      spi_idle cpu (snd (bus_command env cpu bs ?t))"
      using False by (intro Cons.IH B(2) c ty) (unfold B(1) F, simp_all)
    then show ?thesis unfolding e f by simp
  qed
qed simp


text \<open>C16: what a processor writes to the save memory of a retail cartridge through the SPI registers, it reads back:
  after the command that enables writes, a write command and a read command for the same address give the
  bytes written, on each of the chips the ROM database names, for up to the size of the chip.\<close>

theorem save_memory_round_trip:
  assumes "spi_idle cpu s" "Cart (the_slot s) = Some c" "cart_type c = Retail"
    and "t \<in> {1, 2, 3, 4, 5, 6, 7}" "SRAMType c = sramtype t" "SRAMLength c = sramlength t"
    and "chip_commands t high = (w, r, n)" "length as = n" "bs \<noteq> []" "length bs \<le> unat (sramlength t)" "length ds = length bs"
  shows "drop (Suc n) (fst (bus_command env cpu (r # as @ ds)
      (snd (bus_command env cpu (w # as @ bs) (snd (bus_command env cpu [0x06] s)))))) = bs"
proof -
  have step: "fst (bus_command env cpu xs u) = fst (spi_command xs d) \<and>
      Cart (the_slot (snd (bus_command env cpu xs u))) = Some (snd (spi_command xs d)) \<and>
      cart_type (snd (spi_command xs d)) = Retail \<and> spi_idle cpu (snd (bus_command env cpu xs u))"
    if "spi_idle cpu u" "Cart (the_slot u) = Some d" "cart_type d = Retail" "xs \<noteq> []" for u d xs
  proof -
    have ty: "cart_type (snd (spi_bytes p ys e)) = cart_type e" for p ys e
      by (induction ys arbitrary: p e) (simp_all add: case_prod_beta Let_def Retail_SPIWrite_type)
    show ?thesis
      using bus_command_bytes [of cpu u d 0 xs env] that ty by (simp add: spi_idle_def spi_command_def)
  qed
  let ?s1 = "snd (bus_command env cpu [0x06] s)" and ?c1 = "snd (spi_command [0x06] c)"
  let ?s2 = "snd (bus_command env cpu (w # as @ bs) ?s1)" and ?c2 = "snd (spi_command (w # as @ bs) ?c1)"
  have 1: "Cart (the_slot ?s1) = Some ?c1" "cart_type ?c1 = Retail" "spi_idle cpu ?s1"
    using step [OF assms(1-3), of "[0x06]"] by simp_all
  have 2: "Cart (the_slot ?s2) = Some ?c2" "cart_type ?c2 = Retail" "spi_idle cpu ?s2"
    using step [OF 1(3,1,2), of "w # as @ bs"] by simp_all
  have "fst (bus_command env cpu (r # as @ ds) ?s2) = fst (spi_command (r # as @ ds) ?c2)"
    using step [OF 2(3,1,2), of "r # as @ ds"] by simp
  moreover have "is_chip (sramtype t) (sramlength t) c" using assms(5,6) by (simp add: is_chip_def)
  ultimately show ?thesis using chip_round_trip [OF assms(4) _ assms(7-11)] by simp
qed

text \<open>A slot with a cartridge of 8 KB of EEPROM.\<close>

definition blank_slot :: "cart \<Rightarrow> slot" where
  "blank_slot c = \<lparr>SPICnt = 0, ROMCnt = 0, ROMCommand = (\<lambda>_. 0), SPIData = 0, SPIDataPos = 0, SPIHold = False, ROMData = 0,
     TransferData = (\<lambda>_. 0), TransferPos = 0, TransferLen = 0, TransferDir = 0, TransferCmd = (\<lambda>_. 0), Cart = Some c,
     Key1_KeyBuf = (\<lambda>_. 0), Key2_X = 0, Key2_Y = 0\<rparr>"

definition blank_csys :: "cart \<Rightarrow> csys" where
  "blank_csys c = \<lparr>DMAs = (\<lambda>n. dma_new (n div 4) (n mod 4)), DMA9Fill = (\<lambda>_. 0), dcon = blank_nds,
     dmem = \<lparr>CartSlot = blank_slot c, ExMemCnt = (\<lambda>_. 0x4000), ROMSeed0 = (\<lambda>_. 0), ROMSeed1 = (\<lambda>_. 0)\<rparr>\<rparr>"

definition sample_cart :: cart where
  "sample_cart = CartRetail (\<lambda>i. if i < 0x200 then 0 else word_of_nat i) 0x10000 0xC2 False
     \<lparr>GameCode = 1, ROMSize = 0x10000, SaveMemType = 2\<rparr> None SaveManager Retail"

definition no_sd :: cart_env where
  "no_sd = \<lparr>LoadKeyBuf = (\<lambda>_ _. 0), SD_Reset = (\<lambda>c. c), SD_SetupDirectBoot = (\<lambda>c. c),
     SD_ROMCommandStart = (\<lambda>_ _ c kb d. (0, c, kb, d)), SD_ROMCommandFinish = (\<lambda>_ _ _ c. c)\<rparr>"

lemma sample_cart_fields: "cart_type sample_cart = Retail" "SRAMType sample_cart = 2" "SRAMLength sample_cart = 8192"
  by (simp_all add: sample_cart_def CartRetail_def CartCommon_def Let_def sramlength_def sramtype_def)

theorem save_memory_round_trip_witness:
  "drop 3 (fst (bus_command no_sd 0 ([0x03, 0x1F, 0xFF] @ [0, 0])
     (snd (bus_command no_sd 0 ([0x02, 0x1F, 0xFF] @ [0xAB, 0xCD]) (snd (bus_command no_sd 0 [0x06] (blank_csys sample_cart))))))) =
   [0xAB, 0xCD]"
  using save_memory_round_trip [of 0 "blank_csys sample_cart" sample_cart 2 False "0x02" "0x03" 2 "[0x1F, 0xFF]" "[0xAB, 0xCD]" "[0, 0]"
      no_sd]
  by (simp add: spi_idle_def owns_slot_def blank_csys_def the_slot_def blank_slot_def sample_cart_fields sramtype_def
      sramlength_def chip_commands_def)

end
