(* ===== verification/SaveFile.thy ===== *)
theory SaveFile
  imports CartBus
begin

text \<open>
  The save file, and the write protection of the save memory.
\<close>

section \<open>The save file\<close>

lemma flush_writes_buffer:
  assumes "FlushRequested m" "Length m \<noteq> 0" "SecondaryBuffer m = None \<longrightarrow> SecondaryBufferLength m = 0"
    and "FlushVersion m + 1 \<noteq> PreviousFlushVersion m"
  shows "fst (FlushSecondaryBuffer True (CheckFlush now m)) = Some (map (Buffer m) [0..<unat (Length m)])"
proof -
  obtain sb where "(if SecondaryBufferLength m \<noteq> Length m then Some (\<lambda>_. 0) else SecondaryBuffer m) = Some sb"
    using assms(2,3) by (cases "SecondaryBuffer m"; cases "SecondaryBufferLength m = Length m") auto
  then show ?thesis
    using assms(1,4) by (auto simp: CheckFlush_def FlushSecondaryBuffer_def NeedsFlush_def Let_def memcpy_def)
qed

text \<open>C18: whatever command the console sends to the save memory of a retail cartridge, known or not, complete or
  cut short, writes enabled or not, wrapping around at the end of the chip or not: when the command has ended, the
  save file's buffer is again a copy of the save memory, and the next flush writes the save memory to the file.\<close>

theorem save_file_follows:
  assumes "retail_chip c" "mirrored c" "length bs < 2 ^ 29"
  defines "d \<equiv> snd (spi_command bs c)"
  shows "mirrored d \<and>
    (FlushRequested (UserData d) \<and> (SecondaryBuffer (UserData d) = None \<longrightarrow> SecondaryBufferLength (UserData d) = 0) \<and>
     FlushVersion (UserData d) + 1 \<noteq> PreviousFlushVersion (UserData d) \<longrightarrow>
     fst (FlushSecondaryBuffer True (CheckFlush now (UserData d))) = Some (map (SRAM d) [0..<unat (SRAMLength d)]))"
proof -
  have m: "mirrored d" "retail_chip d" unfolding d_def using command_mirrors [OF assms(1-3)] by blast+
  obtain k where "9 \<le> k" "k \<le> 20" "SRAMLength d = 2 ^ k" by (rule retail_chip_length [OF m(2)])
  then have "SRAMLength d \<noteq> 0" using unat_two_power [of k] by auto
  with m(1) flush_writes_buffer [of "UserData d" now] show ?thesis
    by (auto simp: mirrored_def)
qed

definition sample_saved :: cart where
  "sample_saved = sample_cart\<lparr>UserData := RequestFlush (SRAM sample_cart) 8192 0 8192 SaveManager\<rparr>"

theorem save_file_follows_witness:
  "mirrored (snd (spi_command [0x02, 0x1F, 0xFF, 1, 2] (snd (spi_command [0x06] sample_saved))))"
proof -
  have s: "retail_chip sample_saved" "mirrored sample_saved"
    by (simp_all add: retail_chip_def is_chip_def sample_saved_def sample_cart_fields sramtype_def sramlength_def
        mirrored_def RequestFlush_def SaveManager_def Let_def memcpy_def)
  have "mirrored (snd (spi_command [0x06] sample_saved))" using save_file_follows [OF s, of "[0x06]"] by simp
  moreover have "retail_chip (snd (spi_command [0x06] sample_saved))" using command_mirrors [OF s, of "[0x06]"] by simp
  ultimately show ?thesis using save_file_follows [of "snd (spi_command [0x06] sample_saved)" "[0x02, 0x1F, 0xFF, 1, 2]"] by simp
qed

section \<open>Write protection\<close>

lemma erase_0 [simp]: "erase 0 c = c"
  by (simp add: erase_def)

lemma protected_step:
  assumes "\<not> write_enabled c" "\<not> (p = 0 \<and> v = 0x06)"
  shows "SRAM (snd (Retail_SPIWrite v p l c)) = SRAM c \<and> \<not> write_enabled (snd (Retail_SPIWrite v p l c))"
proof -
  have st: "SRAMStatus c AND 2 = 0" using assms(1) by (simp add: write_enabled_def)
  have n: "(SRAMStatus c AND NOT 2) AND 2 = 0" by (simp add: and.assoc)
  have w: "((SRAMStatus c AND 0x01) OR (v AND 0x0C)) AND 2 = 0" by (simp add: bit.conj_disj_distrib2 and.assoc)
  have a: "write_enabled (write_address v c) = False" using st by (simp add: write_enabled_def write_address_def Let_def)
  show ?thesis
    using assms(2) st n w a
    by (simp add: Retail_SPIWrite_def SRAMWrite_EEPROMTiny_def SRAMWrite_EEPROM_def SRAMWrite_FLASH_def Let_def
        write_status_def store_def finish_def fetch_def read_address_def write_address_def write_enabled_def)
qed

lemma protected_bytes:
  assumes "\<not> write_enabled c" "0 < p" "p + length bs < 2 ^ 32"
  shows "SRAM (snd (spi_bytes (word_of_nat p) bs c)) = SRAM c \<and> \<not> write_enabled (snd (spi_bytes (word_of_nat p) bs c))"
  using assms
proof (induction bs arbitrary: p c)
  case (Cons b bs)
  let ?d = "snd (Retail_SPIWrite b (word_of_nat p) (bs = []) c)"
  have "(word_of_nat p :: u32) \<noteq> 0" using Cons.prems(2,3) by (simp add: word_pos)
  then have d: "SRAM ?d = SRAM c \<and> \<not> write_enabled ?d" using Cons.prems(1) by (intro protected_step) simp_all
  have "SRAM (snd (spi_bytes (word_of_nat (Suc p)) bs ?d)) = SRAM ?d \<and> \<not> write_enabled (snd (spi_bytes (word_of_nat (Suc p)) bs ?d))"
    using d Cons.prems by (intro Cons.IH) simp_all
  with d show ?case by (simp add: case_prod_beta Let_def add.commute)
qed simp

text \<open>C19: the save memory does not change as long as no command enables writes: any commands, in any number, none
  of which is the write enable command.\<close>

theorem write_protected:
  assumes "\<not> write_enabled c" "\<forall>bs \<in> set cmds. length bs < 2 ^ 31 \<and> (\<forall>as. bs \<noteq> 0x06 # as)"
  shows "SRAM (fold (\<lambda>bs c. snd (spi_command bs c)) cmds c) = SRAM c"
  using assms
proof (induction cmds arbitrary: c)
  case (Cons bs cmds)
  have s: "SRAM (snd (spi_command bs c)) = SRAM c \<and> \<not> write_enabled (snd (spi_command bs c))"
  proof (cases bs)
    case Nil
    then show ?thesis using Cons.prems by (simp add: spi_command_def)
  next
    case (Cons b as)
    let ?d = "snd (Retail_SPIWrite b 0 (as = []) c)"
    have d: "SRAM ?d = SRAM c \<and> \<not> write_enabled ?d" using Cons.prems Cons by (intro protected_step) auto
    have "SRAM (snd (spi_bytes (word_of_nat 1) as ?d)) = SRAM ?d \<and> \<not> write_enabled (snd (spi_bytes (word_of_nat 1) as ?d))"
      using d Cons.prems Cons by (intro protected_bytes) auto
    with d show ?thesis by (simp add: spi_command_def Cons case_prod_beta Let_def)
  qed
  have "SRAM (fold (\<lambda>bs c. snd (spi_command bs c)) cmds (snd (spi_command bs c))) = SRAM (snd (spi_command bs c))"
    by (rule Cons.IH) (use s Cons.prems in auto)
  with s show ?case by simp
qed simp

theorem write_protected_witness:
  "SRAM (fold (\<lambda>bs c. snd (spi_command bs c)) [[0x02, 0, 0, 7], [0x01, 0xFF], [0x02, 0, 1, 8]] sample_cart) = SRAM sample_cart"
  by (rule write_protected) (simp_all add: write_enabled_def sample_cart_def CartRetail_def CartCommon_def Let_def sramlength_def)

end
