(* ===== verification/CartTransfer.thy ===== *)
theory CartTransfer
  imports SaveFile
begin

text \<open>
  A running transfer of a ROM command: the words in the order of the buffer, and the end of the transfer.
\<close>

section \<open>The words of a transfer\<close>

text \<open>The scheduler runs the transfer's event, and the processor reads the word that it has prepared.\<close>

definition next_rom_word :: "cart_env \<Rightarrow> csys \<Rightarrow> u32 \<times> csys" where
  "next_rom_word env s =
     (let evt = SchedList (dcon s) Event_ROMTransfer
      in ReadROMData env (ROMTransfer_event env (FuncID evt) (Param evt) (upd_nds (CancelEvent Event_ROMTransfer) s)))"

fun rom_words :: "cart_env \<Rightarrow> nat \<Rightarrow> csys \<Rightarrow> u32 list \<times> csys" where
  "rom_words env 0 s = ([], s)"
| "rom_words env (Suc n) s =
     (let (w, s) = next_rom_word env s; (ws, s) = rom_words env n s in (w # ws, s))"

text \<open>The DMA controllers that start leave the slot and the scheduler alone.\<close>

lemma ARM_Halt_sched: "SchedList (ARM_Halt cpu h n) = SchedList n" "SchedListMask (ARM_Halt cpu h n) = SchedListMask n"
  by (simp_all add: ARM_Halt_def)

lemma StopCPU_sched: "SchedList (StopCPU cpu m n) = SchedList n" "SchedListMask (StopCPU cpu m n) = SchedListMask n"
  by (simp_all add: StopCPU_def ARM_Halt_sched)

lemma DMA_Start_frame:
  "dmem (DMA_Start n s) = dmem s" "SchedList (dcon (DMA_Start n s)) = SchedList (dcon s)"
  "SchedListMask (dcon (DMA_Start n s)) = SchedListMask (dcon s)"
  by (simp_all add: DMA_Start_def Let_def upd_dma_def upd_nds_def StopCPU_sched)

lemma CheckDMAs_frame:
  "dmem (CheckDMAs cpu m s) = dmem s" "SchedList (dcon (CheckDMAs cpu m s)) = SchedList (dcon s)"
  "SchedListMask (dcon (CheckDMAs cpu m s)) = SchedListMask (dcon s)"
  by (simp_all add: CheckDMAs_def chans_def Let_def StartIfNeeded_def DMA_Start_frame)

lemma the_slot_CheckDMAs: "the_slot (CheckDMAs cpu m s) = the_slot s"
  by (simp add: the_slot_def CheckDMAs_frame)

lemma ROMPrepareData_frame:
  "the_slot (ROMPrepareData p s) = (next_word (the_slot s))\<lparr>ROMCnt := ROMCnt (the_slot s) OR shl 1 23\<rparr>"
  "SchedListMask (dcon (ROMPrepareData p s)) = SchedListMask (dcon s)"
  "ExMemCnt (dmem (ROMPrepareData p s)) = ExMemCnt (dmem s)"
  by (simp_all add: ROMPrepareData_def Let_def the_slot_CheckDMAs CheckDMAs_frame)

text \<open>A transfer of \<open>len\<close> bytes from the buffer \<open>d\<close>, whose next word is at \<open>4 * k\<close>.\<close>

definition transferring :: "mem \<Rightarrow> nat \<Rightarrow> nat \<Rightarrow> csys \<Rightarrow> bool" where
  "transferring d len k s \<longleftrightarrow>
     (let l = the_slot s in
        ROMCnt l AND 0x40000000 = 0 \<and> TransferDir l = 0 \<and> TransferData l = d \<and> unat (TransferLen l) = len \<and>
        unat (TransferPos l) = 4 * k \<and> FuncID (SchedList (dcon s) Event_ROMTransfer) = ROMTransfer_PrepareData)"

lemma dcon_upd_nds [simp]: "dcon (upd_nds g s) = g (dcon s)"
  by (simp add: upd_nds_def)

lemma bits23_30:
  fixes x :: u32
  shows "(x OR 0x800000) AND 0x40000000 = x AND 0x40000000" "(x OR 0x800000) AND 0x800000 = 0x800000"
    "(x AND NOT 0x800000) AND 0x40000000 = x AND 0x40000000"
  by (simp_all add: bit.conj_disj_distrib2 and.assoc)

lemma unat_add4: "unat x = 4 * k \<Longrightarrow> 4 * k < 0x4000 \<Longrightarrow> unat (x + 4) = 4 * Suc k" for x :: u32
  by (subst unat_add_small) simp_all

text \<open>The state in which the word has been taken from the slot and the next one has not been asked for.\<close>

definition taken :: "csys \<Rightarrow> csys" where
  "taken s = upd_slot (\<lambda>l. l\<lparr>ROMCnt := ROMCnt l AND NOT (shl 1 23)\<rparr>) (ROMPrepareData (Param (SchedList (dcon s) Event_ROMTransfer))
     (upd_nds (CancelEvent Event_ROMTransfer) s))"

lemma taken_fields:
  assumes "transferring d len k s" "4 * k < len" "len \<le> 0x4000"
  shows "ROMCnt (the_slot (taken s)) AND 0x40000000 = 0" "TransferDir (the_slot (taken s)) = 0" "TransferData (the_slot (taken s)) = d"
    "unat (TransferLen (the_slot (taken s))) = len" "unat (TransferPos (the_slot (taken s))) = 4 * Suc k"
    "ROMData (the_slot (taken s)) = get32 d (4 * k)" "Cart (the_slot (taken s)) = Cart (the_slot s)"
    "SPICnt (the_slot (taken s)) = SPICnt (the_slot s)" "TransferCmd (the_slot (taken s)) = TransferCmd (the_slot s)"
    "ExMemCnt (dmem (taken s)) = ExMemCnt (dmem s)" "\<not> bit (SchedListMask (dcon (taken s))) Event_ROMTransfer"
proof -
  let ?l = "the_slot s"
  have l: "ROMCnt ?l AND 0x40000000 = 0" "TransferDir ?l = 0" "TransferData ?l = d" "unat (TransferLen ?l) = len" "unat (TransferPos ?l) = 4 * k"
    using assms(1) by (simp_all add: transferring_def Let_def)
  have "\<not> TransferLen ?l \<le> TransferPos ?l" using l assms(2) by (simp add: unat_le_iff)
  then have n: "next_word ?l = ?l\<lparr>ROMData := get32 d (4 * k), TransferPos := TransferPos ?l + 4\<rparr>"
    using l by (simp add: next_word_def)
  have taken_slot: "the_slot (taken s) = ?l\<lparr>ROMData := get32 d (4 * k), TransferPos := TransferPos ?l + 4,
      ROMCnt := (ROMCnt ?l OR shl 1 23) AND NOT (shl 1 23)\<rparr>"
    by (simp add: taken_def ROMPrepareData_frame n)
  show "ROMCnt (the_slot (taken s)) AND 0x40000000 = 0"
    using l(1) unfolding taken_slot by (simp add: bit.conj_disj_distrib2 and.assoc)
  show "unat (TransferPos (the_slot (taken s))) = 4 * Suc k"
    unfolding taken_slot using unat_add4 [OF l(5)] assms(2,3) by simp
  show "\<not> bit (SchedListMask (dcon (taken s))) Event_ROMTransfer"
    by (simp add: taken_def ROMPrepareData_frame upd_nds_def CancelEvent_def bit_and_iff bit_not_iff bit_pow2 Event_ROMTransfer_def)
  show "ExMemCnt (dmem (taken s)) = ExMemCnt (dmem s)" by (simp add: taken_def ROMPrepareData_frame)
  show "TransferDir (the_slot (taken s)) = 0" "TransferData (the_slot (taken s)) = d"
    "unat (TransferLen (the_slot (taken s))) = len" "ROMData (the_slot (taken s)) = get32 d (4 * k)"
    "Cart (the_slot (taken s)) = Cart (the_slot s)" "SPICnt (the_slot (taken s)) = SPICnt (the_slot s)"
    "TransferCmd (the_slot (taken s)) = TransferCmd (the_slot s)"
    using l unfolding taken_slot by simp_all
qed

lemma next_rom_word_eq:
  assumes "transferring d len k s" "4 * k < len" "len \<le> 0x4000"
  shows "next_rom_word env s = (get32 d (4 * k), AdvanceROMTransfer env (taken s))"
proof -
  have r: "ROMCnt (the_slot s) AND 0x40000000 = 0" "FuncID (SchedList (dcon s) Event_ROMTransfer) = ROMTransfer_PrepareData"
    using assms(1) by (simp_all add: transferring_def Let_def)
  let ?p = "ROMPrepareData (Param (SchedList (dcon s) Event_ROMTransfer)) (upd_nds (CancelEvent Event_ROMTransfer) s)"
  have c: "ROMCnt (the_slot ?p) = ROMCnt (the_slot s) OR shl 1 23" by (simp add: ROMPrepareData_frame)
  have "ROMCnt (the_slot ?p) AND shl 1 30 = 0" "ROMCnt (the_slot ?p) AND shl 1 23 \<noteq> 0"
    unfolding c using r(1) by (simp_all add: bits23_30)
  moreover have "AdvanceROMTransfer env ?p = AdvanceROMTransfer env (taken s)"
  proof -
    have "upd_slot (\<lambda>l. l\<lparr>ROMCnt := ROMCnt l AND NOT (shl 1 23)\<rparr>) (taken s) = taken s"
      by (simp add: taken_def upd_slot_def and.assoc)
    moreover have "upd_slot (\<lambda>l. l\<lparr>ROMCnt := ROMCnt l AND NOT (shl 1 23)\<rparr>) ?p = taken s" by (simp add: taken_def)
    ultimately show ?thesis unfolding AdvanceROMTransfer_def by (simp only:)
  qed
  moreover have "ROMData (the_slot (AdvanceROMTransfer env u)) = ROMData (the_slot u)" for u
    by (simp add: AdvanceROMTransfer_def ROMEndTransfer_def Let_def)
  ultimately have "next_rom_word env s = (ROMData (the_slot (taken s)), AdvanceROMTransfer env (taken s))"
    by (simp add: next_rom_word_def ROMTransfer_event_def r(2) ReadROMData_def Let_def)
  then show ?thesis by (simp add: taken_fields(6) [OF assms])
qed

lemma ScheduleEvent_FuncID:
  "\<not> bit (SchedListMask n) ev \<Longrightarrow> FuncID (SchedList (ScheduleEvent ev p dl f q n) ev) = f"
  by (simp add: ScheduleEvent_def bits Let_def Reschedule_def)

lemma taken_idem: "upd_slot (\<lambda>l. l\<lparr>ROMCnt := ROMCnt l AND NOT (shl 1 23)\<rparr>) (taken s) = taken s"
  by (simp add: taken_def upd_slot_def and.assoc)

lemma next_rom_word_more:
  fixes env :: cart_env
  assumes "transferring d len k s" "4 * Suc k < len" "len \<le> 0x4000"
  defines "t \<equiv> AdvanceROMTransfer env (taken s)"
  shows "transferring d len (Suc k) t" "Cart (the_slot t) = Cart (the_slot s)" "SPICnt (the_slot t) = SPICnt (the_slot s)"
    "TransferCmd (the_slot t) = TransferCmd (the_slot s)" "ExMemCnt (dmem t) = ExMemCnt (dmem s)"
proof -
  have k: "4 * k < len" using assms(2) by simp
  note f = taken_fields [OF assms(1) k assms(3)]
  have lt: "TransferPos (the_slot (taken s)) < TransferLen (the_slot (taken s))"
    using f(4,5) assms(2) by (simp add: unat_lt_iff)
  obtain dl where t: "t = upd_nds (ScheduleEvent Event_ROMTransfer False dl ROMTransfer_PrepareData 0) (taken s)"
    using lt unfolding t_def AdvanceROMTransfer_def taken_idem Let_def by auto
  show "transferring d len (Suc k) t"
    unfolding transferring_def Let_def t using f by (simp add: ScheduleEvent_FuncID)
  show "Cart (the_slot t) = Cart (the_slot s)" "SPICnt (the_slot t) = SPICnt (the_slot s)"
    "TransferCmd (the_slot t) = TransferCmd (the_slot s)" "ExMemCnt (dmem t) = ExMemCnt (dmem s)"
    unfolding t using f by simp_all
qed

lemma next_rom_word_last:
  fixes env :: cart_env
  assumes "transferring d len k s" "4 * Suc k = len" "len \<le> 0x4000"
  defines "t \<equiv> AdvanceROMTransfer env (taken s)"
  shows "\<not> bit (ROMCnt (the_slot t)) 31"
    "Cart (the_slot t) = map_option (ROMCommandFinish env (TransferCmd (the_slot s)) d (TransferLen (the_slot (taken s)))) (Cart (the_slot s))"
    "tst (SPICnt (the_slot s)) 0x4000 \<Longrightarrow> bit (IFl (dcon t) (unat (shr (ExMemCnt (dmem s) 0) 11 AND 1))) IRQ_CartXferDone"
proof -
  have k: "4 * k < len" using assms(2) by simp
  note f = taken_fields [OF assms(1) k assms(3)]
  have ge: "\<not> TransferPos (the_slot (taken s)) < TransferLen (the_slot (taken s))"
    using f(4,5) assms(2) by (simp add: unat_lt_iff)
  have t: "t = ROMEndTransfer env 0 (taken s)"
    using ge unfolding t_def AdvanceROMTransfer_def taken_idem Let_def by simp
  show "\<not> bit (ROMCnt (the_slot t)) 31"
    unfolding t by (simp add: ROMEndTransfer_def Let_def bit_and_iff bit_not_iff bit_pow2)
  show "Cart (the_slot t) = map_option (ROMCommandFinish env (TransferCmd (the_slot s)) d (TransferLen (the_slot (taken s)))) (Cart (the_slot s))"
    unfolding t using f by (simp add: ROMEndTransfer_def Let_def)
  assume "tst (SPICnt (the_slot s)) 0x4000"
  then show "bit (IFl (dcon t) (unat (shr (ExMemCnt (dmem s) 0) 11 AND 1))) IRQ_CartXferDone"
    unfolding t using f by (simp add: ROMEndTransfer_def Let_def SetIRQ_IFl bit_or_iff bit_pow2 IRQ_CartXferDone_def)
qed

lemma rom_words_all:
  fixes env :: cart_env
  assumes "transferring d len k s" "len = 4 * (k + Suc n)" "len \<le> 0x4000"
  defines "t \<equiv> snd (rom_words env (Suc n) s)"
  shows "fst (rom_words env (Suc n) s) = map (\<lambda>i. get32 d (4 * i)) [k..<k + Suc n] \<and> \<not> bit (ROMCnt (the_slot t)) 31 \<and>
    Cart (the_slot t) = map_option (ROMCommandFinish env (TransferCmd (the_slot s)) d (word_of_nat len)) (Cart (the_slot s)) \<and>
    (tst (SPICnt (the_slot s)) 0x4000 \<longrightarrow>
      bit (IFl (dcon t) (unat (shr (ExMemCnt (dmem s) 0) 11 AND 1))) IRQ_CartXferDone)"
  using assms(1,2) unfolding t_def
proof (induction n arbitrary: k s)
  case 0
  have l: "4 * Suc k = len" "4 * k < len" using 0 by simp_all
  have e: "next_rom_word env s = (get32 d (4 * k), AdvanceROMTransfer env (taken s))"
    by (rule next_rom_word_eq [OF 0(1) l(2) assms(3)])
  have "TransferLen (the_slot (taken s)) = word_of_nat len"
    by (simp flip: taken_fields(4) [OF 0(1) l(2) assms(3)])
  then show ?case using next_rom_word_last [OF 0(1) l(1) assms(3), of env] by (simp add: e)
next
  case (Suc n)
  have l: "4 * k < len" "4 * Suc k < len" "len = 4 * (Suc k + Suc n)" using Suc.prems by simp_all
  let ?u = "AdvanceROMTransfer env (taken s)"
  have e: "next_rom_word env s = (get32 d (4 * k), ?u)" by (rule next_rom_word_eq [OF Suc.prems(1) l(1) assms(3)])
  note m = next_rom_word_more [OF Suc.prems(1) l(2) assms(3), of env]
  have r: "rom_words env (Suc (Suc n)) s = (get32 d (4 * k) # fst (rom_words env (Suc n) ?u), snd (rom_words env (Suc n) ?u))"
    by (simp add: e case_prod_beta Let_def)
  have "[k..<k + Suc (Suc n)] = k # [Suc k..<Suc k + Suc n]" by (simp add: upt_conv_Cons)
  with Suc.IH [OF m(1) l(3)] show ?case unfolding r by (simp add: m(2-5))
qed

end
