(* ===== verification/CartRead.thy ===== *)
theory CartRead
  imports CartTransfer
begin

text \<open>
  A read command of a retail cartridge, from the write of the control register to the last word.
\<close>

section \<open>The begin of a read command\<close>

lemma datasize_cases:
  assumes "datasize v \<noteq> 0"
  shows "datasize v \<in> {4, 0x200, 0x400, 0x800, 0x1000, 0x2000, 0x4000}"
proof -
  define n where "n = shr v 24 AND 7"
  have "n = take_bit 3 (shr v 24)" by (simp add: n_def take_bit_eq_mask mask_eq_exp_minus_1)
  then have "unat n < 8" using take_bit_nat_less_exp [of 3 "unat (shr v 24)"] by (simp add: unsigned_take_bit_eq)
  then have "unat n \<in> {0, 1, 2, 3, 4, 5, 6, 7}" by auto
  then have "n \<in> {0, 1, 2, 3, 4, 5, 6, 7}" by (elim insertE emptyE) (simp_all add: word_eq_unat)
  moreover have "datasize v = (if n = 7 then 4 else if n > 0 then shl 0x100 (unat n) else n)" by (simp add: datasize_def n_def)
  ultimately show ?thesis using assms by (elim insertE emptyE) simp_all
qed

lemma datasize_words:
  assumes "datasize v \<noteq> 0"
  obtains n where "unat (datasize v) = 4 * Suc n" "unat (datasize v) \<le> 0x4000"
proof -
  have "unat (datasize v) \<in> {4, 0x200, 0x400, 0x800, 0x1000, 0x2000, 0x4000}"
    using datasize_cases [OF assms] by (elim insertE emptyE) simp_all
  then have "\<exists>n. unat (datasize v) = 4 * Suc n \<and> unat (datasize v) \<le> 0x4000"
    by (elim insertE emptyE)
      (auto intro: exI [of _ 0] exI [of _ 127] exI [of _ 255] exI [of _ 511] exI [of _ 1023] exI [of _ 2047] exI [of _ 4095])
  then show ?thesis using that by blast
qed

lemma new_romcnt:
  fixes val old :: u32
  defines "cnt \<equiv> (val AND 0xFF7F7FFF) OR (old AND 0x20800000)"
  shows "datasize cnt = datasize val" "cnt AND 0x40000000 = val AND 0x40000000"
    "datasize (cnt AND NOT (shl 1 23)) = datasize val" "(cnt AND NOT (shl 1 23)) AND 0x40000000 = val AND 0x40000000"
  by (simp_all add: cnt_def datasize_def drop_bit_and drop_bit_or bit.conj_disj_distrib2 and.assoc)

lemma load_seeds_slot: "\<exists>x y. the_slot (load_seeds s) = (the_slot s)\<lparr>Key2_X := x, Key2_Y := y\<rparr>" "dcon (load_seeds s) = dcon s"
    "ExMemCnt (dmem (load_seeds s)) = ExMemCnt (dmem s)"
  by (auto simp: load_seeds_def Let_def)

text \<open>A read command of a retail cartridge begins.\<close>

lemma WriteROMCnt_begins:
  fixes env :: cart_env
  assumes l: "tst (SPICnt (the_slot s)) 0x8000" "\<not> tst (SPICnt (the_slot s)) 0x2000" "\<not> bit (ROMCnt (the_slot s)) 31"
    and ev: "\<not> bit (SchedListMask (dcon s)) Event_ROMTransfer"
    and val: "bit val 31" "\<not> bit val 30" "datasize val \<noteq> 0"
    and c: "Cart (the_slot s) = Some c" "cart_type c = Retail" "CmdEncMode c = 2" "ROMCommand (the_slot s) 0 = 0xB7"
  defines "t \<equiv> WriteROMCnt env val s" and "len \<equiv> datasize val"
    and "cmd \<equiv> memcpy 0 (ROMCommand (the_slot s)) 0 8 (TransferCmd (the_slot s))"
  shows "transferring (command_B7 c cmd len (memset 0 0xFF (unat len) (TransferData (the_slot s)))) (unat len) 0 t"
    "Cart (the_slot t) = Some c" "SPICnt (the_slot t) = SPICnt (the_slot s)" "TransferCmd (the_slot t) = cmd"
    "ExMemCnt (dmem t) = ExMemCnt (dmem s)"
proof -
  define cnt where "cnt = (val AND 0xFF7F7FFF) OR (ROMCnt (the_slot s) AND 0x20800000)"
  define s1 where "s1 = upd_slot (\<lambda>l. l\<lparr>ROMCnt := cnt\<rparr>) s"
  define s2 where "s2 = (if tst val (shl 1 15) then load_seeds s1 else s1)"
  have s1: "upd_slot (\<lambda>l. l\<lparr>ROMCnt := (val AND 0xFF7F7FFF) OR (ROMCnt l AND 0x20800000)\<rparr>) s = s1"
    by (simp add: s1_def upd_slot_def cnt_def the_slot_def)
  have "\<exists>x y. the_slot s2 = (the_slot s)\<lparr>ROMCnt := cnt, Key2_X := x, Key2_Y := y\<rparr>"
  proof (cases "tst val (shl 1 15)")
    case True
    then show ?thesis using load_seeds_slot(1) [of s1] unfolding s2_def by (simp add: s1_def)
  next
    case False
    have r: "l\<lparr>ROMCnt := cnt\<rparr> = l\<lparr>ROMCnt := cnt, Key2_X := Key2_X l, Key2_Y := Key2_Y l\<rparr>" for l :: slot by (cases l) simp
    have "the_slot s2 = (the_slot s)\<lparr>ROMCnt := cnt\<rparr>" using False by (simp add: s2_def s1_def)
    from trans [OF this r] show ?thesis by (intro exI)
  qed
  then obtain x y where l2: "the_slot s2 = (the_slot s)\<lparr>ROMCnt := cnt, Key2_X := x, Key2_Y := y\<rparr>" by blast
  have n2: "dcon s2 = dcon s" "ExMemCnt (dmem s2) = ExMemCnt (dmem s)"
    by (simp_all add: s2_def s1_def load_seeds_slot)
  have x: "val AND NOT (ROMCnt (the_slot s)) AND shl 1 31 \<noteq> 0"
    unfolding and.assoc [symmetric] tst_shl1 using l(3) val(1) by (simp add: bit_and_iff bit_not_iff)
  have len: "datasize cnt = len" "datasize (cnt AND NOT (shl 1 23)) = len" by (simp_all only: cnt_def new_romcnt len_def)
  have b: "begin_command env (the_slot s2) = (the_slot s2)\<lparr>TransferPos := 0, TransferLen := len, TransferCmd := cmd,
      TransferData := command_B7 c cmd len (memset 0 0xFF (unat len) (TransferData (the_slot s))), TransferDir := 0, Cart := Some c,
      ROMCnt := cnt AND NOT (shl 1 23)\<rparr>"
    using c by (simp add: begin_command_def l2 Let_def len ROMCommandStart_def Retail_ROMCommandStart_def cmd_def memcpy_def)
  have "len \<noteq> 0" using val(3) by (simp add: len_def)
  then obtain dl where t: "t = upd_nds (ScheduleEvent Event_ROMTransfer False dl ROMTransfer_PrepareData 0) (upd_slot (begin_command env) s2)"
  proof -
    have ne: "datasize (ROMCnt (the_slot (upd_slot (begin_command env) s2))) \<noteq> 0"
      using \<open>len \<noteq> 0\<close> len(2) by (simp add: b)
    have spi: "tst (SPICnt (the_slot s2)) (shl 1 15)" "\<not> tst (SPICnt (the_slot s2)) (shl 1 13)" using l(1,2) by (simp_all add: l2)
    have "t = upd_nds (ScheduleEvent Event_ROMTransfer False
        (xfercycle (ROMCnt (the_slot (upd_slot (begin_command env) s2))) * (cmddelay (ROMCnt (the_slot (upd_slot (begin_command env) s2))) + 4))
        ROMTransfer_PrepareData 0) (upd_slot (begin_command env) s2)"
      unfolding t_def WriteROMCnt_def Let_def s1 s2_def [symmetric] by (simp only: ne spi x if_True if_False simp_thms)
    then show ?thesis by (rule that)
  qed
  have c30: "(cnt AND NOT (shl 1 23)) AND 0x40000000 = 0" 
    unfolding cnt_def new_romcnt(4) using val(2) and_pow2 [of val 30] by simp
  show "transferring (command_B7 c cmd len (memset 0 0xFF (unat len) (TransferData (the_slot s)))) (unat len) 0 t"
    using ev c30 by (simp add: transferring_def Let_def t b n2 ScheduleEvent_FuncID)
  show "Cart (the_slot t) = Some c" "SPICnt (the_slot t) = SPICnt (the_slot s)" "TransferCmd (the_slot t) = cmd"
    "ExMemCnt (dmem t) = ExMemCnt (dmem s)"
    by (simp_all add: t b n2) (simp add: l2)
qed

text \<open>What the read command puts into the buffer.\<close>

lemma redirect_id:
  assumes "\<not> cart_IsDSi c" "ROMLength c = 2 ^ k" "k < 32" "0x8000 \<le> unat addr" "unat addr < 2 ^ k"
  shows "redirect c addr = addr"
proof -
  have "addr AND (2 ^ k - 1) = addr"
    using assms(5) by (simp only: word_eq_unat mask_eq_exp_minus_1 [symmetric] unat_and_mask) simp
  moreover have "\<not> addr < 0x8000" using assms(4) by (simp add: unat_lt_iff)
  ultimately show ?thesis using assms(1,2) by (simp add: redirect_def Let_def)
qed

lemma B7_split:
  assumes "0 < unat len" "unat addr + unat len \<le> 2 ^ 32" "shr (addr + len - 1) 12 \<noteq> shr addr 12"
  defines "p \<equiv> unat addr mod 0x1000" and "len1 \<equiv> 0x1000 - (addr AND 0xFFF) :: u32"
  shows "unat len1 = 0x1000 - p" "0x1000 - p < unat len" "p < 0x1000"
proof -
  have "addr AND 0xFFF = addr AND mask 12" by (simp add: mask_eq_exp_minus_1)
  then have p: "unat (addr AND 0xFFF) = p" by (simp only: unat_and_mask p_def) simp
  show p_lt: "p < 0x1000" by (simp add: p_def)
  show "unat len1 = 0x1000 - p" using p p_lt by (simp add: len1_def unat_sub_le unat_le_iff)
  have q: "unat (len - 1) = unat len - 1" using assms(1) by (rule unat_pred)
  have "unat (addr + (len - 1)) = unat addr + unat (len - 1)"
    by (rule unat_add_small) (use q assms(1,2) in simp)
  then have e: "unat (addr + len - 1) = unat addr + unat len - 1"
    unfolding add_diff_eq q using assms(1) by linarith
  have "(unat addr + unat len - 1) div 0x1000 \<noteq> unat addr div 0x1000"
    using assms(3) unfolding word_eq_unat unat_shr e by simp
  moreover have "unat addr = 0x1000 * (unat addr div 0x1000) + p" by (simp add: p_def)
  ultimately show "0x1000 - p < unat len"
    using assms(1) div_nat_eqI [of "unat addr div 0x1000" "0x1000" "unat addr + unat len - 1"] by linarith
qed

lemma command_B7_data:
  assumes c: "\<not> cart_IsDSi c" "ROMLength c = 2 ^ k" "k < 32"
    and a: "be32 cmd 1 = addr" "0x8000 \<le> unat addr" "unat addr + unat len \<le> 2 ^ k" "0 < unat len"
    and i: "i < unat len"
  shows "command_B7 c cmd len d i = ROM c (unat addr + i)"
proof -
  have k32: "(2 :: nat) ^ k \<le> 2 ^ 31" using c(3) by (intro power_increasing) simp_all
  have a1: "be32 cmd (Suc 0) = addr" using a(1) by simp
  define p where "p = unat addr mod 0x1000"
  define len1 where "len1 = 0x1000 - (addr AND 0xFFF)"
  have r1: "redirect c addr = addr" by (rule redirect_id [OF c a(2)]) (use a(3,4) in linarith)
  show ?thesis
  proof (cases "shr (addr + len - 1) 12 = shr addr 12")
    case True
    then show ?thesis using i r1 by (simp add: command_B7_def Let_def a1 ReadROM_B7_def memcpy_def)
  next
    case False
    have "unat addr + unat len \<le> 2 ^ 32" using a(3) k32 by simp
    note sp = B7_split [OF a(4) this False, folded p_def len1_def]
    have s1: "unat (addr + len1) = unat addr + (0x1000 - p)"
      using sp a(3) k32 by (subst unat_add_small) simp_all
    have s2: "unat (len - len1) = unat len - (0x1000 - p)"
      using sp by (subst unat_sub_le) (simp_all add: unat_le_iff)
    have r2: "redirect c (addr + len1) = addr + len1"
    proof (rule redirect_id [OF c])
      show "0x8000 \<le> unat (addr + len1)" using a(2) by (simp add: s1)
      show "unat (addr + len1) < 2 ^ k" unfolding s1 using a(3) sp(2) by linarith
    qed
    have "command_B7 c cmd len d i = memcpy (unat len1) (ROM c) (unat (addr + len1)) (unat (len - len1))
      (memcpy 0 (ROM c) (unat addr) (unat len1) (memset 0 0 (unat len) d)) i"
      using False by (simp add: command_B7_def Let_def a1 ReadROM_B7_def len1_def [symmetric] r1 r2)
    also have "\<dots> = ROM c (unat addr + i)"
      using i sp by (simp add: memcpy_def s1 s2)
    finally show ?thesis .
  qed
qed

section \<open>Reading the ROM\<close>

text \<open>C17: a game reads its cartridge: after a read command for \<open>len\<close> bytes at an address behind the secure area, the
  words that the processor takes from the data register, one for each event of the transfer, are the words of the
  image, in order and as many as were asked for; the transfer is then over, and its interrupt is raised at the
  processor that owns the slot if it is enabled.\<close>

theorem read_ROM:
  fixes env :: cart_env
  assumes l: "tst (SPICnt (the_slot s)) 0x8000" "\<not> tst (SPICnt (the_slot s)) 0x2000" "\<not> bit (ROMCnt (the_slot s)) 31"
    and ev: "\<not> bit (SchedListMask (dcon s)) Event_ROMTransfer"
    and val: "bit val 31" "\<not> bit val 30" "datasize val \<noteq> 0"
    and c: "Cart (the_slot s) = Some c" "cart_type c = Retail" "CmdEncMode c = 2" "\<not> cart_IsDSi c" "ROMLength c = 2 ^ k" "k < 32"
    and cmd: "ROMCommand (the_slot s) 0 = 0xB7" "be32 (ROMCommand (the_slot s)) 1 = addr"
    and addr: "0x8000 \<le> unat addr" "unat addr + unat (datasize val) \<le> 2 ^ k"
  defines "words \<equiv> unat (datasize val) div 4"
  defines "t \<equiv> snd (rom_words env words (WriteROMCnt env val s))"
  shows "fst (rom_words env words (WriteROMCnt env val s)) = map (\<lambda>i. get32 (ROM c) (unat addr + 4 * i)) [0..<words] \<and>
    \<not> bit (ROMCnt (the_slot t)) 31 \<and> Cart (the_slot t) = Some c \<and>
    (tst (SPICnt (the_slot s)) 0x4000 \<longrightarrow>
      bit (IFl (dcon t) (unat (shr (ExMemCnt (dmem s) 0) 11 AND 1))) IRQ_CartXferDone)"
proof -
  obtain n where n: "unat (datasize val) = 4 * Suc n" "unat (datasize val) \<le> 0x4000" by (rule datasize_words [OF val(3)])
  have w: "words = Suc n" by (simp add: words_def n)
  define cm where "cm = memcpy 0 (ROMCommand (the_slot s)) 0 8 (TransferCmd (the_slot s))"
  define d where "d = command_B7 c cm (datasize val) (memset 0 0xFF (unat (datasize val)) (TransferData (the_slot s)))"
  note b = WriteROMCnt_begins [OF l ev val c(1-3) cmd(1), folded cm_def, folded d_def]
  let ?s = "WriteROMCnt env val s"
  have a: "be32 cm 1 = addr" using cmd(2) by (simp add: cm_def be32_def memcpy_def)
  have data: "get32 d (4 * i) = get32 (ROM c) (unat addr + 4 * i)" if "i < words" for i
  proof -
    have "d (4 * i + j) = ROM c (unat addr + (4 * i + j))" if "j < 4" for j
      unfolding d_def using n that \<open>i < words\<close> w by (intro command_B7_data [OF c(4-6) a addr]) simp_all
    from this [of 0] this [of 1] this [of 2] this [of 3] show ?thesis by (simp add: get32_def add.assoc)
  qed
  have "fst (rom_words env (Suc n) ?s) = map (\<lambda>i. get32 d (4 * i)) [0..<0 + Suc n] \<and>
    \<not> bit (ROMCnt (the_slot (snd (rom_words env (Suc n) ?s)))) 31 \<and>
    Cart (the_slot (snd (rom_words env (Suc n) ?s))) =
      map_option (ROMCommandFinish env (TransferCmd (the_slot ?s)) d (word_of_nat (unat (datasize val)))) (Cart (the_slot ?s)) \<and>
    (tst (SPICnt (the_slot ?s)) 0x4000 \<longrightarrow>
      bit (IFl (dcon (snd (rom_words env (Suc n) ?s))) (unat (shr (ExMemCnt (dmem ?s) 0) 11 AND 1))) IRQ_CartXferDone)"
    by (rule rom_words_all [OF b(1) _ n(2)]) (simp add: n(1))
  moreover have "map (\<lambda>i. get32 d (4 * i)) [0..<Suc n] = map (\<lambda>i. get32 (ROM c) (unat addr + 4 * i)) [0..<Suc n]"
    by (rule map_cong [OF refl]) (rule data, simp only: w atLeastLessThan_iff set_upt)
  moreover have "ROMCommandFinish env x d y c = c" for x y using c(2) by (simp add: ROMCommandFinish_def)
  ultimately show ?thesis unfolding t_def w by (simp add: b(2,3,5) del: upt_Suc)
qed

text \<open>Four bytes at \<open>0x8004\<close> of the sample image.\<close>

definition booted :: csys where
  "booted = upd_slot (\<lambda>l. l\<lparr>SPICnt := 0xC000, ROMCommand := (\<lambda>_. 0)(0 := 0xB7, 3 := 0x80, 4 := 4)\<rparr>)
     (blank_csys (sample_cart\<lparr>CmdEncMode := 2\<rparr>))"

theorem read_ROM_witness:
  "fst (rom_words no_sd 1 (WriteROMCnt no_sd 0x87000000 booted)) = [0x07060504] \<and>
   bit (IFl (dcon (snd (rom_words no_sd 1 (WriteROMCnt no_sd 0x87000000 booted)))) 0) IRQ_CartXferDone"
proof -
  let ?c = "sample_cart\<lparr>CmdEncMode := 2\<rparr>"
  have l: "the_slot booted = (blank_slot ?c)\<lparr>SPICnt := 0xC000, ROMCommand := (\<lambda>_. 0)(0 := 0xB7, 3 := 0x80, 4 := 4)\<rparr>"
    by (simp add: booted_def blank_csys_def the_slot_def upd_slot_def)
  have dc: "SchedListMask (dcon booted) = 0" "ExMemCnt (dmem booted) 0 = 0x4000"
    by (simp_all add: booted_def blank_csys_def blank_nds_def)
  have v: "datasize 0x87000000 = 4" by (simp add: datasize_def)
  have rom: "ROM ?c = (\<lambda>i. if i < 0x200 then 0 else word_of_nat i)" "ROMLength ?c = 2 ^ 16" "\<not> cart_IsDSi ?c"
    by (simp_all add: sample_cart_def CartRetail_def CartCommon_def Let_def sramlength_def hdr_IsDSi_def)
  have b: "be32 ((\<lambda>_. 0)(0 := 0xB7, 3 := 0x80, 4 := 4)) (Suc 0) = 0x8004" by (simp add: be32_def)
  have "get32 (\<lambda>i. if i < 0x200 then 0 else word_of_nat i) 0x8004 = 0x07060504" by (simp add: get32_def)
  then show ?thesis
    using read_ROM [where env = no_sd and s = booted and val = "0x87000000" and c = ?c and k = 16 and addr = "0x8004"]
    by (simp add: l blank_slot_def dc v rom sample_cart_fields b)
qed

end
