(* ===== verification/CartBounds.thy ===== *)
theory CartBounds
  imports CartRead
begin

text \<open>
  The bytes of the transfer buffer that a read command writes.
\<close>

section \<open>Bounds\<close>

lemma ReadROM_B7_outside:
  "i < unat off \<or> unat off + unat len \<le> i \<Longrightarrow> ReadROM_B7 c addr len off d i = d i"
  by (auto simp: ReadROM_B7_def memcpy_def)

lemma B7_aligned_split:
  fixes addr :: u32
  assumes "addr AND 0xFFF = 0"
  shows "shr (addr + 0 - 1) 12 \<noteq> shr addr 12"
proof (cases "addr = 0")
  case True
  then show ?thesis by simp
next
  case False
  have "addr AND 0xFFF = addr AND mask 12" by (simp add: mask_eq_exp_minus_1)
  then have m: "unat addr mod 0x1000 = 0" using assms by (simp flip: unat_and_mask [of addr 12, simplified])
  have p: "0 < unat addr" using False by (simp add: word_eq_unat)
  then have "unat (addr - 1) = unat addr - 1" by (rule unat_pred)
  moreover have "(unat addr - 1) div 0x1000 < unat addr div 0x1000" using m p by (auto elim: dvdE)
  ultimately show ?thesis by (simp add: word_eq_unat unat_shr)
qed

text \<open>C23: a read command for at least one byte writes the bytes it was asked for and none behind them. But for a
  command without data (a size code of zero) at an address that is a multiple of 4 KB, \<^verbatim>\<open>addr + len - 1\<close> is in
  the page before, the second part has the length \<^verbatim>\<open>0 - 0x1000\<close>, and the copy runs over everything behind the
  transfer buffer.\<close>

theorem B7_bounds:
  "(0 < unat len \<and> unat (be32 cmd 1) + unat len \<le> 2 ^ 32 \<longrightarrow> (\<forall>i \<ge> unat len. command_B7 c cmd len d i = d i)) \<and>
   (be32 cmd 1 AND 0xFFF = 0 \<longrightarrow> (\<forall>i. 0x1000 \<le> i \<and> i < 2 ^ 32 \<longrightarrow>
      command_B7 c cmd 0 d i = ROM c (unat (redirect c (be32 cmd 1 + 0x1000)) + (i - 0x1000))))"
proof (intro conjI impI allI)
  define addr where "addr = be32 cmd 1"
  then have a1: "be32 cmd (Suc 0) = addr" by simp
  fix i :: nat
  { assume l: "0 < unat len \<and> unat (be32 cmd 1) + unat len \<le> 2 ^ 32" and i: "unat len \<le> i"
    have m: "memset 0 0 (unat len) d i = d i" using i by (simp add: memset_def)
    show "command_B7 c cmd len d i = d i"
    proof (cases "shr (addr + len - 1) 12 = shr addr 12")
      case True
      then show ?thesis using i m by (simp add: command_B7_def Let_def a1 ReadROM_B7_outside)
    next
      case False
      define len1 where "len1 = 0x1000 - (addr AND 0xFFF)"
      note sp = B7_split [OF _ _ False, folded len1_def]
      have le: "unat len1 \<le> unat len" using sp l by (simp add: addr_def)
      then have "unat (len - len1) = unat len - unat len1" by (simp add: unat_sub_le unat_le_iff)
      with le i have "unat len1 + unat (len - len1) \<le> i" "0 + unat len1 \<le> i" by simp_all
      with False m show ?thesis by (simp add: command_B7_def Let_def a1 len1_def [symmetric] ReadROM_B7_outside)
    qed }
  { assume z: "be32 cmd 1 AND 0xFFF = 0" and i: "0x1000 \<le> i \<and> i < 2 ^ 32"
    have z': "addr AND 0xFFF = 0" using z by (simp add: addr_def)
    have "command_B7 c cmd 0 d i = ROM c (unat (redirect c (addr + 0x1000)) + (i - 0x1000))"
      using B7_aligned_split [OF z'] z' i
      by (simp add: command_B7_def Let_def a1 ReadROM_B7_def memcpy_def)
    then show "command_B7 c cmd 0 d i = ROM c (unat (redirect c (be32 cmd 1 + 0x1000)) + (i - 0x1000))" by (simp add: addr_def) }
qed

text \<open>A command without data at the address \<open>0x9000\<close>: the byte behind the first page of the buffer.\<close>

theorem B7_bounds_witness:
  "command_B7 sample_cart ((\<lambda>_. 0)(3 := 0x90)) 0 (\<lambda>_. 0) 0x1001 = 1 \<and>
   command_B7 sample_cart ((\<lambda>_. 0)(3 := 0x90)) 4 (\<lambda>_. 0) 4 = 0"
proof -
  have b: "be32 ((\<lambda>_. 0)(3 := 0x90)) (Suc 0) = 0x9000" by (simp add: be32_def)
  have r: "redirect sample_cart 0xA000 = 0xA000"
    by (rule redirect_id [where k = 16])
      (simp_all add: sample_cart_def CartRetail_def CartCommon_def Let_def sramlength_def hdr_IsDSi_def)
  have "ROM sample_cart 0xA001 = 1"
    by (simp add: sample_cart_def CartRetail_def CartCommon_def Let_def sramlength_def)
  then show ?thesis
    using B7_bounds [of 4 "(\<lambda>_. 0)(3 := 0x90)" sample_cart "\<lambda>_. 0"] by (simp add: b r)
qed

end
