(* ===== verification/RomSearch.thy ===== *)
theory RomSearch
  imports Cart
begin

text \<open>
  The look-up of a cartridge in the ROM database (\<^verbatim>\<open>ReadROMParams\<close> of \<^verbatim>\<open>src/src/NDSCart.cpp\<close>): a binary
  search that halves its step and goes on one entry at a time once the step is zero.
\<close>

datatype lookup = Found ROMListEntry | NotFound | OutOfRange

text \<open>The loop; a read outside the table is a result of its own.\<close>

function search_params :: "ROMListEntry list \<Rightarrow> u32 \<Rightarrow> nat \<Rightarrow> nat \<Rightarrow> lookup" where
  "search_params tbl gamecode offset chk_size =
     (if \<not> offset + chk_size < length tbl then OutOfRange
      else
        let curentry = tbl ! (offset + chk_size); key = GameCode curentry
        in if key = gamecode then Found curentry
           else if key < gamecode then
             let offset' = (if chk_size = 0 then offset + 1 else offset + chk_size)
             in if offset' \<ge> length tbl then NotFound else search_params tbl gamecode offset' (chk_size div 2)
           else if chk_size = 0 then NotFound
           else if offset \<ge> length tbl then NotFound
           else search_params tbl gamecode offset (chk_size div 2))"
  by pat_completeness auto
termination by (relation "measures [\<lambda>(tbl, g, off, chk). chk, \<lambda>(tbl, g, off, chk). length tbl - off]") auto

declare search_params.simps [simp del]

definition ReadROMParams :: "ROMListEntry list \<Rightarrow> u32 \<Rightarrow> lookup" where
  "ReadROMParams tbl gamecode = search_params tbl gamecode 0 (length tbl div 2)"

section \<open>The search is right on a sorted table\<close>

definition ascending :: "ROMListEntry list \<Rightarrow> bool" where
  "ascending tbl \<longleftrightarrow> sorted_wrt (\<lambda>a b. GameCode a < GameCode b) tbl"

lemma ascending_less: "ascending tbl \<Longrightarrow> i < j \<Longrightarrow> j < length tbl \<Longrightarrow> GameCode (tbl ! i) < GameCode (tbl ! j)"
  unfolding ascending_def by (rule sorted_wrt_nth_less)

text \<open>The entries before the offset have smaller codes, and the step does not leave the table.\<close>

lemma search_params_correct:
  assumes "ascending tbl" "offset < length tbl" "offset + 2 * chk_size \<le> length tbl"
    and "\<forall>i < offset. GameCode (tbl ! i) < g"
  shows "search_params tbl g offset chk_size =
    (case find (\<lambda>e. GameCode e = g) tbl of Some e \<Rightarrow> Found e | None \<Rightarrow> NotFound)"
  using assms
proof (induction tbl g offset chk_size rule: search_params.induct)
  case (1 tbl g off chk)
  let ?k = "GameCode (tbl ! (off + chk))"
  have r: "off + chk < length tbl" using 1(4,5) by (cases "chk = 0") simp_all
  note IH = 1(1,2)
  show ?case
  proof (cases "?k = g")
    case True
    have "\<forall>j < off + chk. GameCode (tbl ! j) \<noteq> g"
      using ascending_less [OF 1(3) _ r] True by (metis less_irrefl)
    then have "find (\<lambda>e. GameCode e = g) tbl = Some (tbl ! (off + chk))"
      using r True by (subst find_Some_iff) blast
    then show ?thesis using r True by (simp add: search_params.simps [of tbl g off chk] Let_def)
  next
    case ne: False
    show ?thesis
    proof (cases "?k < g")
      case True
      let ?o = "if chk = 0 then off + 1 else off + chk"
      have small: "\<forall>i < ?o. GameCode (tbl ! i) < g"
      proof (intro allI impI)
        fix i assume "i < ?o"
        then have "i \<le> off + chk" by (simp split: if_splits)
        then show "GameCode (tbl ! i) < g"
          using ascending_less [OF 1(3) _ r, of i] True by (cases "i = off + chk") (auto intro: less_trans)
      qed
      show ?thesis
      proof (cases "length tbl \<le> ?o")
        case True
        then have "\<forall>e \<in> set tbl. GameCode e \<noteq> g" using small by (metis in_set_conv_nth less_irrefl less_le_trans)
        then have "find (\<lambda>e. GameCode e = g) tbl = None" by (simp add: find_None_iff)
        then show ?thesis using r ne \<open>?k < g\<close> True by (simp add: search_params.simps [of tbl g off chk] Let_def)
      next
        case False
        have "search_params tbl g ?o (chk div 2) = (case find (\<lambda>e. GameCode e = g) tbl of Some e \<Rightarrow> Found e | None \<Rightarrow> NotFound)"
          by (rule IH(1)) (use r ne True False 1(3,5) small in \<open>auto split: if_splits\<close>)
        then show ?thesis using r ne True False by (simp add: search_params.simps [of tbl g off chk] Let_def)
      qed
    next
      case gt: False
      show ?thesis
      proof (cases "chk = 0")
        case True
        have "GameCode (tbl ! i) \<noteq> g" if "i < length tbl" for i
        proof (cases "i < off")
          case True
          then show ?thesis using 1(6) by auto
        next
          case False
          then show ?thesis
            using ascending_less [OF 1(3) _ that, of off] ne gt \<open>chk = 0\<close> by (cases "i = off") auto
        qed
        then have "find (\<lambda>e. GameCode e = g) tbl = None" by (auto simp: find_None_iff in_set_conv_nth)
        then show ?thesis using r ne gt True by (subst search_params.simps) (simp add: Let_def)
      next
        case False
        have "search_params tbl g off (chk div 2) = (case find (\<lambda>e. GameCode e = g) tbl of Some e \<Rightarrow> Found e | None \<Rightarrow> NotFound)"
          by (rule IH(2)) (use r ne gt False 1(3-6) in auto)
        then show ?thesis using r ne gt False 1(4) by (simp add: search_params.simps [of tbl g off chk] Let_def)
      qed
    qed
  qed
qed

lemma ReadROMParams_find:
  assumes "ascending tbl" "tbl \<noteq> []"
  shows "ReadROMParams tbl g = (case find (\<lambda>e. GameCode e = g) tbl of Some e \<Rightarrow> Found e | None \<Rightarrow> NotFound)"
  unfolding ReadROMParams_def by (rule search_params_correct) (use assms in auto)

end
