(* ===== verification/CartLoad.thy ===== *)
theory CartLoad
  imports CartSlot RomSearch PowerOf2
begin

text \<open>
  Loading an image (\<^verbatim>\<open>ParseROM\<close> of \<^verbatim>\<open>src/src/NDSCart.cpp\<close>): padding to a power of two, the entry of the
  database or its defaults, the chip identifier, and the kind of cartridge. The bytes behind an image that is
  shorter than its header are taken to be zero.
\<close>

definition default_params :: "u32 \<Rightarrow> u32 \<Rightarrow> bool \<Rightarrow> ROMListEntry" where
  "default_params gamecode cartromsize homebrew =
     \<lparr>GameCode = gamecode, ROMSize = cartromsize, SaveMemType = if homebrew then 0 else 2\<rparr>"

definition cart_id :: "u32 \<Rightarrow> u32 \<Rightarrow> bool \<Rightarrow> u32" where
  "cart_id cartromsize savememtype dsi =
     (let cartid = 0x000000C2;
          cartid = cartid OR (if 1024 * 1024 \<le> cartromsize \<and> cartromsize \<le> 128 * 1024 * 1024
                              then shl (shr cartromsize 20 - 1) 8 else shl (0x100 - shr cartromsize 28) 8);
          cartid = (if 8 \<le> savememtype \<and> savememtype \<le> 10 then cartid OR 0x08000000 else cartid)
      in if dsi then cartid OR 0x40000000 else cartid)"

definition ir_version :: "u32 \<Rightarrow> u32" where
  "ir_version gamecode =
     (if gamecode AND 0xFF = 0x49 then (if shr gamecode 8 AND 0xFF < 0x50 then 1 else 2) else 0)"

text \<open>\<^verbatim>\<open>gametitle[0] == 0 && !strncmp("SD/TF-NDS", gametitle + 1, 9)\<close>\<close>

definition r4_title :: "mem \<Rightarrow> bool" where
  "r4_title rom \<longleftrightarrow> map rom [0..<10] = [0x00, 0x53, 0x44, 0x2F, 0x54, 0x46, 0x2D, 0x4E, 0x44, 0x53]"

definition make_cart :: "mem \<Rightarrow> u32 \<Rightarrow> u32 \<Rightarrow> bool \<Rightarrow> ROMListEntry \<Rightarrow> (mem \<times> u32) option \<Rightarrow> save_manager \<Rightarrow> cart" where
  "make_cart rom len cartid bad params sram userdata =
     (let gamecode = hdr_GameCode rom in
      if hdr_IsHomebrew rom then CartCommon rom len cartid False params Homebrew userdata
      else if r4_title rom \<and> gamecode = 0x414D5341 then CartCommon rom len cartid False params UnlicensedR4 userdata
      else if tst cartid 0x08000000 then CartRetailNAND rom len cartid params sram userdata
      else if ir_version gamecode \<noteq> 0 then CartRetailIR rom len cartid (ir_version gamecode) bad params sram userdata
      else if gamecode AND 0xFFFFFF = 0x505A55 then CartRetailBT rom len cartid params sram userdata
      else CartRetail rom len cartid bad params sram userdata Retail)"

text \<open>The result is \<open>None\<close> when the padding does not return, \<open>Some None\<close> for the null pointer.\<close>

definition ParseROM :: "ROMListEntry list \<Rightarrow> u8 list option \<Rightarrow> u32 \<Rightarrow> (mem \<times> u32) option \<Rightarrow> save_manager \<Rightarrow> cart option option" where
  "ParseROM tbl romdata romlen sram userdata =
     (if romdata = None \<or> romlen = 0 then Some None
      else case PadToPowerOf2_owned romdata romlen of
        None \<Rightarrow> None
      | Some (d, cartromsize) \<Rightarrow>
          let rom = of_list (the d);
              dsi = hdr_IsDSi rom;
              bad = (dsi \<and> hdr_DSiRegionMask rom = 0);
              dsi = (dsi \<and> \<not> bad);
              gamecode = hdr_GameCode rom;
              romparams = (case ReadROMParams tbl gamecode of
                             Found e \<Rightarrow> e
                           | _ \<Rightarrow> default_params gamecode cartromsize (hdr_IsHomebrew rom));
              cartid = cart_id cartromsize (SaveMemType romparams) dsi
          in Some (Some (make_cart rom cartromsize cartid bad romparams sram userdata)))"

section \<open>What the loader guarantees\<close>

text \<open>A well formed cartridge: the length of the image is a power of two, as the mask of the ROM reads needs it,
  and the save memory has the type and length of an entry of the database.\<close>

definition cart_wf :: "cart \<Rightarrow> bool" where
  "cart_wf c \<longleftrightarrow> (\<exists>k < 32. ROMLength c = 2 ^ k) \<and>
     (\<exists>t \<le> 10. SRAMType c = sramtype t \<and> SRAMLength c = sramlength t) \<and>
     CmdEncMode c = 0 \<and> DSiMode c = False"

lemma nat_pow2: "0 < n \<Longrightarrow> n AND (n - 1) = 0 \<Longrightarrow> \<exists>k. n = 2 ^ k" for n :: nat
proof (induction n rule: less_induct)
  case (less n)
  have r: "n AND (n - 1) = of_bool (odd n \<and> odd (n - 1)) + 2 * ((n div 2) AND ((n - 1) div 2))" by (rule and_rec)
  show ?case
  proof (cases "even n")
    case True
    then obtain m where m: "n = 2 * m" by (rule evenE)
    have "(n - 1) div 2 = m - 1" using m less.prems(1) by simp
    then have "m AND (m - 1) = 0" using r less.prems(2) m by simp
    then obtain k where "m = 2 ^ k" using less.IH [of m] less.prems(1) m by auto
    then have "n = 2 ^ Suc k" using m by simp
    then show ?thesis ..
  next
    case False
    then obtain m where m: "n = 2 * m + 1" by (rule oddE)
    then have "m = 0" using r less.prems(2) by simp
    then show ?thesis using m by (intro exI [of _ 0]) simp
  qed
qed

lemma pow2_len:
  assumes "len \<noteq> 0" "len AND (len - 1) = 0"
  shows "\<exists>k < 32. len = (2 :: u32) ^ k"
proof -
  have p: "0 < unat len" using assms(1) by (simp add: word_eq_unat)
  have "unat len AND (unat len - 1) = unat (len AND (len - 1))" using p by (simp add: unsigned_and_eq unat_pred)
  then have "unat len AND (unat len - 1) = 0" using assms(2) by simp
  then obtain k where k: "unat len = 2 ^ k" using nat_pow2 p by blast
  have "(2 :: nat) ^ k < 2 ^ 32" using unat_bound [of len] k by simp
  then have "k < 32" by (simp only: power_strict_increasing_iff)
  moreover have "len = 2 ^ k" using k unat_2p [OF \<open>k < 32\<close>] by (simp only: word_eq_unat)
  ultimately show ?thesis by blast
qed

lemma Pad_length:
  assumes "PadToPowerOf2_owned data len = Some (d, n)" "data \<noteq> None" "len \<noteq> 0"
  shows "\<exists>k < 32. n = 2 ^ k"
proof (cases "len AND (len - 1) = 0")
  case True
  then show ?thesis using assms pow2_len [of len] by (auto simp: PadToPowerOf2_owned_def)
next
  case False
  then obtain r where r: "pad_loop 1 len = Some r" "n = r"
    using assms by (auto simp: PadToPowerOf2_owned_def split: option.splits)
  have "pow2_or_0 1" unfolding pow2_or_0_def by (intro disjI2 exI [of _ 0]) simp
  then have "unat len \<le> 2 ^ 31" using pad_loop_large [OF r(1)] by simp
  then have "\<exists>j \<le> 31. pad_loop 1 len = Some (2 ^ j)" using pad_loop_terminates [of 0 len] by auto
  then obtain j where j: "j \<le> 31" "n = 2 ^ j" using r by auto
  then have "j < 32" by simp
  with j(2) show ?thesis by blast
qed

lemma CartRetail_fields:
  fixes params :: ROMListEntry
  defines "t \<equiv> (if SaveMemType params \<le> 10 then SaveMemType params else 0)"
  shows "ROMLength (CartRetail rom len cid bad params sram u ty) = len"
    "SRAMType (CartRetail rom len cid bad params sram u ty) = sramtype t"
    "SRAMLength (CartRetail rom len cid bad params sram u ty) = sramlength t"
    "CmdEncMode (CartRetail rom len cid bad params sram u ty) = 0" "DSiMode (CartRetail rom len cid bad params sram u ty) = False"
  unfolding t_def by (simp_all add: CartRetail_def CartCommon_def Let_def split: option.split prod.split)

lemma CartRetail_wf: "\<exists>k < 32. len = 2 ^ k \<Longrightarrow> cart_wf (CartRetail rom len cid bad params sram u ty)"
  unfolding cart_wf_def CartRetail_fields
  by (intro conjI exI [of _ "if SaveMemType params \<le> 10 then SaveMemType params else 0"] refl) simp_all

lemma CartCommon_wf: "\<exists>k < 32. len = 2 ^ k \<Longrightarrow> cart_wf (CartCommon rom len cid bad params ty u)"
  by (simp add: cart_wf_def CartCommon_def) (rule exI [of _ 0], simp add: sramtype_def sramlength_def)

lemma BuildSRAMID_wf: "cart_wf (BuildSRAMID c) = cart_wf c"
  by (simp add: BuildSRAMID_def Let_def cart_wf_def)

lemma IR_wf: "cart_wf (c\<lparr>IRVersion := v\<rparr>) = cart_wf c"
  by (simp add: cart_wf_def)

text \<open>C22: every cartridge that the loader makes is well formed, whatever the image and the save file: its length is a
  power of two, the save memory has the type and the length of an entry of the database, and the boot commands
  are not encrypted yet.\<close>

theorem ParseROM_wf:
  assumes "ParseROM tbl romdata romlen sram userdata = Some (Some c)"
  shows "cart_wf c"
proof -
  from assms obtain d n where r: "romdata \<noteq> None" "romlen \<noteq> 0" "PadToPowerOf2_owned romdata romlen = Some (d, n)"
    by (auto simp: ParseROM_def split: if_splits option.splits)
  have n: "\<exists>k < 32. n = 2 ^ k" by (rule Pad_length [OF r(3,1,2)])
  have "cart_wf (make_cart rom n cid bad params sram userdata)" for rom cid bad params
    using n by (simp add: make_cart_def Let_def CartRetail_wf CartCommon_wf CartRetailNAND_def BuildSRAMID_wf CartRetailBT_def
        CartRetailIR_def IR_wf)
  then show ?thesis using assms r by (auto simp: ParseROM_def Let_def)
qed

text \<open>A small image with the code of no game in an empty database.\<close>

theorem ParseROM_wf_witness:
  "ParseROM [\<lparr>GameCode = 5, ROMSize = 0, SaveMemType = 1\<rparr>] (Some (replicate 0x200 7)) 0x200 None SaveManager \<noteq> Some None \<and>
   cart_wf (the (the (ParseROM [\<lparr>GameCode = 5, ROMSize = 0, SaveMemType = 1\<rparr>] (Some (replicate 0x200 7)) 0x200 None SaveManager)))"
proof -
  let ?p = "ParseROM [\<lparr>GameCode = 5, ROMSize = 0, SaveMemType = 1\<rparr>] (Some (replicate 0x200 7)) 0x200 None SaveManager"
  have "PadToPowerOf2_owned (Some (replicate 0x200 7)) 0x200 = Some (Some (replicate 0x200 7), 0x200)"
    by (simp add: PadToPowerOf2_owned_def)
  then obtain c where "?p = Some (Some c)" by (simp add: ParseROM_def Let_def)
  with ParseROM_wf [OF this] show ?thesis by simp
qed

end
