(* ===== verification/AREngine.thy ===== *)
theory AREngine
  imports Arm
begin

text \<open>
  The cheat engine (\<^verbatim>\<open>src/src/AREngine.cpp\<close>): an interpreter of Action Replay codes, which are lists of
  pairs of words, on the bus of the ARM7. The instruction pointer is an index into the code.

  A run ends in one of three ways: it finishes, it reads behind the end of the code, which the code
  does not check inside an instruction, or it hangs in the loop that skips the parameters of a copy.
\<close>

section \<open>State\<close>

text \<open>The accesses of the ARM7 to its bus, in a console of any type.\<close>

record 's cheat_bus =
  ARM7Read8 :: "u32 \<Rightarrow> 's \<Rightarrow> u8 \<times> 's"
  ARM7Read16 :: "u32 \<Rightarrow> 's \<Rightarrow> u16 \<times> 's"
  ARM7Read32 :: "u32 \<Rightarrow> 's \<Rightarrow> u32 \<times> 's"
  ARM7Write8 :: "u32 \<Rightarrow> u8 \<Rightarrow> 's \<Rightarrow> 's"
  ARM7Write16 :: "u32 \<Rightarrow> u16 \<Rightarrow> 's \<Rightarrow> 's"
  ARM7Write32 :: "u32 \<Rightarrow> u32 \<Rightarrow> 's \<Rightarrow> 's"

record ar =
  ip :: nat
  offset :: u32
  datareg :: u32
  cond :: u32
  condstack :: u32
  loopstart :: nat
  loopcount :: u32
  loopcond :: u32
  loopcondstack :: u32
  c5count :: u32

definition ar_start :: ar where
  "ar_start = \<lparr>ip = 0, offset = 0, datareg = 0, cond = 1, condstack = 0, loopstart = 0, loopcount = 0, loopcond = 1,
     loopcondstack = 0, c5count = 0\<rparr>"

datatype 's step = Next ar 's | Return 's | Overrun | Hang

definition code_word :: "u32 list \<Rightarrow> nat \<Rightarrow> u32 option" where
  "code_word code i = (if i < length code then Some (code ! i) else None)"

section \<open>Copies\<close>

text \<open>The parameters of a copy: blocks of eight bytes, then what is left of the last block, read byte by byte.\<close>

fun copy_blocks :: "'s cheat_bus \<Rightarrow> u32 list \<Rightarrow> nat \<Rightarrow> nat \<Rightarrow> u32 \<Rightarrow> 's \<Rightarrow> (nat \<times> nat \<times> u32 \<times> 's) option" where
  "copy_blocks bus code bytesleft i dstaddr s =
     (if bytesleft \<ge> 8 then
        case (code_word code i, code_word code (i + 1)) of
          (Some w0, Some w1) \<Rightarrow>
            copy_blocks bus code (bytesleft - 8) (i + 2) (dstaddr + 8)
              (ARM7Write32 bus (dstaddr + 4) w1 (ARM7Write32 bus dstaddr w0 s))
        | _ \<Rightarrow> None
      else Some (bytesleft, i, dstaddr, s))"

declare copy_blocks.simps [simp del]

definition code_byte :: "u32 list \<Rightarrow> nat \<Rightarrow> nat \<Rightarrow> u8 option" where
  "code_byte code i k = map_option (\<lambda>w. ucast (shr w (8 * (k mod 4)))) (code_word code (i + k div 4))"

fun copy_bytes :: "'s cheat_bus \<Rightarrow> u32 list \<Rightarrow> nat \<Rightarrow> nat \<Rightarrow> nat \<Rightarrow> u32 \<Rightarrow> 's \<Rightarrow> 's option" where
  "copy_bytes bus code i leftover 0 dstaddr s = Some s"
| "copy_bytes bus code i leftover (Suc n) dstaddr s =
     (case code_byte code i leftover of
        None \<Rightarrow> None
      | Some b \<Rightarrow> copy_bytes bus code i (leftover + 1) n (dstaddr + 1) (ARM7Write8 bus dstaddr b s))"

definition copy_leftover :: "'s cheat_bus \<Rightarrow> u32 list \<Rightarrow> nat \<Rightarrow> nat \<Rightarrow> u32 \<Rightarrow> 's \<Rightarrow> 's option" where
  "copy_leftover bus code i bytesleft dstaddr s =
     (if bytesleft \<ge> 4 then
        case code_word code i of
          None \<Rightarrow> None
        | Some w \<Rightarrow> copy_bytes bus code i 4 (bytesleft - 4) (dstaddr + 4) (ARM7Write32 bus dstaddr w s)
      else copy_bytes bus code i 0 bytesleft dstaddr s)"

definition copy_params :: "'s cheat_bus \<Rightarrow> u32 list \<Rightarrow> u32 \<Rightarrow> u32 \<Rightarrow> ar \<Rightarrow> 's \<Rightarrow> 's step" where
  "copy_params bus code a b r s =
     (case copy_blocks bus code (unat b) (ip r) ((a AND 0x0FFFFFFF) + offset r) s of
        None \<Rightarrow> Overrun
      | Some (bytesleft, i, dstaddr, s) \<Rightarrow>
          if bytesleft > 0 then
            case copy_leftover bus code i bytesleft dstaddr s of
              None \<Rightarrow> Overrun
            | Some s \<Rightarrow> Next (r\<lparr>ip := i + 2\<rparr>) s
          else Next (r\<lparr>ip := i\<rparr>) s)"

fun copy_memory :: "'s cheat_bus \<Rightarrow> nat \<Rightarrow> u32 \<Rightarrow> u32 \<Rightarrow> 's \<Rightarrow> 's" where
  "copy_memory bus bytesleft srcaddr dstaddr s =
     (if bytesleft \<ge> 4 then
        let (w, s) = ARM7Read32 bus srcaddr s
        in copy_memory bus (bytesleft - 4) (srcaddr + 4) (dstaddr + 4) (ARM7Write32 bus dstaddr w s)
      else if bytesleft > 0 then
        let (b, s) = ARM7Read8 bus srcaddr s
        in copy_memory bus (bytesleft - 1) (srcaddr + 1) (dstaddr + 1) (ARM7Write8 bus dstaddr b s)
      else s)"

declare copy_memory.simps [simp del]

text \<open>The loop that skips the parameters of a copy; \<open>i\<close> is a \<^verbatim>\<open>u32\<close>, so it may go on for ever.\<close>

partial_function (option) skip_params :: "u32 \<Rightarrow> u32 \<Rightarrow> nat \<Rightarrow> nat option" where
  "skip_params b i k = (if i < b then skip_params b (i + 8) (k + 2) else Some k)"

section \<open>Instructions\<close>

definition push_cond :: "ar \<Rightarrow> ar" where
  "push_cond r = r\<lparr>condstack := shl (condstack r) 1 OR cond r\<rparr>"

definition cond_addr :: "u32 \<Rightarrow> ar \<Rightarrow> u32" where
  "cond_addr a r = (let addr = a AND 0x0FFFFFFF in if addr = 0 then offset r else addr)"

definition if32 :: "'s cheat_bus \<Rightarrow> (u32 \<Rightarrow> bool) \<Rightarrow> u32 \<Rightarrow> ar \<Rightarrow> 's \<Rightarrow> 's step" where
  "if32 bus test a r s =
     (let (chk, s) = ARM7Read32 bus (cond_addr a r) s in Next ((push_cond r)\<lparr>cond := of_cond (test chk)\<rparr>) s)"

definition if16 :: "'s cheat_bus \<Rightarrow> (u32 \<Rightarrow> u32 \<Rightarrow> bool) \<Rightarrow> u32 \<Rightarrow> u32 \<Rightarrow> ar \<Rightarrow> 's \<Rightarrow> 's step" where
  "if16 bus test a b r s =
     (let (val, s) = ARM7Read16 bus (cond_addr a r) s;
          chk = NOT (ucast (shr b 16)) AND val
      in Next ((push_cond r)\<lparr>cond := of_cond (test (b AND 0xFFFF) (ucast chk))\<rparr>) s)"

definition data_op :: "u32 \<Rightarrow> u32 \<Rightarrow> u32 \<Rightarrow> u32" where
  "data_op a b d =
     (let op = a AND 0xFF; n = unat (b AND 0xFF) in
      if op = 0 then d + b
      else if op = 1 then d OR b
      else if op = 2 then d AND b
      else if op = 3 then d XOR b
      else if op = 4 then (if n > 31 then 0 else shl d n)
      else if op = 5 then (if n > 31 then 0 else shr d n)
      else if op = 6 then ROR d (unat (b AND 0x1F))
      else if op = 7 then (if n > 31 then asr d 31 else asr d n)
      else if op = 8 then d * b
      else d)"

text \<open>\<open>NEXT\<close>: back to the start of the loop, or on with \<open>leave\<close>.\<close>

definition next_turn :: "(ar \<Rightarrow> ar) \<Rightarrow> ar \<Rightarrow> ar" where
  "next_turn leave r =
     (if loopcount r > 0 then r\<lparr>loopcount := loopcount r - 1, ip := loopstart r\<rparr> else leave r)"

text \<open>An instruction in the range \<open>0xC0\<close> to \<open>0xDF\<close>.\<close>

definition ar_control :: "'s cheat_bus \<Rightarrow> u8 \<Rightarrow> u32 \<Rightarrow> u32 \<Rightarrow> ar \<Rightarrow> 's \<Rightarrow> 's step" where
  "ar_control bus op a b r s =
     (if op = 0xC0 then
        Next (r\<lparr>loopstart := ip r, loopcount := b, loopcond := cond r, loopcondstack := condstack r\<rparr>) s
      else if op = 0xC5 then
        let r = r\<lparr>c5count := c5count r + 1\<rparr>
        in if cond r = 0 then Next r s
           else Next ((push_cond r)\<lparr>cond := of_cond ((c5count r AND (b AND 0xFFFF)) = shr b 16)\<rparr>) s
      else if op = 0xC6 then Next r (ARM7Write32 bus b (offset r) s)
      else if op = 0xD0 then Next (r\<lparr>cond := condstack r AND 1, condstack := shr (condstack r) 1\<rparr>) s
      else if op = 0xD1 then Next (next_turn (\<lambda>r. r\<lparr>cond := loopcond r, condstack := loopcondstack r\<rparr>) r) s
      else if op = 0xD2 then Next (next_turn (\<lambda>r. r\<lparr>offset := 0, datareg := 0, condstack := 0, cond := 1\<rparr>) r) s
      else if op = 0xD3 then Next (r\<lparr>offset := b\<rparr>) s
      else if op = 0xD4 then Next (r\<lparr>datareg := data_op a b (datareg r)\<rparr>) s
      else if op = 0xD5 then Next (r\<lparr>datareg := b\<rparr>) s
      else if op = 0xD6 then Next (r\<lparr>offset := offset r + 4\<rparr>) (ARM7Write32 bus (b + offset r) (datareg r) s)
      else if op = 0xD7 then Next (r\<lparr>offset := offset r + 2\<rparr>) (ARM7Write16 bus (b + offset r) (ucast (datareg r)) s)
      else if op = 0xD8 then Next (r\<lparr>offset := offset r + 1\<rparr>) (ARM7Write8 bus (b + offset r) (ucast (datareg r)) s)
      else if op = 0xD9 then let (v, s) = ARM7Read32 bus (b + offset r) s in Next (r\<lparr>datareg := v\<rparr>) s
      else if op = 0xDA then let (v, s) = ARM7Read16 bus (b + offset r) s in Next (r\<lparr>datareg := ucast v\<rparr>) s
      else if op = 0xDB then let (v, s) = ARM7Read8 bus (b + offset r) s in Next (r\<lparr>datareg := ucast v\<rparr>) s
      else if op = 0xDC then Next (r\<lparr>offset := offset r + b\<rparr>) s
      else Return s)"

definition ar_execute :: "'s cheat_bus \<Rightarrow> u32 list \<Rightarrow> u32 \<Rightarrow> u32 \<Rightarrow> ar \<Rightarrow> 's \<Rightarrow> 's step" where
  "ar_execute bus code a b r s =
     (let op = ucast (shr a 24) :: u8; hi = shr op 4; dst = (a AND 0x0FFFFFFF) + offset r in
      if hi = 0x0 then Next r (ARM7Write32 bus dst b s)
      else if hi = 0x1 then Next r (ARM7Write16 bus dst (ucast b) s)
      else if hi = 0x2 then Next r (ARM7Write8 bus dst (ucast b) s)
      else if hi = 0x3 then if32 bus (\<lambda>chk. b > chk) a r s
      else if hi = 0x4 then if32 bus (\<lambda>chk. b < chk) a r s
      else if hi = 0x5 then if32 bus (\<lambda>chk. b = chk) a r s
      else if hi = 0x6 then if32 bus (\<lambda>chk. b \<noteq> chk) a r s
      else if hi = 0x7 then if16 bus (\<lambda>v chk. v > chk) a b r s
      else if hi = 0x8 then if16 bus (\<lambda>v chk. v < chk) a b r s
      else if hi = 0x9 then if16 bus (\<lambda>v chk. v = chk) a b r s
      else if hi = 0xA then if16 bus (\<lambda>v chk. v \<noteq> chk) a b r s
      else if hi = 0xB then let (v, s) = ARM7Read32 bus dst s in Next (r\<lparr>offset := v\<rparr>) s
      else if hi = 0xE then copy_params bus code a b r s
      else if hi = 0xF then Next r (copy_memory bus (unat b) (offset r) (a AND 0x0FFFFFFF) s)
      else ar_control bus op a b r s)"

text \<open>A false condition skips all instructions but \<open>C5\<close> and \<open>D0\<close> to \<open>D2\<close>.\<close>

definition always_runs :: "u8 \<Rightarrow> bool" where
  "always_runs op \<longleftrightarrow> \<not> ((op < 0xD0 \<and> op \<noteq> 0xC5) \<or> op > 0xD2)"

definition ar_step :: "'s cheat_bus \<Rightarrow> u32 list \<Rightarrow> ar \<Rightarrow> 's \<Rightarrow> 's step" where
  "ar_step bus code r s =
     (case (code_word code (ip r), code_word code (ip r + 1)) of
        (Some a, Some b) \<Rightarrow>
          let op = ucast (shr a 24) :: u8; r = r\<lparr>ip := ip r + 2\<rparr> in
          if \<not> always_runs op \<and> cond r = 0 then
            if op AND 0xF0 = 0xE0 then
              case skip_params b 0 (ip r) of None \<Rightarrow> Hang | Some k \<Rightarrow> Next (r\<lparr>ip := k\<rparr>) s
            else Next r s
          else ar_execute bus code a b r s
      | _ \<Rightarrow> Overrun)"

text \<open>The test for the end compares with the address of the last word. For an empty code that address wraps
  around, and the test is false.\<close>

definition past_end :: "u32 list \<Rightarrow> ar \<Rightarrow> bool" where
  "past_end code r \<longleftrightarrow> code \<noteq> [] \<and> ip r > length code - 1"

datatype 's result = Finished 's | ReadPastEnd | Hanging

section \<open>The interpreter terminates\<close>

text \<open>How a step moves in the code: forward, to a new loop, or back to the start of the loop, which takes one from
  the loop counter.\<close>

definition ar_moves :: "u32 list \<Rightarrow> ar \<Rightarrow> ar \<Rightarrow> bool" where
  "ar_moves code r t \<longleftrightarrow> ip r + 1 < length code \<and>
     ((ip r + 2 \<le> ip t \<and> loopstart t = loopstart r \<and> loopcount t = loopcount r) \<or>
      (loopstart t = ip r + 2 \<and> ip t = ip r + 2) \<or>
      (0 < loopcount r \<and> loopcount t = loopcount r - 1 \<and> loopstart t = loopstart r \<and> ip t = loopstart r))"

named_theorems ar_defs

lemmas [ar_defs] = if32_def if16_def push_cond_def next_turn_def Let_def case_prod_beta

lemma copy_blocks_forward:
  "copy_blocks bus code n i d s = Some (n', i', d', s') \<Longrightarrow> i \<le> i'"
proof (induction bus code n i d s rule: copy_blocks.induct)
  case (1 bus code n i d s)
  show ?case
  proof (cases "8 \<le> n")
    case True
    then show ?thesis
      using 1(2) 1(1) by (subst (asm) copy_blocks.simps) (fastforce split: option.splits)
  next
    case False
    then show ?thesis using 1(2) by (subst (asm) copy_blocks.simps) simp
  qed
qed

lemma copy_params_forward:
  "copy_params bus code a b r s = Next t u \<Longrightarrow> ip r \<le> ip t \<and> loopstart t = loopstart r \<and> loopcount t = loopcount r"
  by (auto simp: copy_params_def dest: copy_blocks_forward split: option.splits if_splits prod.splits)

lemma skip_params_forward:
  assumes "skip_params b i k = Some m"
  shows "k \<le> m"
proof (rule skip_params.raw_induct [where P = "\<lambda>b i k m. k \<le> m", OF _ assms])
  fix rec :: "u32 \<Rightarrow> u32 \<Rightarrow> nat \<Rightarrow> nat option" and b i k m
  assume IH: "\<And>b i k m. rec b i k = Some m \<Longrightarrow> k \<le> m"
    and s: "(if i < b then rec b (i + 8) (k + 2) else Some k) = Some m"
  show "k \<le> m" using s IH [of b "i + 8" "k + 2" m] by (simp split: if_splits)
qed

lemma ar_control_moves:
  assumes "ar_control bus op a b r s = Next t u"
  shows "(ip t = ip r \<and> loopstart t = loopstart r \<and> loopcount t = loopcount r) \<or> (loopstart t = ip r \<and> ip t = ip r) \<or>
      (0 < loopcount r \<and> loopcount t = loopcount r - 1 \<and> loopstart t = loopstart r \<and> ip t = loopstart r)"
  using assms by (auto simp: ar_control_def ar_defs split: if_splits)

lemma ar_execute_moves:
  assumes "ar_execute bus code a b r s = Next t u"
  shows "(ip r \<le> ip t \<and> loopstart t = loopstart r \<and> loopcount t = loopcount r) \<or> (loopstart t = ip r \<and> ip t = ip r) \<or>
      (0 < loopcount r \<and> loopcount t = loopcount r - 1 \<and> loopstart t = loopstart r \<and> ip t = loopstart r)"
  using assms ar_control_moves [of bus "ucast (shr a 24)" a b r s t u] copy_params_forward [of bus code a b r s t u]
  by (auto simp: ar_execute_def ar_defs split: if_splits)

lemma ar_step_eq:
  "ar_step bus code r s =
     (if ip r + 1 < length code then
        let a = code ! ip r; b = code ! (ip r + 1); op = ucast (shr a 24) :: u8; r = r\<lparr>ip := ip r + 2\<rparr> in
        if \<not> always_runs op \<and> cond r = 0 then
          if op AND 0xF0 = 0xE0 then case skip_params b 0 (ip r) of None \<Rightarrow> Hang | Some k \<Rightarrow> Next (r\<lparr>ip := k\<rparr>) s
          else Next r s
        else ar_execute bus code a b r s
      else Overrun)"
  by (simp add: ar_step_def code_word_def Let_def)

lemma ar_step_moves:
  assumes "ar_step bus code r s = Next t u"
  shows "ar_moves code r t"
  using assms ar_execute_moves [of bus code "code ! ip r" "code ! (ip r + 1)" "r\<lparr>ip := ip r + 2\<rparr>" s t u]
  by (auto simp: ar_step_eq Let_def ar_moves_def dest: skip_params_forward split: if_splits option.splits)

text \<open>The start of the loop is behind the instruction pointer only in states that no run reaches.\<close>

definition loop_left :: "u32 list \<Rightarrow> ar \<Rightarrow> nat" where
  "loop_left code r = (if loopstart r \<le> ip r then length code - loopstart r else length code + 1)"

function run_code :: "'s cheat_bus \<Rightarrow> u32 list \<Rightarrow> ar \<Rightarrow> 's \<Rightarrow> 's result" where
  "run_code bus code r s =
     (if past_end code r then Finished s
      else case ar_step bus code r s of
        Next r s \<Rightarrow> run_code bus code r s
      | Return s \<Rightarrow> Finished s
      | Overrun \<Rightarrow> ReadPastEnd
      | Hang \<Rightarrow> Hanging)"
  by pat_completeness auto
termination
proof (relation "measures [\<lambda>(bus, code, r, s). loop_left code r, \<lambda>(bus, code, r, s). unat (loopcount r),
    \<lambda>(bus, code, r, s). length code - ip r]")
  fix bus :: "'s cheat_bus" and code r s t u
  assume "ar_step bus code r s = Next t u"
  then have "ar_moves code r t" by (rule ar_step_moves)
  then show "((bus, code, t, u), bus, code, r, s) \<in> measures [\<lambda>(bus, code, r, s). loop_left code r,
      \<lambda>(bus, code, r, s). unat (loopcount r), \<lambda>(bus, code, r, s). length code - ip r]"
    by (auto simp: ar_moves_def loop_left_def unat_lt_iff unat_pred)
qed simp

declare run_code.simps [simp del]

definition RunCheat :: "'s cheat_bus \<Rightarrow> u32 list \<Rightarrow> 's \<Rightarrow> 's result" where
  "RunCheat bus code s = run_code bus code ar_start s"

section \<open>Well formed codes\<close>

definition param_words :: "u32 \<Rightarrow> nat" where
  "param_words b = 2 * ((unat b + 7) div 8)"

text \<open>Pairs of words, the copies with all of their parameters.\<close>

fun wf_code :: "u32 list \<Rightarrow> bool" where
  "wf_code [] = True"
| "wf_code [a] = False"
| "wf_code (a # b # rest) =
     (if shr a 28 = 0xE then b \<le> 0xFFFFFFF8 \<and> param_words b \<le> length rest \<and> wf_code (drop (param_words b) rest)
      else wf_code rest)"

lemma skip_params_step: "skip_params b i k = (if i < b then skip_params b (i + 8) (k + 2) else Some k)"
  by (rule skip_params.simps)

lemma u32_index: "x < 0x100000000 \<Longrightarrow> unat (word_of_nat x :: u32) = x"
  by (simp add: unat_of_nat)

lemma skip_params_from:
  assumes "unat b \<le> 0xFFFFFFF8" "8 * j \<le> unat b + 7"
  shows "skip_params b (word_of_nat (8 * j)) k = Some (k + 2 * ((unat b + 7) div 8 - j))"
  using assms
proof (induction "(unat b + 7) div 8 - j" arbitrary: j k)
  case 0
  then have "unat b \<le> 8 * j" "8 * j < 0x100000000" by linarith+
  then have "\<not> word_of_nat (8 * j) < b" unfolding unat_lt_iff using u32_index [of "8 * j"] by linarith
  then show ?case using 0 by (subst skip_params_step) simp
next
  case (Suc m)
  then have l: "8 * j < unat b" "8 * j + 8 < 0x100000001" by linarith+
  then have "word_of_nat (8 * j) < b" unfolding unat_lt_iff using u32_index [of "8 * j"] by linarith
  then have "skip_params b (word_of_nat (8 * j)) k = skip_params b (word_of_nat (8 * j) + 8) (k + 2)"
    by (subst skip_params_step) simp
  also have "word_of_nat (8 * j) + 8 = (word_of_nat (8 * Suc j) :: u32)" by simp
  also have "skip_params b (word_of_nat (8 * Suc j)) (k + 2) = Some (k + 2 + 2 * ((unat b + 7) div 8 - Suc j))"
    by (rule Suc.hyps(1)) (use Suc.hyps(2) Suc.prems l in simp_all)
  also have "k + 2 + 2 * ((unat b + 7) div 8 - Suc j) = k + 2 * ((unat b + 7) div 8 - j)" using Suc.hyps(2) by simp
  finally show ?case .
qed

lemma skip_params_returns: "b \<le> 0xFFFFFFF8 \<Longrightarrow> skip_params b 0 k = Some (k + param_words b)"
  using skip_params_from [of b 0 k] by (simp add: param_words_def unat_le_iff)

lemma copy_blocks_reads:
  "i + 2 * (n div 8) \<le> length code \<Longrightarrow> \<exists>d' s'. copy_blocks bus code n i d s = Some (n mod 8, i + 2 * (n div 8), d', s')"
proof (induction n arbitrary: i d s rule: less_induct)
  case (less n)
  show ?case
  proof (cases "8 \<le> n")
    case True
    then have n: "n div 8 = Suc ((n - 8) div 8)" "n mod 8 = (n - 8) mod 8" by (simp_all add: le_div_geq le_mod_geq)
    then show ?thesis
      using True less.prems less.IH [of "n - 8" "i + 2"] by (subst copy_blocks.simps) (simp add: code_word_def)
  next
    case False
    then show ?thesis by (subst copy_blocks.simps) simp
  qed
qed

lemma copy_bytes_reads:
  "i + 2 \<le> length code \<Longrightarrow> k + n \<le> 8 \<Longrightarrow> \<exists>s'. copy_bytes bus code i k n d s = Some s'"
proof (induction n arbitrary: k d s)
  case (Suc n)
  have "k div 4 < 2" using Suc.prems by linarith
  then show ?case using Suc by (simp add: code_byte_def code_word_def)
qed simp

lemma copy_params_reads:
  assumes "ip r + param_words b \<le> length code"
  shows "\<exists>u. copy_params bus code a b r s = Next (r\<lparr>ip := ip r + param_words b\<rparr>) u"
proof -
  let ?q = "unat b div 8" and ?m = "unat b mod 8"
  have w: "param_words b = 2 * ?q + (if ?m > 0 then 2 else 0)"
    unfolding param_words_def by presburger
  have "ip r + 2 * ?q \<le> length code" using assms w by simp
  then obtain d u where c: "copy_blocks bus code (unat b) (ip r) ((a AND 0x0FFFFFFF) + offset r) s = Some (?m, ip r + 2 * ?q, d, u)"
    using copy_blocks_reads by meson
  show ?thesis
  proof (cases "?m = 0")
    case True
    then show ?thesis using c w by (simp add: copy_params_def)
  next
    case False
    then have i: "ip r + 2 * ?q + 2 \<le> length code" using assms w by simp
    have "?m < 8" by simp
    then have "4 + (?m - 4) \<le> 8 \<or> \<not> 4 \<le> ?m" "0 + ?m \<le> 8" by linarith+
    then have "\<exists>v. copy_leftover bus code (ip r + 2 * ?q) ?m d u = Some v"
      using i copy_bytes_reads [OF i, of 4 "?m - 4"] copy_bytes_reads [OF i, of 0 "?m"]
      by (auto simp: copy_leftover_def code_word_def)
    then show ?thesis using c w False by (auto simp: copy_params_def add.assoc)
  qed
qed

text \<open>A run in a well formed code stays at the beginnings of instructions.\<close>

definition at_instr :: "u32 list \<Rightarrow> ar \<Rightarrow> bool" where
  "at_instr code r \<longleftrightarrow> wf_code (drop (ip r) code) \<and> wf_code (drop (loopstart r) code)"

lemma wf_code_instr:
  assumes "wf_code (drop k code)" "k < length code"
  shows "k + 1 < length code" "shr (code ! k) 28 \<noteq> 0xE \<Longrightarrow> wf_code (drop (k + 2) code)"
    "shr (code ! k) 28 = 0xE \<Longrightarrow> code ! (k + 1) \<le> 0xFFFFFFF8 \<and> k + 2 + param_words (code ! (k + 1)) \<le> length code \<and>
      wf_code (drop (k + 2 + param_words (code ! (k + 1))) code)"
proof -
  show l: "k + 1 < length code"
  proof (rule ccontr)
    assume "\<not> k + 1 < length code"
    then have "drop k code = [code ! k]" using assms(2) by (simp add: Cons_nth_drop_Suc [symmetric])
    then show False using assms(1) by simp
  qed
  then have d: "drop k code = code ! k # code ! (k + 1) # drop (k + 2) code" by (simp add: Cons_nth_drop_Suc)
  show "shr (code ! k) 28 \<noteq> 0xE \<Longrightarrow> wf_code (drop (k + 2) code)" using assms(1) unfolding d by simp
  show "shr (code ! k) 28 = 0xE \<Longrightarrow> code ! (k + 1) \<le> 0xFFFFFFF8 \<and> k + 2 + param_words (code ! (k + 1)) \<le> length code \<and>
      wf_code (drop (k + 2 + param_words (code ! (k + 1))) code)"
    using assms(1) l unfolding d by (auto simp: add.commute)
qed

lemma op_nibbles:
  fixes a :: u32
  shows "shr (ucast (shr a 24) :: u8) 4 = 0xE \<longleftrightarrow> shr a 28 = 0xE" "(ucast (shr a 24) :: u8) AND 0xF0 = 0xE0 \<longleftrightarrow> shr a 28 = 0xE"
proof -
  have u: "unat (ucast (shr a 24) :: u8) = unat a div 2 ^ 24"
    using unat_bound [of a] by (simp add: unsigned_ucast_eq take_bit_nat_eq_self unat_shr)
  have e: "unat (shr (ucast (shr a 24) :: u8) 4) = unat (shr a 28)" by (simp add: unat_shr u div_mult2_eq [symmetric])
  then show "shr (ucast (shr a 24) :: u8) 4 = 0xE \<longleftrightarrow> shr a 28 = 0xE" by (simp add: word_eq_unat)
  have "(x AND 0xF0 = 0xE0) = (shr x 4 = 0xE)" for x :: u8
  proof -
    have "(0xF0 :: u8) = shl (mask 4) 4" by (simp add: mask_eq_exp_minus_1)
    then have "x AND 0xF0 = x AND shl (mask 4) 4" by (simp only:)
    also have "\<dots> = shl (shr x 4) 4" by (rule bit_word_eqI) (auto simp: bit_simps)
    finally have "x AND 0xF0 = shl (shr x 4) 4" .
    moreover have "shr (shl (shr x 4) 4) 4 = shr x 4"
    proof (rule bit_word_eqI)
      fix n
      have "n < 4" if "bit x (4 + n)" using bit_imp_le_length [OF that] by simp
      then show "bit (shr (shl (shr x 4) 4) 4) n = bit (shr x 4) n" by (auto simp: bit_simps)
    qed
    ultimately show ?thesis by auto
  qed
  with e show "(ucast (shr a 24) :: u8) AND 0xF0 = 0xE0 \<longleftrightarrow> shr a 28 = 0xE" by (simp add: word_eq_unat)
qed

lemma ar_control_wf:
  assumes "wf_code (drop (ip r) code)" "wf_code (drop (loopstart r) code)"
  shows "\<exists>t u. (ar_control bus op a b r s = Next t u \<and> at_instr code t) \<or> ar_control bus op a b r s = Return u"
  using assms by (auto simp: ar_control_def ar_defs at_instr_def)

lemma ar_execute_wf:
  assumes "wf_code (drop (loopstart r) code)" "shr a 28 \<noteq> 0xE \<Longrightarrow> wf_code (drop (ip r) code)"
    and "shr a 28 = 0xE \<Longrightarrow> ip r + param_words b \<le> length code \<and> wf_code (drop (ip r + param_words b) code)"
  shows "\<exists>t u. (ar_execute bus code a b r s = Next t u \<and> at_instr code t) \<or> ar_execute bus code a b r s = Return u"
proof (cases "shr a 28 = 0xE")
  case True
  then have "shr (ucast (shr a 24) :: u8) 4 = 0xE" by (simp only: op_nibbles)
  then show ?thesis
    using copy_params_reads [of r b code bus a s] assms(1,3) True by (auto simp: ar_execute_def Let_def at_instr_def)
next
  case False
  then have "shr (ucast (shr a 24) :: u8) 4 \<noteq> 0xE" by (simp only: op_nibbles not_False_eq_True)
  then show ?thesis
    using ar_control_wf [OF assms(2) [OF False] assms(1), of bus "ucast (shr a 24)" a b s] assms(1,2) False
    by (simp add: ar_execute_def ar_defs at_instr_def)
qed

lemma ar_step_wf:
  assumes "at_instr code r" "ip r < length code"
  shows "\<exists>t u. (ar_step bus code r s = Next t u \<and> at_instr code t) \<or> ar_step bus code r s = Return u"
proof -
  let ?a = "code ! ip r" and ?b = "code ! (ip r + 1)" and ?r = "r\<lparr>ip := ip r + 2\<rparr>"
  note w = wf_code_instr [OF _ assms(2)] and at = assms(1) [unfolded at_instr_def]
  have ex: "\<exists>t u. (ar_execute bus code ?a ?b ?r s = Next t u \<and> at_instr code t) \<or> ar_execute bus code ?a ?b ?r s = Return u"
    by (rule ar_execute_wf) (use w at in auto)
  show ?thesis
  proof (cases "\<not> always_runs (ucast (shr ?a 24)) \<and> cond r = 0")
    case True
    show ?thesis
    proof (cases "shr ?a 28 = 0xE")
      case E: True
      then have "skip_params ?b 0 (ip r + 2) = Some (ip r + 2 + param_words ?b)" using w(3) at by (intro skip_params_returns) simp
      then show ?thesis using True E w(1,3) at by (simp add: ar_step_eq Let_def op_nibbles at_instr_def)
    next
      case False
      then show ?thesis using True w(1,2) at by (simp add: ar_step_eq Let_def op_nibbles at_instr_def)
    qed
  next
    case False
    have "ar_step bus code r s = ar_execute bus code ?a ?b ?r s" using False w(1) at by (auto simp: ar_step_eq Let_def)
    then show ?thesis using ex by simp
  qed
qed

lemma run_code_finishes:
  "at_instr code r \<Longrightarrow> code \<noteq> [] \<Longrightarrow> \<exists>u. run_code bus code r s = Finished u"
proof (induction bus code r s rule: run_code.induct)
  case (1 bus code r s)
  show ?case
  proof (cases "past_end code r")
    case True
    then show ?thesis by (subst run_code.simps) simp
  next
    case False
    then have "ip r < length code" using 1(3) by (cases code) (simp_all add: past_end_def)
    from ar_step_wf [OF 1(2) this, of bus s] consider (n) t u where "ar_step bus code r s = Next t u" "at_instr code t"
      | (r) u where "ar_step bus code r s = Return u" by blast
    then show ?thesis
    proof cases
      case n
      then show ?thesis using 1(1) [OF False n] 1(3) False by (subst run_code.simps) simp
    next
      case r
      then show ?thesis using False by (subst run_code.simps) simp
    qed
  qed
qed

text \<open>C34: a cheat that consists of pairs of words, with the parameters of its copies, runs to its end, whatever its
  loops and conditions: it neither reads behind its end nor hangs, on every bus and from every state.\<close>

theorem RunCheat_finishes:
  assumes "wf_code code" "code \<noteq> []"
  shows "\<exists>t. RunCheat bus code s = Finished t"
  unfolding RunCheat_def by (rule run_code_finishes) (use assms in \<open>simp_all add: at_instr_def ar_start_def\<close>)

text \<open>A byte memory behind the bus.\<close>

definition byte_bus :: "(u32 \<Rightarrow> u8) cheat_bus" where
  "byte_bus = \<lparr>ARM7Read8 = (\<lambda>a m. (m a, m)),
     ARM7Read16 = (\<lambda>a m. (ucast (m a) OR shl (ucast (m (a + 1))) 8, m)),
     ARM7Read32 = (\<lambda>a m. (ucast (m a) OR shl (ucast (m (a + 1))) 8 OR shl (ucast (m (a + 2))) 16 OR shl (ucast (m (a + 3))) 24, m)),
     ARM7Write8 = (\<lambda>a v m. m(a := v)),
     ARM7Write16 = (\<lambda>a v m. m(a := ucast v, a + 1 := ucast (shr v 8))),
     ARM7Write32 = (\<lambda>a v m. m(a := ucast v, a + 1 := ucast (shr v 8), a + 2 := ucast (shr v 16), a + 3 := ucast (shr v 24)))\<rparr>"

text \<open>A loop of three turns around a copy of five bytes, and a condition.\<close>

definition sample_code :: "u32 list" where
  "sample_code = [0xC0000000, 2, 0xE2000000, 5, 0x04030201, 5, 0xDC000000, 8, 0xD1000000, 0, 0x52000000, 0, 0x22000100, 1, 0xD0000000, 0]"

theorem RunCheat_finishes_witness: "\<exists>t. RunCheat byte_bus sample_code (\<lambda>_. 0) = Finished t"
  by (rule RunCheat_finishes) (simp_all add: sample_code_def param_words_def)

section \<open>Codes that do not finish\<close>

lemma skip_params_hangs:
  assumes "0xFFFFFFF8 < b"
  shows "skip_params b 0 k = None"
proof (rule ccontr)
  assume "skip_params b 0 k \<noteq> None"
  then obtain m where m: "skip_params b 0 k = Some m" by auto
  have "(\<exists>j. (0 :: u32) = 8 * j) \<longrightarrow> \<not> 0xFFFFFFF8 < b"
  proof (rule skip_params.raw_induct [where P = "\<lambda>b i k m. (\<exists>j. i = 8 * j) \<longrightarrow> \<not> 0xFFFFFFF8 < b", OF _ m])
    fix rec :: "u32 \<Rightarrow> u32 \<Rightarrow> nat \<Rightarrow> nat option" and b i :: u32 and k m
    assume IH: "\<And>b i k m. rec b i k = Some m \<Longrightarrow> (\<exists>j. i = 8 * j) \<longrightarrow> \<not> 0xFFFFFFF8 < b"
      and s: "(if i < b then rec b (i + 8) (k + 2) else Some k) = Some m"
    show "(\<exists>j. i = 8 * j) \<longrightarrow> \<not> 0xFFFFFFF8 < b"
    proof
      assume "\<exists>j. i = 8 * j"
      then obtain j where j: "i = 8 * j" ..
      show "\<not> 0xFFFFFFF8 < b"
      proof (cases "i < b")
        case True
        have "\<exists>j'. i + 8 = 8 * j'" by (rule exI [of _ "j + 1"]) (simp add: j algebra_simps)
        then show ?thesis using True s IH [of b "i + 8" "k + 2" m] by simp
      next
        case False
        have "8 dvd (2 :: nat) ^ 32" by simp
        have "unat i = (8 * unat j) mod 2 ^ 32" by (simp add: j unat_word_ariths)
        then have "8 dvd unat i" by (simp add: dvd_mod)
        moreover have "unat i < 0x100000000" using unat_bound [of i] by simp
        ultimately have "unat i \<le> 0xFFFFFFF8" by (elim dvdE) presburger
        then show ?thesis using False by (simp add: unat_lt_iff)
      qed
    qed
  qed
  then show False using assms by (metis mult_zero_right)
qed

text \<open>C35: two codes that the loader of cheat files lets through make the interpreter fail. An enabled cheat without any
  data is read behind its end, because the address of its last word wraps around; and the parameters of a
  copy of more than \<open>0xFFFFFFF8\<close> bytes that a false condition skips are counted for ever.\<close>

theorem RunCheat_fails:
  "RunCheat bus [] s = ReadPastEnd \<and>
   (0xFFFFFFF8 < b \<longrightarrow> RunCheat bus [0x32000000, 0, 0xE2000000, b] s = Hanging)"
proof -
  have e: "RunCheat bus [] s = ReadPastEnd"
    by (simp add: RunCheat_def run_code.simps past_end_def ar_step_def code_word_def)
  have "run_code bus [0x32000000, 0, 0xE2000000, b] r s = Hanging" if "0xFFFFFFF8 < b" "cond r = 0" "ip r = 2" for r s
    using skip_params_hangs [OF that(1), of 4] that(2,3)
    by (simp add: run_code.simps past_end_def ar_step_def code_word_def always_runs_def)
  moreover have ip: "ip ar_start = 0" by (simp add: ar_start_def)
  moreover have "ar_step bus [0x32000000, 0, 0xE2000000, b] ar_start s =
      Next ((push_cond (ar_start\<lparr>ip := Suc (Suc 0)\<rparr>))\<lparr>cond := 0\<rparr>) (snd (ARM7Read32 bus 0x02000000 s))"
    by (simp add: ar_step_def code_word_def ar_execute_def if32_def ar_start_def cond_addr_def case_prod_beta Let_def)
  ultimately have "RunCheat bus [0x32000000, 0, 0xE2000000, b] s = Hanging" if "0xFFFFFFF8 < b"
    using that ip unfolding RunCheat_def by (subst run_code.simps) (simp add: past_end_def push_cond_def)
  with e show ?thesis by blast
qed

theorem RunCheat_fails_witness: "RunCheat byte_bus [0x32000000, 0, 0xE2000000, 0xFFFFFFFF] (\<lambda>_. 0) = Hanging"
  using RunCheat_fails [of byte_bus "\<lambda>_. 0" "0xFFFFFFFF"] by simp

end
