(* ===== verification/ARCodeFile.thy ===== *)
theory ARCodeFile
  imports AREngine
begin

text \<open>
  The list of cheats of a game (\<^verbatim>\<open>src/src/ARCodeFile.h\<close>, \<^verbatim>\<open>ARCodeFile.cpp\<close>): the codes and categories, the import
  from a database, and the cheat file, line by line. A line is what \<^verbatim>\<open>sscanf\<close> makes of it. The pointer to
  the parent of an item is not modelled: it is the category that holds the item.
\<close>

section \<open>Cheats\<close>

record ARCode =
  Name :: string
  Description :: string
  Enabled :: bool
  Code :: "u32 list"

text \<open>A category holds codes only; \<^verbatim>\<open>std::get<ARCode>\<close> relies on it.\<close>

record ARCodeCat =
  CatName :: string
  CatDescription :: string
  OnlyOneCodeEnabled :: bool
  Children :: "ARCode list"

datatype ARCodeItem = Single ARCode | Category ARCodeCat

definition GetCodes :: "bool \<Rightarrow> ARCodeItem list \<Rightarrow> ARCode list" where
  "GetCodes error items =
     (if error then [] else concat (map (\<lambda>item. case item of Single c \<Rightarrow> [c] | Category cat \<Rightarrow> Children cat) items))"

fun RunCheats :: "'s cheat_bus \<Rightarrow> ARCode list \<Rightarrow> 's \<Rightarrow> 's result" where
  "RunCheats bus [] s = Finished s"
| "RunCheats bus (c # cheats) s =
     (if Enabled c then case RunCheat bus (Code c) s of Finished s \<Rightarrow> RunCheats bus cheats s | r \<Rightarrow> r
      else RunCheats bus cheats s)"

text \<open>A category that allows one code keeps the first enabled one.\<close>

fun only_one :: "bool \<Rightarrow> ARCode list \<Rightarrow> ARCode list" where
  "only_one foundone [] = []"
| "only_one foundone (c # cs) =
     (if \<not> Enabled c then c # only_one foundone cs
      else if foundone then c\<lparr>Enabled := False\<rparr> # only_one foundone cs
      else c # only_one True cs)"

definition FinalizeItem :: "ARCodeItem \<Rightarrow> ARCodeItem" where
  "FinalizeItem item =
     (case item of
        Single c \<Rightarrow> item
      | Category cat \<Rightarrow>
          if OnlyOneCodeEnabled cat then Category (cat\<lparr>Children := only_one False (Children cat)\<rparr>) else item)"

definition FinalizeList :: "ARCodeItem list \<Rightarrow> ARCodeItem list" where
  "FinalizeList = map FinalizeItem"

text \<open>The map of the codes to import is keyed by their addresses: here by their position in the database entry.
  An empty map imports everything.\<close>

type_synonym position = "nat \<times> nat option"

definition import_item :: "(position \<Rightarrow> bool) option \<Rightarrow> nat \<times> ARCodeItem \<Rightarrow> ARCodeItem list" where
  "import_item enablemap = (\<lambda>(i, item).
     let enabled = (\<lambda>j. case enablemap of None \<Rightarrow> True | Some f \<Rightarrow> f (i, j)) in
     case item of
       Single c \<Rightarrow> if enabled None then [Single c] else []
     | Category cat \<Rightarrow>
         let wanted = map snd (filter (\<lambda>(j, c). enabled (Some j)) (enumerate 0 (Children cat)))
         in if enablemap = None \<or> wanted \<noteq> [] then [Category (cat\<lparr>Children := wanted\<rparr>)] else [])"

definition Import :: "ARCodeItem list \<Rightarrow> (position \<Rightarrow> bool) option \<Rightarrow> bool \<Rightarrow> ARCodeItem list \<Rightarrow> ARCodeItem list" where
  "Import dbentry enablemap clr items =
     FinalizeList ((if clr then [] else items) @ concat (map (import_item enablemap) (enumerate 0 dbentry)))"

section \<open>The file\<close>

text \<open>A line of the file; \<open>None\<close> is a line that \<^verbatim>\<open>sscanf\<close> does not match.\<close>

datatype line =
    Blank
  | ROOT
  | CAT "(bool \<times> string) option"
  | CODE "(bool \<times> string) option"
  | DESC "string option"
  | Data "(u32 \<times> u32) option"

record loader =
  RootCat :: "ARCodeItem list"
  isincat :: bool
  curroot :: bool
  isincode :: bool
  lastentry :: nat

definition Load_start :: loader where
  "Load_start = \<lparr>RootCat = [], isincat = False, curroot = True, isincode = False, lastentry = 0\<rparr>"

definition update_last :: "('a \<Rightarrow> 'a) \<Rightarrow> 'a list \<Rightarrow> 'a list" where
  "update_last f xs = (if xs = [] then [] else butlast xs @ [f (last xs)])"

text \<open>The current category is the root or the last category, the current code the last one in it.\<close>

definition in_curcat :: "(ARCodeCat \<Rightarrow> ARCodeCat) \<Rightarrow> loader \<Rightarrow> loader" where
  "in_curcat f l =
     l\<lparr>RootCat := update_last (\<lambda>item. case item of Single c \<Rightarrow> Single c | Category cat \<Rightarrow> Category (f cat)) (RootCat l)\<rparr>"

definition in_curcode :: "(ARCode \<Rightarrow> ARCode) \<Rightarrow> loader \<Rightarrow> loader" where
  "in_curcode f l =
     (if curroot l then
        l\<lparr>RootCat := update_last (\<lambda>item. case item of Single c \<Rightarrow> Single (f c) | Category cat \<Rightarrow> Category cat) (RootCat l)\<rparr>
      else in_curcat (\<lambda>cat. cat\<lparr>Children := update_last f (Children cat)\<rparr>) l)"

definition add_code :: "ARCode \<Rightarrow> loader \<Rightarrow> loader" where
  "add_code c l =
     (if curroot l then l\<lparr>RootCat := RootCat l @ [Single c]\<rparr>
      else in_curcat (\<lambda>cat. cat\<lparr>Children := Children cat @ [c]\<rparr>) l)"

fun Load_line :: "line \<Rightarrow> loader \<Rightarrow> loader option" where
  "Load_line Blank l = Some l"
| "Load_line ROOT l = Some (l\<lparr>isincode := False, isincat := True, curroot := True, lastentry := 0\<rparr>)"
| "Load_line (CAT None) l = None"
| "Load_line (CAT (Some (onlyone, catname))) l =
     Some (l\<lparr>isincode := False, isincat := True, curroot := False, lastentry := 1,
       RootCat := RootCat l @
         [Category \<lparr>CatName = catname, CatDescription = '''', OnlyOneCodeEnabled = onlyone, Children = []\<rparr>]\<rparr>)"
| "Load_line (CODE None) l = None"
| "Load_line (CODE (Some (enable, codename))) l =
     (if \<not> isincat l then None
      else Some ((add_code \<lparr>Name = codename, Description = '''', Enabled = enable, Code = []\<rparr> l)
                   \<lparr>isincode := True, lastentry := 2\<rparr>))"
| "Load_line (DESC None) l = Some l"
| "Load_line (DESC (Some desc)) l =
     (if lastentry l = 2 then Some (in_curcode (\<lambda>c. c\<lparr>Description := desc\<rparr>) l)
      else if lastentry l = 1 then Some (in_curcat (\<lambda>cat. cat\<lparr>CatDescription := desc\<rparr>) l)
      else None)"
| "Load_line (Data None) l = None"
| "Load_line (Data (Some (c0, c1))) l =
     (if \<not> isincode l then None else Some (in_curcode (\<lambda>c. c\<lparr>Code := Code c @ [c0, c1]\<rparr>) l))"

fun Load_lines :: "line list \<Rightarrow> loader \<Rightarrow> loader option" where
  "Load_lines [] l = Some l"
| "Load_lines (x # xs) l = (case Load_line x l of None \<Rightarrow> None | Some l \<Rightarrow> Load_lines xs l)"

definition Load :: "line list \<Rightarrow> ARCodeItem list option" where
  "Load xs = map_option (\<lambda>l. FinalizeList (RootCat l)) (Load_lines xs Load_start)"

fun save_data :: "u32 list \<Rightarrow> line list" where
  "save_data (c0 # c1 # cs) = Data (Some (c0, c1)) # save_data cs"
| "save_data _ = []"

definition save_desc :: "string \<Rightarrow> line list" where
  "save_desc d = (if d = '''' then [] else [DESC (Some d)])"

definition save_code :: "ARCode \<Rightarrow> line list" where
  "save_code c = CODE (Some (Enabled c, Name c)) # save_desc (Description c) @ save_data (Code c) @ [Blank]"

definition save_cat :: "ARCodeCat \<Rightarrow> line list" where
  "save_cat cat =
     CAT (Some (OnlyOneCodeEnabled cat, CatName cat)) # save_desc (CatDescription cat) @ [Blank] @
     concat (map save_code (Children cat))"

fun save_items :: "bool \<Rightarrow> ARCodeItem list \<Rightarrow> line list" where
  "save_items incat [] = []"
| "save_items incat (Category cat # items) = save_cat cat @ save_items True items"
| "save_items incat (Single c # items) =
     (if incat then [ROOT, Blank] else []) @ save_code c @ save_items False items"

definition Save :: "ARCodeItem list \<Rightarrow> line list" where
  "Save items = save_items True items"

section \<open>A saved file loads\<close>

lemma Load_lines_append:
  "Load_lines (xs @ ys) l = (case Load_lines xs l of None \<Rightarrow> None | Some l \<Rightarrow> Load_lines ys l)"
  by (induction xs arbitrary: l) (auto split: option.split)

lemma update_last_snoc [simp]: "update_last f (xs @ [x]) = xs @ [f x]"
  by (simp add: update_last_def)

text \<open>The codes of the category the loader is in.\<close>

definition codes_in :: "ARCode list \<Rightarrow> loader \<Rightarrow> loader \<Rightarrow> bool" where
  "codes_in cs l m \<longleftrightarrow> isincat m = isincat l \<and> curroot m = curroot l \<and>
     (if curroot l then RootCat m = RootCat l @ map Single cs
      else \<exists>items cat. RootCat l = items @ [Category cat] \<and> RootCat m = items @ [Category (cat\<lparr>Children := Children cat @ cs\<rparr>)])"

text \<open>In the middle of a code, of which \<open>d\<close> has been read.\<close>

definition in_code :: "ARCode \<Rightarrow> loader \<Rightarrow> loader \<Rightarrow> bool" where
  "in_code d l m \<longleftrightarrow> codes_in [d] l m \<and> isincode m \<and> lastentry m = 2"

lemma in_curcode_in_code:
  "in_code d l m \<Longrightarrow> in_code (f d) l (in_curcode f m)"
  by (auto simp: in_code_def codes_in_def in_curcode_def in_curcat_def split: if_splits)

lemma Load_data:
  "in_code d l m \<Longrightarrow> even (length cs) \<Longrightarrow> \<exists>n. Load_lines (save_data cs) m = Some n \<and> in_code (d\<lparr>Code := Code d @ cs\<rparr>) l n"
proof (induction cs arbitrary: d m rule: save_data.induct)
  case (1 c0 c1 cs)
  let ?m = "in_curcode (\<lambda>c. c\<lparr>Code := Code c @ [c0, c1]\<rparr>) m"
  have "isincode m" using 1(2) by (simp add: in_code_def)
  then have "Load_line (Data (Some (c0, c1))) m = Some ?m" by simp
  moreover have "in_code (d\<lparr>Code := Code d @ [c0, c1]\<rparr>) l ?m" using in_curcode_in_code [OF 1(2)] by fast
  ultimately show ?case using 1(1) [of "d\<lparr>Code := Code d @ [c0, c1]\<rparr>" ?m] 1(3) by simp
qed auto

lemma Load_code:
  assumes "isincat l" "curroot l \<or> (\<exists>items cat. RootCat l = items @ [Category cat])" "even (length (Code c))"
  shows "\<exists>m. Load_lines (save_code c) l = Some m \<and> codes_in [c] l m"
proof -
  let ?c0 = "\<lparr>Name = Name c, Description = '''', Enabled = Enabled c, Code = []\<rparr>"
  let ?m0 = "(add_code ?c0 l)\<lparr>isincode := True, lastentry := 2\<rparr>"
  have 0: "Load_line (CODE (Some (Enabled c, Name c))) l = Some ?m0" using assms(1) by simp
  have m0: "in_code ?c0 l ?m0" using assms(2) by (auto simp: in_code_def codes_in_def add_code_def in_curcat_def)
  let ?c1 = "?c0\<lparr>Description := Description c\<rparr>"
  have "\<exists>m1. Load_lines (save_desc (Description c)) ?m0 = Some m1 \<and> in_code ?c1 l m1"
  proof (cases "Description c = ''''")
    case True
    then show ?thesis using m0 by (simp add: save_desc_def)
  next
    case False
    then show ?thesis using in_curcode_in_code [OF m0, of "\<lambda>x. x\<lparr>Description := Description c\<rparr>"] by (simp add: save_desc_def)
  qed
  then obtain m1 where 1: "Load_lines (save_desc (Description c)) ?m0 = Some m1" "in_code ?c1 l m1" by blast
  obtain m2 where 2: "Load_lines (save_data (Code c)) m1 = Some m2" "in_code (?c1\<lparr>Code := Code ?c1 @ Code c\<rparr>) l m2"
    using Load_data [OF 1(2) assms(3)] by blast
  have c: "?c1\<lparr>Code := Code ?c1 @ Code c\<rparr> = c" by simp
  have "codes_in [c] l m2" using 2(2) unfolding c in_code_def by blast
  then show ?thesis using 0 1(1) 2(1) by (simp add: save_code_def Load_lines_append)
qed

lemma codes_in_trans: "codes_in cs l m \<Longrightarrow> codes_in ds m n \<Longrightarrow> codes_in (cs @ ds) l n"
  by (auto simp: codes_in_def split: if_splits)

lemma Load_codes:
  assumes "isincat l" "curroot l \<or> (\<exists>items cat. RootCat l = items @ [Category cat])" "\<forall>c \<in> set cs. even (length (Code c))"
  shows "\<exists>m. Load_lines (concat (map save_code cs)) l = Some m \<and> codes_in cs l m"
  using assms
proof (induction cs arbitrary: l)
  case Nil
  have "codes_in [] l l" using Nil(2) by (auto simp: codes_in_def)
  then show ?case by simp
next
  case (Cons c cs)
  obtain m where m: "Load_lines (save_code c) l = Some m" "codes_in [c] l m" using Load_code [of l c] Cons.prems by auto
  then have "isincat m" "curroot m \<or> (\<exists>items cat. RootCat m = items @ [Category cat])"
    using Cons.prems(1,2) by (auto simp: codes_in_def split: if_splits)
  then obtain n where "Load_lines (concat (map save_code cs)) m = Some n" "codes_in cs m n" using Cons.IH Cons.prems(3) by auto
  then show ?case using m codes_in_trans [OF m(2)] by (simp add: Load_lines_append)
qed

fun codes_of :: "ARCodeItem \<Rightarrow> ARCode list" where
  "codes_of (Single c) = [c]"
| "codes_of (Category cat) = Children cat"

lemma Load_category:
  assumes "\<forall>c \<in> set (Children cat). even (length (Code c))"
  shows "\<exists>m. Load_lines (save_cat cat) l = Some m \<and> RootCat m = RootCat l @ [Category cat] \<and> isincat m"
proof -
  let ?cat = "\<lparr>CatName = CatName cat, CatDescription = '''', OnlyOneCodeEnabled = OnlyOneCodeEnabled cat, Children = []\<rparr>"
  let ?l0 = "l\<lparr>isincode := False, isincat := True, curroot := False, lastentry := 1, RootCat := RootCat l @ [Category ?cat]\<rparr>"
  let ?l1 = "?l0\<lparr>RootCat := RootCat l @ [Category (?cat\<lparr>CatDescription := CatDescription cat\<rparr>)]\<rparr>"
  have "Load_lines (save_desc (CatDescription cat) @ [Blank]) ?l0 = Some ?l1"
    by (simp add: save_desc_def in_curcat_def)
  moreover obtain m where m: "Load_lines (concat (map save_code (Children cat))) ?l1 = Some m" "codes_in (Children cat) ?l1 m"
    using Load_codes [of ?l1 "Children cat"] assms by auto
  ultimately have "Load_lines (save_cat cat) l = Some m"
    by (simp add: save_cat_def Load_lines_append split: option.splits)
  moreover have "RootCat m = RootCat l @ [Category cat]" "isincat m" using m(2) by (auto simp: codes_in_def)
  ultimately show ?thesis by blast
qed

lemma Load_items:
  assumes "\<forall>item \<in> set items. \<forall>c \<in> set (codes_of item). even (length (Code c))" "incat \<or> (isincat l \<and> curroot l)"
  shows "\<exists>m. Load_lines (save_items incat items) l = Some m \<and> RootCat m = RootCat l @ items"
  using assms
proof (induction incat items arbitrary: l rule: save_items.induct)
  case (2 incat cat items)
  obtain m where m: "Load_lines (save_cat cat) l = Some m" "RootCat m = RootCat l @ [Category cat]"
    using Load_category [of cat l] 2(2) by auto
  then obtain n where "Load_lines (save_items True items) m = Some n" "RootCat n = RootCat m @ items"
    using 2(1) [of m] 2(2) by auto
  then show ?case using m by (simp add: Load_lines_append)
next
  case (3 incat c items)
  define k where "k = (if incat then l\<lparr>isincode := False, isincat := True, curroot := True, lastentry := 0\<rparr> else l)"
  have k: "Load_lines (if incat then [ROOT, Blank] else []) l = Some k" "isincat k" "curroot k" "RootCat k = RootCat l"
    using 3(3) by (auto simp: k_def)
  obtain m where m: "Load_lines (save_code c) k = Some m" "codes_in [c] k m" using Load_code [of k c] k 3(2) by auto
  then have m': "RootCat m = RootCat l @ [Single c]" "isincat m" "curroot m" using k by (auto simp: codes_in_def)
  obtain n where "Load_lines (save_items False items) m = Some n" "RootCat n = RootCat m @ items"
    using 3(1) [of m] 3(2) m' by auto
  then show ?case using k(1) m(1) m'(1) by (simp add: Load_lines_append del: if_split_asm split del: if_split)
qed simp


definition sample_cheats :: "ARCodeItem list" where
  "sample_cheats = [Category \<lparr>CatName = ''A'', CatDescription = ''x'', OnlyOneCodeEnabled = True,
       Children = [\<lparr>Name = ''b'', Description = '''', Enabled = True, Code = [1, 2]\<rparr>,
                   \<lparr>Name = ''c'', Description = ''y'', Enabled = True, Code = []\<rparr>]\<rparr>,
     Single \<lparr>Name = ''d'', Description = '''', Enabled = False, Code = [0xD2000000, 0]\<rparr>]"


end
