(* ===== verification/Crc16.thy ===== *)
theory Crc16
  imports Buffers
begin

text \<open>
  The CRC-16 of the firmware (\<^verbatim>\<open>CRC16\<close> of \<^verbatim>\<open>src/src/SPI.cpp\<close>), computed with eight constants that are
  shifted to the position where they are needed, and the bit serial division by the polynomial.
\<close>

definition blarg :: "u32 list" where
  "blarg = [0xC0C1, 0xC181, 0xC301, 0xC601, 0xCC01, 0xD801, 0xF001, 0xA001]"

definition crc16_step :: "nat \<Rightarrow> u32 \<Rightarrow> u32" where
  "crc16_step j start = (if tst start 0x1 then shr start 1 XOR shl (blarg ! j) (7 - j) else shr start 1)"

fun crc16_bytes :: "u32 \<Rightarrow> u8 list \<Rightarrow> u32" where
  "crc16_bytes start [] = start"
| "crc16_bytes start (b # bs) = crc16_bytes (fold crc16_step [0..<8] (start XOR ucast b)) bs"

definition CRC16 :: "mem \<Rightarrow> nat \<Rightarrow> nat \<Rightarrow> u32 \<Rightarrow> u16" where
  "CRC16 data off len start = ucast (crc16_bytes start (map data [off..<off + len]) AND 0xFFFF)"

section \<open>The reference\<close>

definition crc16_bit :: "u16 \<Rightarrow> u16" where
  "crc16_bit x = (if tst x 1 then shr x 1 XOR 0xA001 else shr x 1)"

definition crc16_ref :: "u16 \<Rightarrow> u8 list \<Rightarrow> u16" where
  "crc16_ref = foldl (\<lambda>c b. (crc16_bit ^^ 8) (c XOR ucast b))"

text \<open>Functions that respect exclusive or agree when they agree on single bits.\<close>

lemma linear_eq:
  fixes f g :: "u16 \<Rightarrow> 'a::len word"
  assumes f: "\<And>x y. f (x XOR y) = f x XOR f y" and g: "\<And>x y. g (x XOR y) = g x XOR g y"
    and b: "\<And>n. n < 16 \<Longrightarrow> f (2 ^ n) = g (2 ^ n)"
  shows "f x = g x"
proof -
  have z: "f 0 = 0" "g 0 = 0" using f [of 0 0] g [of 0 0] by simp_all
  have t: "take_bit (Suc n) x = take_bit n x XOR (if bit x n then 2 ^ n else 0)" for n
    by (rule bit_word_eqI) (auto simp: bit_simps less_Suc_eq)
  have "n \<le> 16 \<Longrightarrow> f (take_bit n x) = g (take_bit n x)" for n
  proof (induction n)
    case (Suc n)
    then have "f (if bit x n then 2 ^ n else 0) = g (if bit x n then 2 ^ n else 0)" using b z by simp
    with Suc show ?case unfolding t f g by simp
  qed (simp add: z)
  from this [of 16] show ?thesis by (simp add: take_bit_word_eq_self)
qed

lemma tst1: "tst x 1 \<longleftrightarrow> bit x 0" for x :: "'a::len word"
  by (simp add: and_one_eq bit_0 even_iff_mod_2_eq_zero)

lemma crc16_step_xor: "crc16_step j (x XOR y) = crc16_step j x XOR crc16_step j y"
proof -
  have "tst (x XOR y) 0x1 \<longleftrightarrow> (tst x 0x1 \<noteq> tst y 0x1)" by (simp add: tst1 bit_xor_iff)
  then show ?thesis by (simp add: crc16_step_def drop_bit_xor ac_simps)
qed

lemma fold_step_xor: "fold crc16_step js (x XOR y) = fold crc16_step js x XOR fold crc16_step js y"
  by (induction js arbitrary: x y) (simp_all add: crc16_step_xor)

lemma crc16_bit_xor: "crc16_bit (x XOR y) = crc16_bit x XOR crc16_bit y"
proof -
  have "tst (x XOR y) 1 \<longleftrightarrow> (tst x 1 \<noteq> tst y 1)" by (simp add: tst1 bit_xor_iff)
  then show ?thesis by (simp add: crc16_bit_def drop_bit_xor ac_simps)
qed

lemma crc16_bits_xor: "(crc16_bit ^^ n) (x XOR y) = (crc16_bit ^^ n) x XOR (crc16_bit ^^ n) y"
  by (induction n arbitrary: x y) (simp_all add: crc16_bit_xor)

lemma eight: "(f ^^ 8) x = f (f (f (f (f (f (f (f x)))))))" "[0..<8] = [0, 1, 2, 3, 4, 5, 6, 7 :: nat]"
  by (simp add: numeral_eq_Suc, simp add: upt_rec)

lemma crc16_basis:
  assumes "n < 16"
  shows "fold crc16_step [0..<8] (ucast (2 ^ n :: u16)) = ucast ((crc16_bit ^^ 8) (2 ^ n))"
proof -
  have "n \<in> {0, 1, 2, 3, 4, 5, 6, 7, 8, 9, 10, 11, 12, 13, 14, 15}" using assms unfolding insert_iff empty_iff by presburger
  then have "(2 :: u16) ^ n \<in> {1, 2, 4, 8, 0x10, 0x20, 0x40, 0x80, 0x100, 0x200, 0x400, 0x800, 0x1000, 0x2000, 0x4000, 0x8000}"
    by (elim insertE emptyE) simp_all
  then show ?thesis unfolding eight
    by (elim insertE emptyE; simp only:) (simp_all add: crc16_step_def blarg_def crc16_bit_def)
qed

lemma crc16_byte: "fold crc16_step [0..<8] (ucast x) = ucast ((crc16_bit ^^ 8) x)" for x :: u16
proof (rule linear_eq [of "\<lambda>x. fold crc16_step [0..<8] (ucast x)"])
  show "fold crc16_step [0..<8] (ucast (x XOR y)) = fold crc16_step [0..<8] (ucast x) XOR fold crc16_step [0..<8] (ucast y)" for x y :: u16
    by (simp only: unsigned_xor_eq fold_step_xor)
  show "ucast ((crc16_bit ^^ 8) (x XOR y)) = (ucast ((crc16_bit ^^ 8) x) :: u32) XOR ucast ((crc16_bit ^^ 8) y)" for x y
    by (simp only: unsigned_xor_eq crc16_bits_xor)
qed (rule crc16_basis)

lemma crc16_bytes_ref: "crc16_bytes (ucast c) bs = ucast (crc16_ref c bs)" for c :: u16
proof (induction bs arbitrary: c)
  case (Cons b bs)
  have "ucast c XOR ucast b = (ucast (c XOR ucast b) :: u32)" by (simp add: unsigned_xor_eq) (rule bit_word_eqI, auto simp: bit_simps dest: bit_imp_le_length)
  then have "crc16_bytes (ucast c) (b # bs) = crc16_bytes (ucast ((crc16_bit ^^ 8) (c XOR ucast b))) bs"
    by (simp only: crc16_bytes.simps crc16_byte)
  then show ?case using Cons by (simp add: crc16_ref_def)
qed (simp add: crc16_ref_def)

text \<open>The checksum of the firmware is the CRC-16 with the reflected polynomial \<open>0xA001\<close>, the remainder of the bit
  serial division, for every start value of 16 bits.\<close>

theorem CRC16_bit_serial: "CRC16 data off len (ucast c) = crc16_ref c (map data [off..<off + len])"
proof -
  have "ucast (ucast y AND (0xFFFF :: u32)) = y" for y :: u16
  proof -
    have "0xFFFF = (mask 16 :: u32)" by (simp add: mask_eq_exp_minus_1)
    have "ucast (ucast y AND mask 16 :: u32) = y" by (rule bit_word_eqI) (auto simp: bit_simps)
    then show ?thesis unfolding \<open>0xFFFF = mask 16\<close> .
  qed
  then show ?thesis by (simp only: CRC16_def crc16_bytes_ref)
qed

end
