(* ===== verification/Firmware.thy ===== *)
theory Firmware
  imports Crc16
begin

text \<open>
  The firmware image (\<^verbatim>\<open>src/src/SPI_Firmware.h\<close>, \<^verbatim>\<open>SPI_Firmware.cpp\<close>): its layout, the image that the emulator
  generates, the images loaded from a file or from memory, and its checksums. The structures that the code lays over
  the image are offsets here.
\<close>

section \<open>Layout\<close>

record firmware =
  FirmwareBuffer :: mem
  FirmwareBufferLength :: u32
  FirmwareMask :: u32

definition hdr_Identifier :: "mem \<Rightarrow> u8 list" where "hdr_Identifier m = map m [0x08..<0x0C]"
definition hdr_ConsoleType :: "mem \<Rightarrow> u8" where "hdr_ConsoleType m = m 0x1D"
definition hdr_UserSettingsOffset :: "mem \<Rightarrow> u16" where "hdr_UserSettingsOffset m = get16 m 0x20"
definition hdr_WifiConfigLength :: "mem \<Rightarrow> u16" where "hdr_WifiConfigLength m = get16 m 0x2C"

definition GENERATED_FIRMWARE_IDENTIFIER :: "u8 list" where
  "GENERATED_FIRMWARE_IDENTIFIER = [0x4D, 0x45, 0x4C, 0x4E]"

definition DEFAULT_FIRMWARE_LENGTH :: u32 where "DEFAULT_FIRMWARE_LENGTH = 0x20000"

definition GetUserDataOffset :: "mem \<Rightarrow> u32" where
  "GetUserDataOffset m = shl (ucast (hdr_UserSettingsOffset m)) 3"

definition GetWifiAccessPointOffset :: "mem \<Rightarrow> u32" where
  "GetWifiAccessPointOffset m = GetUserDataOffset m - 0x400"

definition GetExtendedAccessPointOffset :: "mem \<Rightarrow> u32" where
  "GetExtendedAccessPointOffset m = GetUserDataOffset m - 0xA00"

section \<open>Checksums\<close>

definition AccessPoint_UpdateChecksum :: "nat \<Rightarrow> mem \<Rightarrow> mem" where
  "AccessPoint_UpdateChecksum b m = put16 (b + 0xFE) (CRC16 m b 0xFE 0x0000) m"

definition ExtendedAccessPoint_UpdateChecksum :: "nat \<Rightarrow> mem \<Rightarrow> mem" where
  "ExtendedAccessPoint_UpdateChecksum b m =
     (let m = AccessPoint_UpdateChecksum b m in put16 (b + 0x1FE) (CRC16 m (b + 0x100) 0xFE 0x0000) m)"

definition Header_UpdateChecksum :: "mem \<Rightarrow> mem" where
  "Header_UpdateChecksum m = put16 0x2A (CRC16 m 0x2C (unat (hdr_WifiConfigLength m)) 0x0000) m"

definition UserData_UpdateChecksum :: "nat \<Rightarrow> mem \<Rightarrow> mem" where
  "UserData_UpdateChecksum b m =
     (let m = put16 (b + 0x72) (CRC16 m b 0x70 0xFFFF) m
      in if m (b + 0x74) = 0x01 then put16 (b + 0xFE) (CRC16 m (b + 0x74) 0x8A 0xFFFF) m else m)"

definition ChecksumValid :: "nat \<Rightarrow> mem \<Rightarrow> bool" where
  "ChecksumValid b m \<longleftrightarrow> get16 m (b + 0x72) = CRC16 m b 0x70 0xFFFF \<and>
     (m (b + 0x74) \<noteq> 1 \<or> get16 m (b + 0xFE) = CRC16 m (b + 0x74) 0x8A 0xFFFF)"

definition UpdateChecksums :: "mem \<Rightarrow> mem" where
  "UpdateChecksums m =
     (let u = unat (GetUserDataOffset m); a = unat (GetWifiAccessPointOffset m); e = unat (GetExtendedAccessPointOffset m);
          m = Header_UpdateChecksum m;
          m = fold (\<lambda>k. AccessPoint_UpdateChecksum (a + 0x100 * k)) [0, 1, 2] m;
          m = (if hdr_ConsoleType m = 0x57 then fold (\<lambda>k. ExtendedAccessPoint_UpdateChecksum (e + 0x200 * k)) [0, 1, 2] m else m)
      in fold (\<lambda>k. UserData_UpdateChecksum (u + 0x100 * k)) [0, 1] m)"

text \<open>The user data in effect, as its offset.\<close>

definition GetEffectiveUserData :: "mem \<Rightarrow> nat" where
  "GetEffectiveUserData m =
     (let u0 = unat (GetUserDataOffset m); u1 = u0 + 0x100; ok0 = ChecksumValid u0 m; ok1 = ChecksumValid u1 m
      in if ok0 \<and> ok1 then (if get16 m (u0 + 0x70) \<ge> get16 m (u1 + 0x70) then u0 else u1)
         else if ok0 then u0 else if ok1 then u1 else u0)"

definition VerifyCRC16 :: "mem \<Rightarrow> u32 \<Rightarrow> u32 \<Rightarrow> u32 \<Rightarrow> u32 \<Rightarrow> bool" where
  "VerifyCRC16 m start off len crcoffset \<longleftrightarrow> get16 m (unat crcoffset) = CRC16 m (unat off) (unat len) start"

section \<open>The generated image\<close>

definition BBINIT :: "u8 list" where
  "BBINIT = [
    0x03, 0x17, 0x40, 0x00, 0x1B, 0x6C, 0x48, 0x80, 0x38, 0x00, 0x35, 0x07, 0x00, 0x00, 0x00, 0x00, 0x00, 0x00, 0x00,
    0x00, 0xB0, 0x00, 0x00, 0x00, 0x00, 0x00, 0x00, 0xC7, 0xBB, 0x01, 0x24, 0x7F, 0x5A, 0x01, 0x3F, 0x01, 0x3F, 0x36,
    0x1D, 0x00, 0x78, 0x35, 0x55, 0x12, 0x34, 0x1C, 0x00, 0x01, 0x0E, 0x38, 0x03, 0x70, 0xC5, 0x2A, 0x0A, 0x08, 0x04,
    0x01, 0x00, 0x00, 0x00, 0xFF, 0xFF, 0xFE, 0xFE, 0xFE, 0xFE, 0xFC, 0xFC, 0xFA, 0xFA, 0xFA, 0xFA, 0xFA, 0xF8, 0xF8,
    0xF6, 0x00, 0x12, 0x14, 0x12, 0x41, 0x23, 0x03, 0x04, 0x70, 0x35, 0x0E, 0x2C, 0x2C, 0x00, 0x00, 0x00, 0x00, 0x00,
    0x00, 0x00, 0x00, 0x00, 0x0E, 0x00, 0x00, 0x12, 0x28, 0x1C]"

definition RFINIT :: "u8 list" where
  "RFINIT = [
    0x31, 0x4C, 0x4F, 0x21, 0x00, 0x10, 0xB0, 0x08, 0xFA, 0x15, 0x26, 0xE6, 0xC1, 0x01, 0x0E, 0x50, 0x05, 0x00, 0x6D,
    0x12, 0x00, 0x00, 0x01, 0xFF, 0x0E, 0x00, 0x02, 0x00, 0x00, 0x00, 0x00, 0x06, 0x06, 0x00, 0x00, 0x00, 0x18, 0x00,
    0x02, 0x00, 0x00]"

definition CHANDATA :: "u8 list" where
  "CHANDATA = [
    0x1E, 0x0C, 0x0C, 0x0C, 0x0C, 0x0C, 0x0C, 0x0E, 0x0E, 0x0E, 0x0E, 0x0E, 0x0E, 0x0E, 0x16, 0x26, 0x1C, 0x1C, 0x1C,
    0x1D, 0x1D, 0x1D, 0x1E, 0x1E, 0x1E, 0x1E, 0x1F, 0x1E, 0x1F, 0x18, 0x01, 0x4B, 0x4B, 0x4B, 0x4B, 0x4C, 0x4C, 0x4C,
    0x4C, 0x4C, 0x4C, 0x4C, 0x4D, 0x4D, 0x4D, 0x02, 0x6C, 0x71, 0x76, 0x5B, 0x40, 0x45, 0x4A, 0x2F, 0x34, 0x39, 0x3E,
    0x03, 0x08, 0x14]"

text \<open>Bytes at an offset.\<close>

definition put_list :: "nat \<Rightarrow> u8 list \<Rightarrow> mem \<Rightarrow> mem" where
  "put_list off xs = memcpy off (of_list xs) 0 (length xs)"

definition InitialValues :: "u16 list" where
  "InitialValues = [0x0002, 0x0017, 0x0026, 0x1818, 0x0048, 0x4840, 0x0058, 0x0042,
    0x0146, 0x8064, 0xE6E6, 0x2443, 0x000E, 0x0001, 0x0001, 0x0402]"

definition FirmwareHeader :: "int \<Rightarrow> mem" where
  "FirmwareHeader consoletype =
     (let m = (\<lambda>_. 0);
          m = (if consoletype = 1 then memset 0x22 0 8 (m(0x1D := 0x57, 0x2F := 15, 0x1FD := 1, 0x1FE := 0x20))
               else m(0x1D := 0x20, 0x2F := 6));
          m = put_list 0x08 GENERATED_FIRMWARE_IDENTIFIER m;
          m = (put16 0x2C 0x138 m)(0x2E := 0);
          m = put_list 0x30 [0xFF, 0xFF, 0xFF, 0xFF, 0xFF, 0x00] m;
          m = put_list 0x36 [0x00, 0x09, 0xBF, 0x11, 0x22, 0x33] m;
          m = memset 0x3E 0xFF 2 (put16 0x3C 0x3FFE m);
          m = m(0x40 := 3, 0x41 := 0x94, 0x42 := 0x29, 0x43 := 0x02);
          m = fold (\<lambda>(k, v). put16 (0x44 + 2 * k) v) (enumerate 0 InitialValues) m;
          m = (put_list 0x64 BBINIT m)(0xCD := 0);
          m = (put_list 0xCE RFINIT m)(0xF7 := 0x02);
          m = memset 0x134 0xFF 46 (put_list 0xF8 CHANDATA m)
      in Header_UpdateChecksum m)"

definition UserData_new :: mem where
  "UserData_new =
     (let m = (\<lambda>_. 0);
          m = put16 0 5 m;
          m = m(3 := 1, 4 := 1);
          m = put16 0x64 (0x01 OR 0x30) m;
          m = put_list 0x06 [0x6D, 0, 0x65, 0, 0x6C, 0, 0x6F, 0, 0x6E, 0, 0x44, 0, 0x53, 0] m;
          m = put16 0x1A 7 m
      in put16 0x72 (CRC16 m 0 0x70 0xFFFF) m)"

text \<open>An access point that is not configured, and the one of the emulator with the name \<open>melonAP\<close>.\<close>

definition AccessPoint_new :: mem where
  "AccessPoint_new = AccessPoint_UpdateChecksum 0 ((\<lambda>_. 0)(0xE7 := 0xFF, 0xEF := 0x01))"

definition AccessPoint_default :: "int \<Rightarrow> mem" where
  "AccessPoint_default consoletype =
     (let m = put_list 0x40 [0x6D, 0x65, 0x6C, 0x6F, 0x6E, 0x41, 0x50] (\<lambda>_. 0);
          m = (if consoletype = 1 then put16 0xEA 1400 m else m)
      in AccessPoint_UpdateChecksum 0 (m(0xE7 := 0, 0xEF := 0x01)))"

definition ExtendedAccessPoint_new :: mem where
  "ExtendedAccessPoint_new = ExtendedAccessPoint_UpdateChecksum 0 (memcpy 0 AccessPoint_new 0 0x100 (\<lambda>_. 0))"

definition Firmware_new :: "int \<Rightarrow> firmware" where
  "Firmware_new consoletype =
     (let len = DEFAULT_FIRMWARE_LENGTH; mask = len - 1;
          m = memset 0 0xFF (unat len) (\<lambda>_. 0);
          m = memset 0 0 0x1D m;
          m = memcpy 0 (FirmwareHeader consoletype) 0 0x200 m;
          m = m(0x2FF := 0x80);
          m = put16 0x20 (ucast (shr (0x7FE00 AND mask) 3)) m;
          u = unat (GetUserDataOffset m); a = unat (GetWifiAccessPointOffset m); e = unat (GetExtendedAccessPointOffset m);
          m = fold (\<lambda>k. memcpy (u + 0x100 * k) UserData_new 0 0x100) [0, 1] m;
          m = memcpy a (AccessPoint_default consoletype) 0 0x100 m;
          m = fold (\<lambda>k. memcpy (a + 0x100 * k) AccessPoint_new 0 0x100) [1, 2] m;
          m = (if consoletype = 1 then fold (\<lambda>k. memcpy (e + 0x200 * k) ExtendedAccessPoint_new 0 0x200) [0, 1, 2] m else m)
      in \<lparr>FirmwareBuffer = m, FirmwareBufferLength = len, FirmwareMask = mask\<rparr>)"

section \<open>Loaded images\<close>

definition FixFirmwareLength :: "u32 \<Rightarrow> u32" where
  "FixFirmwareLength originalLength =
     (if originalLength \<noteq> 0x20000 \<and> originalLength \<noteq> 0x40000 \<and> originalLength \<noteq> 0x80000 then
        let n = originalLength;
            n = n OR shr n 1; n = n OR shr n 2; n = n OR shr n 4; n = n OR shr n 8; n = n OR shr n 16;
            n = n + 1
        in if n > 0x80000 then 0x80000 else if n < 0x20000 then 0x20000 else n
      else originalLength)"

text \<open>From a file: \<open>reads\<close> says whether the read succeeds. The first component has the bytes from the start of the
  buffer on, those behind its end as well; \<open>heap\<close> is what was there before.\<close>

definition Firmware_file :: "mem \<Rightarrow> bool \<Rightarrow> u8 list \<Rightarrow> firmware option" where
  "Firmware_file heap reads file =
     (let len = (word_of_nat (length file) :: u64)
      in if len > 0 \<and> reads then
           let n = FixFirmwareLength (ucast len)
           in Some \<lparr>FirmwareBuffer = memcpy 0 (of_list file) 0 (unat len) (memset 0 0 (unat n) heap), FirmwareBufferLength = n,
                    FirmwareMask = n - 1\<rparr>
         else None)"

definition Firmware_data :: "mem \<Rightarrow> mem \<Rightarrow> u32 \<Rightarrow> firmware" where
  "Firmware_data heap data len =
     (let n = FixFirmwareLength len
      in \<lparr>FirmwareBuffer = memcpy 0 data 0 (unat (min len n)) (memset 0 0 (unat n) heap), FirmwareBufferLength = n,
          FirmwareMask = n - 1\<rparr>)"

definition IsBootable :: "firmware \<Rightarrow> bool" where
  "IsBootable f \<longleftrightarrow> FirmwareBufferLength f \<noteq> DEFAULT_FIRMWARE_LENGTH \<and>
     hdr_Identifier (FirmwareBuffer f) \<noteq> GENERATED_FIRMWARE_IDENTIFIER"

end
