(* ===== verification/Spi.thy ===== *)
theory Spi
  imports Firmware Sched
begin

text \<open>
  The SPI bus of the ARM7 (\<^verbatim>\<open>src/src/SPI.h\<close>, \<^verbatim>\<open>SPI.cpp\<close>, \<^verbatim>\<open>DSi_SPI_TSC.cpp\<close>): the host with its two registers, and
  the three devices behind it: the firmware chip, the power manager and the touch screen controller of the DS and
  of the DSi. A virtual method of the touch screen controller is a case distinction on \<open>tsc_DSi\<close>.
\<close>

section \<open>State\<close>

record spi_device =
  Hold :: bool
  DataPos :: u32
  Data :: u8

record firmware_mem = spi_device +
  FirmwareData :: firmware
  CurCmd :: u8
  StatusReg :: u8
  Addr :: u32

record power_man = spi_device +
  Index :: u8
  Registers :: mem
  RegMasks :: mem

record tsc = spi_device +
  ControlByte :: u8
  ConvResult :: u16
  TouchX :: u16
  TouchY :: u16
  tsc_DSi :: bool
  tsc_Index :: u8
  Bank :: u8
  Bank3Regs :: mem
  TSCMode :: u8

record spi_host =
  SPI_Cnt :: u16
  FirmwareMem :: firmware_mem
  PowerMan :: power_man
  TSC :: tsc

type_synonym spi_sys = "spi_host \<times> nds"

text \<open>What the devices call: the microphone, the end of the emulation, the file of the firmware.\<close>

record spi_env =
  Mic_ReadSample :: "nds \<Rightarrow> u16 \<times> nds"
  NDS_Stop :: "nds \<Rightarrow> nds"
  WriteFirmware :: "firmware \<Rightarrow> u32 \<Rightarrow> u32 \<Rightarrow> nds \<Rightarrow> nds"

definition Event_SPITransfer :: nat where "Event_SPITransfer = 7"
definition IRQ_SPI :: nat where "IRQ_SPI = 23"

section \<open>The firmware chip\<close>

text \<open>The calibration of the touch screen in the user data at \<open>b\<close>.\<close>

definition fix_touchscreen :: "nat \<Rightarrow> mem \<Rightarrow> mem" where
  "fix_touchscreen b m =
     (let m = put16 (b + 0x5A) 0 (put16 (b + 0x58) 0 m);
          m = m(b + 0x5C := 0, b + 0x5D := 0);
          m = put16 (b + 0x60) (shl 191 4) (put16 (b + 0x5E) (shl 255 4) m)
      in m(b + 0x62 := 255, b + 0x63 := 191))"

definition FirmwareMem_Reset :: "firmware_mem \<Rightarrow> firmware_mem" where
  "FirmwareMem_Reset d =
     (let f = FirmwareData d; u = unat (GetUserDataOffset (FirmwareBuffer f));
          m = fold (\<lambda>k. fix_touchscreen (u + 0x100 * k)) [0, 1] (FirmwareBuffer f)
      in d\<lparr>FirmwareData := f\<lparr>FirmwareBuffer := UpdateChecksums m\<rparr>, Hold := False, CurCmd := 0, Data := 0, StatusReg := 0x00\<rparr>)"

text \<open>The settings that a direct boot copies to the memory of the ARM9.\<close>

definition FirmwareMem_SetupDirectBoot ::
  "(u32 \<Rightarrow> u16 \<Rightarrow> 'm \<Rightarrow> 'm) \<Rightarrow> (u32 \<Rightarrow> u32 \<Rightarrow> 'm \<Rightarrow> 'm) \<Rightarrow> int \<Rightarrow> firmware_mem \<Rightarrow> 'm \<Rightarrow> 'm" where
  "FirmwareMem_SetupDirectBoot write16 write32 ct d s =
     (let m = FirmwareBuffer (FirmwareData d); u = GetEffectiveUserData m;
          copy = (\<lambda>a. fold (\<lambda>k. write32 (a + word_of_nat (4 * k)) (get32 m (u + 4 * k))) [0..<0x70 div 4])
      in if ct = 1 then
           let s = fold (\<lambda>k. write16 0x02FFFCF4 (get16 m (0x36 + 2 * k))) [0, 1, 2] s;
               s = write16 0x02FFFCFA (get16 m 0x3C) s
           in copy 0x02FFFC80 s
         else
           let s = write32 0x027FF864 0 s;
               s = write32 0x027FF868 (shl (ucast (hdr_UserSettingsOffset m)) 3) s;
               s = write16 0x027FF874 (get16 m 0x26) s;
               s = write16 0x027FF876 (get16 m 0x04) s
           in copy 0x027FFC80 s)"

definition IsLoadedFirmwareBuiltIn :: "firmware_mem \<Rightarrow> bool" where
  "IsLoadedFirmwareBuiltIn d \<longleftrightarrow> hdr_Identifier (FirmwareBuffer (FirmwareData d)) = GENERATED_FIRMWARE_IDENTIFIER"

definition fw_address :: "u8 \<Rightarrow> firmware_mem \<Rightarrow> firmware_mem" where
  "fw_address val d = d\<lparr>Addr := shl (Addr d) 8 OR ucast val, Data := 0\<rparr>"

definition fw_index :: "firmware_mem \<Rightarrow> nat" where
  "fw_index d = unat (Addr d AND FirmwareMask (FirmwareData d))"

definition FirmwareMem_Write :: "u8 \<Rightarrow> firmware_mem \<Rightarrow> firmware_mem" where
  "FirmwareMem_Write val d =
     (if \<not> Hold d then
        let d = d\<lparr>CurCmd := val, Hold := True, Data := 0, DataPos := 1, Addr := 0\<rparr>
        in if val = 0x04 then d\<lparr>StatusReg := StatusReg d AND NOT (shl 1 1), Data := 0\<rparr>
           else if val = 0x06 then d\<lparr>StatusReg := StatusReg d OR shl 1 1, Data := 0\<rparr>
           else d
      else if CurCmd d = 0x03 then
        let d = (if DataPos d < 4 then fw_address val d
                 else d\<lparr>Data := FirmwareBuffer (FirmwareData d) (fw_index d), Addr := Addr d + 1\<rparr>)
        in d\<lparr>DataPos := DataPos d + 1\<rparr>
      else if CurCmd d = 0x05 then d\<lparr>Data := StatusReg d\<rparr>
      else if CurCmd d = 0x0A then
        let d = (if DataPos d < 4 then fw_address val d
                 else d\<lparr>FirmwareData := (FirmwareData d)\<lparr>FirmwareBuffer := (FirmwareBuffer (FirmwareData d))(fw_index d := val)\<rparr>,
                        Data := val, Addr := Addr d + 1\<rparr>)
        in d\<lparr>DataPos := DataPos d + 1\<rparr>
      else if CurCmd d = 0x9F then
        d\<lparr>Data := (if DataPos d = 1 then 0x20 else if DataPos d = 2 then 0x40 else if DataPos d = 3 then 0x12 else 0),
          DataPos := DataPos d + 1\<rparr>
      else d\<lparr>Data := 0xFF\<rparr>)"

definition Device_Release :: "'a spi_device_scheme \<Rightarrow> 'a spi_device_scheme" where
  "Device_Release d = d\<lparr>Hold := False, DataPos := 0\<rparr>"

definition FirmwareMem_Release :: "spi_env \<Rightarrow> firmware_mem \<times> nds \<Rightarrow> firmware_mem \<times> nds" where
  "FirmwareMem_Release env = (\<lambda>(d, n).
     let n = (if CurCmd d = 0x02 \<or> CurCmd d = 0x0A then
                let f = FirmwareData d; off = GetWifiAccessPointOffset (FirmwareBuffer f)
                in WriteFirmware env f off (FirmwareBufferLength f - off) n
              else n)
     in ((Device_Release d)\<lparr>CurCmd := 0\<rparr>, n))"

section \<open>The power manager\<close>

definition PowerMan_Reset :: "power_man \<Rightarrow> power_man" where
  "PowerMan_Reset d =
     d\<lparr>Hold := False, Index := 0, Data := 0, Registers := (memset 0 0 8 (Registers d))(4 := 0x40),
       RegMasks := (memset 0 0 8 (RegMasks d))(0 := 0x7F, 1 := 0x00, 2 := 0x01, 3 := 0x03, 4 := 0x0F)\<rparr>"

definition GetBatteryLevelOkay :: "power_man \<Rightarrow> bool" where
  "GetBatteryLevelOkay d \<longleftrightarrow> Registers d 1 = 0"

definition SetBatteryLevelOkay :: "bool \<Rightarrow> power_man \<Rightarrow> power_man" where
  "SetBatteryLevelOkay okay d = d\<lparr>Registers := (Registers d)(1 := if okay then 0x00 else 0x01)\<rparr>"

definition PowerMan_Write :: "spi_env \<Rightarrow> u8 \<Rightarrow> power_man \<times> nds \<Rightarrow> power_man \<times> nds" where
  "PowerMan_Write env val = (\<lambda>(d, n).
     if \<not> Hold d then (d\<lparr>Index := val, Hold := True, Data := 0, DataPos := 1\<rparr>, n)
     else if DataPos d = 1 then
       let regid = unat (Index d AND 0x07) in
       if tst (Index d) 0x80 then (d\<lparr>Data := Registers d regid\<rparr>, n)
       else
         let mask = RegMasks d regid;
             d = d\<lparr>Registers := (Registers d)(regid := (Registers d regid AND NOT mask) OR (val AND mask))\<rparr>
         in (d, if regid = 0 \<and> tst val 0x40 then NDS_Stop env n else n)
     else (d\<lparr>Data := 0\<rparr>, n))"

section \<open>The touch screen controller\<close>

definition KeyPen :: u32 where "KeyPen = shl 1 (16 + 6)"

definition TSC_Reset_DS :: "tsc \<Rightarrow> tsc" where
  "TSC_Reset_DS d = d\<lparr>Hold := False, ControlByte := 0, Data := 0, ConvResult := 0\<rparr>"

definition TSC_Reset :: "tsc \<Rightarrow> tsc" where
  "TSC_Reset d =
     (let d = TSC_Reset_DS d in
      if tsc_DSi d then
        d\<lparr>DataPos := 0, Bank := 0, tsc_Index := 0, Data := 0,
          Bank3Regs := (memset 0 0 0x80 (Bank3Regs d))(0x02 := 0x18, 0x03 := 0x87, 0x04 := 0x22, 0x05 := 0x04, 0x06 := 0x20,
            0x09 := 0x40, 0x0E := 0xAD, 0x0F := 0xA0, 0x10 := 0x88, 0x11 := 0x81),
          TSCMode := 0x01\<rparr>
      else d)"

definition TSC_SetMode :: "u8 \<Rightarrow> tsc \<Rightarrow> tsc" where
  "TSC_SetMode mode d = d\<lparr>TSCMode := mode\<rparr>"

definition TSC_SetTouchCoords_DS :: "u16 \<Rightarrow> u16 \<Rightarrow> tsc \<times> nds \<Rightarrow> tsc \<times> nds" where
  "TSC_SetTouchCoords_DS x y = (\<lambda>(d, n).
     if y = 0xFFF then (d\<lparr>TouchX := x, TouchY := y\<rparr>, n\<lparr>KeyInput := KeyInput n OR KeyPen\<rparr>)
     else (d\<lparr>TouchX := shl x 4, TouchY := shl y 4\<rparr>, n\<lparr>KeyInput := KeyInput n AND NOT KeyPen\<rparr>))"

definition TSC_SetTouchCoords_DSi :: "u16 \<Rightarrow> u16 \<Rightarrow> tsc \<Rightarrow> tsc" where
  "TSC_SetTouchCoords_DSi x y d =
     (let oldpress = Bank3Regs d 0x0E AND 0x01;
          d = (if y = 0xFFF then
                 d\<lparr>TouchX := 0x7000, TouchY := 0x7000,
                   Bank3Regs := (Bank3Regs d)(0x09 := 0x40, 0x0E := Bank3Regs d 0x0E OR 0x01)\<rparr>
               else
                 d\<lparr>TouchX := shl x 4, TouchY := shl y 4,
                   Bank3Regs := (Bank3Regs d)(0x09 := 0x80, 0x0E := Bank3Regs d 0x0E AND NOT 0x01)\<rparr>)
      in if oldpress XOR (Bank3Regs d 0x0E AND 0x01) \<noteq> 0
         then d\<lparr>TouchX := TouchX d OR 0x8000, TouchY := TouchY d OR 0x8000\<rparr> else d)"

definition DS_mode :: "tsc \<Rightarrow> bool" where
  "DS_mode d \<longleftrightarrow> \<not> tsc_DSi d \<or> TSCMode d = 0x00"

definition TSC_SetTouchCoords :: "u16 \<Rightarrow> u16 \<Rightarrow> tsc \<times> nds \<Rightarrow> tsc \<times> nds" where
  "TSC_SetTouchCoords x y = (\<lambda>(d, n).
     if DS_mode d then TSC_SetTouchCoords_DS x y (d, n) else (TSC_SetTouchCoords_DSi x y d, n))"

text \<open>A conversion: a coordinate or a sample of the microphone, made unsigned.\<close>

definition TSC_convert :: "spi_env \<Rightarrow> u8 \<Rightarrow> tsc \<times> nds \<Rightarrow> tsc \<times> nds" where
  "TSC_convert env control = (\<lambda>(d, n).
     let ch = control AND 0x70;
         (r, n) = (if ch = 0x10 then (TouchY d, n)
                   else if ch = 0x50 then (TouchX d, n)
                   else if ch = 0x60 then let (smp, n) = Mic_ReadSample env n in (shr (smp XOR 0x8000) 4, n)
                   else (0xFFF, n));
         r = (if tst control 0x08 then r AND 0x0FF0 else r)
     in (d\<lparr>ConvResult := r\<rparr>, n))"

definition TSC_Write_DS :: "spi_env \<Rightarrow> u8 \<Rightarrow> tsc \<times> nds \<Rightarrow> tsc \<times> nds" where
  "TSC_Write_DS env val = (\<lambda>(d, n).
     let d = d\<lparr>Data := if DataPos d = 1 then ucast (shr (ConvResult d) 5 AND 0x7F)
                       else if DataPos d = 2 then ucast (shl (ConvResult d) 3 AND 0xFF) else 0\<rparr>
     in if tst val 0x80 then TSC_convert env val (d\<lparr>ControlByte := val, DataPos := 1\<rparr>, n)
        else (d\<lparr>DataPos := DataPos d + 1\<rparr>, n))"

text \<open>The registers of the DSi's controller, by the bank; the pointer to a coordinate is shared by ten registers.\<close>

definition coord_read :: "nat \<Rightarrow> u16 \<Rightarrow> u8" where
  "coord_read ident v = (if odd ident then ucast (shr v 8) else ucast (v AND 0xFF))"

definition TSC_register :: "u8 \<Rightarrow> tsc \<Rightarrow> tsc" where
  "TSC_register val d =
     (let ident = unat (shr (tsc_Index d) 1); reading = tst (tsc_Index d) 0x01 in
      if ident = 0 then (if reading then d\<lparr>Data := Bank d\<rparr> else d\<lparr>Bank := val\<rparr>)
      else if Bank d = 0x03 then
        (if reading then d\<lparr>Data := Bank3Regs d ident\<rparr>
         else if ident = 0x0D \<or> ident = 0x0E
         then d\<lparr>Bank3Regs := (Bank3Regs d)(ident := (Bank3Regs d ident AND 0x03) OR (val AND 0xFC))\<rparr> else d)
      else if Bank d = 0xFC \<and> reading then
        (if ident < 0x0B then d\<lparr>Data := coord_read ident (TouchX d), TouchX := TouchX d AND 0x7FFF\<rparr>
         else if ident < 0x15 then d\<lparr>Data := coord_read ident (TouchY d), TouchY := TouchY d AND 0x7FFF\<rparr>
         else d\<lparr>Data := 0\<rparr>)
      else if Bank d = 0xFF \<and> ident = 0x05 then (if reading then d\<lparr>Data := TSCMode d\<rparr> else d\<lparr>TSCMode := val\<rparr>)
      else d)"

definition enters_DS_mode :: "u8 \<Rightarrow> tsc \<Rightarrow> bool" where
  "enters_DS_mode val d \<longleftrightarrow> DataPos d \<noteq> 0 \<and> Bank d = 0xFF \<and> shr (tsc_Index d) 1 = 0x05 \<and> \<not> tst (tsc_Index d) 0x01 \<and> val = 0"

definition TSC_Write_DSi :: "u8 \<Rightarrow> tsc \<times> nds \<Rightarrow> tsc \<times> nds" where
  "TSC_Write_DSi val = (\<lambda>(d, n).
     if DataPos d = 0 then (d\<lparr>tsc_Index := val, DataPos := DataPos d + 1\<rparr>, n)
     else if enters_DS_mode val d then ((TSC_register val d)\<lparr>DataPos := 0\<rparr>, n\<lparr>KeyInput := KeyInput n OR KeyPen\<rparr>)
     else ((TSC_register val d)\<lparr>tsc_Index := tsc_Index d + 2, DataPos := DataPos d + 1\<rparr>, n))"

definition TSC_Write :: "spi_env \<Rightarrow> u8 \<Rightarrow> tsc \<times> nds \<Rightarrow> tsc \<times> nds" where
  "TSC_Write env val = (\<lambda>(d, n). if DS_mode d then TSC_Write_DS env val (d, n) else TSC_Write_DSi val (d, n))"

definition TSC_Release :: "tsc \<Rightarrow> tsc" where
  "TSC_Release d = (if DS_mode d then Device_Release d else d\<lparr>DataPos := 0\<rparr>)"

section \<open>The host\<close>

text \<open>A device by its number; there is none with the number 3.\<close>

definition device :: "spi_host \<Rightarrow> nat" where
  "device h = unat (shr (SPI_Cnt h) 8 AND 0x3)"

definition SPI_Reset :: "spi_host \<Rightarrow> spi_host" where
  "SPI_Reset h = h\<lparr>SPI_Cnt := 0, PowerMan := PowerMan_Reset (PowerMan h), FirmwareMem := FirmwareMem_Reset (FirmwareMem h),
     TSC := TSC_Reset (TSC h)\<rparr>"

definition Devices_Write :: "spi_env \<Rightarrow> nat \<Rightarrow> u8 \<Rightarrow> spi_sys \<Rightarrow> spi_sys" where
  "Devices_Write env dev val = (\<lambda>(h, n).
     if dev = 0 then let (d, n) = PowerMan_Write env val (PowerMan h, n) in (h\<lparr>PowerMan := d\<rparr>, n)
     else if dev = 1 then (h\<lparr>FirmwareMem := FirmwareMem_Write val (FirmwareMem h)\<rparr>, n)
     else let (d, n) = TSC_Write env val (TSC h, n) in (h\<lparr>TSC := d\<rparr>, n))"

definition Devices_Release :: "spi_env \<Rightarrow> nat \<Rightarrow> spi_sys \<Rightarrow> spi_sys" where
  "Devices_Release env dev = (\<lambda>(h, n).
     if dev = 0 then (h\<lparr>PowerMan := Device_Release (PowerMan h)\<rparr>, n)
     else if dev = 1 then let (d, n) = FirmwareMem_Release env (FirmwareMem h, n) in (h\<lparr>FirmwareMem := d\<rparr>, n)
     else (h\<lparr>TSC := TSC_Release (TSC h)\<rparr>, n))"

definition Devices_Read :: "nat \<Rightarrow> spi_host \<Rightarrow> u8" where
  "Devices_Read dev h = (if dev = 0 then Data (PowerMan h) else if dev = 1 then Data (FirmwareMem h) else Data (TSC h))"

definition SPI_WriteCnt :: "spi_env \<Rightarrow> u16 \<Rightarrow> spi_sys \<Rightarrow> spi_sys" where
  "SPI_WriteCnt env val = (\<lambda>(h, n).
     let (h, n) = (if tst (SPI_Cnt h) (shl 1 15) \<and> \<not> tst val (shl 1 15) \<and> device h < 3
                   then Devices_Release env (device h) (h, n) else (h, n))
     in (h\<lparr>SPI_Cnt := (SPI_Cnt h AND 0x0080) OR (val AND 0xCF03)\<rparr>, n))"

definition SPI_TransferDone :: "u32 \<Rightarrow> spi_sys \<Rightarrow> spi_sys" where
  "SPI_TransferDone param = (\<lambda>(h, n).
     let h = h\<lparr>SPI_Cnt := SPI_Cnt h AND NOT (shl 1 7)\<rparr>
     in (h, if tst (SPI_Cnt h) (shl 1 14) then SetIRQ 1 IRQ_SPI n else n))"

definition SPI_ReadData :: "spi_host \<Rightarrow> u8" where
  "SPI_ReadData h =
     (if \<not> tst (SPI_Cnt h) (shl 1 15) then 0
      else if tst (SPI_Cnt h) (shl 1 7) then 0
      else if device h < 3 then Devices_Read (device h) h else 0)"

definition SPI_WriteData :: "spi_env \<Rightarrow> u8 \<Rightarrow> spi_sys \<Rightarrow> spi_sys" where
  "SPI_WriteData env val = (\<lambda>(h, n).
     if \<not> tst (SPI_Cnt h) (shl 1 15) \<or> tst (SPI_Cnt h) (shl 1 7) then (h, n)
     else
       let h = h\<lparr>SPI_Cnt := SPI_Cnt h OR shl 1 7\<rparr>; dev = device h;
           (h, n) = (if dev < 3 then
                       let s = Devices_Write env dev val (h, n)
                       in if \<not> tst (SPI_Cnt h) (shl 1 11) then Devices_Release env dev s else s
                     else (h, n));
           delay = 8 * shl 8 (unat (SPI_Cnt h AND 0x3))
       in (h, ScheduleEvent Event_SPITransfer False delay 0 0 n))"

text \<open>The ports of the ARM7, and the touch screen of the console.\<close>

definition spi_read :: "u32 \<Rightarrow> u32 \<Rightarrow> spi_host \<Rightarrow> u32 option" where
  "spi_read width addr h =
     (if addr = 0x040001C2 \<and> width < 32 then Some (ucast (SPI_ReadData h))
      else if addr = 0x040001C0 \<and> width = 16 then Some (ucast (SPI_Cnt h))
      else if addr = 0x040001C0 \<and> width = 32 then Some (ucast (SPI_Cnt h) OR shl (ucast (SPI_ReadData h)) 16)
      else None)"

definition spi_write :: "spi_env \<Rightarrow> u32 \<Rightarrow> u32 \<Rightarrow> u32 \<Rightarrow> spi_sys \<Rightarrow> spi_sys option" where
  "spi_write env width addr val s =
     (if addr = 0x040001C2 \<and> width < 32 then Some (SPI_WriteData env (ucast val) s)
      else if addr = 0x040001C0 \<and> width = 16 then Some (SPI_WriteCnt env (ucast val) s)
      else if addr = 0x040001C0 \<and> width = 32 then
        Some (SPI_WriteData env (ucast (shr val 16)) (SPI_WriteCnt env (ucast val) s))
      else None)"

definition TouchScreen :: "u16 \<Rightarrow> u16 \<Rightarrow> spi_sys \<Rightarrow> spi_sys" where
  "TouchScreen x y = (\<lambda>(h, n). let (d, n) = TSC_SetTouchCoords x y (TSC h, n) in (h\<lparr>TSC := d\<rparr>, n))"

definition ReleaseScreen :: "spi_sys \<Rightarrow> spi_sys" where
  "ReleaseScreen = TouchScreen 0x000 0xFFF"

end
