(* ===== verification/FirmwareSpec.thy ===== *)
theory FirmwareSpec
  imports Firmware PowerOf2
begin

text \<open>
  The checksums of the firmware are right after they have been updated, and the lengths of loaded images.
\<close>

section \<open>Lists of checksums\<close>

text \<open>A checksum: the bytes it is computed from, its start value, and where it is.\<close>

type_synonym checksum = "nat \<times> nat \<times> u32 \<times> nat"

definition put_checksum :: "checksum \<Rightarrow> mem \<Rightarrow> mem" where
  "put_checksum = (\<lambda>(off, len, start, pos) m. put16 pos (CRC16 m off len start) m)"

definition checksum_ok :: "mem \<Rightarrow> checksum \<Rightarrow> bool" where
  "checksum_ok m = (\<lambda>(off, len, start, pos). get16 m pos = CRC16 m off len start)"

text \<open>Writing \<open>d\<close> leaves the bytes and the place of \<open>c\<close> alone.\<close>

definition apart :: "checksum \<Rightarrow> checksum \<Rightarrow> bool" where
  "apart = (\<lambda>(off, len, start, pos) (off', len', start', pos').
     (pos' + 1 < off \<or> off + len \<le> pos') \<and> (pos' + 1 < pos \<or> pos + 1 < pos'))"

definition own_place :: "checksum \<Rightarrow> bool" where
  "own_place = (\<lambda>(off, len, start, pos). pos + 1 < off \<or> off + len \<le> pos)"

lemma CRC16_cong: "(\<And>i. off \<le> i \<Longrightarrow> i < off + len \<Longrightarrow> m i = m' i) \<Longrightarrow> CRC16 m off len start = CRC16 m' off len start"
proof -
  assume "\<And>i. off \<le> i \<Longrightarrow> i < off + len \<Longrightarrow> m i = m' i"
  then have "map m [off..<off + len] = map m' [off..<off + len]" by auto
  then show ?thesis by (simp only: CRC16_def)
qed

lemma put16_other: "i \<noteq> p \<Longrightarrow> i \<noteq> Suc p \<Longrightarrow> put16 p v m i = m i"
  by (simp add: put16_def)

lemma get16_put16: "get16 (put16 p v m) p = v"
  unfolding get16_def put16_def by (rule bit_word_eqI) (auto simp: bit_simps)

lemma put_checksum_ok: "own_place c \<Longrightarrow> checksum_ok (put_checksum c m) c"
proof -
  assume o: "own_place c"
  obtain off len start pos where c: "c = (off, len, start, pos)" by (cases c)
  have "CRC16 (put16 pos (CRC16 m off len start) m) off len start = CRC16 m off len start"
    by (rule CRC16_cong, rule put16_other) (use o in \<open>auto simp: own_place_def c\<close>)
  then show ?thesis by (simp add: checksum_ok_def put_checksum_def c get16_put16)
qed

lemma put_checksum_apart: "apart c d \<Longrightarrow> checksum_ok (put_checksum d m) c = checksum_ok m c"
proof -
  assume a: "apart c d"
  obtain off len start pos where c: "c = (off, len, start, pos)" by (cases c)
  obtain off' len' start' pos' where d: "d = (off', len', start', pos')" by (cases d)
  have "CRC16 (put_checksum d m) off len start = CRC16 m off len start"
    unfolding d put_checksum_def prod.case by (rule CRC16_cong, rule put16_other) (use a in \<open>auto simp: apart_def c d\<close>)
  moreover have "get16 (put_checksum d m) pos = get16 m pos"
    using a by (auto simp: put_checksum_def d c apart_def get16_def put16_other)
  ultimately show ?thesis by (simp add: checksum_ok_def c)
qed

lemma checksums_ok:
  "\<forall>c \<in> set cs. own_place c \<Longrightarrow> sorted_wrt apart cs \<Longrightarrow> \<forall>c \<in> set cs. checksum_ok (fold put_checksum cs m) c"
proof (induction cs arbitrary: m)
  case (Cons c cs)
  have "checksum_ok (fold put_checksum ds n) c" if "\<forall>d \<in> set ds. apart c d" "checksum_ok n c" for ds n
    using that by (induction ds arbitrary: n) (simp_all add: put_checksum_apart)
  with Cons show ?case by (auto simp: put_checksum_ok)
qed simp

section \<open>The checksums of an image\<close>

definition user_checksums :: "mem \<Rightarrow> nat \<Rightarrow> checksum list" where
  "user_checksums m b = (b, 0x70, 0xFFFF, b + 0x72) # (if m (b + 0x74) = 1 then [(b + 0x74, 0x8A, 0xFFFF, b + 0xFE)] else [])"

definition image_checksums :: "mem \<Rightarrow> nat \<Rightarrow> checksum list" where
  "image_checksums m u =
     (0x2C, unat (hdr_WifiConfigLength m), 0, 0x2A) #
     (u - 0x400, 0xFE, 0, u - 0x400 + 0xFE) # (u - 0x300, 0xFE, 0, u - 0x300 + 0xFE) # (u - 0x200, 0xFE, 0, u - 0x200 + 0xFE) #
     (if hdr_ConsoleType m = 0x57 then
        [(u - 0xA00, 0xFE, 0, u - 0xA00 + 0xFE), (u - 0xA00 + 0x100, 0xFE, 0, u - 0xA00 + 0x1FE),
         (u - 0x800, 0xFE, 0, u - 0x800 + 0xFE), (u - 0x800 + 0x100, 0xFE, 0, u - 0x800 + 0x1FE),
         (u - 0x600, 0xFE, 0, u - 0x600 + 0xFE), (u - 0x600 + 0x100, 0xFE, 0, u - 0x600 + 0x1FE)] else []) @
     user_checksums m u @ user_checksums m (u + 0x100)"

text \<open>The checksums that an update writes, in order.\<close>

lemma AccessPoint_checksum: "AccessPoint_UpdateChecksum b m = put_checksum (b, 0xFE, 0, b + 0xFE) m"
  by (simp add: AccessPoint_UpdateChecksum_def put_checksum_def)

lemma ExtendedAccessPoint_checksum:
  "ExtendedAccessPoint_UpdateChecksum b m = put_checksum (b + 0x100, 0xFE, 0, b + 0x1FE) (put_checksum (b, 0xFE, 0, b + 0xFE) m)"
  by (simp add: ExtendedAccessPoint_UpdateChecksum_def AccessPoint_checksum Let_def) (simp add: put_checksum_def)

lemma Header_checksum: "Header_UpdateChecksum m = put_checksum (0x2C, unat (hdr_WifiConfigLength m), 0, 0x2A) m"
  by (simp add: Header_UpdateChecksum_def put_checksum_def)

lemma UserData_checksum: "UserData_UpdateChecksum b m = fold put_checksum (user_checksums m b) m"
  by (simp add: UserData_UpdateChecksum_def user_checksums_def put_checksum_def Let_def put16_other)

definition places :: "checksum list \<Rightarrow> nat set" where
  "places cs = (\<Union>(off, len, start, pos) \<in> set cs. {pos, pos + 1})"

lemma put_checksums_other: "i \<notin> places cs \<Longrightarrow> fold put_checksum cs m i = m i"
proof (induction cs arbitrary: m)
  case (Cons c cs)
  obtain off len start pos where c: "c = (off, len, start, pos)" by (cases c)
  have "i \<notin> places cs" "i \<noteq> pos" "i \<noteq> Suc pos" using Cons.prems by (auto simp: places_def c)
  then show ?case using Cons.IH by (simp add: c put_checksum_def put16_other)
qed simp

lemma fold_places:
  assumes "0x1D \<notin> places cs" "u + 0x74 \<notin> places cs" "u + 0x174 \<notin> places cs"
  shows "hdr_ConsoleType (fold put_checksum cs m) = hdr_ConsoleType m"
    "user_checksums (fold put_checksum cs m) u = user_checksums m u"
    "user_checksums (fold put_checksum cs m) (u + 0x100) = user_checksums m (u + 0x100)"
proof -
  have a: "u + 0x100 + 0x74 = u + 0x174" by simp
  show "hdr_ConsoleType (fold put_checksum cs m) = hdr_ConsoleType m"
    "user_checksums (fold put_checksum cs m) u = user_checksums m u"
    "user_checksums (fold put_checksum cs m) (u + 0x100) = user_checksums m (u + 0x100)"
    by (simp_all only: hdr_ConsoleType_def user_checksums_def a put_checksums_other [OF assms(1)]
        put_checksums_other [OF assms(2)] put_checksums_other [OF assms(3)])
qed

lemma UpdateChecksums_fold:
  assumes "0x1FE00 \<le> u" "u = unat (GetUserDataOffset m)"
  shows "UpdateChecksums m = fold put_checksum (image_checksums m u) m"
proof -
  have o: "unat (GetWifiAccessPointOffset m) = u - 0x400" "unat (GetExtendedAccessPointOffset m) = u - 0xA00"
    using assms by (simp_all add: GetWifiAccessPointOffset_def GetExtendedAccessPointOffset_def unat_sub_le unat_le_iff)
  define hs :: "checksum list" where "hs = [(0x2C, unat (hdr_WifiConfigLength m), 0, 0x2A), (u - 0x400, 0xFE, 0 :: u32, u - 0x400 + 0xFE),
     (u - 0x300, 0xFE, 0, u - 0x300 + 0xFE), (u - 0x200, 0xFE, 0, u - 0x200 + 0xFE)]"
  define es :: "checksum list" where "es = (if hdr_ConsoleType m = 0x57 then
        [(u - 0xA00, 0xFE, 0 :: u32, u - 0xA00 + 0xFE), (u - 0xA00 + 0x100, 0xFE, 0, u - 0xA00 + 0x1FE),
         (u - 0x800, 0xFE, 0, u - 0x800 + 0xFE), (u - 0x800 + 0x100, 0xFE, 0, u - 0x800 + 0x1FE),
         (u - 0x600, 0xFE, 0, u - 0x600 + 0xFE), (u - 0x600 + 0x100, 0xFE, 0, u - 0x600 + 0x1FE)] else [])"
  have s: "u - 0x400 + 0x100 = u - 0x300" "u - 0x400 + 0x200 = u - 0x200" "u - 0xA00 + 0x200 = u - 0x800" "u - 0xA00 + 0x400 = u - 0x600"
    using assms(1) by simp_all
  define m1 where "m1 = fold put_checksum hs m"
  define m2 where "m2 = fold put_checksum es m1"
  have h: "fold (\<lambda>k. AccessPoint_UpdateChecksum (u - 0x400 + 0x100 * k)) [0, 1, 2] (Header_UpdateChecksum m) = m1"
    by (simp add: m1_def hs_def AccessPoint_checksum Header_checksum s)
  have c1: "hdr_ConsoleType m1 = hdr_ConsoleType m"
    unfolding m1_def by (rule fold_places(1) [of _ u]) (use assms(1) in \<open>auto simp: hs_def places_def\<close>)
  have e: "(if hdr_ConsoleType m1 = 0x57 then fold (\<lambda>k. ExtendedAccessPoint_UpdateChecksum (u - 0xA00 + 0x200 * k)) [0, 1, 2] m1 else m1) = m2"
    by (simp add: m2_def es_def c1 ExtendedAccessPoint_checksum s)
  have p: "0x1D \<notin> places (hs @ es)" "u + 0x74 \<notin> places (hs @ es)" "u + 0x174 \<notin> places (hs @ es)"
    using assms(1) by (auto simp: hs_def es_def places_def)
  have m2: "m2 = fold put_checksum (hs @ es) m" by (simp add: m2_def m1_def)
  note f = fold_places(2,3) [OF p, of m, folded m2]
  have "u + 0x174 \<notin> places (user_checksums m u)" "0x1D \<notin> places (user_checksums m u)" "u + 0x74 \<notin> places (user_checksums m u)"
    using assms(1) by (auto simp: user_checksums_def places_def)
  then have f2: "user_checksums (fold put_checksum (user_checksums m u) m2) (u + 0x100) = user_checksums m (u + 0x100)"
    using f by (simp add: fold_places)
  have "UpdateChecksums m = fold (\<lambda>k. UserData_UpdateChecksum (u + 0x100 * k)) [0, 1] m2"
    by (simp only: UpdateChecksums_def Let_def o assms(2) [symmetric] h e)
  also have "\<dots> = fold put_checksum (user_checksums m (u + 0x100)) (fold put_checksum (user_checksums m u) m2)"
    using f(1) f2 by (simp add: UserData_checksum)
  also have "\<dots> = fold put_checksum (image_checksums m u) m"
    by (simp add: m2 image_checksums_def hs_def es_def)
  finally show ?thesis .
qed

lemma image_checksums_apart:
  assumes "0x1FE00 \<le> u"
  shows "\<forall>c \<in> set (image_checksums m u). own_place c" "sorted_wrt apart (image_checksums m u)"
proof -
  define n where "n = unat (hdr_WifiConfigLength m)"
  have n: "n < 0x10000" using unat_bound [of "hdr_WifiConfigLength m"] by (simp add: n_def)
  obtain v where v: "u = v + 0xA00" "0x1F400 \<le> v" using assms le_Suc_ex [of "0xA00" u] by (auto simp: add.commute)
  have s: "v + 0xA00 - 0x400 = v + 0x600" "v + 0xA00 - 0x300 = v + 0x700" "v + 0xA00 - 0x200 = v + 0x800"
    "v + 0xA00 - 0xA00 = v" "v + 0xA00 - 0x800 = v + 0x200" "v + 0xA00 - 0x600 = v + 0x400" by simp_all
  show "\<forall>c \<in> set (image_checksums m u). own_place c"
    unfolding image_checksums_def user_checksums_def n_def [symmetric] v(1) s using n
    by (auto simp: own_place_def split: if_splits)
  show "sorted_wrt apart (image_checksums m u)"
    unfolding image_checksums_def user_checksums_def n_def [symmetric] v(1) s using n v(2) by (simp add: apart_def)
qed

lemma UpdateChecksums_ok:
  assumes "0x1FE00 \<le> u" "u = unat (GetUserDataOffset m)" "c \<in> set (image_checksums m u)"
  shows "checksum_ok (UpdateChecksums m) c"
  unfolding UpdateChecksums_fold [OF assms(1,2)] using checksums_ok image_checksums_apart [OF assms(1)] assms(3) by blast

section \<open>The lengths of images\<close>

lemma smear_step:
  fixes x n :: u32
  assumes "\<And>i. bit x i \<longleftrightarrow> (\<exists>j < w. bit n (i + j))" "d = w"
  shows "bit (x OR shr x d) i \<longleftrightarrow> (\<exists>j < 2 * w. bit n (i + j))"
proof -
  have "bit (x OR shr x d) i \<longleftrightarrow> (\<exists>j < w. bit n (i + j)) \<or> (\<exists>j < w. bit n (i + (w + j)))"
    using assms by (simp add: bit_or_iff bit_drop_bit_eq add.assoc add.left_commute)
  also have "\<dots> \<longleftrightarrow> (\<exists>j < 2 * w. bit n (i + j))" (is "?l \<longleftrightarrow> ?r")
  proof
    assume ?l
    then show ?r
    proof
      assume "\<exists>j < w. bit n (i + j)"
      then obtain j where "j < w" "bit n (i + j)" by blast
      then show ?r by (intro exI [of _ j]) simp
    next
      assume "\<exists>j < w. bit n (i + (w + j))"
      then obtain j where "j < w" "bit n (i + (w + j))" by blast
      then show ?r by (intro exI [of _ "w + j"]) simp
    qed
  next
    assume ?r
    then obtain j where j: "j < 2 * w" "bit n (i + j)" by blast
    show ?l
    proof (cases "j < w")
      case True
      with j show ?thesis by blast
    next
      case False
      then have "j - w < w" "bit n (i + (w + (j - w)))" using j by simp_all
      then show ?thesis by blast
    qed
  qed
  finally show ?thesis .
qed

definition smear :: "u32 \<Rightarrow> u32" where
  "smear n = (let n = n OR shr n 1; n = n OR shr n 2; n = n OR shr n 4; n = n OR shr n 8 in n OR shr n 16)"

lemma bit_smear: "bit (smear n) i \<longleftrightarrow> (\<exists>j < 32. bit n (i + j))"
proof -
  define a where "a = n OR shr n 1"
  define b where "b = a OR shr a 2"
  define c where "c = b OR shr b 4"
  define d where "d = c OR shr c 8"
  have "\<And>i. bit n i \<longleftrightarrow> (\<exists>j < 1. bit n (i + j))" by simp
  from smear_step [OF this] have "\<And>i. bit a i \<longleftrightarrow> (\<exists>j < 2. bit n (i + j))" by (simp add: a_def)
  from smear_step [OF this] have "\<And>i. bit b i \<longleftrightarrow> (\<exists>j < 4. bit n (i + j))" by (simp add: b_def)
  from smear_step [OF this] have "\<And>i. bit c i \<longleftrightarrow> (\<exists>j < 8. bit n (i + j))" by (simp add: c_def)
  from smear_step [OF this] have "\<And>i. bit d i \<longleftrightarrow> (\<exists>j < 16. bit n (i + j))" by (simp add: d_def)
  from smear_step [OF this] have "bit (d OR shr d 16) i \<longleftrightarrow> (\<exists>j < 32. bit n (i + j))" by simp
  moreover have "smear n = d OR shr d 16" by (simp add: smear_def Let_def a_def b_def c_def d_def)
  ultimately show ?thesis by simp
qed

lemma smear_mask: "\<exists>k \<le> 32. smear n = mask k"
proof -
  define k where "k = (LEAST k. \<forall>j \<ge> k. \<not> bit n j)"
  have h: "\<not> bit n j" if "32 \<le> j" for j using bit_imp_le_length [of n j] that by auto
  then have p: "\<forall>j \<ge> 32. \<not> bit n j" by blast
  have k: "\<forall>j \<ge> k. \<not> bit n j" "k \<le> 32"
    unfolding k_def using LeastI [of "\<lambda>k. \<forall>j \<ge> k. \<not> bit n j", OF p] Least_le [of "\<lambda>k. \<forall>j \<ge> k. \<not> bit n j", OF p] by blast+
  have "bit (smear n) i \<longleftrightarrow> i < k" for i
  proof (cases "i < k")
    case True
    then obtain j where "i \<le> j" "bit n j" using not_less_Least [of i "\<lambda>k. \<forall>j \<ge> k. \<not> bit n j"] by (auto simp: k_def)
    then have "j < 32" using h [of j] by (meson not_le)
    then have "j - i < 32" "bit n (i + (j - i))" using \<open>i \<le> j\<close> \<open>bit n j\<close> by simp_all
    then show ?thesis using True bit_smear by blast
  next
    case False
    then show ?thesis using k(1) by (auto simp: bit_smear)
  qed
  then have "smear n = mask k" using k(2) by (intro bit_word_eqI) (simp add: bit_mask_iff)
  with k(2) show ?thesis by blast
qed

lemma FixFirmwareLength_cases: "FixFirmwareLength n \<in> {0x20000, 0x40000, 0x80000}"
proof -
  obtain k where k: "k \<le> 32" "smear n = mask k" using smear_mask by blast
  then have e: "smear n + 1 = 2 ^ k" by (simp add: mask_eq_exp_minus_1)
  have f: "FixFirmwareLength n = (if n \<noteq> 0x20000 \<and> n \<noteq> 0x40000 \<and> n \<noteq> 0x80000 then
      if smear n + 1 > 0x80000 then 0x80000 else if smear n + 1 < 0x20000 then 0x20000 else smear n + 1 else n)"
    by (simp add: FixFirmwareLength_def smear_def Let_def)
  have "(2 :: u32) ^ k \<in> {0x20000, 0x40000, 0x80000}" if "\<not> 2 ^ k > (0x80000 :: u32)" "\<not> 2 ^ k < (0x20000 :: u32)"
  proof -
    have "k \<noteq> 32" using that(2) by auto
    then have u: "unat ((2 :: u32) ^ k) = 2 ^ k" using k(1) by (simp add: unat_2p)
    have "(2 :: nat) ^ k \<le> 2 ^ 19" "(2 :: nat) ^ 17 \<le> 2 ^ k" using that u by (simp_all add: unat_lt_iff)
    then have "k \<le> 19" "17 \<le> k" by (simp_all only: power_increasing_iff one_less_numeral_iff semiring_norm)
    then have "k \<in> {17, 18, 19}" by auto
    then show ?thesis by auto
  qed
  then show ?thesis unfolding f e by auto
qed

text \<open>An image of a file with more than 512 KB overruns its buffer, whose length is limited to 512 KB: all bytes of
  the file are read into it. An image from memory is cut off at the end of its buffer.\<close>

theorem Firmware_file_overruns:
  assumes "0x80000 \<le> i" "i < length file" "length file < 2 ^ 64"
  shows "\<exists>f. Firmware_file heap True file = Some f \<and> unat (FirmwareBufferLength f) \<le> i \<and> FirmwareBuffer f i = file ! i \<and>
    FirmwareBuffer (Firmware_data heap data len) i = heap i"
proof -
  have b: "unat (FixFirmwareLength n) \<le> 0x80000" for n using FixFirmwareLength_cases [of n] by auto
  have u: "unat (word_of_nat (length file) :: u64) = length file" using assms(3) by (simp add: unat_of_nat)
  then have "(word_of_nat (length file) :: u64) > 0" using assms(2) by (auto simp: unat_lt_iff)
  moreover have "unat (min len (FixFirmwareLength len)) \<le> 0x80000" using b [of len] by (simp add: min_def unat_le_iff)
  ultimately show ?thesis
    using assms b [of len] u le_trans [OF b assms(1)]
    by (simp add: Firmware_file_def Firmware_data_def Let_def memcpy_def memset_def of_list_def)
qed

theorem Firmware_file_overruns_witness:
  "\<exists>f. Firmware_file (\<lambda>_. 7) True (replicate 0x80001 1) = Some f \<and> unat (FirmwareBufferLength f) \<le> 0x80000 \<and> FirmwareBuffer f 0x80000 = 1"
proof -
  have "\<exists>f. Firmware_file (\<lambda>_. 7) True (replicate 0x80001 1) = Some f \<and> unat (FirmwareBufferLength f) \<le> 0x80000 \<and>
      FirmwareBuffer f 0x80000 = replicate 0x80001 1 ! 0x80000 \<and> FirmwareBuffer (Firmware_data (\<lambda>_. 7) (\<lambda>_. 0) 0) 0x80000 = 7"
    by (rule Firmware_file_overruns) (simp_all only: length_replicate, simp_all)
  then show ?thesis by (auto simp del: replicate.simps)
qed

end
