(* ===== verification/SpiSpec.thy ===== *)
theory SpiSpec
  imports Spi FirmwareSpec
begin

text \<open>
  What the devices on the SPI bus promise: the checksums of the firmware after a reset, the firmware chip as a memory,
  and the touch screen as the games read it.
\<close>

section \<open>The firmware after a reset\<close>

lemma fix_touchscreen_other: "i < b + 0x58 \<or> b + 0x64 \<le> i \<Longrightarrow> fix_touchscreen b m i = m i"
  by (auto simp: fix_touchscreen_def Let_def put16_def)

lemma UpdateChecksums_other:
  assumes "0x1FE00 \<le> u" "u = unat (GetUserDataOffset m)" "i = 0x2C \<or> i = 0x2D"
  shows "UpdateChecksums m i = m i"
  unfolding UpdateChecksums_fold [OF assms(1,2)]
  by (rule put_checksums_other) (use assms in \<open>auto simp: places_def image_checksums_def user_checksums_def split: if_splits\<close>)

text \<open>C39: after a reset all checksums of the firmware are right that the emulator verifies, those of the wireless settings,
  of the three access points and of both user data, in an image of each size whose header has the user data at
  the usual place.\<close>

theorem FirmwareMem_Reset_checksums:
  fixes d :: firmware_mem
  defines "msk \<equiv> FirmwareMask (FirmwareData d)" and "m \<equiv> FirmwareBuffer (FirmwareData (FirmwareMem_Reset d))"
  assumes "msk \<in> {0x1FFFF, 0x3FFFF, 0x7FFFF}" "GetUserDataOffset (FirmwareBuffer (FirmwareData d)) = 0x7FE00 AND msk"
  shows "VerifyCRC16 m 0x0000 0x2C (ucast (get16 m 0x2C)) 0x2A \<and>
    VerifyCRC16 m 0x0000 (0x7FA00 AND msk) 0xFE (0x7FAFE AND msk) \<and>
    VerifyCRC16 m 0x0000 (0x7FB00 AND msk) 0xFE (0x7FBFE AND msk) \<and>
    VerifyCRC16 m 0x0000 (0x7FC00 AND msk) 0xFE (0x7FCFE AND msk) \<and>
    VerifyCRC16 m 0xFFFF (0x7FE00 AND msk) 0x70 (0x7FE72 AND msk) \<and>
    VerifyCRC16 m 0xFFFF (0x7FF00 AND msk) 0x70 (0x7FF72 AND msk)"
proof -
  let ?m0 = "FirmwareBuffer (FirmwareData d)"
  define u where "u = unat (GetUserDataOffset ?m0)"
  have u: "0x1FE00 \<le> u" using assms(3) by (auto simp: u_def assms(4))
  define m1 where "m1 = fold (\<lambda>k. fix_touchscreen (u + 0x100 * k)) [0, 1] ?m0"
  have m: "m = UpdateChecksums m1" by (simp add: m_def FirmwareMem_Reset_def Let_def m1_def u_def)
  have "m1 i = ?m0 i" if "i < 0x1FE00" for i using that u by (simp add: m1_def fix_touchscreen_other)
  then have u1: "u = unat (GetUserDataOffset m1)" by (simp add: u_def GetUserDataOffset_def hdr_UserSettingsOffset_def get16_def)
  note ok = UpdateChecksums_ok [OF u u1, folded m, unfolded image_checksums_def user_checksums_def checksum_ok_def]
  have w: "get16 m 0x2C = get16 m1 0x2C" unfolding m get16_def using UpdateChecksums_other [OF u u1] by simp
  have 1: "VerifyCRC16 m 0 0x2C (ucast (get16 m 0x2C)) 0x2A"
  proof -
    have "unat (ucast x :: u32) = unat x" for x :: u16
      using unat_bound [of x] by (simp add: unsigned_ucast_eq take_bit_nat_eq_self)
    then show ?thesis
      using ok [of "(0x2C, unat (hdr_WifiConfigLength m1), 0, 0x2A)"] by (simp add: VerifyCRC16_def w hdr_WifiConfigLength_def)
  qed
  have 2: "get16 m (u - 0x400 + 0xFE) = CRC16 m (u - 0x400) 0xFE 0" "get16 m (u - 0x300 + 0xFE) = CRC16 m (u - 0x300) 0xFE 0"
    "get16 m (u - 0x200 + 0xFE) = CRC16 m (u - 0x200) 0xFE 0"
    using ok [of "(u - 0x400, 0xFE, 0, u - 0x400 + 0xFE)"] ok [of "(u - 0x300, 0xFE, 0, u - 0x300 + 0xFE)"]
      ok [of "(u - 0x200, 0xFE, 0, u - 0x200 + 0xFE)"] by simp_all
  have 3: "get16 m (u + 0x72) = CRC16 m u 0x70 0xFFFF" "get16 m (u + 0x100 + 0x72) = CRC16 m (u + 0x100) 0x70 0xFFFF"
    using ok [of "(u, 0x70, 0xFFFF, u + 0x72)"] ok [of "(u + 0x100, 0x70, 0xFFFF, u + 0x100 + 0x72)"] by simp_all
  from assms(3) show ?thesis
  proof (elim insertE emptyE)
    assume k: "msk = 0x1FFFF"
    then have "u = 0x1FE00" by (simp add: u_def assms(4))
    then show ?thesis using 1 2 3 by (simp add: k VerifyCRC16_def)
  next
    assume k: "msk = 0x3FFFF"
    then have "u = 0x3FE00" by (simp add: u_def assms(4))
    then show ?thesis using 1 2 3 by (simp add: k VerifyCRC16_def)
  next
    assume k: "msk = 0x7FFFF"
    then have "u = 0x7FE00" by (simp add: u_def assms(4))
    then show ?thesis using 1 2 3 by (simp add: k VerifyCRC16_def)
  qed
qed

text \<open>An image of 128 KB that is empty but for the offset of the user data.\<close>

definition blank_firmware :: firmware_mem where
  "blank_firmware = \<lparr>Hold = True, DataPos = 3, Data = 1,
     FirmwareData = \<lparr>FirmwareBuffer = put16 0x20 0x3FC0 (\<lambda>_. 0), FirmwareBufferLength = 0x20000, FirmwareMask = 0x1FFFF\<rparr>,
     CurCmd = 0, StatusReg = 2, Addr = 0\<rparr>"

theorem FirmwareMem_Reset_checksums_witness:
  "VerifyCRC16 (FirmwareBuffer (FirmwareData (FirmwareMem_Reset blank_firmware))) 0xFFFF 0x1FE00 0x70 0x1FE72"
  using FirmwareMem_Reset_checksums [of blank_firmware]
  by (simp add: blank_firmware_def GetUserDataOffset_def hdr_UserSettingsOffset_def get16_put16)

section \<open>The touch screen\<close>

text \<open>The ARM7 exchanges a byte with the selected device, and samples a channel of the touch screen: the control byte,
  and the twelve bits of the result in the next two bytes.\<close>

definition spi_exchange :: "spi_env \<Rightarrow> u8 \<Rightarrow> spi_sys \<Rightarrow> u8 \<times> spi_sys" where
  "spi_exchange env b s =
     (let s = SPI_TransferDone 0 (the (spi_write env 16 0x040001C2 (ucast b) s))
      in (ucast (the (spi_read 16 0x040001C2 (fst s))), s))"

definition sample_channel :: "spi_env \<Rightarrow> u8 \<Rightarrow> spi_sys \<Rightarrow> u16 \<times> spi_sys" where
  "sample_channel env control s =
     (let s = the (spi_write env 16 0x040001C0 0x8A00 s);
          (r0, s) = spi_exchange env control s; (r1, s) = spi_exchange env 0 s; (r2, s) = spi_exchange env 0 s
      in (shr (shl (ucast r1) 8 OR ucast r2) 3, s))"

lemma spi_exchange_tsc:
  assumes "SPI_Cnt h = 0x8A00" "DS_mode (TSC h)" "TSC_Write_DS env b (TSC h, n) = (d, n')"
  shows "\<exists>n''. spi_exchange env b (h, n) = (Data d, (h\<lparr>TSC := d\<rparr>, n'')) \<and> KeyInput n'' = KeyInput n'"
proof -
  have d: "device (h\<lparr>SPI_Cnt := 0x8A80\<rparr>) = 2" "device (h\<lparr>TSC := d, SPI_Cnt := 0x8A00\<rparr>) = 2" by (simp_all add: device_def)
  have k: "KeyInput (ScheduleEvent e p t f a m) = KeyInput m" for e p t f a m
    by (simp add: ScheduleEvent_def Let_def Reschedule_def)
  have c: "ucast (ucast x :: u32) = x" for x :: u8 by (rule bit_word_eqI) (auto simp: bit_simps)
  have "h\<lparr>SPI_Cnt := 0x8A00, TSC := d\<rparr> = h\<lparr>TSC := d\<rparr>" using assms(1) by (cases h) simp
  with assms d k c show ?thesis
    by (simp add: spi_exchange_def spi_write_def spi_read_def SPI_WriteData_def SPI_TransferDone_def SPI_ReadData_def Let_def
        Devices_Write_def Devices_Read_def TSC_Write_def)
qed

lemma twelve_bits:
  fixes v :: u16
  shows "shr (shl (ucast (ucast (shr v 5 AND 0x7F) :: u8)) 8 OR ucast (ucast (shl v 3 AND 0xFF) :: u8)) 3 = v AND 0xFFF"
proof -
  have m: "(0x7F :: u16) = mask 7" "(0xFF :: u16) = mask 8" "(0xFFF :: u16) = mask 12" by (simp_all add: mask_eq_exp_minus_1)
  show ?thesis unfolding m
  proof (rule bit_word_eqI)
    fix i
    assume "i < LENGTH(16)"
    then show "bit (shr (shl (ucast (ucast (shr v 5 AND mask 7) :: u8)) 8 OR ucast (ucast (shl v 3 AND mask 8) :: u8)) 3 :: u16) i =
        bit (v AND mask 12) i"
      by (cases "i < 5") (auto simp: bit_simps dest: bit_imp_le_length)
  qed
qed

lemma sample_channel_result:
  assumes "\<not> tst (SPI_Cnt h) 0x80" "DS_mode (TSC h)" "control \<in> {0x90, 0xD0}"
  defines "v \<equiv> (if control = 0xD0 then TouchX (TSC h) else TouchY (TSC h))"
  shows "fst (sample_channel env control (h, n)) = v AND 0xFFF"
    "KeyInput (snd (snd (sample_channel env control (h, n)))) = KeyInput n"
    "DS_mode (TSC (fst (snd (sample_channel env control (h, n)))))"
proof -
  define h0 where "h0 = h\<lparr>SPI_Cnt := 0x8A00\<rparr>"
  have w: "spi_write env 16 0x040001C0 0x8A00 (h, n) = Some (h0, n)"
    using assms(1) by (simp add: spi_write_def SPI_WriteCnt_def h0_def)
  let ?d = "TSC h"
  have h0: "SPI_Cnt h0 = 0x8A00" "TSC h0 = ?d" by (simp_all add: h0_def)
  obtain d1 where 1: "TSC_Write_DS env control (?d, n) = (d1, n)" and d1: "ConvResult d1 = v" "DataPos d1 = 1"
      "TouchX d1 = TouchX ?d" "DS_mode d1"
    using assms(2,3) by (auto simp: TSC_Write_DS_def TSC_convert_def v_def Let_def DS_mode_def)
  obtain n1 where e1: "spi_exchange env control (h0, n) = (Data d1, (h0\<lparr>TSC := d1\<rparr>, n1))" "KeyInput n1 = KeyInput n"
    using spi_exchange_tsc [of h0 env control n d1 n] h0 1 assms(2) by auto
  let ?d2 = "d1\<lparr>Data := ucast (shr v 5 AND 0x7F), DataPos := 2\<rparr>"
  have 2: "TSC_Write_DS env 0 (d1, n1) = (?d2, n1)" using d1 by (simp add: TSC_Write_DS_def)
  obtain n2 where e2: "spi_exchange env 0 (h0\<lparr>TSC := d1\<rparr>, n1) = (ucast (shr v 5 AND 0x7F), (h0\<lparr>TSC := ?d2\<rparr>, n2))"
      "KeyInput n2 = KeyInput n"
    using spi_exchange_tsc [of "h0\<lparr>TSC := d1\<rparr>" env 0 n1 ?d2 n1] h0 2 d1(4) e1(2) by auto
  let ?d3 = "?d2\<lparr>Data := ucast (shl v 3 AND 0xFF), DataPos := 3\<rparr>"
  have 3: "TSC_Write_DS env 0 (?d2, n2) = (?d3, n2)" using d1 by (simp add: TSC_Write_DS_def)
  have "DS_mode ?d2" using d1(4) by (simp add: DS_mode_def)
  then obtain n3 where e3: "spi_exchange env 0 (h0\<lparr>TSC := ?d2\<rparr>, n2) = (ucast (shl v 3 AND 0xFF), (h0\<lparr>TSC := ?d3\<rparr>, n3))"
      "KeyInput n3 = KeyInput n"
    using spi_exchange_tsc [of "h0\<lparr>TSC := ?d2\<rparr>" env 0 n2 ?d3 n2] h0 3 e2(2) by auto
  have "sample_channel env control (h, n) = (v AND 0xFFF, (h0\<lparr>TSC := ?d3\<rparr>, n3))"
    by (simp only: sample_channel_def Let_def w option.sel e1(1) e2(1) e3(1) prod.case twelve_bits)
  then show "fst (sample_channel env control (h, n)) = v AND 0xFFF"
    "KeyInput (snd (snd (sample_channel env control (h, n)))) = KeyInput n"
    "DS_mode (TSC (fst (snd (sample_channel env control (h, n)))))"
    using e3(2) d1(4) by (simp_all add: DS_mode_def)
qed

text \<open>C40: when the player touches the screen at a point, the samples that a game takes of the two channels over the SPI bus are
  sixteen times its coordinates, as the calibration in the firmware has it, and the key register shows the pen;
  when the screen is released, it does not.\<close>

theorem touch_samples:
  fixes n :: nds and x y :: u16
  assumes "\<not> tst (SPI_Cnt h) 0x80" "DS_mode (TSC h)" "x < 0x100" "y < 0x100"
  defines "s \<equiv> TouchScreen x y (h, n)"
  shows "fst (sample_channel env 0xD0 s) = 16 * x \<and> fst (sample_channel env 0x90 s) = 16 * y \<and>
    KeyInput (snd (snd (sample_channel env 0xD0 s))) AND 0x400000 = 0 \<and>
    KeyInput (snd (ReleaseScreen (snd (sample_channel env 0xD0 s)))) AND 0x400000 = 0x400000"
proof -
  have y: "y \<noteq> 0xFFF" using assms(4) by auto
  define t where "t = (TSC h)\<lparr>TouchX := shl x 4, TouchY := shl y 4\<rparr>"
  have s: "s = (h\<lparr>TSC := t\<rparr>, n\<lparr>KeyInput := KeyInput n AND NOT KeyPen\<rparr>)"
    using assms(2) y by (simp add: s_def TouchScreen_def TSC_SetTouchCoords_def TSC_SetTouchCoords_DS_def t_def)
  have t: "DS_mode t" "TouchX t = shl x 4" "TouchY t = shl y 4" using assms(2) by (simp_all add: t_def DS_mode_def)
  have w: "shl z 4 AND 0xFFF = 16 * z" if "z < 0x100" for z :: u16
  proof -
    have "unat z < 256" using that by (simp add: unat_lt_iff)
    then have "unat (shl z 4) = unat z * 16" by (subst unat_shl) simp_all
    moreover have "unat (16 * z) = unat z * 16" using \<open>unat z < 256\<close> by (simp add: unat_word_ariths)
    moreover have "unat (shl z 4 AND mask 12) = unat (shl z 4) mod 2 ^ 12"
      unfolding take_bit_eq_mask [symmetric] unsigned_take_bit_eq by (rule take_bit_eq_mod)
    moreover have m: "(0xFFF :: u16) = mask 12" by (simp add: mask_eq_exp_minus_1)
    ultimately show ?thesis unfolding m word_eq_unat using \<open>unat z < 256\<close> by simp
  qed
  have k: "KeyInput (n\<lparr>KeyInput := KeyInput n AND NOT KeyPen\<rparr>) AND 0x400000 = 0" by (simp add: KeyPen_def and.assoc)
  note r = sample_channel_result [of "h\<lparr>TSC := t\<rparr>" _ env, OF _ _ _]
  have c: "\<not> tst (SPI_Cnt (h\<lparr>TSC := t\<rparr>)) 0x80" "DS_mode (TSC (h\<lparr>TSC := t\<rparr>))" using assms(1) t(1) by simp_all
  have "fst (sample_channel env 0xD0 s) = 16 * x" "fst (sample_channel env 0x90 s) = 16 * y"
    unfolding s using r(1) [OF c] t w [OF assms(3)] w [OF assms(4)] by simp_all
  moreover have "KeyInput (snd (snd (sample_channel env 0xD0 s))) AND 0x400000 = 0"
    unfolding s using r(2) [OF c] k by simp
  moreover have "KeyInput (snd (ReleaseScreen u)) AND 0x400000 = 0x400000" if "DS_mode (TSC (fst u))" for u
    using that by (simp add: ReleaseScreen_def TouchScreen_def TSC_SetTouchCoords_def TSC_SetTouchCoords_DS_def case_prod_beta Let_def
        KeyPen_def bit.conj_disj_distrib2)
  ultimately show ?thesis using r(3) [OF c] unfolding s by simp
qed

text \<open>The pen at (100, 50).\<close>

definition blank_host :: spi_host where
  "blank_host = \<lparr>SPI_Cnt = 0, FirmwareMem = blank_firmware,
     PowerMan = PowerMan_Reset \<lparr>Hold = False, DataPos = 0, Data = 0, Index = 0, Registers = (\<lambda>_. 0), RegMasks = (\<lambda>_. 0)\<rparr>,
     TSC = \<lparr>Hold = False, DataPos = 0, Data = 0, ControlByte = 0, ConvResult = 0, TouchX = 0, TouchY = 0, tsc_DSi = False, tsc_Index = 0,
       Bank = 0, Bank3Regs = (\<lambda>_. 0), TSCMode = 0\<rparr>\<rparr>"

theorem touch_samples_witness:
  "fst (sample_channel \<lparr>Mic_ReadSample = (\<lambda>n. (0, n)), NDS_Stop = (\<lambda>n. n), WriteFirmware = (\<lambda>_ _ _ n. n)\<rparr> 0xD0
     (TouchScreen 100 50 (blank_host, blank_nds))) = 1600"
  using touch_samples [where h = blank_host and x = 100 and y = 50 and n = blank_nds]
  by (simp add: blank_host_def DS_mode_def)

end
