(* ===== verification/Gba.thy ===== *)
theory Gba
  imports Buffers PowerOf2 Crc32
begin

text \<open>
  The cartridges of the Game Boy Advance slot (\<^verbatim>\<open>src/src/GBACart.h\<close>, \<^verbatim>\<open>GBACart.cpp\<close>, \<^verbatim>\<open>GBACartMotionPak.cpp\<close>): games
  with their save memory and ports, the solar sensor, the memory expansion, the rumble pak, the motion paks, the
  guitar grip, and the slot with its place on the buses of both processors (\<^verbatim>\<open>NDS.cpp\<close>).

  A virtual method is a case distinction on \<open>gba_type\<close>. The state of the host, of type \<open>'u\<close>, is what \<^verbatim>\<open>UserData\<close>
  points to; the record \<open>gba_env\<close> has the functions of the platform on it.
\<close>

section \<open>State\<close>

datatype gba_type = Game | GameSolarSensor | RAMExpansion | RumblePak | MotionPakHomebrew | MotionPakRetail | GuitarGrip

datatype gba_save = S_NULL | S_EEPROM4K | S_EEPROM64K | S_SRAM256K | S_FLASH512K | S_FLASH1M

record flash =
  state :: u8
  cmd :: u8
  device_id :: u8
  manufacturer :: u8
  bank :: u8

record gpio =
  data :: u16
  direction :: u16
  control :: u16

text \<open>\<open>SRAM\<close> is \<open>None\<close> for the null pointer.\<close>

record 'u gba_cart =
  gba_type :: gba_type
  UserData :: 'u
  ROM :: mem
  ROMLength :: u32
  GPIO :: gpio
  SRAMFlashState :: flash
  SRAM :: "mem option"
  SRAMLength :: u32
  SRAMType :: gba_save
  LightEdge :: bool
  LightCounter :: u8
  LightSample :: u8
  LightLevel :: u8
  RAM :: mem
  RAMEnable :: u16
  RumbleState :: u16
  ShiftVal :: u16
  Value :: u8
  Step :: u8

text \<open>The functions of the platform. The queries of the sensors include the conversion to the sensor's counts, which is
  in floating point: \<^verbatim>\<open>AccelerationToMotionPak\<close> of axis 0, 1, 2 and \<^verbatim>\<open>RotationToMotionPak\<close> as number 3, and
  \<^verbatim>\<open>AccelerationToMotionPakRetail\<close>. \<open>KeyDown\<close> has the coloured buttons of the grip, 0 to 3.\<close>

record 'u gba_env =
  WriteGBASave :: "mem \<Rightarrow> u32 \<Rightarrow> u32 \<Rightarrow> u32 \<Rightarrow> 'u \<Rightarrow> 'u"
  Rumble :: "'u \<Rightarrow> 'u"
  KeyDown :: "nat \<Rightarrow> 'u \<Rightarrow> bool"
  MotionPak :: "nat \<Rightarrow> 'u \<Rightarrow> u16 \<times> 'u"
  MotionPakRetailCounts :: "nat \<Rightarrow> 'u \<Rightarrow> u8 \<times> 'u"

definition is_game :: "'u gba_cart \<Rightarrow> bool" where
  "is_game c \<longleftrightarrow> gba_type c = Game \<or> gba_type c = GameSolarSensor"

section \<open>Games\<close>

definition save_type :: "u32 \<Rightarrow> gba_save option" where
  "save_type len =
     (if len = 512 then Some S_EEPROM4K
      else if len = 8192 then Some S_EEPROM64K
      else if len = 32768 then Some S_SRAM256K
      else if len = 65536 then Some S_FLASH512K
      else if len = 128 * 1024 \<or> len = 128 * 1024 + 0x10 then Some S_FLASH1M
      else if len = 0 then Some S_NULL
      else None)"

definition SetupSave :: "u32 \<Rightarrow> 'u gba_cart \<Rightarrow> 'u gba_cart" where
  "SetupSave len c =
     (let c = c\<lparr>SRAMLength := len, SRAMType := case save_type len of Some t \<Rightarrow> t | None \<Rightarrow> SRAMType c\<rparr>
      in if SRAMType c = S_FLASH512K then c\<lparr>SRAMFlashState := (SRAMFlashState c)\<lparr>device_id := 0x1B, manufacturer := 0x32\<rparr>\<rparr>
         else if SRAMType c = S_FLASH1M then c\<lparr>SRAMFlashState := (SRAMFlashState c)\<lparr>device_id := 0x13, manufacturer := 0x62\<rparr>\<rparr>
         else c)"

definition gba_cart_new :: "gba_type \<Rightarrow> 'u \<Rightarrow> 'u gba_cart" where
  "gba_cart_new ty u =
     \<lparr>gba_type = ty, UserData = u, ROM = (\<lambda>_. 0), ROMLength = 0, GPIO = \<lparr>data = 0, direction = 0, control = 0\<rparr>,
      SRAMFlashState = \<lparr>state = 0, cmd = 0, device_id = 0, manufacturer = 0, bank = 0\<rparr>, SRAM = None, SRAMLength = 0,
      SRAMType = S_NULL, LightEdge = False, LightCounter = 0, LightSample = 0, LightLevel = 0, RAM = (\<lambda>_. 0), RAMEnable = 0,
      RumbleState = 0, ShiftVal = 0, Value = 0, Step = 16\<rparr>"

definition CartGame :: "mem \<Rightarrow> u32 \<Rightarrow> mem option \<Rightarrow> u32 \<Rightarrow> 'u \<Rightarrow> gba_type \<Rightarrow> 'u gba_cart" where
  "CartGame rom len sram sramlen u ty =
     (let c = (gba_cart_new ty u)\<lparr>ROM := rom, ROMLength := len, SRAM := sram, SRAMLength := sramlen\<rparr>
      in if sram \<noteq> None \<and> sramlen \<noteq> 0 then SetupSave sramlen c else c)"

definition GBA_Checksum :: "'u gba_cart \<Rightarrow> u32" where
  "GBA_Checksum c = (if is_game c then CRC32 (Some (map (ROM c) [0..<0xC0])) 0xC0 0 else 0)"

text \<open>The copy goes to the old buffer; \<open>None\<close> is a write through the null pointer.\<close>

definition Game_SetSaveMemory :: "'u gba_env \<Rightarrow> mem \<Rightarrow> u32 \<Rightarrow> 'u gba_cart \<Rightarrow> 'u gba_cart option" where
  "Game_SetSaveMemory env savedata savelen c =
     (let c = SetupSave savelen c; len = min savelen (SRAMLength c)
      in case SRAM c of
           None \<Rightarrow> if len = 0 then Some (c\<lparr>UserData := WriteGBASave env savedata len 0 len (UserData c)\<rparr>) else None
         | Some m \<Rightarrow> Some (c\<lparr>SRAM := Some (memcpy 0 savedata 0 (unat len) m),
                             UserData := WriteGBASave env savedata len 0 len (UserData c)\<rparr>))"

definition Game_ROMRead :: "u32 \<Rightarrow> 'u gba_cart \<Rightarrow> u16" where
  "Game_ROMRead addr c =
     (let addr = addr AND 0x01FFFFFF in
      if tst (control (GPIO c)) 0x1 \<and> addr = 0xC4 then data (GPIO c)
      else if tst (control (GPIO c)) 0x1 \<and> addr = 0xC6 then direction (GPIO c)
      else if tst (control (GPIO c)) 0x1 \<and> addr = 0xC8 then control (GPIO c)
      else if addr < ROMLength c then get16 (ROM c) (unat addr)
      else 0)"

text \<open>The solar sensor counts the clocks of the game until the counter reaches the sample.\<close>

definition kLuxLevels :: "u8 list" where
  "kLuxLevels = [0, 5, 11, 18, 27, 42, 62, 84, 109, 139, 183]"

definition solar_reset :: "'u gba_cart \<Rightarrow> 'u gba_cart" where
  "solar_reset c = c\<lparr>LightCounter := 0, LightSample := 0xFF - (0x16 + kLuxLevels ! unat (LightLevel c))\<rparr>"

definition solar_clock :: "'u gba_cart \<Rightarrow> 'u gba_cart" where
  "solar_clock c =
     (let bit0 = tst (data (GPIO c)) 1;
          c = (if bit0 \<and> LightEdge c then c\<lparr>LightCounter := LightCounter c + 1\<rparr> else c)
      in c\<lparr>LightEdge := \<not> bit0\<rparr>)"

definition solar_send :: "'u gba_cart \<Rightarrow> 'u gba_cart" where
  "solar_send c =
     (let g = GPIO c; sendBit = of_cond (LightCounter c \<ge> LightSample c)
      in if tst (control g) 1
         then c\<lparr>GPIO := g\<lparr>data := (data g AND direction g) OR (shl sendBit 3 AND NOT (direction g) AND 0xF)\<rparr>\<rparr> else c)"

definition Solar_ProcessGPIO :: "'u gba_cart \<Rightarrow> 'u gba_cart" where
  "Solar_ProcessGPIO c =
     (if tst (data (GPIO c)) 4 then c
      else solar_send (solar_clock (if tst (data (GPIO c)) 2 then solar_reset c else c)))"

definition ProcessGPIO :: "'u gba_cart \<Rightarrow> 'u gba_cart" where
  "ProcessGPIO c = (if gba_type c = GameSolarSensor then Solar_ProcessGPIO c else c)"

definition Game_ROMWrite :: "u32 \<Rightarrow> u16 \<Rightarrow> 'u gba_cart \<Rightarrow> 'u gba_cart" where
  "Game_ROMWrite addr val c =
     (let addr = addr AND 0x01FFFFFF; g = GPIO c in
      if addr = 0xC4 then
        ProcessGPIO (c\<lparr>GPIO := g\<lparr>data := (data g AND NOT (direction g)) OR (val AND direction g)\<rparr>\<rparr>)
      else if addr = 0xC6 then c\<lparr>GPIO := g\<lparr>direction := val\<rparr>\<rparr>
      else if addr = 0xC8 then c\<lparr>GPIO := g\<lparr>control := val\<rparr>\<rparr>
      else c)"

section \<open>The save memory of a game\<close>

definition sram_byte :: "u32 \<Rightarrow> 'u gba_cart \<Rightarrow> u8" where
  "sram_byte addr c = (case SRAM c of Some m \<Rightarrow> m (unat addr) | None \<Rightarrow> 0)"

definition SRAMRead_SRAM :: "u32 \<Rightarrow> 'u gba_cart \<Rightarrow> u8" where
  "SRAMRead_SRAM addr c = (if addr \<ge> SRAMLength c then 0xFF else sram_byte addr c)"

text \<open>Bytes of the save memory are set and the file of the game is told.\<close>

definition save_bytes :: "'u gba_env \<Rightarrow> u32 \<Rightarrow> u32 \<Rightarrow> u8 \<Rightarrow> 'u gba_cart \<Rightarrow> 'u gba_cart" where
  "save_bytes env addr n val c =
     (case SRAM c of
        None \<Rightarrow> c
      | Some m \<Rightarrow>
          let m = memset (unat addr) val (unat n) m
          in c\<lparr>SRAM := Some m, UserData := WriteGBASave env m (SRAMLength c) addr n (UserData c)\<rparr>)"

definition SRAMWrite_SRAM :: "'u gba_env \<Rightarrow> u32 \<Rightarrow> u8 \<Rightarrow> 'u gba_cart \<Rightarrow> 'u gba_cart" where
  "SRAMWrite_SRAM env addr val c =
     (if addr \<ge> SRAMLength c then c
      else if sram_byte addr c \<noteq> val then save_bytes env addr 1 val c
      else c)"

definition flash_addr :: "u32 \<Rightarrow> 'u gba_cart \<Rightarrow> u32" where
  "flash_addr addr c = addr + 0x10000 * ucast (bank (SRAMFlashState c))"

definition SRAMRead_FLASH :: "u32 \<Rightarrow> 'u gba_cart \<Rightarrow> u8 \<times> 'u gba_cart" where
  "SRAMRead_FLASH addr c =
     (let f = SRAMFlashState c in
      if cmd f = 0 then (sram_byte (flash_addr addr c) c, c)
      else if cmd f = 0x90 then
        (if addr = 0x0000 then manufacturer f else if addr = 0x0001 then device_id f else 0xFF, c)
      else if cmd f = 0xF0 then (0xFF, c\<lparr>SRAMFlashState := f\<lparr>state := 0, cmd := 0\<rparr>\<rparr>)
      else (0xFF, c))"

text \<open>The switch over the state of the chip: it returns, erases a sector and returns, or goes on.\<close>

datatype flash_exit = Returns | Erases | GoesOn

definition unlock :: "u8 \<Rightarrow> bool \<Rightarrow> flash \<Rightarrow> flash \<times> flash_exit" where
  "unlock next ok f = (if ok then (f\<lparr>state := next\<rparr>, Returns) else (f\<lparr>state := 0\<rparr>, GoesOn))"

definition flash_switch :: "u32 \<Rightarrow> u8 \<Rightarrow> flash \<Rightarrow> flash \<times> flash_exit" where
  "flash_switch addr val f =
     (if state f = 0x00 then
        (if addr = 0x5555 \<and> val = 0xF0 then (f\<lparr>state := 0, cmd := 0\<rparr>, Returns)
         else if addr = 0x5555 \<and> val = 0xAA then (f\<lparr>state := 1\<rparr>, Returns)
         else if addr = 0x0000 \<and> cmd f = 0xB0 then (f\<lparr>bank := val, cmd := 0\<rparr>, Returns)
         else (f, GoesOn))
      else if state f = 0x01 then unlock 2 (addr = 0x2AAA \<and> val = 0x55) f
      else if state f = 0x02 then
        (if addr = 0x5555 then
           (f\<lparr>state := if val = 0x80 then 0x80 else if val = 0x90 then 0x90 else 0, cmd := val\<rparr>, Returns)
         else (f\<lparr>state := 0\<rparr>, GoesOn))
      else if state f = 0x80 then unlock 0x81 (addr = 0x5555 \<and> val = 0xAA) f
      else if state f = 0x81 then unlock 0x82 (addr = 0x2AAA \<and> val = 0x55) f
      else if state f = 0x82 then (f\<lparr>state := 0, cmd := 0\<rparr>, if val = 0x30 then Erases else Returns)
      else if state f = 0x90 then unlock 0x91 (addr = 0x5555 \<and> val = 0xAA) f
      else if state f = 0x91 then unlock 0x92 (addr = 0x2AAA \<and> val = 0x55) f
      else if state f = 0x92 then (f\<lparr>state := 0, cmd := 0\<rparr>, Returns)
      else (f, GoesOn))"

definition SRAMWrite_FLASH :: "'u gba_env \<Rightarrow> u32 \<Rightarrow> u8 \<Rightarrow> 'u gba_cart \<Rightarrow> 'u gba_cart" where
  "SRAMWrite_FLASH env addr val c =
     (let (f, act) = flash_switch addr val (SRAMFlashState c); c = c\<lparr>SRAMFlashState := f\<rparr> in
      case act of
        Returns \<Rightarrow> c
      | Erases \<Rightarrow> save_bytes env (flash_addr addr c) 0x1000 0xFF c
      | GoesOn \<Rightarrow>
          if cmd f = 0xA0
          then (SRAMWrite_SRAM env (flash_addr addr c) val c)\<lparr>SRAMFlashState := f\<lparr>state := 0, cmd := 0\<rparr>\<rparr>
          else c)"

definition Game_SRAMRead :: "u32 \<Rightarrow> 'u gba_cart \<Rightarrow> u8 \<times> 'u gba_cart" where
  "Game_SRAMRead addr c =
     (let addr = addr AND 0xFFFF in
      case SRAMType c of
        S_EEPROM4K \<Rightarrow> (0, c)
      | S_EEPROM64K \<Rightarrow> (0, c)
      | S_FLASH512K \<Rightarrow> SRAMRead_FLASH addr c
      | S_FLASH1M \<Rightarrow> SRAMRead_FLASH addr c
      | S_SRAM256K \<Rightarrow> (SRAMRead_SRAM addr c, c)
      | S_NULL \<Rightarrow> (0xFF, c))"

definition Game_SRAMWrite :: "'u gba_env \<Rightarrow> u32 \<Rightarrow> u8 \<Rightarrow> 'u gba_cart \<Rightarrow> 'u gba_cart" where
  "Game_SRAMWrite env addr val c =
     (let addr = addr AND 0xFFFF in
      case SRAMType c of
        S_FLASH512K \<Rightarrow> SRAMWrite_FLASH env addr val c
      | S_FLASH1M \<Rightarrow> SRAMWrite_FLASH env addr val c
      | S_SRAM256K \<Rightarrow> SRAMWrite_SRAM env addr val c
      | _ \<Rightarrow> c)"

section \<open>The solar sensor\<close>

text \<open>Input 0 lowers and input 1 raises the light level; the result is the level, or \<open>-1\<close>.\<close>

definition Solar_SetInput :: "int \<Rightarrow> bool \<Rightarrow> 'u gba_cart \<Rightarrow> int \<times> 'u gba_cart" where
  "Solar_SetInput num pressed c =
     (if \<not> pressed then (-1, c)
      else if num = 0 then
        let c = (if LightLevel c > 0 then c\<lparr>LightLevel := LightLevel c - 1\<rparr> else c) in (uint (LightLevel c), c)
      else if num = 1 then
        let c = (if LightLevel c < 10 then c\<lparr>LightLevel := LightLevel c + 1\<rparr> else c) in (uint (LightLevel c), c)
      else (-1, c))"

definition SetLightLevel :: "u8 \<Rightarrow> 'u gba_cart \<Rightarrow> 'u gba_cart" where
  "SetLightLevel level c = c\<lparr>LightLevel := min level 10\<rparr>"

definition SOLAR_SENSOR_GAMECODES :: "string list" where
  "SOLAR_SENSOR_GAMECODES = [''U3IJ'', ''U3IE'', ''U3IP'', ''U32J'', ''U32E'', ''U32P'', ''U33J'', ''A3IJ'', [], []]"

definition ascii :: "string \<Rightarrow> u8 list" where
  "ascii s = map (\<lambda>ch. word_of_nat (of_char ch)) s"

definition CreateFakeSolarSensorROM :: "string \<Rightarrow> mem option \<Rightarrow> 'u \<Rightarrow> 'u gba_cart option" where
  "CreateFakeSolarSensorROM gamecode logo u =
     (if gamecode \<notin> set SOLAR_SENSOR_GAMECODES then None
      else
        let rom = memcpy 0xA0 (of_list (ascii ''BOKTAI STUB'')) 0 11 (\<lambda>_. 0);
            rom = memcpy 0xAC (of_list (ascii gamecode)) 0 (min (length gamecode) 4) rom;
            rom = rom(0xB2 := 0x96);
            rom = (case logo of Some l \<Rightarrow> memcpy 0x04 l 0 156 rom | None \<Rightarrow> memset 0x04 0xFF 156 rom)
        in Some (CartGame rom 0x100 None 0 u GameSolarSensor))"

section \<open>The other cartridges\<close>

definition expansion_id :: "u32 \<Rightarrow> u16 \<Rightarrow> u16" where
  "expansion_id addr enable =
     (if addr = 0xB0 then 0xFFFF
      else if addr = 0xB2 then 0x0000
      else if addr = 0xB4 then 0x2400
      else if addr = 0xB6 then 0x2424
      else if addr = 0xB8 then 0xFFFF
      else if addr = 0xBA then 0xFFFF
      else if addr = 0xBC then 0xFFFF
      else if addr = 0xBE then 0x7FFF
      else if addr = 0x1FFFC then 0xFFFF
      else if addr = 0x1FFFE then 0x7FFF
      else if addr = 0x240000 then enable
      else if addr = 0x240002 then 0x0000
      else 0xFFFF)"

definition Expansion_ROMRead :: "u32 \<Rightarrow> 'u gba_cart \<Rightarrow> u16" where
  "Expansion_ROMRead addr c =
     (let addr = addr AND 0x01FFFFFF in
      if addr < 0x01000000 then expansion_id addr (RAMEnable c)
      else if addr < 0x01800000 then
        if RAMEnable c = 0 then 0xFFFF else get16 (RAM c) (unat (addr AND 0x7FFFFF))
      else 0xFFFF)"

definition Expansion_ROMWrite :: "u32 \<Rightarrow> u16 \<Rightarrow> 'u gba_cart \<Rightarrow> 'u gba_cart" where
  "Expansion_ROMWrite addr val c =
     (let addr = addr AND 0x01FFFFFF in
      if addr < 0x01000000 then if addr = 0x240000 then c\<lparr>RAMEnable := val AND 0x0001\<rparr> else c
      else if addr < 0x01800000 then
        if RAMEnable c = 0 then c else c\<lparr>RAM := put16 (unat (addr AND 0x7FFFFF)) val (RAM c)\<rparr>
      else c)"

definition Rumble_ROMWrite :: "'u gba_env \<Rightarrow> u16 \<Rightarrow> 'u gba_cart \<Rightarrow> 'u gba_cart" where
  "Rumble_ROMWrite env val c =
     (if RumbleState c \<noteq> val then c\<lparr>RumbleState := val, UserData := Rumble env (UserData c)\<rparr> else c)"

definition Guitar_SRAMRead :: "'u gba_env \<Rightarrow> 'u gba_cart \<Rightarrow> u8" where
  "Guitar_SRAMRead env c =
     NOT ((if KeyDown env 0 (UserData c) then 0x40 else 0) OR (if KeyDown env 1 (UserData c) then 0x20 else 0)
       OR (if KeyDown env 2 (UserData c) then 0x10 else 0) OR (if KeyDown env 3 (UserData c) then 0x08 else 0))"

definition shift_out :: "'u gba_cart \<Rightarrow> u8 \<times> 'u gba_cart" where
  "shift_out c = (ucast (shr (ShiftVal c) 8), c\<lparr>ShiftVal := shl (ShiftVal c) 8\<rparr>)"

definition Motion_SRAMRead :: "'u gba_env \<Rightarrow> u32 \<Rightarrow> 'u gba_cart \<Rightarrow> u8 \<times> 'u gba_cart" where
  "Motion_SRAMRead env addr c =
     (let addr = addr AND 0xFFFF in
      if addr = 2 \<or> addr = 4 \<or> addr = 6 \<or> addr = 8 then
        let (v, u) = MotionPak env (unat addr div 2 - 1) (UserData c)
        in (0, c\<lparr>ShiftVal := shl v 4, UserData := u\<rparr>)
      else if addr = 10 then (0, c\<lparr>ShiftVal := 0xF00F\<rparr>)
      else if addr = 12 \<or> addr = 14 \<or> addr = 16 \<or> addr = 18 then shift_out (c\<lparr>ShiftVal := 0\<rparr>)
      else shift_out c)"

definition retail_value :: "'u gba_env \<Rightarrow> 'u gba_cart \<Rightarrow> 'u gba_cart" where
  "retail_value env c =
     (if Step c = 0 then c\<lparr>Value := 0xFF\<rparr>
      else if Step c = 4 \<or> Step c = 8 \<or> Step c = 12 then
        let (v, u) = MotionPakRetailCounts env (unat (Step c) div 4 - 1) (UserData c) in c\<lparr>Value := v, UserData := u\<rparr>
      else c)"

definition MotionRetail_SRAMRead :: "'u gba_env \<Rightarrow> 'u gba_cart \<Rightarrow> u8 \<times> 'u gba_cart" where
  "MotionRetail_SRAMRead env c =
     (if Step c = 16 then (0, c\<lparr>Step := 0\<rparr>)
      else
        let c = retail_value env c; shift = 6 - unat (Step c AND 3) * 2
        in (shr (Value c) shift AND 0x03, c\<lparr>Step := Step c + 1\<rparr>))"

section \<open>The virtual methods\<close>

definition GBA_Reset :: "'u gba_cart \<Rightarrow> 'u gba_cart" where
  "GBA_Reset c =
     (case gba_type c of
        Game \<Rightarrow> c\<lparr>GPIO := \<lparr>data = 0, direction = 0, control = 0\<rparr>\<rparr>
      | GameSolarSensor \<Rightarrow>
          c\<lparr>GPIO := \<lparr>data = 0, direction = 0, control = 0\<rparr>, LightEdge := False, LightCounter := 0, LightSample := 0xFF, LightLevel := 0\<rparr>
      | RAMExpansion \<Rightarrow> c\<lparr>RAM := memset 0 0xFF 0x800000 (RAM c), RAMEnable := 1\<rparr>
      | RumblePak \<Rightarrow> c\<lparr>RumbleState := 0\<rparr>
      | MotionPakHomebrew \<Rightarrow> c\<lparr>ShiftVal := 0\<rparr>
      | MotionPakRetail \<Rightarrow> c\<lparr>Value := 0, Step := 16\<rparr>
      | GuitarGrip \<Rightarrow> c)"

definition GBA_SetInput :: "int \<Rightarrow> bool \<Rightarrow> 'u gba_cart \<Rightarrow> int \<times> 'u gba_cart" where
  "GBA_SetInput num pressed c = (if gba_type c = GameSolarSensor then Solar_SetInput num pressed c else (-1, c))"

definition GBA_ROMRead :: "u32 \<Rightarrow> 'u gba_cart \<Rightarrow> u16" where
  "GBA_ROMRead addr c =
     (case gba_type c of
        Game \<Rightarrow> Game_ROMRead addr c
      | GameSolarSensor \<Rightarrow> Game_ROMRead addr c
      | RAMExpansion \<Rightarrow> Expansion_ROMRead addr c
      | RumblePak \<Rightarrow> 0xFFFD
      | MotionPakHomebrew \<Rightarrow> 0xFCFF
      | MotionPakRetail \<Rightarrow> 0xFCFF
      | GuitarGrip \<Rightarrow> 0xF9FF)"

definition GBA_ROMWrite :: "'u gba_env \<Rightarrow> u32 \<Rightarrow> u16 \<Rightarrow> 'u gba_cart \<Rightarrow> 'u gba_cart" where
  "GBA_ROMWrite env addr val c =
     (case gba_type c of
        Game \<Rightarrow> Game_ROMWrite addr val c
      | GameSolarSensor \<Rightarrow> Game_ROMWrite addr val c
      | RAMExpansion \<Rightarrow> Expansion_ROMWrite addr val c
      | RumblePak \<Rightarrow> Rumble_ROMWrite env val c
      | _ \<Rightarrow> c)"

definition GBA_SRAMRead :: "'u gba_env \<Rightarrow> u32 \<Rightarrow> 'u gba_cart \<Rightarrow> u8 \<times> 'u gba_cart" where
  "GBA_SRAMRead env addr c =
     (case gba_type c of
        Game \<Rightarrow> Game_SRAMRead addr c
      | GameSolarSensor \<Rightarrow> Game_SRAMRead addr c
      | MotionPakHomebrew \<Rightarrow> Motion_SRAMRead env addr c
      | MotionPakRetail \<Rightarrow> MotionRetail_SRAMRead env c
      | GuitarGrip \<Rightarrow> (Guitar_SRAMRead env c, c)
      | _ \<Rightarrow> (0, c))"

definition GBA_SRAMWrite :: "'u gba_env \<Rightarrow> u32 \<Rightarrow> u8 \<Rightarrow> 'u gba_cart \<Rightarrow> 'u gba_cart" where
  "GBA_SRAMWrite env addr val c = (if is_game c then Game_SRAMWrite env addr val c else c)"

definition GBA_SetSaveMemory :: "'u gba_env \<Rightarrow> mem \<Rightarrow> u32 \<Rightarrow> 'u gba_cart \<Rightarrow> 'u gba_cart option" where
  "GBA_SetSaveMemory env savedata savelen c = (if is_game c then Game_SetSaveMemory env savedata savelen c else Some c)"

section \<open>Loading\<close>

definition is_solar :: "mem \<Rightarrow> bool" where
  "is_solar rom \<longleftrightarrow> takeWhile (\<lambda>b. b \<noteq> 0) (map rom [0xAC..<0xB0]) \<in> set (map ascii SOLAR_SENSOR_GAMECODES)"

text \<open>\<open>None\<close> when the padding does not return, \<open>Some None\<close> for the null pointer; the bytes behind a short image are
  taken to be zero.\<close>

definition GBA_ParseROM :: "u8 list option \<Rightarrow> u32 \<Rightarrow> mem option \<Rightarrow> u32 \<Rightarrow> 'u \<Rightarrow> 'u gba_cart option option" where
  "GBA_ParseROM romdata romlen sram sramlen u =
     (if romdata = None \<or> romlen = 0 then Some None
      else case PadToPowerOf2_owned romdata romlen of
        None \<Rightarrow> None
      | Some (d, cartromsize) \<Rightarrow>
          let rom = of_list (the d)
          in Some (Some (GBA_Reset (CartGame rom cartromsize sram sramlen u (if is_solar rom then GameSolarSensor else Game)))))"

definition LoadAddon :: "int \<Rightarrow> 'u \<Rightarrow> 'u gba_cart option" where
  "LoadAddon ty u =
     map_option GBA_Reset
       (if ty = 1 then Some (gba_cart_new RAMExpansion u)
        else if ty = 2 then Some (gba_cart_new RumblePak u)
        else if ty = 3 then CreateFakeSolarSensorROM ''U3IE'' None u
        else if ty = 4 then CreateFakeSolarSensorROM ''U32E'' None u
        else if ty = 5 then CreateFakeSolarSensorROM ''U33J'' None u
        else if ty = 6 then Some (gba_cart_new MotionPakHomebrew u)
        else if ty = 7 then Some (gba_cart_new MotionPakRetail u)
        else if ty = 8 then Some (gba_cart_new GuitarGrip u)
        else None)"

section \<open>The slot\<close>

record 'u gba_slot =
  Cart :: "'u gba_cart option"
  OpenBusDecay :: u16

definition in_slot :: "('u gba_cart \<Rightarrow> 'u gba_cart) \<Rightarrow> 'u gba_slot \<Rightarrow> 'u gba_slot" where
  "in_slot f l = l\<lparr>Cart := map_option f (Cart l)\<rparr>"

definition Slot_Reset :: "'u gba_slot \<Rightarrow> 'u gba_slot" where
  "Slot_Reset = in_slot GBA_Reset"

definition Slot_SetCart :: "'u gba_cart option \<Rightarrow> 'u gba_slot \<Rightarrow> 'u gba_slot" where
  "Slot_SetCart c l = l\<lparr>Cart := c\<rparr>"

definition Slot_EjectCart :: "'u gba_slot \<Rightarrow> 'u gba_cart option \<times> 'u gba_slot" where
  "Slot_EjectCart l = (Cart l, l\<lparr>Cart := None\<rparr>)"

definition Slot_SetSaveMemory :: "'u gba_env \<Rightarrow> mem \<Rightarrow> u32 \<Rightarrow> 'u gba_slot \<Rightarrow> 'u gba_slot option" where
  "Slot_SetSaveMemory env savedata savelen l =
     (case Cart l of
        None \<Rightarrow> Some l
      | Some c \<Rightarrow> map_option (\<lambda>c. l\<lparr>Cart := Some c\<rparr>) (GBA_SetSaveMemory env savedata savelen c))"

definition Slot_SetInput :: "int \<Rightarrow> bool \<Rightarrow> 'u gba_slot \<Rightarrow> int \<times> 'u gba_slot" where
  "Slot_SetInput num pressed l =
     (case Cart l of
        None \<Rightarrow> (-1, l)
      | Some c \<Rightarrow> let (r, c) = GBA_SetInput num pressed c in (r, l\<lparr>Cart := Some c\<rparr>))"

definition SetOpenBusDecay :: "u16 \<Rightarrow> 'u gba_slot \<Rightarrow> 'u gba_slot" where
  "SetOpenBusDecay val l = l\<lparr>OpenBusDecay := val\<rparr>"

definition Slot_ROMRead :: "u32 \<Rightarrow> 'u gba_slot \<Rightarrow> u16" where
  "Slot_ROMRead addr l =
     (case Cart l of
        Some c \<Rightarrow> GBA_ROMRead addr c
      | None \<Rightarrow> ucast (shr addr 1 AND 0xFFFF) OR OpenBusDecay l)"

definition Slot_ROMWrite :: "'u gba_env \<Rightarrow> u32 \<Rightarrow> u16 \<Rightarrow> 'u gba_slot \<Rightarrow> 'u gba_slot" where
  "Slot_ROMWrite env addr val = in_slot (GBA_ROMWrite env addr val)"

definition Slot_SRAMRead :: "'u gba_env \<Rightarrow> u32 \<Rightarrow> 'u gba_slot \<Rightarrow> u8 \<times> 'u gba_slot" where
  "Slot_SRAMRead env addr l =
     (case Cart l of
        None \<Rightarrow> (0xFF, l)
      | Some c \<Rightarrow> let (r, c) = GBA_SRAMRead env addr c in (r, l\<lparr>Cart := Some c\<rparr>))"

definition Slot_SRAMWrite :: "'u gba_env \<Rightarrow> u32 \<Rightarrow> u8 \<Rightarrow> 'u gba_slot \<Rightarrow> 'u gba_slot" where
  "Slot_SRAMWrite env addr val = in_slot (GBA_SRAMWrite env addr val)"

section \<open>The buses\<close>

text \<open>The slot belongs to the processor that bit 7 of \<^verbatim>\<open>EXMEMCNT\<close> names; the other one reads zeros. The bytes of a
  wider access are read in the order of the addresses.\<close>

definition owns_gba :: "nat \<Rightarrow> u16 \<Rightarrow> bool" where
  "owns_gba cpu exmemcnt \<longleftrightarrow> (if cpu = 0 then \<not> tst exmemcnt (shl 1 7) else tst exmemcnt (shl 1 7))"

definition gba_rom_region :: "u32 \<Rightarrow> bool" where
  "gba_rom_region addr \<longleftrightarrow> addr AND 0xFF000000 = 0x08000000 \<or> addr AND 0xFF000000 = 0x09000000"

definition gba_ram_region :: "u32 \<Rightarrow> bool" where
  "gba_ram_region addr \<longleftrightarrow> addr AND 0xFF000000 = 0x0A000000"

definition gba_rom_read :: "u32 \<Rightarrow> u32 \<Rightarrow> 'u gba_slot \<Rightarrow> u32" where
  "gba_rom_read width addr l =
     (if width = 8 then
        if tst addr 0x1 then ucast (shr (Slot_ROMRead (addr - 1) l) 8) else ucast (Slot_ROMRead addr l AND 0xFF)
      else if width = 16 then ucast (Slot_ROMRead addr l)
      else ucast (Slot_ROMRead addr l) OR shl (ucast (Slot_ROMRead (addr + 2) l)) 16)"

fun gba_ram_read :: "'u gba_env \<Rightarrow> nat \<Rightarrow> u32 \<Rightarrow> 'u gba_slot \<Rightarrow> u32 \<times> 'u gba_slot" where
  "gba_ram_read env 0 addr l = (0, l)"
| "gba_ram_read env (Suc n) addr l =
     (let (b, l) = Slot_SRAMRead env addr l; (v, l) = gba_ram_read env n (addr + 1) l in (ucast b OR shl v 8, l))"

definition gba_bus_read :: "'u gba_env \<Rightarrow> nat \<Rightarrow> u16 \<Rightarrow> u32 \<Rightarrow> u32 \<Rightarrow> 'u gba_slot \<Rightarrow> (u32 \<times> 'u gba_slot) option" where
  "gba_bus_read env cpu exmemcnt width addr l =
     (if gba_rom_region addr then
        Some (if owns_gba cpu exmemcnt then gba_rom_read width addr l else 0, l)
      else if gba_ram_region addr then
        Some (if owns_gba cpu exmemcnt then gba_ram_read env (unat width div 8) addr l else (0, l))
      else None)"

fun gba_ram_write :: "'u gba_env \<Rightarrow> nat \<Rightarrow> u32 \<Rightarrow> u32 \<Rightarrow> 'u gba_slot \<Rightarrow> 'u gba_slot" where
  "gba_ram_write env 0 addr val l = l"
| "gba_ram_write env (Suc n) addr val l =
     gba_ram_write env n (addr + 1) (shr val 8) (Slot_SRAMWrite env addr (ucast val) l)"

definition gba_bus_write :: "'u gba_env \<Rightarrow> nat \<Rightarrow> u16 \<Rightarrow> u32 \<Rightarrow> u32 \<Rightarrow> u32 \<Rightarrow> 'u gba_slot \<Rightarrow> 'u gba_slot option" where
  "gba_bus_write env cpu exmemcnt width addr val l =
     (if gba_rom_region addr then
        Some (if width = 8 \<or> \<not> owns_gba cpu exmemcnt then l
              else if width = 16 then Slot_ROMWrite env addr (ucast val) l
              else Slot_ROMWrite env (addr + 2) (ucast (shr val 16)) (Slot_ROMWrite env addr (ucast val) l))
      else if gba_ram_region addr then
        Some (if owns_gba cpu exmemcnt then gba_ram_write env (unat width div 8) addr val l else l)
      else None)"

end
