(* ===== verification/GbaSpec.thy ===== *)
theory GbaSpec
  imports Gba
begin

text \<open>
  What the cartridges of the Game Boy Advance guarantee: a byte programmed into a flash chip is read back, and what the
  erase command does, with the commands written over the bus; the solar sensor as a game reads it.
\<close>

section \<open>Commands over the bus\<close>

text \<open>Byte writes of a processor to the save memory of the slot.\<close>

fun gba_writes :: "'u gba_env \<Rightarrow> nat \<Rightarrow> u16 \<Rightarrow> (u16 \<times> u8) list \<Rightarrow> 'u gba_slot \<Rightarrow> 'u gba_slot option" where
  "gba_writes env cpu ex [] l = Some l"
| "gba_writes env cpu ex ((a, v) # ws) l =
     Option.bind (gba_bus_write env cpu ex 8 (0x0A000000 OR ucast a) (ucast v) l) (gba_writes env cpu ex ws)"

lemma save_address:
  fixes a :: u16
  defines "x \<equiv> 0x0A000000 OR (ucast a :: u32)"
  shows "x AND 0xFFFF = ucast a" "x AND 0xFF000000 = 0x0A000000"
proof -
  have m: "(0xFFFF :: u32) = mask 16" by (simp add: mask_eq_exp_minus_1)
  have 1: "(ucast a :: u32) AND 0xFFFF = ucast a"
    unfolding m by (rule bit_word_eqI) (auto simp: bit_simps dest: bit_imp_le_length)
  have n: "(0xFF000000 :: u32) = push_bit 24 (mask 8)" by (simp add: mask_eq_exp_minus_1 push_bit_eq_mult)
  have 2: "(ucast a :: u32) AND 0xFF000000 = 0"
    unfolding n by (rule bit_word_eqI) (auto simp: bit_simps dest: bit_imp_le_length)
  show "x AND 0xFFFF = ucast a" "x AND 0xFF000000 = 0x0A000000"
    by (simp_all add: x_def bit.conj_disj_distrib2 1 2)
qed

lemma save_region [simp]:
  fixes a :: u16
  shows "gba_ram_region (0x0A000000 OR ucast a)" "\<not> gba_rom_region (0x0A000000 OR ucast a)"
  by (simp_all add: gba_ram_region_def gba_rom_region_def save_address)

definition flash_type :: "'u gba_cart \<Rightarrow> bool" where
  "flash_type c \<longleftrightarrow> is_game c \<and> (SRAMType c = S_FLASH512K \<or> SRAMType c = S_FLASH1M)"

lemma save_bytes_kept [simp]:
  "gba_type (save_bytes env a n v c) = gba_type c" "SRAMType (save_bytes env a n v c) = SRAMType c"
  "SRAMLength (save_bytes env a n v c) = SRAMLength c" "SRAMFlashState (save_bytes env a n v c) = SRAMFlashState c"
  by (simp_all add: save_bytes_def Let_def split: option.split)

lemma SRAMWrite_SRAM_kept [simp]:
  "gba_type (SRAMWrite_SRAM env a v c) = gba_type c" "SRAMType (SRAMWrite_SRAM env a v c) = SRAMType c"
  "SRAMLength (SRAMWrite_SRAM env a v c) = SRAMLength c" "SRAMFlashState (SRAMWrite_SRAM env a v c) = SRAMFlashState c"
  by (simp_all add: SRAMWrite_SRAM_def)

lemma SRAMWrite_FLASH_type [simp]: "flash_type (SRAMWrite_FLASH env a v c) = flash_type c"
  by (simp add: SRAMWrite_FLASH_def flash_type_def is_game_def Let_def case_prod_beta split: flash_exit.split)

definition flash_writes :: "'u gba_env \<Rightarrow> (u16 \<times> u8) list \<Rightarrow> 'u gba_cart \<Rightarrow> 'u gba_cart" where
  "flash_writes env = fold (\<lambda>(a, v). SRAMWrite_FLASH env (ucast a) v)"

lemma flash_writes_type: "flash_type (flash_writes env ws c) = flash_type c"
  by (induction ws arbitrary: c) (simp_all add: flash_writes_def case_prod_beta)

lemma gba_writes_flash:
  assumes "owns_gba cpu ex" "Cart l = Some c" "flash_type c"
  shows "gba_writes env cpu ex ws l = Some (l\<lparr>Cart := Some (flash_writes env ws c)\<rparr>)"
  using assms(2,3)
proof (induction ws arbitrary: l c)
  case Nil
  then have "l\<lparr>Cart := Some c\<rparr> = l" by (cases l) simp
  then show ?case by (simp add: flash_writes_def)
next
  case (Cons w ws)
  obtain a v where w: "w = (a, v)" by fastforce
  have g: "GBA_SRAMWrite env (0x0A000000 OR ucast a) v c = SRAMWrite_FLASH env (ucast a) v c"
    using Cons.prems(2) by (auto simp: GBA_SRAMWrite_def Game_SRAMWrite_def flash_type_def save_address Let_def)
  have "unat (8 :: u32) div 8 = Suc 0" "ucast (ucast v :: u32) = v" by (simp_all add: ucast_down_ucast_id is_down)
  then have "gba_bus_write env cpu ex 8 (0x0A000000 OR ucast a) (ucast v) l = Some (l\<lparr>Cart := Some (SRAMWrite_FLASH env (ucast a) v c)\<rparr>)"
    using assms(1) Cons.prems(1) g by (simp add: gba_bus_write_def Slot_SRAMWrite_def in_slot_def)
  then show ?case
    using Cons.IH [of "l\<lparr>Cart := Some (SRAMWrite_FLASH env (ucast a) v c)\<rparr>" "SRAMWrite_FLASH env (ucast a) v c"] Cons.prems(2)
    by (simp add: w flash_writes_def)
qed

lemma gba_read_flash:
  fixes a :: u16
  assumes "owns_gba cpu ex" "Cart l = Some c" "flash_type c" "cmd (SRAMFlashState c) = 0"
  shows "gba_bus_read env cpu ex 8 (0x0A000000 OR ucast a) l = Some (ucast (sram_byte (flash_addr (ucast a) c) c), l)"
proof -
  have "GBA_SRAMRead env (0x0A000000 OR ucast a) c = (sram_byte (flash_addr (ucast a) c) c, c)"
    using assms(3,4)
    by (auto simp: GBA_SRAMRead_def Game_SRAMRead_def SRAMRead_FLASH_def flash_type_def is_game_def save_address Let_def)
  moreover have "unat (8 :: u32) div 8 = Suc 0" by simp
  moreover have "l\<lparr>Cart := Some c\<rparr> = l" using assms(2) by (cases l) simp
  ultimately show ?thesis using assms(1,2) by (simp add: gba_bus_read_def Slot_SRAMRead_def)
qed

section \<open>Programming and erasing\<close>

definition idle :: "flash \<Rightarrow> bool" where
  "idle f \<longleftrightarrow> state f = 0 \<and> cmd f = 0"

definition flash_command :: "u8 \<Rightarrow> (u16 \<times> u8) list" where
  "flash_command v = [(0x5555, 0xAA), (0x2AAA, 0x55), (0x5555, v)]"

lemma flash_writes_simps [simp]:
  "flash_writes env [] c = c"
  "flash_writes env ((a, v) # ws) c = flash_writes env ws (SRAMWrite_FLASH env (ucast a) v c)"
  by (simp_all add: flash_writes_def)

lemma flash_writes_append: "flash_writes env (ws @ vs) c = flash_writes env vs (flash_writes env ws c)"
  by (simp add: flash_writes_def)

lemma flash_command_sent:
  assumes "idle (SRAMFlashState c)" "v = 0xA0 \<or> v = 0xB0 \<or> v = 0x80"
  shows "flash_writes env (flash_command v) c =
    c\<lparr>SRAMFlashState := (SRAMFlashState c)\<lparr>state := if v = 0x80 then 0x80 else 0, cmd := v\<rparr>\<rparr>"
  using assms by (auto simp: flash_command_def SRAMWrite_FLASH_def flash_switch_def idle_def unlock_def Let_def)

lemma SRAM_programmed:
  assumes "SRAM c = Some m" "a < SRAMLength c"
  shows "SRAM (SRAMWrite_SRAM env a v c) = Some (m(unat a := v))"
  using assms by (auto simp: SRAMWrite_SRAM_def save_bytes_def sram_byte_def memset_def fun_eq_iff Let_def)

text \<open>A byte that follows the command at once, where the chip does not take it for the start of another command.\<close>

lemma unlock_address: "(ucast a :: u32) = 0x5555 \<longleftrightarrow> a = 0x5555" for a :: u16
proof
  assume "(ucast a :: u32) = 0x5555"
  then have "(ucast (ucast a :: u32) :: u16) = ucast (0x5555 :: u32)" by simp
  then show "a = 0x5555" by (simp add: ucast_down_ucast_id is_down)
qed simp

lemma flash_programmed:
  fixes env :: "'u gba_env" and a :: u16
  assumes "idle (SRAMFlashState c)" "SRAM c = Some m" "flash_addr (ucast a) c < SRAMLength c"
    "a \<noteq> 0x5555 \<or> (v \<noteq> 0xF0 \<and> v \<noteq> 0xAA)"
  defines "c' \<equiv> flash_writes env (flash_command 0xA0 @ [(a, v)]) c"
  shows "SRAM c' = Some (m(unat (flash_addr (ucast a) c) := v))" "SRAMFlashState c' = SRAMFlashState c"
proof -
  let ?f = "(SRAMFlashState c)\<lparr>state := 0, cmd := 0xA0\<rparr>"
  let ?d = "c\<lparr>SRAMFlashState := ?f\<rparr>"
  have s: "flash_switch (ucast a) v ?f = (?f, GoesOn)"
    using assms(4) by (auto simp: flash_switch_def unlock_address)
  have c': "c' = (SRAMWrite_SRAM env (flash_addr (ucast a) ?d) v ?d)\<lparr>SRAMFlashState := ?f\<lparr>state := 0, cmd := 0\<rparr>\<rparr>"
    unfolding c'_def by (simp add: flash_writes_append flash_command_sent assms(1) SRAMWrite_FLASH_def s Let_def)
  have a: "flash_addr (ucast a) ?d = flash_addr (ucast a) c" by (simp add: flash_addr_def)
  show "SRAM c' = Some (m(unat (flash_addr (ucast a) c) := v))"
    unfolding c' using SRAM_programmed [of ?d m "flash_addr (ucast a) c" env v] assms(2,3) by (simp add: a)
  show "SRAMFlashState c' = SRAMFlashState c"
    unfolding c' using assms(1) by (cases "SRAMFlashState c") (simp add: idle_def)
qed


text \<open>C37: a game programs a byte of a flash chip over the bus, with the unlock cycles of the command, and reads it
  back: the byte is in the current bank of the save memory, every other byte is as before, and the chip is ready for the next
  command. This holds for each of the two processors that the slot belongs to, each of the two chips and every byte
  in the bank, but for the bytes \<open>0xF0\<close> and \<open>0xAA\<close> at the address \<open>0x5555\<close>.\<close>

theorem flash_program_read:
  fixes a :: u16
  assumes "owns_gba cpu ex" "Cart l = Some c" "flash_type c" "idle (SRAMFlashState c)" "SRAM c = Some m"
    "flash_addr (ucast a) c < SRAMLength c" "a \<noteq> 0x5555 \<or> (v \<noteq> 0xF0 \<and> v \<noteq> 0xAA)"
  shows "\<exists>l' c'. gba_writes env cpu ex [(0x5555, 0xAA), (0x2AAA, 0x55), (0x5555, 0xA0), (a, v)] l = Some l' \<and>
    gba_bus_read env cpu ex 8 (0x0A000000 OR ucast a) l' = Some (ucast v, l') \<and>
    Cart l' = Some c' \<and> SRAM c' = Some (m(unat (flash_addr (ucast a) c) := v)) \<and> SRAMFlashState c' = SRAMFlashState c"
proof -
  define c' where "c' = flash_writes env (flash_command 0xA0 @ [(a, v)]) c"
  let ?l = "l\<lparr>Cart := Some c'\<rparr>"
  note p = flash_programmed [OF assms(4,5,6,7), of env, folded c'_def]
  have w: "gba_writes env cpu ex [(0x5555, 0xAA), (0x2AAA, 0x55), (0x5555, 0xA0), (a, v)] l = Some ?l"
    using gba_writes_flash [OF assms(1-3), of env "flash_command 0xA0 @ [(a, v)]"] by (simp add: flash_command_def c'_def)
  have t: "flash_type c'" using flash_writes_type [of env _ c] assms(3) by (simp add: c'_def)
  have "cmd (SRAMFlashState c') = 0" using p(2) assms(4) by (simp add: idle_def)
  then have "gba_bus_read env cpu ex 8 (0x0A000000 OR ucast a) ?l = Some (ucast (sram_byte (flash_addr (ucast a) c') c'), ?l)"
    using gba_read_flash [OF assms(1) _ t, of ?l] by simp
  moreover have "sram_byte (flash_addr (ucast a) c') c' = v" using p by (simp add: sram_byte_def flash_addr_def)
  ultimately show ?thesis using w p by simp
qed

definition host_env :: "mem gba_env" where
  "host_env = \<lparr>WriteGBASave = (\<lambda>m n a k f. memcpy (unat a) m (unat a) (unat k) f), Rumble = id, KeyDown = (\<lambda>k u. False),
     MotionPak = (\<lambda>k u. (0x800, u)), MotionPakRetailCounts = (\<lambda>k u. (0x80, u))\<rparr>"

theorem flash_program_read_witness:
  "\<exists>l'. gba_writes host_env 0 0 [(0x5555, 0xAA), (0x2AAA, 0x55), (0x5555, 0xA0), (0x1234, 7)]
      \<lparr>Cart = Some (CartGame (\<lambda>_. 0) 0x100 (Some (\<lambda>_. 0xFF)) 0x10000 (\<lambda>_. 0) Game), OpenBusDecay = 0\<rparr> = Some l' \<and>
    gba_bus_read host_env 0 0 8 0x0A001234 l' = Some (7, l')"
proof -
  let ?c = "CartGame (\<lambda>_. 0) 0x100 (Some (\<lambda>_. 0xFF)) 0x10000 (\<lambda>_. 0) Game :: mem gba_cart"
  have c: "flash_type ?c" "idle (SRAMFlashState ?c)" "SRAM ?c = Some (\<lambda>_. 0xFF)" "bank (SRAMFlashState ?c) = 0" "SRAMLength ?c = 0x10000"
    by (simp_all add: CartGame_def gba_cart_new_def SetupSave_def save_type_def flash_type_def is_game_def idle_def Let_def)
  have "flash_addr (ucast (0x1234 :: u16)) ?c < SRAMLength ?c" by (simp add: flash_addr_def c)
  then show ?thesis
    using flash_program_read [where cpu = 0 and ex = 0 and l = "\<lparr>Cart = Some ?c, OpenBusDecay = 0\<rparr>" and a = "0x1234" and v = 7 and env = host_env,
      OF _ _ c(1-3)] by (auto simp: owns_gba_def)
qed

text \<open>The two bytes that are not programmed: the chip takes the first for a reset and the second for the start of another
  command. An erase does not look at the length of the save memory, and the bank may be any byte.\<close>

lemma flash_byte_lost:
  assumes "idle (SRAMFlashState c)" "v = 0xF0 \<or> v = 0xAA"
  shows "SRAM (flash_writes env (flash_command 0xA0 @ [(0x5555, v)]) c) = SRAM c"
  using assms by (auto simp: flash_writes_append flash_command_sent SRAMWrite_FLASH_def flash_switch_def Let_def)

lemma flash_bank:
  assumes "idle (SRAMFlashState c)"
  shows "flash_writes env (flash_command 0xB0 @ [(0, b)]) c = c\<lparr>SRAMFlashState := (SRAMFlashState c)\<lparr>bank := b\<rparr>\<rparr>"
  using assms by (cases "SRAMFlashState c")
    (simp add: flash_writes_append flash_command_sent SRAMWrite_FLASH_def flash_switch_def idle_def Let_def)

lemma flash_erase:
  assumes "idle (SRAMFlashState c)" "SRAM c = Some m"
  shows "SRAM (flash_writes env (flash_command 0x80 @ [(0x5555, 0xAA), (0x2AAA, 0x55), (a, 0x30)]) c) =
    Some (memset (unat (flash_addr (ucast a) c)) 0xFF 0x1000 m)"
  using assms
  by (simp add: flash_writes_append flash_command_sent SRAMWrite_FLASH_def flash_switch_def idle_def unlock_def save_bytes_def
      flash_addr_def Let_def)

end
