(* ===== verification/GbaSolar.thy ===== *)
theory GbaSolar
  imports GbaSpec
begin

text \<open>
  The solar sensor as a game reads it through the ports of the cartridge: the reset loads the sample for the light
  level, and the answer bit rises with the clock pulse that reaches the sample.
\<close>

text \<open>Half-word writes of a processor to the ports.\<close>

fun port_writes :: "'u gba_env \<Rightarrow> nat \<Rightarrow> u16 \<Rightarrow> (u32 \<times> u16) list \<Rightarrow> 'u gba_slot \<Rightarrow> 'u gba_slot option" where
  "port_writes env cpu ex [] l = Some l"
| "port_writes env cpu ex ((a, v) # ws) l =
     Option.bind (gba_bus_write env cpu ex 16 (0x08000000 OR a) (ucast v) l) (port_writes env cpu ex ws)"

lemma port_writes_append:
  "port_writes env cpu ex (ws @ vs) l = Option.bind (port_writes env cpu ex ws l) (port_writes env cpu ex vs)"
  by (induction ws arbitrary: l) (auto simp: bind_eq_Some_conv split: Option.bind_splits)

definition is_port :: "u32 \<Rightarrow> bool" where
  "is_port a \<longleftrightarrow> a = 0xC4 \<or> a = 0xC6 \<or> a = 0xC8"

lemma port_write:
  assumes "owns_gba cpu ex" "Cart l = Some c" "gba_type c = GameSolarSensor" "is_port a"
  shows "gba_bus_write env cpu ex 16 (0x08000000 OR a) (ucast v) l = Some (l\<lparr>Cart := Some (Game_ROMWrite a v c)\<rparr>)"
proof -
  have "ucast (ucast v :: u32) = v" by (simp add: ucast_down_ucast_id is_down)
  moreover have "Game_ROMWrite (0x08000000 OR a) v c = Game_ROMWrite a v c"
    using assms(4) by (auto simp: is_port_def Game_ROMWrite_def)
  moreover have "gba_rom_region (0x08000000 OR a)" using assms(4) by (auto simp: is_port_def gba_rom_region_def)
  ultimately show ?thesis using assms(1-3) by (simp add: gba_bus_write_def Slot_ROMWrite_def in_slot_def GBA_ROMWrite_def)
qed

lemma solar_type [simp]:
  "gba_type (solar_reset c) = gba_type c" "gba_type (solar_clock c) = gba_type c" "gba_type (solar_send c) = gba_type c"
  by (simp_all add: solar_reset_def solar_clock_def solar_send_def Let_def)

lemma port_write_type [simp]: "gba_type (Game_ROMWrite a v c) = gba_type c"
  by (simp add: Game_ROMWrite_def ProcessGPIO_def Solar_ProcessGPIO_def Let_def)

definition cart_writes :: "(u32 \<times> u16) list \<Rightarrow> 'u gba_cart \<Rightarrow> 'u gba_cart" where
  "cart_writes = fold (\<lambda>(a, v). Game_ROMWrite a v)"

lemma port_writes_cart:
  assumes "owns_gba cpu ex" "Cart l = Some c" "gba_type c = GameSolarSensor" "\<forall>w \<in> set ws. is_port (fst w)"
  shows "port_writes env cpu ex ws l = Some (l\<lparr>Cart := Some (cart_writes ws c)\<rparr>)"
  using assms(2-4)
proof (induction ws arbitrary: l c)
  case Nil
  then have "l\<lparr>Cart := Some c\<rparr> = l" by (cases l) simp
  then show ?case by (simp add: cart_writes_def)
next
  case (Cons w ws)
  obtain a v where w: "w = (a, v)" by fastforce
  have "is_port a" using Cons.prems(3) w by simp
  then have "gba_bus_write env cpu ex 16 (0x08000000 OR a) (ucast v) l = Some (l\<lparr>Cart := Some (Game_ROMWrite a v c)\<rparr>)"
    by (rule port_write [OF assms(1) Cons.prems(1,2)])
  then show ?case
    using Cons.IH [of "l\<lparr>Cart := Some (Game_ROMWrite a v c)\<rparr>" "Game_ROMWrite a v c"] Cons.prems(2,3)
    by (simp add: w cart_writes_def)
qed

section \<open>Clock pulses\<close>

definition ports :: "u16 \<Rightarrow> gpio" where
  "ports x = \<lparr>data = x, direction = 7, control = 1\<rparr>"

definition answer :: "u8 \<Rightarrow> u8 \<Rightarrow> u16" where
  "answer d k = (if d \<le> k then 8 else 0)"

lemma answer_bits: "shl (of_cond (d \<le> k)) 3 AND NOT 7 AND 0xF = answer d k"
  by (simp add: answer_def)

lemma write_data:
  assumes "gba_type c = GameSolarSensor" "GPIO c = ports x" "v = 0 \<or> v = 1 \<or> v = 2"
  defines "r \<equiv> (if v = 2 then solar_reset c else c)"
  defines "k \<equiv> LightCounter r + (if v = 1 \<and> LightEdge c then 1 else 0)"
  shows "Game_ROMWrite 0xC4 v c =
    r\<lparr>LightCounter := k, LightEdge := v \<noteq> 1, GPIO := ports (v OR answer (LightSample r) k)\<rparr>"
proof -
  define y where "y = (x AND NOT 7) OR (v AND 7)"
  let ?c = "c\<lparr>GPIO := ports y\<rparr>"
  have b: "y AND 4 = 0" "tst y 2 \<longleftrightarrow> v = 2" "tst y 1 \<longleftrightarrow> v = 1" "y AND 7 = v" using assms(3) by (auto simp: y_def bit.conj_disj_distrib2 and.assoc)
  have "Game_ROMWrite 0xC4 v c = Solar_ProcessGPIO ?c"
    using assms(1,2) by (simp add: Game_ROMWrite_def ProcessGPIO_def ports_def y_def)
  also have "\<dots> = solar_send (solar_clock (if v = 2 then solar_reset ?c else ?c))"
    unfolding Solar_ProcessGPIO_def by (simp add: ports_def b)
  also have "(if v = 2 then solar_reset ?c else ?c) = r\<lparr>GPIO := ports y\<rparr>" by (simp add: r_def solar_reset_def)
  also have "solar_clock (r\<lparr>GPIO := ports y\<rparr>) = r\<lparr>GPIO := ports y, LightCounter := k, LightEdge := v \<noteq> 1\<rparr>"
    unfolding solar_clock_def by (simp add: ports_def b k_def Let_def r_def solar_reset_def)
  also have "solar_send \<dots> = r\<lparr>LightCounter := k, LightEdge := v \<noteq> 1, GPIO := ports (v OR answer (LightSample r) k)\<rparr>"
    unfolding solar_send_def by (simp add: ports_def b Let_def answer_bits [symmetric])
  finally show ?thesis .
qed

text \<open>After \<open>n\<close> pulses; \<open>d\<close> is the light sample.\<close>

definition pulsed :: "nat \<Rightarrow> u8 \<Rightarrow> 'u gba_cart \<Rightarrow> bool" where
  "pulsed n d c \<longleftrightarrow> gba_type c = GameSolarSensor \<and> LightEdge c \<and> LightCounter c = word_of_nat n \<and> LightSample c = d \<and>
     GPIO c = ports (answer d (word_of_nat n))"

definition light_sample :: "u8 \<Rightarrow> u8" where
  "light_sample level = 0xFF - (0x16 + kLuxLevels ! unat level)"

lemma cart_writes_simps [simp]:
  "cart_writes [] c = c" "cart_writes ((a, v) # ws) c = cart_writes ws (Game_ROMWrite a v c)"
  by (simp_all add: cart_writes_def)

lemma cart_writes_append: "cart_writes (ws @ vs) c = cart_writes vs (cart_writes ws c)"
  by (simp add: cart_writes_def)

lemma sensor_reset:
  assumes "gba_type c = GameSolarSensor"
  shows "pulsed 0 (light_sample (LightLevel c)) (cart_writes [(0xC8, 1), (0xC6, 7), (0xC4, 2), (0xC4, 0)] c)"
proof -
  define c1 where "c1 = c\<lparr>GPIO := ports (data (GPIO c))\<rparr>"
  have "Game_ROMWrite 0xC6 7 (Game_ROMWrite 0xC8 1 c) = c1"
    by (simp add: Game_ROMWrite_def c1_def ports_def)
  moreover have "gba_type c1 = GameSolarSensor" "GPIO c1 = ports (data (GPIO c))" "LightLevel c1 = LightLevel c"
    using assms by (simp_all add: c1_def)
  ultimately show ?thesis by (simp add: pulsed_def write_data solar_reset_def light_sample_def)
qed

lemma sensor_pulse:
  assumes "pulsed n d c"
  shows "pulsed (Suc n) d (cart_writes [(0xC4, 1), (0xC4, 0)] c)"
  using assms by (simp add: pulsed_def write_data add.commute)

lemma sensor_pulses:
  assumes "pulsed 0 d c"
  shows "pulsed n d (cart_writes (concat (replicate n [(0xC4, 1), (0xC4, 0)])) c)"
proof (induction n)
  case 0
  then show ?case using assms by simp
next
  case (Suc n)
  have r: "concat (replicate (Suc n) w) = concat (replicate n w) @ w" for w :: "'b list"
    by (induction n) simp_all
  show ?case unfolding r cart_writes_append by (rule sensor_pulse [OF Suc.IH])
qed

text \<open>C38: the solar sensor answers the way the games measure the light: after a reset over the ports and \<open>n\<close> clock pulses, a read
  of the port has the answer bit exactly when \<open>n\<close> has reached the sample, which is \<open>0xE9\<close> less the level's entry in the table;
  the game counts its pulses up to there. This holds for every light level and both processors.\<close>

theorem solar_sensor_reading:
  assumes "owns_gba cpu ex" "Cart l = Some c" "gba_type c = GameSolarSensor" "n < 256"
  shows "\<exists>l'. port_writes env cpu ex ([(0xC8, 1), (0xC6, 7), (0xC4, 2), (0xC4, 0)] @ concat (replicate n [(0xC4, 1), (0xC4, 0)])) l = Some l' \<and>
    gba_bus_read env cpu ex 16 0x080000C4 l' = Some (if unat (light_sample (LightLevel c)) \<le> n then 8 else 0, l')"
proof -
  let ?ws = "[(0xC8, 1), (0xC6, 7), (0xC4, 2), (0xC4, 0)] @ concat (replicate n [(0xC4, 1), (0xC4, 0)])"
  let ?d = "light_sample (LightLevel c)" and ?c = "cart_writes ?ws c"
  let ?l = "l\<lparr>Cart := Some ?c\<rparr>"
  have p: "pulsed n ?d ?c" unfolding cart_writes_append by (rule sensor_pulses [OF sensor_reset [OF assms(3)]])
  have "\<forall>w \<in> set ?ws. is_port (fst w)" by (auto simp: is_port_def)
  then have w: "port_writes env cpu ex ?ws l = Some ?l" by (rule port_writes_cart [OF assms(1-3)])
  have n: "unat (word_of_nat n :: u8) = n" using assms(4) by (simp add: unat_of_nat)
  have "Slot_ROMRead 0x080000C4 ?l = answer ?d (word_of_nat n)"
    using p by (simp add: Slot_ROMRead_def GBA_ROMRead_def pulsed_def Game_ROMRead_def ports_def del: cart_writes_simps)
  then have "gba_bus_read env cpu ex 16 0x080000C4 ?l = Some (if unat ?d \<le> n then 8 else 0, ?l)"
    using assms(1) by (simp add: gba_bus_read_def gba_rom_region_def gba_rom_read_def answer_def unat_le_iff n del: cart_writes_simps)
  with w show ?thesis by blast
qed

theorem solar_sensor_reading_witness:
  "\<exists>l'. port_writes host_env 1 0x80 ([(0xC8, 1), (0xC6, 7), (0xC4, 2), (0xC4, 0)] @ concat (replicate 50 [(0xC4, 1), (0xC4, 0)]))
      \<lparr>Cart = Some ((CartGame (\<lambda>_. 0) 0x100 None 0 (\<lambda>_. 0) GameSolarSensor)\<lparr>LightLevel := 10\<rparr>), OpenBusDecay = 0\<rparr> = Some l' \<and>
    gba_bus_read host_env 1 0x80 16 0x080000C4 l' = Some (8, l')"
proof -
  let ?c = "(CartGame (\<lambda>_. 0) 0x100 None 0 (\<lambda>_. 0) GameSolarSensor)\<lparr>LightLevel := 10\<rparr> :: mem gba_cart"
  have "gba_type ?c = GameSolarSensor" by (simp add: CartGame_def gba_cart_new_def)
  moreover have "unat (light_sample 10) = 50" by (simp add: light_sample_def kLuxLevels_def)
  moreover have "owns_gba 1 0x80" by (simp add: owns_gba_def)
  ultimately show ?thesis
    using solar_sensor_reading [where cpu = 1 and ex = "0x80" and n = 50 and env = host_env and l = "\<lparr>Cart = Some ?c, OpenBusDecay = 0\<rparr>" and c = ?c]
    by simp
qed

text \<open>The table of the games with the sensor has two empty entries: a game without a code is taken for one of them.\<close>

lemma no_code_is_solar: "map rom [0xAC..<0xB0] = [0, 0, 0, 0] \<Longrightarrow> is_solar rom"
  by (simp add: is_solar_def SOLAR_SENSOR_GAMECODES_def ascii_def)

end
