(* ===== verification/Spec2Isabelle.thy ===== *)
theory Spec2Isabelle
  imports System ArmModes ArmMulSpec Cp15Spec ArmExecuteSpec DmaStop CartBounds SaveFile CartLoad RomList ARCodeFile
    SpiSpec GbaSolar
begin

text \<open>
  A verification development for the emulator core of KHMelonMix (melonDS with the Kingdom Hearts
  front end), a Nintendo DS emulator in C++. All paths below are under \<^verbatim>\<open>src/src/\<close>.

  \<^bold>\<open>The program.\<close> The class \<^verbatim>\<open>NDS\<close> owns two processors, the ARM9 (\<^verbatim>\<open>ARMv5\<close>) and the ARM7
  (\<^verbatim>\<open>ARMv4\<close>), and the devices on their buses. Its main loop runs each processor up to a target time
  taken from the event scheduler, then the timers and the events that are due; devices raise
  interrupts, schedule events, and stop or wake the processors. The processors interpret one
  instruction after the other through two tables of functions; the ARM9 has a system control
  coprocessor with a protection unit, an instruction cache and tightly coupled memories.

  \<^bold>\<open>Console and devices.\<close>
    \<^item> \<open>Prelude\<close>: words of 8 to 64 bits, shifts and bit tests as the source writes them, list lemmas.
    \<^item> \<open>Fifo\<close> (\<^verbatim>\<open>FIFO.h\<close>): \<^verbatim>\<open>FIFO\<close>, \<^verbatim>\<open>DynamicFIFO\<close> and \<^verbatim>\<open>RingBuffer\<close>; they refine a bounded list
      through a locale of queues, interpreted on the model.
    \<^item> \<open>Crc32\<close> (\<^verbatim>\<open>CRC32.cpp\<close>): the table driven checksum equals the bit serial one.
    \<^item> \<open>PowerOf2\<close> (\<^verbatim>\<open>Utils.cpp\<close>): padding of a buffer; the doubling loop as a partial function, with
      the lengths for which it returns and those for which it does not.
    \<^item> \<open>Nds\<close>: the record of the console, interrupt lines, stop flags, keys and lid (\<^verbatim>\<open>NDS.cpp\<close>).
      \<open>Interrupts\<close>: the interrupt line of a processor follows its registers.
    \<^item> \<open>Sched\<close>: \<^verbatim>\<open>NDS::ScheduleEvent\<close>, \<^verbatim>\<open>CancelEvent\<close>, \<^verbatim>\<open>NextTarget\<close>, \<^verbatim>\<open>RunSystem\<close>. \<open>System\<close>: the
      scheduler with the clock as one of its devices; every due event is run.
    \<^item> \<open>Timers\<close>, \<open>MathUnit\<close>, \<open>Ipc\<close>: the timers, the divider and square root unit, IPCSYNC and the IPC
      queues of \<^verbatim>\<open>NDS.cpp\<close>. The queues refine a pair of bounded lists with status flags.
    \<^item> \<open>Bcd\<close>, \<open>Rtc\<close>, \<open>RtcCalendar\<close>, \<open>RtcSerial\<close> (\<^verbatim>\<open>RTC.cpp\<close>): the clock in decimal digits, which counts
      like a calendar, its alarms and its serial interface bit by bit.

  \<^bold>\<open>Processors.\<close>
    \<^item> \<open>Arm\<close> (\<^verbatim>\<open>ARM.h\<close>, \<^verbatim>\<open>ARM.cpp\<close>): the record \<open>arm\<close> of a processor, with the console in its field
      \<open>con\<close>; flags, banked registers, jumps and the refill of the pipeline, exceptions, cycles. A
      virtual method is a case distinction on \<open>Num\<close>. \<open>ArmModes\<close>: entering an exception and returning
      from it restores the registers; jumps.
    \<^item> \<open>ArmAlu\<close>, \<open>ArmMul\<close>, \<open>ArmThumb\<close> (\<^verbatim>\<open>ARMInterpreter_ALU.cpp\<close>): data processing. \<open>ArmAluSpec\<close> and
      \<open>ArmMulSpec\<close>: results, flags and shifter carries equal arithmetic on the integers.
    \<^item> \<open>ArmBranch\<close> (\<^verbatim>\<open>ARMInterpreter_Branch.cpp\<close>, \<^verbatim>\<open>ARMInterpreter.cpp\<close>): branches, status registers,
      system calls.
    \<^item> \<open>Cp15\<close> (\<^verbatim>\<open>CP15.cpp\<close>): the coprocessor registers, the protection regions and the maps computed
      from them, the instruction cache, the tightly coupled memories, and the data accesses of both
      processors. \<open>Cp15Spec\<close>: the maps give each page the rights of its region of highest priority;
      what a register reads back.
    \<^item> \<open>ArmLoadStore\<close> (\<^verbatim>\<open>ARMInterpreter_LoadStore.cpp\<close>): loads and stores, single and multiple.
      \<open>ArmLoadStoreSpec\<close>: the memories as instances of one locale of cells, the round trip of PUSH
      and POP, tightly coupled memories, aborted loads.
    \<^item> \<open>ArmTable\<close> (\<^verbatim>\<open>ARM_InstrTable.h\<close>): both tables, row by row. \<open>ArmDecode\<close>: the entries against a
      decoder written from the instruction encodings.
    \<^item> \<open>ArmExecute\<close>: \<^verbatim>\<open>ARMv5::Execute\<close> and \<^verbatim>\<open>ARMv4::Execute\<close>. \<open>ArmExecuteSpec\<close>: the loop returns
      whenever every turn advances the time stamp, with the branch to itself as an instance.

  \<^bold>\<open>DMA and cartridges.\<close>
    \<^item> \<open>Dma\<close> (\<^verbatim>\<open>DMA.cpp\<close>, \<^verbatim>\<open>DMA_Timings.cpp\<close>, \<^verbatim>\<open>NDS.cpp\<close>): the eight channels, their registers and timing.
      The state \<open>dsys\<close> has the channels, the console in \<open>dcon\<close> and what is on the buses in \<open>dmem\<close>.
      \<open>DmaSpec\<close>: an immediate transfer is a copy of the units in order; the unit timings are positive.
      \<open>DmaStop\<close>: a processor is stopped exactly as long as one of its channels runs.
    \<^item> \<open>Key1\<close> (\<^verbatim>\<open>NDSCart.cpp\<close>): the ciphers KEY1 and KEY2 and the secure area.
    \<^item> \<open>Cart\<close> (\<^verbatim>\<open>NDSCart.h\<close>, \<^verbatim>\<open>NDSCart.cpp\<close>, \<^verbatim>\<open>NDS_Header.h\<close>, \<^verbatim>\<open>frontend/qt_sdl/SaveManager.cpp\<close>): the
      classes of cartridges, one record with the class in \<open>cart_type\<close>, and the buffers of the save file.
      \<open>CartSlot\<close>: the slot with its registers in \<^verbatim>\<open>NDS.cpp\<close>, as what is on the buses of the DMA system.
    \<^item> \<open>CartSpec\<close>, \<open>CartChips\<close>, \<open>CartBus\<close>: a locale for the save memory chips, with the chips of the
      ROM database as its instances; what was written through the registers is read back.
      \<open>CartMirror\<close>, \<open>SaveFile\<close>: the buffer of the save file follows the save memory; writes that are not
      enabled do nothing.
    \<^item> \<open>CartTransfer\<close>, \<open>CartRead\<close>, \<open>CartBounds\<close>: a read command, from the control register over the events
      of the transfer to the last word, gives the words of the image; the bytes it writes.
    \<^item> \<open>RomSearch\<close>, \<open>RomList\<close> (\<^verbatim>\<open>ROMList.cpp\<close>): the database, entry by entry, and its binary search.
      \<open>CartLoad\<close>: \<^verbatim>\<open>ParseROM\<close> makes well formed cartridges.

  \<^bold>\<open>The second slot, firmware, SPI and cheats.\<close>
    \<^item> \<open>Gba\<close> (\<^verbatim>\<open>GBACart.cpp\<close>, \<^verbatim>\<open>GBACartMotionPak.cpp\<close>): games, solar sensor, memory expansion, rumble pak,
      motion paks, guitar grip, and the slot on the buses. \<open>GbaSpec\<close>: flash commands over the bus; \<open>GbaSolar\<close>:
      the sensor as a game reads it.
    \<^item> \<open>Buffers\<close>: byte buffers and their copies, as the cartridges and the firmware use them. \<open>Crc16\<close>
      (\<^verbatim>\<open>SPI.cpp\<close>): the checksum of the firmware equals the bit serial CRC-16.
    \<^item> \<open>Firmware\<close> (\<^verbatim>\<open>SPI_Firmware.cpp\<close>): the layout of the image, the generated image, loading, checksums.
      \<open>FirmwareSpec\<close>: the checksums are right after an update; a file that is too long overruns the buffer.
    \<^item> \<open>Spi\<close> (\<^verbatim>\<open>SPI.cpp\<close>, \<^verbatim>\<open>DSi_SPI_TSC.cpp\<close>): the firmware chip, the power manager, the touch screen
      controllers of the DS and of the DSi, the host with its registers. \<open>SpiSpec\<close>: the firmware after a reset,
      and a touch on the screen as a game reads it.
    \<^item> \<open>AREngine\<close> (\<^verbatim>\<open>AREngine.cpp\<close>): the interpreter of cheat codes; it ends on every well formed code.
      \<open>ARCodeFile\<close> (\<^verbatim>\<open>ARCodeFile.cpp\<close>): the list of cheats and its file; what was saved is loaded again.

  \<^bold>\<open>Conventions.\<close> Fields and functions keep the names of the source. Registers and counters are
  words of the width of the C++ type, so that they wrap around as there. A function that reads and
  changes the state returns a pair. An access that ends in a data abort returns \<open>None\<close>.

  \<^bold>\<open>Parameters.\<close> The record \<open>env\<close> has the functions a processor calls in the rest of the console: the
  bus reads and writes behind the address decoder, the memory region of an address, the tables of
  memory timings, the hooks of the recompiler, the hook of the Kingdom Hearts plug-in on a jump
  (\<^verbatim>\<open>MonitorARM9Jump\<close>), the cheat engine, the debug output and the soft reset. They act on the console and on a memory of any type; they do not
  change the registers of the processor that calls them, except \<open>Halted\<close> and the interrupt line, which are
  fields of the console. \<open>ub_shl\<close> and \<open>indet\<close> stand for what C++ leaves undefined: a shift by 32
  and more, and a local variable that is read before it is written. \<open>flat_env\<close> is a concrete
  instance with a byte memory, in which the witnesses compute. The scheduler has the event functions
  of the devices that are not modelled as a parameter. \<open>dma_env\<close> has the bus and the region timings for the
  DMA channels, \<open>cart_env\<close> the key table of the BIOS and the methods of the cartridges with an SD card,
  \<open>gba_env\<close> the host behind the cartridges of the second slot, \<open>spi_env\<close> the microphone, the end of the emulation and the file of the firmware, \<open>cheat_bus\<close> the bus of
  the ARM7 that the cheats read and write.

  \<^bold>\<open>Bounds and fuel.\<close> \<open>JumpTo\<close> and \<open>PrefetchAbort\<close> call each other; the model gives them two levels,
  and \<open>JumpTo_fuel_enough\<close> shows that any greater number has the same result. The loops that may run for ever,
  \<open>execute_loop\<close>, the doubling loop of \<open>PowerOf2\<close> and the skipping of parameters in \<open>AREngine\<close>, are partial functions whose value is \<open>None\<close> when
  they do not return.

  \<^bold>\<open>Not modelled.\<close> The recompiler (its effect is generated machine code), the debugger stub, save
  states, graphics, sound, wireless, cartridges with an SD card, the DSi hardware beyond its second
  interrupt registers and its touch screen controller, the address decoder of the bus, file systems, the
  front end and third-party code. The lines of a cheat file are modelled as \<^verbatim>\<open>sscanf\<close> reads them. Log output is left out. The manifest lists each of these parts.
\<close>

end
